(* ===== verification/Prelude.thy ===== *)
theory Prelude
  imports
    Complex_Main
    "HOL-Library.Word"
    "HOL-Library.Char_ord"
    "HOL-Library.List_Lexorder"
    "HOL-Library.Product_Lexorder"
begin

text \<open>
  Shared vocabulary of the development.

  \<^item> Rust's \<open>Result<T, E>\<close> is the sum \<open>'e + 'a\<close>; \<open>Ok\<close> and \<open>Err\<close> abbreviate its
    injections and \<open>and_then\<close> is the \<open>?\<close> operator. \<open>check_all\<close> is a \<open>for\<close> loop whose body
    ends in \<open>?\<close>, \<open>traverse\<close> a \<open>map(..).collect::<Result<Vec<_>, _>>()\<close>.
  \<^item> Code with effects is a function from a world to a result and the next world
    (\<open>io_bind\<close> and its companions); \<open>hoare\<close> is the matching triple, with one
    postcondition for success and one for failure, and the collection \<open>hoare_rules\<close>.
  \<^item> A \<open>BTreeMap<String, V>\<close> is an association list that \<open>bt_insert\<close> keeps sorted.
  \<^item> \<open>codec\<close> is the interface of every encoder/decoder pair of the program.
\<close>

section \<open>Results\<close>

abbreviation Ok :: "'a \<Rightarrow> 'e + 'a" where "Ok \<equiv> Inr"
abbreviation Err :: "'e \<Rightarrow> 'e + 'a" where "Err \<equiv> Inl"

definition and_then :: "'e + 'a \<Rightarrow> ('a \<Rightarrow> 'e + 'b) \<Rightarrow> 'e + 'b" where
  "and_then r f = (case r of Inl e \<Rightarrow> Inl e | Inr x \<Rightarrow> f x)"

definition map_err :: "('e \<Rightarrow> 'd) \<Rightarrow> 'e + 'a \<Rightarrow> 'd + 'a" where
  "map_err g r = (case r of Inl e \<Rightarrow> Inl (g e) | Inr x \<Rightarrow> Inr x)"

definition map_ok :: "('a \<Rightarrow> 'b) \<Rightarrow> 'e + 'a \<Rightarrow> 'e + 'b" where
  "map_ok g r = (case r of Inl e \<Rightarrow> Inl e | Inr x \<Rightarrow> Inr (g x))"

definition ok_or :: "'e \<Rightarrow> 'a option \<Rightarrow> 'e + 'a" where
  "ok_or e x = (case x of None \<Rightarrow> Inl e | Some y \<Rightarrow> Inr y)"

definition ensure :: "bool \<Rightarrow> 'e \<Rightarrow> 'e + unit" where
  "ensure b e = (if b then Inr () else Inl e)"

definition is_ok :: "'e + 'a \<Rightarrow> bool" where
  "is_ok r = (case r of Inl _ \<Rightarrow> False | Inr _ \<Rightarrow> True)"

lemma and_then_simps [simp]:
  "and_then (Inl e) f = Inl e"
  "and_then (Inr x) f = f x"
  by (simp_all add: and_then_def)

lemma and_then_eq_Inr [simp]: "and_then r f = Inr y \<longleftrightarrow> (\<exists>x. r = Inr x \<and> f x = Inr y)"
  by (cases r) auto

lemma and_then_eq_Inl: "and_then r f = Inl e \<longleftrightarrow> r = Inl e \<or> (\<exists>x. r = Inr x \<and> f x = Inl e)"
  by (cases r) auto

lemma map_err_simps [simp]:
  "map_err g (Inl e) = Inl (g e)"
  "map_err g (Inr x) = Inr x"
  by (simp_all add: map_err_def)

lemma map_err_eq_Inr [simp]: "map_err g r = Inr x \<longleftrightarrow> r = Inr x"
  by (cases r) auto

lemma map_ok_simps [simp]:
  "map_ok g (Inl e) = Inl e"
  "map_ok g (Inr x) = Inr (g x)"
  by (simp_all add: map_ok_def)

lemma map_ok_eq_Inr [simp]: "map_ok g r = Inr y \<longleftrightarrow> (\<exists>x. r = Inr x \<and> y = g x)"
  by (cases r) auto

lemma ok_or_simps [simp]:
  "ok_or e None = Inl e"
  "ok_or e (Some x) = Inr x"
  by (simp_all add: ok_or_def)

lemma ok_or_eq_Inr [simp]: "ok_or e x = Inr y \<longleftrightarrow> x = Some y"
  by (cases x) auto

lemma ensure_simps [simp]:
  "ensure True e = Inr ()"
  "ensure False e = Inl e"
  by (simp_all add: ensure_def)

lemma ensure_eq_Inr [simp]: "ensure b e = Inr u \<longleftrightarrow> b"
  by (cases b) auto

lemma ensure_eq_Inl [simp]: "ensure b e = Inl e' \<longleftrightarrow> \<not> b \<and> e' = e"
  by (cases b) auto

lemma is_ok_simps [simp]:
  "is_ok (Inl e) = False"
  "is_ok (Inr x) = True"
  by (simp_all add: is_ok_def)

lemma is_ok_iff: "is_ok r \<longleftrightarrow> (\<exists>x. r = Inr x)"
  by (cases r) auto

fun check_all :: "('a \<Rightarrow> 'e + unit) \<Rightarrow> 'a list \<Rightarrow> 'e + unit" where
  "check_all f [] = Inr ()"
| "check_all f (x # xs) = and_then (f x) (\<lambda>_. check_all f xs)"

lemma check_all_eq_Inr [simp]: "check_all f xs = Inr u \<longleftrightarrow> (\<forall>x \<in> set xs. f x = Inr ())"
  by (induction xs) auto

fun traverse :: "('a \<Rightarrow> 'e + 'b) \<Rightarrow> 'a list \<Rightarrow> 'e + 'b list" where
  "traverse f [] = Inr []"
| "traverse f (x # xs) = and_then (f x) (\<lambda>y. map_ok ((#) y) (traverse f xs))"

lemma traverse_eq_Inr:
  "traverse f xs = Inr ys \<longleftrightarrow> list_all2 (\<lambda>x y. f x = Inr y) xs ys"
  by (induction xs arbitrary: ys) (auto simp: list_all2_Cons1)

lemma traverse_total: "(\<And>x. x \<in> set xs \<Longrightarrow> f x = Inr (g x)) \<Longrightarrow> traverse f xs = Inr (map g xs)"
  by (induction xs) auto

section \<open>Options\<close>

definition is_none_or :: "('a \<Rightarrow> bool) \<Rightarrow> 'a option \<Rightarrow> bool" where
  "is_none_or p x = (case x of None \<Rightarrow> True | Some y \<Rightarrow> p y)"

definition is_some_and :: "('a \<Rightarrow> bool) \<Rightarrow> 'a option \<Rightarrow> bool" where
  "is_some_and p x = (case x of None \<Rightarrow> False | Some y \<Rightarrow> p y)"

lemma is_none_or_simps [simp]:
  "is_none_or p None = True"
  "is_none_or p (Some y) = p y"
  by (simp_all add: is_none_or_def)

lemma is_some_and_simps [simp]:
  "is_some_and p None = False"
  "is_some_and p (Some y) = p y"
  by (simp_all add: is_some_and_def)

section \<open>Effects\<close>

type_synonym ('w, 'e, 'a) io = "'w \<Rightarrow> ('e + 'a) \<times> 'w"

definition io_ret :: "'a \<Rightarrow> ('w, 'e, 'a) io" where
  "io_ret x = (\<lambda>w. (Inr x, w))"

definition io_err :: "'e \<Rightarrow> ('w, 'e, 'a) io" where
  "io_err e = (\<lambda>w. (Inl e, w))"

definition io_bind :: "('w, 'e, 'a) io \<Rightarrow> ('a \<Rightarrow> ('w, 'e, 'b) io) \<Rightarrow> ('w, 'e, 'b) io" where
  "io_bind m f = (\<lambda>w. case m w of (Inl e, w') \<Rightarrow> (Inl e, w') | (Inr x, w') \<Rightarrow> f x w')"

text \<open>A pure result inside effectful code, and an error converted by \<open>map_err\<close>/\<open>From\<close>.\<close>

definition io_lift :: "'e + 'a \<Rightarrow> ('w, 'e, 'a) io" where
  "io_lift r = (\<lambda>w. (r, w))"

definition io_map_err :: "('e \<Rightarrow> 'd) \<Rightarrow> ('w, 'e, 'a) io \<Rightarrow> ('w, 'd, 'a) io" where
  "io_map_err g m = (\<lambda>w. case m w of (r, w') \<Rightarrow> (map_err g r, w'))"

text \<open>A call whose \<open>Result\<close> is inspected instead of propagated (\<open>match\<close>, \<open>.ok()\<close>, \<open>let _ =\<close>).\<close>

definition io_try :: "('w, 'e, 'a) io \<Rightarrow> ('w, 'd, 'e + 'a) io" where
  "io_try m = (\<lambda>w. case m w of (r, w') \<Rightarrow> (Inr r, w'))"

fun io_traverse :: "('a \<Rightarrow> ('w, 'e, 'b) io) \<Rightarrow> 'a list \<Rightarrow> ('w, 'e, 'b list) io" where
  "io_traverse f [] = io_ret []"
| "io_traverse f (x # xs) =
     io_bind (f x) (\<lambda>y. io_bind (io_traverse f xs) (\<lambda>ys. io_ret (y # ys)))"

fun io_for :: "('a \<Rightarrow> ('w, 'e, unit) io) \<Rightarrow> 'a list \<Rightarrow> ('w, 'e, unit) io" where
  "io_for f [] = io_ret ()"
| "io_for f (x # xs) = io_bind (f x) (\<lambda>_. io_for f xs)"

lemmas io_defs = io_ret_def io_err_def io_bind_def io_lift_def io_map_err_def io_try_def

lemma io_bind_eq_Inr:
  "io_bind m f w = (Inr y, w'') \<longleftrightarrow> (\<exists>x w'. m w = (Inr x, w') \<and> f x w' = (Inr y, w''))"
  by (auto simp: io_bind_def split: prod.splits sum.splits)

lemma io_bindE:
  assumes "io_bind m f w = (Inr y, w'')"
  obtains x w' where "m w = (Inr x, w')" "f x w' = (Inr y, w'')"
  using assms by (auto simp: io_bind_eq_Inr)

lemma io_bind_errE:
  assumes "io_bind m f w = (Inl e, w'')"
  obtains (first) "m w = (Inl e, w'')"
  | (second) x w' where "m w = (Inr x, w')" "f x w' = (Inl e, w'')"
  using assms by (auto simp: io_bind_def split: prod.splits sum.splits)

lemma io_ret_eq [simp]: "io_ret x w = (r, w') \<longleftrightarrow> r = Inr x \<and> w' = w"
  by (auto simp: io_ret_def)

lemma io_err_eq [simp]: "io_err e w = (r, w') \<longleftrightarrow> r = Inl e \<and> w' = w"
  by (auto simp: io_err_def)

lemma io_lift_eq [simp]: "io_lift x w = (r, w') \<longleftrightarrow> x = r \<and> w' = w"
  by (auto simp: io_lift_def)

lemma io_map_err_eq_Inr [simp]: "io_map_err g m w = (Inr x, w') \<longleftrightarrow> m w = (Inr x, w')"
  by (auto simp: io_map_err_def split: prod.splits)

lemma io_bind_Inr: "m w = (Inr x, w') \<Longrightarrow> io_bind m f w = f x w'"
  by (simp add: io_bind_def)

lemma io_bind_Inl: "m w = (Inl e, w') \<Longrightarrow> io_bind m f w = (Inl e, w')"
  by (simp add: io_bind_def)

lemma io_ret_bind [simp]: "io_bind (io_ret x) f = f x"
  by (simp add: io_defs fun_eq_iff)

lemma io_err_bind [simp]: "io_bind (io_err e) f = io_err e"
  by (simp add: io_defs fun_eq_iff)

lemma io_lift_simps [simp]:
  "io_lift (Inr x) = io_ret x"
  "io_lift (Inl e) = io_err e"
  by (simp_all add: io_defs fun_eq_iff)

lemma io_bind_assoc: "io_bind (io_bind m f) g = io_bind m (\<lambda>x. io_bind (f x) g)"
  by (auto simp: io_bind_def fun_eq_iff split: prod.splits sum.splits)

section \<open>Triples\<close>

definition hoare ::
  "('w \<Rightarrow> bool) \<Rightarrow> ('w, 'e, 'a) io \<Rightarrow> ('a \<Rightarrow> 'w \<Rightarrow> bool) \<Rightarrow> ('e \<Rightarrow> 'w \<Rightarrow> bool) \<Rightarrow> bool" where
  "hoare P m Q E \<longleftrightarrow>
     (\<forall>w. P w \<longrightarrow> (case m w of (Inr x, w') \<Rightarrow> Q x w' | (Inl e, w') \<Rightarrow> E e w'))"

named_theorems hoare_rules \<open>composition rules for triples\<close>

lemma hoareI:
  assumes "\<And>w x w'. P w \<Longrightarrow> m w = (Inr x, w') \<Longrightarrow> Q x w'"
    and "\<And>w e w'. P w \<Longrightarrow> m w = (Inl e, w') \<Longrightarrow> E e w'"
  shows "hoare P m Q E"
  using assms by (auto simp: hoare_def split: prod.splits sum.splits)

lemma hoare_okD: "hoare P m Q E \<Longrightarrow> P w \<Longrightarrow> m w = (Inr x, w') \<Longrightarrow> Q x w'"
  by (auto simp: hoare_def)

lemma hoare_errD: "hoare P m Q E \<Longrightarrow> P w \<Longrightarrow> m w = (Inl e, w') \<Longrightarrow> E e w'"
  by (auto simp: hoare_def)

lemma hoare_bind [hoare_rules]:
  assumes "hoare P m R E" and "\<And>x. hoare (R x) (f x) Q E"
  shows "hoare P (io_bind m f) Q E"
proof (rule hoareI)
  fix w x w'
  assume "P w" and "io_bind m f w = (Inr x, w')"
  then show "Q x w'"
    by (auto simp: io_bind_def split: prod.splits sum.splits
        dest: hoare_okD [OF assms(1)] hoare_okD [OF assms(2)])
next
  fix w e w'
  assume "P w" and "io_bind m f w = (Inl e, w')"
  then show "E e w'"
    by (auto simp: io_bind_def split: prod.splits sum.splits
        dest: hoare_okD [OF assms(1)] hoare_errD [OF assms(1)] hoare_errD [OF assms(2)])
qed

lemma hoare_ret [hoare_rules]: "(\<And>w. P w \<Longrightarrow> Q x w) \<Longrightarrow> hoare P (io_ret x) Q E"
  by (simp add: hoare_def io_ret_def)

lemma hoare_err [hoare_rules]: "(\<And>w. P w \<Longrightarrow> E e w) \<Longrightarrow> hoare P (io_err e) Q E"
  by (simp add: hoare_def io_err_def)

lemma hoare_lift [hoare_rules]:
  "(\<And>w x. P w \<Longrightarrow> r = Inr x \<Longrightarrow> Q x w) \<Longrightarrow> (\<And>w e. P w \<Longrightarrow> r = Inl e \<Longrightarrow> E e w) \<Longrightarrow>
   hoare P (io_lift r) Q E"
  by (auto simp: hoare_def io_lift_def split: sum.splits)

lemma hoare_try [hoare_rules]:
  "hoare P m (\<lambda>x. Q (Inr x)) (\<lambda>e. Q (Inl e)) \<Longrightarrow> hoare P (io_try m) Q E"
  unfolding hoare_def io_try_def
proof (intro allI impI)
  fix w
  assume h: "\<forall>w. P w \<longrightarrow> (case m w of (Inl e, w') \<Rightarrow> Q (Inl e) w' | (Inr x, w') \<Rightarrow> Q (Inr x) w')"
    and w: "P w"
  obtain r w' where r: "m w = (r, w')" by (cases "m w")
  note h [rule_format, OF w]
  then have "Q r w'" by (cases r) (simp_all add: r)
  then show "case (case m w of (r, w') \<Rightarrow> (Inr r, w')) of (Inl e, w') \<Rightarrow> E e w' | (Inr x, w') \<Rightarrow> Q x w'"
    by (simp add: r)
qed

lemma hoare_map_err [hoare_rules]:
  "hoare P m Q (\<lambda>e. E (g e)) \<Longrightarrow> hoare P (io_map_err g m) Q E"
  by (auto simp: hoare_def io_map_err_def map_err_def split: prod.splits sum.splits)

lemma hoare_if [hoare_rules]:
  "(b \<Longrightarrow> hoare P m Q E) \<Longrightarrow> (\<not> b \<Longrightarrow> hoare P n Q E) \<Longrightarrow> hoare P (if b then m else n) Q E"
  by simp

lemma hoare_case_option [hoare_rules]:
  "(x = None \<Longrightarrow> hoare P m Q E) \<Longrightarrow> (\<And>y. x = Some y \<Longrightarrow> hoare P (f y) Q E) \<Longrightarrow>
   hoare P (case x of None \<Rightarrow> m | Some y \<Rightarrow> f y) Q E"
  by (cases x) auto

lemma hoare_case_sum [hoare_rules]:
  "(\<And>e. x = Inl e \<Longrightarrow> hoare P (f e) Q E) \<Longrightarrow> (\<And>y. x = Inr y \<Longrightarrow> hoare P (g y) Q E) \<Longrightarrow>
   hoare P (case x of Inl e \<Rightarrow> f e | Inr y \<Rightarrow> g y) Q E"
  by (cases x) auto

lemma hoare_case_prod [hoare_rules]:
  "(\<And>a b. x = (a, b) \<Longrightarrow> hoare P (f a b) Q E) \<Longrightarrow> hoare P (case x of (a, b) \<Rightarrow> f a b) Q E"
  by (cases x) auto

lemma hoare_conseq:
  "hoare P' m Q' E' \<Longrightarrow> (\<And>w. P w \<Longrightarrow> P' w) \<Longrightarrow> (\<And>x w. Q' x w \<Longrightarrow> Q x w) \<Longrightarrow>
   (\<And>e w. E' e w \<Longrightarrow> E e w) \<Longrightarrow> hoare P m Q E"
  by (fastforce simp: hoare_def split: prod.splits sum.splits)

text \<open>An invariant kept whatever the outcome.\<close>

definition keeps :: "('w \<Rightarrow> bool) \<Rightarrow> ('w, 'e, 'a) io \<Rightarrow> bool" where
  "keeps I m \<longleftrightarrow> (\<forall>w. I w \<longrightarrow> I (snd (m w)))"

named_theorems keeps_rules \<open>composition rules for invariants of effectful code\<close>

lemma keepsD: "keeps I m \<Longrightarrow> I w \<Longrightarrow> m w = (r, w') \<Longrightarrow> I w'"
  by (auto simp: keeps_def dest: spec [of _ w])

lemma keeps_hoare: "keeps I m \<longleftrightarrow> hoare I m (\<lambda>_. I) (\<lambda>_. I)"
proof
  assume "keeps I m"
  then show "hoare I m (\<lambda>_. I) (\<lambda>_. I)"
    by (auto intro!: hoareI dest: keepsD)
next
  assume h: "hoare I m (\<lambda>_. I) (\<lambda>_. I)"
  show "keeps I m"
    unfolding keeps_def
  proof (intro allI impI)
    fix w
    assume w: "I w"
    obtain r w' where r: "m w = (r, w')" by (cases "m w")
    then have "I w'"
      using hoare_okD [OF h w] hoare_errD [OF h w] by (cases r) simp_all
    with r show "I (snd (m w))" by simp
  qed
qed

lemma keeps_ret [keeps_rules]: "keeps I (io_ret x)"
  by (simp add: keeps_def io_ret_def)

lemma keeps_err [keeps_rules]: "keeps I (io_err e)"
  by (simp add: keeps_def io_err_def)

lemma keeps_lift [keeps_rules]: "keeps I (io_lift r)"
  by (simp add: keeps_def io_lift_def)

lemma keeps_bind [keeps_rules]:
  assumes m: "keeps I m" and f: "\<And>x. keeps I (f x)"
  shows "keeps I (io_bind m f)"
  unfolding keeps_def
proof (intro allI impI)
  fix w
  assume w: "I w"
  obtain r w' where r: "m w = (r, w')" by (cases "m w")
  with m w have w': "I w'" by (rule keepsD)
  show "I (snd (io_bind m f w))"
  proof (cases r)
    case (Inl e)
    with r w' show ?thesis by (simp add: io_bind_def)
  next
    case (Inr x)
    have "I (snd (f x w'))" using f [of x] w' by (simp add: keeps_def)
    with r Inr show ?thesis by (simp add: io_bind_def)
  qed
qed

lemma keeps_try [keeps_rules]: "keeps I m \<Longrightarrow> keeps I (io_try m)"
  by (auto simp: keeps_def io_try_def split: prod.splits)

lemma keeps_map_err [keeps_rules]: "keeps I m \<Longrightarrow> keeps I (io_map_err g m)"
  by (auto simp: keeps_def io_map_err_def split: prod.splits)

lemma keeps_if [keeps_rules]: "keeps I m \<Longrightarrow> keeps I n \<Longrightarrow> keeps I (if b then m else n)"
  by simp

lemma keeps_case_option [keeps_rules]:
  "keeps I m \<Longrightarrow> (\<And>y. keeps I (f y)) \<Longrightarrow> keeps I (case x of None \<Rightarrow> m | Some y \<Rightarrow> f y)"
  by (cases x) auto

lemma keeps_case_sum [keeps_rules]:
  "(\<And>e. keeps I (f e)) \<Longrightarrow> (\<And>y. keeps I (g y)) \<Longrightarrow>
   keeps I (case x of Inl e \<Rightarrow> f e | Inr y \<Rightarrow> g y)"
  by (cases x) auto

lemma keeps_case_prod [keeps_rules]:
  "(\<And>a b. keeps I (f a b)) \<Longrightarrow> keeps I (case x of (a, b) \<Rightarrow> f a b)"
  by (cases x) auto

lemma keeps_case_bool [keeps_rules]:
  "keeps I m \<Longrightarrow> keeps I n \<Longrightarrow> keeps I (case b of True \<Rightarrow> m | False \<Rightarrow> n)"
  by (cases b) auto

lemma keeps_traverse [keeps_rules]:
  "(\<And>x. x \<in> set xs \<Longrightarrow> keeps I (f x)) \<Longrightarrow> keeps I (io_traverse f xs)"
  by (induction xs) (auto intro!: keeps_rules)

lemma keeps_for [keeps_rules]: "(\<And>x. x \<in> set xs \<Longrightarrow> keeps I (f x)) \<Longrightarrow> keeps I (io_for f xs)"
  by (induction xs) (auto intro!: keeps_rules)

section \<open>Ordered maps\<close>

text \<open>\<open>BTreeMap\<close> iterates in key order; two maps are equal when their entry lists are.\<close>

type_synonym ('k, 'v) btree = "('k \<times> 'v) list"

fun bt_insert :: "'k::linorder \<Rightarrow> 'v \<Rightarrow> ('k, 'v) btree \<Rightarrow> ('k, 'v) btree" where
  "bt_insert k v [] = [(k, v)]"
| "bt_insert k v ((k', v') # m) =
     (if k < k' then (k, v) # (k', v') # m
      else if k = k' then (k, v) # m
      else (k', v') # bt_insert k v m)"

definition bt_remove :: "'k \<Rightarrow> ('k, 'v) btree \<Rightarrow> ('k, 'v) btree" where
  "bt_remove k m = filter (\<lambda>e. fst e \<noteq> k) m"

definition bt_wf :: "('k::linorder, 'v) btree \<Rightarrow> bool" where
  "bt_wf m \<longleftrightarrow> sorted_wrt (<) (map fst m)"

abbreviation bt_get :: "('k, 'v) btree \<Rightarrow> 'k \<Rightarrow> 'v option" where
  "bt_get m k \<equiv> map_of m k"

lemma bt_wf_Nil [simp]: "bt_wf []"
  by (simp add: bt_wf_def)

lemma fst_set_bt_insert: "fst ` set (bt_insert k v m) = insert k (fst ` set m)"
  by (induction k v m rule: bt_insert.induct) (auto split: if_splits)

lemma bt_wf_Cons: "bt_wf ((k, v) # m) \<longleftrightarrow> (\<forall>k' \<in> fst ` set m. k < k') \<and> bt_wf m"
  by (auto simp: bt_wf_def)

lemma bt_wf_insert [simp]: "bt_wf m \<Longrightarrow> bt_wf (bt_insert k v m)"
proof (induction k v m rule: bt_insert.induct)
  case (1 k v)
  then show ?case by (simp add: bt_wf_def)
next
  case (2 k v k' v' m)
  have "k < k' \<or> k = k' \<or> k' < k" by (rule less_linear)
  with 2 show ?case
    by (elim disjE) (auto simp: bt_wf_Cons fst_set_bt_insert dest: less_trans)
qed

lemma bt_wf_remove [simp]: "bt_wf m \<Longrightarrow> bt_wf (bt_remove k m)"
  by (induction m) (auto simp: bt_wf_def bt_remove_def)

lemma bt_wf_notin: "bt_wf ((k', v') # m) \<Longrightarrow> k < k' \<Longrightarrow> map_of m k = None"
  by (auto simp: bt_wf_def map_of_eq_None_iff)

lemma bt_get_insert [simp]: "bt_wf m \<Longrightarrow> bt_get (bt_insert k v m) = (bt_get m)(k \<mapsto> v)"
proof (induction m)
  case Nil
  show ?case by simp
next
  case (Cons e m)
  obtain k' v' where e: "e = (k', v')" by (cases e)
  from Cons.prems have wf: "bt_wf m" by (simp add: e bt_wf_def)
  show ?case
  proof (cases "k < k'")
    case True
    then show ?thesis by (auto simp: e)
  next
    case False
    with Cons.IH [OF wf] show ?thesis by (cases "k = k'") (simp_all add: e fun_eq_iff)
  qed
qed

lemma bt_get_remove [simp]: "bt_get (bt_remove k m) = (bt_get m)(k := None)"
  by (induction m) (auto simp: bt_remove_def fun_eq_iff)

section \<open>Codecs\<close>

text \<open>
  What the program relies on wherever it encodes a value to hand it out and decodes it when
  it comes back: decoding an encoded value that is in the encoder's domain gives that value.
\<close>

locale codec =
  fixes valid :: "'a \<Rightarrow> bool"
    and enc :: "'a \<Rightarrow> 'b"
    and dec :: "'b \<Rightarrow> 'e + 'a"
  assumes dec_enc: "valid x \<Longrightarrow> dec (enc x) = Inr x"
begin

lemma enc_inj: "valid x \<Longrightarrow> valid y \<Longrightarrow> enc x = enc y \<Longrightarrow> x = y"
  by (metis dec_enc sum.inject(2))

lemma enc_inj_on: "inj_on enc (Collect valid)"
  by (auto intro!: inj_onI dest: enc_inj)

lemma dec_traverse: "list_all valid xs \<Longrightarrow> traverse dec (map enc xs) = Inr xs"
  by (induction xs) (simp_all add: dec_enc)

end

text \<open>A decoder that is exact accepts nothing but what the encoder writes.\<close>

locale exact_codec = codec valid enc dec
  for valid :: "'a \<Rightarrow> bool" and enc :: "'a \<Rightarrow> 'b" and dec :: "'b \<Rightarrow> 'e + 'a" +
  assumes enc_dec: "dec y = Inr x \<Longrightarrow> valid x \<and> enc x = y"
begin

lemma dec_iff: "dec y = Inr x \<longleftrightarrow> valid x \<and> y = enc x"
  using dec_enc enc_dec by blast

lemma dec_inj: "dec y = Inr x \<Longrightarrow> dec z = Inr x \<Longrightarrow> y = z"
  by (simp add: dec_iff)

end

section \<open>Floating point\<close>

text \<open>
  The values of \<open>f64\<close> as the program uses them: it compares them and, for a bounding box, takes
  minima and maxima. A comparison with a NaN is false. (The two zeros are one value here: no
  code of the program tells them apart.)
\<close>

datatype f64 = Finite rat | PosInf | NegInf | NaN

fun f64_less :: "f64 \<Rightarrow> f64 \<Rightarrow> bool" where
  "f64_less NaN _ = False"
| "f64_less _ NaN = False"
| "f64_less (Finite a) (Finite b) = (a < b)"
| "f64_less NegInf NegInf = False"
| "f64_less NegInf _ = True"
| "f64_less (Finite a) PosInf = True"
| "f64_less _ _ = False"

definition f64_leq :: "f64 \<Rightarrow> f64 \<Rightarrow> bool" where
  "f64_leq a b \<longleftrightarrow> f64_less a b \<or> (a = b \<and> a \<noteq> NaN)"

text \<open>\<open>f64::min\<close> and \<open>f64::max\<close> return the other operand when one is a NaN.\<close>

definition f64_min :: "f64 \<Rightarrow> f64 \<Rightarrow> f64" where
  "f64_min a b = (if a = NaN then b else if b = NaN then a else if f64_less b a then b else a)"

definition f64_max :: "f64 \<Rightarrow> f64 \<Rightarrow> f64" where
  "f64_max a b = (if a = NaN then b else if b = NaN then a else if f64_less a b then b else a)"

end
