(* ===== verification/Rust_Text.thy ===== *)
theory Rust_Text
  imports Prelude
begin

text \<open>
  The string functions of Rust's standard library that the program calls, on the bytes of a
  \<open>str\<close> (\<open>len\<close>, slicing, comparison and hashing all work on bytes). A string literal stands for
  its UTF-8 bytes, so \<open>length\<close> is \<open>str::len\<close> and the list order is \<open>Ord for str\<close>.
\<close>

section \<open>Searching and splitting\<close>

fun strip_prefix :: "string \<Rightarrow> string \<Rightarrow> string option" where
  "strip_prefix [] s = Some s"
| "strip_prefix (p # ps) [] = None"
| "strip_prefix (p # ps) (c # cs) = (if p = c then strip_prefix ps cs else None)"

definition starts_with :: "string \<Rightarrow> string \<Rightarrow> bool" where
  "starts_with p s = (strip_prefix p s \<noteq> None)"

definition strip_suffix :: "string \<Rightarrow> string \<Rightarrow> string option" where
  "strip_suffix p s = map_option rev (strip_prefix (rev p) (rev s))"

definition ends_with :: "string \<Rightarrow> string \<Rightarrow> bool" where
  "ends_with p s = (strip_suffix p s \<noteq> None)"

fun split_once :: "char \<Rightarrow> string \<Rightarrow> (string \<times> string) option" where
  "split_once d [] = None"
| "split_once d (c # cs) =
     (if c = d then Some ([], cs) else map_option (\<lambda>(a, b). (c # a, b)) (split_once d cs))"

fun split_on :: "char \<Rightarrow> string \<Rightarrow> string list" where
  "split_on d [] = [[]]"
| "split_on d (c # cs) =
     (if c = d then [] # split_on d cs
      else case split_on d cs of [] \<Rightarrow> [[c]] | s # ss \<Rightarrow> (c # s) # ss)"

fun join_with :: "string \<Rightarrow> string list \<Rightarrow> string" where
  "join_with sep [] = []"
| "join_with sep [s] = s"
| "join_with sep (s # t # ss) = s @ sep @ join_with sep (t # ss)"

fun contains_str :: "string \<Rightarrow> string \<Rightarrow> bool" where
  "contains_str p [] = (p = [])"
| "contains_str p (c # cs) = (starts_with p (c # cs) \<or> contains_str p cs)"

lemma strip_prefix_append [simp]: "strip_prefix p (p @ s) = Some s"
  by (induction p) auto

lemma strip_prefix_eq_Some: "strip_prefix p s = Some t \<longleftrightarrow> s = p @ t"
proof (induction p s rule: strip_prefix.induct)
  case (3 p ps c cs)
  then show ?case by (cases "p = c") auto
qed auto

lemma starts_with_iff: "starts_with p s \<longleftrightarrow> (\<exists>t. s = p @ t)"
  by (auto simp: starts_with_def not_None_eq strip_prefix_eq_Some)

lemma strip_suffix_eq_Some: "strip_suffix p s = Some t \<longleftrightarrow> s = t @ p"
proof -
  have "strip_suffix p s = Some t \<longleftrightarrow> strip_prefix (rev p) (rev s) = Some (rev t)"
    by (auto simp: strip_suffix_def)
  also have "\<dots> \<longleftrightarrow> rev s = rev (t @ p)"
    by (simp add: strip_prefix_eq_Some)
  also have "\<dots> \<longleftrightarrow> s = t @ p"
    by (simp only: rev_is_rev_conv)
  finally show ?thesis .
qed

lemma split_once_eq_Some: "split_once d s = Some (a, b) \<longleftrightarrow> s = a @ d # b \<and> d \<notin> set a"
proof (induction s arbitrary: a)
  case Nil
  then show ?case by simp
next
  case (Cons c s)
  show ?case
  proof (cases "c = d")
    case True
    then show ?thesis by (cases a) auto
  next
    case False
    have "split_once d (c # s) = Some (a, b) \<longleftrightarrow> (\<exists>a'. a = c # a' \<and> split_once d s = Some (a', b))"
      using False by auto
    also have "\<dots> \<longleftrightarrow> c # s = a @ d # b \<and> d \<notin> set a"
      using False by (cases a) (auto simp: Cons.IH)
    finally show ?thesis .
  qed
qed

lemma split_once_append [simp]: "d \<notin> set a \<Longrightarrow> split_once d (a @ d # b) = Some (a, b)"
  by (simp add: split_once_eq_Some)

lemma split_once_eq_None: "split_once d s = None \<longleftrightarrow> d \<notin> set s"
  by (induction s) auto

lemma split_on_nonempty [simp]: "split_on d s \<noteq> []"
  by (induction s) (auto split: list.splits)

lemma split_on_append: "split_on d (a @ d # b) = split_on d a @ split_on d b"
  by (induction a) (auto split: list.splits simp: append_eq_Cons_conv)

lemma split_on_no_sep: "d \<notin> set s \<Longrightarrow> split_on d s = [s]"
  by (induction s) auto

lemma split_on_parts: "seg \<in> set (split_on d s) \<Longrightarrow> d \<notin> set seg"
proof (induction s arbitrary: seg)
  case Nil
  then show ?case by simp
next
  case (Cons c s)
  obtain t ts where t: "split_on d s = t # ts" by (cases "split_on d s") auto
  show ?case
    using Cons.prems Cons.IH [of seg] Cons.IH [of t] by (auto simp: t split: if_splits)
qed

lemma split_on_join:
  "ss \<noteq> [] \<Longrightarrow> (\<And>s. s \<in> set ss \<Longrightarrow> d \<notin> set s) \<Longrightarrow> split_on d (join_with [d] ss) = ss"
  by (induction "[d]" ss rule: join_with.induct) (auto simp: split_on_no_sep split_on_append)

lemma join_split_on [simp]: "join_with [d] (split_on d s) = s"
proof (induction s)
  case Nil
  then show ?case by simp
next
  case (Cons c s)
  obtain t ts where t: "split_on d s = t # ts" by (cases "split_on d s") auto
  with Cons show ?case by (cases ts) auto
qed

text \<open>A value between apostrophes, as the messages of the program have it.\<close>

definition quote :: "string \<Rightarrow> string" where
  "quote s = [CHR 0x27] @ s @ [CHR 0x27]"

section \<open>White space\<close>

text \<open>
  \<open>char::is_whitespace\<close> holds for the Unicode property \<open>White_Space\<close>; these are the encodings of
  its code points. \<open>drop_ws\<close> removes one leading such character, if any.
\<close>

definition ws_ascii :: "char \<Rightarrow> bool" where
  "ws_ascii c = (let n = of_char c :: nat in (9 \<le> n \<and> n \<le> 13) \<or> n = 32)"

definition ws2 :: "char \<Rightarrow> char \<Rightarrow> bool" where
  "ws2 a b = (a = CHR 0xC2 \<and> (b = CHR 0x85 \<or> b = CHR 0xA0))"

definition ws3 :: "char \<Rightarrow> char \<Rightarrow> char \<Rightarrow> bool" where
  "ws3 a b c =
     ((a = CHR 0xE1 \<and> b = CHR 0x9A \<and> c = CHR 0x80) \<or>
      (a = CHR 0xE2 \<and> b = CHR 0x80 \<and>
         ((let n = of_char c :: nat in 0x80 \<le> n \<and> n \<le> 0x8A) \<or>
          c = CHR 0xA8 \<or> c = CHR 0xA9 \<or> c = CHR 0xAF)) \<or>
      (a = CHR 0xE2 \<and> b = CHR 0x81 \<and> c = CHR 0x9F) \<or>
      (a = CHR 0xE3 \<and> b = CHR 0x80 \<and> c = CHR 0x80))"

fun trim_start :: "string \<Rightarrow> string" where
  "trim_start (a # b # c # s) =
     (if ws_ascii a then trim_start (b # c # s)
      else if ws2 a b then trim_start (c # s)
      else if ws3 a b c then trim_start s
      else a # b # c # s)"
| "trim_start [a, b] =
     (if ws_ascii a then trim_start [b] else if ws2 a b then [] else [a, b])"
| "trim_start [a] = (if ws_ascii a then [] else [a])"
| "trim_start [] = []"

fun trim_end_rev :: "string \<Rightarrow> string" where
  "trim_end_rev (c # b # a # s) =
     (if ws_ascii c then trim_end_rev (b # a # s)
      else if ws2 b c then trim_end_rev (a # s)
      else if ws3 a b c then trim_end_rev s
      else c # b # a # s)"
| "trim_end_rev [b, a] =
     (if ws_ascii b then trim_end_rev [a] else if ws2 a b then [] else [b, a])"
| "trim_end_rev [a] = (if ws_ascii a then [] else [a])"
| "trim_end_rev [] = []"

definition trim_end :: "string \<Rightarrow> string" where
  "trim_end s = rev (trim_end_rev (rev s))"

definition trim :: "string \<Rightarrow> string" where
  "trim s = trim_end (trim_start s)"

definition blank :: "string \<Rightarrow> bool" where
  "blank s = (trim s = [])"

lemma ws_lead: "(of_char a :: nat) < 128 \<Longrightarrow> \<not> ws2 a b \<and> \<not> ws3 a b c \<and> \<not> ws2 b a \<and> \<not> ws3 c b a"
  by (auto simp: ws2_def ws3_def Let_def)

lemma trim_keeps:
  assumes "\<not> ws_ascii a" "(of_char a :: nat) < 128"
  shows "trim_start (a # s) = a # s"
  using assms(1) ws_lead [OF assms(2)] by (cases "a # s" rule: trim_start.cases) simp_all

lemma trim_end_rev_keeps:
  assumes "\<not> ws_ascii a" "(of_char a :: nat) < 128"
  shows "trim_end_rev (a # s) = a # s"
  using assms(1) ws_lead [OF assms(2)] by (cases "a # s" rule: trim_end_rev.cases) simp_all

text \<open>A string whose first and last bytes are printable ASCII is its own \<open>trim\<close>.\<close>

lemma trim_id:
  assumes "s \<noteq> []"
    and "\<not> ws_ascii (hd s)" "(of_char (hd s) :: nat) < 128"
    and "\<not> ws_ascii (last s)" "(of_char (last s) :: nat) < 128"
  shows "trim s = s"
proof -
  have "trim_start s = s"
    using trim_keeps [OF assms(2,3), of "tl s"] assms(1) by simp
  moreover have "rev s = last s # rev (butlast s)"
    using assms(1) by (metis append_butlast_last_id rev.simps(2) rev_rev_ident rev_swap)
  then have "trim_end s = s"
    using trim_end_rev_keeps [OF assms(4,5), of "rev (butlast s)"] by (metis rev_swap trim_end_def)
  ultimately show ?thesis by (simp add: trim_def)
qed

lemma blank_Nil [simp]: "blank []"
  by (simp add: blank_def trim_def trim_end_def)

section \<open>ASCII classes\<close>

definition is_ascii_digit :: "char \<Rightarrow> bool" where
  "is_ascii_digit c = (let n = of_char c :: nat in 48 \<le> n \<and> n \<le> 57)"

definition is_ascii_lowercase :: "char \<Rightarrow> bool" where
  "is_ascii_lowercase c = (let n = of_char c :: nat in 97 \<le> n \<and> n \<le> 122)"

definition is_ascii_uppercase :: "char \<Rightarrow> bool" where
  "is_ascii_uppercase c = (let n = of_char c :: nat in 65 \<le> n \<and> n \<le> 90)"

definition is_ascii_alphanumeric :: "char \<Rightarrow> bool" where
  "is_ascii_alphanumeric c = (is_ascii_digit c \<or> is_ascii_lowercase c \<or> is_ascii_uppercase c)"

definition to_ascii_lowercase :: "string \<Rightarrow> string" where
  "to_ascii_lowercase s =
     map (\<lambda>c. if is_ascii_uppercase c then char_of (of_char c + 32 :: nat) else c) s"

lemmas ascii_class_defs =
  is_ascii_digit_def is_ascii_lowercase_def is_ascii_uppercase_def is_ascii_alphanumeric_def

section \<open>Numbers in decimal and hexadecimal\<close>

definition digit_char :: "nat \<Rightarrow> char" where
  "digit_char d = char_of (if d < 10 then 48 + d else 87 + d)"

fun show_nat :: "nat \<Rightarrow> string" where
  "show_nat n = (if n < 10 then [digit_char n] else show_nat (n div 10) @ [digit_char (n mod 10)])"

declare show_nat.simps [simp del]

fun show_hex :: "nat \<Rightarrow> string" where
  "show_hex n = (if n < 16 then [digit_char n] else show_hex (n div 16) @ [digit_char (n mod 16)])"

declare show_hex.simps [simp del]

definition show_int :: "int \<Rightarrow> string" where
  "show_int i = (if i < 0 then ''-'' @ show_nat (nat (- i)) else show_nat (nat i))"

definition digit_value :: "char \<Rightarrow> nat option" where
  "digit_value c = (if is_ascii_digit c then Some (of_char c - 48) else None)"

fun digits_value :: "nat \<Rightarrow> string \<Rightarrow> nat option" where
  "digits_value acc [] = Some acc"
| "digits_value acc (c # cs) =
     (case digit_value c of None \<Rightarrow> None | Some d \<Rightarrow> digits_value (10 * acc + d) cs)"

text \<open>\<open>str::parse::<usize>()\<close> (and \<open>u64\<close>): an optional plus sign, digits, no overflow.\<close>

definition parse_unsigned :: "nat \<Rightarrow> string \<Rightarrow> nat option" where
  "parse_unsigned bound s =
     (let ds = (case strip_prefix ''+'' s of Some t \<Rightarrow> t | None \<Rightarrow> s) in
      if ds = [] then None
      else case digits_value 0 ds of Some n \<Rightarrow> if n < bound then Some n else None | None \<Rightarrow> None)"

definition hex_digit_value :: "char \<Rightarrow> nat option" where
  "hex_digit_value c =
     (let n = of_char c :: nat in
      if 48 \<le> n \<and> n \<le> 57 then Some (n - 48)
      else if 97 \<le> n \<and> n \<le> 102 then Some (n - 87)
      else if 65 \<le> n \<and> n \<le> 70 then Some (n - 55)
      else None)"

definition hex_byte :: "char \<Rightarrow> string" where
  "hex_byte c = [digit_char (of_char c div 16), digit_char (of_char c mod 16)]"

lemma of_char_lt [simp]: "(of_char c :: nat) < 256"
  by (metis of_char_of of_char_mod_256 mod_less_divisor zero_less_numeral)

lemma digit_char_value: "d < 10 \<Longrightarrow> digit_value (digit_char d) = Some d"
  by (simp add: digit_value_def digit_char_def is_ascii_digit_def)

lemma digit_char_hex: "d < 16 \<Longrightarrow> hex_digit_value (digit_char d) = Some d"
  by (simp add: hex_digit_value_def digit_char_def Let_def)

lemma digits_value_append:
  "digits_value acc (a @ b) =
     (case digits_value acc a of None \<Rightarrow> None | Some n \<Rightarrow> digits_value n b)"
  by (induction acc a rule: digits_value.induct) (auto split: option.splits)

lemma digits_value_show_nat [simp]: "digits_value 0 (show_nat n) = Some n"
proof (induction n rule: show_nat.induct)
  case (1 n)
  show ?case
  proof (cases "n < 10")
    case True
    then show ?thesis by (subst show_nat.simps) (simp add: digit_char_value)
  next
    case False
    then show ?thesis
      using 1 by (subst show_nat.simps) (simp add: digits_value_append digit_char_value)
  qed
qed

lemma show_nat_inj: "show_nat m = show_nat n \<Longrightarrow> m = n"
  by (metis digits_value_show_nat option.inject)

lemma show_nat_nonempty [simp]: "show_nat n \<noteq> []"
  by (subst show_nat.simps) simp

lemma show_nat_digits: "c \<in> set (show_nat n) \<Longrightarrow> is_ascii_digit c"
proof (induction n rule: show_nat.induct)
  case (1 n)
  have "is_ascii_digit (digit_char d)" if "d < 10" for d
    using that by (simp add: digit_char_def is_ascii_digit_def)
  with 1 show ?case by (subst (asm) show_nat.simps) (auto split: if_splits)
qed

lemma parse_unsigned_show [simp]: "n < bound \<Longrightarrow> parse_unsigned bound (show_nat n) = Some n"
proof -
  have "hd (show_nat n) \<noteq> CHR ''+''"
    using show_nat_digits [of "hd (show_nat n)" n] by (auto simp: is_ascii_digit_def)
  then have "strip_prefix ''+'' (show_nat n) = None"
    by (cases "show_nat n") auto
  then show "n < bound \<Longrightarrow> ?thesis" by (simp add: parse_unsigned_def)
qed

end
