(* ===== verification/Json.thy ===== *)
theory Json
  imports Rust_Text
begin

text \<open>
  The data model of \<open>serde_json\<close> and what \<open>#[derive(Serialize, Deserialize)]\<close> generates for a
  struct: one function per struct direction is written with the field readers and writers below,
  following the attributes of the struct (\<open>default\<close>, \<open>skip_serializing_if\<close>,
  \<open>deny_unknown_fields\<close>, \<open>rename_all\<close>). The text syntax of JSON is the library's: see \<open>ext\<close>.
\<close>

datatype json =
    JNull | JBool bool | JInt int | JFloat rat | JStr string
  | JArr "json list" | JObj "(string \<times> json) list"

datatype de_error =
    Syntax string | MissingField string | UnknownField string | DuplicateField string
  | InvalidType string | InvalidValue string

type_synonym 'a de = "de_error + 'a"

section \<open>Readers\<close>

fun duplicate_in :: "string list \<Rightarrow> string option" where
  "duplicate_in [] = None"
| "duplicate_in (k # ks) = (if k \<in> set ks then Some k else duplicate_in ks)"

definition object_fields :: "bool \<Rightarrow> string list \<Rightarrow> json \<Rightarrow> (string \<times> json) list de" where
  "object_fields strict known j =
     (case j of
        JObj kvs \<Rightarrow>
          let keys = map fst kvs in
          (case duplicate_in (filter (\<lambda>k. k \<in> set known) keys) of
             Some k \<Rightarrow> Inl (DuplicateField k)
           | None \<Rightarrow>
               (case filter (\<lambda>k. k \<notin> set known) keys of
                  k # _ \<Rightarrow> if strict then Inl (UnknownField k) else Inr kvs
                | [] \<Rightarrow> Inr kvs))
      | _ \<Rightarrow> Inl (InvalidType ''map''))"

definition field :: "string \<Rightarrow> (json \<Rightarrow> 'a de) \<Rightarrow> (string \<times> json) list \<Rightarrow> 'a de" where
  "field k f kvs = (case map_of kvs k of None \<Rightarrow> Inl (MissingField k) | Some v \<Rightarrow> f v)"

definition field_default :: "string \<Rightarrow> 'a \<Rightarrow> (json \<Rightarrow> 'a de) \<Rightarrow> (string \<times> json) list \<Rightarrow> 'a de" where
  "field_default k d f kvs = (case map_of kvs k of None \<Rightarrow> Inr d | Some v \<Rightarrow> f v)"

text \<open>An \<open>Option\<close> field is \<open>None\<close> when it is missing or null.\<close>

definition field_option :: "string \<Rightarrow> (json \<Rightarrow> 'a de) \<Rightarrow> (string \<times> json) list \<Rightarrow> 'a option de" where
  "field_option k f kvs =
     (case map_of kvs k of
        None \<Rightarrow> Inr None
      | Some v \<Rightarrow> if v = JNull then Inr None else map_ok Some (f v))"

fun de_string :: "json \<Rightarrow> string de" where
  "de_string (JStr s) = Inr s"
| "de_string _ = Inl (InvalidType ''string'')"

fun de_bool :: "json \<Rightarrow> bool de" where
  "de_bool (JBool b) = Inr b"
| "de_bool _ = Inl (InvalidType ''bool'')"

fun de_word :: "json \<Rightarrow> 'a::len word de" where
  "de_word (JInt i) =
     (if 0 \<le> i \<and> i < 2 ^ LENGTH('a) then Inr (word_of_int i) else Inl (InvalidValue ''integer''))"
| "de_word _ = Inl (InvalidType ''integer'')"

fun de_i64 :: "json \<Rightarrow> 64 word de" where
  "de_i64 (JInt i) =
     (if - (2 ^ 63) \<le> i \<and> i < 2 ^ 63 then Inr (word_of_int i) else Inl (InvalidValue ''i64''))"
| "de_i64 _ = Inl (InvalidType ''integer'')"

text \<open>
  A number of \<open>serde_json\<close> is an integer or a finite float. A JSON integer is a number of an \<open>f64\<close> field too (exact up to \<open>2 ^ 53\<close>).
\<close>

fun de_f64 :: "json \<Rightarrow> f64 de" where
  "de_f64 (JFloat r) = Inr (Finite r)"
| "de_f64 (JInt i) = Inr (Finite (of_int i))"
| "de_f64 _ = Inl (InvalidType ''f64'')"

fun de_list :: "(json \<Rightarrow> 'a de) \<Rightarrow> json \<Rightarrow> 'a list de" where
  "de_list f (JArr vs) = traverse f vs"
| "de_list f _ = Inl (InvalidType ''sequence'')"

fun de_entries :: "(json \<Rightarrow> 'a de) \<Rightarrow> (string, 'a) btree \<Rightarrow> (string \<times> json) list \<Rightarrow> (string, 'a) btree de" where
  "de_entries f m [] = Inr m"
| "de_entries f m ((k, v) # kvs) = and_then (f v) (\<lambda>x. de_entries f (bt_insert k x m) kvs)"

fun de_btree :: "(json \<Rightarrow> 'a de) \<Rightarrow> json \<Rightarrow> (string, 'a) btree de" where
  "de_btree f (JObj kvs) = de_entries f [] kvs"
| "de_btree f _ = Inl (InvalidType ''map'')"

fun de_f64_4 :: "json \<Rightarrow> (f64 \<times> f64 \<times> f64 \<times> f64) de" where
  "de_f64_4 (JArr [a, b, c, d]) =
     and_then (de_f64 a) (\<lambda>w.
     and_then (de_f64 b) (\<lambda>s.
     and_then (de_f64 c) (\<lambda>e.
     and_then (de_f64 d) (\<lambda>n. Inr (w, s, e, n)))))"
| "de_f64_4 _ = Inl (InvalidType ''an array of length 4'')"

section \<open>Writers\<close>

definition ser_option :: "('a \<Rightarrow> json) \<Rightarrow> 'a option \<Rightarrow> json" where
  "ser_option f x = (case x of None \<Rightarrow> JNull | Some y \<Rightarrow> f y)"

text \<open>A field with \<open>skip_serializing_if = "Option::is_none"\<close>.\<close>

definition skip_none :: "string \<Rightarrow> ('a \<Rightarrow> json) \<Rightarrow> 'a option \<Rightarrow> (string \<times> json) list" where
  "skip_none k f x = (case x of None \<Rightarrow> [] | Some y \<Rightarrow> [(k, f y)])"

definition ser_word :: "'a::len word \<Rightarrow> json" where
  "ser_word x = JInt (uint x)"

definition ser_i64 :: "64 word \<Rightarrow> json" where
  "ser_i64 x = JInt (sint x)"

text \<open>NaN and the infinities have no JSON form: they become null.\<close>

definition ser_f64 :: "f64 \<Rightarrow> json" where
  "ser_f64 x = (case x of Finite r \<Rightarrow> JFloat r | _ \<Rightarrow> JNull)"

definition ser_list :: "('a \<Rightarrow> json) \<Rightarrow> 'a list \<Rightarrow> json" where
  "ser_list f xs = JArr (map f xs)"

definition ser_btree :: "('a \<Rightarrow> json) \<Rightarrow> (string, 'a) btree \<Rightarrow> json" where
  "ser_btree f m = JObj (map (\<lambda>(k, v). (k, f v)) m)"

definition ser_f64_4 :: "f64 \<times> f64 \<times> f64 \<times> f64 \<Rightarrow> json" where
  "ser_f64_4 b = (case b of (w, s, e, n) \<Rightarrow> JArr [ser_f64 w, ser_f64 s, ser_f64 e, ser_f64 n])"

section \<open>Reading back what was written\<close>

text \<open>\<open>reads f g x\<close>: reading with \<open>f\<close> what \<open>g\<close> writes for \<open>x\<close> gives \<open>x\<close>, and it is not null.\<close>

definition reads :: "(json \<Rightarrow> 'a de) \<Rightarrow> ('a \<Rightarrow> json) \<Rightarrow> 'a \<Rightarrow> bool" where
  "reads f g x \<longleftrightarrow> f (g x) = Inr x \<and> g x \<noteq> JNull"

named_theorems reads_rules \<open>values that are read back as written\<close>

lemma reads_string [reads_rules, simp]: "reads de_string JStr s"
  by (simp add: reads_def)

lemma reads_bool [reads_rules, simp]: "reads de_bool JBool b"
  by (simp add: reads_def)

lemma reads_word [reads_rules, simp]: "reads de_word ser_word (x :: 'a::len word)"
  using uint_bounded [of x] by (simp add: reads_def ser_word_def)

lemma reads_i64 [reads_rules, simp]: "reads de_i64 ser_i64 x"
  using sint_greater_eq [of x] sint_less [of x] by (simp add: reads_def ser_i64_def)

lemma reads_list [reads_rules, simp]: "list_all (reads f g) xs \<Longrightarrow> reads (de_list f) (ser_list g) xs"
proof -
  have "list_all (reads f g) xs \<Longrightarrow> traverse f (map g xs) = Inr xs"
    by (induction xs) (auto simp: reads_def)
  then show "list_all (reads f g) xs \<Longrightarrow> ?thesis"
    by (simp add: reads_def ser_list_def)
qed

lemma bt_insert_snoc: "bt_wf (m @ [(k, v)]) \<Longrightarrow> bt_insert k v m = m @ [(k, v)]"
proof (induction m)
  case (Cons e m)
  obtain k' v' where e: "e = (k', v')" by (cases e)
  have "k' < k" using Cons.prems by (simp add: e bt_wf_def sorted_wrt_append)
  moreover have "bt_wf (m @ [(k, v)])" using Cons.prems by (simp add: e bt_wf_def)
  ultimately show ?case using Cons.IH by (auto simp: e dest: less_asym)
qed simp

lemma de_entries_sorted:
  "bt_wf (m @ es) \<Longrightarrow> list_all (\<lambda>e. reads f g (snd e)) es \<Longrightarrow>
   de_entries f m (map (\<lambda>(k, v). (k, g v)) es) = Inr (m @ es)"
proof (induction es arbitrary: m)
  case (Cons e es)
  obtain k v where e: "e = (k, v)" by (cases e)
  have "bt_wf (m @ [(k, v)])"
    using Cons.prems(1) by (auto simp: e bt_wf_def sorted_wrt_append)
  then show ?case
    using Cons.prems Cons.IH [of "m @ [e]"] by (auto simp: e bt_insert_snoc reads_def)
qed simp

lemma reads_btree [reads_rules, simp]:
  "bt_wf m \<Longrightarrow> list_all (\<lambda>e. reads f g (snd e)) m \<Longrightarrow> reads (de_btree f) (ser_btree g) m"
  using de_entries_sorted [of "[]" m f g] by (simp add: reads_def ser_btree_def)

definition finite_f64 :: "f64 \<Rightarrow> bool" where
  "finite_f64 x = (case x of Finite _ \<Rightarrow> True | _ \<Rightarrow> False)"

definition finite_4 :: "f64 \<times> f64 \<times> f64 \<times> f64 \<Rightarrow> bool" where
  "finite_4 b = (case b of (w, s, e, n) \<Rightarrow> finite_f64 w \<and> finite_f64 s \<and> finite_f64 e \<and> finite_f64 n)"

lemma finite_f64_iff: "finite_f64 x \<longleftrightarrow> (\<exists>r. x = Finite r)"
  by (cases x) (simp_all add: finite_f64_def)

lemma reads_f64_4 [reads_rules, simp]: "finite_4 b \<Longrightarrow> reads de_f64_4 ser_f64_4 b"
  by (auto simp: reads_def finite_4_def finite_f64_iff ser_f64_4_def ser_f64_def split: prod.splits)

lemma field_option_ser [simp]:
  assumes "is_none_or (reads f g) x"
  shows "field_option k f ((k, ser_option g x) # kvs) = Inr x"
  using assms by (cases x) (auto simp: field_option_def ser_option_def reads_def)

lemma field_hit [simp]: "reads f g x \<Longrightarrow> field k f ((k, g x) # kvs) = Inr x"
  by (simp add: field_def reads_def)

lemma field_default_hit [simp]: "reads f g x \<Longrightarrow> field_default k d f ((k, g x) # kvs) = Inr x"
  by (simp add: field_default_def reads_def)

lemma field_miss [simp]:
  "k \<noteq> k' \<Longrightarrow> field k f ((k', v) # kvs) = field k f kvs"
  "k \<noteq> k' \<Longrightarrow> field_default k d f ((k', v) # kvs) = field_default k d f kvs"
  "k \<noteq> k' \<Longrightarrow> field_option k f ((k', v) # kvs) = field_option k f kvs"
  by (simp_all add: field_def field_default_def field_option_def)

lemma field_skip [simp]:
  "k \<noteq> k' \<Longrightarrow> field k f (skip_none k' g x @ kvs) = field k f kvs"
  "k \<noteq> k' \<Longrightarrow> field_default k d f (skip_none k' g x @ kvs) = field_default k d f kvs"
  "k \<noteq> k' \<Longrightarrow> field_option k f (skip_none k' g y @ kvs) = field_option k f kvs"
  "k \<noteq> k' \<Longrightarrow> field_option k f (skip_none k' g y) = Inr None"
  by (cases x; cases y; simp add: skip_none_def field_def field_default_def field_option_def)+

lemma field_option_skip_hit [simp]:
  assumes "is_none_or (reads f g) x" "map_of kvs k = None"
  shows "field_option k f (skip_none k g x @ kvs) = Inr x"
  using assms by (cases x) (auto simp: field_option_def skip_none_def reads_def)

lemma field_option_skip_last [simp]:
  "is_none_or (reads f g) x \<Longrightarrow> field_option k f (skip_none k g x) = Inr x"
  using field_option_skip_hit [of f g x "[]" k] by simp

lemma keys_skip_none: "set (map fst (skip_none k f x)) \<subseteq> {k}"
  by (cases x) (auto simp: skip_none_def)

section \<open>What a reader can return\<close>

lemma object_fieldsD: "object_fields b known j = Inr kvs \<Longrightarrow> j = JObj kvs"
  by (auto simp: object_fields_def Let_def split: json.splits option.splits list.splits if_splits)

lemma fieldD: "field k f kvs = Inr x \<Longrightarrow> \<exists>j. f j = Inr x"
  by (auto simp: field_def split: option.splits)

lemma field_defaultD: "field_default k d f kvs = Inr x \<Longrightarrow> x = d \<or> (\<exists>j. f j = Inr x)"
  by (auto simp: field_default_def split: option.splits)

lemma field_optionD: "field_option k f kvs = Inr x \<Longrightarrow> x = None \<or> (\<exists>j y. x = Some y \<and> f j = Inr y)"
  by (auto simp: field_option_def split: option.splits if_splits)

lemma de_entries_wf: "de_entries f m kvs = Inr m' \<Longrightarrow> bt_wf m \<Longrightarrow> bt_wf m'"
  by (induction f m kvs rule: de_entries.induct) auto

lemma de_btree_wf: "de_btree f j = Inr m \<Longrightarrow> bt_wf m"
  by (cases j) (auto dest: de_entries_wf)

lemma de_list_all: "de_list f j = Inr xs \<Longrightarrow> (\<And>i x. f i = Inr x \<Longrightarrow> P x) \<Longrightarrow> list_all P xs"
  by (cases j) (auto simp: traverse_eq_Inr list_all2_conv_all_nth list_all_length)

lemma de_f64_finite: "de_f64 j = Inr x \<Longrightarrow> finite_f64 x"
  by (cases j) (auto simp: finite_f64_def)

lemma de_f64_4_finite: "de_f64_4 j = Inr b \<Longrightarrow> finite_4 b"
  by (cases j rule: de_f64_4.cases) (auto simp: finite_4_def dest: de_f64_finite)

end
