(* ===== verification/Rust_Path.thy ===== *)
theory Rust_Path
  imports Rust_Text
begin

text \<open>
  \<open>std::path\<close> on Unix. A \<open>Path\<close> is its string; \<open>components\<close> is the parsing on which
  comparison, \<open>starts_with\<close>, \<open>file_name\<close> and \<open>parent\<close> are defined, while \<open>join\<close> and \<open>display\<close>
  work on the string.
\<close>

type_synonym path = string

datatype component = RootDir | CurDir | ParentDir | Normal string

abbreviation slash :: char where "slash \<equiv> CHR ''/''"

definition is_absolute :: "path \<Rightarrow> bool" where
  "is_absolute p = starts_with ''/'' p"

definition segment_component :: "string \<Rightarrow> component list" where
  "segment_component s =
     (if s = [] \<or> s = ''.'' then [] else if s = ''..'' then [ParentDir] else [Normal s])"

definition body_components :: "string list \<Rightarrow> component list" where
  "body_components ss = concat (map segment_component ss)"

definition components :: "path \<Rightarrow> component list" where
  "components p =
     (case split_on slash p of
        [] \<Rightarrow> []
      | s # ss \<Rightarrow>
          (if s = [] \<and> ss \<noteq> [] then [RootDir]
           else if s = ''.'' then [CurDir]
           else segment_component s) @ body_components ss)"

text \<open>\<open>PartialEq\<close> and \<open>Ord\<close> for paths compare components.\<close>

definition path_eq :: "path \<Rightarrow> path \<Rightarrow> bool" where
  "path_eq p q = (components p = components q)"

fun is_prefix :: "'a list \<Rightarrow> 'a list \<Rightarrow> bool" where
  "is_prefix [] ys = True"
| "is_prefix (x # xs) [] = False"
| "is_prefix (x # xs) (y # ys) = (x = y \<and> is_prefix xs ys)"

definition path_starts_with :: "path \<Rightarrow> path \<Rightarrow> bool" where
  "path_starts_with p base = is_prefix (components base) (components p)"

definition join :: "path \<Rightarrow> path \<Rightarrow> path" where
  "join p q =
     (if is_absolute q then q
      else if p = [] \<or> last p = slash then p @ q
      else p @ ''/'' @ q)"

definition file_name :: "path \<Rightarrow> string option" where
  "file_name p =
     (case rev (components p) of Normal s # _ \<Rightarrow> Some s | _ \<Rightarrow> None)"

text \<open>
  \<open>parent\<close> drops the last component and then the separators and dots before it
  (\<open>Components::as_path\<close>); a leading dot is a component of its own.
\<close>

definition skippable :: "string \<Rightarrow> bool" where
  "skippable s = (s = [] \<or> s = ''.'')"

definition drop_skippable :: "string list \<Rightarrow> string list" where
  "drop_skippable ss = rev (dropWhile skippable (rev ss))"

definition pop_segment :: "string list \<Rightarrow> string list option" where
  "pop_segment ss =
     (let ts = drop_skippable ss in
      if ts = [] then None else Some (drop_skippable (butlast ts)))"

definition parent :: "path \<Rightarrow> path option" where
  "parent p =
     (case split_on slash p of
        [] \<Rightarrow> None
      | s # ss \<Rightarrow>
          if s = [] \<and> ss \<noteq> [] then
            map_option (\<lambda>ts. ''/'' @ join_with ''/'' ts) (pop_segment ss)
          else if s = ''.'' then
            (case pop_segment ss of
               None \<Rightarrow> Some []
             | Some ts \<Rightarrow> Some (join_with ''/'' (''.'' # ts)))
          else map_option (join_with ''/'') (pop_segment (s # ss)))"

definition with_file_name :: "path \<Rightarrow> string \<Rightarrow> path" where
  "with_file_name p name =
     (case file_name p of
        None \<Rightarrow> join p name
      | Some _ \<Rightarrow> join (case parent p of Some q \<Rightarrow> q | None \<Rightarrow> p) name)"

text \<open>\<open>extension\<close> and \<open>with_extension\<close>: the part of the file name after its last dot, if that dot is not its first byte.\<close>

definition rsplit_dot :: "string \<Rightarrow> string \<times> string option" where
  "rsplit_dot name =
     (case split_once (CHR ''.'') (rev name) of
        None \<Rightarrow> (name, None)
      | Some (after, before) \<Rightarrow> if before = [] then (name, None) else (rev before, Some (rev after)))"

definition extension :: "path \<Rightarrow> string option" where
  "extension p = (case file_name p of None \<Rightarrow> None | Some name \<Rightarrow> snd (rsplit_dot name))"

definition with_extension :: "path \<Rightarrow> string \<Rightarrow> path" where
  "with_extension p ext =
     (case file_name p of
        None \<Rightarrow> p
      | Some name \<Rightarrow>
          with_file_name p (fst (rsplit_dot name) @ (if ext = [] then [] else ''.'' @ ext)))"

section \<open>Facts\<close>

lemma is_prefix_iff: "is_prefix xs ys \<longleftrightarrow> (\<exists>zs. ys = xs @ zs)"
  by (induction xs ys rule: is_prefix.induct) auto

lemma is_prefix_append [simp]: "is_prefix xs (xs @ ys)"
  by (auto simp: is_prefix_iff)

lemma is_absolute_Nil [simp]: "\<not> is_absolute []"
  by (simp add: is_absolute_def starts_with_def)

lemma is_absolute_Cons [simp]: "is_absolute (c # s) \<longleftrightarrow> c = slash"
  by (auto simp: is_absolute_def starts_with_def)

lemma is_absolute_append [simp]: "is_absolute (p @ q) \<longleftrightarrow> (if p = [] then is_absolute q else is_absolute p)"
  by (cases p) auto

text \<open>A file name: one segment that is neither empty nor a dot name.\<close>

definition plain_name :: "string \<Rightarrow> bool" where
  "plain_name n \<longleftrightarrow> n \<noteq> [] \<and> n \<noteq> ''.'' \<and> n \<noteq> ''..'' \<and> slash \<notin> set n"

lemma plain_name_not_absolute: "plain_name n \<Longrightarrow> \<not> is_absolute n"
  by (cases n) (auto simp: plain_name_def)

lemma components_plain: "plain_name n \<Longrightarrow> components n = [Normal n]"
  by (simp add: components_def plain_name_def split_on_no_sep segment_component_def body_components_def)

lemma components_eq_body:
  "components p =
     (if is_absolute p then RootDir # body_components (tl (split_on slash p))
      else if hd (split_on slash p) = ''.'' then CurDir # body_components (tl (split_on slash p))
      else body_components (split_on slash p))"
proof (cases p)
  case Nil
  then show ?thesis
    by (simp add: components_def body_components_def segment_component_def)
next
  case (Cons c cs)
  show ?thesis
  proof (cases "c = slash")
    case True
    then show ?thesis by (simp add: Cons components_def)
  next
    case False
    obtain t ts where "split_on slash cs = t # ts" by (cases "split_on slash cs") auto
    with False show ?thesis by (simp add: Cons components_def body_components_def)
  qed
qed

lemma hd_append_split: "hd (split_on d (a @ d # b)) = hd (split_on d a)"
  by (simp add: split_on_append)

lemma body_components_simps [simp]:
  "body_components [] = []"
  "body_components (x # xs) = segment_component x @ body_components xs"
  "body_components (xs @ ys) = body_components xs @ body_components ys"
  by (simp_all add: body_components_def)

lemma segment_component_Nil [simp]: "segment_component [] = []"
  by (simp add: segment_component_def)

lemma components_append_slash:
  assumes p: "p \<noteq> []"
  shows "components (p @ slash # q) = components p @ body_components (split_on slash q)"
proof -
  obtain t ts where t: "split_on slash p = t # ts" by (cases "split_on slash p") auto
  show ?thesis
    using p by (simp add: components_eq_body split_on_append t)
qed

text \<open>Joining a relative path that does not begin with a dot appends its components.\<close>

lemma components_join:
  assumes rel: "\<not> is_absolute q" and dot: "hd (split_on slash q) \<noteq> ''.''"
  shows "components (join p q) = components p @ components q"
proof (cases "p = []")
  case True
  then show ?thesis using rel
    by (simp add: join_def components_def body_components_def segment_component_def)
next
  case p: False
  have q: "components q = body_components (split_on slash q)"
    using rel dot by (simp add: components_eq_body)
  show ?thesis
  proof (cases "last p = slash")
    case False
    then show ?thesis using p rel q by (simp add: join_def components_append_slash)
  next
    case True
    with p obtain p' where p': "p = p' @ [slash]" by (metis append_butlast_last_id)
    show ?thesis
    proof (cases "p' = []")
      case True
      then show ?thesis using p' rel q by (simp add: join_def components_eq_body)
    next
      case False
      have "components p = components p'"
        using components_append_slash [OF False, of "[]"]
        by (simp add: p' body_components_def segment_component_def)
      then show ?thesis
        using p' rel q components_append_slash [OF False, of q] by (simp add: join_def)
    qed
  qed
qed

lemma components_join_plain: "plain_name n \<Longrightarrow> components (join p n) = components p @ [Normal n]"
  using components_join [of n p]
  by (simp add: plain_name_not_absolute components_plain) (simp add: plain_name_def split_on_no_sep)

lemma file_name_join_plain [simp]: "plain_name n \<Longrightarrow> file_name (join p n) = Some n"
  by (simp add: file_name_def components_join_plain)

text \<open>A directory path as the code builds them: no separator or dot to drop at its end.\<close>

definition tidy :: "path \<Rightarrow> bool" where
  "tidy p \<longleftrightarrow> p \<noteq> [] \<and> \<not> skippable (last (split_on slash p))"

lemma drop_skippable_snoc [simp]:
  "drop_skippable (xs @ [x]) = (if skippable x then drop_skippable xs else xs @ [x])"
  by (simp add: drop_skippable_def)

lemma pop_segment_snoc: "\<not> skippable x \<Longrightarrow> pop_segment (xs @ [x]) = Some (drop_skippable xs)"
  by (simp add: pop_segment_def)

lemma drop_skippable_tidy: "xs \<noteq> [] \<Longrightarrow> \<not> skippable (last xs) \<Longrightarrow> drop_skippable xs = xs"
  by (cases xs rule: rev_cases) auto

lemma parent_join_plain:
  assumes p: "tidy p" and n: "plain_name n"
  shows "parent (join p n) = Some p"
proof -
  have last: "last p \<noteq> slash"
  proof
    assume "last p = slash"
    then obtain p' where "p = p' @ slash # []" using p by (metis append_butlast_last_id tidy_def)
    then have "last (split_on slash p) = []" by (simp add: split_on_append)
    then show False using p by (simp add: tidy_def skippable_def)
  qed
  have ns: "\<not> skippable n" using n by (simp add: plain_name_def skippable_def)
  obtain t ts where t: "split_on slash p = t # ts" by (cases "split_on slash p") auto
  have j: "split_on slash (join p n) = (t # ts) @ [n]"
    using p last n plain_name_not_absolute [OF n]
    by (simp add: join_def tidy_def split_on_append t split_on_no_sep plain_name_def)
  have joined: "join_with ''/'' (t # ts) = p" using join_split_on [of slash p] by (simp add: t)
  have lt: "\<not> skippable (last (t # ts))" using p by (simp add: tidy_def t)
  show ?thesis
  proof (cases ts)
    case Nil
    then have "t \<noteq> [] \<and> t \<noteq> ''.''" using lt by (simp add: skippable_def)
    then show ?thesis
      using j pop_segment_snoc [OF ns, of "[t]"] drop_skippable_tidy [of "[t]"] lt joined Nil
      by (simp add: parent_def)
  next
    case (Cons u us)
    have "drop_skippable ts = ts" and "drop_skippable (t # ts) = t # ts"
      using lt Cons by (auto intro!: drop_skippable_tidy)
    then show ?thesis
      using j pop_segment_snoc [OF ns, of "t # ts"] pop_segment_snoc [OF ns, of ts] joined Cons
      by (auto simp: parent_def)
  qed
qed

lemma with_file_name_join [simp]:
  "tidy p \<Longrightarrow> plain_name n \<Longrightarrow> with_file_name (join p n) m = join p m"
  by (simp add: with_file_name_def parent_join_plain)

end
