(* ===== verification/Rust_Fs.thy ===== *)
theory Rust_Fs
  imports Rust_Path
begin

text \<open>
  The part of \<open>std::fs\<close>, \<open>std::time\<close> and \<open>std::env\<close> the program calls, over an explicit world.

  \<^item> A file system (\<open>fs\<close>) is a finite table of named nodes over a table of inodes, so that hard
    links, symbolic links and renames of open files have their meaning. \<open>walk\<close> is Unix path
    resolution with its limit on symbolic links.
  \<^item> Every call is a \<open>syscall\<close>: it counts one tick, and the schedule \<open>faults\<close> may make it fail
    with any error. A call that writes may fail half way (\<open>torn\<close> says after how many bytes).
  \<^item> \<open>others\<close> is what the other processes do to the file system while this one sleeps.
\<close>

section \<open>Nodes\<close>

type_synonym loc = "string list"

datatype io_kind =
    KNotFound | KAlreadyExists | KPermissionDenied | KNotADirectory | KIsADirectory
  | KDirectoryNotEmpty | KFilesystemLoop | KInvalidInput | KStorageFull | KInterrupted | KInvalidData | KOther

datatype node = File nat | Dir nat | Link nat path | Special nat

record inode =
  contents :: string
  mode :: nat
  stamp :: nat

record fs =
  nodes :: "(loc \<times> node) list"
  inodes :: "nat \<Rightarrow> inode"
  next_ino :: nat

fun node_ino :: "node \<Rightarrow> nat" where
  "node_ino (File i) = i"
| "node_ino (Dir i) = i"
| "node_ino (Link i _) = i"
| "node_ino (Special i) = i"

definition lookup :: "fs \<Rightarrow> loc \<Rightarrow> node option" where
  "lookup f l = (if l = [] then Some (Dir 0) else map_of (nodes f) l)"

definition is_dir_at :: "fs \<Rightarrow> loc \<Rightarrow> bool" where
  "is_dir_at f l = (case lookup f l of Some (Dir _) \<Rightarrow> True | _ \<Rightarrow> False)"

definition set_node :: "loc \<Rightarrow> node \<Rightarrow> fs \<Rightarrow> fs" where
  "set_node l n f = f\<lparr>nodes := (l, n) # filter (\<lambda>e. fst e \<noteq> l) (nodes f)\<rparr>"

definition del_node :: "loc \<Rightarrow> fs \<Rightarrow> fs" where
  "del_node l f = f\<lparr>nodes := filter (\<lambda>e. fst e \<noteq> l) (nodes f)\<rparr>"

definition del_tree :: "loc \<Rightarrow> fs \<Rightarrow> fs" where
  "del_tree l f = f\<lparr>nodes := filter (\<lambda>e. \<not> is_prefix l (fst e)) (nodes f)\<rparr>"

definition child_names :: "fs \<Rightarrow> loc \<Rightarrow> string list" where
  "child_names f l =
     map (last \<circ> fst) (filter (\<lambda>e. fst e \<noteq> [] \<and> butlast (fst e) = l) (nodes f))"

section \<open>Path resolution\<close>

definition max_links :: nat where "max_links = 40"

function walk :: "fs \<Rightarrow> nat \<Rightarrow> bool \<Rightarrow> loc \<Rightarrow> string list \<Rightarrow> io_kind + loc" where
  "walk f n follow cur [] = Inr cur"
| "walk f n follow cur (s # ss) =
     (if \<not> is_dir_at f cur then Inl KNotADirectory
      else if s = [] \<or> s = ''.'' then walk f n follow cur ss
      else if s = ''..'' then walk f n follow (butlast cur) ss
      else
        (case lookup f (cur @ [s]) of
           None \<Rightarrow> Inl KNotFound
         | Some (Link _ target) \<Rightarrow>
             if ss = [] \<and> \<not> follow then Inr (cur @ [s])
             else if n = 0 then Inl KFilesystemLoop
             else walk f (n - 1) follow (if is_absolute target then [] else cur)
                    (split_on slash target @ ss)
         | Some _ \<Rightarrow> walk f n follow (cur @ [s]) ss))"
  by pat_completeness auto
termination
  by (relation "inv_image (less_than <*lex*> less_than) (\<lambda>(f, n, follow, cur, ss). (n, length ss))") auto

definition render :: "loc \<Rightarrow> path" where
  "render l = ''/'' @ join_with ''/'' l"

text \<open>Where a path names an existing node, and where a new entry of that name would be.\<close>

definition resolve_path :: "fs \<Rightarrow> loc \<Rightarrow> bool \<Rightarrow> path \<Rightarrow> io_kind + loc" where
  "resolve_path f cwd follow p =
     (if p = [] then Inl KNotFound
      else walk f max_links follow (if is_absolute p then [] else cwd) (split_on slash p))"

definition resolve_entry :: "fs \<Rightarrow> loc \<Rightarrow> path \<Rightarrow> io_kind + loc" where
  "resolve_entry f cwd p =
     (let ss = split_on slash p; name = last ss in
      if p = [] then Inl KNotFound
      else if name = [] \<or> name = ''.'' \<or> name = ''..'' then Inl KInvalidInput
      else and_then (walk f max_links True (if is_absolute p then [] else cwd) (butlast ss))
             (\<lambda>d. if is_dir_at f d then Inr (d @ [name]) else Inl KNotADirectory))"

section \<open>Operations on the file system\<close>

record metadata =
  m_node :: node
  m_len :: nat
  m_mode :: nat
  m_stamp :: nat

definition metadata_at :: "fs \<Rightarrow> loc \<Rightarrow> io_kind + metadata" where
  "metadata_at f l =
     (case lookup f l of
        None \<Rightarrow> Inl KNotFound
      | Some n \<Rightarrow>
          let i = inodes f (node_ino n) in
          Inr \<lparr>m_node = n, m_len = length (contents i), m_mode = mode i, m_stamp = stamp i\<rparr>)"

definition node_is_dir :: "node \<Rightarrow> bool" where
  "node_is_dir n = (case n of Dir _ \<Rightarrow> True | _ \<Rightarrow> False)"

definition node_is_file :: "node \<Rightarrow> bool" where
  "node_is_file n = (case n of File _ \<Rightarrow> True | _ \<Rightarrow> False)"

definition node_is_link :: "node \<Rightarrow> bool" where
  "node_is_link n = (case n of Link _ _ \<Rightarrow> True | _ \<Rightarrow> False)"

definition fs_read :: "loc \<Rightarrow> fs \<Rightarrow> io_kind + string" where
  "fs_read l f =
     (case lookup f l of
        None \<Rightarrow> Inl KNotFound
      | Some (File i) \<Rightarrow> Inr (contents (inodes f i))
      | Some (Dir _) \<Rightarrow> Inl KIsADirectory
      | Some _ \<Rightarrow> Inl KOther)"

definition new_inode :: "string \<Rightarrow> nat \<Rightarrow> fs \<Rightarrow> fs" where
  "new_inode c m f =
     f\<lparr>inodes := (inodes f)(next_ino f := \<lparr>contents = c, mode = m, stamp = next_ino f\<rparr>),
       next_ino := Suc (next_ino f)\<rparr>"

definition fs_create_new :: "nat \<Rightarrow> loc \<Rightarrow> fs \<Rightarrow> (io_kind + nat) \<times> fs" where
  "fs_create_new m l f =
     (case lookup f l of
        Some _ \<Rightarrow> (Inl KAlreadyExists, f)
      | None \<Rightarrow> (Inr (next_ino f), set_node l (File (next_ino f)) (new_inode [] m f)))"

text \<open>Appending through an open file handle, which is an inode.\<close>

definition fs_append :: "nat \<Rightarrow> string \<Rightarrow> fs \<Rightarrow> fs" where
  "fs_append i bs f =
     f\<lparr>inodes := (inodes f)(i := (inodes f i)\<lparr>contents := contents (inodes f i) @ bs,
                                           stamp := next_ino f\<rparr>),
       next_ino := Suc (next_ino f)\<rparr>"

definition move_tree :: "loc \<Rightarrow> loc \<Rightarrow> fs \<Rightarrow> fs" where
  "move_tree a b f =
     f\<lparr>nodes := map (\<lambda>(l, n). (if is_prefix a l then b @ drop (length a) l else l, n))
                    (filter (\<lambda>e. fst e \<noteq> b) (nodes f))\<rparr>"

definition fs_rename :: "loc \<Rightarrow> loc \<Rightarrow> fs \<Rightarrow> (io_kind + unit) \<times> fs" where
  "fs_rename a b f =
     (case lookup f a of
        None \<Rightarrow> (Inl KNotFound, f)
      | Some n \<Rightarrow>
          (case lookup f b of
             None \<Rightarrow>
               if is_prefix a b then (Inl KInvalidInput, f) else (Inr (), move_tree a b f)
           | Some n' \<Rightarrow>
               if n = n' then (Inr (), f)
               else if is_prefix a b \<or> is_prefix b a then (Inl KInvalidInput, f)
               else if node_is_dir n \<and> \<not> node_is_dir n' then (Inl KNotADirectory, f)
               else if \<not> node_is_dir n \<and> node_is_dir n' then (Inl KIsADirectory, f)
               else if node_is_dir n' \<and> child_names f b \<noteq> [] then (Inl KDirectoryNotEmpty, f)
               else (Inr (), move_tree a b f)))"

definition fs_remove_file :: "loc \<Rightarrow> fs \<Rightarrow> (io_kind + unit) \<times> fs" where
  "fs_remove_file l f =
     (case lookup f l of
        None \<Rightarrow> (Inl KNotFound, f)
      | Some (Dir _) \<Rightarrow> (Inl KIsADirectory, f)
      | Some _ \<Rightarrow> (Inr (), del_node l f))"

definition fs_remove_dir_all :: "loc \<Rightarrow> fs \<Rightarrow> (io_kind + unit) \<times> fs" where
  "fs_remove_dir_all l f =
     (case lookup f l of
        None \<Rightarrow> (Inl KNotFound, f)
      | Some (Dir _) \<Rightarrow> if l = [] then (Inl KPermissionDenied, f) else (Inr (), del_tree l f)
      | Some _ \<Rightarrow> (Inl KNotADirectory, f))"

definition fs_create_dir :: "nat \<Rightarrow> loc \<Rightarrow> fs \<Rightarrow> (io_kind + unit) \<times> fs" where
  "fs_create_dir m l f =
     (case lookup f l of
        Some _ \<Rightarrow> (Inl KAlreadyExists, f)
      | None \<Rightarrow> (Inr (), set_node l (Dir (next_ino f)) (new_inode [] m f)))"

definition fs_set_mode :: "nat \<Rightarrow> loc \<Rightarrow> fs \<Rightarrow> (io_kind + unit) \<times> fs" where
  "fs_set_mode m l f =
     (case lookup f l of
        None \<Rightarrow> (Inl KNotFound, f)
      | Some n \<Rightarrow>
          (Inr (), f\<lparr>inodes := (inodes f)(node_ino n := (inodes f (node_ino n))\<lparr>mode := m\<rparr>)\<rparr>))"

section \<open>The world\<close>

record world =
  disk :: fs
  cwd :: loc
  tick :: nat
  faults :: "nat \<Rightarrow> io_kind option"
  torn :: "nat \<Rightarrow> nat"
  others :: "nat \<Rightarrow> fs \<Rightarrow> fs"
  clock :: "nat \<Rightarrow> nat"
  elapsed :: nat
  oversleep :: "nat \<Rightarrow> nat"
  process_id :: nat
  sequence :: "64 word"

type_synonym 'a sys = "(world, io_kind, 'a) io"

definition syscall :: "(loc \<Rightarrow> fs \<Rightarrow> (io_kind + 'a) \<times> fs) \<Rightarrow> 'a sys" where
  "syscall op w =
     (let w' = w\<lparr>tick := Suc (tick w)\<rparr> in
      case faults w (tick w) of
        Some k \<Rightarrow> (Inl k, w')
      | None \<Rightarrow> (case op (cwd w) (disk w) of (r, f) \<Rightarrow> (r, w'\<lparr>disk := f\<rparr>)))"

text \<open>A call that only looks, and a call on the entry a path names.\<close>

definition query :: "(loc \<Rightarrow> fs \<Rightarrow> io_kind + 'a) \<Rightarrow> 'a sys" where
  "query q = syscall (\<lambda>c f. (q c f, f))"

definition on_entry :: "path \<Rightarrow> (loc \<Rightarrow> fs \<Rightarrow> (io_kind + 'a) \<times> fs) \<Rightarrow> 'a sys" where
  "on_entry p op =
     syscall (\<lambda>c f. case resolve_entry f c p of Inl k \<Rightarrow> (Inl k, f) | Inr l \<Rightarrow> op l f)"

definition canonicalize :: "path \<Rightarrow> path sys" where
  "canonicalize p = query (\<lambda>c f. map_ok render (resolve_path f c True p))"

definition sys_metadata :: "path \<Rightarrow> metadata sys" where
  "sys_metadata p = query (\<lambda>c f. and_then (resolve_path f c True p) (metadata_at f))"

definition symlink_metadata :: "path \<Rightarrow> metadata sys" where
  "symlink_metadata p = query (\<lambda>c f. and_then (resolve_path f c False p) (metadata_at f))"

definition sys_read :: "path \<Rightarrow> string sys" where
  "sys_read p = query (\<lambda>c f. and_then (resolve_path f c True p) (\<lambda>l. fs_read l f))"

definition read_dir :: "path \<Rightarrow> string list sys" where
  "read_dir p =
     query (\<lambda>c f. and_then (resolve_path f c True p)
                    (\<lambda>l. if is_dir_at f l then Inr (child_names f l) else Inl KNotADirectory))"

text \<open>\<open>Path::exists\<close>, \<open>is_dir\<close> and \<open>is_file\<close> turn every error into \<open>false\<close>.\<close>

definition path_test :: "(node \<Rightarrow> bool) \<Rightarrow> path \<Rightarrow> (world, 'e, bool) io" where
  "path_test t p =
     io_bind (io_try (sys_metadata p))
       (\<lambda>r. io_ret (case r of Inl _ \<Rightarrow> False | Inr m \<Rightarrow> t (m_node m)))"

definition path_exists :: "path \<Rightarrow> (world, 'e, bool) io" where
  "path_exists p = path_test (\<lambda>_. True) p"

definition path_is_dir :: "path \<Rightarrow> (world, 'e, bool) io" where
  "path_is_dir p = path_test node_is_dir p"

definition path_is_file :: "path \<Rightarrow> (world, 'e, bool) io" where
  "path_is_file p = path_test node_is_file p"

definition open_new :: "nat \<Rightarrow> path \<Rightarrow> nat sys" where
  "open_new m p = on_entry p (fs_create_new m)"

definition write_all :: "nat \<Rightarrow> string \<Rightarrow> unit sys" where
  "write_all h bs w =
     (let w' = w\<lparr>tick := Suc (tick w)\<rparr> in
      case faults w (tick w) of
        Some k \<Rightarrow> (Inl k, w'\<lparr>disk := fs_append h (take (torn w (tick w)) bs) (disk w)\<rparr>)
      | None \<Rightarrow> (Inr (), w'\<lparr>disk := fs_append h bs (disk w)\<rparr>))"

text \<open>\<open>sync_all\<close> and opening a directory to sync it change nothing a later call can see.\<close>

definition sync_all :: "unit sys" where
  "sync_all = query (\<lambda>_ _. Inr ())"

definition rename :: "path \<Rightarrow> path \<Rightarrow> unit sys" where
  "rename a b =
     syscall (\<lambda>c f.
       case resolve_entry f c a of
         Inl k \<Rightarrow> (Inl k, f)
       | Inr la \<Rightarrow>
           (case resolve_entry f c b of Inl k \<Rightarrow> (Inl k, f) | Inr lb \<Rightarrow> fs_rename la lb f))"

definition remove_file :: "path \<Rightarrow> unit sys" where
  "remove_file p = on_entry p fs_remove_file"

definition remove_dir_all :: "path \<Rightarrow> unit sys" where
  "remove_dir_all p = on_entry p fs_remove_dir_all"

definition create_dir :: "path \<Rightarrow> unit sys" where
  "create_dir p = on_entry p (fs_create_dir 493)"

text \<open>\<open>create_dir_all\<close>: one level after the other, those that exist are left alone.\<close>

fun make_dirs :: "nat \<Rightarrow> fs \<Rightarrow> loc \<Rightarrow> path \<Rightarrow> string list \<Rightarrow> (io_kind + unit) \<times> fs" where
  "make_dirs m f c p [] = (Inr (), f)"
| "make_dirs m f c p (s # ss) =
     (let q = p @ s in
      case and_then (if q = [] then Inr [] else resolve_path f c True q) (metadata_at f) of
        Inr md \<Rightarrow>
          if node_is_dir (m_node md) then make_dirs m f c (q @ ''/'') ss
          else (Inl (if ss = [] then KAlreadyExists else KNotADirectory), f)
      | Inl _ \<Rightarrow>
          (case resolve_entry f c q of
             Inl k \<Rightarrow> (Inl k, f)
           | Inr l \<Rightarrow>
               (case fs_create_dir m l f of
                  (Inl k, f') \<Rightarrow> (Inl k, f')
                | (Inr _, f') \<Rightarrow> make_dirs m f' c (q @ ''/'') ss)))"

definition create_dir_all_mode :: "nat \<Rightarrow> path \<Rightarrow> unit sys" where
  "create_dir_all_mode m p = syscall (\<lambda>c f. make_dirs m f c [] (split_on slash p))"

definition create_dir_all :: "path \<Rightarrow> unit sys" where
  "create_dir_all p = create_dir_all_mode 493 p"

definition set_permissions :: "path \<Rightarrow> nat \<Rightarrow> unit sys" where
  "set_permissions p m =
     syscall (\<lambda>c f. case resolve_path f c True p of Inl k \<Rightarrow> (Inl k, f) | Inr l \<Rightarrow> fs_set_mode m l f)"

text \<open>
  \<open>fs::copy\<close>: the source must be a regular file; the destination is created, or truncated when
  it exists, through any symbolic link. A copy that fails may leave a part of the bytes.
\<close>

definition copy_bytes :: "loc \<Rightarrow> string \<Rightarrow> nat \<Rightarrow> fs \<Rightarrow> (io_kind + unit) \<times> fs" where
  "copy_bytes l bs m f =
     (case lookup f l of
        None \<Rightarrow> (Inr (), set_node l (File (next_ino f)) (new_inode bs m f))
      | Some (File i) \<Rightarrow>
          (Inr (), f\<lparr>inodes := (inodes f)(i := \<lparr>contents = bs, mode = m, stamp = next_ino f\<rparr>),
                    next_ino := Suc (next_ino f)\<rparr>)
      | Some (Dir _) \<Rightarrow> (Inl KIsADirectory, f)
      | Some _ \<Rightarrow> (Inl KOther, f))"

definition copy_target :: "fs \<Rightarrow> loc \<Rightarrow> path \<Rightarrow> io_kind + loc" where
  "copy_target f c p =
     (case resolve_path f c True p of Inr l \<Rightarrow> Inr l | Inl KNotFound \<Rightarrow> resolve_entry f c p | Inl k \<Rightarrow> Inl k)"

definition fs_copy :: "path \<Rightarrow> path \<Rightarrow> (string \<Rightarrow> string) \<Rightarrow> loc \<Rightarrow> fs \<Rightarrow> (io_kind + unit) \<times> fs" where
  "fs_copy src dst part c f =
     (case and_then (resolve_path f c True src)
             (\<lambda>l. and_then (fs_read l f) (\<lambda>bs. map_ok (Pair bs) (metadata_at f l))) of
        Inl k \<Rightarrow> (Inl k, f)
      | Inr (bs, md) \<Rightarrow>
          (case copy_target f c dst of
             Inl k \<Rightarrow> (Inl k, f)
           | Inr l \<Rightarrow> copy_bytes l (part bs) (m_mode md) f))"

definition sys_copy :: "path \<Rightarrow> path \<Rightarrow> unit sys" where
  "sys_copy src dst w =
     (let w' = w\<lparr>tick := Suc (tick w)\<rparr> in
      case faults w (tick w) of
        Some k \<Rightarrow>
          (Inl k,
           if torn w (tick w) = 0 then w'
           else w'\<lparr>disk := snd (fs_copy src dst (take (torn w (tick w) - 1)) (cwd w) (disk w))\<rparr>)
      | None \<Rightarrow> (case fs_copy src dst id (cwd w) (disk w) of (r, f) \<Rightarrow> (r, w'\<lparr>disk := f\<rparr>)))"

text \<open>Time: the wall clock in nanoseconds, a monotonic clock in milliseconds, and \<open>sleep\<close>.\<close>

definition now_nanos :: "(world, 'e, nat) io" where
  "now_nanos w = (Inr (clock w (tick w)), w\<lparr>tick := Suc (tick w)\<rparr>)"

definition instant_now :: "(world, 'e, nat) io" where
  "instant_now w = (Inr (elapsed w), w)"

definition sleep :: "nat \<Rightarrow> (world, 'e, unit) io" where
  "sleep ms w =
     (Inr (), w\<lparr>tick := Suc (tick w), elapsed := elapsed w + ms + oversleep w (tick w),
               disk := others w (tick w) (disk w)\<rparr>)"

text \<open>The process-wide counter of operations: \<open>fetch_add\<close> wraps around.\<close>

definition next_sequence :: "(world, 'e, 64 word) io" where
  "next_sequence w = (Inr (sequence w), w\<lparr>sequence := sequence w + 1\<rparr>)"

text \<open>Opening an existing file or directory for reading only, for \<open>sync_all\<close>.\<close>

definition open_existing :: "path \<Rightarrow> unit sys" where
  "open_existing p = query (\<lambda>c f. map_ok (\<lambda>_. ()) (resolve_path f c True p))"

definition current_dir :: "path sys" where
  "current_dir = query (\<lambda>c _. Inr (render c))"

end
