(* ===== verification/Peer_Types.thy ===== *)
theory Peer_Types
  imports Json Rust_Fs
begin

text \<open>
  The data of \<open>mesh_core/src/services/peer_access.rs\<close>: project configuration, publication
  request, manifest, resolution, errors, each struct with its derived JSON form. Field names
  carry a prefix for their struct.
\<close>

section \<open>Constants and enums\<close>

definition PROJECT_SCHEMA_VERSION :: "32 word" where "PROJECT_SCHEMA_VERSION = 1"
definition MANIFEST_SCHEMA_VERSION :: "32 word" where "MANIFEST_SCHEMA_VERSION = 1"
definition PEER_PROTOCOL_VERSION :: string where "PEER_PROTOCOL_VERSION = ''feam.peer.v1''"
definition MAX_MANIFEST_BYTES :: nat where "MAX_MANIFEST_BYTES = 8 * 1024 * 1024"
definition MAX_CATALOG_INPUT_BYTES :: nat where "MAX_CATALOG_INPUT_BYTES = 32 * 1024 * 1024"
definition MAX_PROJECT_BYTES :: nat where "MAX_PROJECT_BYTES = 256 * 1024"

datatype data_kind = Table | Raster
datatype data_format = Parquet_Format | Geotiff
datatype lifecycle = Active | Withdrawn

fun ser_data_kind :: "data_kind \<Rightarrow> json" where
  "ser_data_kind Table = JStr ''table''"
| "ser_data_kind Raster = JStr ''raster''"

definition de_data_kind :: "json \<Rightarrow> data_kind de" where
  "de_data_kind j =
     (if j = JStr ''table'' then Inr Table else if j = JStr ''raster'' then Inr Raster
      else Inl (InvalidValue ''DataKind''))"

fun ser_data_format :: "data_format \<Rightarrow> json" where
  "ser_data_format Parquet_Format = JStr ''parquet''"
| "ser_data_format Geotiff = JStr ''geotiff''"

definition de_data_format :: "json \<Rightarrow> data_format de" where
  "de_data_format j =
     (if j = JStr ''parquet'' then Inr Parquet_Format
      else if j = JStr ''geotiff'' then Inr Geotiff
      else Inl (InvalidValue ''DataFormat''))"

fun ser_lifecycle :: "lifecycle \<Rightarrow> json" where
  "ser_lifecycle Active = JStr ''active''"
| "ser_lifecycle Withdrawn = JStr ''withdrawn''"

definition de_lifecycle :: "json \<Rightarrow> lifecycle de" where
  "de_lifecycle j =
     (if j = JStr ''active'' then Inr Active else if j = JStr ''withdrawn'' then Inr Withdrawn
      else Inl (InvalidValue ''Lifecycle''))"

lemma reads_enums [reads_rules, simp]:
  "reads de_data_kind ser_data_kind k"
  "reads de_data_format ser_data_format g"
  "reads de_lifecycle ser_lifecycle l"
  by (cases k; cases g; cases l; simp add: reads_def de_data_kind_def de_data_format_def de_lifecycle_def)+

section \<open>Errors\<close>

datatype peer_error =
    Validation string string
  | NotFound string
  | DatasetNotRegistered string
  | PeerUnavailable string
  | WithdrawnVersion string
  | Policy string
  | Conflict string
  | Integrity string
  | LockTimeout string
  | UnsupportedFormat string
  | Io io_kind
  | Json_Error de_error
  | TomlDeserialize string
  | TomlSerialize string
  | Parquet string
  | GeoTiff string

type_synonym 'a peer_result = "peer_error + 'a"

fun error_kind :: "peer_error \<Rightarrow> string" where
  "error_kind (Validation _ _) = ''bad_metadata''"
| "error_kind (NotFound _) = ''not_found''"
| "error_kind (DatasetNotRegistered _) = ''dataset_not_registered''"
| "error_kind (PeerUnavailable _) = ''peer_unavailable''"
| "error_kind (WithdrawnVersion _) = ''withdrawn_version''"
| "error_kind (Policy _) = ''policy_failure''"
| "error_kind (Conflict _) = ''publication_conflict''"
| "error_kind (Integrity _) = ''integrity_failed''"
| "error_kind (LockTimeout _) = ''lock_timeout''"
| "error_kind (UnsupportedFormat _) = ''unsupported_format''"
| "error_kind (Io _) = ''filesystem_error''"
| "error_kind (Json_Error _) = ''malformed_manifest''"
| "error_kind (TomlDeserialize _) = ''project_config_error''"
| "error_kind (TomlSerialize _) = ''project_config_error''"
| "error_kind (Parquet _) = ''unsupported_format''"
| "error_kind (GeoTiff _) = ''unsupported_format''"

fun exit_code :: "peer_error \<Rightarrow> 8 word" where
  "exit_code (Validation _ _) = 3"
| "exit_code (UnsupportedFormat _) = 3"
| "exit_code (Parquet _) = 3"
| "exit_code (GeoTiff _) = 3"
| "exit_code (NotFound _) = 4"
| "exit_code (DatasetNotRegistered _) = 4"
| "exit_code (PeerUnavailable _) = 5"
| "exit_code (WithdrawnVersion _) = 5"
| "exit_code (Policy _) = 5"
| "exit_code (Integrity _) = 5"
| "exit_code (Conflict _) = 1"
| "exit_code (LockTimeout _) = 1"
| "exit_code (Io _) = 1"
| "exit_code (Json_Error _) = 1"
| "exit_code (TomlDeserialize _) = 1"
| "exit_code (TomlSerialize _) = 1"

section \<open>Project configuration\<close>

record peer_route_config =
  prc_alias :: string
  prc_namespace :: string
  prc_path :: path

record project_config =
  pc_schema_version :: "32 word"
  pc_namespace :: string
  pc_serving_dir :: "path option"
  pc_owner_teams :: "string list"
  pc_peers :: "peer_route_config list"

record project =
  root :: path
  config :: project_config

record route =
  displayed_root :: path
  canonical_root :: path
  route_namespace :: string

definition namespace_of :: "project \<Rightarrow> string" where
  "namespace_of p = pc_namespace (config p)"

definition ser_peer_route_config :: "peer_route_config \<Rightarrow> json" where
  "ser_peer_route_config c =
     JObj [(''alias'', JStr (prc_alias c)), (''namespace'', JStr (prc_namespace c)),
           (''path'', JStr (prc_path c))]"

definition de_peer_route_config :: "json \<Rightarrow> peer_route_config de" where
  "de_peer_route_config j =
     and_then (object_fields True [''alias'', ''namespace'', ''path''] j) (\<lambda>kvs.
     and_then (field ''alias'' de_string kvs) (\<lambda>a.
     and_then (field ''namespace'' de_string kvs) (\<lambda>n.
     and_then (field ''path'' de_string kvs) (\<lambda>p.
     Inr \<lparr>prc_alias = a, prc_namespace = n, prc_path = p\<rparr>))))"

definition ser_project_config :: "project_config \<Rightarrow> json" where
  "ser_project_config c =
     JObj ([(''schema_version'', ser_word (pc_schema_version c)),
            (''namespace'', JStr (pc_namespace c))] @
           skip_none ''serving_dir'' JStr (pc_serving_dir c) @
           [(''owner_teams'', ser_list JStr (pc_owner_teams c)),
            (''peers'', ser_list ser_peer_route_config (pc_peers c))])"

definition de_project_config :: "json \<Rightarrow> project_config de" where
  "de_project_config j =
     and_then (object_fields True
       [''schema_version'', ''namespace'', ''serving_dir'', ''owner_teams'', ''peers''] j) (\<lambda>kvs.
     and_then (field ''schema_version'' de_word kvs) (\<lambda>v.
     and_then (field ''namespace'' de_string kvs) (\<lambda>n.
     and_then (field_option ''serving_dir'' de_string kvs) (\<lambda>d.
     and_then (field_default ''owner_teams'' [] (de_list de_string) kvs) (\<lambda>t.
     and_then (field_default ''peers'' [] (de_list de_peer_route_config) kvs) (\<lambda>p.
     Inr \<lparr>pc_schema_version = v, pc_namespace = n, pc_serving_dir = d, pc_owner_teams = t,
          pc_peers = p\<rparr>))))))"

lemma reads_peer_route_config [reads_rules, simp]: "reads de_peer_route_config ser_peer_route_config c"
  by (cases c) (simp add: reads_def de_peer_route_config_def ser_peer_route_config_def
      object_fields_def field_def)

lemma object_fields_ok:
  "distinct (map fst kvs) \<Longrightarrow> set (map fst kvs) \<subseteq> set known \<Longrightarrow>
   object_fields strict known (JObj kvs) = Inr kvs"
proof -
  assume d: "distinct (map fst kvs)" and s: "set (map fst kvs) \<subseteq> set known"
  have "duplicate_in ks = None" if "distinct ks" for ks
    using that by (induction ks) auto
  moreover have "filter (\<lambda>k. k \<in> set known) (map fst kvs) = map fst kvs"
    using s by (intro filter_True) blast
  moreover have "filter (\<lambda>k. k \<notin> set known) (map fst kvs) = []"
    using s by (auto simp: filter_empty_conv)
  ultimately show ?thesis using d by (simp add: object_fields_def Let_def)
qed

lemma skip_none_keys [simp]:
  "k \<in> fst ` set (skip_none k' g x) \<longleftrightarrow> k = k' \<and> x \<noteq> None"
  "fst ` set (skip_none k' g x) \<subseteq> A \<longleftrightarrow> x = None \<or> k' \<in> A"
  "fst ` set (skip_none k' g x) \<inter> A = {} \<longleftrightarrow> x = None \<or> k' \<notin> A"
  "A \<inter> fst ` set (skip_none k' g x) = {} \<longleftrightarrow> x = None \<or> k' \<notin> A"
  "distinct (map fst (skip_none k' g x))"
  by (cases x; auto simp: skip_none_def)+

lemma reads_project_config [reads_rules, simp]: "reads de_project_config ser_project_config c"
proof (cases c)
  case (fields v n d t p)
  have "is_none_or (reads de_string JStr) d" by (cases d) auto
  then show ?thesis
    by (simp add: reads_def [of de_project_config] de_project_config_def ser_project_config_def
        fields list_all_iff object_fields_ok)
qed

section \<open>Publication requests\<close>

record lineage_reference =
  lr_product :: string
  lr_version :: "string option"

record declared_asset =
  da_id :: string
  da_path :: path
  da_role :: string
  da_media_type :: string
  da_digest_opt_out :: bool

record table_publication =
  tp_column_meanings :: "(string, string) btree"
  tp_column_units :: "(string, string) btree"
  tp_partition_columns :: "string list"

record raster_publication =
  rp_datetime :: "string option"
  rp_start_datetime :: "string option"
  rp_end_datetime :: "string option"
  rp_bbox :: "f64 \<times> f64 \<times> f64 \<times> f64"
  rp_semantics :: "(string, string) btree"

record publication_request =
  pr_schema_version :: "32 word"
  pr_namespace :: string
  pr_product_id :: string
  pr_name :: string
  pr_version :: string
  pr_data_kind :: data_kind
  pr_data_format :: data_format
  pr_description :: string
  pr_intended_use :: string
  pr_limitations :: string
  pr_owner_team :: string
  pr_producer :: string
  pr_contact :: string
  pr_usage_policy :: string
  pr_classification :: string
  pr_quality :: string
  pr_assets :: "declared_asset list"
  pr_lineage :: "lineage_reference list"
  pr_table :: "table_publication option"
  pr_raster :: "raster_publication option"

section \<open>Manifest\<close>

record asset_record =
  ar_id :: string
  ar_path :: path
  ar_role :: string
  ar_media_type :: string
  ar_size :: "64 word"
  ar_sha256 :: "string option"

record table_descriptor =
  td_columns :: "(string, string) btree"
  td_schema_fingerprint :: string
  td_row_count :: "64 word"
  td_partition_columns :: "string list"
  td_column_meanings :: "(string, string) btree"
  td_column_units :: "(string, string) btree"

record raster_descriptor =
  rd_width :: "32 word"
  rd_height :: "32 word"
  rd_color_type :: string
  rd_geo_key_directory :: "16 word list"
  rd_crs :: "string option"
  rd_nodata :: "string option"
  rd_datetime :: "string option"
  rd_start_datetime :: "string option"
  rd_end_datetime :: "string option"
  rd_bbox :: "f64 \<times> f64 \<times> f64 \<times> f64"
  rd_semantics :: "(string, string) btree"

record published_version =
  pv_product_id :: string
  pv_name :: string
  pv_version :: string
  pv_lifecycle :: lifecycle
  pv_withdrawal_reason :: "string option"
  pv_data_kind :: data_kind
  pv_data_format :: data_format
  pv_description :: string
  pv_intended_use :: string
  pv_limitations :: string
  pv_owner_team :: string
  pv_producer :: string
  pv_contact :: string
  pv_usage_policy :: string
  pv_classification :: string
  pv_quality :: string
  pv_assets :: "asset_record list"
  pv_lineage :: "lineage_reference list"
  pv_table :: "table_descriptor option"
  pv_raster :: "raster_descriptor option"
  pv_published_at :: string
  pv_withdrawn_at :: "string option"

record manifest_product =
  mp_id :: string
  mp_name :: string
  mp_versions :: "published_version list"

record serving_manifest =
  sm_schema_version :: "32 word"
  sm_namespace :: string
  sm_revision :: "64 word"
  sm_updated_at :: string
  sm_products :: "manifest_product list"

record publication_response =
  resp_protocol :: string
  resp_reference :: string
  resp_version :: string
  resp_manifest_revision :: "64 word"
  resp_status :: string

definition empty_manifest :: "string \<Rightarrow> string \<Rightarrow> serving_manifest" where
  "empty_manifest ns now =
     \<lparr>sm_schema_version = MANIFEST_SCHEMA_VERSION, sm_namespace = ns, sm_revision = 0,
      sm_updated_at = now, sm_products = []\<rparr>"

section \<open>Resolution and staging\<close>

record resolved_asset =
  ra_id :: string
  ra_project_access_path :: path
  ra_media_type :: string
  ra_role :: string
  ra_size :: "64 word"
  ra_sha256 :: "string option"

record resolved_product =
  rs_protocol :: string
  rs_namespace :: string
  rs_product_id :: string
  rs_version :: string
  rs_manifest_revision :: "64 word"
  rs_data_kind :: data_kind
  rs_data_format :: data_format
  rs_assets :: "resolved_asset list"
  rs_description :: string
  rs_intended_use :: string
  rs_limitations :: string
  rs_owner_team :: string
  rs_producer :: string
  rs_contact :: string
  rs_usage_policy :: string
  rs_classification :: string
  rs_quality :: string
  rs_lineage :: "lineage_reference list"
  rs_table :: "table_descriptor option"
  rs_raster :: "raster_descriptor option"
  rs_cache_refreshed_at :: "string option"
  rs_freshness :: string
  rs_integrity_verified :: bool

record stage_receipt =
  sr_protocol :: string
  sr_reference :: string
  sr_version :: string
  sr_manifest_revision :: "64 word"
  sr_assets :: "resolved_asset list"
  sr_output_path :: path
  sr_retrieved_at :: string

record cache_peer_status =
  cps_namespace :: string
  cps_revision :: "64 word option"
  cps_refreshed_at :: string
  cps_error :: "string option"

record cache_snapshot =
  cs_schema_version :: "32 word"
  cs_project_namespace :: string
  cs_peers :: "cache_peer_status list"

record peer_coverage =
  cov_namespace :: string
  cov_revision :: "64 word option"
  cov_observed_at :: string
  cov_available :: bool
  cov_error :: "string option"

record registered_listing =
  listing_entries :: "(string \<times> manifest_product \<times> 64 word) list"
  listing_coverage :: "peer_coverage list"

end
