(* ===== verification/Peer_Json.thy ===== *)
theory Peer_Json
  imports Peer_Types
begin

text \<open>
  The JSON form of every struct of \<open>peer_access.rs\<close>, as its derive attributes make it, and that it
  is read back as it was written: \<open>wf_...\<close> asks of a value what its Rust type guarantees (ordered
  maps) and that its bounding boxes are finite.
\<close>

lemma is_none_or_iff: "is_none_or p x \<longleftrightarrow> (\<forall>y. x = Some y \<longrightarrow> p y)"
  by (cases x) auto

lemma map_of_skip_none [simp]:
  "k \<noteq> k' \<Longrightarrow> map_of (skip_none k' g x @ kvs) k = map_of kvs k"
  "k \<noteq> k' \<Longrightarrow> map_of (skip_none k' g x) k = None"
  by (cases x; simp add: skip_none_def)+

definition ser_lineage_reference :: "lineage_reference \<Rightarrow> json" where
  "ser_lineage_reference x =
     JObj ([(''product'', JStr (lr_product x))] @
           skip_none ''version'' JStr (lr_version x))"

definition de_lineage_reference :: "json \<Rightarrow> lineage_reference de" where
  "de_lineage_reference j =
     and_then (object_fields True
       [''product'', ''version''] j) (\<lambda>kvs.
     and_then (field ''product'' de_string kvs) (\<lambda>x0.
     and_then (field_option ''version'' de_string kvs) (\<lambda>x1.
     Inr \<lparr>lr_product = x0, lr_version = x1\<rparr>)))"

lemma reads_lineage_reference [reads_rules, simp]: "reads de_lineage_reference ser_lineage_reference x"
  by (cases x) (simp add: reads_def [of de_lineage_reference] de_lineage_reference_def ser_lineage_reference_def
      object_fields_ok list_all_iff is_none_or_iff)

definition ser_declared_asset :: "declared_asset \<Rightarrow> json" where
  "ser_declared_asset x =
     JObj ([(''id'', JStr (da_id x)),
            (''path'', JStr (da_path x)),
            (''role'', JStr (da_role x)),
            (''media_type'', JStr (da_media_type x)),
            (''digest_opt_out'', JBool (da_digest_opt_out x))])"

definition de_declared_asset :: "json \<Rightarrow> declared_asset de" where
  "de_declared_asset j =
     and_then (object_fields True
       [''id'', ''path'', ''role'', ''media_type'', ''digest_opt_out''] j) (\<lambda>kvs.
     and_then (field ''id'' de_string kvs) (\<lambda>x0.
     and_then (field ''path'' de_string kvs) (\<lambda>x1.
     and_then (field ''role'' de_string kvs) (\<lambda>x2.
     and_then (field ''media_type'' de_string kvs) (\<lambda>x3.
     and_then (field_default ''digest_opt_out'' False de_bool kvs) (\<lambda>x4.
     Inr \<lparr>da_id = x0, da_path = x1, da_role = x2, da_media_type = x3, da_digest_opt_out = x4\<rparr>))))))"

lemma reads_declared_asset [reads_rules, simp]: "reads de_declared_asset ser_declared_asset x"
  by (cases x) (simp add: reads_def [of de_declared_asset] de_declared_asset_def ser_declared_asset_def
      object_fields_ok list_all_iff is_none_or_iff)

definition ser_table_publication :: "table_publication \<Rightarrow> json" where
  "ser_table_publication x =
     JObj ([(''column_meanings'', (ser_btree JStr) (tp_column_meanings x)),
            (''column_units'', (ser_btree JStr) (tp_column_units x)),
            (''partition_columns'', (ser_list JStr) (tp_partition_columns x))])"

definition de_table_publication :: "json \<Rightarrow> table_publication de" where
  "de_table_publication j =
     and_then (object_fields True
       [''column_meanings'', ''column_units'', ''partition_columns''] j) (\<lambda>kvs.
     and_then (field_default ''column_meanings'' [] (de_btree de_string) kvs) (\<lambda>x0.
     and_then (field_default ''column_units'' [] (de_btree de_string) kvs) (\<lambda>x1.
     and_then (field_default ''partition_columns'' [] (de_list de_string) kvs) (\<lambda>x2.
     Inr \<lparr>tp_column_meanings = x0, tp_column_units = x1, tp_partition_columns = x2\<rparr>))))"

definition wf_table_publication :: "table_publication \<Rightarrow> bool" where
  "wf_table_publication x \<longleftrightarrow> bt_wf (tp_column_meanings x) \<and>
     bt_wf (tp_column_units x)"

lemma reads_table_publication [reads_rules, simp]:
  "wf_table_publication x \<Longrightarrow> reads de_table_publication ser_table_publication x"
  by (cases x) (simp add: reads_def [of de_table_publication] de_table_publication_def ser_table_publication_def wf_table_publication_def
      object_fields_ok list_all_iff is_none_or_iff)

lemma wf_de_table_publication:
  "de_table_publication j = Inr x \<Longrightarrow> wf_table_publication x"
  "de_list de_table_publication i = Inr xs \<Longrightarrow> list_all wf_table_publication xs"
proof -
  show wf: "wf_table_publication x" if "de_table_publication j = Inr x" for j x
    using that unfolding de_table_publication_def wf_table_publication_def
    by (auto dest!: fieldD field_defaultD field_optionD simp: is_none_or_iff
        dest: de_btree_wf de_f64_4_finite)
  show "de_list de_table_publication i = Inr xs \<Longrightarrow> list_all wf_table_publication xs"
    by (erule de_list_all) (rule wf)
qed

definition ser_raster_publication :: "raster_publication \<Rightarrow> json" where
  "ser_raster_publication x =
     JObj ([(''datetime'', ser_option JStr (rp_datetime x))] @
           skip_none ''start_datetime'' JStr (rp_start_datetime x) @
           skip_none ''end_datetime'' JStr (rp_end_datetime x) @
           [(''bbox'', ser_f64_4 (rp_bbox x)),
            (''semantics'', (ser_btree JStr) (rp_semantics x))])"

definition de_raster_publication :: "json \<Rightarrow> raster_publication de" where
  "de_raster_publication j =
     and_then (object_fields True
       [''datetime'', ''start_datetime'', ''end_datetime'', ''bbox'', ''semantics''] j) (\<lambda>kvs.
     and_then (field_option ''datetime'' de_string kvs) (\<lambda>x0.
     and_then (field_option ''start_datetime'' de_string kvs) (\<lambda>x1.
     and_then (field_option ''end_datetime'' de_string kvs) (\<lambda>x2.
     and_then (field ''bbox'' de_f64_4 kvs) (\<lambda>x3.
     and_then (field_default ''semantics'' [] (de_btree de_string) kvs) (\<lambda>x4.
     Inr \<lparr>rp_datetime = x0, rp_start_datetime = x1, rp_end_datetime = x2, rp_bbox = x3,
          rp_semantics = x4\<rparr>))))))"

definition wf_raster_publication :: "raster_publication \<Rightarrow> bool" where
  "wf_raster_publication x \<longleftrightarrow> finite_4 (rp_bbox x) \<and>
     bt_wf (rp_semantics x)"

lemma reads_raster_publication [reads_rules, simp]:
  "wf_raster_publication x \<Longrightarrow> reads de_raster_publication ser_raster_publication x"
  by (cases x) (simp add: reads_def [of de_raster_publication] de_raster_publication_def ser_raster_publication_def wf_raster_publication_def
      object_fields_ok list_all_iff is_none_or_iff)

lemma wf_de_raster_publication:
  "de_raster_publication j = Inr x \<Longrightarrow> wf_raster_publication x"
  "de_list de_raster_publication i = Inr xs \<Longrightarrow> list_all wf_raster_publication xs"
proof -
  show wf: "wf_raster_publication x" if "de_raster_publication j = Inr x" for j x
    using that unfolding de_raster_publication_def wf_raster_publication_def
    by (auto dest!: fieldD field_defaultD field_optionD simp: is_none_or_iff
        dest: de_btree_wf de_f64_4_finite wf_de_table_publication)
  show "de_list de_raster_publication i = Inr xs \<Longrightarrow> list_all wf_raster_publication xs"
    by (erule de_list_all) (rule wf)
qed

definition ser_publication_request :: "publication_request \<Rightarrow> json" where
  "ser_publication_request x =
     JObj ([(''schema_version'', ser_word (pr_schema_version x)),
            (''namespace'', JStr (pr_namespace x)),
            (''product_id'', JStr (pr_product_id x)),
            (''name'', JStr (pr_name x)),
            (''version'', JStr (pr_version x)),
            (''data_kind'', ser_data_kind (pr_data_kind x)),
            (''data_format'', ser_data_format (pr_data_format x)),
            (''description'', JStr (pr_description x)),
            (''intended_use'', JStr (pr_intended_use x)),
            (''limitations'', JStr (pr_limitations x)),
            (''owner_team'', JStr (pr_owner_team x)),
            (''producer'', JStr (pr_producer x)),
            (''contact'', JStr (pr_contact x)),
            (''usage_policy'', JStr (pr_usage_policy x)),
            (''classification'', JStr (pr_classification x)),
            (''quality'', JStr (pr_quality x)),
            (''assets'', (ser_list ser_declared_asset) (pr_assets x)),
            (''lineage'', (ser_list ser_lineage_reference) (pr_lineage x))] @
           skip_none ''table'' ser_table_publication (pr_table x) @
           skip_none ''raster'' ser_raster_publication (pr_raster x))"

definition de_publication_request :: "json \<Rightarrow> publication_request de" where
  "de_publication_request j =
     and_then (object_fields True
       [''schema_version'', ''namespace'', ''product_id'', ''name'', ''version'', ''data_kind'',
        ''data_format'', ''description'', ''intended_use'', ''limitations'',
        ''owner_team'', ''producer'', ''contact'', ''usage_policy'', ''classification'',
        ''quality'', ''assets'', ''lineage'', ''table'', ''raster''] j) (\<lambda>kvs.
     and_then (field_default ''schema_version'' 1 de_word kvs) (\<lambda>x0.
     and_then (field ''namespace'' de_string kvs) (\<lambda>x1.
     and_then (field ''product_id'' de_string kvs) (\<lambda>x2.
     and_then (field ''name'' de_string kvs) (\<lambda>x3.
     and_then (field ''version'' de_string kvs) (\<lambda>x4.
     and_then (field ''data_kind'' de_data_kind kvs) (\<lambda>x5.
     and_then (field ''data_format'' de_data_format kvs) (\<lambda>x6.
     and_then (field ''description'' de_string kvs) (\<lambda>x7.
     and_then (field ''intended_use'' de_string kvs) (\<lambda>x8.
     and_then (field ''limitations'' de_string kvs) (\<lambda>x9.
     and_then (field ''owner_team'' de_string kvs) (\<lambda>x10.
     and_then (field ''producer'' de_string kvs) (\<lambda>x11.
     and_then (field ''contact'' de_string kvs) (\<lambda>x12.
     and_then (field ''usage_policy'' de_string kvs) (\<lambda>x13.
     and_then (field ''classification'' de_string kvs) (\<lambda>x14.
     and_then (field ''quality'' de_string kvs) (\<lambda>x15.
     and_then (field ''assets'' (de_list de_declared_asset) kvs) (\<lambda>x16.
     and_then (field_default ''lineage'' [] (de_list de_lineage_reference) kvs) (\<lambda>x17.
     and_then (field_option ''table'' de_table_publication kvs) (\<lambda>x18.
     and_then (field_option ''raster'' de_raster_publication kvs) (\<lambda>x19.
     Inr \<lparr>pr_schema_version = x0, pr_namespace = x1, pr_product_id = x2, pr_name = x3, pr_version
          = x4, pr_data_kind = x5, pr_data_format = x6, pr_description = x7,
          pr_intended_use = x8, pr_limitations = x9, pr_owner_team = x10, pr_producer =
          x11, pr_contact = x12, pr_usage_policy = x13, pr_classification = x14,
          pr_quality = x15, pr_assets = x16, pr_lineage = x17, pr_table = x18, pr_raster
          = x19\<rparr>)))))))))))))))))))))"

definition wf_publication_request :: "publication_request \<Rightarrow> bool" where
  "wf_publication_request x \<longleftrightarrow> is_none_or wf_table_publication (pr_table x) \<and>
     is_none_or wf_raster_publication (pr_raster x)"

lemma reads_publication_request [reads_rules, simp]:
  "wf_publication_request x \<Longrightarrow> reads de_publication_request ser_publication_request x"
  by (cases x) (simp add: reads_def [of de_publication_request] de_publication_request_def ser_publication_request_def wf_publication_request_def
      object_fields_ok list_all_iff is_none_or_iff)

lemma wf_de_publication_request:
  "de_publication_request j = Inr x \<Longrightarrow> wf_publication_request x"
  "de_list de_publication_request i = Inr xs \<Longrightarrow> list_all wf_publication_request xs"
proof -
  show wf: "wf_publication_request x" if "de_publication_request j = Inr x" for j x
    using that unfolding de_publication_request_def wf_publication_request_def
    by (auto dest!: fieldD field_defaultD field_optionD simp: is_none_or_iff
        dest: de_btree_wf de_f64_4_finite wf_de_table_publication wf_de_raster_publication)
  show "de_list de_publication_request i = Inr xs \<Longrightarrow> list_all wf_publication_request xs"
    by (erule de_list_all) (rule wf)
qed

definition ser_asset_record :: "asset_record \<Rightarrow> json" where
  "ser_asset_record x =
     JObj ([(''id'', JStr (ar_id x)),
            (''path'', JStr (ar_path x)),
            (''role'', JStr (ar_role x)),
            (''media_type'', JStr (ar_media_type x)),
            (''size'', ser_word (ar_size x))] @
           skip_none ''sha256'' JStr (ar_sha256 x))"

definition de_asset_record :: "json \<Rightarrow> asset_record de" where
  "de_asset_record j =
     and_then (object_fields True
       [''id'', ''path'', ''role'', ''media_type'', ''size'', ''sha256''] j) (\<lambda>kvs.
     and_then (field ''id'' de_string kvs) (\<lambda>x0.
     and_then (field ''path'' de_string kvs) (\<lambda>x1.
     and_then (field ''role'' de_string kvs) (\<lambda>x2.
     and_then (field ''media_type'' de_string kvs) (\<lambda>x3.
     and_then (field ''size'' de_word kvs) (\<lambda>x4.
     and_then (field_option ''sha256'' de_string kvs) (\<lambda>x5.
     Inr \<lparr>ar_id = x0, ar_path = x1, ar_role = x2, ar_media_type = x3, ar_size = x4, ar_sha256 = x5\<rparr>)))))))"

lemma reads_asset_record [reads_rules, simp]: "reads de_asset_record ser_asset_record x"
  by (cases x) (simp add: reads_def [of de_asset_record] de_asset_record_def ser_asset_record_def
      object_fields_ok list_all_iff is_none_or_iff)

definition ser_table_descriptor :: "table_descriptor \<Rightarrow> json" where
  "ser_table_descriptor x =
     JObj ([(''columns'', (ser_btree JStr) (td_columns x)),
            (''schema_fingerprint'', JStr (td_schema_fingerprint x)),
            (''row_count'', ser_i64 (td_row_count x)),
            (''partition_columns'', (ser_list JStr) (td_partition_columns x)),
            (''column_meanings'', (ser_btree JStr) (td_column_meanings x)),
            (''column_units'', (ser_btree JStr) (td_column_units x))])"

definition de_table_descriptor :: "json \<Rightarrow> table_descriptor de" where
  "de_table_descriptor j =
     and_then (object_fields True
       [''columns'', ''schema_fingerprint'', ''row_count'', ''partition_columns'',
        ''column_meanings'', ''column_units''] j) (\<lambda>kvs.
     and_then (field ''columns'' (de_btree de_string) kvs) (\<lambda>x0.
     and_then (field ''schema_fingerprint'' de_string kvs) (\<lambda>x1.
     and_then (field ''row_count'' de_i64 kvs) (\<lambda>x2.
     and_then (field ''partition_columns'' (de_list de_string) kvs) (\<lambda>x3.
     and_then (field ''column_meanings'' (de_btree de_string) kvs) (\<lambda>x4.
     and_then (field ''column_units'' (de_btree de_string) kvs) (\<lambda>x5.
     Inr \<lparr>td_columns = x0, td_schema_fingerprint = x1, td_row_count = x2, td_partition_columns =
          x3, td_column_meanings = x4, td_column_units = x5\<rparr>)))))))"

definition wf_table_descriptor :: "table_descriptor \<Rightarrow> bool" where
  "wf_table_descriptor x \<longleftrightarrow> bt_wf (td_columns x) \<and>
     bt_wf (td_column_meanings x) \<and>
     bt_wf (td_column_units x)"

lemma reads_table_descriptor [reads_rules, simp]:
  "wf_table_descriptor x \<Longrightarrow> reads de_table_descriptor ser_table_descriptor x"
  by (cases x) (simp add: reads_def [of de_table_descriptor] de_table_descriptor_def ser_table_descriptor_def wf_table_descriptor_def
      object_fields_ok list_all_iff is_none_or_iff)

lemma wf_de_table_descriptor:
  "de_table_descriptor j = Inr x \<Longrightarrow> wf_table_descriptor x"
  "de_list de_table_descriptor i = Inr xs \<Longrightarrow> list_all wf_table_descriptor xs"
proof -
  show wf: "wf_table_descriptor x" if "de_table_descriptor j = Inr x" for j x
    using that unfolding de_table_descriptor_def wf_table_descriptor_def
    by (auto dest!: fieldD field_defaultD field_optionD simp: is_none_or_iff
        dest: de_btree_wf de_f64_4_finite wf_de_table_publication wf_de_raster_publication wf_de_publication_request)
  show "de_list de_table_descriptor i = Inr xs \<Longrightarrow> list_all wf_table_descriptor xs"
    by (erule de_list_all) (rule wf)
qed

definition ser_raster_descriptor :: "raster_descriptor \<Rightarrow> json" where
  "ser_raster_descriptor x =
     JObj ([(''width'', ser_word (rd_width x)),
            (''height'', ser_word (rd_height x)),
            (''color_type'', JStr (rd_color_type x)),
            (''geo_key_directory'', (ser_list ser_word) (rd_geo_key_directory x))] @
           skip_none ''crs'' JStr (rd_crs x) @
           [(''nodata'', ser_option JStr (rd_nodata x)),
            (''datetime'', ser_option JStr (rd_datetime x))] @
           skip_none ''start_datetime'' JStr (rd_start_datetime x) @
           skip_none ''end_datetime'' JStr (rd_end_datetime x) @
           [(''bbox'', ser_f64_4 (rd_bbox x)),
            (''semantics'', (ser_btree JStr) (rd_semantics x))])"

definition de_raster_descriptor :: "json \<Rightarrow> raster_descriptor de" where
  "de_raster_descriptor j =
     and_then (object_fields True
       [''width'', ''height'', ''color_type'', ''geo_key_directory'', ''crs'', ''nodata'',
        ''datetime'', ''start_datetime'', ''end_datetime'', ''bbox'', ''semantics''] j) (\<lambda>kvs.
     and_then (field ''width'' de_word kvs) (\<lambda>x0.
     and_then (field ''height'' de_word kvs) (\<lambda>x1.
     and_then (field ''color_type'' de_string kvs) (\<lambda>x2.
     and_then (field ''geo_key_directory'' (de_list de_word) kvs) (\<lambda>x3.
     and_then (field_option ''crs'' de_string kvs) (\<lambda>x4.
     and_then (field_option ''nodata'' de_string kvs) (\<lambda>x5.
     and_then (field_option ''datetime'' de_string kvs) (\<lambda>x6.
     and_then (field_option ''start_datetime'' de_string kvs) (\<lambda>x7.
     and_then (field_option ''end_datetime'' de_string kvs) (\<lambda>x8.
     and_then (field ''bbox'' de_f64_4 kvs) (\<lambda>x9.
     and_then (field ''semantics'' (de_btree de_string) kvs) (\<lambda>x10.
     Inr \<lparr>rd_width = x0, rd_height = x1, rd_color_type = x2, rd_geo_key_directory = x3, rd_crs =
          x4, rd_nodata = x5, rd_datetime = x6, rd_start_datetime = x7, rd_end_datetime
          = x8, rd_bbox = x9, rd_semantics = x10\<rparr>))))))))))))"

definition wf_raster_descriptor :: "raster_descriptor \<Rightarrow> bool" where
  "wf_raster_descriptor x \<longleftrightarrow> finite_4 (rd_bbox x) \<and>
     bt_wf (rd_semantics x)"

lemma reads_raster_descriptor [reads_rules, simp]:
  "wf_raster_descriptor x \<Longrightarrow> reads de_raster_descriptor ser_raster_descriptor x"
  by (cases x) (simp add: reads_def [of de_raster_descriptor] de_raster_descriptor_def ser_raster_descriptor_def wf_raster_descriptor_def
      object_fields_ok list_all_iff is_none_or_iff)

lemma wf_de_raster_descriptor:
  "de_raster_descriptor j = Inr x \<Longrightarrow> wf_raster_descriptor x"
  "de_list de_raster_descriptor i = Inr xs \<Longrightarrow> list_all wf_raster_descriptor xs"
proof -
  show wf: "wf_raster_descriptor x" if "de_raster_descriptor j = Inr x" for j x
    using that unfolding de_raster_descriptor_def wf_raster_descriptor_def
    by (auto dest!: fieldD field_defaultD field_optionD simp: is_none_or_iff
        dest: de_btree_wf de_f64_4_finite wf_de_table_publication wf_de_raster_publication wf_de_publication_request wf_de_table_descriptor)
  show "de_list de_raster_descriptor i = Inr xs \<Longrightarrow> list_all wf_raster_descriptor xs"
    by (erule de_list_all) (rule wf)
qed

definition ser_published_version :: "published_version \<Rightarrow> json" where
  "ser_published_version x =
     JObj ([(''product_id'', JStr (pv_product_id x)),
            (''name'', JStr (pv_name x)),
            (''version'', JStr (pv_version x)),
            (''lifecycle'', ser_lifecycle (pv_lifecycle x))] @
           skip_none ''withdrawal_reason'' JStr (pv_withdrawal_reason x) @
           [(''data_kind'', ser_data_kind (pv_data_kind x)),
            (''data_format'', ser_data_format (pv_data_format x)),
            (''description'', JStr (pv_description x)),
            (''intended_use'', JStr (pv_intended_use x)),
            (''limitations'', JStr (pv_limitations x)),
            (''owner_team'', JStr (pv_owner_team x)),
            (''producer'', JStr (pv_producer x)),
            (''contact'', JStr (pv_contact x)),
            (''usage_policy'', JStr (pv_usage_policy x)),
            (''classification'', JStr (pv_classification x)),
            (''quality'', JStr (pv_quality x)),
            (''assets'', (ser_list ser_asset_record) (pv_assets x)),
            (''lineage'', (ser_list ser_lineage_reference) (pv_lineage x))] @
           skip_none ''table'' ser_table_descriptor (pv_table x) @
           skip_none ''raster'' ser_raster_descriptor (pv_raster x) @
           [(''published_at'', JStr (pv_published_at x))] @
           skip_none ''withdrawn_at'' JStr (pv_withdrawn_at x))"

definition de_published_version :: "json \<Rightarrow> published_version de" where
  "de_published_version j =
     and_then (object_fields True
       [''product_id'', ''name'', ''version'', ''lifecycle'', ''withdrawal_reason'',
        ''data_kind'', ''data_format'', ''description'', ''intended_use'',
        ''limitations'', ''owner_team'', ''producer'', ''contact'', ''usage_policy'',
        ''classification'', ''quality'', ''assets'', ''lineage'', ''table'', ''raster'',
        ''published_at'', ''withdrawn_at''] j) (\<lambda>kvs.
     and_then (field ''product_id'' de_string kvs) (\<lambda>x0.
     and_then (field ''name'' de_string kvs) (\<lambda>x1.
     and_then (field ''version'' de_string kvs) (\<lambda>x2.
     and_then (field ''lifecycle'' de_lifecycle kvs) (\<lambda>x3.
     and_then (field_option ''withdrawal_reason'' de_string kvs) (\<lambda>x4.
     and_then (field ''data_kind'' de_data_kind kvs) (\<lambda>x5.
     and_then (field ''data_format'' de_data_format kvs) (\<lambda>x6.
     and_then (field ''description'' de_string kvs) (\<lambda>x7.
     and_then (field ''intended_use'' de_string kvs) (\<lambda>x8.
     and_then (field ''limitations'' de_string kvs) (\<lambda>x9.
     and_then (field ''owner_team'' de_string kvs) (\<lambda>x10.
     and_then (field ''producer'' de_string kvs) (\<lambda>x11.
     and_then (field ''contact'' de_string kvs) (\<lambda>x12.
     and_then (field ''usage_policy'' de_string kvs) (\<lambda>x13.
     and_then (field ''classification'' de_string kvs) (\<lambda>x14.
     and_then (field ''quality'' de_string kvs) (\<lambda>x15.
     and_then (field ''assets'' (de_list de_asset_record) kvs) (\<lambda>x16.
     and_then (field ''lineage'' (de_list de_lineage_reference) kvs) (\<lambda>x17.
     and_then (field_option ''table'' de_table_descriptor kvs) (\<lambda>x18.
     and_then (field_option ''raster'' de_raster_descriptor kvs) (\<lambda>x19.
     and_then (field ''published_at'' de_string kvs) (\<lambda>x20.
     and_then (field_option ''withdrawn_at'' de_string kvs) (\<lambda>x21.
     Inr \<lparr>pv_product_id = x0, pv_name = x1, pv_version = x2, pv_lifecycle = x3,
          pv_withdrawal_reason = x4, pv_data_kind = x5, pv_data_format = x6,
          pv_description = x7, pv_intended_use = x8, pv_limitations = x9, pv_owner_team
          = x10, pv_producer = x11, pv_contact = x12, pv_usage_policy = x13,
          pv_classification = x14, pv_quality = x15, pv_assets = x16, pv_lineage = x17,
          pv_table = x18, pv_raster = x19, pv_published_at = x20, pv_withdrawn_at = x21\<rparr>)))))))))))))))))))))))"

definition wf_published_version :: "published_version \<Rightarrow> bool" where
  "wf_published_version x \<longleftrightarrow> is_none_or wf_table_descriptor (pv_table x) \<and>
     is_none_or wf_raster_descriptor (pv_raster x)"

lemma reads_published_version [reads_rules, simp]:
  "wf_published_version x \<Longrightarrow> reads de_published_version ser_published_version x"
  by (cases x) (simp add: reads_def [of de_published_version] de_published_version_def ser_published_version_def wf_published_version_def
      object_fields_ok list_all_iff is_none_or_iff)

lemma wf_de_published_version:
  "de_published_version j = Inr x \<Longrightarrow> wf_published_version x"
  "de_list de_published_version i = Inr xs \<Longrightarrow> list_all wf_published_version xs"
proof -
  show wf: "wf_published_version x" if "de_published_version j = Inr x" for j x
    using that unfolding de_published_version_def wf_published_version_def
    by (auto dest!: fieldD field_defaultD field_optionD simp: is_none_or_iff
        dest: de_btree_wf de_f64_4_finite wf_de_table_publication wf_de_raster_publication wf_de_publication_request wf_de_table_descriptor wf_de_raster_descriptor)
  show "de_list de_published_version i = Inr xs \<Longrightarrow> list_all wf_published_version xs"
    by (erule de_list_all) (rule wf)
qed

definition ser_manifest_product :: "manifest_product \<Rightarrow> json" where
  "ser_manifest_product x =
     JObj ([(''id'', JStr (mp_id x)),
            (''name'', JStr (mp_name x)),
            (''versions'', (ser_list ser_published_version) (mp_versions x))])"

definition de_manifest_product :: "json \<Rightarrow> manifest_product de" where
  "de_manifest_product j =
     and_then (object_fields True
       [''id'', ''name'', ''versions''] j) (\<lambda>kvs.
     and_then (field ''id'' de_string kvs) (\<lambda>x0.
     and_then (field ''name'' de_string kvs) (\<lambda>x1.
     and_then (field ''versions'' (de_list de_published_version) kvs) (\<lambda>x2.
     Inr \<lparr>mp_id = x0, mp_name = x1, mp_versions = x2\<rparr>))))"

definition wf_manifest_product :: "manifest_product \<Rightarrow> bool" where
  "wf_manifest_product x \<longleftrightarrow> (list_all wf_published_version) (mp_versions x)"

lemma reads_manifest_product [reads_rules, simp]:
  "wf_manifest_product x \<Longrightarrow> reads de_manifest_product ser_manifest_product x"
  by (cases x) (simp add: reads_def [of de_manifest_product] de_manifest_product_def ser_manifest_product_def wf_manifest_product_def
      object_fields_ok list_all_iff is_none_or_iff)

lemma wf_de_manifest_product:
  "de_manifest_product j = Inr x \<Longrightarrow> wf_manifest_product x"
  "de_list de_manifest_product i = Inr xs \<Longrightarrow> list_all wf_manifest_product xs"
proof -
  show wf: "wf_manifest_product x" if "de_manifest_product j = Inr x" for j x
    using that unfolding de_manifest_product_def wf_manifest_product_def
    by (auto dest!: fieldD field_defaultD field_optionD simp: is_none_or_iff
        dest: de_btree_wf de_f64_4_finite wf_de_table_publication wf_de_raster_publication wf_de_publication_request wf_de_table_descriptor wf_de_raster_descriptor wf_de_published_version)
  show "de_list de_manifest_product i = Inr xs \<Longrightarrow> list_all wf_manifest_product xs"
    by (erule de_list_all) (rule wf)
qed

definition ser_serving_manifest :: "serving_manifest \<Rightarrow> json" where
  "ser_serving_manifest x =
     JObj ([(''schema_version'', ser_word (sm_schema_version x)),
            (''namespace'', JStr (sm_namespace x)),
            (''revision'', ser_word (sm_revision x)),
            (''updated_at'', JStr (sm_updated_at x)),
            (''products'', (ser_list ser_manifest_product) (sm_products x))])"

definition de_serving_manifest :: "json \<Rightarrow> serving_manifest de" where
  "de_serving_manifest j =
     and_then (object_fields True
       [''schema_version'', ''namespace'', ''revision'', ''updated_at'', ''products''] j) (\<lambda>kvs.
     and_then (field ''schema_version'' de_word kvs) (\<lambda>x0.
     and_then (field ''namespace'' de_string kvs) (\<lambda>x1.
     and_then (field ''revision'' de_word kvs) (\<lambda>x2.
     and_then (field ''updated_at'' de_string kvs) (\<lambda>x3.
     and_then (field_default ''products'' [] (de_list de_manifest_product) kvs) (\<lambda>x4.
     Inr \<lparr>sm_schema_version = x0, sm_namespace = x1, sm_revision = x2, sm_updated_at = x3,
          sm_products = x4\<rparr>))))))"

definition wf_serving_manifest :: "serving_manifest \<Rightarrow> bool" where
  "wf_serving_manifest x \<longleftrightarrow> (list_all wf_manifest_product) (sm_products x)"

lemma reads_serving_manifest [reads_rules, simp]:
  "wf_serving_manifest x \<Longrightarrow> reads de_serving_manifest ser_serving_manifest x"
  by (cases x) (simp add: reads_def [of de_serving_manifest] de_serving_manifest_def ser_serving_manifest_def wf_serving_manifest_def
      object_fields_ok list_all_iff is_none_or_iff)

lemma wf_de_serving_manifest:
  "de_serving_manifest j = Inr x \<Longrightarrow> wf_serving_manifest x"
  "de_list de_serving_manifest i = Inr xs \<Longrightarrow> list_all wf_serving_manifest xs"
proof -
  show wf: "wf_serving_manifest x" if "de_serving_manifest j = Inr x" for j x
    using that unfolding de_serving_manifest_def wf_serving_manifest_def
    by (auto dest!: fieldD field_defaultD field_optionD simp: is_none_or_iff
        dest: de_btree_wf de_f64_4_finite wf_de_table_publication wf_de_raster_publication wf_de_publication_request wf_de_table_descriptor wf_de_raster_descriptor wf_de_published_version wf_de_manifest_product)
  show "de_list de_serving_manifest i = Inr xs \<Longrightarrow> list_all wf_serving_manifest xs"
    by (erule de_list_all) (rule wf)
qed

definition ser_resolved_asset :: "resolved_asset \<Rightarrow> json" where
  "ser_resolved_asset x =
     JObj ([(''id'', JStr (ra_id x)),
            (''project_access_path'', JStr (ra_project_access_path x)),
            (''media_type'', JStr (ra_media_type x)),
            (''role'', JStr (ra_role x)),
            (''size'', ser_word (ra_size x))] @
           skip_none ''sha256'' JStr (ra_sha256 x))"

definition de_resolved_asset :: "json \<Rightarrow> resolved_asset de" where
  "de_resolved_asset j =
     and_then (object_fields False
       [''id'', ''project_access_path'', ''media_type'', ''role'', ''size'', ''sha256''] j) (\<lambda>kvs.
     and_then (field ''id'' de_string kvs) (\<lambda>x0.
     and_then (field ''project_access_path'' de_string kvs) (\<lambda>x1.
     and_then (field ''media_type'' de_string kvs) (\<lambda>x2.
     and_then (field ''role'' de_string kvs) (\<lambda>x3.
     and_then (field ''size'' de_word kvs) (\<lambda>x4.
     and_then (field_option ''sha256'' de_string kvs) (\<lambda>x5.
     Inr \<lparr>ra_id = x0, ra_project_access_path = x1, ra_media_type = x2, ra_role = x3, ra_size = x4,
          ra_sha256 = x5\<rparr>)))))))"

lemma reads_resolved_asset [reads_rules, simp]: "reads de_resolved_asset ser_resolved_asset x"
  by (cases x) (simp add: reads_def [of de_resolved_asset] de_resolved_asset_def ser_resolved_asset_def
      object_fields_ok list_all_iff is_none_or_iff)

definition ser_stage_receipt :: "stage_receipt \<Rightarrow> json" where
  "ser_stage_receipt x =
     JObj ([(''protocol'', JStr (sr_protocol x)),
            (''reference'', JStr (sr_reference x)),
            (''version'', JStr (sr_version x)),
            (''manifest_revision'', ser_word (sr_manifest_revision x)),
            (''assets'', (ser_list ser_resolved_asset) (sr_assets x)),
            (''output_path'', JStr (sr_output_path x)),
            (''retrieved_at'', JStr (sr_retrieved_at x))])"

definition de_stage_receipt :: "json \<Rightarrow> stage_receipt de" where
  "de_stage_receipt j =
     and_then (object_fields False
       [''protocol'', ''reference'', ''version'', ''manifest_revision'', ''assets'',
        ''output_path'', ''retrieved_at''] j) (\<lambda>kvs.
     and_then (field ''protocol'' de_string kvs) (\<lambda>x0.
     and_then (field ''reference'' de_string kvs) (\<lambda>x1.
     and_then (field ''version'' de_string kvs) (\<lambda>x2.
     and_then (field ''manifest_revision'' de_word kvs) (\<lambda>x3.
     and_then (field ''assets'' (de_list de_resolved_asset) kvs) (\<lambda>x4.
     and_then (field ''output_path'' de_string kvs) (\<lambda>x5.
     and_then (field ''retrieved_at'' de_string kvs) (\<lambda>x6.
     Inr \<lparr>sr_protocol = x0, sr_reference = x1, sr_version = x2, sr_manifest_revision = x3,
          sr_assets = x4, sr_output_path = x5, sr_retrieved_at = x6\<rparr>))))))))"

lemma reads_stage_receipt [reads_rules, simp]: "reads de_stage_receipt ser_stage_receipt x"
  by (cases x) (simp add: reads_def [of de_stage_receipt] de_stage_receipt_def ser_stage_receipt_def
      object_fields_ok list_all_iff is_none_or_iff)

definition ser_cache_peer_status :: "cache_peer_status \<Rightarrow> json" where
  "ser_cache_peer_status x =
     JObj ([(''namespace'', JStr (cps_namespace x)),
            (''revision'', ser_option ser_word (cps_revision x)),
            (''refreshed_at'', JStr (cps_refreshed_at x)),
            (''error'', ser_option JStr (cps_error x))])"

definition de_cache_peer_status :: "json \<Rightarrow> cache_peer_status de" where
  "de_cache_peer_status j =
     and_then (object_fields False
       [''namespace'', ''revision'', ''refreshed_at'', ''error''] j) (\<lambda>kvs.
     and_then (field ''namespace'' de_string kvs) (\<lambda>x0.
     and_then (field_option ''revision'' de_word kvs) (\<lambda>x1.
     and_then (field ''refreshed_at'' de_string kvs) (\<lambda>x2.
     and_then (field_option ''error'' de_string kvs) (\<lambda>x3.
     Inr \<lparr>cps_namespace = x0, cps_revision = x1, cps_refreshed_at = x2, cps_error = x3\<rparr>)))))"

lemma reads_cache_peer_status [reads_rules, simp]: "reads de_cache_peer_status ser_cache_peer_status x"
  by (cases x) (simp add: reads_def [of de_cache_peer_status] de_cache_peer_status_def ser_cache_peer_status_def
      object_fields_ok list_all_iff is_none_or_iff)

definition ser_cache_snapshot :: "cache_snapshot \<Rightarrow> json" where
  "ser_cache_snapshot x =
     JObj ([(''schema_version'', ser_word (cs_schema_version x)),
            (''project_namespace'', JStr (cs_project_namespace x)),
            (''peers'', (ser_list ser_cache_peer_status) (cs_peers x))])"

definition de_cache_snapshot :: "json \<Rightarrow> cache_snapshot de" where
  "de_cache_snapshot j =
     and_then (object_fields False
       [''schema_version'', ''project_namespace'', ''peers''] j) (\<lambda>kvs.
     and_then (field ''schema_version'' de_word kvs) (\<lambda>x0.
     and_then (field ''project_namespace'' de_string kvs) (\<lambda>x1.
     and_then (field ''peers'' (de_list de_cache_peer_status) kvs) (\<lambda>x2.
     Inr \<lparr>cs_schema_version = x0, cs_project_namespace = x1, cs_peers = x2\<rparr>))))"

lemma reads_cache_snapshot [reads_rules, simp]: "reads de_cache_snapshot ser_cache_snapshot x"
  by (cases x) (simp add: reads_def [of de_cache_snapshot] de_cache_snapshot_def ser_cache_snapshot_def
      object_fields_ok list_all_iff is_none_or_iff)

interpretation manifest_json: codec wf_serving_manifest ser_serving_manifest de_serving_manifest
  by unfold_locales (use reads_serving_manifest in \<open>simp add: reads_def\<close>)

interpretation request_json: codec wf_publication_request ser_publication_request de_publication_request
  by unfold_locales (use reads_publication_request in \<open>simp add: reads_def\<close>)

interpretation receipt_json: codec "\<lambda>_. True" ser_stage_receipt de_stage_receipt
  by unfold_locales (use reads_stage_receipt in \<open>simp add: reads_def\<close>)

end
