(* ===== verification/Ext.thy ===== *)
theory Ext
  imports Peer_Json Rust_Fs
begin

text \<open>
  The libraries the program calls and the process environment it reads, as one record of
  parameters. Nothing is assumed of them here: a lemma that relies on one of them says so in a
  hypothesis (\<open>json_reads_back\<close> and the like, stated below).
\<close>

record tiff_info =
  tiff_dimensions :: "string + (32 word \<times> 32 word)"
  tiff_colortype :: "string + string"
  tiff_geo_keys :: "16 word list option"
  tiff_pixel_scale :: bool
  tiff_transformation :: bool
  tiff_nodata :: "string option"

record ext =
  sha256 :: "string \<Rightarrow> string"
  json_parse :: "string \<Rightarrow> json de"
  json_print :: "json \<Rightarrow> string"
  json_pretty :: "json \<Rightarrow> string"
  toml_parse :: "string \<Rightarrow> string + json"
  toml_pretty :: "json \<Rightarrow> string + string"
  utf8_valid :: "string \<Rightarrow> bool"
  rfc3339 :: "nat \<Rightarrow> string"
  parse_rfc3339 :: "string \<Rightarrow> int option"
  parquet_open :: "string \<Rightarrow> string + ((string \<times> string) list \<times> 64 word)"
  tiff_open :: "string \<Rightarrow> string + tiff_info"
  io_text :: "io_kind \<Rightarrow> string"
  debug_result :: "io_kind + path \<Rightarrow> string"
  debug_metadata :: "metadata \<Rightarrow> string"
  unix_metadata :: "metadata \<Rightarrow> string"
  de_error_text :: "de_error \<Rightarrow> string"
  cache_dir_var :: "path option"
  temp_dir :: path
  rfc3339_auto :: "int \<Rightarrow> string"
  parse_f64 :: "string \<Rightarrow> f64 option"

text \<open>\<open>format!("{:x}", Sha256::digest(bytes))\<close>.\<close>

definition hex_digest :: "ext \<Rightarrow> string \<Rightarrow> string" where
  "hex_digest E bs = concat (map hex_byte (sha256 E bs))"

text \<open>Documented behaviour of \<open>serde_json\<close>: what it prints, it parses to the same value.\<close>

definition json_reads_back :: "ext \<Rightarrow> json \<Rightarrow> bool" where
  "json_reads_back E j \<longleftrightarrow>
     json_parse E (json_pretty E j) = Inr j \<and> json_parse E (json_print E j) = Inr j"

definition from_slice :: "ext \<Rightarrow> (json \<Rightarrow> 'a de) \<Rightarrow> string \<Rightarrow> 'a peer_result" where
  "from_slice E f bs = map_err Json_Error (and_then (json_parse E bs) f)"

lemma from_slice_pretty:
  "json_reads_back E (g x) \<Longrightarrow> reads f g x \<Longrightarrow> from_slice E f (json_pretty E (g x)) = Inr x"
  by (simp add: from_slice_def json_reads_back_def reads_def)

text \<open>\<open>Display\<close> of an error.\<close>

fun error_text :: "ext \<Rightarrow> peer_error \<Rightarrow> string" where
  "error_text E (Validation f m) = ''validation failed: '' @ f @ '': '' @ m"
| "error_text E (NotFound s) = ''not found: '' @ s"
| "error_text E (DatasetNotRegistered s) = ''dataset not registered: '' @ s"
| "error_text E (PeerUnavailable s) = ''peer unavailable: '' @ s"
| "error_text E (WithdrawnVersion s) = ''withdrawn version: '' @ s"
| "error_text E (Policy s) = ''permission or policy failure: '' @ s"
| "error_text E (Conflict s) = ''publication conflict: '' @ s"
| "error_text E (Integrity s) = ''integrity verification failed: '' @ s"
| "error_text E (LockTimeout s) = ''publication lock timed out: '' @ s"
| "error_text E (UnsupportedFormat s) = ''unsupported format: '' @ s"
| "error_text E (Io k) = ''filesystem error: '' @ io_text E k"
| "error_text E (Json_Error e) = ''JSON error: '' @ de_error_text E e"
| "error_text E (TomlDeserialize s) = ''project configuration error: '' @ s"
| "error_text E (TomlSerialize s) = ''project configuration serialization error: '' @ s"
| "error_text E (Parquet s) = ''Parquet inspection failed: '' @ s"
| "error_text E (GeoTiff s) = ''GeoTIFF inspection failed: '' @ s"

end
