(* ===== verification/Peer_Validate.thy ===== *)
theory Peer_Validate
  imports Ext
begin

text \<open>
  The checks of \<open>peer_access.rs\<close> that read nothing but their arguments: tokens, references,
  relative paths, project configuration, publication fields, scientific time, and the merging
  of what was found in the assets.
\<close>

section \<open>Tokens and references\<close>

definition non_blank :: "string \<Rightarrow> string \<Rightarrow> unit peer_result" where
  "non_blank f value = ensure (\<not> blank value) (Validation f ''must not be blank'')"

definition token_char :: "char \<Rightarrow> bool" where
  "token_char c =
     (is_ascii_alphanumeric c \<or> c = CHR ''-'' \<or> c = CHR ''_'' \<or> c = CHR ''.'')"

definition validate_token :: "string \<Rightarrow> string \<Rightarrow> unit peer_result" where
  "validate_token f value =
     and_then (non_blank f value) (\<lambda>_.
     ensure (list_all token_char value)
       (Validation f ''may contain only ASCII letters, numbers, hyphens, underscores, and dots''))"

definition validate_namespace :: "string \<Rightarrow> unit peer_result" where
  "validate_namespace = validate_token ''namespace''"

definition validate_product_id :: "string \<Rightarrow> unit peer_result" where
  "validate_product_id = validate_token ''product_id''"

definition validate_version :: "string \<Rightarrow> unit peer_result" where
  "validate_version = validate_token ''version''"

definition reference :: "string \<Rightarrow> string \<Rightarrow> string" where
  "reference ns product_id = ''product://'' @ ns @ ''/'' @ product_id"

definition parse_reference :: "string \<Rightarrow> (string \<times> string) peer_result" where
  "parse_reference value =
     and_then (ok_or (Validation ''reference'' ''must use product://<namespace>/<dataset-id>'')
                 (strip_prefix ''product://'' value)) (\<lambda>without_scheme.
     and_then (ok_or (Validation ''reference'' ''must contain namespace and dataset id'')
                 (split_once slash without_scheme)) (\<lambda>(ns, product_id).
     and_then (ensure (slash \<notin> set product_id)
                 (Validation ''reference'' ''must contain exactly one dataset id'')) (\<lambda>_.
     and_then (validate_namespace ns) (\<lambda>_.
     and_then (validate_product_id product_id) (\<lambda>_.
     Inr (ns, product_id))))))"

definition validate_relative_path :: "path \<Rightarrow> string \<Rightarrow> unit peer_result" where
  "validate_relative_path p f =
     and_then (ensure (p \<noteq> [] \<and> \<not> is_absolute p)
                 (Validation f ''must be a non-empty relative path'')) (\<lambda>_.
     check_all (\<lambda>c. case c of
         Normal _ \<Rightarrow> Inr ()
       | _ \<Rightarrow> Inl (Validation f ''must not contain traversal, root, or prefix components''))
       (components p))"

section \<open>Project configuration\<close>

fun validate_peers :: "string \<Rightarrow> string list \<Rightarrow> string list \<Rightarrow> peer_route_config list \<Rightarrow> unit peer_result" where
  "validate_peers own namespaces aliases [] = Inr ()"
| "validate_peers own namespaces aliases (peer # peers) =
     and_then (non_blank ''peers.alias'' (prc_alias peer)) (\<lambda>_.
     and_then (validate_namespace (prc_namespace peer)) (\<lambda>_.
     and_then (ensure (prc_namespace peer \<noteq> own)
                 (Validation ''peers.namespace'' ''must not duplicate the local namespace'')) (\<lambda>_.
     and_then (ensure (prc_namespace peer \<notin> set namespaces)
                 (Validation ''peers.namespace'' ''must be unique'')) (\<lambda>_.
     and_then (ensure (prc_alias peer \<notin> set aliases)
                 (Validation ''peers.alias'' ''must be unique'')) (\<lambda>_.
     and_then (if is_absolute (prc_path peer) then Inr ()
               else validate_relative_path (prc_path peer) ''peers.path'') (\<lambda>_.
     validate_peers own (prc_namespace peer # namespaces) (prc_alias peer # aliases) peers))))))"

definition validate_project_config :: "project_config \<Rightarrow> unit peer_result" where
  "validate_project_config c =
     and_then (ensure (pc_schema_version c = PROJECT_SCHEMA_VERSION)
                 (Validation ''schema_version'' ''only project schema version 1 is supported'')) (\<lambda>_.
     and_then (validate_namespace (pc_namespace c)) (\<lambda>_.
     and_then (case pc_serving_dir c of
                 Some p \<Rightarrow> validate_relative_path p ''serving_dir'' | None \<Rightarrow> Inr ()) (\<lambda>_.
     and_then (ensure (pc_owner_teams c \<noteq> [])
                 (Validation ''owner_teams''
                   ''must contain at least one provider-authorized team'')) (\<lambda>_.
     and_then (check_all (non_blank ''owner_teams'') (pc_owner_teams c)) (\<lambda>_.
     validate_peers (pc_namespace c) [] [] (pc_peers c))))))"

section \<open>Publication fields\<close>

definition parse_time :: "ext \<Rightarrow> string \<Rightarrow> int peer_result" where
  "parse_time E value =
     ok_or (Validation ''raster.datetime'' ''scientific time must be RFC 3339'') (parse_rfc3339 E value)"

definition raster_time_bounds ::
  "ext \<Rightarrow> string option \<Rightarrow> string option \<Rightarrow> string option \<Rightarrow> (int \<times> int) peer_result" where
  "raster_time_bounds E datetime start finish =
     (case (datetime, start, finish) of
        (Some value, None, None) \<Rightarrow> map_ok (\<lambda>t. (t, t)) (parse_time E value)
      | (None, Some s, Some e) \<Rightarrow>
          and_then (parse_time E s) (\<lambda>s.
          and_then (parse_time E e) (\<lambda>e.
          if e < s then Inl (Validation ''raster.datetime'' ''interval start must not follow end'')
          else Inr (s, e)))
      | _ \<Rightarrow> Inl (Validation ''raster.datetime''
               ''supply datetime alone or null datetime with both start_datetime and end_datetime''))"

definition request_texts :: "publication_request \<Rightarrow> (string \<times> string) list" where
  "request_texts r =
     [(''name'', pr_name r), (''description'', pr_description r),
      (''intended_use'', pr_intended_use r), (''limitations'', pr_limitations r),
      (''owner_team'', pr_owner_team r), (''producer'', pr_producer r),
      (''contact'', pr_contact r), (''usage_policy'', pr_usage_policy r),
      (''classification'', pr_classification r), (''quality'', pr_quality r)]"

definition validate_profile :: "ext \<Rightarrow> publication_request \<Rightarrow> unit peer_result" where
  "validate_profile E r =
     (case (pr_data_kind r, pr_data_format r, pr_table r, pr_raster r) of
        (Table, Parquet_Format, Some _, None) \<Rightarrow> Inr ()
      | (Raster, Geotiff, None, Some raster) \<Rightarrow>
          and_then (raster_time_bounds E (rp_datetime raster) (rp_start_datetime raster)
                      (rp_end_datetime raster)) (\<lambda>_.
          case rp_bbox raster of (w, s, e, n) \<Rightarrow>
            if f64_less e w \<or> f64_less n s
            then Inl (Validation ''raster.bbox'' ''must be [west, south, east, north]'')
            else Inr ())
      | _ \<Rightarrow> Inl (Validation ''data_kind/data_format''
               ''table requires parquet/table metadata and raster requires geotiff/raster metadata''))"

definition validate_publication_fields ::
  "ext \<Rightarrow> project \<Rightarrow> publication_request \<Rightarrow> unit peer_result" where
  "validate_publication_fields E p r =
     and_then (ensure (pr_schema_version r = 1)
                 (Validation ''schema_version'' ''only version 1 is supported'')) (\<lambda>_.
     and_then (ensure (pr_namespace r = namespace_of p)
                 (Policy (''metadata namespace '' @ quote (pr_namespace r) @
                          '' does not match provider namespace '' @ quote (namespace_of p)))) (\<lambda>_.
     and_then (ensure (pr_owner_team r \<in> set (pc_owner_teams (config p)))
                 (Policy (''owner team '' @ quote (pr_owner_team r) @
                          '' is not authorized by this provider project''))) (\<lambda>_.
     and_then (validate_namespace (pr_namespace r)) (\<lambda>_.
     and_then (validate_product_id (pr_product_id r)) (\<lambda>_.
     and_then (validate_version (pr_version r)) (\<lambda>_.
     and_then (check_all (\<lambda>(f, v). non_blank f v) (request_texts r)) (\<lambda>_.
     and_then (ensure (pr_assets r \<noteq> [])
                 (Validation ''assets'' ''must declare at least one asset'')) (\<lambda>_.
     and_then (validate_profile E r) (\<lambda>_.
     check_all (\<lambda>l.
         and_then (non_blank ''lineage.product'' (lr_product l)) (\<lambda>_.
         case lr_version l of Some v \<Rightarrow> validate_version v | None \<Rightarrow> Inr ())) (pr_lineage r))))))))))"

section \<open>Merging what the assets contain\<close>

fun chunks4 :: "'a list \<Rightarrow> ('a \<times> 'a \<times> 'a \<times> 'a) list" where
  "chunks4 (a # b # c # d # xs) = (a, b, c, d) # chunks4 xs"
| "chunks4 _ = []"

fun find_map :: "('a \<Rightarrow> 'b option) \<Rightarrow> 'a list \<Rightarrow> 'b option" where
  "find_map f [] = None"
| "find_map f (x # xs) = (case f x of Some y \<Rightarrow> Some y | None \<Rightarrow> find_map f xs)"

definition epsg_from_geo_keys :: "16 word list \<Rightarrow> 16 word option" where
  "epsg_from_geo_keys keys =
     (if length keys < 4 then None
      else find_map (\<lambda>(key, loc, count, value).
             if (key = 2048 \<or> key = 3072) \<and> loc = 0 \<and> count = 1 then Some value else None)
             (chunks4 (drop 4 keys)))"

definition check_column :: "table_publication \<Rightarrow> string \<Rightarrow> unit peer_result" where
  "check_column declared name =
     and_then (ok_or (Validation ''table.column_meanings'' (''missing meaning for column '' @ quote name))
                 (bt_get (tp_column_meanings declared) name)) (\<lambda>meaning.
     and_then (ok_or (Validation ''table.column_units''
                   (''missing unit or explicit not_applicable/unknown for column '' @ quote name))
                 (bt_get (tp_column_units declared) name)) (\<lambda>unit.
     and_then (non_blank ''table.column_meanings'' meaning) (\<lambda>_.
     non_blank ''table.column_units'' unit)))"

definition merge_table_descriptors ::
  "ext \<Rightarrow> ((string, string) btree \<times> 64 word) list \<Rightarrow> table_publication \<Rightarrow> table_descriptor peer_result" where
  "merge_table_descriptors E descriptors declared =
     (case descriptors of
        [] \<Rightarrow> Inl (Validation ''assets'' ''must declare at least one table asset'')
      | (columns, _) # shards \<Rightarrow>
          and_then (check_all (\<lambda>(candidate, _).
                        ensure (candidate = columns)
                          (Parquet ''declared shards have incompatible physical schemas'')) shards) (\<lambda>_.
          and_then (check_all (check_column declared) (map fst columns)) (\<lambda>_.
          and_then (check_all (\<lambda>partition.
                        ensure (bt_get columns partition = None)
                          (Validation ''table.partition_columns''
                            (''partition column '' @ quote partition @
                             '' conflicts with a physical Parquet column'')))
                      (tp_partition_columns declared)) (\<lambda>_.
          Inr \<lparr>td_columns = columns,
               td_schema_fingerprint = hex_digest E (json_print E (ser_btree JStr columns)),
               td_row_count = sum_list (map snd descriptors),
               td_partition_columns = tp_partition_columns declared,
               td_column_meanings = tp_column_meanings declared,
               td_column_units = tp_column_units declared\<rparr>))))"

definition merge_raster_descriptors :: "raster_descriptor list \<Rightarrow> raster_descriptor peer_result" where
  "merge_raster_descriptors descriptors =
     ok_or (Validation ''assets'' ''must declare at least one raster asset'')
       (case descriptors of [] \<Rightarrow> None | d # _ \<Rightarrow> Some d)"

text \<open>What \<open>inspect_parquet\<close> and \<open>inspect_geotiff\<close> make of a file's bytes.\<close>

definition parquet_descriptor :: "ext \<Rightarrow> path \<Rightarrow> string \<Rightarrow> ((string, string) btree \<times> 64 word) peer_result" where
  "parquet_descriptor E p bytes =
     and_then (map_err (\<lambda>err. Parquet (p @ '': '' @ err)) (parquet_open E bytes)) (\<lambda>(fields, rows).
     let columns = fold (\<lambda>(name, debug). bt_insert name debug) fields [] in
     if columns = [] then Inl (Parquet (p @ '' has no physical columns''))
     else Inr (columns, rows))"

definition geotiff_descriptor ::
  "ext \<Rightarrow> path \<Rightarrow> raster_publication \<Rightarrow> string \<Rightarrow> raster_descriptor peer_result" where
  "geotiff_descriptor E p profile bytes =
     (let err = (\<lambda>e. GeoTiff (p @ '': '' @ e)) in
      and_then (map_err err (tiff_open E bytes)) (\<lambda>d.
      and_then (map_err err (tiff_dimensions d)) (\<lambda>(width, height).
      and_then (map_err err (tiff_colortype d)) (\<lambda>color_type.
      and_then (ok_or (GeoTiff (p @ '' lacks GeoKeyDirectoryTag'')) (tiff_geo_keys d)) (\<lambda>geo_keys.
      and_then (ensure (4 \<le> length geo_keys)
                  (GeoTiff (p @ '' has malformed GeoKeyDirectoryTag''))) (\<lambda>_.
      and_then (ensure (tiff_pixel_scale d \<or> tiff_transformation d)
                  (GeoTiff (p @ '' lacks a GeoTIFF transform''))) (\<lambda>_.
      Inr \<lparr>rd_width = width, rd_height = height, rd_color_type = color_type,
           rd_geo_key_directory = geo_keys,
           rd_crs = map_option (\<lambda>code. ''EPSG:'' @ show_nat (unat code)) (epsg_from_geo_keys geo_keys),
           rd_nodata = tiff_nodata d,
           rd_datetime = rp_datetime profile, rd_start_datetime = rp_start_datetime profile,
           rd_end_datetime = rp_end_datetime profile, rd_bbox = rp_bbox profile,
           rd_semantics = rp_semantics profile\<rparr>)))))))"

section \<open>Facts\<close>

lemma non_blank_ok [simp]: "non_blank f v = Inr u \<longleftrightarrow> \<not> blank v"
  by (simp add: non_blank_def)

lemma token_char_plain: "token_char c \<Longrightarrow> \<not> ws_ascii c \<and> (of_char c :: nat) < 128 \<and> c \<noteq> slash"
  by (auto simp: token_char_def ascii_class_defs ws_ascii_def Let_def)

lemma token_not_blank:
  assumes "list_all token_char v" "v \<noteq> []"
  shows "\<not> blank v"
proof -
  have "token_char (hd v)" "token_char (last v)" using assms by (auto simp: list_all_iff)
  then have "trim v = v" using assms(2) by (intro trim_id) (auto dest: token_char_plain)
  then show ?thesis using assms(2) by (simp add: blank_def)
qed

lemma validate_token_ok [simp]: "validate_token f v = Inr u \<longleftrightarrow> v \<noteq> [] \<and> list_all token_char v"
  using token_not_blank by (auto simp: validate_token_def)

lemma validate_names_ok [simp]:
  "validate_namespace v = Inr u \<longleftrightarrow> v \<noteq> [] \<and> list_all token_char v"
  "validate_product_id v = Inr u \<longleftrightarrow> v \<noteq> [] \<and> list_all token_char v"
  "validate_version v = Inr u \<longleftrightarrow> v \<noteq> [] \<and> list_all token_char v"
  by (simp_all add: validate_namespace_def validate_product_id_def validate_version_def)

definition token :: "string \<Rightarrow> bool" where
  "token v \<longleftrightarrow> v \<noteq> [] \<and> list_all token_char v"

lemma token_no_slash: "list_all token_char v \<Longrightarrow> slash \<notin> set v"
  by (auto simp: list_all_iff dest: token_char_plain)

lemma parse_reference_ok:
  "parse_reference v = Inr (ns, p) \<longleftrightarrow> v = reference ns p \<and> token ns \<and> token p"
  using token_no_slash [of ns] token_no_slash [of p]
  by (auto simp: parse_reference_def reference_def strip_prefix_eq_Some split_once_eq_Some token_def)

interpretation reference_text: exact_codec "\<lambda>(ns, p). token ns \<and> token p"
  "\<lambda>(ns, p). reference ns p" parse_reference
  by unfold_locales (auto simp: parse_reference_ok)

end
