(* ===== verification/Fs_Facts.thy ===== *)
theory Fs_Facts
  imports Rust_Fs
begin

text \<open>
  What the components use of the file system: resolution below a directory that is its own
  canonical path (\<open>real_dir\<close>), and the frame relation \<open>unchanged\<close> with the effect of every call
  on it.
\<close>

section \<open>Paths below a real directory\<close>

definition real_dir :: "fs \<Rightarrow> loc \<Rightarrow> bool" where
  "real_dir f d \<longleftrightarrow> (\<forall>k \<le> length d. is_dir_at f (take k d)) \<and> list_all plain_name d"

lemma real_dir_code [code]:
  "real_dir f d \<longleftrightarrow>
     list_all (\<lambda>k. is_dir_at f (take k d)) [0..<Suc (length d)] \<and> list_all plain_name d"
  by (auto simp: real_dir_def list_all_iff)

lemma lookup_Nil [simp]: "lookup f [] = Some (Dir 0)"
  by (simp add: lookup_def)

lemma is_dir_at_Nil [simp]: "is_dir_at f []"
  by (simp add: is_dir_at_def)

lemma is_dir_at_iff: "is_dir_at f l \<longleftrightarrow> (\<exists>i. lookup f l = Some (Dir i))"
  by (auto simp: is_dir_at_def split: option.splits node.splits)

lemma real_dir_Nil [simp]: "real_dir f []"
  by (simp add: real_dir_def)

lemma real_dir_snoc: "real_dir f (d @ [n]) \<longleftrightarrow> real_dir f d \<and> plain_name n \<and> is_dir_at f (d @ [n])"
proof
  assume r: "real_dir f (d @ [n])"
  have "is_dir_at f (take k d)" if "k \<le> length d" for k
    using r [unfolded real_dir_def] that by (auto dest!: spec [of _ k])
  moreover have "is_dir_at f (d @ [n])"
    using r [unfolded real_dir_def] by (auto dest!: spec [of _ "Suc (length d)"])
  ultimately show "real_dir f d \<and> plain_name n \<and> is_dir_at f (d @ [n])"
    using r by (simp add: real_dir_def)
next
  assume r: "real_dir f d \<and> plain_name n \<and> is_dir_at f (d @ [n])"
  have "is_dir_at f (take k (d @ [n]))" if "k \<le> length (d @ [n])" for k
    using r that by (cases "k \<le> length d") (auto simp: real_dir_def le_Suc_eq)
  with r show "real_dir f (d @ [n])" by (simp add: real_dir_def)
qed

lemma real_dir_is_dir: "real_dir f d \<Longrightarrow> is_dir_at f d"
  by (auto simp: real_dir_def dest!: spec [of _ "length d"])

lemma real_dir_butlast: "real_dir f d \<Longrightarrow> real_dir f (butlast d)"
  by (cases d rule: rev_cases) (auto simp: real_dir_snoc)

lemma real_dir_append: "real_dir f (d @ e) \<Longrightarrow> real_dir f d"
  by (induction e rule: rev_induct) (simp_all add: append_assoc [symmetric] real_dir_snoc del: append_assoc)

lemma walk_plain:
  assumes "is_dir_at f cur" "plain_name s"
  shows "walk f n follow cur (s # ss) =
    (case lookup f (cur @ [s]) of
       None \<Rightarrow> Inl KNotFound
     | Some (Link _ target) \<Rightarrow>
         if ss = [] \<and> \<not> follow then Inr (cur @ [s])
         else if n = 0 then Inl KFilesystemLoop
         else walk f (n - 1) follow (if is_absolute target then [] else cur)
                (split_on slash target @ ss)
     | Some _ \<Rightarrow> walk f n follow (cur @ [s]) ss)"
  using assms by (simp add: plain_name_def)

lemma walk_dir:
  assumes "is_dir_at f cur" "plain_name s" "is_dir_at f (cur @ [s])"
  shows "walk f n follow cur (s # ss) = walk f n follow (cur @ [s]) ss"
  using assms(3) by (subst walk_plain [OF assms(1,2)]) (auto simp: is_dir_at_def split: option.splits node.splits)

lemma walk_real: "real_dir f (cur @ d) \<Longrightarrow> walk f n follow cur (d @ ss) = walk f n follow (cur @ d) ss"
proof (induction d arbitrary: cur)
  case Nil
  then show ?case by simp
next
  case (Cons s d)
  have r: "real_dir f ((cur @ [s]) @ d)" using Cons.prems by simp
  have r1: "real_dir f (cur @ [s])" using real_dir_append [OF r] .
  then have "walk f n follow cur (s # (d @ ss)) = walk f n follow (cur @ [s]) (d @ ss)"
    by (intro walk_dir) (auto simp: real_dir_snoc real_dir_is_dir)
  also have "\<dots> = walk f n follow ((cur @ [s]) @ d) ss" using Cons.IH [OF r] .
  finally show ?case by simp
qed

lemma split_render_join:
  assumes "list_all plain_name d" "plain_name n"
  shows "split_on slash (join (render d) n) = [] # d @ [n]"
proof (cases "d = []")
  case True
  then show ?thesis
    using assms(2) plain_name_not_absolute [OF assms(2)]
    by (simp add: render_def join_def split_on_no_sep plain_name_def)
next
  case False
  have slash: "slash \<notin> set s" if "s \<in> set d" for s
    using assms(1) that by (auto simp: list_all_iff plain_name_def)
  have "last (join_with ''/'' d) \<noteq> slash \<and> join_with ''/'' d \<noteq> []"
  proof -
    obtain d' s where d: "d = d' @ [s]" using False by (cases d rule: rev_cases) auto
    have s: "s \<noteq> []" "slash \<notin> set s" using assms(1) d by (auto simp: plain_name_def)
    have "\<exists>t. join_with ''/'' d = t @ s" unfolding d
    proof (induction d')
      case (Cons a d')
      then show ?case by (cases d') auto
    qed auto
    then show ?thesis using s by (metis Nil_is_append_conv last_appendR last_in_set)
  qed
  then have "split_on slash (join (render d) n) = split_on slash ([] @ slash # (join_with ''/'' d @ slash # n))"
    using plain_name_not_absolute [OF assms(2)] by (simp add: render_def join_def)
  also have "\<dots> = [] # d @ [n]"
    using assms(2) False by (simp only: split_on_append)
      (simp add: split_on_join slash split_on_no_sep plain_name_def)
  finally show ?thesis .
qed

lemma join_render_not_Nil [simp]: "join (render d) n \<noteq> []"
  by (simp add: join_def render_def) (cases n; simp)

lemma is_absolute_join_render [simp]: "is_absolute (join (render d) n)"
  by (simp add: join_def render_def)

lemma resolve_entry_real:
  assumes "real_dir f d" "plain_name n"
  shows "resolve_entry f c (join (render d) n) = Inr (d @ [n])"
proof -
  have "walk f m True [] ([] # d) = Inr d" for m
    using walk_real [of f "[]" d m True "[]"] assms(1) by simp
  then show ?thesis
    using assms real_dir_is_dir [OF assms(1)]
    by (simp add: resolve_entry_def Let_def split_render_join real_dir_def plain_name_def)
qed

lemma resolve_path_real:
  assumes "real_dir f d" "plain_name n"
  shows "resolve_path f c follow (join (render d) n) = walk f max_links follow d [n]"
  using assms walk_real [of f "[]" d max_links follow "[n]"]
  by (simp add: resolve_path_def split_render_join real_dir_def)

lemma resolve_file_real:
  assumes "real_dir f d" "plain_name n"
  shows "lookup f (d @ [n]) = Some (File i) \<Longrightarrow> resolve_path f c follow (join (render d) n) = Inr (d @ [n])"
    and "lookup f (d @ [n]) = None \<Longrightarrow> resolve_path f c follow (join (render d) n) = Inl KNotFound"
  unfolding resolve_path_real [OF assms] walk_plain [OF real_dir_is_dir [OF assms(1)] assms(2)]
  by simp_all

text \<open>What \<open>walk\<close> returns is a place whose directory is real: no link is left in it.\<close>

definition place :: "fs \<Rightarrow> loc \<Rightarrow> bool" where
  "place f l \<longleftrightarrow> lookup f l \<noteq> None \<and> real_dir f (butlast l) \<and> list_all plain_name l"

lemma place_real: "place f l \<Longrightarrow> is_dir_at f l \<Longrightarrow> real_dir f l"
  by (cases l rule: rev_cases) (simp_all add: place_def real_dir_snoc)

lemma place_dir:
  assumes "real_dir f d"
  shows "place f d"
  using real_dir_is_dir [OF assms] real_dir_butlast [OF assms] assms
  unfolding place_def real_dir_def is_dir_at_iff by blast

lemma place_child: "real_dir f d \<Longrightarrow> plain_name s \<Longrightarrow> lookup f (d @ [s]) \<noteq> None \<Longrightarrow> place f (d @ [s])"
  by (simp add: place_def real_dir_def)

definition settled :: "bool \<Rightarrow> fs \<Rightarrow> loc \<Rightarrow> bool" where
  "settled follow f l \<longleftrightarrow> place f l \<and> (follow \<longrightarrow> \<not> (\<exists>i t. lookup f l = Some (Link i t)))"

lemma settled_dir: "real_dir f d \<Longrightarrow> settled follow f d"
  using place_dir [of f d] real_dir_is_dir [of f d] by (auto simp: settled_def is_dir_at_iff)

lemma walk_result:
  "walk f n follow cur ss = Inr l \<Longrightarrow> \<forall>s \<in> set ss. slash \<notin> set s \<Longrightarrow> settled follow f cur \<Longrightarrow> settled follow f l"
proof (induction f n follow cur ss rule: walk.induct)
  case (1 f n follow cur)
  then show ?case by simp
next
  case (2 f n follow cur s ss)
  have dir: "is_dir_at f cur" using "2.prems"(1) by (auto split: if_splits)
  have cur: "real_dir f cur" using place_real [OF _ dir] "2.prems"(3) by (simp add: settled_def)
  have ss: "\<forall>s \<in> set ss. slash \<notin> set s" using "2.prems"(2) by simp
  consider "s = [] \<or> s = ''.''" | "s = ''..''" | "plain_name s"
    using "2.prems"(2) by (auto simp: plain_name_def)
  then show ?case
  proof cases
    case 1
    then have "walk f n follow cur ss = Inr l" using "2.prems"(1) dir by simp
    with 1 dir ss "2.prems"(3) show ?thesis using "2.IH"(1) by blast
  next
    case 2
    then have "walk f n follow (butlast cur) ss = Inr l" using "2.prems"(1) dir by simp
    with 2 dir ss settled_dir [OF real_dir_butlast [OF cur]] show ?thesis using "2.IH"(2) by simp
  next
    case 3
    note w = "2.prems"(1) [unfolded walk_plain [OF dir 3]]
    have ns: "\<not> (s = [] \<or> s = ''.'')" "s \<noteq> ''..''" using 3 by (auto simp: plain_name_def)
    have here: "place f (cur @ [s])"
      using w place_child [OF cur 3] by (cases "lookup f (cur @ [s])") simp_all
    have settled: "settled follow f (cur @ [s])" if "\<not> (\<exists>i t. lookup f (cur @ [s]) = Some (Link i t))"
      using here that by (simp add: settled_def)
    show ?thesis
    proof (cases "lookup f (cur @ [s])")
      case None
      with w show ?thesis by simp
    next
      case (Some a)
      show ?thesis
      proof (cases a)
        case (Link i t)
        show ?thesis
        proof (cases "ss = [] \<and> \<not> follow")
          case True
          then show ?thesis using w Some Link here by (simp add: settled_def)
        next
          case False
          have w': "walk f (n - 1) follow (if is_absolute t then [] else cur) (split_on slash t @ ss) = Inr l"
            and n: "n \<noteq> 0"
            using w Some Link False by (auto split: if_splits)
          have "\<forall>s \<in> set (split_on slash t @ ss). slash \<notin> set s"
            using ss by (auto dest: split_on_parts)
          moreover have "settled follow f (if is_absolute t then [] else cur)"
            using "2.prems"(3) settled_dir [of f "[]"] by simp
          ultimately show ?thesis
            using "2.IH"(5) dir ns Some Link False n w' by blast
        qed
      next
        case (File i)
        with w Some have "walk f n follow (cur @ [s]) ss = Inr l" by simp
        moreover have "settled follow f (cur @ [s])" using settled File Some by simp
        ultimately show ?thesis using File Some dir ns ss "2.IH"(3) by blast
      next
        case (Dir i)
        with w Some have "walk f n follow (cur @ [s]) ss = Inr l" by simp
        moreover have "settled follow f (cur @ [s])" using settled Dir Some by simp
        ultimately show ?thesis using Dir Some dir ns ss "2.IH"(4) by blast
      next
        case (Special i)
        with w Some have "walk f n follow (cur @ [s]) ss = Inr l" by simp
        moreover have "settled follow f (cur @ [s])" using settled Special Some by simp
        ultimately show ?thesis using Special Some dir ns ss "2.IH"(6) by blast
      qed
    qed
  qed
qed

lemma resolve_path_settled:
  assumes "resolve_path f c follow p = Inr l" "real_dir f c"
  shows "settled follow f l"
proof (rule walk_result)
  show "walk f max_links follow (if is_absolute p then [] else c) (split_on slash p) = Inr l"
    using assms(1) by (simp add: resolve_path_def split: if_splits)
  show "settled follow f (if is_absolute p then [] else c)"
    using settled_dir [OF assms(2)] settled_dir [of f "[]"] by simp
qed (auto dest: split_on_parts)

lemma resolve_path_place: "resolve_path f c follow p = Inr l \<Longrightarrow> real_dir f c \<Longrightarrow> place f l"
  using resolve_path_settled by (auto simp: settled_def)

lemma resolve_path_real_dir:
  "resolve_path f c follow p = Inr l \<Longrightarrow> real_dir f c \<Longrightarrow> is_dir_at f l \<Longrightarrow> real_dir f l"
  by (rule place_real [OF resolve_path_place])


section \<open>Lookups after an operation\<close>

lemma map_of_filter_key: "map_of (filter (\<lambda>e. P (fst e)) xs) k = (if P k then map_of xs k else None)"
  by (induction xs) auto

lemma lookup_set_node: "lookup (set_node l n f) k = (if k = l \<and> l \<noteq> [] then Some n else lookup f k)"
  by (auto simp: lookup_def set_node_def map_of_filter_key [of "\<lambda>x. x \<noteq> l"])

lemma lookup_del_node: "lookup (del_node l f) k = (if k = l \<and> l \<noteq> [] then None else lookup f k)"
  by (auto simp: lookup_def del_node_def map_of_filter_key [of "\<lambda>x. x \<noteq> l"])

lemma lookup_del_tree: "l \<noteq> [] \<Longrightarrow> lookup (del_tree l f) k = (if is_prefix l k then None else lookup f k)"
  using map_of_filter_key [of "\<lambda>x. \<not> is_prefix l x" "nodes f" k]
  by (cases l) (auto simp: lookup_def del_tree_def)

lemma lookup_new_inode [simp]: "lookup (new_inode c m f) k = lookup f k"
  by (simp add: lookup_def new_inode_def)

lemma lookup_append_inode [simp]: "lookup (fs_append h bs f) k = lookup f k"
  by (simp add: lookup_def fs_append_def)

lemma is_prefix_drop: "is_prefix a l \<Longrightarrow> a @ drop (length a) l = l"
  by (auto simp: is_prefix_iff)

lemma map_of_move_other:
  assumes "\<not> is_prefix a k" "\<not> is_prefix b k"
  shows "map_of (map (\<lambda>(l, n). (if is_prefix a l then b @ drop (length a) l else l, n)) xs) k = map_of xs k"
  using assms by (induction xs) auto

lemma lookup_move_other:
  assumes "\<not> is_prefix a k" "\<not> is_prefix b k"
  shows "lookup (move_tree a b f) k = lookup f k"
proof -
  have "k \<noteq> b" using assms(2) by (auto simp: is_prefix_iff)
  then show ?thesis
    by (simp add: lookup_def move_tree_def map_of_move_other [OF assms]
        map_of_filter_key [of "\<lambda>x. x \<noteq> b"])
qed

lemma map_of_move_target:
  assumes "\<not> is_prefix a b" "\<forall>e \<in> set xs. fst e \<noteq> b"
  shows "map_of (map (\<lambda>(l, n). (if is_prefix a l then b @ drop (length a) l else l, n)) xs) b = map_of xs a"
  using assms(2)
proof (induction xs)
  case (Cons e xs)
  obtain l n where e: "e = (l, n)" by (cases e)
  have "(is_prefix a l \<and> drop (length a) l = []) = (l = a)"
    by (auto simp: is_prefix_iff)
  with Cons e show ?case by auto
qed simp

lemma lookup_move_target:
  assumes "\<not> is_prefix a b" "a \<noteq> []" "b \<noteq> []"
  shows "lookup (move_tree a b f) b = lookup f a"
proof -
  have "a \<noteq> b" using assms(1) by (auto simp: is_prefix_iff)
  then show ?thesis
    using assms map_of_move_target [of a b "filter (\<lambda>e. fst e \<noteq> b) (nodes f)"]
    by (simp add: lookup_def move_tree_def map_of_filter_key [of "\<lambda>x. x \<noteq> b"])
qed

lemma lookup_move_source:
  assumes "\<not> is_prefix b a" "a \<noteq> []"
  shows "lookup (move_tree a b f) a = None"
proof -
  have "map_of (map (\<lambda>(l, n). (if is_prefix a l then b @ drop (length a) l else l, n)) xs) a = None" for xs :: "(loc \<times> node) list"
    using assms(1)
  proof (induction xs)
    case (Cons e xs)
    obtain l n where e: "e = (l, n)" by (cases e)
    have "(if is_prefix a l then b @ drop (length a) l else l) \<noteq> a"
      using assms(1) by (auto simp: is_prefix_iff)
    with Cons e show ?case by simp
  qed simp
  then show ?thesis using assms(2) by (simp add: lookup_def move_tree_def)
qed

section \<open>Frames\<close>

text \<open>
  \<open>below d N l\<close>: the place is an entry of \<open>d\<close> whose name is in \<open>N\<close>, or lies under one.
  \<open>unchanged f0 T f\<close>: outside \<open>T\<close> the nodes are those of \<open>f0\<close>, and no inode of \<open>f0\<close> was written.
\<close>

definition below :: "loc \<Rightarrow> (string \<Rightarrow> bool) \<Rightarrow> loc \<Rightarrow> bool" where
  "below d N l \<longleftrightarrow> is_prefix d l \<and> length d < length l \<and> N (l ! length d)"

definition unchanged :: "fs \<Rightarrow> (loc \<Rightarrow> bool) \<Rightarrow> fs \<Rightarrow> bool" where
  "unchanged f0 T f \<longleftrightarrow>
     (\<forall>l. \<not> T l \<longrightarrow> lookup f l = lookup f0 l) \<and>
     (\<forall>i < next_ino f0. inodes f i = inodes f0 i) \<and>
     next_ino f0 \<le> next_ino f"

lemma below_child [simp]: "below d N (d @ [n]) \<longleftrightarrow> N n"
  by (simp add: below_def)

lemma below_extend: "below d N a \<Longrightarrow> is_prefix a k \<Longrightarrow> below d N k"
  by (auto simp: below_def is_prefix_iff nth_append)

lemma below_not_prefix: "k \<le> length d \<Longrightarrow> \<not> below d N (take k d)"
  by (auto simp: below_def is_prefix_iff)

lemma below_self [simp]: "\<not> below d N d"
  by (simp add: below_def)

lemma below_mono: "below d N l \<Longrightarrow> (\<And>n. N n \<Longrightarrow> M n) \<Longrightarrow> below d M l"
  by (auto simp: below_def)

lemma unchanged_refl [simp]: "unchanged f T f"
  by (simp add: unchanged_def)

lemma unchanged_trans: "unchanged f0 T f1 \<Longrightarrow> unchanged f1 T f2 \<Longrightarrow> unchanged f0 T f2"
  by (auto simp: unchanged_def)

lemma unchanged_mono: "unchanged f0 T f \<Longrightarrow> (\<And>l. T l \<Longrightarrow> S l) \<Longrightarrow> unchanged f0 S f"
  by (auto simp: unchanged_def)

lemma unchanged_real_dir:
  assumes "unchanged f0 (below d N) f" "real_dir f0 d"
  shows "real_dir f d"
  using assms below_not_prefix [of _ d N] unfolding real_dir_def unchanged_def is_dir_at_def by simp

lemma unchanged_next: "unchanged f0 T f \<Longrightarrow> next_ino f0 \<le> next_ino f"
  by (simp add: unchanged_def)

lemma unchanged_lookup: "unchanged f0 T f \<Longrightarrow> \<not> T l \<Longrightarrow> lookup f l = lookup f0 l"
  by (simp add: unchanged_def)

lemma unchanged_inode: "unchanged f0 T f \<Longrightarrow> i < next_ino f0 \<Longrightarrow> inodes f i = inodes f0 i"
  by (simp add: unchanged_def)

lemma create_new_unchanged:
  assumes "unchanged f0 T f" "T l" "fs_create_new m l f = (r, f')"
  shows "unchanged f0 T f'"
  using assms
  by (auto simp: fs_create_new_def unchanged_def lookup_set_node split: option.splits)
     (auto simp: set_node_def new_inode_def)

lemma create_new_ok:
  assumes "fs_create_new m l f = (Inr h, f')"
  shows "h = next_ino f" "lookup f l = None" "lookup f' l = Some (File h)" "contents (inodes f' h) = []"
    "next_ino f' = Suc h"
  using assms
  by (auto simp: fs_create_new_def lookup_set_node split: option.splits)
     (auto simp: set_node_def new_inode_def)

lemma create_new_err: "fs_create_new m l f = (Inl k, f') \<Longrightarrow> f' = f"
  by (auto simp: fs_create_new_def split: option.splits)

lemma append_unchanged: "unchanged f0 T f \<Longrightarrow> next_ino f0 \<le> h \<Longrightarrow> unchanged f0 T (fs_append h bs f)"
  by (auto simp: unchanged_def) (auto simp: fs_append_def)

lemma append_contents [simp]: "contents (inodes (fs_append h bs f) h) = contents (inodes f h) @ bs"
  by (simp add: fs_append_def)

lemma append_inode_other: "i \<noteq> h \<Longrightarrow> inodes (fs_append h bs f) i = inodes f i"
  by (simp add: fs_append_def)

lemma next_append [simp]: "next_ino (fs_append h bs f) = Suc (next_ino f)"
  by (simp add: fs_append_def)

lemma remove_file_unchanged:
  assumes "unchanged f0 T f" "T l" "fs_remove_file l f = (r, f')"
  shows "unchanged f0 T f'"
  using assms
  by (auto simp: fs_remove_file_def unchanged_def lookup_del_node split: option.splits node.splits)
     (auto simp: del_node_def)

lemma move_tree_inodes [simp]: "inodes (move_tree a b f) = inodes f" "next_ino (move_tree a b f) = next_ino f"
  by (simp_all add: move_tree_def)

lemma rename_cases:
  assumes "fs_rename a b f = (r, f')"
  shows "(r = Inr () \<and> f' = move_tree a b f \<and> \<not> is_prefix a b \<and>
            (\<exists>n. lookup f a = Some n) \<and>
            (lookup f b = None \<or> \<not> is_prefix b a)) \<or>
         (r = Inr () \<and> f' = f \<and> lookup f a = lookup f b \<and> lookup f a \<noteq> None) \<or>
         (\<exists>k. r = Inl k \<and> f' = f)"
  using assms by (auto simp: fs_rename_def split: option.splits if_splits)

lemma rename_unchanged:
  assumes u: "unchanged f0 (below d N) f" and a: "below d N a" and b: "below d N b"
    and r: "fs_rename a b f = (r, f')"
  shows "unchanged f0 (below d N) f'"
proof -
  have "lookup (move_tree a b f) l = lookup f l" if "\<not> below d N l" for l
    using that lookup_move_other below_extend [OF a] below_extend [OF b] by blast
  with u rename_cases [OF r] show ?thesis by (auto simp: unchanged_def)
qed

section \<open>Triples for the calls\<close>

text \<open>The part of the world no call changes, and assertions about the disk alone.\<close>

definition env :: "world \<Rightarrow> loc \<times> (nat \<Rightarrow> io_kind option) \<times> (nat \<Rightarrow> nat) \<times> (nat \<Rightarrow> fs \<Rightarrow> fs) \<times> (nat \<Rightarrow> nat)" where
  "env w = (cwd w, faults w, torn w, others w, clock w)"

definition on_disk :: "world \<Rightarrow> (fs \<Rightarrow> bool) \<Rightarrow> world \<Rightarrow> bool" where
  "on_disk w0 Q w \<longleftrightarrow> env w = env w0 \<and> Q (disk w)"

lemma hoare_syscall:
  assumes "\<And>f x f'. Q f \<Longrightarrow> op (cwd w0) f = (Inr x, f') \<Longrightarrow> R x f'"
    and "\<And>f k f'. Q f \<Longrightarrow> op (cwd w0) f = (Inl k, f') \<Longrightarrow> E k f'"
    and "\<And>f k n. Q f \<Longrightarrow> faults w0 n = Some k \<Longrightarrow> E k f"
  shows "hoare (on_disk w0 Q) (syscall op) (\<lambda>x. on_disk w0 (R x)) (\<lambda>k. on_disk w0 (E k))"
proof (rule hoareI)
  fix w x w'
  assume "on_disk w0 Q w" "syscall op w = (Inr x, w')"
  then show "on_disk w0 (R x) w'"
    using assms(1) [of "disk w" x]
    by (auto simp: on_disk_def syscall_def env_def Let_def split: option.splits prod.splits)
next
  fix w k w'
  assume "on_disk w0 Q w" "syscall op w = (Inl k, w')"
  then show "on_disk w0 (E k) w'"
    using assms(2) [of "disk w" k] assms(3) [of "disk w"]
    by (auto simp: on_disk_def syscall_def env_def Let_def split: option.splits prod.splits)
qed

lemma hoare_query:
  assumes "\<And>f x. Q f \<Longrightarrow> q (cwd w0) f = Inr x \<Longrightarrow> R x f" "\<And>f k. Q f \<Longrightarrow> E k f"
  shows "hoare (on_disk w0 Q) (query q) (\<lambda>x. on_disk w0 (R x)) (\<lambda>k. on_disk w0 (E k))"
  unfolding query_def by (rule hoare_syscall) (use assms in auto)

lemma hoare_write_all:
  assumes "\<And>f. Q f \<Longrightarrow> R () (fs_append h bs f)" "\<And>f k n. Q f \<Longrightarrow> E k (fs_append h (take n bs) f)"
  shows "hoare (on_disk w0 Q) (write_all h bs) (\<lambda>x. on_disk w0 (R x)) (\<lambda>k. on_disk w0 (E k))"
proof (rule hoareI)
  fix w x w'
  assume "on_disk w0 Q w" "write_all h bs w = (Inr x, w')"
  then show "on_disk w0 (R x) w'"
    using assms(1) [of "disk w"]
    by (auto simp: on_disk_def write_all_def env_def Let_def split: option.splits)
next
  fix w k w'
  assume "on_disk w0 Q w" "write_all h bs w = (Inl k, w')"
  then show "on_disk w0 (E k) w'"
    using assms(2) [of "disk w"]
    by (auto simp: on_disk_def write_all_def env_def Let_def split: option.splits)
qed

lemma hoare_now:
  "(\<And>x f. Q f \<Longrightarrow> R x f) \<Longrightarrow> hoare (on_disk w0 Q) now_nanos (\<lambda>x. on_disk w0 (R x)) E"
  by (auto simp: hoare_def now_nanos_def on_disk_def env_def)

end
