(* ===== verification/Peer_Files.thy ===== *)
theory Peer_Files
  imports Peer_Validate Fs_Facts
begin

text \<open>
  The file operations of \<open>peer_access.rs\<close> that the others are made of: bounded reads, atomic
  writes, the manifest lock, asset routes, and \<open>Project\<close>.
\<close>

type_synonym 'a peer = "(world, peer_error, 'a) io"

definition sys :: "'a sys \<Rightarrow> 'a peer" where
  "sys m = io_map_err Io m"

section \<open>Reading and writing files\<close>

definition read_bounded :: "path \<Rightarrow> nat \<Rightarrow> string peer" where
  "read_bounded p limit =
     io_bind (sys (sys_read p)) (\<lambda>all.
     let bytes = take (limit + 1) all in
     if limit < length bytes
     then io_err (Validation ''input_size'' (''input exceeds '' @ show_nat limit @ '' bytes''))
     else io_ret bytes)"

definition sha256_file :: "ext \<Rightarrow> path \<Rightarrow> string peer" where
  "sha256_file E p = io_bind (sys (sys_read p)) (\<lambda>bytes. io_ret (hex_digest E bytes))"

definition unique_nonce :: "string peer" where
  "unique_nonce = io_bind now_nanos (\<lambda>n. io_ret (show_nat n))"

definition utc_now :: "ext \<Rightarrow> string peer" where
  "utc_now E = io_bind now_nanos (\<lambda>n. io_ret (rfc3339 E n))"

definition name_or_empty :: "path \<Rightarrow> string" where
  "name_or_empty p = (case file_name p of Some n \<Rightarrow> n | None \<Rightarrow> [])"

definition temporary_name :: "path \<Rightarrow> string \<Rightarrow> string" where
  "temporary_name p nonce = ''.'' @ name_or_empty p @ ''.'' @ nonce @ ''.tmp''"

definition write_atomic_text :: "path \<Rightarrow> string \<Rightarrow> unit peer" where
  "write_atomic_text p bytes =
     io_bind (io_lift (ok_or (Policy (''path '' @ quote p @ '' has no parent'')) (parent p))) (\<lambda>dir.
     io_bind (sys (create_dir_all dir)) (\<lambda>_.
     io_bind unique_nonce (\<lambda>nonce.
     let temporary = join dir (temporary_name p nonce) in
     io_bind (sys (open_new 420 temporary)) (\<lambda>h.
     io_bind (sys (write_all h bytes)) (\<lambda>_.
     io_bind (sys sync_all) (\<lambda>_.
     sys (rename temporary p)))))))"

definition absolute_path :: "path \<Rightarrow> path peer" where
  "absolute_path p =
     (if is_absolute p then io_ret p
      else io_bind (sys current_dir) (\<lambda>d. io_ret (join d p)))"

definition remove_any :: "path \<Rightarrow> unit sys" where
  "remove_any p =
     io_bind (path_is_dir p) (\<lambda>is_dir.
     if is_dir then remove_dir_all p
     else io_bind (path_exists p) (\<lambda>exists. if exists then remove_file p else io_ret ()))"

definition receipt_path :: "path \<Rightarrow> path" where
  "receipt_path out = with_file_name out (name_or_empty out @ ''.feam-receipt.json'')"

section \<open>The manifest lock\<close>

definition lock_file :: "path \<Rightarrow> path" where
  "lock_file manifest = with_file_name manifest ''.feam-manifest.lock''"

definition lock_line :: "ext \<Rightarrow> nat \<Rightarrow> string \<Rightarrow> string" where
  "lock_line E pid now = ''pid='' @ show_nat pid @ '' created_at='' @ now @ [CHR 10]"

definition write_lock :: "ext \<Rightarrow> nat \<Rightarrow> unit peer" where
  "write_lock E h =
     io_bind (utc_now E) (\<lambda>now.
     io_bind (\<lambda>w. sys (write_all h (lock_line E (process_id w) now)) w) (\<lambda>_.
     sys sync_all))"

lemma elapsed_open_new [simp]: "elapsed (snd (open_new m p w)) = elapsed w"
  by (simp add: open_new_def on_entry_def syscall_def Let_def split: option.splits prod.splits)

lemma elapsed_sleep: "elapsed (snd (sleep ms w)) = elapsed w + ms + oversleep w (tick w)"
  by (simp add: sleep_def)

text \<open>The loop of \<open>ManifestLock::acquire\<close>: 50 ms between attempts, until the time is over.\<close>

function acquire_loop :: "ext \<Rightarrow> path \<Rightarrow> nat \<Rightarrow> nat \<Rightarrow> world \<Rightarrow> (peer_error + path) \<times> world" where
  "acquire_loop E p started timeout w =
     (case open_new 420 p w of
        (Inr h, w1) \<Rightarrow> io_bind (write_lock E h) (\<lambda>_. io_ret p) w1
      | (Inl k, w1) \<Rightarrow>
          if k \<noteq> KAlreadyExists then (Inl (Io k), w1)
          else if elapsed w1 - started < timeout
          then acquire_loop E p started timeout (snd (sleep 50 w1 :: (peer_error + unit) \<times> world))
          else (Inl (LockTimeout p), w1))"
  by pat_completeness auto
termination
proof (relation "measure (\<lambda>(E, p, started, timeout, w). started + timeout - elapsed w)", goal_cases)
  case 1
  show ?case by simp
next
  case (2 E p started timeout w r w1 k)
  have "elapsed w1 = elapsed w" using elapsed_open_new [of 420 p w] 2 by (metis snd_conv)
  then show ?case using 2 by (simp add: elapsed_sleep)
qed

declare acquire_loop.simps [simp del]

definition lock_acquire :: "ext \<Rightarrow> path \<Rightarrow> nat \<Rightarrow> path peer" where
  "lock_acquire E manifest timeout =
     io_bind instant_now (\<lambda>started. acquire_loop E (lock_file manifest) started timeout)"

text \<open>A scope that holds the lock: \<open>Drop\<close> removes the lock file however the scope is left.\<close>

definition with_lock :: "ext \<Rightarrow> path \<Rightarrow> 'a peer \<Rightarrow> 'a peer" where
  "with_lock E manifest body =
     io_bind (lock_acquire E manifest 30000) (\<lambda>lock w.
       case body w of (r, w') \<Rightarrow> (r, snd (remove_file lock w')))"

section \<open>Projects\<close>

definition config_path :: "project \<Rightarrow> path" where
  "config_path p = join (root p) ''.feam/project.toml''"

definition init_with_owner_teams ::
  "ext \<Rightarrow> path \<Rightarrow> string \<Rightarrow> path option \<Rightarrow> string list \<Rightarrow> project peer" where
  "init_with_owner_teams E rt ns serving_dir owner_teams =
     io_bind (io_lift (validate_namespace ns)) (\<lambda>_.
     io_bind (absolute_path rt) (\<lambda>root.
     io_bind (sys (create_dir_all (join root ''.feam''))) (\<lambda>_.
     let config_path = join root ''.feam/project.toml'' in
     io_bind (path_exists config_path) (\<lambda>exists.
     if exists then io_err (Conflict (''project already initialized at '' @ quote root))
     else
     io_bind (case serving_dir of
                Some p \<Rightarrow>
                  io_bind (io_lift (validate_relative_path p ''serving_dir''))
                    (\<lambda>_. sys (create_dir_all (join root p)))
              | None \<Rightarrow> io_ret ()) (\<lambda>_.
     let teams = (if owner_teams = [] then [ns] else owner_teams) in
     io_bind (io_lift (check_all (non_blank ''owner_teams'') teams)) (\<lambda>_.
     let config =
       \<lparr>pc_schema_version = PROJECT_SCHEMA_VERSION, pc_namespace = ns,
        pc_serving_dir = serving_dir, pc_owner_teams = remdups_adj (sort teams), pc_peers = []\<rparr> in
     io_bind (io_lift (map_err TomlSerialize (toml_pretty E (ser_project_config config)))) (\<lambda>text.
     io_bind (write_atomic_text config_path text) (\<lambda>_.
     io_ret \<lparr>root = root, config = config\<rparr>))))))))"

definition init :: "ext \<Rightarrow> path \<Rightarrow> string \<Rightarrow> path option \<Rightarrow> project peer" where
  "init E rt ns serving_dir = init_with_owner_teams E rt ns serving_dir []"

definition parse_project_config :: "ext \<Rightarrow> string \<Rightarrow> project_config peer_result" where
  "parse_project_config E bytes =
     and_then (ensure (utf8_valid E bytes) (Validation ''project'' ''invalid UTF-8'')) (\<lambda>_.
     and_then (map_err TomlDeserialize (toml_parse E bytes)) (\<lambda>v.
     and_then (map_err (TomlDeserialize \<circ> de_error_text E) (de_project_config v)) (\<lambda>c.
     and_then (ensure (length (pc_peers c) \<le> 64)
                 (Validation ''peers'' ''at most 64 peer routes are supported'')) (\<lambda>_.
     let c = (if pc_owner_teams c = [] then c\<lparr>pc_owner_teams := [pc_namespace c]\<rparr> else c) in
     and_then (validate_project_config c) (\<lambda>_. Inr c)))))"

definition open_project :: "ext \<Rightarrow> path \<Rightarrow> project peer" where
  "open_project E rt =
     io_bind (absolute_path rt) (\<lambda>root.
     io_bind (read_bounded (join root ''.feam/project.toml'') MAX_PROJECT_BYTES) (\<lambda>bytes.
     io_bind (io_lift (parse_project_config E bytes)) (\<lambda>config.
     io_ret \<lparr>root = root, config = config\<rparr>)))"

definition serving_root :: "project \<Rightarrow> path peer" where
  "serving_root p =
     (case pc_serving_dir (config p) of
        None \<Rightarrow> io_err (Policy ''project is not configured as a provider (serving_dir is absent)'')
      | Some d \<Rightarrow>
          let dir = join (root p) d in
          io_bind (path_is_dir dir) (\<lambda>is_dir.
          if \<not> is_dir then io_err (PeerUnavailable (''serving root '' @ quote dir))
          else sys (canonicalize dir)))"

definition cache_path :: "ext \<Rightarrow> project \<Rightarrow> path peer" where
  "cache_path E p w =
     (let digest = hex_digest E (root p);
          base = (case cache_dir_var E of
                    Some d \<Rightarrow> d
                  | None \<Rightarrow> join (temp_dir E) (''feam-cache-'' @ show_nat (process_id w))) in
      (Inr (join (join base (take 16 digest)) ''catalog.json''), w))"

definition route_for_namespace :: "project \<Rightarrow> string \<Rightarrow> route peer" where
  "route_for_namespace p ns =
     (if ns = namespace_of p then
        io_bind (serving_root p) (\<lambda>r.
        io_ret \<lparr>displayed_root = r, canonical_root = r, route_namespace = ns\<rparr>)
      else
        case find (\<lambda>peer. prc_namespace peer = ns) (pc_peers (config p)) of
          None \<Rightarrow> io_err (PeerUnavailable (''namespace '' @ quote ns @ '' is not configured''))
        | Some peer \<Rightarrow>
            let configured =
              (if is_absolute (prc_path peer) then prc_path peer else join (root p) (prc_path peer)) in
            io_bind (io_map_err (\<lambda>_. PeerUnavailable (''peer '' @ quote (prc_alias peer) @
                       '' route '' @ quote configured)) (canonicalize configured)) (\<lambda>canonical.
            io_bind (path_is_dir canonical) (\<lambda>is_dir.
            if \<not> is_dir then
              io_err (PeerUnavailable (''peer '' @ quote (prc_alias peer) @
                        '' route is not a directory''))
            else io_ret \<lparr>displayed_root = configured, canonical_root = canonical,
                         route_namespace = ns\<rparr>)))"

section \<open>Asset routes\<close>

definition checked_asset_path :: "path \<Rightarrow> path \<Rightarrow> path \<Rightarrow> (path \<times> path) peer" where
  "checked_asset_path shown inside relative =
     io_bind (io_lift (validate_relative_path relative ''asset.path'')) (\<lambda>_.
     let displayed = join shown relative in
     io_bind (io_map_err (\<lambda>_. PeerUnavailable (''registered asset route '' @ quote displayed))
                (canonicalize displayed)) (\<lambda>canonical.
     if \<not> path_starts_with canonical inside then
       io_err (Policy (''registered asset '' @ quote relative @ '' escapes serving root''))
     else
     io_bind (sys (sys_metadata canonical)) (\<lambda>m.
     if \<not> node_is_file (m_node m) then
       io_err (Policy (''registered asset '' @ quote relative @ '' is not a regular file''))
     else io_ret (displayed, canonical))))"

end
