(* ===== verification/Manifest.thy ===== *)
theory Manifest
  imports Peer_Files
begin

text \<open>
  The manifest of a provider: parsing, reading, writing, and the two changes that \<open>publish\<close> and
  \<open>withdraw\<close> make to it. The changes are functions on the manifest; \<open>history\<close> is the abstract
  view they are specified by: which (product, version) has which record.
\<close>

section \<open>Reading and writing\<close>

definition parse_manifest :: "ext \<Rightarrow> string \<Rightarrow> serving_manifest peer_result" where
  "parse_manifest E bytes =
     and_then (from_slice E de_serving_manifest bytes) (\<lambda>m.
     and_then (ensure (sm_schema_version m = MANIFEST_SCHEMA_VERSION)
                 (Validation ''manifest.schema_version'' ''unsupported manifest schema version'')) (\<lambda>_.
     and_then (validate_namespace (sm_namespace m)) (\<lambda>_. Inr m)))"

definition read_manifest_at :: "ext \<Rightarrow> path \<Rightarrow> serving_manifest peer" where
  "read_manifest_at E p =
     io_bind (path_exists p) (\<lambda>exists.
     if \<not> exists then io_err (NotFound (''manifest '' @ quote p))
     else io_bind (read_bounded p MAX_MANIFEST_BYTES) (\<lambda>bytes. io_lift (parse_manifest E bytes)))"

definition read_or_empty_manifest :: "ext \<Rightarrow> path \<Rightarrow> string \<Rightarrow> serving_manifest peer" where
  "read_or_empty_manifest E p ns =
     io_bind (io_try (read_manifest_at E p)) (\<lambda>r.
     case r of
       Inr manifest \<Rightarrow> io_ret manifest
     | Inl (NotFound _) \<Rightarrow> io_bind (utc_now E) (\<lambda>now. io_ret (empty_manifest ns now))
     | Inl err \<Rightarrow> io_err err)"

definition write_manifest_atomic :: "ext \<Rightarrow> path \<Rightarrow> serving_manifest \<Rightarrow> unit peer" where
  "write_manifest_atomic E p manifest =
     (let bytes = json_pretty E (ser_serving_manifest manifest) in
      if MAX_MANIFEST_BYTES < length bytes
      then io_err (Validation ''manifest'' ''publication would exceed the 8 MiB manifest limit'')
      else write_atomic_text p bytes)"

section \<open>Changes\<close>

text \<open>\<open>iter_mut().find(..)\<close> followed by an update of what was found.\<close>

fun update_first :: "('a \<Rightarrow> bool) \<Rightarrow> ('a \<Rightarrow> 'a) \<Rightarrow> 'a list \<Rightarrow> 'a list" where
  "update_first p f [] = []"
| "update_first p f (x # xs) = (if p x then f x # xs else x # update_first p f xs)"

definition insert_candidate ::
  "published_version \<Rightarrow> manifest_product list \<Rightarrow> manifest_product list peer_result" where
  "insert_candidate candidate products =
     (case find (\<lambda>product. mp_id product = pv_product_id candidate) products of
        Some product \<Rightarrow>
          if \<exists>v \<in> set (mp_versions product). pv_version v = pv_version candidate
          then Inl (Conflict (pv_product_id candidate @ '' version '' @ pv_version candidate))
          else Inr (update_first (\<lambda>product. mp_id product = pv_product_id candidate)
                      (\<lambda>product. product\<lparr>mp_versions := mp_versions product @ [candidate]\<rparr>) products)
      | None \<Rightarrow>
          Inr (products @ [\<lparr>mp_id = pv_product_id candidate, mp_name = pv_name candidate,
                            mp_versions = [candidate]\<rparr>]))"

definition find_version :: "string \<Rightarrow> string \<Rightarrow> manifest_product list \<Rightarrow> published_version option" where
  "find_version product_id version products =
     (case find (\<lambda>product. mp_id product = product_id) products of
        None \<Rightarrow> None
      | Some product \<Rightarrow> find (\<lambda>record. pv_version record = version) (mp_versions product))"

definition mark_withdrawn :: "string \<Rightarrow> string \<Rightarrow> published_version \<Rightarrow> published_version" where
  "mark_withdrawn reason now record =
     record\<lparr>pv_lifecycle := Withdrawn, pv_withdrawal_reason := Some reason, pv_withdrawn_at := Some now\<rparr>"

definition withdraw_record ::
  "string \<Rightarrow> string \<Rightarrow> string \<Rightarrow> string \<Rightarrow> manifest_product list \<Rightarrow> manifest_product list" where
  "withdraw_record product_id version reason now products =
     update_first (\<lambda>product. mp_id product = product_id)
       (\<lambda>product. product\<lparr>mp_versions :=
          update_first (\<lambda>record. pv_version record = version) (mark_withdrawn reason now)
            (mp_versions product)\<rparr>) products"

text \<open>\<open>manifest.revision += 1; manifest.updated_at = now\<close> (the addition wraps in a release build).\<close>

definition commit :: "string \<Rightarrow> manifest_product list \<Rightarrow> serving_manifest \<Rightarrow> serving_manifest" where
  "commit now products m =
     m\<lparr>sm_products := products, sm_revision := sm_revision m + 1, sm_updated_at := now\<rparr>"

section \<open>The abstract view\<close>

type_synonym history = "string \<times> string \<Rightarrow> published_version option"

definition history_of :: "manifest_product list \<Rightarrow> history" where
  "history_of products = (\<lambda>(product_id, version). find_version product_id version products)"

text \<open>
  A manifest the program wrote: ids are unique, versions are unique within a product, and a
  record is filed under its own product id.
\<close>

definition wf_products :: "manifest_product list \<Rightarrow> bool" where
  "wf_products products \<longleftrightarrow>
     distinct (map mp_id products) \<and>
     (\<forall>p \<in> set products. distinct (map pv_version (mp_versions p)) \<and>
        (\<forall>v \<in> set (mp_versions p). pv_product_id v = mp_id p))"

lemma find_append: "find p (xs @ ys) = (case find p xs of None \<Rightarrow> find p ys | Some x \<Rightarrow> Some x)"
  by (induction xs) auto

lemma find_update_same:
  assumes "\<And>x. p (f x) = p x"
  shows "find p (update_first p f xs) = map_option f (find p xs)"
  using assms by (induction xs) auto

lemma find_update_other:
  assumes "\<And>x. p x \<Longrightarrow> \<not> q x" "\<And>x. p x \<Longrightarrow> \<not> q (f x)"
  shows "find q (update_first p f xs) = find q xs"
  using assms by (induction xs) auto

lemma map_update_first: "(\<And>x. p x \<Longrightarrow> g (f x) = g x) \<Longrightarrow> map g (update_first p f xs) = map g xs"
  by (induction xs) auto

lemma set_update_first: "x \<in> set (update_first p f xs) \<Longrightarrow> x \<in> set xs \<or> (\<exists>y \<in> set xs. p y \<and> x = f y)"
  by (induction xs) (auto split: if_splits)

text \<open>What a publication does to the history: it adds one entry, and only where there is none.\<close>

lemma insert_candidate_history:
  assumes "insert_candidate c products = Inr products'"
  shows "history_of products (pv_product_id c, pv_version c) = None"
    and "history_of products' = (history_of products)((pv_product_id c, pv_version c) \<mapsto> c)"
proof -
  let ?p = "\<lambda>product. mp_id product = pv_product_id c"
  have "history_of products (pv_product_id c, pv_version c) = None \<and>
        history_of products' = (history_of products)((pv_product_id c, pv_version c) \<mapsto> c)"
  proof (cases "find ?p products")
    case None
    then have p': "products' = products @ [\<lparr>mp_id = pv_product_id c, mp_name = pv_name c, mp_versions = [c]\<rparr>]"
      using assms by (simp add: insert_candidate_def)
    show ?thesis
      using None by (auto simp: history_of_def find_version_def p' find_append fun_eq_iff split: option.splits)
  next
    case (Some prod)
    let ?f = "\<lambda>product. product\<lparr>mp_versions := mp_versions product @ [c]\<rparr>"
    have new: "find (\<lambda>r. pv_version r = pv_version c) (mp_versions prod) = None"
      and p': "products' = update_first ?p ?f products"
      using assms Some by (auto simp: insert_candidate_def find_None_iff split: if_splits)
    have same: "find ?p products' = Some (?f prod)"
      unfolding p' by (subst find_update_same) (simp_all add: Some)
    have other: "find (\<lambda>product. mp_id product = i) products' = find (\<lambda>product. mp_id product = i) products"
      if "i \<noteq> pv_product_id c" for i
      unfolding p' using that by (intro find_update_other) auto
    have "find_version i v products' = ((history_of products)((pv_product_id c, pv_version c) \<mapsto> c)) (i, v)" for i v
    proof (cases "i = pv_product_id c")
      case True
      then show ?thesis
        using same new Some
        by (auto simp: find_version_def history_of_def find_append split: option.splits)
    next
      case False
      then show ?thesis using other by (simp add: find_version_def history_of_def)
    qed
    then show ?thesis
      using new Some by (auto simp: history_of_def find_version_def)
  qed
  then show "history_of products (pv_product_id c, pv_version c) = None"
    and "history_of products' = (history_of products)((pv_product_id c, pv_version c) \<mapsto> c)"
    by auto
qed

lemma insert_candidate_wf:
  assumes "wf_products products" "insert_candidate c products = Inr products'"
  shows "wf_products products'"
proof (cases "find (\<lambda>product. mp_id product = pv_product_id c) products")
  case None
  then have "products' = products @ [\<lparr>mp_id = pv_product_id c, mp_name = pv_name c, mp_versions = [c]\<rparr>]"
    using assms(2) by (simp add: insert_candidate_def)
  then show ?thesis
    using None assms(1) by (auto simp: wf_products_def find_None_iff)
next
  case (Some prod)
  let ?p = "\<lambda>product. mp_id product = pv_product_id c"
  let ?f = "\<lambda>product. product\<lparr>mp_versions := mp_versions product @ [c]\<rparr>"
  have new: "\<forall>r \<in> set (mp_versions prod). pv_version r \<noteq> pv_version c"
    and p': "products' = update_first ?p ?f products"
    using assms(2) Some by (auto simp: insert_candidate_def split: if_splits)
  have prod: "prod \<in> set products" "?p prod" using Some by (auto simp: find_Some_iff)
  have inj: "inj_on mp_id (set products)"
    using assms(1) by (simp add: wf_products_def distinct_map)
  have uniq: "x = prod" if "x \<in> set products" "?p x" for x
    using inj_onD [OF inj, of x prod] that prod by simp
  have ids: "map mp_id products' = map mp_id products"
    unfolding p' by (rule map_update_first) simp
  have old: "distinct (map pv_version (mp_versions x))" "\<forall>v \<in> set (mp_versions x). pv_product_id v = mp_id x"
    if "x \<in> set products" for x
    using assms(1) that by (simp_all add: wf_products_def)
  have "pv_version c \<notin> pv_version ` set (mp_versions prod)"
    using new by (metis imageE)
  then have added: "distinct (map pv_version (mp_versions (?f prod)))"
    using old(1) [OF prod(1)] by simp
  have filed: "\<forall>v \<in> set (mp_versions (?f prod)). pv_product_id v = mp_id (?f prod)"
    using old(2) [OF prod(1)] prod(2) by simp
  have "distinct (map pv_version (mp_versions x)) \<and> (\<forall>v \<in> set (mp_versions x). pv_product_id v = mp_id x)"
    if "x \<in> set products'" for x
    using set_update_first [OF that [unfolded p']]
  proof (elim disjE bexE conjE)
    assume "x \<in> set products"
    then show ?thesis using old by blast
  next
    fix y
    assume "y \<in> set products" "?p y" "x = ?f y"
    then show ?thesis using uniq [of y] added filed by blast
  qed
  then show ?thesis using assms(1) ids by (simp add: wf_products_def)
qed

text \<open>What a withdrawal does to it: one entry is marked, the others stay.\<close>

lemma withdraw_history:
  assumes "find_version i v products = Some r"
  shows "history_of (withdraw_record i v reason now products) =
    (history_of products)((i, v) \<mapsto> mark_withdrawn reason now r)"
proof -
  let ?q = "\<lambda>record. pv_version record = v"
  let ?g = "mark_withdrawn reason now"
  let ?f = "\<lambda>product. product\<lparr>mp_versions := update_first ?q ?g (mp_versions product)\<rparr>"
  obtain prod where prod: "find (\<lambda>product. mp_id product = i) products = Some prod"
    and r: "find ?q (mp_versions prod) = Some r"
    using assms by (auto simp: find_version_def split: option.splits)
  have g: "pv_version (?g x) = pv_version x" for x by (simp add: mark_withdrawn_def)
  have same: "find (\<lambda>product. mp_id product = i) (withdraw_record i v reason now products) = Some (?f prod)"
    unfolding withdraw_record_def by (subst find_update_same) (simp_all add: prod)
  have other: "find (\<lambda>product. mp_id product = j) (withdraw_record i v reason now products) =
      find (\<lambda>product. mp_id product = j) products" if "j \<noteq> i" for j
    unfolding withdraw_record_def using that by (intro find_update_other) auto
  have "find_version j u (withdraw_record i v reason now products) =
      ((history_of products)((i, v) \<mapsto> ?g r)) (j, u)" for j u
  proof (cases "j = i")
    case True
    show ?thesis
    proof (cases "u = v")
      case True
      have "find ?q (update_first ?q ?g (mp_versions prod)) = Some (?g r)"
        by (subst find_update_same) (simp_all add: g r)
      with True \<open>j = i\<close> same show ?thesis by (simp add: find_version_def)
    next
      case False
      have "find (\<lambda>record. pv_version record = u) (update_first ?q ?g (mp_versions prod)) =
          find (\<lambda>record. pv_version record = u) (mp_versions prod)"
        using False by (intro find_update_other) (auto simp: g)
      with False \<open>j = i\<close> same prod show ?thesis by (simp add: find_version_def history_of_def)
    qed
  next
    case False
    then show ?thesis using other by (simp add: find_version_def history_of_def)
  qed
  then show ?thesis by (auto simp: history_of_def)
qed

lemma withdraw_wf:
  assumes "wf_products products"
  shows "wf_products (withdraw_record i v reason now products)"
proof -
  let ?g = "mark_withdrawn reason now"
  let ?f = "\<lambda>product. product\<lparr>mp_versions :=
     update_first (\<lambda>record. pv_version record = v) ?g (mp_versions product)\<rparr>"
  have keep: "map pv_version (update_first q ?g rs) = map pv_version rs"
    "map pv_product_id (update_first q ?g rs) = map pv_product_id rs" for q rs
    by (rule map_update_first, simp add: mark_withdrawn_def)+
  have "map mp_id (withdraw_record i v reason now products) = map mp_id products"
    unfolding withdraw_record_def by (rule map_update_first) simp
  moreover have "distinct (map pv_version (mp_versions x)) \<and>
      (\<forall>w \<in> set (map pv_product_id (mp_versions x)). w = mp_id x)"
    if "x \<in> set (withdraw_record i v reason now products)" for x
    using set_update_first [OF that [unfolded withdraw_record_def]] assms
    by (auto simp: wf_products_def keep simp del: set_map) auto
  ultimately show ?thesis using assms by (simp add: wf_products_def)
qed

end
