(* ===== verification/Publish.thy ===== *)
theory Publish
  imports Manifest
begin

text \<open>
  \<open>validate_publication\<close>, \<open>publish_reviewed\<close> and \<open>withdraw_with_precondition\<close>: everything a
  provider does to its own manifest, with the lock around it.
\<close>

section \<open>Inspecting the declared assets\<close>

definition inspect_parquet :: "ext \<Rightarrow> path \<Rightarrow> ((string, string) btree \<times> 64 word) peer" where
  "inspect_parquet E p =
     io_bind (sys (sys_read p)) (\<lambda>bytes. io_lift (parquet_descriptor E p bytes))"

definition inspect_geotiff :: "ext \<Rightarrow> path \<Rightarrow> raster_publication \<Rightarrow> raster_descriptor peer" where
  "inspect_geotiff E p profile =
     io_bind (sys (sys_read p)) (\<lambda>bytes. io_lift (geotiff_descriptor E p profile bytes))"

datatype descriptor =
  Parquet_Found "(string, string) btree \<times> 64 word" | Raster_Found raster_descriptor

definition inspect_asset :: "ext \<Rightarrow> publication_request \<Rightarrow> path \<Rightarrow> descriptor peer" where
  "inspect_asset E r canonical =
     (case (pr_data_kind r, pr_data_format r) of
        (Table, Parquet_Format) \<Rightarrow>
          io_bind (inspect_parquet E canonical) (\<lambda>d. io_ret (Parquet_Found d))
      | (Raster, Geotiff) \<Rightarrow>
          io_bind (inspect_geotiff E canonical (the (pr_raster r))) (\<lambda>d. io_ret (Raster_Found d))
      | _ \<Rightarrow> io_err (UnsupportedFormat
                ''data_kind/data_format must be table/parquet or raster/geotiff''))"

definition validate_asset ::
  "ext \<Rightarrow> path \<Rightarrow> publication_request \<Rightarrow> string list \<Rightarrow> path list \<Rightarrow> declared_asset \<Rightarrow>
   (asset_record \<times> descriptor) peer" where
  "validate_asset E serving r ids paths a =
     io_bind (io_lift (non_blank ''assets.id'' (da_id a))) (\<lambda>_.
     io_bind (io_lift (non_blank ''assets.role'' (da_role a))) (\<lambda>_.
     io_bind (io_lift (non_blank ''assets.media_type'' (da_media_type a))) (\<lambda>_.
     io_bind (io_lift (ensure (da_id a \<notin> set ids)
        (Validation ''assets.id'' (''duplicate asset id '' @ quote (da_id a))))) (\<lambda>_.
     io_bind (io_lift (validate_relative_path (da_path a) ''assets.path'')) (\<lambda>_.
     io_bind (io_lift (ensure (\<not> (\<exists>p \<in> set paths. path_eq p (da_path a)))
        (Validation ''assets.path'' (''duplicate asset path '' @ quote (da_path a))))) (\<lambda>_.
     io_bind (checked_asset_path serving serving (da_path a)) (\<lambda>(_, canonical).
     io_bind (sys (sys_metadata canonical)) (\<lambda>m.
     if \<not> node_is_file (m_node m) then
       io_err (Policy (''asset '' @ quote (da_path a) @ '' is not a regular file''))
     else
     io_bind (inspect_asset E r canonical) (\<lambda>d.
     io_bind (if da_digest_opt_out a then io_ret None
              else io_bind (sha256_file E canonical) (\<lambda>h. io_ret (Some h))) (\<lambda>digest.
     io_ret
       (\<lparr>ar_id = da_id a, ar_path = da_path a, ar_role = da_role a,
         ar_media_type = da_media_type a, ar_size = of_nat (m_len m), ar_sha256 = digest\<rparr>, d)))))))))))"

fun validate_assets ::
  "ext \<Rightarrow> path \<Rightarrow> publication_request \<Rightarrow> string list \<Rightarrow> path list \<Rightarrow> declared_asset list \<Rightarrow>
   (asset_record \<times> descriptor) list peer" where
  "validate_assets E serving r ids paths [] = io_ret []"
| "validate_assets E serving r ids paths (a # as) =
     io_bind (validate_asset E serving r ids paths a) (\<lambda>found.
     io_bind (validate_assets E serving r (da_id a # ids) (da_path a # paths) as) (\<lambda>more.
     io_ret (found # more)))"

definition parquet_found :: "descriptor list \<Rightarrow> ((string, string) btree \<times> 64 word) list" where
  "parquet_found ds = List.map_filter (\<lambda>d. case d of Parquet_Found x \<Rightarrow> Some x | _ \<Rightarrow> None) ds"

definition raster_found :: "descriptor list \<Rightarrow> raster_descriptor list" where
  "raster_found ds = List.map_filter (\<lambda>d. case d of Raster_Found x \<Rightarrow> Some x | _ \<Rightarrow> None) ds"

definition merge_descriptors ::
  "ext \<Rightarrow> publication_request \<Rightarrow> descriptor list \<Rightarrow>
   (table_descriptor option \<times> raster_descriptor option) peer_result" where
  "merge_descriptors E r ds =
     (case pr_data_kind r of
        Table \<Rightarrow> map_ok (\<lambda>t. (Some t, None))
                   (merge_table_descriptors E (parquet_found ds) (the (pr_table r)))
      | Raster \<Rightarrow> map_ok (\<lambda>d. (None, Some d)) (merge_raster_descriptors (raster_found ds)))"

definition candidate_of ::
  "publication_request \<Rightarrow> asset_record list \<Rightarrow> table_descriptor option \<Rightarrow>
   raster_descriptor option \<Rightarrow> string \<Rightarrow> published_version" where
  "candidate_of r assets table raster now =
     \<lparr>pv_product_id = pr_product_id r, pv_name = pr_name r, pv_version = pr_version r,
      pv_lifecycle = Active, pv_withdrawal_reason = None,
      pv_data_kind = pr_data_kind r, pv_data_format = pr_data_format r,
      pv_description = pr_description r, pv_intended_use = pr_intended_use r,
      pv_limitations = pr_limitations r, pv_owner_team = pr_owner_team r,
      pv_producer = pr_producer r, pv_contact = pr_contact r,
      pv_usage_policy = pr_usage_policy r, pv_classification = pr_classification r,
      pv_quality = pr_quality r, pv_assets = assets, pv_lineage = pr_lineage r,
      pv_table = table, pv_raster = raster, pv_published_at = now, pv_withdrawn_at = None\<rparr>"

definition validate_publication :: "ext \<Rightarrow> project \<Rightarrow> publication_request \<Rightarrow> published_version peer" where
  "validate_publication E p r =
     io_bind (io_lift (validate_publication_fields E p r)) (\<lambda>_.
     io_bind (serving_root p) (\<lambda>serving.
     io_bind (validate_assets E serving r [] [] (pr_assets r)) (\<lambda>found.
     io_bind (io_lift (merge_descriptors E r (map snd found))) (\<lambda>(table, raster).
     io_bind (utc_now E) (\<lambda>now.
     io_ret (candidate_of r (map fst found) table raster now))))))"

definition read_publication_request :: "ext \<Rightarrow> path \<Rightarrow> publication_request peer" where
  "read_publication_request E p =
     io_bind (read_bounded p MAX_MANIFEST_BYTES) (\<lambda>bytes.
     io_lift (from_slice E de_publication_request bytes))"

section \<open>Publishing\<close>

definition publication_fingerprint :: "ext \<Rightarrow> published_version \<Rightarrow> string" where
  "publication_fingerprint E candidate =
     hex_digest E (json_print E (ser_published_version (candidate\<lparr>pv_published_at := []\<rparr>)))"

definition recheck_asset :: "ext \<Rightarrow> path \<Rightarrow> asset_record \<Rightarrow> unit peer" where
  "recheck_asset E serving a =
     (let changed = Integrity (''asset '' @ quote (ar_id a) @ '' changed during publication'') in
      io_bind (checked_asset_path serving serving (ar_path a)) (\<lambda>(_, canonical).
      io_bind (sys (sys_metadata canonical)) (\<lambda>m.
      if of_nat (m_len m) \<noteq> ar_size a then io_err changed
      else
        case ar_sha256 a of
          None \<Rightarrow> io_ret ()
        | Some expected \<Rightarrow>
            io_bind (sha256_file E canonical) (\<lambda>h.
            if h \<noteq> expected then io_err changed else io_ret ()))))"

definition recheck_candidate :: "ext \<Rightarrow> path \<Rightarrow> published_version \<Rightarrow> unit peer" where
  "recheck_candidate E serving c = io_for (recheck_asset E serving) (pv_assets c)"

definition revision_check :: "64 word option \<Rightarrow> string \<Rightarrow> serving_manifest \<Rightarrow> unit peer_result" where
  "revision_check expected what m =
     (case expected of
        Some e \<Rightarrow>
          ensure (e = sm_revision m)
            (Conflict (''manifest revision changed from '' @ show_nat (unat e) @ '' to '' @
               show_nat (unat (sm_revision m)) @ '' while '' @ what @ '' awaited confirmation''))
      | None \<Rightarrow> Inr ())"

definition fingerprint_check :: "ext \<Rightarrow> string option \<Rightarrow> published_version \<Rightarrow> unit peer_result" where
  "fingerprint_check E expected c =
     ensure (is_none_or (\<lambda>e. publication_fingerprint E c = e) expected)
       (Conflict ''validated publication inventory changed; review again'')"

text \<open>What happens under the lock.\<close>

definition publish_locked ::
  "ext \<Rightarrow> project \<Rightarrow> path \<Rightarrow> path \<Rightarrow> published_version \<Rightarrow> 64 word option \<Rightarrow> string option \<Rightarrow>
   publication_response peer" where
  "publish_locked E p serving manifest_path candidate expected_revision expected_candidate =
     io_bind (io_lift (fingerprint_check E expected_candidate candidate)) (\<lambda>_.
     io_bind (read_or_empty_manifest E manifest_path (namespace_of p)) (\<lambda>m.
     io_bind (io_lift (ensure (sm_namespace m = namespace_of p)
        (Policy (''manifest namespace '' @ quote (sm_namespace m) @
                 '' does not match project namespace '' @ quote (namespace_of p))))) (\<lambda>_.
     io_bind (io_lift (revision_check expected_revision ''publication'' m)) (\<lambda>_.
     io_bind (recheck_candidate E serving candidate) (\<lambda>_.
     io_bind (io_lift (insert_candidate candidate (sm_products m))) (\<lambda>products.
     io_bind (utc_now E) (\<lambda>now.
     let m' = commit now products m in
     io_bind (write_manifest_atomic E manifest_path m') (\<lambda>_.
     io_ret \<lparr>resp_protocol = PEER_PROTOCOL_VERSION,
             resp_reference = reference (sm_namespace m') (pv_product_id candidate),
             resp_version = pv_version candidate,
             resp_manifest_revision = sm_revision m', resp_status = ''published''\<rparr>))))))))"

definition publish_reviewed ::
  "ext \<Rightarrow> project \<Rightarrow> publication_request \<Rightarrow> 64 word option \<Rightarrow> string option \<Rightarrow>
   publication_response peer" where
  "publish_reviewed E p r expected_revision expected_candidate =
     io_bind (validate_publication E p r) (\<lambda>candidate.
     io_bind (serving_root p) (\<lambda>serving.
     let manifest_path = join serving ''manifest.json'' in
     with_lock E manifest_path
       (publish_locked E p serving manifest_path candidate expected_revision expected_candidate)))"

definition publish_with_precondition ::
  "ext \<Rightarrow> project \<Rightarrow> publication_request \<Rightarrow> 64 word option \<Rightarrow> publication_response peer" where
  "publish_with_precondition E p r expected = publish_reviewed E p r expected None"

definition publish :: "ext \<Rightarrow> project \<Rightarrow> publication_request \<Rightarrow> publication_response peer" where
  "publish E p r = publish_with_precondition E p r None"

section \<open>Withdrawing\<close>

definition withdraw_locked ::
  "ext \<Rightarrow> project \<Rightarrow> path \<Rightarrow> string \<Rightarrow> string \<Rightarrow> string \<Rightarrow> 64 word option \<Rightarrow>
   publication_response peer" where
  "withdraw_locked E p manifest_path product_id version reason expected_revision =
     io_bind (read_manifest_at E manifest_path) (\<lambda>m.
     io_bind (io_lift (revision_check expected_revision ''withdrawal'' m)) (\<lambda>_.
     io_bind (io_lift (ok_or (NotFound (product_id @ '' version '' @ version))
        (find_version product_id version (sm_products m)))) (\<lambda>record.
     if pv_lifecycle record = Withdrawn then
       io_err (Conflict (product_id @ '' version '' @ version @ '' is already withdrawn''))
     else
     io_bind (utc_now E) (\<lambda>withdrawn_at.
     io_bind (utc_now E) (\<lambda>now.
     let m' = commit now (withdraw_record product_id version reason withdrawn_at (sm_products m)) m in
     io_bind (write_manifest_atomic E manifest_path m') (\<lambda>_.
     io_ret \<lparr>resp_protocol = PEER_PROTOCOL_VERSION,
             resp_reference = reference (sm_namespace m') product_id,
             resp_version = version,
             resp_manifest_revision = sm_revision m', resp_status = ''withdrawn''\<rparr>))))))"

definition withdraw_with_precondition ::
  "ext \<Rightarrow> project \<Rightarrow> string \<Rightarrow> string \<Rightarrow> string \<Rightarrow> 64 word option \<Rightarrow> publication_response peer" where
  "withdraw_with_precondition E p product_id version reason expected_revision =
     io_bind (io_lift (validate_product_id product_id)) (\<lambda>_.
     io_bind (io_lift (validate_version version)) (\<lambda>_.
     io_bind (io_lift (non_blank ''reason'' reason)) (\<lambda>_.
     io_bind (serving_root p) (\<lambda>serving.
     let manifest_path = join serving ''manifest.json'' in
     with_lock E manifest_path
       (withdraw_locked E p manifest_path product_id version reason expected_revision)))))"

definition withdraw :: "ext \<Rightarrow> project \<Rightarrow> string \<Rightarrow> string \<Rightarrow> string \<Rightarrow> publication_response peer" where
  "withdraw E p product_id version reason = withdraw_with_precondition E p product_id version reason None"

definition withdraw_qualified ::
  "ext \<Rightarrow> project \<Rightarrow> string \<Rightarrow> string \<Rightarrow> string \<Rightarrow> 64 word option \<Rightarrow> publication_response peer" where
  "withdraw_qualified E p qualified_reference version reason expected_revision =
     io_bind (io_lift (parse_reference qualified_reference)) (\<lambda>(ns, product_id).
     if ns \<noteq> namespace_of p then
       io_err (Policy (''only local namespace '' @ quote (namespace_of p) @ '' may withdraw; '' @
                 quote product_id @ '' belongs to '' @ quote ns @ '',''))
     else withdraw_with_precondition E p product_id version reason expected_revision)"

definition local_manifest_revision :: "ext \<Rightarrow> project \<Rightarrow> 64 word peer" where
  "local_manifest_revision E p =
     io_bind (serving_root p) (\<lambda>serving.
     let manifest_path = join serving ''manifest.json'' in
     io_bind (path_exists manifest_path) (\<lambda>exists.
     if \<not> exists then io_ret 0
     else io_bind (read_manifest_at E manifest_path) (\<lambda>m. io_ret (sm_revision m))))"

end
