(* ===== verification/Fs_Rules.thy ===== *)
theory Fs_Rules
  imports Peer_Files
begin

text \<open>
  Program-logic rules for the file operations: \<open>readonly\<close> code, which leaves the disk as it is,
  and triples for atomic writes and for the manifest lock, both over an arbitrary directory that
  is its own canonical path.
\<close>

section \<open>Passive code\<close>

definition readonly :: "(world, 'e, 'a) io \<Rightarrow> bool" where
  "readonly m \<longleftrightarrow> (\<forall>D e. keeps (\<lambda>w. disk w = D \<and> env w = e) m)"

named_theorems readonly_rules \<open>code that leaves the disk as it is\<close>

lemma readonlyD: "readonly m \<Longrightarrow> m w = (r, w') \<Longrightarrow> disk w' = disk w \<and> env w' = env w"
  unfolding readonly_def using keepsD by fastforce

lemma readonly_hoare:
  assumes "readonly m"
  shows "hoare (on_disk w0 Q) m (\<lambda>_. on_disk w0 Q) (\<lambda>_. on_disk w0 Q)"
  by (rule hoareI) (auto simp: on_disk_def dest!: readonlyD [OF assms])

lemma readonly_ret [readonly_rules, intro!, simp]: "readonly (io_ret x)"
  by (simp add: readonly_def keeps_ret)

lemma readonly_err [readonly_rules, intro!, simp]: "readonly (io_err e)"
  by (simp add: readonly_def keeps_err)

lemma readonly_lift [readonly_rules, intro!, simp]: "readonly (io_lift r)"
  by (simp add: readonly_def keeps_lift)

lemma readonly_bind [readonly_rules, intro!]: "readonly m \<Longrightarrow> (\<And>x. readonly (f x)) \<Longrightarrow> readonly (io_bind m f)"
  by (simp add: readonly_def keeps_bind)

lemma readonly_try [readonly_rules, intro!]: "readonly m \<Longrightarrow> readonly (io_try m)"
  by (simp add: readonly_def keeps_try)

lemma readonly_map_err [readonly_rules, intro!]: "readonly m \<Longrightarrow> readonly (io_map_err g m)"
  by (simp add: readonly_def keeps_map_err)

lemma readonly_if [readonly_rules, intro!]: "readonly m \<Longrightarrow> readonly n \<Longrightarrow> readonly (if b then m else n)"
  by simp

lemma readonly_case_option [readonly_rules, intro!]:
  "readonly m \<Longrightarrow> (\<And>y. readonly (f y)) \<Longrightarrow> readonly (case x of None \<Rightarrow> m | Some y \<Rightarrow> f y)"
  by (cases x) auto

lemma readonly_case_sum [readonly_rules, intro!]:
  "(\<And>e. readonly (f e)) \<Longrightarrow> (\<And>y. readonly (g y)) \<Longrightarrow> readonly (case x of Inl e \<Rightarrow> f e | Inr y \<Rightarrow> g y)"
  by (cases x) auto

lemma readonly_case_prod [readonly_rules, intro!]:
  "(\<And>a b. readonly (f a b)) \<Longrightarrow> readonly (case x of (a, b) \<Rightarrow> f a b)"
  by (cases x) auto

lemma readonly_for [readonly_rules, intro!]: "(\<And>x. readonly (f x)) \<Longrightarrow> readonly (io_for f xs)"
  by (simp add: readonly_def keeps_for)

lemma readonly_query [readonly_rules, intro!, simp]: "readonly (query q)"
  by (auto simp: readonly_def keeps_def query_def syscall_def env_def Let_def split: option.splits)

lemma readonly_calls [readonly_rules, intro!, simp]:
  "readonly (canonicalize p)" "readonly (sys_metadata p)" "readonly (symlink_metadata p)"
  "readonly (sys_read p)" "readonly (read_dir p)" "readonly sync_all" "readonly current_dir"
  by (simp_all add: canonicalize_def sys_metadata_def symlink_metadata_def sys_read_def read_dir_def
      sync_all_def current_dir_def)

lemma readonly_now [readonly_rules, intro!, simp]: "readonly now_nanos"
  by (simp add: readonly_def keeps_def now_nanos_def env_def)

lemma readonly_instant [readonly_rules, intro!, simp]: "readonly instant_now"
  by (simp add: readonly_def keeps_def instant_now_def)

lemma readonly_sequence [readonly_rules, intro!, simp]: "readonly next_sequence"
  by (simp add: readonly_def keeps_def next_sequence_def env_def)

lemma readonly_open [readonly_rules, intro!, simp]: "readonly (open_existing p)"
  by (simp add: open_existing_def)

lemma readonly_tests [readonly_rules, intro!, simp]:
  "readonly (path_exists p)" "readonly (path_is_dir p)" "readonly (path_is_file p)"
  unfolding path_exists_def path_is_dir_def path_is_file_def path_test_def by auto

lemma readonly_sys [readonly_rules, intro!]: "readonly m \<Longrightarrow> readonly (sys m)"
  by (simp add: sys_def readonly_map_err)

lemma readonly_peer_reads [readonly_rules, intro!, simp]:
  "readonly (read_bounded p n)" "readonly (sha256_file E p)" "readonly unique_nonce" "readonly (utc_now E)"
  "readonly (absolute_path p)" "readonly (serving_root pr)" "readonly (open_project E p)"
  "readonly (route_for_namespace pr ns)" "readonly (checked_asset_path a b c)"
  unfolding read_bounded_def sha256_file_def unique_nonce_def utc_now_def absolute_path_def
    serving_root_def open_project_def route_for_namespace_def checked_asset_path_def Let_def
  by (auto simp: case_prod_unfold intro!: readonly_rules)

section \<open>The parent of a file in a real directory\<close>

lemma split_render: "list_all plain_name d \<Longrightarrow> d \<noteq> [] \<Longrightarrow> split_on slash (render d) = [] # d"
  using split_on_append [of slash "[]" "join_with ''/'' d"] split_on_join [of d slash]
  by (auto simp: render_def list_all_iff plain_name_def)

lemma parent_join_render:
  assumes d: "list_all plain_name d" and n: "plain_name n"
  shows "parent (join (render d) n) = Some (render d)"
proof (cases "d = []")
  case True
  have "\<not> skippable n" using n by (simp add: plain_name_def skippable_def)
  then have "pop_segment [n] = Some []" using pop_segment_snoc [of n "[]"] by (simp add: drop_skippable_def)
  then show ?thesis
    using split_render_join [of "[]" n] n True by (simp add: parent_def render_def)
next
  case False
  have "tidy (render d)"
    using d False split_render [OF d False]
    by (auto simp: tidy_def render_def skippable_def plain_name_def list_all_iff)
  then show ?thesis using n by (rule parent_join_plain)
qed

lemma with_file_name_render:
  assumes "list_all plain_name d" "plain_name n"
  shows "with_file_name (join (render d) n) m = join (render d) m"
  using assms by (simp add: with_file_name_def parent_join_render)

section \<open>\<open>create_dir_all\<close> on a directory that exists\<close>

definition dir_prefix :: "loc \<Rightarrow> path" where
  "dir_prefix e = ''/'' @ concat (map (\<lambda>s. s @ ''/'') e)"

lemma dir_prefix_nonempty [simp]: "dir_prefix e \<noteq> []"
  by (simp add: dir_prefix_def)

lemma dir_prefix_snoc: "dir_prefix (e @ [s]) = dir_prefix e @ s @ ''/''"
  by (simp add: dir_prefix_def)

lemma split_dir_prefix:
  "list_all plain_name e \<Longrightarrow> split_on slash (dir_prefix e @ s) = [] # e @ split_on slash s"
proof (induction e arbitrary: s rule: rev_induct)
  case Nil
  then show ?case using split_on_append [of slash "[]" s] by (simp add: dir_prefix_def)
next
  case (snoc x e)
  have x: "slash \<notin> set x" using snoc.prems by (simp add: plain_name_def)
  have "split_on slash (dir_prefix (e @ [x]) @ s) = split_on slash (dir_prefix e @ (x @ slash # s))"
    by (simp add: dir_prefix_snoc)
  also have "\<dots> = [] # e @ split_on slash (x @ slash # s)" using snoc by simp
  finally show ?case using x by (simp add: split_on_append split_on_no_sep)
qed

lemma make_dirs_real:
  "real_dir f (e @ d) \<Longrightarrow> make_dirs m f c (dir_prefix e) d = (Inr (), f)"
proof (induction d arbitrary: e)
  case Nil
  show ?case by simp
next
  case (Cons s d)
  have r: "real_dir f ((e @ [s]) @ d)" using Cons.prems by simp
  have es: "real_dir f (e @ [s])" using real_dir_append [OF r] .
  have s: "plain_name s" and e: "list_all plain_name e"
    using es by (auto simp: real_dir_def)
  have split: "split_on slash (dir_prefix e @ s) = [] # (e @ [s])"
    using split_dir_prefix [OF e, of s] s by (simp add: split_on_no_sep plain_name_def)
  have "walk f max_links True [] ((e @ [s]) @ []) = Inr (e @ [s])"
    using walk_real [of f "[]" "e @ [s]" max_links True "[]"] es by simp
  then have "resolve_path f c True (dir_prefix e @ s) = Inr (e @ [s])"
    using split by (simp add: resolve_path_def) (simp add: dir_prefix_def)
  moreover obtain i where "lookup f (e @ [s]) = Some (Dir i)"
    using real_dir_is_dir [OF es] by (auto simp: is_dir_at_iff)
  ultimately show ?case
    using Cons.IH [OF r] by (simp add: Let_def metadata_at_def node_is_dir_def dir_prefix_snoc)
qed

lemma create_dir_all_real:
  assumes "real_dir f d"
  shows "make_dirs m f c [] (split_on slash (render d)) = (Inr (), f)"
proof (cases "d = []")
  case True
  show ?thesis
    by (simp add: True render_def Let_def metadata_at_def node_is_dir_def resolve_path_def)
next
  case False
  have p: "list_all plain_name d" using assms by (simp add: real_dir_def)
  have "make_dirs m f c ''/'' d = (Inr (), f)"
    using make_dirs_real [of f "[]" d m c] assms by (simp add: dir_prefix_def)
  then show ?thesis
    using split_render [OF p False] by (simp add: Let_def metadata_at_def node_is_dir_def)
qed

section \<open>Atomic writes\<close>

text \<open>
  The program writes into a directory only files whose names begin with a dot (the lock and the
  temporaries) until a rename puts a temporary in place.
\<close>

definition hidden :: "string \<Rightarrow> bool" where
  "hidden n \<longleftrightarrow> starts_with ''.'' n"

definition scratch :: "loc \<Rightarrow> loc \<Rightarrow> bool" where
  "scratch d = below d hidden"

definition scratch_or :: "string \<Rightarrow> loc \<Rightarrow> loc \<Rightarrow> bool" where
  "scratch_or n d = below d (\<lambda>m. hidden m \<or> m = n)"

lemma temporary_name_ok:
  assumes "plain_name n" "list_all is_ascii_digit nonce"
  shows "plain_name (temporary_name (join dir n) nonce)" "hidden (temporary_name (join dir n) nonce)"
proof -
  have "slash \<notin> set nonce" using assms(2) by (auto simp: list_all_iff is_ascii_digit_def)
  then show "plain_name (temporary_name (join dir n) nonce)"
    using assms(1) by (simp add: temporary_name_def name_or_empty_def plain_name_def [of "CHR ''.'' # s" for s])
      (simp add: plain_name_def)
  show "hidden (temporary_name (join dir n) nonce)"
    by (simp add: hidden_def temporary_name_def starts_with_def)
qed

lemma unique_nonce_digits: "unique_nonce w = (Inr s, w') \<Longrightarrow> list_all is_ascii_digit s"
  by (auto simp: unique_nonce_def io_bind_def now_nanos_def io_ret_def list_all_iff dest: show_nat_digits)

lemma hoare_sys:
  "hoare P m Q (\<lambda>k. E (Io k)) \<Longrightarrow> hoare P (sys m) Q E"
  unfolding sys_def by (rule hoare_map_err)

lemma readonly_triple:
  assumes "readonly m" "\<And>f. Q f \<Longrightarrow> R f" "\<And>f. Q f \<Longrightarrow> E f"
  shows "hoare (on_disk w0 Q) m (\<lambda>_. on_disk w0 R) (\<lambda>_. on_disk w0 E)"
  by (rule hoare_conseq [OF readonly_hoare [OF assms(1), of w0 Q]]) (use assms in \<open>auto simp: on_disk_def\<close>)

lemma hoare_nonce:
  "hoare (on_disk w0 Q) unique_nonce (\<lambda>s. on_disk w0 (\<lambda>f. Q f \<and> list_all is_ascii_digit s)) E"
  by (rule hoareI)
     (auto simp: on_disk_def unique_nonce_def io_bind_def now_nanos_def io_ret_def env_def
        list_all_iff dest: show_nat_digits)

lemma scratch_real: "real_dir f0 d \<Longrightarrow> unchanged f0 (scratch d) f \<Longrightarrow> real_dir f d"
  unfolding scratch_def by (rule unchanged_real_dir)

lemma unchanged_real_dir_of: "real_dir f0 d \<Longrightarrow> unchanged f0 (below d H) f \<Longrightarrow> real_dir f d"
  by (rule unchanged_real_dir)

lemma scratch_child [simp]: "scratch d (d @ [n]) \<longleftrightarrow> hidden n" "scratch_or m d (d @ [n]) \<longleftrightarrow> hidden n \<or> n = m"
  by (simp_all add: scratch_def scratch_or_def)

lemma scratch_weaken: "unchanged f0 (scratch d) f \<Longrightarrow> unchanged f0 (scratch_or n d) f"
  unfolding scratch_def scratch_or_def by (erule unchanged_mono) (auto simp: below_def)

definition fresh_file :: "fs \<Rightarrow> loc \<Rightarrow> nat \<Rightarrow> string \<Rightarrow> fs \<Rightarrow> bool" where
  "fresh_file f0 l h c f \<longleftrightarrow> next_ino f0 \<le> h \<and> lookup f l = Some (File h) \<and> contents (inodes f h) = c"

lemma open_new_triple:
  assumes d: "real_dir f0 d" and t: "plain_name t" "H t"
  shows "hoare (on_disk w0 (unchanged f0 (below d H))) (open_new m (join (render d) t))
    (\<lambda>h. on_disk w0 (\<lambda>f. unchanged f0 (below d H) f \<and> fresh_file f0 (d @ [t]) h [] f))
    (\<lambda>_. on_disk w0 (unchanged f0 (below d H)))"
  unfolding open_new_def on_entry_def
proof (rule hoare_syscall, goal_cases)
  case (1 f h f')
  then have c: "fs_create_new m (d @ [t]) f = (Inr h, f')"
    using resolve_entry_real [OF unchanged_real_dir_of [OF d 1(1)] t(1)] by simp
  have "unchanged f0 (below d H) f'"
    using create_new_unchanged [OF 1(1) _ c] t by simp
  moreover have "next_ino f0 \<le> h" using create_new_ok(1) [OF c] unchanged_next [OF 1(1)] by simp
  ultimately show ?case using create_new_ok [OF c] by (simp add: fresh_file_def)
next
  case (2 f k f')
  then have "fs_create_new m (d @ [t]) f = (Inl k, f')"
    using resolve_entry_real [OF unchanged_real_dir_of [OF d 2(1)] t(1)] by simp
  then show ?case using 2(1) create_new_err by blast
qed

lemma write_all_triple:
  "hoare (on_disk w0 (\<lambda>f. unchanged f0 T f \<and> fresh_file f0 l h [] f)) (write_all h bytes)
    (\<lambda>_. on_disk w0 (\<lambda>f. unchanged f0 T f \<and> fresh_file f0 l h bytes f)) (\<lambda>_. on_disk w0 (unchanged f0 T))"
  by (rule hoare_write_all) (auto simp: fresh_file_def append_unchanged)

lemma rename_into_place:
  assumes u: "unchanged f0 (below d H) f" and h: "fresh_file f0 (d @ [t]) h bytes f"
    and t: "H t" and r: "fs_rename (d @ [t]) (d @ [n]) f = (Inr x, f')"
  shows "unchanged f0 (below d (\<lambda>m. H m \<or> m = n)) f' \<and> fs_read (d @ [n]) f' = Inr bytes"
proof
  have "unchanged f0 (below d (\<lambda>m. H m \<or> m = n)) f"
    using u by (rule unchanged_mono) (auto simp: below_def)
  from rename_unchanged [OF this _ _ r] t show "unchanged f0 (below d (\<lambda>m. H m \<or> m = n)) f'"
    by simp
  have "lookup f' (d @ [n]) = Some (File h) \<and> contents (inodes f' h) = bytes"
    using rename_cases [OF r] h lookup_move_target [of "d @ [t]" "d @ [n]" f]
    by (auto simp: fresh_file_def)
  then show "fs_read (d @ [n]) f' = Inr bytes" by (simp add: fs_read_def)
qed

lemma rename_triple:
  assumes d: "real_dir f0 d" and n: "plain_name n" and t: "plain_name t" "H t"
  shows "hoare (on_disk w0 (\<lambda>f. unchanged f0 (below d H) f \<and> fresh_file f0 (d @ [t]) h bytes f))
    (rename (join (render d) t) (join (render d) n))
    (\<lambda>_. on_disk w0 (\<lambda>f. unchanged f0 (below d (\<lambda>m. H m \<or> m = n)) f \<and> fs_read (d @ [n]) f = Inr bytes))
    (\<lambda>_. on_disk w0 (unchanged f0 (below d H)))"
  unfolding rename_def
proof (rule hoare_syscall, goal_cases)
  case (1 f x f')
  then have "real_dir f d" using unchanged_real_dir_of [OF d] by blast
  then have "fs_rename (d @ [t]) (d @ [n]) f = (Inr x, f')"
    using 1(2) by (simp add: resolve_entry_real t n)
  then show ?case using rename_into_place 1(1) t(2) by blast
next
  case (2 f k f')
  then have "real_dir f d" using unchanged_real_dir_of [OF d] by blast
  then have "fs_rename (d @ [t]) (d @ [n]) f = (Inl k, f')"
    using 2(2) by (simp add: resolve_entry_real t n)
  then have "f' = f" using rename_cases by blast
  then show ?case using 2(1) by blast
qed blast

lemma write_atomic_triple:
  assumes d: "real_dir f0 d" and n: "plain_name n"
    and H: "\<And>nonce. list_all is_ascii_digit nonce \<Longrightarrow> H (temporary_name (join (render d) n) nonce)"
  shows "hoare (on_disk w0 (unchanged f0 (below d H))) (write_atomic_text (join (render d) n) bytes)
    (\<lambda>_. on_disk w0 (\<lambda>f. unchanged f0 (below d (\<lambda>m. H m \<or> m = n)) f \<and> fs_read (d @ [n]) f = Inr bytes))
    (\<lambda>_. on_disk w0 (unchanged f0 (below d H)))"
proof -
  let ?I = "unchanged f0 (below d H)"
  have plain: "list_all plain_name d" using d by (simp add: real_dir_def)
  have mk: "hoare (on_disk w0 ?I) (sys (create_dir_all (render d)))
      (\<lambda>_. on_disk w0 ?I) (\<lambda>_. on_disk w0 ?I)"
    unfolding create_dir_all_def create_dir_all_mode_def
    by (rule hoare_sys, rule hoare_syscall) (auto simp: create_dir_all_real [OF unchanged_real_dir_of [OF d]])
  have steps: "hoare (on_disk w0 ?I)
      (io_bind (sys (open_new 420 (join (render d) t))) (\<lambda>h.
       io_bind (sys (write_all h bytes)) (\<lambda>_.
       io_bind (sys sync_all) (\<lambda>_. sys (rename (join (render d) t) (join (render d) n))))))
      (\<lambda>_. on_disk w0 (\<lambda>f. unchanged f0 (below d (\<lambda>m. H m \<or> m = n)) f \<and> fs_read (d @ [n]) f = Inr bytes))
      (\<lambda>_. on_disk w0 ?I)" if t: "plain_name t" "H t" for t
  proof (rule hoare_bind [OF hoare_sys [OF open_new_triple [where H = H, OF d t]]],
      rule hoare_bind [OF hoare_sys [OF write_all_triple]], rule hoare_bind)
    fix h
    show "hoare (on_disk w0 (\<lambda>f. ?I f \<and> fresh_file f0 (d @ [t]) h bytes f)) (sys sync_all)
        (\<lambda>_. on_disk w0 (\<lambda>f. ?I f \<and> fresh_file f0 (d @ [t]) h bytes f)) (\<lambda>_. on_disk w0 ?I)"
      by (rule readonly_triple) auto
  next
    fix h
    show "hoare (on_disk w0 (\<lambda>f. ?I f \<and> fresh_file f0 (d @ [t]) h bytes f))
        (sys (rename (join (render d) t) (join (render d) n)))
        (\<lambda>_. on_disk w0 (\<lambda>f. unchanged f0 (below d (\<lambda>m. H m \<or> m = n)) f \<and> fs_read (d @ [n]) f = Inr bytes))
        (\<lambda>_. on_disk w0 ?I)"
      by (rule hoare_sys [OF rename_triple [where H = H, OF d n t]])
  qed
  show ?thesis
    unfolding write_atomic_text_def parent_join_render [OF plain n] ok_or_simps io_lift_simps
      io_ret_bind Let_def
  proof (rule hoare_bind [OF mk], rule hoare_bind [OF hoare_nonce])
    fix u nonce
    show "hoare (on_disk w0 (\<lambda>f. ?I f \<and> list_all is_ascii_digit nonce))
      (io_bind (sys (open_new 420 (join (render d) (temporary_name (join (render d) n) nonce)))) (\<lambda>h.
       io_bind (sys (write_all h bytes)) (\<lambda>_.
       io_bind (sys sync_all) (\<lambda>_.
         sys (rename (join (render d) (temporary_name (join (render d) n) nonce)) (join (render d) n))))))
      (\<lambda>_. on_disk w0 (\<lambda>f. unchanged f0 (below d (\<lambda>m. H m \<or> m = n)) f \<and> fs_read (d @ [n]) f = Inr bytes))
      (\<lambda>_. on_disk w0 ?I)"
    proof (cases "list_all is_ascii_digit nonce")
      case True
      show ?thesis
        by (rule hoare_conseq [OF steps [OF temporary_name_ok(1) [OF n True] H [OF True]]]) (auto simp: on_disk_def)
    next
      case False
      then show ?thesis by (simp add: hoare_def on_disk_def)
    qed
  qed
qed

text \<open>The temporaries of one file.\<close>

definition temporary_of :: "string \<Rightarrow> string \<Rightarrow> bool" where
  "temporary_of n m \<longleftrightarrow> starts_with (''.'' @ n @ ''.'') m"

lemma temporary_of_name: "plain_name n \<Longrightarrow> temporary_of n (temporary_name (join dir n) nonce)"
  by (simp add: temporary_of_def temporary_name_def name_or_empty_def starts_with_iff)

lemma temporary_of_hidden: "temporary_of n m \<Longrightarrow> hidden m"
  by (auto simp: temporary_of_def hidden_def starts_with_iff)

section \<open>The lock\<close>

definition lock_name :: string where
  "lock_name = ''.feam-manifest.lock''"

lemma lock_name_ok [simp]: "plain_name lock_name" "hidden lock_name"
  by (simp_all add: lock_name_def plain_name_def hidden_def starts_with_def)

definition quiet :: "world \<Rightarrow> bool" where
  "quiet w \<longleftrightarrow> (\<forall>n f. others w n f = f)"

lemma sleep_quiet: "quiet w0 \<Longrightarrow> on_disk w0 Q w \<Longrightarrow> on_disk w0 Q (snd (sleep ms w))"
  by (simp add: on_disk_def quiet_def sleep_def env_def)

lemma write_lock_triple:
  "hoare (on_disk w0 (\<lambda>f. unchanged f0 T f \<and> fresh_file f0 l h [] f)) (write_lock E h)
    (\<lambda>_. on_disk w0 (\<lambda>f. unchanged f0 T f \<and> lookup f l = Some (File h)))
    (\<lambda>_. on_disk w0 (unchanged f0 T))"
proof -
  have wr: "hoare (on_disk w0 (\<lambda>f. unchanged f0 T f \<and> fresh_file f0 l h [] f))
      (\<lambda>w. sys (write_all h (lock_line E (process_id w) now)) w)
      (\<lambda>_. on_disk w0 (\<lambda>f. unchanged f0 T f \<and> lookup f l = Some (File h)))
      (\<lambda>_. on_disk w0 (unchanged f0 T))" for now
  proof (rule hoareI)
    fix w x w'
    assume a: "on_disk w0 (\<lambda>f. unchanged f0 T f \<and> fresh_file f0 l h [] f) w"
      "sys (write_all h (lock_line E (process_id w) now)) w = (Inr x, w')"
    from hoare_okD [OF hoare_sys [OF write_all_triple] a]
    show "on_disk w0 (\<lambda>f. unchanged f0 T f \<and> lookup f l = Some (File h)) w'"
      by (auto simp: on_disk_def fresh_file_def)
  next
    fix w e w'
    assume a: "on_disk w0 (\<lambda>f. unchanged f0 T f \<and> fresh_file f0 l h [] f) w"
      "sys (write_all h (lock_line E (process_id w) now)) w = (Inl e, w')"
    from hoare_errD [OF hoare_sys [OF write_all_triple] a] show "on_disk w0 (unchanged f0 T) w'" .
  qed
  show ?thesis
    unfolding write_lock_def
    by (rule hoare_bind [OF readonly_triple hoare_bind [OF wr readonly_triple]]) auto
qed

lemma acquire_loop_triple:
  assumes d: "real_dir f0 d" and q: "quiet w0"
  shows "on_disk w0 (unchanged f0 (scratch d)) w \<Longrightarrow>
    acquire_loop E (join (render d) lock_name) started timeout w = (r, w') \<Longrightarrow>
    on_disk w0 (unchanged f0 (scratch d)) w' \<and>
    (\<forall>l. r = Inr l \<longrightarrow> l = join (render d) lock_name \<and>
       on_disk w0 (\<lambda>f. \<exists>h. lookup f (d @ [lock_name]) = Some (File h)) w')"
proof (induction E "join (render d) lock_name" started timeout w arbitrary: r w' rule: acquire_loop.induct)
  case (1 E started timeout w)
  let ?I = "on_disk w0 (unchanged f0 (scratch d))"
  let ?p = "join (render d) lock_name"
  note open_t = open_new_triple [where H = hidden, OF d lock_name_ok, of w0 420, folded scratch_def]
  obtain s w1 where s: "open_new 420 ?p w = (s, w1)" by (cases "open_new 420 ?p w")
  show ?case
  proof (cases s)
    case (Inr h)
    then have "on_disk w0 (\<lambda>f. unchanged f0 (scratch d) f \<and> fresh_file f0 (d @ [lock_name]) h [] f) w1"
      using hoare_okD [OF open_t "1.prems"(1)] s by blast
    moreover have "io_bind (write_lock E h) (\<lambda>_. io_ret ?p) w1 = (r, w')"
      using "1.prems"(2) s Inr by (subst (asm) acquire_loop.simps) simp
    moreover obtain x w2 where x: "write_lock E h w1 = (x, w2)" by (cases "write_lock E h w1")
    ultimately show ?thesis
      using hoare_okD [OF write_lock_triple, of w0 f0 "scratch d" "d @ [lock_name]" h w1 E _ w2]
        hoare_errD [OF write_lock_triple, of w0 f0 "scratch d" "d @ [lock_name]" h w1 E _ w2]
      by (cases x) (auto simp: io_bind_def on_disk_def)
  next
    case (Inl k)
    have i: "?I w1" using hoare_errD [OF open_t "1.prems"(1)] s Inl by blast
    show ?thesis
    proof (cases "k = KAlreadyExists \<and> elapsed w1 - started < timeout")
      case True
      have "acquire_loop E ?p started timeout (snd (sleep 50 w1 :: (peer_error + unit) \<times> world)) = (r, w')"
        using "1.prems"(2) s Inl True by (subst (asm) acquire_loop.simps) simp
      then show ?thesis
        using "1.hyps" [OF s [symmetric] Inl _ _ sleep_quiet [OF q i]] True by simp
    next
      case False
      then have "w' = w1 \<and> (\<exists>e. r = Inl e)"
        using "1.prems"(2) s Inl by (subst (asm) acquire_loop.simps) (auto split: if_splits)
      with i show ?thesis by auto
    qed
  qed
qed

end
