(* ===== verification/Publish_Facts.thy ===== *)
theory Publish_Facts
  imports Publish Fs_Rules
begin

text \<open>
  What a publication and a withdrawal do to the provider's directory. On an error nothing but
  scratch files (names with a leading dot) differs, whatever call failed; on success the manifest
  holds the committed change and nothing else.
\<close>

section \<open>Scopes with the lock\<close>

lemma lock_file_render: "list_all plain_name d \<Longrightarrow> plain_name n \<Longrightarrow>
    lock_file (join (render d) n) = join (render d) lock_name"
  by (simp add: lock_file_def with_file_name_render lock_name_def)

lemma lock_acquire_result:
  assumes "real_dir (disk w) d" "quiet w" "plain_name n"
    and "lock_acquire E (join (render d) n) timeout w = (r, w1)"
  shows "on_disk w (unchanged (disk w) (scratch d)) w1 \<and>
    (\<forall>l. r = Inr l \<longrightarrow> l = join (render d) lock_name \<and>
       (\<exists>h. lookup (disk w1) (d @ [lock_name]) = Some (File h)))"
proof -
  have "list_all plain_name d" using assms(1) by (simp add: real_dir_def)
  then have "acquire_loop E (join (render d) lock_name) (elapsed w) timeout w = (r, w1)"
    using assms(3,4) by (simp add: lock_acquire_def io_bind_def instant_now_def lock_file_render)
  from acquire_loop_triple [OF assms(1,2) _ this] show ?thesis by (auto simp: on_disk_def)
qed

lemma with_lock_cases:
  assumes "real_dir (disk w) d" "quiet w" "plain_name n"
    and "with_lock E (join (render d) n) body w = (r, w')"
  obtains (not_acquired) e where "r = Inl e" "on_disk w (unchanged (disk w) (scratch d)) w'"
  | (held) w1 w2 h where "on_disk w (unchanged (disk w) (scratch d)) w1" "body w1 = (r, w2)"
      "lookup (disk w1) (d @ [lock_name]) = Some (File h)"
      "w' = snd (remove_file (join (render d) lock_name) w2)"
proof -
  obtain s w1 where s: "lock_acquire E (join (render d) n) 30000 w = (s, w1)"
    by (cases "lock_acquire E (join (render d) n) 30000 w")
  note a = lock_acquire_result [OF assms(1-3) s]
  show ?thesis
  proof (cases s)
    case (Inl e)
    then show ?thesis
      using a assms(4) s not_acquired by (auto simp: with_lock_def io_bind_def)
  next
    case (Inr l)
    obtain q w2 where b: "body w1 = (q, w2)" by (cases "body w1")
    then show ?thesis
      using held [of w1 w2] a assms(4) s Inr by (fastforce simp: with_lock_def io_bind_def)
  qed
qed

lemma remove_lock_result:
  assumes "real_dir (disk w) d"
  shows "env (snd (remove_file (join (render d) lock_name) w)) = env w"
    and "disk (snd (remove_file (join (render d) lock_name) w)) = disk w \<or>
         disk (snd (remove_file (join (render d) lock_name) w)) = del_node (d @ [lock_name]) (disk w)"
  using resolve_entry_real [OF assms lock_name_ok(1)]
  by (auto simp: remove_file_def on_entry_def syscall_def Let_def env_def fs_remove_file_def
      split: option.splits node.splits)

lemma remove_lock_no_faults:
  assumes "real_dir (disk w) d" "faults w = (\<lambda>_. None)" "lookup (disk w) (d @ [lock_name]) = Some (File h)"
  shows "lookup (disk (snd (remove_file (join (render d) lock_name) w))) (d @ [lock_name]) = None"
  using resolve_entry_real [OF assms(1) lock_name_ok(1)] assms(2,3)
  by (auto simp: remove_file_def on_entry_def syscall_def Let_def fs_remove_file_def lookup_del_node)

lemma del_node_unchanged: "unchanged f0 T f \<Longrightarrow> T l \<Longrightarrow> unchanged f0 T (del_node l f)"
  by (auto simp: unchanged_def lookup_del_node) (auto simp: del_node_def)

section \<open>Reading the manifest\<close>

definition manifest_loc :: "loc \<Rightarrow> loc" where
  "manifest_loc d = d @ [''manifest.json'']"

definition manifest_at :: "loc \<Rightarrow> path" where
  "manifest_at d = join (render d) ''manifest.json''"

lemma manifest_name_ok [simp]: "plain_name ''manifest.json''" "\<not> hidden ''manifest.json''"
  by (simp_all add: plain_name_def hidden_def starts_with_def)

text \<open>The manifest of a directory: absent, or a regular file, not a link to another place.\<close>

definition plain_manifest :: "fs \<Rightarrow> loc \<Rightarrow> bool" where
  "plain_manifest f d \<longleftrightarrow>
     (case lookup f (manifest_loc d) of
        None \<Rightarrow> True | Some (File i) \<Rightarrow> i < next_ino f | Some _ \<Rightarrow> False)"

definition manifest_bytes :: "fs \<Rightarrow> loc \<Rightarrow> string option" where
  "manifest_bytes f d = (case fs_read (manifest_loc d) f of Inr bytes \<Rightarrow> Some bytes | Inl _ \<Rightarrow> None)"

lemma unchanged_manifest:
  assumes "unchanged f0 (scratch d) f" "plain_manifest f0 d"
  shows "lookup f (manifest_loc d) = lookup f0 (manifest_loc d)"
    and "manifest_bytes f d = manifest_bytes f0 d" "plain_manifest f d"
proof -
  show l: "lookup f (manifest_loc d) = lookup f0 (manifest_loc d)"
    by (rule unchanged_lookup [OF assms(1)]) (simp add: manifest_loc_def)
  show "manifest_bytes f d = manifest_bytes f0 d"
    using l assms(2) unchanged_inode [OF assms(1)]
    by (auto simp: manifest_bytes_def fs_read_def plain_manifest_def split: option.splits node.splits)
  show "plain_manifest f d"
    using l assms(2) unchanged_next [OF assms(1)]
    by (auto simp: plain_manifest_def split: option.splits node.splits)
qed

lemma sys_read_manifest:
  assumes "real_dir (disk w) d" "plain_manifest (disk w) d" "sys_read (manifest_at d) w = (Inr bytes, w')"
  shows "manifest_bytes (disk w) d = Some bytes"
proof (cases "lookup (disk w) (manifest_loc d)")
  case None
  then have "resolve_path (disk w) (cwd w) True (manifest_at d) = Inl KNotFound"
    using resolve_file_real(2) [OF assms(1) manifest_name_ok(1)] by (simp add: manifest_at_def manifest_loc_def)
  then show ?thesis using assms(3)
    by (auto simp: sys_read_def query_def syscall_def Let_def split: option.splits)
next
  case (Some n)
  then obtain i where i: "n = File i" using assms(2) by (cases n) (auto simp: plain_manifest_def)
  with Some have "resolve_path (disk w) (cwd w) True (manifest_at d) = Inr (manifest_loc d)"
    using resolve_file_real(1) [OF assms(1) manifest_name_ok(1)] by (simp add: manifest_at_def manifest_loc_def)
  then show ?thesis using assms(3)
    by (auto simp: sys_read_def query_def syscall_def Let_def manifest_bytes_def split: option.splits)
qed

lemma readonly_manifest [readonly_rules, intro!, simp]:
  "readonly (read_manifest_at E p)" "readonly (read_or_empty_manifest E p ns)"
  unfolding read_manifest_at_def read_or_empty_manifest_def
  by (auto intro!: readonly_rules split: peer_error.splits)

lemma read_manifest_ok:
  assumes "real_dir (disk w) d" "plain_manifest (disk w) d" "read_manifest_at E (manifest_at d) w = (Inr m, w')"
  shows "\<exists>bytes. manifest_bytes (disk w) d = Some bytes \<and> parse_manifest E bytes = Inr m"
proof -
  obtain b w1 where w1: "(path_exists (manifest_at d) :: bool peer) w = (Inr b, w1)"
    and rest: "(if \<not> b then io_err (NotFound (''manifest '' @ quote (manifest_at d)))
       else io_bind (read_bounded (manifest_at d) MAX_MANIFEST_BYTES)
              (\<lambda>bytes. io_lift (parse_manifest E bytes))) w1 = (Inr m, w')"
    using assms(3) unfolding read_manifest_at_def by (rule io_bindE)
  have same: "disk w1 = disk w"
    using readonlyD [OF readonly_tests(1) w1] by simp
  obtain bytes w2 where b: "read_bounded (manifest_at d) MAX_MANIFEST_BYTES w1 = (Inr bytes, w2)"
    and m: "parse_manifest E bytes = Inr m"
    using rest by (auto simp: io_lift_eq split: if_splits elim!: io_bindE)
  then have "sys_read (manifest_at d) w1 = (Inr bytes, w2)"
    by (auto simp: read_bounded_def sys_def Let_def split: if_splits elim!: io_bindE)
  with m sys_read_manifest [of w1 d] assms(1,2) same show ?thesis by auto
qed

text \<open>
  The manifest a publication starts from. Without faults, a manifest that exists is read: the
  empty one stands in only for an absent file.
\<close>

definition starts_from :: "ext \<Rightarrow> fs \<Rightarrow> loc \<Rightarrow> string \<Rightarrow> serving_manifest \<Rightarrow> bool" where
  "starts_from E f d ns m \<longleftrightarrow>
     (case manifest_bytes f d of
        None \<Rightarrow> (\<exists>now. m = empty_manifest ns now)
      | Some bytes \<Rightarrow> parse_manifest E bytes = Inr m)"

definition no_faults :: "world \<Rightarrow> bool" where
  "no_faults w \<longleftrightarrow> (\<forall>n. faults w n = None)"

lemma path_exists_manifest:
  assumes "real_dir (disk w) d" "plain_manifest (disk w) d" "no_faults w"
    "path_exists (manifest_at d) w = (Inr b, w')"
  shows "b = (manifest_bytes (disk w) d \<noteq> None)"
proof (cases "lookup (disk w) (manifest_loc d)")
  case None
  then have "resolve_path (disk w) (cwd w) True (manifest_at d) = Inl KNotFound"
    using resolve_file_real(2) [OF assms(1) manifest_name_ok(1)] by (simp add: manifest_at_def manifest_loc_def)
  then show ?thesis using assms(3,4) None
    by (auto simp: path_exists_def path_test_def io_bind_def io_try_def io_ret_def sys_metadata_def
        query_def syscall_def Let_def manifest_bytes_def fs_read_def no_faults_def)
next
  case (Some n)
  then obtain i where i: "n = File i" using assms(2) by (cases n) (auto simp: plain_manifest_def)
  with Some have "resolve_path (disk w) (cwd w) True (manifest_at d) = Inr (manifest_loc d)"
    using resolve_file_real(1) [OF assms(1) manifest_name_ok(1)] by (simp add: manifest_at_def manifest_loc_def)
  then show ?thesis using assms(3,4) Some i
    by (auto simp: path_exists_def path_test_def io_bind_def io_try_def io_ret_def sys_metadata_def
        query_def syscall_def Let_def manifest_bytes_def fs_read_def no_faults_def metadata_at_def)
qed

lemma parse_manifest_kinds: "parse_manifest E bytes \<noteq> Inl (NotFound x)"
  by (auto simp: parse_manifest_def and_then_def from_slice_def map_err_def ensure_def
      validate_namespace_def validate_token_def non_blank_def split: sum.splits if_splits)

lemma read_bounded_kinds: "read_bounded p n w \<noteq> (Inl (NotFound x), w')"
  by (auto simp: read_bounded_def sys_def io_map_err_def map_err_def io_bind_def Let_def
      split: prod.splits sum.splits if_splits)

lemma read_or_empty_ok:
  assumes "real_dir (disk w) d" "plain_manifest (disk w) d" "no_faults w"
    and "read_or_empty_manifest E (manifest_at d) ns w = (Inr m, w')"
  shows "starts_from E (disk w) d ns m"
proof -
  obtain r w1 where r: "read_manifest_at E (manifest_at d) w = (r, w1)"
    by (cases "read_manifest_at E (manifest_at d) w")
  then have rest: "(case r of
       Inr manifest \<Rightarrow> io_ret manifest
     | Inl (NotFound _) \<Rightarrow> io_bind (utc_now E) (\<lambda>now. io_ret (empty_manifest ns now))
     | Inl err \<Rightarrow> io_err err) w1 = (Inr m, w')"
    using assms(4) by (simp add: read_or_empty_manifest_def io_bind_def io_try_def)
  show ?thesis
  proof (cases r)
    case (Inr manifest)
    then have "m = manifest" using rest by simp
    then show ?thesis
      using read_manifest_ok [OF assms(1,2), of E manifest w1] r Inr by (auto simp: starts_from_def)
  next
    case (Inl err)
    then obtain x now where err: "err = NotFound x" and m: "m = empty_manifest ns now"
      using rest by (auto split: peer_error.splits elim!: io_bindE)
    have "manifest_bytes (disk w) d = None"
    proof (rule ccontr)
      assume some: "manifest_bytes (disk w) d \<noteq> None"
      obtain b w2 where e: "(path_exists (manifest_at d) :: bool peer) w = (Inr b, w2)"
        by (cases "(path_exists (manifest_at d) :: bool peer) w")
          (auto simp: path_exists_def path_test_def io_bind_def io_try_def io_ret_def split: prod.splits)
      with path_exists_manifest [OF assms(1-3)] some have "b" by blast
      then have "io_bind (read_bounded (manifest_at d) MAX_MANIFEST_BYTES)
          (\<lambda>bytes. io_lift (parse_manifest E bytes)) w2 = (Inl (NotFound x), w1)"
        using r Inl err e by (simp add: read_manifest_at_def io_bind_def)
      then show False
        by (auto elim!: io_bind_errE simp: read_bounded_kinds parse_manifest_kinds)
    qed
    with m show ?thesis by (auto simp: starts_from_def)
  qed
qed

section \<open>Readonly parts\<close>

lemma readonly_inspect [readonly_rules, intro!, simp]:
  "readonly (inspect_parquet E p)" "readonly (inspect_geotiff E p prof)" "readonly (inspect_asset E r p)"
  unfolding inspect_parquet_def inspect_geotiff_def inspect_asset_def
  by (auto intro!: readonly_rules split: data_kind.splits data_format.splits)

lemma readonly_validate_asset [readonly_rules, intro!, simp]: "readonly (validate_asset E s r ids ps a)"
  unfolding validate_asset_def by (intro readonly_rules)

lemma readonly_validate_assets [readonly_rules, intro!, simp]: "readonly (validate_assets E s r ids ps as)"
  by (induction E s r ids ps as rule: validate_assets.induct) (auto intro!: readonly_rules)

lemma readonly_validate_publication [readonly_rules, intro!, simp]: "readonly (validate_publication E p r)"
  unfolding validate_publication_def by (auto intro!: readonly_rules simp: case_prod_unfold)

lemma readonly_recheck [readonly_rules, intro!, simp]: "readonly (recheck_candidate E s c)"
  unfolding recheck_candidate_def recheck_asset_def Let_def
  by (auto intro!: readonly_rules simp: case_prod_unfold)

lemma readonly_ensure [readonly_rules]: "readonly (io_lift r)"
  by simp

section \<open>The provider's directory\<close>

text \<open>The world of a provider whose serving directory resolves to the place \<open>d\<close>.\<close>

definition provider :: "project \<Rightarrow> world \<Rightarrow> loc \<Rightarrow> bool" where
  "provider p w d \<longleftrightarrow>
     (case pc_serving_dir (config p) of
        None \<Rightarrow> False
      | Some s \<Rightarrow> resolve_path (disk w) (cwd w) True (join (root p) s) = Inr d) \<and>
     real_dir (disk w) d \<and> plain_manifest (disk w) d"

lemma serving_root_provider:
  assumes "provider p w d" "serving_root p w = (Inr serving, w')"
  shows "serving = render d" "disk w' = disk w" "env w' = env w"
proof -
  obtain s where s: "pc_serving_dir (config p) = Some s"
    and r: "resolve_path (disk w) (cwd w) True (join (root p) s) = Inr d"
    using assms(1) by (auto simp: provider_def split: option.splits)
  show "disk w' = disk w" "env w' = env w"
    using readonlyD [OF readonly_peer_reads(6) assms(2)] by auto
  obtain b w1 where w1: "(path_is_dir (join (root p) s) :: bool peer) w = (Inr b, w1)"
    and rest: "(if \<not> b then io_err (PeerUnavailable (''serving root '' @ quote (join (root p) s)))
       else sys (canonicalize (join (root p) s))) w1 = (Inr serving, w')"
    using assms(2) unfolding serving_root_def by (auto simp: s Let_def elim!: io_bindE)
  have "disk w1 = disk w \<and> env w1 = env w" using readonlyD [OF readonly_tests(2) w1] .
  then show "serving = render d"
    using rest r by (auto simp: sys_def canonicalize_def query_def syscall_def Let_def env_def
        split: if_splits option.splits)
qed

lemma provider_same:
  "provider p w d \<Longrightarrow> disk w' = disk w \<Longrightarrow> env w' = env w \<Longrightarrow> provider p w' d"
  by (auto simp: provider_def env_def split: option.splits)

end
