(* ===== verification/Lock_Scope.thy ===== *)
theory Lock_Scope
  imports Publish_Facts
begin

text \<open>
  The interface between the manifest lock and the operations that run under it. An operation
  promises that a failure leaves only scratch files and that a success touches at most the
  manifest; the scope promises the same of the whole operation, whenever the lock is had, and
  that the lock is given back.
\<close>

lemma unlock_keeps:
  assumes "unchanged f0 (scratch_or n d) (disk w)" "real_dir f0 d"
  shows "unchanged f0 (scratch_or n d) (disk (snd (remove_file (join (render d) lock_name) w)))"
proof -
  have "real_dir (disk w) d"
    using assms unchanged_real_dir [of f0 d "\<lambda>m. hidden m \<or> m = n"] by (simp add: scratch_or_def)
  from remove_lock_result(2) [OF this] del_node_unchanged [OF assms(1), of "d @ [lock_name]"] assms(1)
  show ?thesis by auto
qed

lemma unlock_manifest:
  assumes "real_dir (disk w) d"
  shows "manifest_bytes (disk (snd (remove_file (join (render d) lock_name) w))) d = manifest_bytes (disk w) d"
proof -
  have "fs_read (manifest_loc d) (del_node (d @ [lock_name]) f) = fs_read (manifest_loc d) f" for f
    by (simp add: fs_read_def lookup_del_node manifest_loc_def lock_name_def)
       (simp add: del_node_def cong: option.case_cong node.case_cong)
  then show ?thesis using remove_lock_result(2) [OF assms] by (auto simp: manifest_bytes_def)
qed

locale locked_operation =
  fixes E :: ext
    and body :: "loc \<Rightarrow> 'a peer"
  assumes body_err: "body d w = (Inl e, w') \<Longrightarrow> real_dir (disk w) d \<Longrightarrow>
      env w' = env w \<and> unchanged (disk w) (scratch d) (disk w')"
    and body_ok: "body d w = (Inr x, w') \<Longrightarrow> real_dir (disk w) d \<Longrightarrow>
      env w' = env w \<and> unchanged (disk w) (scratch_or ''manifest.json'' d) (disk w') \<and>
      lookup (disk w') (d @ [lock_name]) = lookup (disk w) (d @ [lock_name])"
begin

lemma scope_error:
  assumes "with_lock E (manifest_at d) (body d) w = (Inl e, w')" "real_dir (disk w) d" "quiet w"
  shows "unchanged (disk w) (scratch d) (disk w')"
  using assms(2,3) manifest_name_ok(1) assms(1) [unfolded manifest_at_def]
proof (cases rule: with_lock_cases)
  case (not_acquired e')
  then show ?thesis by (simp add: on_disk_def)
next
  case (held v w2 h)
  then have v: "unchanged (disk w) (scratch d) (disk v)" by (simp add: on_disk_def)
  have "unchanged (disk v) (scratch d) (disk w2)"
    using body_err [OF held(2) scratch_real [OF assms(2) v]] by simp
  then have u: "unchanged (disk w) (scratch d) (disk w2)" by (rule unchanged_trans [OF v])
  from remove_lock_result(2) [OF scratch_real [OF assms(2) u]] del_node_unchanged [OF u] u held(4)
  show ?thesis by auto
qed

lemma scope_ok:
  assumes "with_lock E (manifest_at d) (body d) w = (Inr x, w')" "real_dir (disk w) d" "quiet w"
  obtains v w2 where "unchanged (disk w) (scratch d) (disk v)" "env v = env w"
    "body d v = (Inr x, w2)" "manifest_bytes (disk w') d = manifest_bytes (disk w2) d"
    "unchanged (disk w) (scratch_or ''manifest.json'' d) (disk w')"
    "no_faults w \<Longrightarrow> lookup (disk w') (d @ [lock_name]) = None"
  using assms(2,3) manifest_name_ok(1) assms(1) [unfolded manifest_at_def]
proof (cases rule: with_lock_cases)
  case (not_acquired e')
  then show ?thesis by simp
next
  case (held v w2 h)
  then have v: "unchanged (disk w) (scratch d) (disk v)" and ev: "env v = env w"
    by (simp_all add: on_disk_def)
  note b = body_ok [OF held(2) scratch_real [OF assms(2) v]]
  have u2: "unchanged (disk w) (scratch_or ''manifest.json'' d) (disk w2)"
    using unchanged_trans [OF scratch_weaken [OF v]] b by blast
  have r2: "real_dir (disk w2) d"
    using unchanged_real_dir [OF u2 [unfolded scratch_or_def] assms(2)] .
  show ?thesis
  proof (rule that [OF v ev held(2)])
    show "manifest_bytes (disk w') d = manifest_bytes (disk w2) d"
      using unlock_manifest [OF r2] held(4) by simp
    show "unchanged (disk w) (scratch_or ''manifest.json'' d) (disk w')"
      using unlock_keeps [OF u2 assms(2)] held(4) by simp
    assume "no_faults w"
    then have "faults w2 = (\<lambda>_. None)" using b ev by (simp add: no_faults_def env_def fun_eq_iff)
    then show "lookup (disk w') (d @ [lock_name]) = None"
      using remove_lock_no_faults [OF r2] b held(3,4) by simp
  qed
qed

end

end
