(* ===== verification/Json_Codec.thy ===== *)
theory Json_Codec
  imports Json
begin

text \<open>
  One concrete text form for JSON values with its parser. It stands in for the JSON text syntax
  of the library where a run of the model needs one, and shows that a library whose parser reads
  back what its printer wrote exists.
\<close>

section \<open>Printing\<close>

definition enc_int :: "int \<Rightarrow> string" where
  "enc_int i = (if i < 0 then ''-'' else ''+'') @ show_nat (nat \<bar>i\<bar>) @ '';''"

fun enc_str :: "string \<Rightarrow> string" where
  "enc_str [] = '';''"
| "enc_str (c # cs) = CHR ''.'' # c # enc_str cs"

fun enc_json :: "json \<Rightarrow> string"
  and enc_items :: "json list \<Rightarrow> string"
  and enc_fields :: "(string \<times> json) list \<Rightarrow> string" where
  "enc_json JNull = ''n''"
| "enc_json (JBool b) = (if b then ''t'' else ''f'')"
| "enc_json (JInt i) = ''i'' @ enc_int i"
| "enc_json (JFloat r) = ''r'' @ enc_int (fst (quotient_of r)) @ enc_int (snd (quotient_of r))"
| "enc_json (JStr s) = ''s'' @ enc_str s"
| "enc_json (JArr js) = ''a'' @ enc_items js"
| "enc_json (JObj kvs) = ''o'' @ enc_fields kvs"
| "enc_items [] = '']''"
| "enc_items (j # js) = '','' @ enc_json j @ enc_items js"
| "enc_fields [] = '']''"
| "enc_fields ((k, v) # kvs) = '','' @ enc_str k @ enc_json v @ enc_fields kvs"

section \<open>Parsing\<close>

definition dec_int :: "string \<Rightarrow> (int \<times> string) option" where
  "dec_int s =
     (case s of
        [] \<Rightarrow> None
      | c # cs \<Rightarrow>
          (case split_once (CHR '';'') cs of
             None \<Rightarrow> None
           | Some (ds, rest) \<Rightarrow>
               map_option (\<lambda>n. (if c = CHR ''-'' then - int n else int n, rest)) (digits_value 0 ds)))"

fun dec_str :: "string \<Rightarrow> (string \<times> string) option" where
  "dec_str [] = None"
| "dec_str [c] = (if c = CHR '';'' then Some ([], []) else None)"
| "dec_str (a # c # cs) =
     (if a = CHR '';'' then Some ([], c # cs)
      else map_option (\<lambda>(s, rest). (c # s, rest)) (dec_str cs))"

fun dec_json :: "nat \<Rightarrow> string \<Rightarrow> (json \<times> string) option"
  and dec_items :: "nat \<Rightarrow> string \<Rightarrow> (json list \<times> string) option"
  and dec_fields :: "nat \<Rightarrow> string \<Rightarrow> ((string \<times> json) list \<times> string) option" where
  "dec_json 0 s = None"
| "dec_json (Suc n) s =
     (case s of
        [] \<Rightarrow> None
      | c # cs \<Rightarrow>
          if c = CHR ''n'' then Some (JNull, cs)
          else if c = CHR ''t'' then Some (JBool True, cs)
          else if c = CHR ''f'' then Some (JBool False, cs)
          else if c = CHR ''i'' then map_option (\<lambda>(i, r). (JInt i, r)) (dec_int cs)
          else if c = CHR ''r'' then
            (case dec_int cs of
               None \<Rightarrow> None
             | Some (a, r) \<Rightarrow> map_option (\<lambda>(b, r'). (JFloat (Fract a b), r')) (dec_int r))
          else if c = CHR ''s'' then map_option (\<lambda>(s, r). (JStr s, r)) (dec_str cs)
          else if c = CHR ''a'' then map_option (\<lambda>(js, r). (JArr js, r)) (dec_items n cs)
          else if c = CHR ''o'' then map_option (\<lambda>(kvs, r). (JObj kvs, r)) (dec_fields n cs)
          else None)"
| "dec_items 0 s = None"
| "dec_items (Suc n) s =
     (case s of
        [] \<Rightarrow> None
      | c # cs \<Rightarrow>
          if c = CHR '']'' then Some ([], cs)
          else
            (case dec_json n cs of
               None \<Rightarrow> None
             | Some (j, r) \<Rightarrow> map_option (\<lambda>(js, r'). (j # js, r')) (dec_items n r)))"
| "dec_fields 0 s = None"
| "dec_fields (Suc n) s =
     (case s of
        [] \<Rightarrow> None
      | c # cs \<Rightarrow>
          if c = CHR '']'' then Some ([], cs)
          else
            (case dec_str cs of
               None \<Rightarrow> None
             | Some (k, r) \<Rightarrow>
                 (case dec_json n r of
                    None \<Rightarrow> None
                  | Some (v, r') \<Rightarrow> map_option (\<lambda>(kvs, r''). ((k, v) # kvs, r'')) (dec_fields n r'))))"

definition parse_json :: "string \<Rightarrow> json de" where
  "parse_json s =
     (case dec_json (length s) s of
        Some (j, []) \<Rightarrow> Inr j
      | _ \<Rightarrow> Inl (Syntax ''not a value''))"

section \<open>Round trip\<close>

lemma dec_enc_int [simp]: "dec_int (enc_int i @ rest) = Some (i, rest)"
proof -
  have "CHR '';'' \<notin> set (show_nat n)" for n
    by (auto dest: show_nat_digits simp: is_ascii_digit_def)
  then show ?thesis by (simp add: dec_int_def enc_int_def)
qed

lemma dec_enc_str [simp]: "dec_str (enc_str s @ rest) = Some (s, rest)"
proof (induction s)
  case Nil
  then show ?case by (cases rest) auto
next
  case (Cons c s)
  then show ?case by simp
qed

lemma fract_quotient [simp]: "Fract (fst (quotient_of r)) (snd (quotient_of r)) = r"
  by (metis quotient_of_div Fract_of_int_quotient prod.collapse)

lemma dec_enc:
  "length (enc_json j) \<le> n \<Longrightarrow> dec_json n (enc_json j @ rest) = Some (j, rest)"
  "length (enc_items js) \<le> n \<Longrightarrow> dec_items n (enc_items js @ rest) = Some (js, rest)"
  "length (enc_fields kvs) \<le> n \<Longrightarrow> dec_fields n (enc_fields kvs @ rest) = Some (kvs, rest)"
proof (induction j and js and kvs arbitrary: n rest and n rest and n rest
    rule: enc_json_enc_items_enc_fields.induct)
  case 1
  then show ?case by (cases n) auto
next
  case (2 b)
  then show ?case by (cases n; cases b) auto
next
  case (3 i)
  then show ?case by (cases n) auto
next
  case (4 r)
  then show ?case by (cases n) auto
next
  case (5 s)
  then show ?case by (cases n) auto
next
  case (6 js)
  then show ?case by (cases n) auto
next
  case (7 kvs)
  then show ?case by (cases n) auto
next
  case 8
  then show ?case by (cases n) auto
next
  case (9 j js)
  then show ?case by (cases n) auto
next
  case 10
  then show ?case by (cases n) auto
next
  case (11 k v kvs)
  then show ?case by (cases n) auto
qed

lemma parse_enc_json [simp]: "parse_json (enc_json j) = Inr j"
  using dec_enc(1) [of j "length (enc_json j)" "[]"] by (simp add: parse_json_def)

interpretation json_text: codec "\<lambda>_. True" enc_json parse_json
  by unfold_locales simp

end
