(* ===== verification/Example_World.thy ===== *)
theory Example_World
  imports Publish Json_Codec "HOL-Library.Code_Target_Nat" "HOL-Library.Code_Target_Int"
begin

text \<open>
  A small concrete world: a provider project \<open>/p\<close> that serves \<open>/p/s\<close> with one asset, its request,
  and simple library functions. The witnesses of the properties run the model on it.
\<close>

definition demo_ext :: ext where
  "demo_ext =
     \<lparr>sha256 = (\<lambda>s. s), json_parse = parse_json, json_print = enc_json,
      json_pretty = enc_json, toml_parse = (\<lambda>_. Inl ''none''), toml_pretty = (\<lambda>_. Inr ''{}''),
      utf8_valid = (\<lambda>_. True), rfc3339 = (\<lambda>_. ''now''), parse_rfc3339 = (\<lambda>_. Some 0),
      parquet_open = (\<lambda>_. Inr ([(''c'', ''C'')], 7)), tiff_open = (\<lambda>_. Inl ''none''),
      io_text = (\<lambda>_. ''io''), debug_result = (\<lambda>_. ''r''),
      debug_metadata = (\<lambda>m. show_nat (m_stamp m)), unix_metadata = (\<lambda>m. show_nat (node_ino (m_node m))), de_error_text = (\<lambda>_. ''de''), cache_dir_var = None,
      temp_dir = ''/tmp'', rfc3339_auto = (\<lambda>_. ''t''), parse_f64 = (\<lambda>_. None)\<rparr>"

definition demo_fs :: fs where
  "demo_fs =
     \<lparr>nodes = [([''p''], Dir 1), ([''p'', ''s''], Dir 2), ([''p'', ''s'', ''a''], File 3)],
      inodes = (\<lambda>i. \<lparr>contents = (if i = 3 then ''data'' else []), mode = 493, stamp = 0\<rparr>),
      next_ino = 4\<rparr>"

definition demo_world :: world where
  "demo_world =
     \<lparr>disk = demo_fs, cwd = [], tick = 0, faults = (\<lambda>_. None), torn = (\<lambda>_. 0),
      others = (\<lambda>_ f. f), clock = (\<lambda>n. n), elapsed = 0, oversleep = (\<lambda>_. 0), process_id = 7, sequence = 1\<rparr>"

definition demo_project :: project where
  "demo_project =
     \<lparr>root = ''/p'',
      config = \<lparr>pc_schema_version = 1, pc_namespace = ''n'', pc_serving_dir = Some ''s'',
                pc_owner_teams = [''t''], pc_peers = []\<rparr>\<rparr>"

definition demo_request :: publication_request where
  "demo_request =
     \<lparr>pr_schema_version = 1, pr_namespace = ''n'', pr_product_id = ''d'', pr_name = ''x'',
      pr_version = ''1'', pr_data_kind = Table, pr_data_format = Parquet_Format,
      pr_description = ''x'', pr_intended_use = ''x'', pr_limitations = ''x'', pr_owner_team = ''t'',
      pr_producer = ''x'', pr_contact = ''x'', pr_usage_policy = ''x'', pr_classification = ''x'',
      pr_quality = ''x'',
      pr_assets = [\<lparr>da_id = ''a'', da_path = ''a'', da_role = ''x'', da_media_type = ''x'',
                    da_digest_opt_out = False\<rparr>],
      pr_lineage = [],
      pr_table = Some \<lparr>tp_column_meanings = [(''c'', ''m'')], tp_column_units = [(''c'', ''u'')],
                       tp_partition_columns = []\<rparr>,
      pr_raster = None\<rparr>"

text \<open>The version the request publishes, in a manifest at revision 3 of another directory.\<close>

definition demo_version :: published_version where
  "demo_version =
     candidate_of demo_request
       [\<lparr>ar_id = ''a'', ar_path = ''a'', ar_role = ''x'', ar_media_type = ''x'', ar_size = 4,
         ar_sha256 = Some (hex_digest demo_ext ''data'')\<rparr>] None None ''then''"

definition demo_manifest :: serving_manifest where
  "demo_manifest =
     \<lparr>sm_schema_version = 1, sm_namespace = ''n'', sm_revision = 3, sm_updated_at = ''then'',
      sm_products = [\<lparr>mp_id = ''d'', mp_name = ''x'', mp_versions = [demo_version]\<rparr>]\<rparr>"

text \<open>A disk on which that manifest is stored under a short name, and libraries that know the name.\<close>

definition stored_ext :: ext where
  "stored_ext =
     demo_ext\<lparr>json_parse := (\<lambda>s. if s = ''M'' then Inr (ser_serving_manifest demo_manifest)
                                else Inl (Syntax ''none'')),
              json_print := (\<lambda>_. ''{}''), json_pretty := (\<lambda>_. ''{}'')\<rparr>"

definition stored_world :: world where
  "stored_world =
     demo_world\<lparr>disk :=
       \<lparr>nodes = [([''p''], Dir 1), ([''p'', ''s''], Dir 2), ([''p'', ''s'', ''a''], File 3),
                 ([''p'', ''s'', ''manifest.json''], File 4)],
        inodes = (\<lambda>i. \<lparr>contents = (if i = 3 then ''data'' else if i = 4 then ''M'' else []),
                       mode = 493, stamp = 0\<rparr>),
        next_ino = 5\<rparr>\<rparr>"

lemma quiet_simps [simp]: "others demo_world = (\<lambda>_ f. f)" "others stored_world = (\<lambda>_ f. f)"
  "faults demo_world = (\<lambda>_. None)" "faults stored_world = (\<lambda>_. None)"
  by (simp_all add: demo_world_def stored_world_def)

lemma demo_reads_back [simp]: "json_reads_back demo_ext j"
  by (simp add: json_reads_back_def demo_ext_def)

end
