(* ===== verification/Publish_Proofs.thy ===== *)
theory Publish_Proofs
  imports Lock_Scope Example_World
begin

text \<open>
  The contracts of \<open>publish_reviewed\<close> and \<open>withdraw_with_precondition\<close>: what they leave in the
  provider's directory, on success and on every failure.
\<close>

section \<open>Writing the manifest\<close>

lemma lock_not_temporary: "\<not> temporary_of ''manifest.json'' lock_name"
  by (simp add: temporary_of_def lock_name_def starts_with_def)

lemma write_manifest_result:
  assumes "real_dir (disk w) d" "write_manifest_atomic E (manifest_at d) m w = (r, w')"
  shows "env w' = env w"
    and "lookup (disk w') (d @ [lock_name]) = lookup (disk w) (d @ [lock_name])"
    and "r = Inr () \<Longrightarrow> unchanged (disk w) (scratch_or ''manifest.json'' d) (disk w') \<and>
           manifest_bytes (disk w') d = Some (json_pretty E (ser_serving_manifest m))"
    and "r = Inl e \<Longrightarrow> unchanged (disk w) (scratch d) (disk w')"
proof -
  let ?bytes = "json_pretty E (ser_serving_manifest m)"
  let ?H = "temporary_of ''manifest.json''"
  let ?J = "\<lambda>m. ?H m \<or> m = ''manifest.json''"
  have start: "on_disk w (unchanged (disk w) (below d ?H)) w" by (simp add: on_disk_def)
  note t = write_atomic_triple [where H = ?H, OF assms(1) manifest_name_ok(1)
      temporary_of_name [OF manifest_name_ok(1)], of w ?bytes]
  have w: "write_atomic_text (manifest_at d) ?bytes w = (r, w') \<or> (w' = w \<and> (\<exists>e. r = Inl e))"
    using assms(2) by (auto simp: write_manifest_atomic_def Let_def split: if_splits)
  note t_ok = hoare_okD [OF t, of w] and t_err = hoare_errD [OF t, of w]
  have ok: "on_disk w (\<lambda>f. unchanged (disk w) (below d ?J) f \<and>
      fs_read (d @ [''manifest.json'']) f = Inr ?bytes) w'" if "r = Inr ()"
    using w that t_ok [OF start, of "()" w'] by (auto simp: manifest_at_def)
  have err: "on_disk w (unchanged (disk w) (below d ?H)) w'" if "r = Inl e" for e
    using w that t_err [OF start, of e w'] by (auto simp: manifest_at_def on_disk_def)
  have J: "unchanged (disk w) (below d ?J) (disk w')"
  proof (cases r)
    case (Inl e)
    have "unchanged (disk w) (below d ?H) (disk w')" using err [OF Inl] by (simp add: on_disk_def)
    then show ?thesis by (rule unchanged_mono) (auto simp: below_def)
  next
    case (Inr u)
    then show ?thesis using ok by (simp add: on_disk_def)
  qed
  then have "unchanged (disk w) (scratch_or ''manifest.json'' d) (disk w')"
    unfolding scratch_or_def by (rule unchanged_mono) (auto simp: below_def dest: temporary_of_hidden)
  then show "r = Inr () \<Longrightarrow> unchanged (disk w) (scratch_or ''manifest.json'' d) (disk w') \<and>
      manifest_bytes (disk w') d = Some ?bytes"
    using ok by (simp add: on_disk_def manifest_bytes_def manifest_loc_def)
  show "unchanged (disk w) (scratch d) (disk w')" if "r = Inl e"
  proof -
    have "unchanged (disk w) (below d ?H) (disk w')" using err [OF that] by (simp add: on_disk_def)
    then show ?thesis
      unfolding scratch_def by (rule unchanged_mono) (auto simp: below_def dest: temporary_of_hidden)
  qed
  show "lookup (disk w') (d @ [lock_name]) = lookup (disk w) (d @ [lock_name])"
    by (rule unchanged_lookup [OF J]) (simp add: lock_not_temporary, simp add: lock_name_def)
  show "env w' = env w"
    using ok err by (cases r) (auto simp: on_disk_def)
qed

lemma write_manifest_triple:
  assumes d: "real_dir (disk w) d"
  shows "hoare (on_disk w (\<lambda>f. f = disk w)) (write_manifest_atomic E (manifest_at d) m)
    (\<lambda>_ _. True) (\<lambda>_. on_disk w (unchanged (disk w) (scratch d)))"
proof (rule hoareI)
  fix v e v'
  assume a: "on_disk w (\<lambda>f. f = disk w) v" "write_manifest_atomic E (manifest_at d) m v = (Inl e, v')"
  then have "real_dir (disk v) d" using d by (simp add: on_disk_def)
  from write_manifest_result(1,4) [OF this a(2)] a(1)
  show "on_disk w (unchanged (disk w) (scratch d)) v'" by (simp add: on_disk_def)
qed simp

section \<open>Under the lock\<close>

lemma publish_locked_ok:
  assumes run: "publish_locked E p (render d) (manifest_at d) c er ec w = (Inr resp, w')"
    and d: "real_dir (disk w) d"
  obtains m products now where
    "no_faults w \<Longrightarrow> plain_manifest (disk w) d \<Longrightarrow> starts_from E (disk w) d (namespace_of p) m"
    "sm_namespace m = namespace_of p"
    "is_none_or (\<lambda>e. e = sm_revision m) er"
    "is_none_or (\<lambda>e. publication_fingerprint E c = e) ec"
    "insert_candidate c (sm_products m) = Inr products"
    "unchanged (disk w) (scratch_or ''manifest.json'' d) (disk w')"
    "manifest_bytes (disk w') d = Some (json_pretty E (ser_serving_manifest (commit now products m)))"
    "env w' = env w"
    "lookup (disk w') (d @ [lock_name]) = lookup (disk w) (d @ [lock_name])"
    "resp = \<lparr>resp_protocol = PEER_PROTOCOL_VERSION,
             resp_reference = reference (sm_namespace m) (pv_product_id c),
             resp_version = pv_version c,
             resp_manifest_revision = sm_revision m + 1, resp_status = ''published''\<rparr>"
proof -
  from run obtain w0 w1 w2 w3 w4 w5 w6 m products now where
    fp: "is_none_or (\<lambda>e. publication_fingerprint E c = e) ec"
    and rd: "read_or_empty_manifest E (manifest_at d) (namespace_of p) w = (Inr m, w1)"
    and ns: "sm_namespace m = namespace_of p"
    and rev: "revision_check er ''publication'' m = Inr ()"
    and rc: "recheck_candidate E (render d) c w1 = (Inr (), w2)"
    and ins: "insert_candidate c (sm_products m) = Inr products"
    and tm: "utc_now E w2 = (Inr now, w3)"
    and wr: "write_manifest_atomic E (manifest_at d) (commit now products m) w3 = (Inr (), w')"
    and resp: "resp = \<lparr>resp_protocol = PEER_PROTOCOL_VERSION,
             resp_reference = reference (sm_namespace m) (pv_product_id c),
             resp_version = pv_version c,
             resp_manifest_revision = sm_revision m + 1, resp_status = ''published''\<rparr>"
    unfolding publish_locked_def Let_def
    by (elim io_bindE) (auto simp: fingerprint_check_def commit_def)
  have s1: "disk w1 = disk w \<and> env w1 = env w" using rd by (rule readonlyD [rotated]) simp
  have s2: "disk w2 = disk w1 \<and> env w2 = env w1" using rc by (rule readonlyD [rotated]) simp
  have s3: "disk w3 = disk w2 \<and> env w3 = env w2" using tm by (rule readonlyD [rotated]) simp
  have d3: "real_dir (disk w3) d" using d s1 s2 s3 by simp
  have rev': "is_none_or (\<lambda>e. e = sm_revision m) er"
    using rev by (cases er) (auto simp: revision_check_def)
  show ?thesis
    by (rule that [OF _ ns rev' fp ins])
      (use write_manifest_result [OF d3 wr] s1 s2 s3 resp read_or_empty_ok [OF d _ _ rd] in auto)
qed

lemma publish_locked_frame:
  assumes "publish_locked E p (render d) (manifest_at d) c er ec w = (Inr resp, w')" "real_dir (disk w) d"
  shows "env w' = env w \<and> unchanged (disk w) (scratch_or ''manifest.json'' d) (disk w') \<and>
    lookup (disk w') (d @ [lock_name]) = lookup (disk w) (d @ [lock_name])"
  by (rule publish_locked_ok [OF assms]) blast

lemma publish_locked_err:
  assumes run: "publish_locked E p (render d) (manifest_at d) c er ec w = (Inl e, w')"
    and d: "real_dir (disk w) d"
  shows "env w' = env w \<and> unchanged (disk w) (scratch d) (disk w')"
proof -
  have ro: "hoare (on_disk w (\<lambda>f. f = disk w)) m (\<lambda>_. on_disk w (\<lambda>f. f = disk w))
      (\<lambda>_. on_disk w (unchanged (disk w) (scratch d)))" if "readonly m" for m :: "'a peer"
    by (rule readonly_triple [OF that]) auto
  have "hoare (on_disk w (\<lambda>f. f = disk w))
      (publish_locked E p (render d) (manifest_at d) c er ec)
      (\<lambda>_ _. True) (\<lambda>_. on_disk w (unchanged (disk w) (scratch d)))"
    unfolding publish_locked_def Let_def
    by (intro hoare_bind [OF ro] hoare_bind [OF write_manifest_triple [OF d]] hoare_ret) auto
  from hoare_errD [OF this _ run] show ?thesis by (simp add: on_disk_def)
qed

interpretation publishing: locked_operation E "\<lambda>d. publish_locked E p (render d) (manifest_at d) c er ec"
  for E p c er ec
proof
  fix d w e w'
  assume "publish_locked E p (render d) (manifest_at d) c er ec w = (Inl e, w')" "real_dir (disk w) d"
  then show "env w' = env w \<and> unchanged (disk w) (scratch d) (disk w')" by (rule publish_locked_err)
next
  fix d w x w'
  assume run: "publish_locked E p (render d) (manifest_at d) c er ec w = (Inr x, w')" and d: "real_dir (disk w) d"
  show "env w' = env w \<and> unchanged (disk w) (scratch_or ''manifest.json'' d) (disk w') \<and>
      lookup (disk w') (d @ [lock_name]) = lookup (disk w) (d @ [lock_name])"
    using run d by (rule publish_locked_frame)
qed

section \<open>Publication\<close>

lemma validate_publication_ok:
  assumes "validate_publication E p r w = (Inr c, w')"
  shows "validate_publication_fields E p r = Inr ()"
    and "pv_product_id c = pr_product_id r" "pv_version c = pr_version r" "pv_lifecycle c = Active"
  using assms unfolding validate_publication_def
  by (auto elim!: io_bindE simp: candidate_of_def split: prod.splits)

text \<open>An operation that resolves the serving root and then takes the lock there.\<close>

lemma serving_scope:
  assumes run: "io_bind (serving_root p) (\<lambda>serving. with_lock E (join serving ''manifest.json'') (body serving)) w
      = (res, w')"
    and pr: "provider p w d"
  obtains (failed) e where "res = Inl e" "disk w' = disk w" "env w' = env w"
  | (located) w1 where "disk w1 = disk w" "env w1 = env w"
      "with_lock E (manifest_at d) (body (render d)) w1 = (res, w')"
proof -
  obtain rs w2 where s: "serving_root p w = (rs, w2)" by (cases "serving_root p w")
  have s2: "disk w2 = disk w \<and> env w2 = env w" using s by (rule readonlyD [rotated]) simp
  show ?thesis
  proof (cases rs)
    case (Inl e)
    then show ?thesis using run s s2 failed by (auto simp: io_bind_def)
  next
    case (Inr serving)
    then have "serving = render d" using serving_root_provider(1) [OF pr] s by blast
    then show ?thesis using run s s2 Inr located [of w2] by (auto simp: io_bind_def manifest_at_def)
  qed
qed

lemma publish_reviewed_split:
  "publish_reviewed E p r er ec = io_bind (validate_publication E p r) (\<lambda>c.
     io_bind (serving_root p) (\<lambda>serving. with_lock E (join serving ''manifest.json'')
       (publish_locked E p serving (join serving ''manifest.json'') c er ec)))"
  by (simp add: publish_reviewed_def Let_def)

lemma publish_reviewed_cases:
  assumes run: "publish_reviewed E p r er ec w = (res, w')" and pr: "provider p w d"
  obtains (failed) e where "res = Inl e" "disk w' = disk w"
  | (located) c w1 w2 where "validate_publication E p r w = (Inr c, w1)"
      "disk w2 = disk w" "env w2 = env w"
      "with_lock E (manifest_at d) (publish_locked E p (render d) (manifest_at d) c er ec) w2 = (res, w')"
proof -
  obtain rc w1 where c: "validate_publication E p r w = (rc, w1)" by (cases "validate_publication E p r w")
  have s1: "disk w1 = disk w \<and> env w1 = env w" using c by (rule readonlyD [rotated]) simp
  show ?thesis
  proof (cases rc)
    case (Inl e)
    then show ?thesis using run c s1 failed by (auto simp: publish_reviewed_split io_bind_def)
  next
    case (Inr c')
    then have "io_bind (serving_root p) (\<lambda>serving. with_lock E (join serving ''manifest.json'')
       (publish_locked E p serving (join serving ''manifest.json'') c' er ec)) w1 = (res, w')"
      using run c by (simp add: publish_reviewed_split io_bind_Inr)
    moreover have "provider p w1 d" using provider_same [OF pr] s1 by simp
    ultimately show ?thesis
    proof (cases rule: serving_scope)
      case (failed e)
      then show ?thesis using that(1) s1 by simp
    next
      case (located w2)
      then show ?thesis using that(2) [of c' w1 w2] c Inr s1 by (simp add: manifest_at_def)
    qed
  qed
qed

lemma publish_error_scope:
  assumes "publish_reviewed E p r er ec w = (Inl e, w')" "provider p w d" "quiet w"
  shows "unchanged (disk w) (scratch d) (disk w')"
proof -
  have real: "real_dir (disk w) d" using assms(2) by (simp add: provider_def)
  show ?thesis
    using assms(1,2)
  proof (cases rule: publish_reviewed_cases)
    case (failed e')
    then show ?thesis by simp
  next
    case (located c w1 w2)
    have "real_dir (disk w2) d" "quiet w2"
      using located(2,3) real assms(3) by (simp_all add: quiet_def env_def)
    from publishing.scope_error [OF located(4) this] located(2) show ?thesis by simp
  qed
qed


text \<open>C2. A publication that fails, for whatever reason and at whatever call (a validation, a
  conflict, a lock that times out, a disk that fails half way through a write), leaves the
  provider's directory as it was, but for scratch files whose names begin with a dot: no node
  and no content of an existing file differs, and the manifest holds the same bytes.\<close>

theorem publish_error_changes_nothing:
  assumes "publish_reviewed E p r er ec w = (Inl e, w')" "provider p w d" "quiet w"
  shows "unchanged (disk w) (scratch d) (disk w') \<and> manifest_bytes (disk w') d = manifest_bytes (disk w) d"
  using publish_error_scope [OF assms] unchanged_manifest(2) assms(2) by (auto simp: provider_def)

lemma publish_outcome:
  assumes "publish_reviewed E p r er ec w = (Inr resp, w')" "provider p w d" "quiet w" "no_faults w"
  shows "\<exists>m c products now.
    starts_from E (disk w) d (namespace_of p) m \<and>
    is_none_or (\<lambda>e. e = sm_revision m) er \<and>
    is_none_or (\<lambda>e. publication_fingerprint E c = e) ec \<and>
    pv_product_id c = pr_product_id r \<and> pv_version c = pr_version r \<and> pv_lifecycle c = Active \<and>
    insert_candidate c (sm_products m) = Inr products \<and>
    manifest_bytes (disk w') d = Some (json_pretty E (ser_serving_manifest (commit now products m))) \<and>
    resp_manifest_revision resp = sm_revision m + 1 \<and>
    unchanged (disk w) (scratch_or ''manifest.json'' d) (disk w') \<and>
    lookup (disk w') (d @ [lock_name]) = None"
  using assms(1,2)
proof (cases rule: publish_reviewed_cases)
  case (failed e)
  then show ?thesis by simp
next
  case (located c w1 w2)
  have real: "real_dir (disk w2) d" and pm: "plain_manifest (disk w2) d" and w2: "quiet w2" "no_faults w2"
    using located(2,3) assms(2-4) by (auto simp: provider_def quiet_def no_faults_def env_def)
  note cand = validate_publication_ok [OF located(1)]
  from located(4) real w2(1) show ?thesis
  proof (rule publishing.scope_ok)
    fix v w3
    assume v: "unchanged (disk w2) (scratch d) (disk v)" "env v = env w2"
      and run: "publish_locked E p (render d) (manifest_at d) c er ec v = (Inr resp, w3)"
      and after: "manifest_bytes (disk w') d = manifest_bytes (disk w3) d"
        "unchanged (disk w2) (scratch_or ''manifest.json'' d) (disk w')"
        "no_faults w2 \<Longrightarrow> lookup (disk w') (d @ [lock_name]) = None"
    have nf: "no_faults v" using w2(2) v(2) by (simp add: no_faults_def env_def)
    have pv: "plain_manifest (disk v) d" using unchanged_manifest(3) [OF v(1) pm] .
    from run scratch_real [OF real v(1)] show ?thesis
    proof (rule publish_locked_ok)
      fix m products now
      assume m: "no_faults v \<Longrightarrow> plain_manifest (disk v) d \<Longrightarrow> starts_from E (disk v) d (namespace_of p) m"
        and rev: "is_none_or (\<lambda>e. e = sm_revision m) er" "is_none_or (\<lambda>e. publication_fingerprint E c = e) ec"
        and ins: "insert_candidate c (sm_products m) = Inr products"
        and bytes: "manifest_bytes (disk w3) d = Some (json_pretty E (ser_serving_manifest (commit now products m)))"
        and resp: "resp = \<lparr>resp_protocol = PEER_PROTOCOL_VERSION,
             resp_reference = reference (sm_namespace m) (pv_product_id c),
             resp_version = pv_version c,
             resp_manifest_revision = sm_revision m + 1, resp_status = ''published''\<rparr>"
      have "starts_from E (disk w) d (namespace_of p) m"
        using m [OF nf pv] unchanged_manifest(2) [OF v(1) pm] located(2) by (simp add: starts_from_def)
      then show ?thesis
        using rev resp bytes after w2(2) located(2) cand ins
        by (intro exI [of _ m] exI [of _ c] exI [of _ products] exI [of _ now]) simp
    qed
  qed
qed


lemma demo_provider [simp]:
  "provider demo_project demo_world [''p'', ''s'']" "quiet demo_world" "no_faults demo_world"
  "provider demo_project stored_world [''p'', ''s'']" "quiet stored_world" "no_faults stored_world"
proof -
  show "provider demo_project demo_world [''p'', ''s'']" by code_simp
  show "provider demo_project stored_world [''p'', ''s'']" by code_simp
qed (simp_all add: quiet_def no_faults_def)

lemma publish_error_changes_nothing_witness:
  "\<exists>e w'. publish_reviewed demo_ext demo_project demo_request (Some 5) None demo_world = (Inl e, w') \<and>
     unchanged (disk demo_world) (scratch [''p'', ''s'']) (disk w') \<and>
     manifest_bytes (disk w') [''p'', ''s''] = manifest_bytes (disk demo_world) [''p'', ''s'']"
proof -
  let ?run = "publish_reviewed demo_ext demo_project demo_request (Some 5) None demo_world"
  have "\<not> is_ok (fst ?run)" by code_simp
  then obtain e w' where run: "?run = (Inl e, w')"
    by (cases ?run; cases "fst ?run") auto
  show ?thesis
    using run publish_error_changes_nothing [OF run demo_provider(1,2)] by blast
qed


end
