(* ===== verification/Withdraw_Proofs.thy ===== *)
theory Withdraw_Proofs
  imports Publish_Proofs
begin

text \<open>The contract of \<open>withdraw_with_precondition\<close>, over the same lock scope.\<close>

lemma withdraw_locked_ok:
  assumes run: "withdraw_locked E p (manifest_at d) i v reason er w = (Inr resp, w')"
    and d: "real_dir (disk w) d"
  obtains m r t now where
    "plain_manifest (disk w) d \<Longrightarrow>
       \<exists>bytes. manifest_bytes (disk w) d = Some bytes \<and> parse_manifest E bytes = Inr m"
    "is_none_or (\<lambda>e. e = sm_revision m) er"
    "find_version i v (sm_products m) = Some r" "pv_lifecycle r \<noteq> Withdrawn"
    "unchanged (disk w) (scratch_or ''manifest.json'' d) (disk w')"
    "manifest_bytes (disk w') d = Some (json_pretty E (ser_serving_manifest
       (commit now (withdraw_record i v reason t (sm_products m)) m)))"
    "env w' = env w"
    "lookup (disk w') (d @ [lock_name]) = lookup (disk w) (d @ [lock_name])"
    "resp_manifest_revision resp = sm_revision m + 1"
proof -
  from run obtain w1 w2 w3 m r t now where
    rd: "read_manifest_at E (manifest_at d) w = (Inr m, w1)"
    and rev: "revision_check er ''withdrawal'' m = Inr ()"
    and r: "find_version i v (sm_products m) = Some r" "pv_lifecycle r \<noteq> Withdrawn"
    and t1: "utc_now E w1 = (Inr t, w2)" and t2: "utc_now E w2 = (Inr now, w3)"
    and wr: "write_manifest_atomic E (manifest_at d)
       (commit now (withdraw_record i v reason t (sm_products m)) m) w3 = (Inr (), w')"
    and resp: "resp_manifest_revision resp = sm_revision m + 1"
    unfolding withdraw_locked_def Let_def
    by (elim io_bindE) (auto simp: commit_def split: if_splits elim!: io_bindE)
  have s1: "disk w1 = disk w \<and> env w1 = env w" using rd by (rule readonlyD [rotated]) simp
  have s2: "disk w2 = disk w1 \<and> env w2 = env w1" using t1 by (rule readonlyD [rotated]) simp
  have s3: "disk w3 = disk w2 \<and> env w3 = env w2" using t2 by (rule readonlyD [rotated]) simp
  have d3: "real_dir (disk w3) d" using d s1 s2 s3 by simp
  have rev': "is_none_or (\<lambda>e. e = sm_revision m) er"
    using rev by (cases er) (auto simp: revision_check_def)
  show ?thesis
    by (rule that [OF _ rev' r])
      (use write_manifest_result [OF d3 wr] s1 s2 s3 resp read_manifest_ok [OF d _ rd] in auto)
qed

lemma withdraw_locked_err:
  assumes run: "withdraw_locked E p (manifest_at d) i v reason er w = (Inl e, w')"
    and d: "real_dir (disk w) d"
  shows "env w' = env w \<and> unchanged (disk w) (scratch d) (disk w')"
proof -
  have ro: "hoare (on_disk w (\<lambda>f. f = disk w)) m (\<lambda>_. on_disk w (\<lambda>f. f = disk w))
      (\<lambda>_. on_disk w (unchanged (disk w) (scratch d)))" if "readonly m" for m :: "'a peer"
    by (rule readonly_triple [OF that]) auto
  have "hoare (on_disk w (\<lambda>f. f = disk w))
      (withdraw_locked E p (manifest_at d) i v reason er)
      (\<lambda>_ _. True) (\<lambda>_. on_disk w (unchanged (disk w) (scratch d)))"
    unfolding withdraw_locked_def Let_def
    by (intro hoare_bind [OF ro] hoare_bind [OF write_manifest_triple [OF d]] hoare_ret hoare_if hoare_err)
       (auto simp: on_disk_def)
  from hoare_errD [OF this _ run] show ?thesis by (simp add: on_disk_def)
qed

lemma withdraw_locked_frame:
  assumes "withdraw_locked E p (manifest_at d) i v reason er w = (Inr resp, w')" "real_dir (disk w) d"
  shows "env w' = env w \<and> unchanged (disk w) (scratch_or ''manifest.json'' d) (disk w') \<and>
    lookup (disk w') (d @ [lock_name]) = lookup (disk w) (d @ [lock_name])"
  by (rule withdraw_locked_ok [OF assms]) blast

interpretation withdrawing: locked_operation E "\<lambda>d. withdraw_locked E p (manifest_at d) i v reason er"
  for E p i v reason er
  by unfold_locales (blast dest: withdraw_locked_err withdraw_locked_frame)+

lemma withdraw_split:
  "withdraw_with_precondition E p i v reason er w = (Inr resp, w') \<longleftrightarrow>
     validate_product_id i = Inr () \<and> validate_version v = Inr () \<and> non_blank ''reason'' reason = Inr () \<and>
     io_bind (serving_root p) (\<lambda>serving. with_lock E (join serving ''manifest.json'')
       (withdraw_locked E p (join serving ''manifest.json'') i v reason er)) w = (Inr resp, w')"
  by (auto simp: withdraw_with_precondition_def Let_def io_bind_eq_Inr)

lemma withdraw_error_split:
  assumes "withdraw_with_precondition E p i v reason er w = (Inl e, w')"
  shows "w' = w \<or>
     io_bind (serving_root p) (\<lambda>serving. with_lock E (join serving ''manifest.json'')
       (withdraw_locked E p (join serving ''manifest.json'') i v reason er)) w = (Inl e, w')"
  using assms unfolding withdraw_with_precondition_def Let_def
  by (elim io_bind_errE) (auto simp: io_bind_def split: prod.splits sum.splits)

lemma withdraw_outcome:
  assumes "withdraw_with_precondition E p i v reason er w = (Inr resp, w')"
    and "provider p w d" "quiet w" "no_faults w"
  shows "\<exists>m bytes r t now.
    manifest_bytes (disk w) d = Some bytes \<and> parse_manifest E bytes = Inr m \<and>
    is_none_or (\<lambda>e. e = sm_revision m) er \<and> \<not> blank reason \<and>
    find_version i v (sm_products m) = Some r \<and> pv_lifecycle r = Active \<and>
    manifest_bytes (disk w') d = Some (json_pretty E (ser_serving_manifest
      (commit now (withdraw_record i v reason t (sm_products m)) m))) \<and>
    resp_manifest_revision resp = sm_revision m + 1 \<and>
    unchanged (disk w) (scratch_or ''manifest.json'' d) (disk w') \<and>
    lookup (disk w') (d @ [lock_name]) = None"
proof -
  note run = assms(1) [unfolded withdraw_split]
  from run have "io_bind (serving_root p) (\<lambda>serving. with_lock E (join serving ''manifest.json'')
       (withdraw_locked E p (join serving ''manifest.json'') i v reason er)) w = (Inr resp, w')" by blast
  then show ?thesis
    using assms(2)
  proof (cases rule: serving_scope)
    case (failed e)
    then show ?thesis by simp
  next
    case (located w1)
    have real: "real_dir (disk w1) d" and pm: "plain_manifest (disk w1) d" and w1: "quiet w1" "no_faults w1"
      using located(1,2) assms(2-4) by (auto simp: provider_def quiet_def no_faults_def env_def)
    from located(3) [folded manifest_at_def] real w1(1) show ?thesis
    proof (rule withdrawing.scope_ok)
      fix u w3
      assume u: "unchanged (disk w1) (scratch d) (disk u)" "env u = env w1"
        and body: "withdraw_locked E p (manifest_at d) i v reason er u = (Inr resp, w3)"
        and after: "manifest_bytes (disk w') d = manifest_bytes (disk w3) d"
          "unchanged (disk w1) (scratch_or ''manifest.json'' d) (disk w')"
          "no_faults w1 \<Longrightarrow> lookup (disk w') (d @ [lock_name]) = None"
      note um = unchanged_manifest [OF u(1) pm]
      from body scratch_real [OF real u(1)] show ?thesis
      proof (rule withdraw_locked_ok)
        fix m r t now
        assume m: "plain_manifest (disk u) d \<Longrightarrow>
            \<exists>bytes. manifest_bytes (disk u) d = Some bytes \<and> parse_manifest E bytes = Inr m"
          and rev: "is_none_or (\<lambda>e. e = sm_revision m) er"
          and r: "find_version i v (sm_products m) = Some r" "pv_lifecycle r \<noteq> Withdrawn"
          and bytes: "manifest_bytes (disk w3) d = Some (json_pretty E (ser_serving_manifest
            (commit now (withdraw_record i v reason t (sm_products m)) m)))"
          and resp: "resp_manifest_revision resp = sm_revision m + 1"
        from m [OF um(3)] um(2) obtain bs where "manifest_bytes (disk w) d = Some bs" "parse_manifest E bs = Inr m"
          using located(1) by auto
        moreover have "pv_lifecycle r = Active" using r(2) by (cases "pv_lifecycle r") auto
        ultimately show ?thesis
          using rev r bytes resp after w1(2) located(1) run
          by (intro exI [of _ m] exI [of _ bs] exI [of _ r] exI [of _ t] exI [of _ now]) simp
      qed
    qed
  qed
qed

text \<open>C3. A withdrawal that succeeds changes one record and nothing else: the manifest on disk has
  an active record of that product and version and is at the reviewed revision if one was given;
  the file then holds that manifest with the record marked withdrawn, with the reason, and the
  revision raised by one; every other record is the same, and the lock is gone.\<close>

theorem withdraw_commits:
  assumes "withdraw_with_precondition E p i v reason er w = (Inr resp, w')"
    and "provider p w d" "quiet w" "no_faults w"
  shows "\<exists>m bytes r t now products.
    manifest_bytes (disk w) d = Some bytes \<and> parse_manifest E bytes = Inr m \<and>
    is_none_or (\<lambda>e. e = sm_revision m) er \<and> \<not> blank reason \<and>
    history_of (sm_products m) (i, v) = Some r \<and> pv_lifecycle r = Active \<and>
    history_of products = (history_of (sm_products m))((i, v) \<mapsto> mark_withdrawn reason t r) \<and>
    (wf_products (sm_products m) \<longrightarrow> wf_products products) \<and>
    manifest_bytes (disk w') d = Some (json_pretty E (ser_serving_manifest (commit now products m))) \<and>
    resp_manifest_revision resp = sm_revision m + 1 \<and>
    unchanged (disk w) (scratch_or ''manifest.json'' d) (disk w') \<and>
    lookup (disk w') (d @ [lock_name]) = None"
proof -
  from withdraw_outcome [OF assms] obtain m bytes r t now where
    "manifest_bytes (disk w) d = Some bytes" "parse_manifest E bytes = Inr m"
    "is_none_or (\<lambda>e. e = sm_revision m) er" "\<not> blank reason"
    and r: "find_version i v (sm_products m) = Some r" "pv_lifecycle r = Active"
    and "manifest_bytes (disk w') d = Some (json_pretty E (ser_serving_manifest
      (commit now (withdraw_record i v reason t (sm_products m)) m)))"
    "resp_manifest_revision resp = sm_revision m + 1"
    "unchanged (disk w) (scratch_or ''manifest.json'' d) (disk w')"
    "lookup (disk w') (d @ [lock_name]) = None"
    by blast
  then show ?thesis
    using withdraw_history [OF r(1), of reason t] withdraw_wf [of "sm_products m" i v reason t]
    by (intro exI [of _ m] exI [of _ bytes] exI [of _ r] exI [of _ t] exI [of _ now]
        exI [of _ "withdraw_record i v reason t (sm_products m)"]) (simp add: history_of_def)
qed

lemma withdraw_commits_witness:
  "\<exists>resp w'. withdraw_with_precondition stored_ext demo_project ''d'' ''1'' ''bad'' (Some 3) stored_world = (Inr resp, w') \<and>
     resp_manifest_revision resp = 4 \<and> lookup (disk w') [''p'', ''s'', lock_name] = None"
proof -
  let ?run = "withdraw_with_precondition stored_ext demo_project ''d'' ''1'' ''bad'' (Some 3) stored_world"
  have "is_ok (fst ?run)" by code_simp
  then obtain resp w' where run: "?run = (Inr resp, w')" by (cases ?run) (auto simp: is_ok_iff)
  have "resp_manifest_revision resp = 4"
    using withdraw_commits [OF run demo_provider(4-6)] by auto
  with run withdraw_commits [OF run demo_provider(4-6)] show ?thesis by auto
qed

lemma withdraw_error_scope:
  assumes "withdraw_with_precondition E p i v reason er w = (Inl e, w')" "provider p w d" "quiet w"
  shows "unchanged (disk w) (scratch d) (disk w')"
proof -
  have real: "real_dir (disk w) d" using assms(2) by (simp add: provider_def)
  show "unchanged (disk w) (scratch d) (disk w')"
    using withdraw_error_split [OF assms(1)]
  proof
    assume "io_bind (serving_root p) (\<lambda>serving. with_lock E (join serving ''manifest.json'')
       (withdraw_locked E p (join serving ''manifest.json'') i v reason er)) w = (Inl e, w')"
    then show ?thesis
      using assms(2)
    proof (cases rule: serving_scope)
      case (located w1)
      have "real_dir (disk w1) d" "quiet w1"
        using located(1,2) real assms(3) by (simp_all add: quiet_def env_def)
      from withdrawing.scope_error [OF located(3) [folded manifest_at_def] this] located(1)
      show ?thesis by simp
    qed simp
  qed simp
qed

text \<open>A withdrawal that fails, at whatever call, leaves the provider's directory as it was but
  for scratch files; in particular the manifest holds the same bytes.\<close>

theorem withdraw_error_changes_nothing:
  assumes "withdraw_with_precondition E p i v reason er w = (Inl e, w')" "provider p w d" "quiet w"
  shows "unchanged (disk w) (scratch d) (disk w') \<and> manifest_bytes (disk w') d = manifest_bytes (disk w) d"
  using withdraw_error_scope [OF assms] unchanged_manifest(2) assms(2) by (auto simp: provider_def)

lemma withdraw_error_changes_nothing_witness:
  "\<exists>e w'. withdraw_with_precondition stored_ext demo_project ''d'' ''2'' ''bad'' None stored_world = (Inl e, w') \<and>
     manifest_bytes (disk w') [''p'', ''s''] = manifest_bytes (disk stored_world) [''p'', ''s'']"
proof -
  let ?run = "withdraw_with_precondition stored_ext demo_project ''d'' ''2'' ''bad'' None stored_world"
  have "\<not> is_ok (fst ?run)" by code_simp
  then obtain e w' where run: "?run = (Inl e, w')" by (cases ?run; cases "fst ?run") auto
  from withdraw_error_changes_nothing [OF run demo_provider(4,5)] run show ?thesis by blast
qed

end
