(* ===== verification/Publish_Faults.thy ===== *)
theory Publish_Faults
  imports Withdraw_Proofs
begin

text \<open>What single failing calls do to a publication: two runs of the model.\<close>

definition fail_at :: "nat \<Rightarrow> world \<Rightarrow> world" where
  "fail_at k w = w\<lparr>faults := (\<lambda>n. if n = k then Some KOther else None)\<rparr>"

text \<open>When the one call that fails is the \<open>stat\<close> behind \<open>path.exists()\<close> in \<open>read_manifest_at\<close>,
  the manifest passes for absent: a publication of a version that is already on record succeeds
  at revision 1 and replaces a manifest at revision 3, where the same publication without the
  failure is refused.\<close>

theorem failed_stat_discards_history:
  "parse_manifest stored_ext ''M'' = Inr demo_manifest \<and>
   manifest_bytes (disk stored_world) [''p'', ''s''] = Some ''M'' \<and>
   history_of (sm_products demo_manifest) (''d'', ''1'') = Some demo_version \<and>
   fst (publish stored_ext demo_project demo_request stored_world) = Inl (Conflict ''d version 1'') \<and>
   map_ok resp_manifest_revision (fst (publish stored_ext demo_project demo_request (fail_at 14 stored_world))) = Inr 1 \<and>
   manifest_bytes (disk (snd (publish stored_ext demo_project demo_request (fail_at 14 stored_world)))) [''p'', ''s''] =
     Some ''{}''"
proof (intro conjI)
  show "parse_manifest stored_ext ''M'' = Inr demo_manifest" by code_simp
  show "manifest_bytes (disk stored_world) [''p'', ''s''] = Some ''M''" by code_simp
  show "history_of (sm_products demo_manifest) (''d'', ''1'') = Some demo_version" by code_simp
  show "fst (publish stored_ext demo_project demo_request stored_world) = Inl (Conflict ''d version 1'')" by code_simp
  show "map_ok resp_manifest_revision (fst (publish stored_ext demo_project demo_request (fail_at 14 stored_world))) = Inr 1"
    by code_simp
  show "manifest_bytes (disk (snd (publish stored_ext demo_project demo_request (fail_at 14 stored_world)))) [''p'', ''s''] =
     Some ''{}''" by code_simp
qed

text \<open>When writing the line in the new lock file fails, the lock file stays behind: the guard
  that removes it is made only after the write. Every later publication then waits until its time
  is over and fails with a lock timeout, though no process holds the lock.\<close>

theorem failed_lock_write_leaves_lock:
  "let (r, w1) = publish demo_ext demo_project demo_request (fail_at 13 demo_world);
       (s, w2) = publish demo_ext demo_project demo_request (w1\<lparr>faults := (\<lambda>_. None), oversleep := (\<lambda>_. 10000)\<rparr>)
   in r = Inl (Io KOther) \<and> lookup (disk w1) [''p'', ''s'', lock_name] \<noteq> None \<and>
      s = Inl (LockTimeout (''/p/s/'' @ lock_name))"
  by code_simp

end
