(* ===== verification/Resolve.thy ===== *)
theory Resolve
  imports Publish
begin

text \<open>
  The consumer's side of \<open>peer_access.rs\<close>: \<open>resolve\<close>, the cache of observed revisions, the
  listing of all configured manifests, and \<open>configuration_fingerprint\<close>.
\<close>

section \<open>Cache\<close>

definition refreshed_at_for :: "cache_snapshot \<Rightarrow> string \<Rightarrow> string option" where
  "refreshed_at_for snapshot ns =
     map_option cps_refreshed_at
       (find (\<lambda>peer. cps_namespace peer = ns \<and> cps_error peer = None) (cs_peers snapshot))"

definition read_cache :: "ext \<Rightarrow> project \<Rightarrow> cache_snapshot peer" where
  "read_cache E p =
     io_bind (cache_path E p) (\<lambda>path.
     io_bind (sys (sys_read path)) (\<lambda>bytes.
     io_lift (from_slice E de_cache_snapshot bytes)))"

definition cache_status :: "ext \<Rightarrow> project \<Rightarrow> cache_snapshot option peer" where
  "cache_status E p =
     io_bind (io_try (read_cache E p)) (\<lambda>r.
     case r of
       Inr snapshot \<Rightarrow> io_ret (Some snapshot)
     | Inl err \<Rightarrow> if err = Io KNotFound then io_ret None else io_err err)"

datatype refresh_route = Reachable route | Unreachable string

definition refresh_routes :: "project \<Rightarrow> refresh_route list peer" where
  "refresh_routes p =
     io_bind (if pc_serving_dir (config p) \<noteq> None
              then io_bind (route_for_namespace p (namespace_of p)) (\<lambda>r. io_ret [Reachable r])
              else io_ret []) (\<lambda>own.
     io_bind (io_traverse (\<lambda>peer.
        io_bind (io_try (route_for_namespace p (prc_namespace peer))) (\<lambda>r.
        io_ret (case r of Inr route \<Rightarrow> Reachable route | Inl _ \<Rightarrow> Unreachable (prc_namespace peer))))
        (pc_peers (config p))) (\<lambda>peers.
     io_ret (own @ peers)))"

text \<open>
  One row of the snapshot. An unreachable peer is a route with an empty displayed root in the
  source; a reachable route never has one, since it is a canonical path, an absolute path, or a
  join of the project root with a non-empty path.
\<close>

definition observe_route :: "ext \<Rightarrow> refresh_route \<Rightarrow> cache_peer_status peer" where
  "observe_route E rr =
     io_bind (utc_now E) (\<lambda>now.
     case rr of
       Unreachable ns \<Rightarrow>
         io_ret \<lparr>cps_namespace = ns, cps_revision = None, cps_refreshed_at = now,
                 cps_error = Some ''peer route unavailable''\<rparr>
     | Reachable route \<Rightarrow>
         io_bind (io_try (read_manifest_at E (join (displayed_root route) ''manifest.json''))) (\<lambda>r.
         io_ret (case r of
           Inr manifest \<Rightarrow>
             if sm_namespace manifest = route_namespace route then
               \<lparr>cps_namespace = route_namespace route, cps_revision = Some (sm_revision manifest),
                cps_refreshed_at = now, cps_error = None\<rparr>
             else
               \<lparr>cps_namespace = route_namespace route, cps_revision = None, cps_refreshed_at = now,
                cps_error = Some (''manifest namespace '' @ quote (sm_namespace manifest) @
                                  '' does not match configured route'')\<rparr>
         | Inl err \<Rightarrow>
             \<lparr>cps_namespace = route_namespace route, cps_revision = None, cps_refreshed_at = now,
              cps_error = Some (error_text E err)\<rparr>)))"

definition refresh :: "ext \<Rightarrow> project \<Rightarrow> cache_snapshot peer" where
  "refresh E p =
     io_bind (refresh_routes p) (\<lambda>routes.
     io_bind (io_traverse (observe_route E) routes) (\<lambda>peers.
     let snapshot = \<lparr>cs_schema_version = PROJECT_SCHEMA_VERSION,
                     cs_project_namespace = namespace_of p, cs_peers = peers\<rparr> in
     io_bind (cache_path E p) (\<lambda>path.
     io_bind (case parent path of Some dir \<Rightarrow> sys (create_dir_all dir) | None \<Rightarrow> io_ret ()) (\<lambda>_.
     io_bind (write_atomic_text path (json_pretty E (ser_cache_snapshot snapshot))) (\<lambda>_.
     io_ret snapshot)))))"

section \<open>Resolution\<close>

definition manifest_unavailable :: "string \<Rightarrow> peer_error \<Rightarrow> peer_error" where
  "manifest_unavailable ns err =
     (case err of
        Io k \<Rightarrow>
          if k = KNotFound
          then PeerUnavailable (''manifest for namespace '' @ quote ns @ '' is unavailable'')
          else err
      | NotFound _ \<Rightarrow> PeerUnavailable (''manifest for namespace '' @ quote ns @ '' is unavailable'')
      | other \<Rightarrow> other)"

definition select_assets :: "string \<Rightarrow> string \<Rightarrow> string option \<Rightarrow> published_version \<Rightarrow> asset_record list peer_result" where
  "select_assets qualified version asset_id record =
     (case asset_id of
        None \<Rightarrow> Inr (pv_assets record)
      | Some i \<Rightarrow>
          map_ok (\<lambda>a. [a])
            (ok_or (DatasetNotRegistered (''asset '' @ quote i @ '' in '' @ qualified @ '' version '' @ version))
               (find (\<lambda>a. ar_id a = i) (pv_assets record))))"

definition resolve_asset :: "ext \<Rightarrow> route \<Rightarrow> bool \<Rightarrow> asset_record \<Rightarrow> resolved_asset peer" where
  "resolve_asset E route verify a =
     io_bind (checked_asset_path (displayed_root route) (canonical_root route) (ar_path a))
       (\<lambda>(access, canonical).
     io_bind (io_map_err (\<lambda>_. PeerUnavailable (''registered asset '' @ quote access @ '' is unavailable''))
                (sys_metadata canonical)) (\<lambda>m.
     if of_nat (m_len m) \<noteq> ar_size a then
       io_err (Integrity (''asset '' @ quote (ar_id a) @ '' size changed''))
     else
     io_bind (if verify then
                (case ar_sha256 a of
                   None \<Rightarrow> io_ret ()
                 | Some expected \<Rightarrow>
                     io_bind (sha256_file E canonical) (\<lambda>h.
                     if h \<noteq> expected
                     then io_err (Integrity (''asset '' @ quote (ar_id a) @ '' digest changed''))
                     else io_ret ()))
              else io_ret ()) (\<lambda>_.
     io_ret \<lparr>ra_id = ar_id a, ra_project_access_path = access, ra_media_type = ar_media_type a,
             ra_role = ar_role a, ra_size = ar_size a, ra_sha256 = ar_sha256 a\<rparr>)))"

definition resolved_of ::
  "string \<Rightarrow> string \<Rightarrow> string \<Rightarrow> 64 word \<Rightarrow> published_version \<Rightarrow> resolved_asset list \<Rightarrow> string option \<Rightarrow>
   bool \<Rightarrow> resolved_product" where
  "resolved_of ns product_id version revision record assets cached verify =
     \<lparr>rs_protocol = PEER_PROTOCOL_VERSION, rs_namespace = ns, rs_product_id = product_id,
      rs_version = version, rs_manifest_revision = revision, rs_data_kind = pv_data_kind record,
      rs_data_format = pv_data_format record, rs_assets = assets,
      rs_description = pv_description record, rs_intended_use = pv_intended_use record,
      rs_limitations = pv_limitations record, rs_owner_team = pv_owner_team record,
      rs_producer = pv_producer record, rs_contact = pv_contact record,
      rs_usage_policy = pv_usage_policy record, rs_classification = pv_classification record,
      rs_quality = pv_quality record, rs_lineage = pv_lineage record, rs_table = pv_table record,
      rs_raster = pv_raster record, rs_cache_refreshed_at = cached, rs_freshness = ''current'',
      rs_integrity_verified = verify\<rparr>"

definition resolve ::
  "ext \<Rightarrow> project \<Rightarrow> string \<Rightarrow> string \<Rightarrow> string option \<Rightarrow> bool \<Rightarrow> resolved_product peer" where
  "resolve E p qualified version asset_id verify =
     io_bind (io_lift (parse_reference qualified)) (\<lambda>(ns, product_id).
     io_bind (io_lift (validate_version version)) (\<lambda>_.
     io_bind (route_for_namespace p ns) (\<lambda>route.
     io_bind (io_map_err (manifest_unavailable ns)
                (read_manifest_at E (join (displayed_root route) ''manifest.json''))) (\<lambda>m.
     io_bind (io_lift (ensure (sm_namespace m = route_namespace route)
        (Policy (''configured namespace '' @ quote (route_namespace route) @
                 '' does not match manifest namespace '' @ quote (sm_namespace m))))) (\<lambda>_.
     io_bind (io_lift (ok_or (NotFound (qualified @ '' version '' @ version))
        (find_version product_id version (sm_products m)))) (\<lambda>record.
     io_bind (io_lift (ensure (pv_lifecycle record \<noteq> Withdrawn)
        (WithdrawnVersion (qualified @ '' version '' @ version)))) (\<lambda>_.
     io_bind (io_lift (select_assets qualified version asset_id record)) (\<lambda>selected.
     io_bind (io_traverse (resolve_asset E route verify) selected) (\<lambda>assets.
     io_bind (io_try (read_cache E p)) (\<lambda>cache.
     io_ret (resolved_of ns product_id version (sm_revision m) record assets
       (case cache of Inl _ \<Rightarrow> None | Inr c \<Rightarrow> refreshed_at_for c ns) verify)))))))))))"

section \<open>Listing every configured manifest\<close>

text \<open>
  \<open>list_registered_with_coverage\<close>: \<open>input_bytes\<close> counts what was read, every manifest may use
  what remains of 32 MiB (and at most 8 MiB), and a manifest that is larger than what remains
  ends the listing. An unreadable or foreign manifest is a row of the coverage.
\<close>

definition unavailable :: "string \<Rightarrow> 64 word option \<Rightarrow> string \<Rightarrow> string \<Rightarrow> peer_coverage" where
  "unavailable ns revision at_time err =
     \<lparr>cov_namespace = ns, cov_revision = revision, cov_observed_at = at_time, cov_available = False,
      cov_error = Some err\<rparr>"

definition too_large :: "nat \<Rightarrow> path \<Rightarrow> bool peer" where
  "too_large remaining path =
     io_bind (io_try (sys_metadata path)) (\<lambda>r.
     io_ret (case r of Inl _ \<Rightarrow> False | Inr m \<Rightarrow> remaining < m_len m))"

definition list_namespace ::
  "ext \<Rightarrow> project \<Rightarrow> nat \<Rightarrow> string \<Rightarrow>
   (nat \<times> (string \<times> manifest_product \<times> 64 word) list \<times> peer_coverage) peer" where
  "list_namespace E p input_bytes ns =
     io_bind (utc_now E) (\<lambda>observed_at.
     io_bind (io_try (route_for_namespace p ns)) (\<lambda>rt.
     case rt of
       Inl err \<Rightarrow> io_ret (input_bytes, [], unavailable ns None observed_at (error_text E err))
     | Inr route \<Rightarrow>
         let manifest_path = join (displayed_root route) ''manifest.json'';
             remaining = MAX_CATALOG_INPUT_BYTES - input_bytes in
         io_bind (too_large remaining manifest_path) (\<lambda>large.
         if large then
           io_err (Validation ''catalog_input''
             ''configured manifests exceed 32 MiB; narrow the project routes'')
         else
         io_bind (io_try (read_bounded manifest_path (min remaining MAX_MANIFEST_BYTES))) (\<lambda>rd.
         case rd of
           Inl err \<Rightarrow> io_ret (input_bytes, [], unavailable ns None observed_at (error_text E err))
         | Inr bytes \<Rightarrow>
             let used = input_bytes + length bytes in
             io_ret (case parse_manifest E bytes of
                 Inl err \<Rightarrow> (used, [], unavailable ns None observed_at (error_text E err))
               | Inr m \<Rightarrow>
                   if sm_namespace m = ns then
                     (used, map (\<lambda>product. (ns, product, sm_revision m)) (sm_products m),
                      \<lparr>cov_namespace = ns, cov_revision = Some (sm_revision m),
                       cov_observed_at = observed_at, cov_available = True, cov_error = None\<rparr>)
                   else
                     (used, [], unavailable ns (Some (sm_revision m)) observed_at
                        (''configured namespace does not match manifest namespace '' @
                         quote (sm_namespace m))))))))"

fun list_namespaces ::
  "ext \<Rightarrow> project \<Rightarrow> nat \<Rightarrow> string list \<Rightarrow>
   ((string \<times> manifest_product \<times> 64 word) list \<times> peer_coverage list) peer" where
  "list_namespaces E p input_bytes [] = io_ret ([], [])"
| "list_namespaces E p input_bytes (ns # nss) =
     io_bind (list_namespace E p input_bytes ns) (\<lambda>(used, entries, cov).
     io_bind (list_namespaces E p used nss) (\<lambda>(more, covs).
     io_ret (entries @ more, cov # covs)))"

definition configured_namespaces :: "project \<Rightarrow> string list" where
  "configured_namespaces p =
     (if pc_serving_dir (config p) \<noteq> None then [namespace_of p] else []) @
     map prc_namespace (pc_peers (config p))"

definition list_registered_with_coverage :: "ext \<Rightarrow> project \<Rightarrow> registered_listing peer" where
  "list_registered_with_coverage E p =
     io_bind (list_namespaces E p 0 (configured_namespaces p)) (\<lambda>(entries, coverage).
     io_ret \<lparr>listing_entries = entries, listing_coverage = coverage\<rparr>)"

definition list_registered :: "ext \<Rightarrow> project \<Rightarrow> (string \<times> manifest_product \<times> 64 word) list peer" where
  "list_registered E p =
     io_bind (list_registered_with_coverage E p) (\<lambda>l. io_ret (listing_entries l))"

section \<open>Configuration fingerprint\<close>

text \<open>\<open>debug_result\<close> is \<open>format!("{:?}", ..)\<close> of a canonicalisation, of the standard library.\<close>

definition configuration_fingerprint :: "ext \<Rightarrow> project \<Rightarrow> string peer" where
  "configuration_fingerprint E p =
     io_bind (read_bounded (config_path p) MAX_PROJECT_BYTES) (\<lambda>bytes.
     io_bind (io_traverse (\<lambda>path.
        io_bind (io_try (canonicalize (join (root p) path))) (\<lambda>r. io_ret (debug_result E r)))
        (map prc_path (pc_peers (config p)) @
         (case pc_serving_dir (config p) of Some d \<Rightarrow> [d] | None \<Rightarrow> []))) (\<lambda>parts.
     io_ret (hex_digest E (bytes @ concat parts))))"

end
