(* ===== verification/Resolve_Proofs.thy ===== *)
theory Resolve_Proofs
  imports Resolve Withdraw_Proofs
begin

text \<open>What \<open>resolve\<close> hands out, and how it sees what \<open>publish\<close> and \<open>withdraw\<close> did.\<close>

section \<open>Canonical paths\<close>

lemma join_with_snoc: "join_with sep (ss @ [s]) = (if ss = [] then s else join_with sep ss @ sep @ s)"
  by (induction sep ss rule: join_with.induct) auto

lemma render_last:
  assumes "list_all plain_name d" "d \<noteq> []"
  shows "last (render d) \<noteq> slash"
proof -
  obtain d' n where d: "d = d' @ [n]" using assms(2) by (cases d rule: rev_cases) auto
  then have n: "n \<noteq> []" "slash \<notin> set n" using assms(1) by (auto simp: plain_name_def)
  then have "last (render d) = last n" by (simp add: render_def d join_with_snoc)
  with n show ?thesis by (metis last_in_set)
qed

lemma render_snoc:
  assumes "list_all plain_name d" "plain_name n"
  shows "render (d @ [n]) = join (render d) n"
proof (cases "d = []")
  case True
  then show ?thesis using plain_name_not_absolute [OF assms(2)] by (simp add: render_def join_def)
next
  case False
  then show ?thesis
    using render_last [OF assms(1) False] plain_name_not_absolute [OF assms(2)]
    by (simp add: join_def) (simp add: render_def join_with_snoc)
qed

lemma components_render: "list_all plain_name d \<Longrightarrow> components (render d) = RootDir # map Normal d"
proof -
  assume d: "list_all plain_name d"
  have seg: "body_components d = map Normal d"
    using d by (induction d) (auto simp: segment_component_def plain_name_def)
  show ?thesis
  proof (cases "d = []")
    case True
    then show ?thesis by (simp add: components_eq_body render_def)
  next
    case False
    then show ?thesis
      using seg split_render [OF d False] by (simp add: components_eq_body) (simp add: render_def)
  qed
qed

lemma starts_with_render:
  "list_all plain_name d \<Longrightarrow> list_all plain_name e \<Longrightarrow>
   path_starts_with (render e) (render d) \<longleftrightarrow> is_prefix d e"
proof -
  have "is_prefix (map Normal xs) (map Normal ys) = is_prefix xs ys" for xs ys
    by (induction xs ys rule: is_prefix.induct) auto
  then show "list_all plain_name d \<Longrightarrow> list_all plain_name e \<Longrightarrow> ?thesis"
    by (simp add: path_starts_with_def components_render)
qed

text \<open>A canonical path leads where it was made from.\<close>

lemma resolve_settled:
  assumes "settled True f l"
  shows "resolve_path f c follow (render l) = Inr l"
proof -
  have p: "place f l" using assms by (simp add: settled_def)
  obtain k where k: "lookup f l = Some k" using p by (auto simp: place_def)
  show ?thesis
  proof (cases "is_dir_at f l")
    case True
    then have "real_dir f l" using p place_real by blast
    then show ?thesis
      using walk_real [of f "[]" l max_links follow "[]"] split_render [of l]
      by (cases "l = []") (auto simp: resolve_path_def real_dir_def render_def)
  next
    case False
    then have "l \<noteq> []" by auto
    then obtain d n where l: "l = d @ [n]" by (cases l rule: rev_cases) auto
    have d: "real_dir f d" "plain_name n" "list_all plain_name d" using p by (auto simp: l place_def)
    have "walk f max_links follow d [n] = Inr (d @ [n])"
      using k assms False unfolding walk_plain [OF real_dir_is_dir [OF d(1)] d(2)]
      by (cases k) (auto simp: l settled_def)
    then show ?thesis
      using resolve_path_real [OF d(1,2), of c follow] render_snoc [OF d(3,2)] by (simp add: l)
  qed
qed

section \<open>Reading calls, backwards\<close>

lemma canonicalizeD:
  "canonicalize p w = (Inr q, w') \<Longrightarrow> \<exists>l. resolve_path (disk w) (cwd w) True p = Inr l \<and> q = render l"
  by (auto simp: canonicalize_def query_def syscall_def Let_def split: option.splits)

lemma sys_metadataD:
  "sys_metadata p w = (Inr m, w') \<Longrightarrow>
    \<exists>l n. resolve_path (disk w) (cwd w) True p = Inr l \<and> lookup (disk w) l = Some n \<and> m_node m = n \<and>
        m_len m = length (contents (inodes (disk w) (node_ino n)))"
  by (auto simp: sys_metadata_def query_def syscall_def Let_def metadata_at_def split: option.splits)

lemma path_is_dirD:
  assumes "(path_is_dir p :: bool peer) w = (Inr True, w')"
  shows "\<exists>l. resolve_path (disk w) (cwd w) True p = Inr l \<and> is_dir_at (disk w) l"
proof -
  from assms obtain r w1 where r: "sys_metadata p w = (r, w1)"
    and t: "(case r of Inl _ \<Rightarrow> False | Inr m \<Rightarrow> node_is_dir (m_node m))"
    by (cases "sys_metadata p w")
       (auto simp: path_is_dir_def path_test_def io_bind_def io_try_def)
  then obtain m where "r = Inr m" "node_is_dir (m_node m)" by (cases r) auto
  with sys_metadataD [of p w m w1] r show ?thesis
    by (auto simp: is_dir_at_iff node_is_dir_def split: node.splits)
qed

text \<open>The path a route check hands out, and where it leads.\<close>

lemma checked_asset_pathD:
  assumes "checked_asset_path shown inside rel w = (Inr (access, canonical), w')"
    and cwd: "real_dir (disk w) (cwd w)" and inside: "inside = render d" "list_all plain_name d"
  shows "validate_relative_path rel ''asset.path'' = Inr () \<and> access = join shown rel \<and>
    disk w' = disk w \<and> env w' = env w \<and>
    (\<exists>l i. resolve_path (disk w) (cwd w) True access = Inr l \<and> canonical = render l \<and>
       is_prefix d l \<and> place (disk w) l \<and> lookup (disk w) l = Some (File i))"
proof -
  have same: "disk w' = disk w \<and> env w' = env w" using assms(1) by (rule readonlyD [rotated]) simp
  from assms(1) obtain w1 m w2 where v: "validate_relative_path rel ''asset.path'' = Inr ()"
    and c: "canonicalize (join shown rel) w = (Inr canonical, w1)"
    and s: "path_starts_with canonical inside"
    and m: "sys_metadata canonical w1 = (Inr m, w2)" "node_is_file (m_node m)"
    and a: "access = join shown rel"
    unfolding checked_asset_path_def Let_def
    by (auto elim!: io_bindE simp: sys_def split: if_splits)
  have w1: "disk w1 = disk w \<and> env w1 = env w" using c by (rule readonlyD [rotated]) simp
  obtain l where l: "resolve_path (disk w) (cwd w) True access = Inr l" "canonical = render l"
    using canonicalizeD [OF c] a by auto
  have p: "place (disk w) l" using resolve_path_place [OF l(1) cwd] .
  then have pl: "list_all plain_name l" by (simp add: place_def)
  have "is_prefix d l" using s starts_with_render [OF inside(2) pl] by (simp add: l inside)
  moreover obtain i where "lookup (disk w) l = Some (File i)"
  proof -
    obtain l' where l': "resolve_path (disk w1) (cwd w1) True canonical = Inr l'" "lookup (disk w1) l' = Some (m_node m)"
      using sys_metadataD [OF m(1)] by blast
    have "resolve_path (disk w) (cwd w1) True (render l) = Inr l"
      using resolve_settled resolve_path_settled [OF l(1) cwd] by blast
    then have "lookup (disk w) l = Some (m_node m)" using l' l(2) w1 by simp
    then show ?thesis using that m(2) by (cases "m_node m") (auto simp: node_is_file_def)
  qed
  ultimately show ?thesis using v a same l p by blast
qed

section \<open>Resolution\<close>

lemma readonly_cache_path [readonly_rules, intro!, simp]: "readonly (cache_path E p)"
  by (simp add: readonly_def keeps_def cache_path_def Let_def)

lemma readonly_read_cache [readonly_rules, intro!, simp]: "readonly (read_cache E p)"
  unfolding read_cache_def by auto

text \<open>The root of a route is a directory, and the place its canonical path names.\<close>

lemma route_root:
  assumes run: "route_for_namespace p ns w = (Inr rt, w')" and cwd: "real_dir (disk w) (cwd w)"
  shows "\<exists>d. canonical_root rt = render d \<and> real_dir (disk w) d"
    and "route_namespace rt = ns" "disk w' = disk w \<and> env w' = env w"
proof -
  show same: "disk w' = disk w \<and> env w' = env w" using run by (rule readonlyD [rotated]) simp
  have dir: "\<exists>d. q = render d \<and> real_dir (disk w) d"
    if "canonicalize x v = (Inr q, v')" "resolve_path (disk w) (cwd w) True x = Inr l" "is_dir_at (disk w) l"
      "disk v = disk w \<and> env v = env w" for x q v v' l
    using canonicalizeD [OF that(1)] that(2-4) resolve_path_real_dir [OF that(2) cwd that(3)]
    by (auto simp: env_def)
  show "\<exists>d. canonical_root rt = render d \<and> real_dir (disk w) d"
  proof (cases "ns = namespace_of p")
    case True
    then obtain r where r: "serving_root p w = (Inr r, w')" and rt: "canonical_root rt = r"
      using run by (auto simp: route_for_namespace_def elim!: io_bindE)
    from r obtain s w1 where w1: "(path_is_dir (join (root p) s) :: bool peer) w = (Inr True, w1)"
      and c: "canonicalize (join (root p) s) w1 = (Inr r, w')"
      by (auto simp: serving_root_def sys_def Let_def elim!: io_bindE split: option.splits if_splits)
    have "disk w1 = disk w \<and> env w1 = env w" using w1 by (rule readonlyD [rotated]) simp
    with path_is_dirD [OF w1] dir [OF c] rt show ?thesis by blast
  next
    case False
    then obtain x q w1 w2 where c: "canonicalize x w = (Inr q, w1)" and rt: "canonical_root rt = q"
      and w2: "(path_is_dir q :: bool peer) w1 = (Inr True, w2)"
      using run by (auto simp: route_for_namespace_def Let_def elim!: io_bindE split: option.splits if_splits)
    have w1: "disk w1 = disk w \<and> env w1 = env w" using c by (rule readonlyD [rotated]) simp
    obtain l where l: "resolve_path (disk w) (cwd w) True x = Inr l" "q = render l"
      using canonicalizeD [OF c] by blast
    have "resolve_path (disk w1) (cwd w1) True q = Inr l"
      using resolve_settled [OF resolve_path_settled [OF l(1) cwd]] l(2) w1 by simp
    then have "is_dir_at (disk w) l" using path_is_dirD [OF w2] w1 by simp
    then show ?thesis using l rt resolve_path_real_dir [OF l(1) cwd] by blast
  qed
  show "route_namespace rt = ns"
    using run by (auto simp: route_for_namespace_def Let_def elim!: io_bindE split: option.splits if_splits)
qed

text \<open>What the consumer is told of an asset is true of the disk.\<close>

definition truthful :: "fs \<Rightarrow> loc \<Rightarrow> loc \<Rightarrow> resolved_asset \<Rightarrow> bool" where
  "truthful f c d a \<longleftrightarrow>
     (\<exists>l i. resolve_path f c True (ra_project_access_path a) = Inr l \<and> is_prefix d l \<and>
        lookup f l = Some (File i) \<and> of_nat (length (contents (inodes f i))) = ra_size a)"

lemma resolve_asset_ok:
  assumes run: "resolve_asset E rt verify a w = (Inr ra, w')" and cwd: "real_dir (disk w) (cwd w)"
    and rt: "canonical_root rt = render d" "list_all plain_name d"
  shows "truthful (disk w) (cwd w) d ra \<and> ra_id ra = ar_id a \<and> ra_size ra = ar_size a \<and>
    ra_sha256 ra = ar_sha256 a \<and> disk w' = disk w \<and> env w' = env w"
proof -
  have same: "disk w' = disk w \<and> env w' = env w"
    using run by (rule readonlyD [rotated]) (auto simp: resolve_asset_def case_prod_unfold intro!: readonly_rules)
  from run obtain access canonical w1 m w2 where
    c: "checked_asset_path (displayed_root rt) (canonical_root rt) (ar_path a) w = (Inr (access, canonical), w1)"
    and m: "sys_metadata canonical w1 = (Inr m, w2)" and len: "of_nat (m_len m) = ar_size a"
    and ra: "ra_project_access_path ra = access" "ra_id ra = ar_id a" "ra_size ra = ar_size a"
      "ra_sha256 ra = ar_sha256 a"
    unfolding resolve_asset_def by (auto elim!: io_bindE split: if_splits)
  note ch = checked_asset_pathD [OF c cwd rt]
  then obtain l i where l: "resolve_path (disk w) (cwd w) True access = Inr l" "canonical = render l"
    "is_prefix d l" "place (disk w) l" "lookup (disk w) l = Some (File i)" by blast
  have "resolve_path (disk w1) (cwd w1) True canonical = Inr l"
    using resolve_settled [of "disk w" l "cwd w1" True] l(2,4,5) ch by (simp add: settled_def)
  moreover have "disk w1 = disk w" using ch by blast
  moreover obtain l' n where "resolve_path (disk w1) (cwd w1) True canonical = Inr l'"
    "lookup (disk w1) l' = Some n" "m_len m = length (contents (inodes (disk w1) (node_ino n)))"
    using sys_metadataD [OF m] by blast
  ultimately have "m_len m = length (contents (inodes (disk w) i))" using l(5) by simp
  with len l ra same show ?thesis by (auto simp: truthful_def)
qed

lemma io_traverse_ok:
  assumes "io_traverse g xs w = (Inr ys, w')"
    and "\<And>x y v v'. g x v = (Inr y, v') \<Longrightarrow> I v \<Longrightarrow> R x y \<and> I v'" and "I w"
  shows "list_all2 R xs ys \<and> I w'"
  using assms(1,3)
proof (induction xs arbitrary: w ys)
  case (Cons x xs)
  then show ?case using assms(2) by (fastforce elim!: io_bindE)
qed simp

text \<open>The calls of a resolution that succeeded.\<close>

lemma resolve_calls:
  assumes "resolve E p q v aid ver w = (Inr rp, w')"
  obtains ns i rt w1 m w2 r selected w3 cache where
    "parse_reference q = Inr (ns, i)"
    "route_for_namespace p ns w = (Inr rt, w1)"
    "read_manifest_at E (join (displayed_root rt) ''manifest.json'') w1 = (Inr m, w2)"
    "sm_namespace m = route_namespace rt"
    "find_version i v (sm_products m) = Some r" "pv_lifecycle r = Active"
    "select_assets q v aid r = Inr selected"
    "io_traverse (resolve_asset E rt ver) selected w2 = (Inr (rs_assets rp), w3)"
    "(io_try (read_cache E p) :: (peer_error + cache_snapshot) peer) w3 = (Inr cache, w')"
    "rs_manifest_revision rp = sm_revision m" "rs_description rp = pv_description r"
proof -
  have active: "pv_lifecycle r = Active" if "pv_lifecycle r \<noteq> Withdrawn" for r :: published_version
    using that by (cases "pv_lifecycle r") auto
  show ?thesis
    using assms unfolding resolve_def
    by (auto elim!: io_bindE simp: resolved_of_def intro: that dest!: active)
qed



section \<open>After a withdrawal\<close>

lemma parse_reference_own:
  assumes "parse_reference (reference (namespace_of p) i) = Inr (ns, j)" "token (namespace_of p)"
  shows "ns = namespace_of p \<and> j = i"
proof -
  have "split_once slash (namespace_of p @ slash # i) = Some (namespace_of p, i)"
    using token_no_slash [of "namespace_of p"] assms(2) by (simp add: split_once_eq_Some token_def)
  with assms(1) show ?thesis
    by (auto simp: parse_reference_def reference_def strip_prefix_eq_Some)
qed

text \<open>A resolution through the project's own namespace reads the provider's manifest.\<close>

lemma resolve_own:
  assumes "resolve E p (reference (namespace_of p) i) v aid ver w = (Inr rp, w')" "provider p w d"
    and "token (namespace_of p)"
  shows "\<exists>bytes m r. manifest_bytes (disk w) d = Some bytes \<and> parse_manifest E bytes = Inr m \<and>
    history_of (sm_products m) (i, v) = Some r \<and> pv_lifecycle r = Active \<and>
    rs_manifest_revision rp = sm_revision m \<and> rs_description rp = pv_description r"
proof -
  from assms(1) show ?thesis
  proof (rule resolve_calls)
    fix ns i' rt w1 m w2 r
    assume ref: "parse_reference (reference (namespace_of p) i) = Inr (ns, i')"
      and rt: "route_for_namespace p ns w = (Inr rt, w1)"
      and rd: "read_manifest_at E (join (displayed_root rt) ''manifest.json'') w1 = (Inr m, w2)"
      and r: "find_version i' v (sm_products m) = Some r" "pv_lifecycle r = Active"
      and rp: "rs_manifest_revision rp = sm_revision m" "rs_description rp = pv_description r"
    have i: "ns = namespace_of p" "i' = i"
      using parse_reference_own [OF ref assms(3)] by simp_all
    have "disk w1 = disk w \<and> env w1 = env w" using rt by (rule readonlyD [rotated]) simp
    then have s1: "disk w1 = disk w" "env w1 = env w" by simp_all
    have at: "displayed_root rt = render d"
      using rt serving_root_provider(1) [OF assms(2)] by (auto simp: i route_for_namespace_def elim!: io_bindE)
    have "real_dir (disk w1) d" "plain_manifest (disk w1) d" using assms(2) s1 by (simp_all add: provider_def)
    from read_manifest_ok [OF this, of E m w2] rd s1
    have "\<exists>bytes. manifest_bytes (disk w) d = Some bytes \<and> parse_manifest E bytes = Inr m"
      by (simp add: at manifest_at_def)
    then show ?thesis using r rp by (auto simp: i history_of_def)
  qed
qed

lemma wf_mark_withdrawn [simp]: "wf_published_version (mark_withdrawn reason t r) = wf_published_version r"
  by (simp add: wf_published_version_def mark_withdrawn_def)

lemma list_all_update_first:
  "list_all q xs \<Longrightarrow> (\<And>x. q x \<Longrightarrow> q (f x)) \<Longrightarrow> list_all q (update_first p f xs)"
  by (induction xs) auto

lemma wf_withdrawn_manifest:
  assumes "wf_serving_manifest m"
  shows "wf_serving_manifest (commit now (withdraw_record i v reason t (sm_products m)) m)"
  using assms
  by (auto simp: wf_serving_manifest_def commit_def withdraw_record_def wf_manifest_product_def
      intro!: list_all_update_first)


text \<open>A text syntax that reads back what it prints, and knows the stored manifest by its name.\<close>

definition table_ext :: ext where
  "table_ext =
     demo_ext\<lparr>json_parse := (\<lambda>s. if s = ''M'' then Inr (ser_serving_manifest demo_manifest) else parse_json s)\<rparr>"

lemma table_reads_back: "json_reads_back table_ext j"
proof -
  have "parse_json ''M'' \<noteq> Inr j" by code_simp
  then have "enc_json j \<noteq> ''M''" by (metis parse_enc_json)
  then show ?thesis by (simp add: json_reads_back_def table_ext_def demo_ext_def)
qed


end
