(* ===== verification/Catalog.thy ===== *)
theory Catalog
  imports Resolve
begin

text \<open>
  \<open>catalog_service.rs\<close>: the paged catalog over the manifests of all configured namespaces. The
  function reads the live manifests for every page; a page names the view it was cut from by a
  fingerprint, and the cursor of a page is only good for that view.
\<close>

section \<open>Data\<close>

definition CATALOG_PROTOCOL_VERSION :: string where
  "CATALOG_PROTOCOL_VERSION = ''feam.catalog.v1''"

definition MAX_CATALOG_PAGE_SIZE :: nat where
  "MAX_CATALOG_PAGE_SIZE = 100"

record catalog_query =
  cq_text :: "string option"
  cq_namespace :: "string option"
  cq_data_kind :: "data_kind option"
  cq_data_format :: "data_format option"
  cq_quality :: "string option"
  cq_owner_team :: "string option"
  cq_classification :: "string option"
  cq_limit :: "64 word"
  cq_cursor :: "string option"

record catalog_entry =
  ce_reference :: string
  ce_version :: string
  ce_name :: string
  ce_manifest_revision :: "64 word"
  ce_data_kind :: data_kind
  ce_data_format :: data_format
  ce_description :: string
  ce_limitations :: string
  ce_owner_team :: string
  ce_quality :: string

record catalog_page =
  cp_protocol :: string
  cp_entries :: "catalog_entry list"
  cp_coverage :: "peer_coverage list"
  cp_snapshot_fingerprint :: string
  cp_next_cursor :: "string option"
  cp_result_limit :: nat
  cp_truncated :: bool

record catalog_cursor =
  cc_snapshot_fingerprint :: string
  cc_after_reference :: string
  cc_after_version :: string

definition ser_catalog_query :: "catalog_query \<Rightarrow> json" where
  "ser_catalog_query x =
     JObj (skip_none ''text'' JStr (cq_text x) @
           skip_none ''namespace'' JStr (cq_namespace x) @
           skip_none ''data_kind'' ser_data_kind (cq_data_kind x) @
           skip_none ''data_format'' ser_data_format (cq_data_format x) @
           skip_none ''quality'' JStr (cq_quality x) @
           skip_none ''owner_team'' JStr (cq_owner_team x) @
           skip_none ''classification'' JStr (cq_classification x) @
           [(''limit'', ser_word (cq_limit x))] @
           skip_none ''cursor'' JStr (cq_cursor x))"

definition de_catalog_query :: "json \<Rightarrow> catalog_query de" where
  "de_catalog_query j =
     and_then (object_fields True
       [''text'', ''namespace'', ''data_kind'', ''data_format'', ''quality'', ''owner_team'',
        ''classification'', ''limit'', ''cursor''] j) (\<lambda>kvs.
     and_then (field_option ''text'' de_string kvs) (\<lambda>x0.
     and_then (field_option ''namespace'' de_string kvs) (\<lambda>x1.
     and_then (field_option ''data_kind'' de_data_kind kvs) (\<lambda>x2.
     and_then (field_option ''data_format'' de_data_format kvs) (\<lambda>x3.
     and_then (field_option ''quality'' de_string kvs) (\<lambda>x4.
     and_then (field_option ''owner_team'' de_string kvs) (\<lambda>x5.
     and_then (field_option ''classification'' de_string kvs) (\<lambda>x6.
     and_then (field_default ''limit'' 25 de_word kvs) (\<lambda>x7.
     and_then (field_option ''cursor'' de_string kvs) (\<lambda>x8.
     Inr \<lparr>cq_text = x0, cq_namespace = x1, cq_data_kind = x2, cq_data_format = x3, cq_quality =
          x4, cq_owner_team = x5, cq_classification = x6, cq_limit = x7, cq_cursor = x8\<rparr>))))))))))"

lemma reads_catalog_query [reads_rules, simp]: "reads de_catalog_query ser_catalog_query x"
  by (cases x) (simp add: reads_def [of de_catalog_query] de_catalog_query_def ser_catalog_query_def
      object_fields_ok list_all_iff is_none_or_iff)

definition ser_catalog_cursor :: "catalog_cursor \<Rightarrow> json" where
  "ser_catalog_cursor x =
     JObj ([(''snapshot_fingerprint'', JStr (cc_snapshot_fingerprint x)),
            (''after_reference'', JStr (cc_after_reference x)),
            (''after_version'', JStr (cc_after_version x))])"

definition de_catalog_cursor :: "json \<Rightarrow> catalog_cursor de" where
  "de_catalog_cursor j =
     and_then (object_fields False
       [''snapshot_fingerprint'', ''after_reference'', ''after_version''] j) (\<lambda>kvs.
     and_then (field ''snapshot_fingerprint'' de_string kvs) (\<lambda>x0.
     and_then (field ''after_reference'' de_string kvs) (\<lambda>x1.
     and_then (field ''after_version'' de_string kvs) (\<lambda>x2.
     Inr \<lparr>cc_snapshot_fingerprint = x0, cc_after_reference = x1, cc_after_version = x2\<rparr>))))"

lemma reads_catalog_cursor [reads_rules, simp]: "reads de_catalog_cursor ser_catalog_cursor x"
  by (cases x) (simp add: reads_def [of de_catalog_cursor] de_catalog_cursor_def ser_catalog_cursor_def
      object_fields_ok list_all_iff is_none_or_iff)

section \<open>Cursors\<close>

text \<open>A cursor is the hexadecimal form of its JSON text. \<open>u8::from_str_radix\<close> takes a leading plus.\<close>

definition encode_cursor :: "ext \<Rightarrow> catalog_cursor \<Rightarrow> string" where
  "encode_cursor E c = ''v1:'' @ concat (map hex_byte (json_print E (ser_catalog_cursor c)))"

definition hex_pair :: "char \<Rightarrow> char \<Rightarrow> char option" where
  "hex_pair a b =
     (if a = CHR ''+'' then map_option char_of (hex_digit_value b)
      else case hex_digit_value a of
             None \<Rightarrow> None
           | Some h \<Rightarrow> map_option (\<lambda>l. char_of (16 * h + l)) (hex_digit_value b))"

fun hex_pairs :: "string \<Rightarrow> string option" where
  "hex_pairs (a # b # s) =
     (case hex_pair a b of None \<Rightarrow> None | Some c \<Rightarrow> map_option ((#) c) (hex_pairs s))"
| "hex_pairs _ = Some []"

definition is_ascii :: "string \<Rightarrow> bool" where
  "is_ascii s = list_all (\<lambda>c. (of_char c :: nat) < 128) s"

definition decode_cursor :: "ext \<Rightarrow> string \<Rightarrow> catalog_cursor peer_result" where
  "decode_cursor E value =
     and_then (ensure (length value \<le> 4096 \<and> is_ascii value)
                 (Validation ''cursor'' ''invalid or oversized cursor'')) (\<lambda>_.
     and_then (ok_or (Validation ''cursor'' ''unsupported cursor version'')
                 (strip_prefix ''v1:'' value)) (\<lambda>encoded.
     and_then (ensure (length encoded mod 2 = 0) (Validation ''cursor'' ''malformed cursor'')) (\<lambda>_.
     and_then (ok_or (Validation ''cursor'' ''malformed cursor'') (hex_pairs encoded)) (\<lambda>bytes.
     map_err (\<lambda>_. Validation ''cursor'' ''malformed cursor'')
       (from_slice E de_catalog_cursor bytes)))))"

section \<open>Matching\<close>

definition matches_query ::
  "string \<Rightarrow> string \<Rightarrow> string \<Rightarrow> published_version \<Rightarrow> catalog_query \<Rightarrow> string option \<Rightarrow> bool" where
  "matches_query ns product_id name version q needle =
     (if is_some_and (\<lambda>v. v \<noteq> ns) (cq_namespace q) \<or>
         is_some_and (\<lambda>v. v \<noteq> pv_data_kind version) (cq_data_kind q) \<or>
         is_some_and (\<lambda>v. v \<noteq> pv_data_format version) (cq_data_format q) \<or>
         is_some_and (\<lambda>v. v \<noteq> pv_quality version) (cq_quality q) \<or>
         is_some_and (\<lambda>v. v \<noteq> pv_owner_team version) (cq_owner_team q) \<or>
         is_some_and (\<lambda>v. v \<noteq> pv_classification version) (cq_classification q)
      then False
      else is_none_or (\<lambda>needle. contains_str needle (to_ascii_lowercase
             (join_with '' '' [ns, product_id, name, pv_version version, pv_description version,
                             pv_owner_team version]))) needle)"

definition selected :: "catalog_query \<Rightarrow> string \<Rightarrow> manifest_product \<Rightarrow> published_version \<Rightarrow> bool" where
  "selected q ns product version \<longleftrightarrow>
     pv_lifecycle version = Active \<and>
     matches_query ns (mp_id product) (mp_name product) version q
       (map_option to_ascii_lowercase (cq_text q))"

definition entry_of :: "string \<Rightarrow> manifest_product \<Rightarrow> 64 word \<Rightarrow> published_version \<Rightarrow> catalog_entry" where
  "entry_of ns product revision version =
     \<lparr>ce_reference = reference ns (mp_id product), ce_version = pv_version version,
      ce_name = mp_name product, ce_manifest_revision = revision,
      ce_data_kind = pv_data_kind version, ce_data_format = pv_data_format version,
      ce_description = pv_description version, ce_limitations = pv_limitations version,
      ce_owner_team = pv_owner_team version, ce_quality = pv_quality version\<rparr>"

definition matching :: "catalog_query \<Rightarrow> (string \<times> manifest_product \<times> 64 word) list \<Rightarrow> catalog_entry list" where
  "matching q entries =
     sort_key (\<lambda>e. (ce_reference e, ce_version e, ce_name e))
       (concat (map (\<lambda>(ns, product, revision).
          map (entry_of ns product revision) (filter (selected q ns product) (mp_versions product)))
        entries))"

section \<open>Pages\<close>

definition debug_revision :: "64 word option \<Rightarrow> string" where
  "debug_revision r =
     (case r of None \<Rightarrow> ''None'' | Some n \<Rightarrow> ''Some('' @ show_nat (unat n) @ '')'')"

definition snapshot_fingerprint :: "ext \<Rightarrow> peer_coverage list \<Rightarrow> string" where
  "snapshot_fingerprint E coverage =
     hex_digest E (concat (map (\<lambda>row. row @ [CHR 0x00])
       (sort (map (\<lambda>c. cov_namespace c @ ''|'' @ debug_revision (cov_revision c) @ ''|'' @
                       (if cov_available c then ''true'' else ''false'') @ ''|'' @
                       (case cov_error c of None \<Rightarrow> [] | Some e \<Rightarrow> e)) coverage))))"

definition query_fingerprint :: "ext \<Rightarrow> project \<Rightarrow> peer_coverage list \<Rightarrow> string \<Rightarrow> catalog_query \<Rightarrow> string" where
  "query_fingerprint E p coverage configuration q =
     hex_digest E (json_print E (JArr
       [JStr (snapshot_fingerprint E coverage), JStr configuration, JStr (root p),
        ser_catalog_query (q\<lparr>cq_cursor := None\<rparr>)]))"

definition after_cursor :: "catalog_cursor option \<Rightarrow> catalog_entry list \<Rightarrow> catalog_entry list" where
  "after_cursor cursor es =
     (case cursor of
        None \<Rightarrow> es
      | Some c \<Rightarrow>
          filter (\<lambda>e. (cc_after_reference c, cc_after_version c) < (ce_reference e, ce_version e)) es)"

definition catalog_page_of ::
  "ext \<Rightarrow> string \<Rightarrow> registered_listing \<Rightarrow> catalog_query \<Rightarrow> catalog_page peer_result" where
  "catalog_page_of E fingerprint listing q =
     and_then (case cq_cursor q of
                 None \<Rightarrow> Inr None | Some c \<Rightarrow> map_ok Some (decode_cursor E c)) (\<lambda>cursor.
     and_then (ensure (is_none_or (\<lambda>c. cc_snapshot_fingerprint c = fingerprint) cursor)
                 (Conflict ''catalog changed between pages; restart the query'')) (\<lambda>_.
     let limit = unat (cq_limit q);
         matches = after_cursor cursor (matching q (listing_entries listing));
         truncated = limit < length matches;
         entries = take limit matches in
     Inr \<lparr>cp_protocol = CATALOG_PROTOCOL_VERSION, cp_entries = entries,
          cp_coverage = listing_coverage listing, cp_snapshot_fingerprint = fingerprint,
          cp_next_cursor =
            (if truncated then
               Some (encode_cursor E
                 \<lparr>cc_snapshot_fingerprint = fingerprint,
                  cc_after_reference = ce_reference (last entries),
                  cc_after_version = ce_version (last entries)\<rparr>)
             else None),
          cp_result_limit = limit, cp_truncated = truncated\<rparr>))"

definition query_catalog :: "ext \<Rightarrow> project \<Rightarrow> catalog_query \<Rightarrow> catalog_page peer" where
  "query_catalog E p q =
     (if cq_limit q = 0 \<or> MAX_CATALOG_PAGE_SIZE < unat (cq_limit q) then
        io_err (Validation ''limit'' (''must be between 1 and '' @ show_nat MAX_CATALOG_PAGE_SIZE))
      else
        io_bind (list_registered_with_coverage E p) (\<lambda>listing.
        io_bind (configuration_fingerprint E p) (\<lambda>configuration.
        io_lift (catalog_page_of E (query_fingerprint E p (listing_coverage listing) configuration q)
                   listing q))))"

section \<open>Products and teams\<close>

definition product_row :: "catalog_query \<Rightarrow> string \<times> manifest_product \<times> 64 word \<Rightarrow> (string \<times> json) option" where
  "product_row q entry =
     (case entry of (ns, product, revision) \<Rightarrow>
        let versions = map pv_version (filter (selected q ns product) (mp_versions product)) in
        if versions = [] then None
        else Some (reference ns (mp_id product),
               JObj [(''reference'', JStr (reference ns (mp_id product))), (''name'', JStr (mp_name product)),
                     (''versions'', ser_list JStr versions), (''manifest_revision'', ser_word revision)]))"

definition query_products :: "ext \<Rightarrow> project \<Rightarrow> catalog_query \<Rightarrow> json list peer" where
  "query_products E p q =
     io_bind (list_registered_with_coverage E p) (\<lambda>listing.
     io_ret (map snd (sort_key fst (List.map_filter (product_row q) (listing_entries listing)))))"

text \<open>A \<open>BTreeSet\<close> is the ordered list of its elements.\<close>

definition catalog_teams :: "ext \<Rightarrow> project \<Rightarrow> string list peer" where
  "catalog_teams E p =
     io_bind (list_registered_with_coverage E p) (\<lambda>listing.
     io_ret (sort (remdups (map pv_owner_team (filter (\<lambda>v. pv_lifecycle v = Active)
       (concat (map (\<lambda>(_, product, _). mp_versions product) (listing_entries listing))))))))"

end
