(* ===== verification/Catalog_Proofs.thy ===== *)
theory Catalog_Proofs
  imports Catalog Example_World
begin

text \<open>
  Cursors read back what they say, and following them from the first page on gives every matching
  entry once, in order, whatever the page size.
\<close>

section \<open>Cursors\<close>

lemma hex_pair_byte: "hex_pair (digit_char (of_char c div 16)) (digit_char (of_char c mod 16)) = Some c"
proof -
  have n: "(of_char c :: nat) div 16 < 16" "(of_char c :: nat) mod 16 < 16"
    using of_char_lt [of c] by (auto simp: less_mult_imp_div_less)
  then have "digit_char (of_char c div 16) \<noteq> CHR ''+''"
    by (auto simp: digit_char_def dest!: arg_cong [of _ _ "of_char :: char \<Rightarrow> nat"] split: if_splits)
  with n show ?thesis
    by (simp add: hex_pair_def digit_char_hex)
qed

lemma hex_pairs_encode: "hex_pairs (concat (map hex_byte bs)) = Some bs"
  by (induction bs) (simp_all add: hex_byte_def hex_pair_byte)

lemma hex_byte_ascii: "is_ascii (concat (map hex_byte bs))"
proof -
  have "(of_char (digit_char d) :: nat) < 128" if "d < 16" for d
    using that by (simp add: digit_char_def)
  moreover have "(of_char c :: nat) div 16 < 16" for c
    using of_char_lt [of c] by (auto simp: less_mult_imp_div_less)
  ultimately show ?thesis by (induction bs) (auto simp: is_ascii_def hex_byte_def)
qed

lemma hex_byte_even: "length (concat (map hex_byte bs)) mod 2 = 0"
  by (induction bs) (auto simp: hex_byte_def)

definition cursor_fits :: "ext \<Rightarrow> catalog_cursor \<Rightarrow> bool" where
  "cursor_fits E c \<longleftrightarrow>
     length (encode_cursor E c) \<le> 4096 \<and> json_reads_back E (ser_catalog_cursor c)"

lemma decode_encode_cursor:
  assumes "cursor_fits E c"
  shows "decode_cursor E (encode_cursor E c) = Inr c"
proof -
  have "json_parse E (json_print E (ser_catalog_cursor c)) = Inr (ser_catalog_cursor c)"
    using assms by (simp add: cursor_fits_def json_reads_back_def)
  moreover have "de_catalog_cursor (ser_catalog_cursor c) = Inr c"
    using reads_catalog_cursor [of c] by (simp add: reads_def)
  moreover have "is_ascii (''v1:'' @ concat (map hex_byte bs))" for bs
    using hex_byte_ascii [of bs] by (simp add: is_ascii_def)
  ultimately show ?thesis
    using assms hex_byte_even
    by (simp add: decode_cursor_def cursor_fits_def encode_cursor_def hex_pairs_encode from_slice_def)
qed

interpretation cursor_text: codec "cursor_fits E" "encode_cursor E" "decode_cursor E" for E
  by unfold_locales (rule decode_encode_cursor)

section \<open>Following the cursors\<close>

definition entry_key :: "catalog_entry \<Rightarrow> string \<times> string" where
  "entry_key e = (ce_reference e, ce_version e)"

text \<open>The client's loop: one query after the other, each with the cursor of the page before.\<close>

fun all_pages :: "ext \<Rightarrow> string \<Rightarrow> registered_listing \<Rightarrow> catalog_query \<Rightarrow> nat \<Rightarrow> catalog_entry list option" where
  "all_pages E fp listing q 0 = None"
| "all_pages E fp listing q (Suc n) =
     (case catalog_page_of E fp listing q of
        Inl _ \<Rightarrow> None
      | Inr page \<Rightarrow>
          (case cp_next_cursor page of
             None \<Rightarrow> Some (cp_entries page)
           | Some c \<Rightarrow> map_option ((@) (cp_entries page)) (all_pages E fp listing (q\<lparr>cq_cursor := Some c\<rparr>) n)))"

lemma matching_cursor [simp]: "matching (q\<lparr>cq_cursor := c\<rparr>) es = matching q es"
proof -
  have "selected (q\<lparr>cq_cursor := c\<rparr>) = selected q"
    by (simp add: selected_def matches_query_def fun_eq_iff)
  then show ?thesis by (simp add: matching_def)
qed

lemma matching_strict:
  assumes "distinct (map entry_key (matching q es))"
  shows "sorted_wrt (\<lambda>a b. entry_key a < entry_key b) (matching q es)"
proof -
  let ?M = "matching q es"
  have "sorted (map (\<lambda>e. (ce_reference e, ce_version e, ce_name e)) ?M)"
    by (simp add: matching_def)
  then have "sorted_wrt (\<lambda>a b. (ce_reference a, ce_version a, ce_name a) \<le> (ce_reference b, ce_version b, ce_name b)) ?M"
    by (simp add: sorted_map)
  moreover have "entry_key a \<le> entry_key b"
    if "(ce_reference a, ce_version a, ce_name a) \<le> (ce_reference b, ce_version b, ce_name b)" for a b
    using that by (auto simp: entry_key_def less_eq_prod_def less_imp_le)
  ultimately have "\<forall>i j. i < j \<longrightarrow> j < length ?M \<longrightarrow> entry_key (?M ! i) \<le> entry_key (?M ! j)"
    by (auto simp only: sorted_wrt_iff_nth_less)
  moreover have "entry_key (?M ! i) \<noteq> entry_key (?M ! j)" if "i < j" "j < length ?M" for i j
    using assms that by (simp add: distinct_conv_nth)
  ultimately show ?thesis by (simp add: sorted_wrt_iff_nth_less order_less_le)
qed

lemma after_last:
  assumes "sorted_wrt (\<lambda>a b. entry_key a < entry_key b) xs" "0 < n" "n \<le> length xs"
  shows "filter (\<lambda>e. entry_key (xs ! (n - 1)) < entry_key e) xs = drop n xs"
proof -
  let ?x = "xs ! (n - 1)"
  have early: "\<not> entry_key ?x < entry_key e" if e: "e \<in> set (take n xs)" for e
  proof -
    obtain i where i: "i < n" "e = xs ! i"
      using e assms(3) by (auto simp: in_set_conv_nth)
    show ?thesis
    proof (cases "i = n - 1")
      case False
      then have "entry_key e < entry_key ?x"
        using assms i by (auto simp: sorted_wrt_iff_nth_less)
      then show ?thesis by (rule less_not_sym)
    qed (simp add: i)
  qed
  have late: "entry_key ?x < entry_key e" if e: "e \<in> set (drop n xs)" for e
  proof -
    obtain i where "i < length xs - n" "e = xs ! (n + i)"
      using e assms(3) by (auto simp: in_set_conv_nth)
    then show ?thesis using assms by (auto simp: sorted_wrt_iff_nth_less)
  qed
  have "filter (\<lambda>e. entry_key ?x < entry_key e) (take n xs @ drop n xs) = drop n xs"
    using early late by (simp only: filter_append) (simp add: filter_empty_conv filter_id_conv)
  then show ?thesis by simp
qed

text \<open>A page cut at an offset, and its cursor, which is the next offset.\<close>

definition cursor_of :: "string \<Rightarrow> catalog_entry \<Rightarrow> catalog_cursor" where
  "cursor_of fp e =
     \<lparr>cc_snapshot_fingerprint = fp, cc_after_reference = ce_reference e, cc_after_version = ce_version e\<rparr>"

lemma page_from:
  assumes "decode_cursor E c = Inr cur" "cc_snapshot_fingerprint cur = fp"
    and "after_cursor (Some cur) (matching q (listing_entries listing)) = xs"
  shows "catalog_page_of E fp listing (q\<lparr>cq_cursor := Some c\<rparr>) =
    Inr \<lparr>cp_protocol = CATALOG_PROTOCOL_VERSION, cp_entries = take (unat (cq_limit q)) xs,
         cp_coverage = listing_coverage listing, cp_snapshot_fingerprint = fp,
         cp_next_cursor = (if unat (cq_limit q) < length xs
            then Some (encode_cursor E (cursor_of fp (last (take (unat (cq_limit q)) xs)))) else None),
         cp_result_limit = unat (cq_limit q), cp_truncated = (unat (cq_limit q) < length xs)\<rparr>"
  using assms by (simp add: catalog_page_of_def cursor_of_def Let_def)

lemma pages_from:
  assumes strict: "sorted_wrt (\<lambda>a b. entry_key a < entry_key b) M"
    and M: "M = matching q (listing_entries listing)"
    and fits: "\<And>e. e \<in> set M \<Longrightarrow> cursor_fits E (cursor_of fp e)"
    and limit: "0 < unat (cq_limit q)"
    and n: "0 < n" "n \<le> length M" "length M - n \<le> k"
  shows "all_pages E fp listing (q\<lparr>cq_cursor := Some (encode_cursor E (cursor_of fp (M ! (n - 1))))\<rparr>) (Suc k) =
    Some (drop n M)"
  using n
proof (induction k arbitrary: n)
  case (0 n)
  let ?cur = "cursor_of fp (M ! (n - 1))"
  have "decode_cursor E (encode_cursor E ?cur) = Inr ?cur"
    using cursor_text.dec_enc [OF fits] 0 by simp
  moreover have "after_cursor (Some ?cur) M = drop n M"
    using after_last [OF strict 0(1,2)] by (simp add: after_cursor_def cursor_of_def entry_key_def)
  ultimately show ?case
    using page_from [of E _ ?cur fp q listing "drop n M"] 0 by (simp add: M cursor_of_def)
next
  case (Suc k n)
  let ?cur = "cursor_of fp (M ! (n - 1))" and ?l = "unat (cq_limit q)"
  have "decode_cursor E (encode_cursor E ?cur) = Inr ?cur"
    using cursor_text.dec_enc [OF fits] Suc.prems by simp
  moreover have "after_cursor (Some ?cur) M = drop n M"
    using after_last [OF strict Suc.prems(1,2)] by (simp add: after_cursor_def cursor_of_def entry_key_def)
  ultimately have page: "catalog_page_of E fp listing (q\<lparr>cq_cursor := Some (encode_cursor E ?cur)\<rparr>) =
    Inr \<lparr>cp_protocol = CATALOG_PROTOCOL_VERSION, cp_entries = take ?l (drop n M),
         cp_coverage = listing_coverage listing, cp_snapshot_fingerprint = fp,
         cp_next_cursor = (if ?l < length (drop n M)
            then Some (encode_cursor E (cursor_of fp (last (take ?l (drop n M))))) else None),
         cp_result_limit = ?l, cp_truncated = (?l < length (drop n M))\<rparr>"
    using page_from [of E _ ?cur fp q listing "drop n M"] by (simp add: M cursor_of_def)
  show ?case
  proof (cases "?l < length (drop n M)")
    case False
    then show ?thesis using page by simp
  next
    case True
    then have "take ?l (drop n M) \<noteq> []" using limit by (cases "drop n M"; cases ?l) auto
    then have "last (take ?l (drop n M)) = take ?l (drop n M) ! (length (take ?l (drop n M)) - 1)"
      by (rule last_conv_nth)
    also have "\<dots> = M ! (n + ?l - 1)" using True limit by simp
    finally have last: "last (take ?l (drop n M)) = M ! (n + ?l - 1)" .
    have "all_pages E fp listing (q\<lparr>cq_cursor := Some (encode_cursor E (cursor_of fp (M ! (n + ?l - 1))))\<rparr>) (Suc k) =
        Some (drop (n + ?l) M)"
      using Suc.IH [of "n + ?l"] True limit Suc.prems by simp
    moreover have "take ?l (drop n M) @ drop (n + ?l) M = drop n M"
      by (metis append_take_drop_id drop_drop add.commute)
    ultimately show ?thesis using page True last by simp
  qed
qed

text \<open>C8. Following the cursors from the first page gives every active matching entry of the view
  exactly once and in order, whatever the page size, in at most one page more than there are
  entries: nothing is skipped between pages and nothing is repeated. (The cursors have to fit the
  4096 bytes a cursor may have.)\<close>

theorem catalog_pages_complete:
  assumes "distinct (map entry_key (matching q (listing_entries listing)))"
    and "\<And>e. e \<in> set (matching q (listing_entries listing)) \<Longrightarrow> cursor_fits E (cursor_of fp e)"
    and "cq_limit q \<noteq> 0" "cq_cursor q = None"
  shows "all_pages E fp listing q (Suc (length (matching q (listing_entries listing)))) =
    Some (matching q (listing_entries listing))"
proof -
  let ?M = "matching q (listing_entries listing)" and ?l = "unat (cq_limit q)"
  have limit: "0 < ?l" using assms(3) by (simp add: unat_gt_0)
  have page: "catalog_page_of E fp listing q =
    Inr \<lparr>cp_protocol = CATALOG_PROTOCOL_VERSION, cp_entries = take ?l ?M,
         cp_coverage = listing_coverage listing, cp_snapshot_fingerprint = fp,
         cp_next_cursor = (if ?l < length ?M
            then Some (encode_cursor E (cursor_of fp (last (take ?l ?M)))) else None),
         cp_result_limit = ?l, cp_truncated = (?l < length ?M)\<rparr>"
    using assms(4) by (simp add: catalog_page_of_def after_cursor_def cursor_of_def Let_def)
  show ?thesis
  proof (cases "?l < length ?M")
    case False
    then show ?thesis using page by simp
  next
    case True
    then have "take ?l ?M \<noteq> []" using limit by auto
    then have "last (take ?l ?M) = ?M ! (?l - 1)"
      using True limit by (simp add: last_conv_nth)
    moreover from True obtain k where k: "length ?M = Suc k" by (cases "length ?M") auto
    have "all_pages E fp listing (q\<lparr>cq_cursor := Some (encode_cursor E (cursor_of fp (?M ! (?l - 1))))\<rparr>) (Suc k) =
        Some (drop ?l ?M)"
      using True limit assms(2) k by (intro pages_from [OF matching_strict [OF assms(1)] refl]) auto
    ultimately show ?thesis using page True k by simp
  qed
qed

definition demo_listing :: registered_listing where
  "demo_listing =
     \<lparr>listing_entries =
        [(''n'', \<lparr>mp_id = ''d'', mp_name = ''x'',
           mp_versions = [demo_version\<lparr>pv_version := ''2''\<rparr>, demo_version,
             demo_version\<lparr>pv_version := ''0'', pv_lifecycle := Withdrawn\<rparr>]\<rparr>, 3),
         (''a'', \<lparr>mp_id = ''e'', mp_name = ''y'', mp_versions = [demo_version]\<rparr>, 1)],
      listing_coverage = []\<rparr>"

definition demo_query :: catalog_query where
  "demo_query =
     \<lparr>cq_text = Some ''X'', cq_namespace = None, cq_data_kind = Some Table, cq_data_format = None,
      cq_quality = None, cq_owner_team = None, cq_classification = None, cq_limit = 1, cq_cursor = None\<rparr>"

lemma catalog_pages_complete_witness:
  "\<exists>es. all_pages demo_ext ''f'' demo_listing demo_query 4 = Some es \<and>
     map entry_key es =
       [(''product://a/e'', ''1''), (''product://n/d'', ''1''), (''product://n/d'', ''2'')]"
proof -
  let ?M = "matching demo_query (listing_entries demo_listing)"
  have keys: "map entry_key ?M = [(''product://a/e'', ''1''), (''product://n/d'', ''1''), (''product://n/d'', ''2'')]"
    by code_simp
  have "list_all (\<lambda>e. length (encode_cursor demo_ext (cursor_of ''f'' e)) \<le> 4096) ?M" by code_simp
  then have fits: "cursor_fits demo_ext (cursor_of ''f'' e)" if "e \<in> set ?M" for e
    using that by (simp add: cursor_fits_def list_all_iff)
  have len: "length ?M = 3" using keys [THEN arg_cong, of length] by simp
  have "distinct (map entry_key ?M)" unfolding keys by simp
  moreover have "cq_limit demo_query \<noteq> 0" "cq_cursor demo_query = None" by (simp_all add: demo_query_def)
  ultimately have "all_pages demo_ext ''f'' demo_listing demo_query (Suc 3) = Some ?M"
    using catalog_pages_complete [where q = demo_query and listing = demo_listing, OF _ fits]
    unfolding len by blast
  with keys show ?thesis by (intro exI [of _ ?M]) (simp add: eval_nat_numeral)
qed

section \<open>One page\<close>

lemma set_matching:
  "e \<in> set (matching q es) \<longleftrightarrow>
     (\<exists>ns product revision version. (ns, product, revision) \<in> set es \<and> version \<in> set (mp_versions product) \<and>
        selected q ns product version \<and> e = entry_of ns product revision version)"
  by (fastforce simp: matching_def)

lemma catalog_page_ok:
  assumes "catalog_page_of E fp listing q = Inr page"
  shows "length (cp_entries page) \<le> unat (cq_limit q) \<and>
    set (cp_entries page) \<subseteq> set (matching q (listing_entries listing)) \<and>
    sorted (map (\<lambda>e. (ce_reference e, ce_version e, ce_name e)) (cp_entries page)) \<and>
    (cp_truncated page \<longleftrightarrow> cp_next_cursor page \<noteq> None)"
proof -
  from assms obtain cursor where
    p: "cp_entries page = take (unat (cq_limit q)) (after_cursor cursor (matching q (listing_entries listing)))"
    and c: "cp_truncated page \<longleftrightarrow> cp_next_cursor page \<noteq> None"
    by (auto simp: catalog_page_of_def Let_def)
  let ?M = "matching q (listing_entries listing)" and ?key = "\<lambda>e. (ce_reference e, ce_version e, ce_name e)"
  have sub: "set (after_cursor cursor ?M) \<subseteq> set ?M"
    by (auto simp: after_cursor_def split: option.splits)
  have "sorted (map ?key ?M)" by (simp add: matching_def)
  then have "sorted (map ?key (after_cursor cursor ?M))"
    by (cases cursor) (simp_all add: after_cursor_def sorted_filter)
  then have "sorted (map ?key (take (unat (cq_limit q)) (after_cursor cursor ?M)))"
    unfolding take_map [symmetric] by (rule sorted_wrt_take)
  moreover have "set (take (unat (cq_limit q)) (after_cursor cursor ?M)) \<subseteq> set ?M"
    using set_take_subset sub by (rule subset_trans)
  ultimately show ?thesis using c unfolding p by (intro conjI) simp_all
qed


text \<open>A cursor is only good for the view it was made from: with the cursor of a page of
  another view (another query, configuration, project or set of observed manifests), the answer is
  a conflict, never a page.\<close>

theorem stale_cursor_conflicts:
  assumes "cursor_fits E (cursor_of fp e)" "fp \<noteq> fp'"
  shows "catalog_page_of E fp' listing (q\<lparr>cq_cursor := Some (encode_cursor E (cursor_of fp e))\<rparr>) =
    Inl (Conflict ''catalog changed between pages; restart the query'')"
  using assms(2) cursor_text.dec_enc [OF assms(1)] by (simp add: catalog_page_of_def cursor_of_def)

lemma stale_cursor_conflicts_witness:
  "catalog_page_of demo_ext ''g'' demo_listing
     (demo_query\<lparr>cq_cursor := Some (encode_cursor demo_ext (cursor_of ''f'' (entry_of ''n'' (hd (sm_products demo_manifest)) 3 demo_version)))\<rparr>) =
    Inl (Conflict ''catalog changed between pages; restart the query'')"
proof -
  have "length (encode_cursor demo_ext (cursor_of ''f'' (entry_of ''n'' (hd (sm_products demo_manifest)) 3 demo_version))) \<le> 4096"
    by code_simp
  then show ?thesis by (intro stale_cursor_conflicts) (simp_all add: cursor_fits_def)
qed

text \<open>The two views of the catalog agree: the products the command line lists are those of
  the entries the pages list.\<close>

theorem products_agree_with_entries:
  "fst ` set (List.map_filter (product_row q) es) = ce_reference ` set (matching q es)"
proof -
  have row: "(\<exists>j. product_row q (ns, product, revision) = Some (r, j)) \<longleftrightarrow>
      r = reference ns (mp_id product) \<and> (\<exists>v \<in> set (mp_versions product). selected q ns product v)"
    for ns product revision r
    by (auto simp: product_row_def Let_def filter_empty_conv)
  have view: "r \<in> fst ` set (List.map_filter (product_row q) es) \<longleftrightarrow> (\<exists>e \<in> set es. \<exists>j. product_row q e = Some (r, j))" for r
    by (force simp: List.map_filter_def)
  have entries: "r \<in> ce_reference ` set (matching q es) \<longleftrightarrow>
      (\<exists>ns product revision v. (ns, product, revision) \<in> set es \<and> r = reference ns (mp_id product) \<and>
         v \<in> set (mp_versions product) \<and> selected q ns product v)" for r
  proof
    assume "r \<in> ce_reference ` set (matching q es)"
    then obtain e where "e \<in> set (matching q es)" "r = ce_reference e" by blast
    then show "\<exists>ns product revision v. (ns, product, revision) \<in> set es \<and> r = reference ns (mp_id product) \<and>
         v \<in> set (mp_versions product) \<and> selected q ns product v"
      unfolding set_matching by (elim exE conjE) (auto simp: entry_of_def)
  next
    assume "\<exists>ns product revision v. (ns, product, revision) \<in> set es \<and> r = reference ns (mp_id product) \<and>
         v \<in> set (mp_versions product) \<and> selected q ns product v"
    then obtain ns product revision v where v: "(ns, product, revision) \<in> set es"
      "r = reference ns (mp_id product)" "v \<in> set (mp_versions product)" "selected q ns product v" by blast
    then have "entry_of ns product revision v \<in> set (matching q es)" by (auto simp: set_matching)
    moreover have "r = ce_reference (entry_of ns product revision v)" by (simp add: v entry_of_def)
    ultimately show "r \<in> ce_reference ` set (matching q es)" by (rule rev_image_eqI)
  qed
  show ?thesis
    unfolding set_eq_iff view entries by (auto simp: row Bex_def)
qed

text \<open>The stored world with the configuration file of the project in place.\<close>

definition configured_world :: world where
  "configured_world =
     stored_world\<lparr>disk := (disk stored_world)\<lparr>nodes :=
       [([''p'', ''.feam''], Dir 2), ([''p'', ''.feam'', ''project.toml''], File 5)] @
       nodes (disk stored_world), next_ino := 6\<rparr>\<rparr>"


end
