(* ===== verification/Stage.thy ===== *)
theory Stage
  imports Resolve
begin

text \<open>
  \<open>preflight_stage\<close> and \<open>stage\<close>: copying resolved assets to an output path, with a receipt beside
  it, through temporaries that are renamed into place; the previous output is kept as a backup
  until the receipt is in place.
\<close>

section \<open>Preflight\<close>

text \<open>Never follow output or receipt links; an existing receipt must be a regular file.\<close>

definition reject_links :: "path \<Rightarrow> path \<Rightarrow> unit peer" where
  "reject_links out receipt =
     io_for (\<lambda>p.
       io_bind (io_try (symlink_metadata p)) (\<lambda>r.
       case r of
         Inl _ \<Rightarrow> io_ret ()
       | Inr m \<Rightarrow>
           if node_is_link (m_node m) \<or> (path_eq p receipt \<and> \<not> node_is_file (m_node m))
           then io_err (Policy ''output/receipt link or non-file receipt is not supported'')
           else io_ret ())) [out, receipt]"

definition same_inode :: "metadata \<Rightarrow> metadata \<Rightarrow> bool" where
  "same_inode a b = (node_ino (m_node a) = node_ino (m_node b))"

text \<open>The check that a file that may be overwritten is not a hard link to the source.\<close>

definition reject_alias :: "path \<Rightarrow> path \<Rightarrow> string \<Rightarrow> unit peer" where
  "reject_alias target source message =
     io_bind (io_try (sys_metadata target)) (\<lambda>r.
     case r of
       Inl _ \<Rightarrow> io_ret ()
     | Inr t \<Rightarrow>
         io_bind (sys (sys_metadata source)) (\<lambda>s.
         if same_inode s t then io_err (Policy message) else io_ret ()))"

definition preflight_asset ::
  "path \<Rightarrow> path \<Rightarrow> path \<Rightarrow> path option \<Rightarrow> resolved_asset \<Rightarrow> unit peer" where
  "preflight_asset out effective_out receipt out_canonical a =
     io_bind (io_map_err (\<lambda>_. PeerUnavailable (''registered asset '' @ quote (ra_id a)))
                (canonicalize (ra_project_access_path a))) (\<lambda>source.
     if is_some_and (\<lambda>c. path_eq c source) out_canonical \<or> path_eq receipt source then
       io_err (Policy ''source/output or receipt/source collision'')
     else if path_starts_with source effective_out \<or> path_starts_with effective_out source then
       io_err (Policy ''source/output ancestor or descendant overlap'')
     else
     io_bind (reject_alias receipt source ''receipt/source hard-link alias'') (\<lambda>_.
     reject_alias out source ''source/output hard-link alias''))"

definition preflight_stage :: "resolved_product \<Rightarrow> path \<Rightarrow> bool \<Rightarrow> unit peer" where
  "preflight_stage r out overwrite =
     io_bind (io_lift (ok_or (Policy ''output has no parent'') (parent out))) (\<lambda>dir.
     io_bind (sys (canonicalize dir)) (\<lambda>dir.
     io_bind (io_lift (ok_or (Policy ''output needs a filename'') (file_name out))) (\<lambda>name.
     let effective_out = join dir name; receipt = receipt_path effective_out in
     io_bind (reject_links out receipt) (\<lambda>_.
     io_bind (io_try (symlink_metadata out)) (\<lambda>lm.
     io_bind (case lm of
                Inr m \<Rightarrow>
                  if node_is_link (m_node m) then
                    io_bind (io_try (canonicalize out)) (\<lambda>c.
                    case c of
                      Inl _ \<Rightarrow> io_err (Policy (''output '' @ quote out @ '' is a dangling symlink''))
                    | Inr _ \<Rightarrow> io_ret ())
                  else io_ret ()
              | Inl _ \<Rightarrow> io_ret ()) (\<lambda>_.
     io_bind (path_exists out) (\<lambda>exists.
     if exists \<and> \<not> overwrite then io_err (Policy (''destination exists: '' @ out))
     else
     io_bind (io_try (canonicalize out)) (\<lambda>oc.
     io_for (preflight_asset out effective_out receipt
       (case oc of Inl _ \<Rightarrow> None | Inr c \<Rightarrow> Some c)) (rs_assets r)))))))))"

section \<open>Staging\<close>

definition ignore :: "'a sys \<Rightarrow> unit peer" where
  "ignore m = io_bind (io_try m) (\<lambda>_. io_ret ())"

definition copy_assets :: "resolved_product \<Rightarrow> path \<Rightarrow> unit peer" where
  "copy_assets r temporary =
     (case rs_assets r of
        [a] \<Rightarrow> sys (sys_copy (ra_project_access_path a) temporary)
      | assets \<Rightarrow>
          io_bind (sys (create_dir temporary)) (\<lambda>_.
          io_for (\<lambda>a. sys (sys_copy (ra_project_access_path a) (join temporary (ra_id a)))) assets))"

definition receipt_for :: "resolved_product \<Rightarrow> path \<Rightarrow> string \<Rightarrow> stage_receipt" where
  "receipt_for r out now =
     \<lparr>sr_protocol = PEER_PROTOCOL_VERSION,
      sr_reference = reference (rs_namespace r) (rs_product_id r), sr_version = rs_version r,
      sr_manifest_revision = rs_manifest_revision r, sr_assets = rs_assets r,
      sr_output_path = out, sr_retrieved_at = now\<rparr>"

text \<open>Putting the copy and its receipt in place, or putting the previous output back.\<close>

definition swap_in :: "path \<Rightarrow> path \<Rightarrow> path \<Rightarrow> path \<Rightarrow> path \<Rightarrow> unit peer" where
  "swap_in temporary temporary_receipt out receipt backup =
     io_bind (path_exists out) (\<lambda>had_output.
     io_bind (if had_output then sys (rename out backup) else io_ret ()) (\<lambda>_.
     let restore = (if had_output then ignore (rename backup out) else io_ret ()) in
     io_bind (io_try (rename temporary out)) (\<lambda>r1.
     case r1 of
       Inl err \<Rightarrow> io_bind restore (\<lambda>_. io_err (Io err))
     | Inr _ \<Rightarrow>
         io_bind (io_try (rename temporary_receipt receipt)) (\<lambda>r2.
         case r2 of
           Inl err \<Rightarrow>
             io_bind (ignore (remove_any out)) (\<lambda>_.
             io_bind restore (\<lambda>_. io_err (Io err)))
         | Inr _ \<Rightarrow> if had_output then sys (remove_any backup) else io_ret ()))))"

definition stage_with ::
  "ext \<Rightarrow> resolved_product \<Rightarrow> path \<Rightarrow> path \<Rightarrow> string \<Rightarrow> stage_receipt peer" where
  "stage_with E r out dir nonce =
     (let temporary = join dir (''.feam-stage-'' @ nonce);
          temporary_receipt = join dir (''.feam-stage-'' @ nonce @ ''.receipt'') in
      io_bind (copy_assets r temporary) (\<lambda>_.
      io_bind (utc_now E) (\<lambda>now.
      let receipt = receipt_for r out now in
      io_bind (write_atomic_text temporary_receipt (json_pretty E (ser_stage_receipt receipt))) (\<lambda>_.
      io_bind (swap_in temporary temporary_receipt out (receipt_path out)
                 (join dir (''.feam-stage-backup-'' @ nonce))) (\<lambda>_.
      io_ret receipt)))))"

definition stage :: "ext \<Rightarrow> resolved_product \<Rightarrow> path \<Rightarrow> bool \<Rightarrow> stage_receipt peer" where
  "stage E r out overwrite =
     io_bind (absolute_path out) (\<lambda>out.
     if rs_assets r = [] then io_err (DatasetNotRegistered ''resolved product has no assets'')
     else
     io_bind (io_lift (ok_or (Policy ''output has no parent directory'') (parent out))) (\<lambda>dir.
     io_bind (path_is_dir dir) (\<lambda>is_dir.
     if \<not> is_dir then io_err (Policy (''output parent '' @ quote dir @ '' does not exist''))
     else
     io_bind (preflight_stage r out overwrite) (\<lambda>_.
     io_bind unique_nonce (\<lambda>nonce.
     io_bind (io_try (stage_with E r out dir nonce)) (\<lambda>result.
     case result of
       Inr receipt \<Rightarrow> io_ret receipt
     | Inl err \<Rightarrow>
         io_bind (ignore (remove_any (join dir (''.feam-stage-'' @ nonce)))) (\<lambda>_.
         io_bind (ignore (remove_file (join dir (''.feam-stage-'' @ nonce @ ''.receipt'')))) (\<lambda>_.
         io_err err))))))))"

end
