(* ===== verification/Operations.thy ===== *)
theory Operations
  imports Stage
begin

text \<open>
  \<open>interactive_operations.rs\<close>: the prepared values a review screen shows, their execution, which
  reopens the project and checks what the review was bound to, and the reconciliation of an
  operation whose outcome is not known.
\<close>

section \<open>Data\<close>

datatype operation_state = Committed | FailedBeforeCommit | CommittedWithFollowupError | OutcomeUnknown

record 'a operation_result =
  or_operation_id :: string
  or_state :: operation_state
  or_result :: "'a option"
  or_error_kind :: "string option"
  or_message :: "string option"

record prepared_publication =
  pp_operation_id :: string
  pp_project_root :: path
  pp_configuration_fingerprint :: string
  pp_expected_manifest_revision :: "64 word"
  pp_draft_fingerprint :: string
  pp_request :: publication_request
  pp_estimated_asset_bytes :: "64 word"
  pp_validated :: published_version
  pp_inventory_fingerprint :: string
  pp_source_state :: string

record prepared_stage =
  ps_operation_id :: string
  ps_project_root :: path
  ps_configuration_fingerprint :: string
  ps_reference :: string
  ps_version :: string
  ps_expected_manifest_revision :: "64 word"
  ps_inventory_fingerprint :: string
  ps_destination :: path
  ps_overwrite :: bool
  ps_estimated_asset_bytes :: "64 word"
  ps_receipt_path :: path
  ps_assets :: "resolved_asset list"
  ps_destination_state :: string
  ps_receipt_state :: string
  ps_destination_exists :: bool

record prepared_withdrawal =
  pw_operation_id :: string
  pw_project_root :: path
  pw_configuration_fingerprint :: string
  pw_reference :: string
  pw_version :: string
  pw_reason :: string
  pw_expected_manifest_revision :: "64 word"

text \<open>Project root, reference, version and revision, and what is particular to the operation.\<close>

datatype recovery_identity =
    Recover_Publication path string string "64 word" string
  | Recover_Stage path string string "64 word" path string "resolved_asset list"
  | Recover_Withdrawal path string string "64 word" string

definition recover_publication :: "prepared_publication \<Rightarrow> recovery_identity" where
  "recover_publication p =
     Recover_Publication (pp_project_root p)
       (reference (pr_namespace (pp_request p)) (pr_product_id (pp_request p)))
       (pr_version (pp_request p)) (pp_expected_manifest_revision p) (pp_inventory_fingerprint p)"

definition recover_stage :: "prepared_stage \<Rightarrow> recovery_identity" where
  "recover_stage p =
     Recover_Stage (ps_project_root p) (ps_reference p) (ps_version p) (ps_expected_manifest_revision p)
       (ps_destination p) (ps_receipt_state p) (ps_assets p)"

definition recover_withdrawal :: "prepared_withdrawal \<Rightarrow> recovery_identity" where
  "recover_withdrawal p =
     Recover_Withdrawal (pw_project_root p) (pw_reference p) (pw_version p)
       (pw_expected_manifest_revision p) (pw_reason p)"

section \<open>Fingerprints\<close>

definition fingerprint :: "ext \<Rightarrow> json \<Rightarrow> string" where
  "fingerprint E j = hex_digest E (json_print E j)"

definition inventory_fingerprint :: "ext \<Rightarrow> resolved_product \<Rightarrow> string" where
  "inventory_fingerprint E r =
     fingerprint E (JArr [JStr (rs_namespace r), JStr (rs_product_id r), JStr (rs_version r),
       ser_word (rs_manifest_revision r), ser_list ser_resolved_asset (rs_assets r)])"

section \<open>The state of a path\<close>

fun io_fold :: "('a \<Rightarrow> 'b \<Rightarrow> ('w, 'e, 'b) io) \<Rightarrow> 'a list \<Rightarrow> 'b \<Rightarrow> ('w, 'e, 'b) io" where
  "io_fold f [] acc = io_ret acc"
| "io_fold f (x # xs) acc = io_bind (f x acc) (io_fold f xs)"

definition MAX_ROWS :: nat where "MAX_ROWS = 10000"

text \<open>
  \<open>visit\<close> pushes at least one row per call and refuses to go on at 10000 rows, so that it cannot
  nest deeper than that: the first argument bounds the nesting, and \<open>path_state\<close> starts it above
  the limit.
\<close>

primrec visit :: "nat \<Rightarrow> ext \<Rightarrow> path \<Rightarrow> string list \<Rightarrow> string list peer" where
  "visit 0 E p rows = io_err (Policy ''nesting'')"
| "visit (Suc n) E p rows =
     (if MAX_ROWS \<le> length rows then
        io_err (Policy ''review supports at most 10000 destination entries'')
      else
      io_bind (io_try (symlink_metadata p)) (\<lambda>r.
      case r of
        Inl k \<Rightarrow> if k = KNotFound then io_ret (rows @ [p @ '':absent'']) else io_err (Io k)
      | Inr m \<Rightarrow>
          io_bind (io_try (canonicalize p)) (\<lambda>c.
          let rows = rows @ [p @ '':'' @ debug_metadata E m @ '':'' @ debug_result E c, unix_metadata E m] in
          if node_is_dir (m_node m) then
            io_bind (sys (read_dir p)) (\<lambda>names.
            if MAX_ROWS < length names then
              io_err (Policy ''destination directory exceeds review limit'')
            else io_fold (\<lambda>name rows. visit n E (join p name) rows) (sort names) rows)
          else io_ret rows)))"

definition path_state :: "ext \<Rightarrow> path \<Rightarrow> string peer" where
  "path_state E p =
     io_bind (case parent p of
                None \<Rightarrow> io_ret ''None''
              | Some d \<Rightarrow> io_bind (io_try (canonicalize d)) (\<lambda>c. io_ret (''Some('' @ debug_result E c @ '')''))) (\<lambda>dir.
     io_bind (visit (Suc MAX_ROWS) E p [''parent:'' @ dir]) (\<lambda>rows.
     io_ret (fingerprint E (ser_list JStr rows))))"

definition publication_source_state :: "ext \<Rightarrow> project \<Rightarrow> publication_request \<Rightarrow> string peer" where
  "publication_source_state E p request =
     io_bind (serving_root p) (\<lambda>serving.
     io_bind (io_traverse (\<lambda>a. path_state E (join serving (da_path a))) (pr_assets request)) (\<lambda>states.
     io_ret (fingerprint E (ser_list JStr states))))"

section \<open>Preparation\<close>

definition next_operation_id :: "string peer" where
  "next_operation_id =
     io_bind next_sequence (\<lambda>n.
     io_bind now_nanos (\<lambda>nanos.
     io_ret (''feam-op-'' @ show_hex nanos @ ''-'' @ show_hex (unat n))))"

definition prepare_publication :: "ext \<Rightarrow> path \<Rightarrow> publication_request \<Rightarrow> prepared_publication peer" where
  "prepare_publication E project_root request =
     io_bind (open_project E project_root) (\<lambda>p.
     io_bind (validate_publication E p request) (\<lambda>candidate.
     io_bind (publication_source_state E p request) (\<lambda>source_state.
     io_bind next_operation_id (\<lambda>operation_id.
     io_bind (configuration_fingerprint E p) (\<lambda>configuration.
     io_bind (local_manifest_revision E p) (\<lambda>revision.
     io_ret \<lparr>pp_operation_id = operation_id, pp_project_root = root p,
             pp_configuration_fingerprint = configuration, pp_expected_manifest_revision = revision,
             pp_draft_fingerprint = fingerprint E (ser_publication_request request),
             pp_request = request,
             pp_estimated_asset_bytes = sum_list (map ar_size (pv_assets candidate)),
             pp_validated = candidate, pp_inventory_fingerprint = publication_fingerprint E candidate,
             pp_source_state = source_state\<rparr>))))))"

definition prepare_stage :: "ext \<Rightarrow> path \<Rightarrow> string \<Rightarrow> string \<Rightarrow> path \<Rightarrow> bool \<Rightarrow> prepared_stage peer" where
  "prepare_stage E project_root ref version destination overwrite =
     io_bind (open_project E project_root) (\<lambda>p.
     io_bind (resolve E p ref version None False) (\<lambda>resolved.
     io_bind (absolute_path destination) (\<lambda>destination.
     io_bind (preflight_stage resolved destination overwrite) (\<lambda>_.
     let receipt = receipt_path destination in
     io_bind next_operation_id (\<lambda>operation_id.
     io_bind (configuration_fingerprint E p) (\<lambda>configuration.
     io_bind (path_state E destination) (\<lambda>destination_state.
     io_bind (path_state E receipt) (\<lambda>receipt_state.
     io_bind (path_exists destination) (\<lambda>exists.
     io_ret \<lparr>ps_operation_id = operation_id, ps_project_root = root p,
             ps_configuration_fingerprint = configuration, ps_reference = ref, ps_version = version,
             ps_expected_manifest_revision = rs_manifest_revision resolved,
             ps_inventory_fingerprint = inventory_fingerprint E resolved,
             ps_destination = destination, ps_overwrite = overwrite,
             ps_estimated_asset_bytes = sum_list (map ra_size (rs_assets resolved)),
             ps_receipt_path = receipt, ps_assets = rs_assets resolved,
             ps_destination_state = destination_state, ps_receipt_state = receipt_state,
             ps_destination_exists = exists\<rparr>)))))))))"

definition prepare_withdrawal :: "ext \<Rightarrow> path \<Rightarrow> string \<Rightarrow> string \<Rightarrow> string \<Rightarrow> prepared_withdrawal peer" where
  "prepare_withdrawal E project_root ref version reason =
     io_bind (open_project E project_root) (\<lambda>p.
     io_bind (io_lift (parse_reference ref)) (\<lambda>(ns, _).
     if ns \<noteq> namespace_of p then
       io_err (Policy (''only local namespace '' @ quote (namespace_of p) @ '' may withdraw a product''))
     else if blank reason then io_err (Validation ''reason'' ''must not be blank'')
     else
     io_bind (resolve E p ref version None False) (\<lambda>_.
     io_bind next_operation_id (\<lambda>operation_id.
     io_bind (configuration_fingerprint E p) (\<lambda>configuration.
     io_bind (local_manifest_revision E p) (\<lambda>revision.
     io_ret \<lparr>pw_operation_id = operation_id, pw_project_root = root p,
             pw_configuration_fingerprint = configuration, pw_reference = ref, pw_version = version,
             pw_reason = reason, pw_expected_manifest_revision = revision\<rparr>))))))"

section \<open>Reconciliation\<close>

fun outputs_match :: "ext \<Rightarrow> path \<Rightarrow> bool \<Rightarrow> resolved_asset list \<Rightarrow> bool peer" where
  "outputs_match E destination single [] = io_ret True"
| "outputs_match E destination single (a # as) =
     (let output = (if single then destination else join destination (ra_id a)) in
      io_bind (sys (symlink_metadata output)) (\<lambda>lm.
      if node_is_link (m_node lm) then io_ret False
      else
      io_bind (sys (sys_metadata output)) (\<lambda>m.
      if of_nat (m_len m) \<noteq> ra_size a then io_ret False
      else
      case ra_sha256 a of
        None \<Rightarrow> io_ret False
      | Some digest \<Rightarrow>
          io_bind (sha256_file E output) (\<lambda>h.
          if h \<noteq> digest then io_ret False else outputs_match E destination single as))))"

definition receipt_matches ::
  "ext \<Rightarrow> stage_receipt \<Rightarrow> string \<Rightarrow> string \<Rightarrow> 64 word \<Rightarrow> path \<Rightarrow> resolved_asset list \<Rightarrow> bool" where
  "receipt_matches E receipt ref version revision destination assets \<longleftrightarrow>
     sr_reference receipt = ref \<and> sr_version receipt = version \<and>
     sr_manifest_revision receipt = revision \<and> path_eq (sr_output_path receipt) destination \<and>
     fingerprint E (ser_list ser_resolved_asset (sr_assets receipt)) =
       fingerprint E (ser_list ser_resolved_asset assets)"

definition reconcile_stage ::
  "ext \<Rightarrow> string \<Rightarrow> string \<Rightarrow> 64 word \<Rightarrow> path \<Rightarrow> string \<Rightarrow> resolved_asset list \<Rightarrow> operation_state peer" where
  "reconcile_stage E ref version revision destination receipt_state assets =
     (let path = receipt_path destination in
      io_bind (path_is_file path) (\<lambda>is_file.
      if \<not> is_file then io_ret OutcomeUnknown
      else
      io_bind (path_state E path) (\<lambda>state.
      if state = receipt_state then io_ret OutcomeUnknown
      else
      io_bind (path_exists destination) (\<lambda>exists.
      if \<not> exists then io_ret OutcomeUnknown
      else
      io_bind (read_bounded path MAX_MANIFEST_BYTES) (\<lambda>bytes.
      io_bind (io_lift (from_slice E de_stage_receipt bytes)) (\<lambda>receipt.
      if \<not> receipt_matches E receipt ref version revision destination assets then io_ret OutcomeUnknown
      else
      io_bind (outputs_match E destination (length assets = 1) assets) (\<lambda>ok.
      io_ret (if ok then Committed else OutcomeUnknown))))))))"

definition committed_in ::
  "(published_version \<Rightarrow> bool) \<Rightarrow> string \<Rightarrow> string \<Rightarrow> string \<Rightarrow> 64 word \<Rightarrow>
   (string \<times> manifest_product \<times> 64 word) list \<Rightarrow> bool" where
  "committed_in matches ns product_id version revision entries =
     list_ex (\<lambda>(n, product, current).
       n = ns \<and> mp_id product = product_id \<and> revision < current \<and>
       is_some_and matches (find (\<lambda>v. pv_version v = version) (mp_versions product))) entries"

definition reconcile_manifest ::
  "ext \<Rightarrow> (published_version \<Rightarrow> bool) \<Rightarrow> path \<Rightarrow> string \<Rightarrow> string \<Rightarrow> 64 word \<Rightarrow> operation_state peer" where
  "reconcile_manifest E matches project_root ref version revision =
     io_bind (open_project E project_root) (\<lambda>p.
     io_bind (io_lift (parse_reference ref)) (\<lambda>(ns, product_id).
     if ns \<noteq> namespace_of p then io_ret OutcomeUnknown
     else
     io_bind (list_registered_with_coverage E p) (\<lambda>listing.
     io_ret (if committed_in matches ns product_id version revision (listing_entries listing)
             then Committed else OutcomeUnknown))))"

fun reconcile :: "ext \<Rightarrow> recovery_identity \<Rightarrow> operation_state peer" where
  "reconcile E (Recover_Stage _ ref version revision destination receipt_state assets) =
     reconcile_stage E ref version revision destination receipt_state assets"
| "reconcile E (Recover_Publication project_root ref version revision inventory) =
     reconcile_manifest E (\<lambda>v. publication_fingerprint E v = inventory) project_root ref version revision"
| "reconcile E (Recover_Withdrawal project_root ref version revision reason) =
     reconcile_manifest E (\<lambda>v. pv_lifecycle v = Withdrawn \<and> pv_withdrawal_reason v = Some reason)
       project_root ref version revision"

section \<open>Execution\<close>

definition outcome_state :: "peer_error \<Rightarrow> operation_state" where
  "outcome_state e = (case e of Io _ \<Rightarrow> OutcomeUnknown | _ \<Rightarrow> FailedBeforeCommit)"

definition result_of :: "ext \<Rightarrow> string \<Rightarrow> 'a peer_result \<Rightarrow> 'a operation_result" where
  "result_of E operation_id r =
     (case r of
        Inr x \<Rightarrow> \<lparr>or_operation_id = operation_id, or_state = Committed, or_result = Some x,
                  or_error_kind = None, or_message = None\<rparr>
      | Inl e \<Rightarrow> \<lparr>or_operation_id = operation_id, or_state = outcome_state e, or_result = None,
                  or_error_kind = Some (error_kind e), or_message = Some (error_text E e)\<rparr>)"

definition execute_with_project ::
  "ext \<Rightarrow> string \<Rightarrow> path \<Rightarrow> string \<Rightarrow> (project \<Rightarrow> 'a peer) \<Rightarrow> 'a operation_result peer" where
  "execute_with_project E operation_id rt expected execute =
     io_bind (io_try
       (io_bind (open_project E rt) (\<lambda>p.
        io_bind (configuration_fingerprint E p) (\<lambda>configuration.
        if configuration \<noteq> expected then
          io_err (Conflict ''project configuration changed while operation awaited confirmation'')
        else execute p)))) (\<lambda>outcome.
     io_ret (result_of E operation_id outcome))"

definition execute_publication :: "ext \<Rightarrow> prepared_publication \<Rightarrow> publication_response operation_result peer" where
  "execute_publication E prepared =
     execute_with_project E (pp_operation_id prepared) (pp_project_root prepared)
       (pp_configuration_fingerprint prepared) (\<lambda>p.
         let changed = Conflict ''draft or source state changed; review again'' in
         if fingerprint E (ser_publication_request (pp_request prepared)) \<noteq> pp_draft_fingerprint prepared
         then io_err changed
         else
         io_bind (publication_source_state E p (pp_request prepared)) (\<lambda>state.
         if state \<noteq> pp_source_state prepared then io_err changed
         else publish_reviewed E p (pp_request prepared)
                (Some (pp_expected_manifest_revision prepared)) (Some (pp_inventory_fingerprint prepared))))"

definition execute_stage :: "ext \<Rightarrow> prepared_stage \<Rightarrow> stage_receipt operation_result peer" where
  "execute_stage E prepared =
     io_bind (execute_with_project E (ps_operation_id prepared) (ps_project_root prepared)
       (ps_configuration_fingerprint prepared) (\<lambda>p.
         let changed = Conflict ''destination or receipt changed; review again'' in
         io_bind (path_state E (ps_destination prepared)) (\<lambda>state.
         if state \<noteq> ps_destination_state prepared then io_err changed
         else
         io_bind (path_state E (ps_receipt_path prepared)) (\<lambda>state.
         if state \<noteq> ps_receipt_state prepared then io_err changed
         else
         io_bind (resolve E p (ps_reference prepared) (ps_version prepared) None False) (\<lambda>current.
         if rs_manifest_revision current \<noteq> ps_expected_manifest_revision prepared \<or>
            inventory_fingerprint E current \<noteq> ps_inventory_fingerprint prepared
         then io_err (Conflict ''resolved inventory changed while staging awaited confirmation'')
         else stage E current (ps_destination prepared) (ps_overwrite prepared)))))) (\<lambda>outcome.
     if or_state outcome = OutcomeUnknown then
       io_bind (io_try (reconcile E (recover_stage prepared))) (\<lambda>r.
       io_ret (case r of
           Inr Committed \<Rightarrow> outcome\<lparr>or_state := CommittedWithFollowupError\<rparr>
         | _ \<Rightarrow> outcome))
     else io_ret outcome)"

definition execute_withdrawal :: "ext \<Rightarrow> prepared_withdrawal \<Rightarrow> publication_response operation_result peer" where
  "execute_withdrawal E prepared =
     execute_with_project E (pw_operation_id prepared) (pw_project_root prepared)
       (pw_configuration_fingerprint prepared) (\<lambda>p.
         withdraw_qualified E p (pw_reference prepared) (pw_version prepared) (pw_reason prepared)
           (Some (pw_expected_manifest_revision prepared)))"

end
