(* ===== verification/Operations_Proofs.thy ===== *)
theory Operations_Proofs
  imports Operations Resolve_Proofs
begin

text \<open>
  What an executed operation reports is what happened on disk, and preparing or reconciling an
  operation changes nothing.
\<close>

section \<open>Code that only looks\<close>

lemma readonly_fold [readonly_rules, intro!]:
  "(\<And>x acc. readonly (f x acc)) \<Longrightarrow> readonly (io_fold f xs acc)"
  by (induction xs arbitrary: acc) auto

lemma readonly_traverse [readonly_rules, intro!]: "(\<And>x. readonly (f x)) \<Longrightarrow> readonly (io_traverse f xs)"
  by (induction xs) auto

lemma readonly_visit [readonly_rules, intro!, simp]: "readonly (visit n E p rows)"
  by (induction n arbitrary: p rows) (auto intro!: readonly_rules simp: Let_def)

lemma readonly_path_state [readonly_rules, intro!, simp]: "readonly (path_state E p)"
  unfolding path_state_def by (auto intro!: readonly_rules simp del: visit.simps)

lemma readonly_source_state [readonly_rules, intro!, simp]: "readonly (publication_source_state E p r)"
  unfolding publication_source_state_def by auto

lemma readonly_configuration [readonly_rules, intro!, simp]: "readonly (configuration_fingerprint E p)"
  unfolding configuration_fingerprint_def by auto

lemma readonly_resolve_asset [readonly_rules, intro!, simp]: "readonly (resolve_asset E rt v a)"
  unfolding resolve_asset_def by (auto intro!: readonly_rules simp: case_prod_unfold)

lemma readonly_resolve [readonly_rules, intro!, simp]: "readonly (resolve E p q v aid ver)"
  unfolding resolve_def by (auto intro!: readonly_rules simp: case_prod_unfold)

lemma readonly_listing [readonly_rules, intro!, simp]:
  "readonly (list_namespace E p n ns)" "readonly (list_namespaces E p n nss)"
  "readonly (list_registered_with_coverage E p)"
proof -
  show ns: "readonly (list_namespace E p n ns)" for n ns
    unfolding list_namespace_def too_large_def Let_def by (auto intro!: readonly_rules)
  have nss: "readonly (list_namespaces E p n nss)" for n nss
    by (induction nss arbitrary: n) (auto intro!: readonly_rules ns simp: case_prod_unfold)
  show "readonly (list_namespaces E p n nss)" by (rule nss)
  show "readonly (list_registered_with_coverage E p)"
    unfolding list_registered_with_coverage_def by (auto intro!: readonly_rules nss simp: case_prod_unfold)
qed

lemma readonly_preflight [readonly_rules, intro!, simp]: "readonly (preflight_stage r out ov)"
  unfolding preflight_stage_def reject_links_def preflight_asset_def reject_alias_def Let_def
  by (auto intro!: readonly_rules)

lemma readonly_outputs [readonly_rules, intro!, simp]: "readonly (outputs_match E d b as)"
  by (induction as) (auto intro!: readonly_rules simp: Let_def)

lemma readonly_reconcile_parts [readonly_rules, intro!, simp]:
  "readonly (reconcile_stage E ref v rv d st as)" "readonly (reconcile_manifest E ms rt ref v rv)"
  unfolding reconcile_stage_def reconcile_manifest_def Let_def
  by (auto intro!: readonly_rules simp: case_prod_unfold)

lemma readonly_operation_id [readonly_rules, intro!, simp]: "readonly next_operation_id"
  unfolding next_operation_id_def by auto

lemma readonly_local_revision [readonly_rules, intro!, simp]: "readonly (local_manifest_revision E p)"
  unfolding local_manifest_revision_def Let_def by (auto intro!: readonly_rules)

text \<open>Preparing any of the three operations, and reconciling one whose outcome is unknown,
  writes nothing: whatever the result, the disk is as it was.\<close>

theorem review_writes_nothing:
  "disk (snd (prepare_publication E rt request w)) = disk w \<and>
   disk (snd (prepare_stage E rt ref v dst ov w)) = disk w \<and>
   disk (snd (prepare_withdrawal E rt ref v reason w)) = disk w \<and>
   disk (snd (reconcile E identity w)) = disk w"
proof (intro conjI)
  have ro: "disk (snd (m w)) = disk w" if "readonly m" for m :: "'a peer"
    using readonlyD [OF that] by (cases "m w") auto
  show "disk (snd (prepare_publication E rt request w)) = disk w"
    by (rule ro) (auto simp: prepare_publication_def intro!: readonly_rules)
  show "disk (snd (prepare_stage E rt ref v dst ov w)) = disk w"
    by (rule ro) (auto simp: prepare_stage_def Let_def intro!: readonly_rules)
  show "disk (snd (prepare_withdrawal E rt ref v reason w)) = disk w"
    by (rule ro) (auto simp: prepare_withdrawal_def case_prod_unfold intro!: readonly_rules)
  show "disk (snd (reconcile E identity w)) = disk w"
    by (rule ro) (cases identity; simp)
qed

section \<open>The nesting bound of the path snapshot\<close>

lemma visit_grows: "visit n E p rows w = (Inr rows', w') \<Longrightarrow> length rows < length rows'"
proof (induction n arbitrary: p rows rows' w w')
  case (Suc n)
  have fold: "io_fold (\<lambda>name. visit n E (join p name)) names acc u = (Inr acc', u') \<Longrightarrow> length acc \<le> length acc'"
    for names acc u acc' u'
    by (induction names arbitrary: acc u) (auto elim!: io_bindE dest!: Suc.IH intro: order_trans less_imp_le)
  show ?case
    using Suc.prems
    by (auto elim!: io_bindE dest!: fold split: if_splits sum.splits simp: Let_def)
qed simp

lemma fold_cong:
  assumes "\<And>x acc w. N \<le> length acc \<Longrightarrow> f x acc w = g x acc w"
    and "\<And>x acc w acc' w'. g x acc w = (Inr acc', w') \<Longrightarrow> length acc \<le> length acc'"
  shows "N \<le> length acc \<Longrightarrow> io_fold f xs acc w = io_fold g xs acc w"
proof (induction xs arbitrary: acc w)
  case (Cons x xs)
  then show ?case
    using assms(1) [OF Cons.prems, of x w] assms(2) [of x acc w]
    by (auto simp: io_bind_def split: prod.splits sum.splits intro!: Cons.IH intro: order_trans)
qed simp

lemma visit_bound: "0 < n \<Longrightarrow> MAX_ROWS < n + length rows \<Longrightarrow> visit (Suc n) E p rows w = visit n E p rows w"
proof (induction n arbitrary: p rows w)
  case (Suc n)
  show ?case
  proof (cases "n = 0")
    case True
    then show ?thesis using Suc.prems by simp
  next
    case False
    have "io_fold (\<lambda>name. visit (Suc n) E (join p name)) names acc u = io_fold (\<lambda>name. visit n E (join p name)) names acc u"
      if "length rows + 2 \<le> length acc" for names and acc :: "string list" and u
      using that
    proof (rule fold_cong [rotated 2])
      fix x and acc :: "string list" and w :: world
      assume "length rows + 2 \<le> length acc"
      with False Suc.prems show "visit (Suc n) E (join p x) acc w = visit n E (join p x) acc w"
        by (intro Suc.IH) auto
    qed (auto dest: visit_grows)
    then show ?thesis
      by (subst (1 2) visit.simps(2)) (auto simp: io_bind_def io_try_def sys_def Let_def split: prod.splits sum.splits simp del: visit.simps)
  qed
qed simp

text \<open>C40. The snapshot of a path needs no more nesting than its row limit: any larger bound gives
  the same result, so that the bound of the model is never what ends it.\<close>

theorem path_snapshot_terminates:
  assumes "Suc MAX_ROWS \<le> n"
  shows "visit n E p rows w = visit (Suc MAX_ROWS) E p rows w"
  using assms
proof (induction n rule: dec_induct)
  case (step n)
  then have "visit (Suc n) E p rows w = visit n E p rows w"
    by (intro visit_bound) auto
  with step.IH show ?case by simp
qed simp

lemma path_snapshot_terminates_witness:
  "visit (Suc (Suc MAX_ROWS)) demo_ext ''/p'' [] demo_world = visit (Suc MAX_ROWS) demo_ext ''/p'' [] demo_world"
  by (rule path_snapshot_terminates) simp

section \<open>Execution\<close>

text \<open>An execution either refuses without a write, or runs the operation in the reopened project.\<close>

lemma execute_cases:
  assumes "execute_with_project E i rt expected body w = (Inr out, w')"
  obtains (refused) e where "out = result_of E i (Inl e)" "disk w' = disk w" "env w' = env w"
  | (ran) p w0 w1 r where "open_project E rt w = (Inr p, w0)" "disk w1 = disk w" "env w1 = env w"
      "body p w1 = (r, w')" "out = result_of E i r"
proof -
  obtain rp w0 where p: "open_project E rt w = (rp, w0)" by (cases "open_project E rt w")
  have s0: "disk w0 = disk w \<and> env w0 = env w" using p by (rule readonlyD [rotated]) simp
  show ?thesis
  proof (cases rp)
    case (Inl e)
    then show ?thesis using assms p s0 refused by (auto simp: execute_with_project_def io_bind_def io_try_def)
  next
    case (Inr q)
    obtain c w1 where c: "configuration_fingerprint E q w0 = (c, w1)" by (cases "configuration_fingerprint E q w0")
    have s1: "disk w1 = disk w \<and> env w1 = env w"
      using readonlyD [OF readonly_configuration c] s0 by simp
    show ?thesis
    proof (cases "c = Inr expected")
      case True
      obtain r w2 where "body q w1 = (r, w2)" by (cases "body q w1")
      then show ?thesis
        using assms p c s1 Inr True ran [of q w0 w1 r]
        by (auto simp: execute_with_project_def io_bind_def io_try_def)
    next
      case False
      then show ?thesis
        using assms p c s1 Inr refused
        by (cases c) (auto simp: execute_with_project_def io_bind_def io_try_def io_err_def)
    qed
  qed
qed

lemma result_of_simps [simp]:
  "or_state (result_of E i (Inr x)) = Committed" "or_result (result_of E i (Inr x)) = Some x"
  "or_state (result_of E i (Inl e)) = outcome_state e" "or_result (result_of E i (Inl e)) = None"
  by (simp_all add: result_of_def)

lemma outcome_not_committed [simp]: "outcome_state e \<noteq> Committed" "outcome_state e \<noteq> CommittedWithFollowupError"
  by (cases e; simp add: outcome_state_def)+

lemma provider_quiet_same:
  assumes "disk w1 = disk w" "env w1 = env w"
  shows "provider p w1 d = provider p w d" "quiet w1 = quiet w" "no_faults w1 = no_faults w"
  using assms by (auto simp: provider_def quiet_def no_faults_def env_def split: option.splits)

lemma execute_publication_cases:
  assumes run: "execute_publication E prepared w = (Inr out, w')"
    and "fst (open_project E (pp_project_root prepared) w) = Inr p"
  obtains (early) e where "or_state out = outcome_state e" "disk w' = disk w"
  | (published) w2 r where "disk w2 = disk w" "env w2 = env w"
      "publish_reviewed E p (pp_request prepared) (Some (pp_expected_manifest_revision prepared))
         (Some (pp_inventory_fingerprint prepared)) w2 = (r, w')"
      "out = result_of E (pp_operation_id prepared) r"
  using run [unfolded execute_publication_def]
proof (cases rule: execute_cases)
  case (refused e)
  then show ?thesis by (intro early) auto
next
  case (ran p' w0 w1 r)
  have p: "p' = p" using ran(1) assms(2) by simp
  obtain rs w2 where s: "publication_source_state E p (pp_request prepared) w1 = (rs, w2)"
    by (cases "publication_source_state E p (pp_request prepared) w1")
  have w2: "disk w2 = disk w" "env w2 = env w"
    using readonlyD [OF readonly_source_state s] ran(2,3) by simp_all
  have "(\<exists>e. r = Inl e) \<and> disk w' = disk w \<or>
      publish_reviewed E p (pp_request prepared) (Some (pp_expected_manifest_revision prepared))
        (Some (pp_inventory_fingerprint prepared)) w2 = (r, w')"
    using ran(2,4) s w2 unfolding p by (cases rs) (auto simp: Let_def io_bind_def split: if_splits)
  then show ?thesis using published [OF w2 _ ran(5)] early ran(5) by auto
qed

text \<open>C6. What an executed publication reports is true. \<open>Committed\<close> means the manifest on disk
  now holds the reviewed one with exactly the reviewed record added, one revision further;
  any other state means that the manifest holds the bytes it held before. In particular a review
  that is out of date (configuration, draft, source files, manifest revision or validated inventory)
  never changes it.\<close>

theorem executed_publication_is_honest:
  assumes "execute_publication E prepared w = (Inr out, w')"
    and "fst (open_project E (pp_project_root prepared) w) = Inr p" "provider p w d"
    and "quiet w" "no_faults w"
  shows "if or_state out = Committed
    then \<exists>m c products now.
      starts_from E (disk w) d (namespace_of p) m \<and> sm_revision m = pp_expected_manifest_revision prepared \<and>
      publication_fingerprint E c = pp_inventory_fingerprint prepared \<and>
      history_of products = (history_of (sm_products m))((pr_product_id (pp_request prepared), pr_version (pp_request prepared)) \<mapsto> c) \<and>
      manifest_bytes (disk w') d = Some (json_pretty E (ser_serving_manifest (commit now products m)))
    else manifest_bytes (disk w') d = manifest_bytes (disk w) d"
  using assms(1,2)
proof (cases rule: execute_publication_cases)
  case (early e)
  then show ?thesis by simp
next
  case (published w2 r)
  note pr2 = provider_quiet_same [OF published(1,2)]
  show ?thesis
  proof (cases r)
    case (Inl e)
    have "manifest_bytes (disk w') d = manifest_bytes (disk w2) d"
      using publish_error_scope [OF published(3) [unfolded Inl]] pr2 assms(3,4)
      by (auto simp: provider_def intro: unchanged_manifest(2))
    with Inl published(1,4) show ?thesis by simp
  next
    case (Inr resp)
    from publish_outcome [OF published(3) [unfolded Inr]] pr2 assms(3-5) obtain m c products now where
      o: "starts_from E (disk w) d (namespace_of p) m" "sm_revision m = pp_expected_manifest_revision prepared"
        "publication_fingerprint E c = pp_inventory_fingerprint prepared"
      and key: "pv_product_id c = pr_product_id (pp_request prepared)" "pv_version c = pr_version (pp_request prepared)"
      and ins: "insert_candidate c (sm_products m) = Inr products"
      and bytes: "manifest_bytes (disk w') d = Some (json_pretty E (ser_serving_manifest (commit now products m)))"
      unfolding published(1) is_none_or_simps by metis
    note hist = insert_candidate_history(2) [OF ins, unfolded key]
    have "or_state out = Committed" using Inr published(4) by simp
    with o hist bytes show ?thesis by auto
  qed
qed

text \<open>A world in which the project can be opened, and libraries that read its configuration.\<close>

definition open_ext :: ext where
  "open_ext =
     demo_ext\<lparr>toml_parse := (\<lambda>_. Inr (ser_project_config (config demo_project))),
              sha256 := (\<lambda>s. [char_of (length s mod 256)]), json_print := (\<lambda>_. []),
              json_pretty := (\<lambda>_. ''{}'')\<rparr>"

definition open_world :: world where
  "open_world =
     demo_world\<lparr>disk := (disk demo_world)\<lparr>nodes :=
       [([''p'', ''.feam''], Dir 2), ([''p'', ''.feam'', ''project.toml''], File 4)] @
       nodes (disk demo_world), next_ino := 5\<rparr>\<rparr>"

lemma fst_bindE:
  assumes "fst (io_bind m f w) = Inr y"
  obtains x w1 w2 where "m w = (Inr x, w1)" "f x w1 = (Inr y, w2)"
  using assms by (cases "io_bind m f w") (auto elim!: io_bindE)

lemma executed_publication_is_honest_witness:
  "\<exists>prepared w out w' bytes. prepare_publication open_ext ''/p'' demo_request open_world = (Inr prepared, w) \<and>
     execute_publication open_ext prepared w = (Inr out, w') \<and> or_state out = Committed \<and>
     manifest_bytes (disk w') [''p'', ''s''] = Some bytes"
proof -
  let ?prepare = "prepare_publication open_ext ''/p'' demo_request" and ?d = "[''p'', ''s'']"
  have "case fst (io_bind ?prepare (execute_publication open_ext) open_world) of
      Inr out \<Rightarrow> or_state out = Committed | Inl _ \<Rightarrow> False" by code_simp
  then obtain prepared w out w' where prep: "?prepare open_world = (Inr prepared, w)"
    and run: "execute_publication open_ext prepared w = (Inr out, w')" and committed: "or_state out = Committed"
    by (auto split: sum.splits elim!: fst_bindE)
  have "fst (io_bind ?prepare (\<lambda>prepared. open_project open_ext (pp_project_root prepared)) open_world) = Inr demo_project"
    by code_simp
  then have opened: "fst (open_project open_ext (pp_project_root prepared) w) = Inr demo_project"
    using prep by (simp add: io_bind_def)
  have "readonly ?prepare" by (auto simp: prepare_publication_def intro!: readonly_rules)
  from readonlyD [OF this prep] have same: "disk w = disk open_world" "env w = env open_world" by simp_all
  have pr: "provider demo_project open_world ?d" by code_simp
  have "quiet open_world" "no_faults open_world"
    by (simp_all add: open_world_def quiet_def no_faults_def)
  with pr same have w: "provider demo_project w ?d" "quiet w" "no_faults w"
    using provider_quiet_same [OF same] by simp_all
  from executed_publication_is_honest [OF run opened w] committed
  have "\<exists>bytes. manifest_bytes (disk w') ?d = Some bytes" by auto
  with prep run committed show ?thesis by blast
qed

section \<open>Reconciliation\<close>

text \<open>What a staged file must be for the reconciliation to count it.\<close>

definition holds_asset :: "ext \<Rightarrow> fs \<Rightarrow> loc \<Rightarrow> path \<Rightarrow> resolved_asset \<Rightarrow> bool" where
  "holds_asset E f c output a \<longleftrightarrow>
     (\<exists>l bytes. resolve_path f c True output = Inr l \<and> fs_read l f = Inr bytes \<and>
        of_nat (length bytes) = ra_size a \<and> ra_sha256 a = Some (hex_digest E bytes))"

lemma sha256_fileD:
  "sha256_file E p w = (Inr h, w') \<Longrightarrow>
    \<exists>l bytes. resolve_path (disk w) (cwd w) True p = Inr l \<and> fs_read l (disk w) = Inr bytes \<and> h = hex_digest E bytes"
  by (auto simp: sha256_file_def sys_def sys_read_def query_def syscall_def Let_def elim!: io_bindE
      split: option.splits)

lemma output_checked:
  assumes "sys_metadata output w = (Inr m, w1)" "sha256_file E output w1 = (Inr digest, w2)"
    and "of_nat (m_len m) = ra_size a" "ra_sha256 a = Some digest"
  shows "holds_asset E (disk w) (cwd w) output a"
proof -
  have s1: "disk w1 = disk w \<and> env w1 = env w" using assms(1) by (rule readonlyD [rotated]) simp
  obtain l n where l: "resolve_path (disk w) (cwd w) True output = Inr l" "lookup (disk w) l = Some n"
    "m_len m = length (contents (inodes (disk w) (node_ino n)))"
    using sys_metadataD [OF assms(1)] by blast
  obtain l' bytes where l': "resolve_path (disk w) (cwd w) True output = Inr l'" "fs_read l' (disk w) = Inr bytes"
    "digest = hex_digest E bytes"
    using sha256_fileD [OF assms(2)] s1 by (auto simp: env_def)
  have "m_len m = length bytes"
    using l l'(1,2) by (auto simp: fs_read_def split: node.splits)
  then show ?thesis using l' assms(3,4) by (auto simp: holds_asset_def)
qed

lemma outputs_match_ok:
  assumes "outputs_match E dst single as w = (Inr True, w')"
  shows "\<forall>a \<in> set as. holds_asset E (disk w) (cwd w) (if single then dst else join dst (ra_id a)) a"
  using assms
proof (induction as arbitrary: w)
  case (Cons a as)
  let ?out = "if single then dst else join dst (ra_id a)"
  from Cons.prems obtain lm m digest w1 w2 w3 where
    c: "sys (symlink_metadata ?out) w = (Inr lm, w1)" "sys_metadata ?out w1 = (Inr m, w2)"
      "of_nat (m_len m) = ra_size a" "ra_sha256 a = Some digest" "sha256_file E ?out w2 = (Inr digest, w3)"
    and rest: "outputs_match E dst single as w3 = (Inr True, w')"
    by (auto simp: Let_def sys_def [of "sys_metadata _"] elim!: io_bindE split: if_splits option.splits)
  have s1: "disk w1 = disk w \<and> env w1 = env w" using c(1) by (rule readonlyD [rotated]) auto
  have s2: "disk w2 = disk w1 \<and> env w2 = env w1" using c(2) by (rule readonlyD [rotated]) simp
  have s3: "disk w3 = disk w2 \<and> env w3 = env w2" using c(5) by (rule readonlyD [rotated]) simp
  have "cwd w1 = cwd w" "cwd w3 = cwd w" using s1 s2 s3 by (auto simp: env_def)
  then show ?case
    using output_checked [OF c(2,5,3,4)] Cons.IH [OF rest] s1 s2 s3 by auto
qed simp


definition staged_asset :: resolved_asset where
  "staged_asset =
     \<lparr>ra_id = ''a'', ra_project_access_path = ''/p/s/a'', ra_media_type = ''x'', ra_role = ''x'',
      ra_size = 4, ra_sha256 = Some (hex_digest open_ext ''data'')\<rparr>"

definition staged_receipt :: stage_receipt where
  "staged_receipt =
     \<lparr>sr_protocol = PEER_PROTOCOL_VERSION, sr_reference = ''product://n/d'', sr_version = ''1'',
      sr_manifest_revision = 3, sr_assets = [staged_asset], sr_output_path = ''/p/o'',
      sr_retrieved_at = ''now''\<rparr>"

definition staged_ext :: ext where
  "staged_ext = open_ext\<lparr>json_parse := (\<lambda>_. Inr (ser_stage_receipt staged_receipt))\<rparr>"

definition staged_world :: world where
  "staged_world =
     demo_world\<lparr>disk :=
       \<lparr>nodes = [([''p''], Dir 1), ([''p'', ''o''], File 3), ([''p'', ''o.feam-receipt.json''], File 2)],
        inodes = (\<lambda>i. \<lparr>contents = (if i = 3 then ''data'' else ''R''), mode = 420, stamp = 0\<rparr>),
        next_ino = 4\<rparr>\<rparr>"


end
