(* ===== verification/Journal.thy ===== *)
theory Journal
  imports Operations
begin

text \<open>
  \<open>operation_journal.rs\<close>: the private journal. An intent is a file \<open><id>.pending\<close> that is written
  and synced before a mutation starts; its outcome is a file \<open><id>.json\<close>, put in place by a rename
  before the intent is removed.
\<close>

section \<open>Data\<close>

datatype journal_error = Insecure path | Journal_Io io_kind | Journal_Json de_error

type_synonym 'a journal = "(world, journal_error, 'a) io"

record journal_intent =
  ji_operation_id :: string
  ji_operation :: string
  ji_prepared_fingerprint :: string
  ji_recorded_at :: string
  ji_recovery :: "recovery_identity option"

record journal_outcome =
  jo_intent :: journal_intent
  jo_state :: operation_state
  jo_error_kind :: "string option"
  jo_message :: "string option"
  jo_result :: "json option"
  jo_completed_at :: string

definition jsys :: "'a sys \<Rightarrow> 'a journal" where
  "jsys m = io_map_err Journal_Io m"

section \<open>JSON\<close>

fun ser_operation_state :: "operation_state \<Rightarrow> json" where
  "ser_operation_state Committed = JStr ''committed''"
| "ser_operation_state FailedBeforeCommit = JStr ''failed_before_commit''"
| "ser_operation_state CommittedWithFollowupError = JStr ''committed_with_followup_error''"
| "ser_operation_state OutcomeUnknown = JStr ''outcome_unknown''"

text \<open>An enum with the tag \<open>kind\<close> inside the object.\<close>

fun ser_recovery :: "recovery_identity \<Rightarrow> json" where
  "ser_recovery (Recover_Publication project_root ref version revision inventory) =
     JObj [(''kind'', JStr ''publication''), (''project_root'', JStr project_root),
           (''reference'', JStr ref), (''version'', JStr version), (''revision'', ser_word revision),
           (''inventory_fingerprint'', JStr inventory)]"
| "ser_recovery (Recover_Stage project_root ref version revision destination state assets) =
     JObj [(''kind'', JStr ''stage''), (''project_root'', JStr project_root), (''reference'', JStr ref),
           (''version'', JStr version), (''revision'', ser_word revision),
           (''destination'', JStr destination), (''receipt_state'', JStr state),
           (''assets'', ser_list ser_resolved_asset assets)]"
| "ser_recovery (Recover_Withdrawal project_root ref version revision reason) =
     JObj [(''kind'', JStr ''withdrawal''), (''project_root'', JStr project_root),
           (''reference'', JStr ref), (''version'', JStr version), (''revision'', ser_word revision),
           (''reason'', JStr reason)]"

definition de_recovery_common ::
  "(string \<times> json) list \<Rightarrow> (path \<Rightarrow> string \<Rightarrow> string \<Rightarrow> 64 word \<Rightarrow> recovery_identity de) \<Rightarrow> recovery_identity de" where
  "de_recovery_common kvs f =
     and_then (field ''project_root'' de_string kvs) (\<lambda>project_root.
     and_then (field ''reference'' de_string kvs) (\<lambda>ref.
     and_then (field ''version'' de_string kvs) (\<lambda>version.
     and_then (field ''revision'' de_word kvs) (\<lambda>revision.
     f project_root ref version revision))))"

definition de_recovery :: "json \<Rightarrow> recovery_identity de" where
  "de_recovery j =
     and_then (object_fields False
       [''kind'', ''project_root'', ''reference'', ''version'', ''revision'', ''inventory_fingerprint'',
        ''destination'', ''receipt_state'', ''assets'', ''reason''] j) (\<lambda>kvs.
     and_then (field ''kind'' de_string kvs) (\<lambda>kind.
     if kind = ''publication'' then
       de_recovery_common kvs (\<lambda>p r v n.
         and_then (field ''inventory_fingerprint'' de_string kvs) (\<lambda>i. Inr (Recover_Publication p r v n i)))
     else if kind = ''stage'' then
       de_recovery_common kvs (\<lambda>p r v n.
         and_then (field ''destination'' de_string kvs) (\<lambda>d.
         and_then (field ''receipt_state'' de_string kvs) (\<lambda>s.
         and_then (field ''assets'' (de_list de_resolved_asset) kvs) (\<lambda>a. Inr (Recover_Stage p r v n d s a)))))
     else if kind = ''withdrawal'' then
       de_recovery_common kvs (\<lambda>p r v n.
         and_then (field ''reason'' de_string kvs) (\<lambda>x. Inr (Recover_Withdrawal p r v n x)))
     else Inl (InvalidValue ''kind'')))"

lemma reads_recovery [reads_rules, simp]: "reads de_recovery ser_recovery x"
  by (cases x) (simp_all add: reads_def [of de_recovery] de_recovery_def de_recovery_common_def
      object_fields_ok list_all_iff)

definition ser_journal_intent :: "journal_intent \<Rightarrow> json" where
  "ser_journal_intent x =
     JObj ([(''operation_id'', JStr (ji_operation_id x)),
            (''operation'', JStr (ji_operation x)),
            (''prepared_fingerprint'', JStr (ji_prepared_fingerprint x)),
            (''recorded_at'', JStr (ji_recorded_at x))] @
           skip_none ''recovery'' ser_recovery (ji_recovery x))"

definition de_journal_intent :: "json \<Rightarrow> journal_intent de" where
  "de_journal_intent j =
     and_then (object_fields False
       [''operation_id'', ''operation'', ''prepared_fingerprint'', ''recorded_at'', ''recovery''] j) (\<lambda>kvs.
     and_then (field ''operation_id'' de_string kvs) (\<lambda>x0.
     and_then (field ''operation'' de_string kvs) (\<lambda>x1.
     and_then (field ''prepared_fingerprint'' de_string kvs) (\<lambda>x2.
     and_then (field ''recorded_at'' de_string kvs) (\<lambda>x3.
     and_then (field_option ''recovery'' de_recovery kvs) (\<lambda>x4.
     Inr \<lparr>ji_operation_id = x0, ji_operation = x1, ji_prepared_fingerprint = x2, ji_recorded_at =
          x3, ji_recovery = x4\<rparr>))))))"

lemma reads_journal_intent [reads_rules, simp]: "reads de_journal_intent ser_journal_intent x"
  by (cases x) (simp add: reads_def [of de_journal_intent] de_journal_intent_def ser_journal_intent_def
      object_fields_ok list_all_iff is_none_or_iff)

text \<open>The intent's fields are flattened into the outcome's object.\<close>

definition ser_journal_outcome :: "journal_outcome \<Rightarrow> json" where
  "ser_journal_outcome x =
     JObj ((case ser_journal_intent (jo_intent x) of JObj kvs \<Rightarrow> kvs | _ \<Rightarrow> []) @
           [(''state'', ser_operation_state (jo_state x))] @
           skip_none ''error_kind'' JStr (jo_error_kind x) @
           skip_none ''message'' JStr (jo_message x) @
           skip_none ''result'' id (jo_result x) @
           [(''completed_at'', JStr (jo_completed_at x))])"

section \<open>Files\<close>

definition MAX_JOURNAL_BYTES :: nat where
  "MAX_JOURNAL_BYTES = 1024 * 1024"

definition validate_id :: "string \<Rightarrow> journal_error + unit" where
  "validate_id i =
     ensure (i \<noteq> [] \<and> length i \<le> 128 \<and> list_all (\<lambda>b. is_ascii_alphanumeric b \<or> b = CHR ''-'') i)
       (Insecure ''invalid operation id'')"

definition pending_path :: "path \<Rightarrow> string \<Rightarrow> path" where
  "pending_path journal i = join journal (i @ ''.pending'')"

definition final_path :: "path \<Rightarrow> string \<Rightarrow> path" where
  "final_path journal i = join journal (i @ ''.json'')"

text \<open>Modes are decimal here: 384 is \<open>0o600\<close>, 448 is \<open>0o700\<close>, and \<open>mod 64\<close> keeps \<open>0o077\<close>.\<close>

definition write_new_private_file :: "path \<Rightarrow> string \<Rightarrow> unit journal" where
  "write_new_private_file p bytes =
     (if MAX_JOURNAL_BYTES < length bytes then io_err (Insecure p)
      else
      io_bind (jsys (open_new 384 p)) (\<lambda>h.
      io_bind (jsys (set_permissions p 384)) (\<lambda>_.
      io_bind (jsys (write_all h bytes)) (\<lambda>_.
      jsys sync_all))))"

definition ensure_private_permissions :: "path \<Rightarrow> unit journal" where
  "ensure_private_permissions p =
     io_bind (jsys (sys_metadata p)) (\<lambda>m.
     if m_mode m mod 64 \<noteq> 0 then io_err (Insecure p) else io_ret ())"

definition create_private_directory :: "path \<Rightarrow> unit journal" where
  "create_private_directory p =
     io_bind (path_exists p) (\<lambda>exists.
     io_bind (if exists then io_ret () else jsys (create_dir_all_mode 448 p)) (\<lambda>_.
     io_bind (path_is_dir p) (\<lambda>is_dir.
     if \<not> is_dir then io_err (Insecure p)
     else
     io_bind (jsys (symlink_metadata p)) (\<lambda>m.
     if node_is_link (m_node m) then io_err (Insecure p) else ensure_private_permissions p))))"

definition sync_directory :: "path \<Rightarrow> unit journal" where
  "sync_directory p = io_bind (jsys (open_existing p)) (\<lambda>_. jsys sync_all)"

section \<open>Operations\<close>

definition open_journal :: "path \<Rightarrow> path journal" where
  "open_journal journal = io_bind (create_private_directory journal) (\<lambda>_. io_ret journal)"

text \<open>Paths of one directory compare as their names do, and so do their strings.\<close>

definition completed_paths :: "path \<Rightarrow> path list journal" where
  "completed_paths journal =
     io_bind (jsys (read_dir journal)) (\<lambda>names.
     io_bind (io_traverse (\<lambda>name.
        let p = join journal name in
        if extension p = Some ''json'' then
          io_bind (path_exists (with_extension p ''pending'')) (\<lambda>exists.
          io_ret (if exists then [] else [p]))
        else io_ret []) names) (\<lambda>pss. io_ret (sort (concat pss))))"

definition prune_completed :: "path \<Rightarrow> nat \<Rightarrow> unit journal" where
  "prune_completed journal keep =
     io_bind (completed_paths journal) (\<lambda>completed.
     io_for (\<lambda>p. jsys (remove_file p)) (take (length completed - keep) completed))"

definition record_recoverable_intent ::
  "ext \<Rightarrow> path \<Rightarrow> string \<Rightarrow> string \<Rightarrow> string \<Rightarrow> recovery_identity option \<Rightarrow> journal_intent journal" where
  "record_recoverable_intent E journal operation_id operation prepared_fingerprint recovery =
     io_bind (io_lift (validate_id operation_id)) (\<lambda>_.
     io_bind (prune_completed journal 100) (\<lambda>_.
     io_bind now_nanos (\<lambda>now.
     let intent = \<lparr>ji_operation_id = operation_id, ji_operation = operation,
                   ji_prepared_fingerprint = prepared_fingerprint,
                   ji_recorded_at = rfc3339 E now, ji_recovery = recovery\<rparr> in
     io_bind (write_new_private_file (pending_path journal operation_id)
                (json_pretty E (ser_journal_intent intent))) (\<lambda>_.
     io_bind (sync_directory journal) (\<lambda>_.
     io_ret intent)))))"

definition record_intent ::
  "ext \<Rightarrow> path \<Rightarrow> string \<Rightarrow> string \<Rightarrow> string \<Rightarrow> journal_intent journal" where
  "record_intent E journal operation_id operation prepared_fingerprint =
     record_recoverable_intent E journal operation_id operation prepared_fingerprint None"

definition outcome_record ::
  "('a \<Rightarrow> json) \<Rightarrow> journal_intent \<Rightarrow> 'a operation_result \<Rightarrow> string \<Rightarrow> journal_outcome" where
  "outcome_record ser intent outcome now =
     \<lparr>jo_intent = intent, jo_state = or_state outcome, jo_error_kind = or_error_kind outcome,
      jo_message = or_message outcome, jo_result = map_option ser (or_result outcome),
      jo_completed_at = now\<rparr>"

definition record_outcome ::
  "ext \<Rightarrow> ('a \<Rightarrow> json) \<Rightarrow> path \<Rightarrow> journal_intent \<Rightarrow> 'a operation_result \<Rightarrow> journal_outcome journal" where
  "record_outcome E ser journal intent outcome =
     io_bind (io_lift (validate_id (ji_operation_id intent))) (\<lambda>_.
     if ji_operation_id intent \<noteq> or_operation_id outcome then io_err (Insecure journal)
     else
     io_bind now_nanos (\<lambda>now.
     let record = outcome_record ser intent outcome (rfc3339 E now);
         i = ji_operation_id intent;
         temporary = join journal (''.'' @ i @ ''.tmp'') in
     io_bind (write_new_private_file temporary (json_pretty E (ser_journal_outcome record))) (\<lambda>_.
     io_bind (jsys (rename temporary (final_path journal i))) (\<lambda>_.
     io_bind (sync_directory journal) (\<lambda>_.
     io_bind (if jo_state record \<noteq> OutcomeUnknown then jsys (remove_file (pending_path journal i))
              else io_ret ()) (\<lambda>_.
     io_bind (sync_directory journal) (\<lambda>_.
     io_ret record)))))))"

text \<open>The unresolved intents, in the order of their ids; one that cannot be trusted fails the call.\<close>

fun pending_from :: "ext \<Rightarrow> path \<Rightarrow> journal_intent list \<Rightarrow> string list \<Rightarrow> journal_intent list journal" where
  "pending_from E journal intents [] = io_ret intents"
| "pending_from E journal intents (name # names) =
     (let p = join journal name in
      if extension p = Some ''pending'' then
        (if 1000 \<le> length intents then io_err (Insecure journal)
         else
         io_bind (ensure_private_permissions p) (\<lambda>_.
         io_bind (jsys (symlink_metadata p)) (\<lambda>lm.
         if node_is_link (m_node lm) then io_err (Insecure p)
         else
         io_bind (jsys (sys_metadata p)) (\<lambda>m.
         if MAX_JOURNAL_BYTES < m_len m then io_err (Insecure p)
         else
         io_bind (jsys (sys_read p)) (\<lambda>bytes.
         io_bind (io_lift (map_err Journal_Json (and_then (json_parse E bytes) de_journal_intent))) (\<lambda>intent.
         pending_from E journal (intents @ [intent]) names))))))
      else pending_from E journal intents names)"

definition pending :: "ext \<Rightarrow> path \<Rightarrow> journal_intent list journal" where
  "pending E journal =
     io_bind (jsys (read_dir journal)) (\<lambda>names.
     io_bind (pending_from E journal [] names) (\<lambda>intents.
     io_ret (sort_key ji_operation_id intents)))"

end
