(* ===== verification/Journal_Proofs.thy ===== *)
theory Journal_Proofs
  imports Journal Operations_Proofs
begin

text \<open>The journal never loses an intent that is not resolved, whichever call fails.\<close>

section \<open>Names\<close>

lemma valid_id_plain:
  assumes "validate_id i = Inr ()"
  shows "plain_name (i @ ''.pending'')" "plain_name (i @ ''.json'')" "plain_name (''.'' @ i @ ''.tmp'')"
    "i \<noteq> []" "CHR ''.'' \<notin> set i"
proof -
  have "slash \<notin> set i" "CHR ''.'' \<notin> set i"
    using assms by (auto simp: validate_id_def list_all_iff ascii_class_defs Let_def)
  then show "plain_name (i @ ''.pending'')" "plain_name (i @ ''.json'')" "plain_name (''.'' @ i @ ''.tmp'')"
    "i \<noteq> []" "CHR ''.'' \<notin> set i"
    using assms by (auto simp: validate_id_def plain_name_def)
qed

lemma validate_id_cases: "validate_id i = Inr () \<or> (\<exists>e. validate_id i = Inl e)"
  by (cases "validate_id i") auto

section \<open>Private files\<close>

lemma hoare_jsys: "hoare P m Q (\<lambda>k. E (Journal_Io k)) \<Longrightarrow> hoare P (jsys m) Q E"
  unfolding jsys_def by (rule hoare_map_err)

lemma readonly_jsys [readonly_rules, intro!]: "readonly m \<Longrightarrow> readonly (jsys m)"
  by (simp add: jsys_def readonly_map_err)

lemma readonly_sync_directory [readonly_rules, intro!, simp]: "readonly (sync_directory p)"
  unfolding sync_directory_def by auto

lemma set_permissions_triple:
  assumes d: "real_dir f0 d" and t: "plain_name t"
  shows "hoare (on_disk w0 (\<lambda>f. unchanged f0 (below d H) f \<and> fresh_file f0 (d @ [t]) h bytes f))
    (set_permissions (join (render d) t) m)
    (\<lambda>_. on_disk w0 (\<lambda>f. unchanged f0 (below d H) f \<and> fresh_file f0 (d @ [t]) h bytes f \<and> mode (inodes f h) = m))
    (\<lambda>_. on_disk w0 (unchanged f0 (below d H)))"
  unfolding set_permissions_def
proof (rule hoare_syscall, goal_cases)
  case (1 f x f')
  then have d': "real_dir f d" using unchanged_real_dir_of [OF d] by blast
  have h: "lookup f (d @ [t]) = Some (File h)" "next_ino f0 \<le> h" "contents (inodes f h) = bytes"
    using 1(1) by (simp_all add: fresh_file_def)
  have "resolve_path f (cwd w0) True (join (render d) t) = Inr (d @ [t])"
    using resolve_file_real(1) [OF d' t] h(1) by simp
  then have f': "f' = f\<lparr>inodes := (inodes f)(h := (inodes f h)\<lparr>mode := m\<rparr>)\<rparr>"
    using 1(2) h(1) by (simp add: fs_set_mode_def)
  have "lookup f' l = lookup f l" for l by (simp add: f' lookup_def)
  then show ?case using 1(1) h by (auto simp: unchanged_def fresh_file_def f')
next
  case (2 f k f')
  then have d': "real_dir f d" using unchanged_real_dir_of [OF d] by blast
  have "lookup f (d @ [t]) = Some (File h)" using 2(1) by (simp add: fresh_file_def)
  then have "resolve_path f (cwd w0) True (join (render d) t) = Inr (d @ [t])"
    using resolve_file_real(1) [OF d' t] by simp
  then show ?case using 2 by (auto simp: fs_set_mode_def split: option.splits)
qed blast

lemma private_file_triple:
  assumes d: "real_dir f0 d" and t: "plain_name t" "H t"
  shows "hoare (on_disk w0 (unchanged f0 (below d H))) (write_new_private_file (join (render d) t) bytes)
    (\<lambda>_. on_disk w0 (\<lambda>f. unchanged f0 (below d H) f \<and> (\<exists>h. fresh_file f0 (d @ [t]) h bytes f)))
    (\<lambda>_. on_disk w0 (unchanged f0 (below d H)))"
proof -
  have append: "hoare (on_disk w0 (\<lambda>f. unchanged f0 (below d H) f \<and> fresh_file f0 (d @ [t]) h [] f \<and> mode (inodes f h) = 384))
      (io_bind (jsys (write_all h bytes)) (\<lambda>_. jsys sync_all))
      (\<lambda>_. on_disk w0 (\<lambda>f. unchanged f0 (below d H) f \<and> (\<exists>h. fresh_file f0 (d @ [t]) h bytes f)))
      (\<lambda>_. on_disk w0 (unchanged f0 (below d H)))" for h
  proof (rule hoare_bind)
    show "hoare (on_disk w0 (\<lambda>f. unchanged f0 (below d H) f \<and> fresh_file f0 (d @ [t]) h [] f \<and> mode (inodes f h) = 384))
      (jsys (write_all h bytes))
      (\<lambda>_. on_disk w0 (\<lambda>f. unchanged f0 (below d H) f \<and> fresh_file f0 (d @ [t]) h bytes f))
      (\<lambda>_. on_disk w0 (unchanged f0 (below d H)))"
      by (rule hoare_conseq [OF hoare_jsys [OF write_all_triple]]) (auto simp: on_disk_def)
    show "hoare (on_disk w0 (\<lambda>f. unchanged f0 (below d H) f \<and> fresh_file f0 (d @ [t]) h bytes f)) (jsys sync_all)
      (\<lambda>_. on_disk w0 (\<lambda>f. unchanged f0 (below d H) f \<and> (\<exists>h. fresh_file f0 (d @ [t]) h bytes f)))
      (\<lambda>_. on_disk w0 (unchanged f0 (below d H)))"
      by (rule readonly_triple) auto
  qed
  show ?thesis
    unfolding write_new_private_file_def
    by (intro hoare_if hoare_err, simp add: on_disk_def)
       (rule hoare_bind [OF hoare_jsys [OF open_new_triple [where H = H, OF d t]]],
        rule hoare_bind [OF hoare_jsys [OF set_permissions_triple [OF d t(1)]] append])
qed

lemma remove_child_triple:
  assumes d: "real_dir f0 d" and t: "plain_name t" "H t"
  shows "hoare (on_disk w0 (\<lambda>f. unchanged f0 (below d H) f)) (remove_file (join (render d) t))
    (\<lambda>_. on_disk w0 (\<lambda>f. unchanged f0 (below d H) f)) (\<lambda>_. on_disk w0 (\<lambda>f. unchanged f0 (below d H) f))"
  unfolding remove_file_def on_entry_def
proof (rule hoare_syscall, goal_cases)
  case (1 f x f')
  then have "fs_remove_file (d @ [t]) f = (Inr x, f')"
    using resolve_entry_real [OF unchanged_real_dir_of [OF d 1(1)] t(1)] by simp
  from remove_file_unchanged [OF 1(1) _ this] t(2) show ?case by simp
next
  case (2 f k f')
  then have "fs_remove_file (d @ [t]) f = (Inl k, f')"
    using resolve_entry_real [OF unchanged_real_dir_of [OF d 2(1)] t(1)] by simp
  from remove_file_unchanged [OF 2(1) _ this] t(2) show ?case by simp
qed

section \<open>Outcomes\<close>

lemma dots_distinct:
  assumes "CHR ''.'' \<notin> set i" "i \<noteq> []"
  shows "i @ ''.pending'' \<noteq> ''.'' @ i @ ''.tmp''" "i @ ''.pending'' \<noteq> i @ ''.json''"
  using assms by (cases i; auto)+

text \<open>The file under the final name, and the intent that is still there.\<close>

definition keeps_intent :: "fs \<Rightarrow> loc \<Rightarrow> string \<Rightarrow> fs \<Rightarrow> bool" where
  "keeps_intent f0 d i f \<longleftrightarrow> lookup f (d @ [i @ ''.pending'']) = lookup f0 (d @ [i @ ''.pending''])"

definition has_outcome :: "loc \<Rightarrow> string \<Rightarrow> string \<Rightarrow> fs \<Rightarrow> bool" where
  "has_outcome d i bytes f \<longleftrightarrow> fs_read (d @ [i @ ''.json'']) f = Inr bytes"

definition outcome_safe :: "fs \<Rightarrow> loc \<Rightarrow> string \<Rightarrow> bool \<Rightarrow> string \<Rightarrow> fs \<Rightarrow> bool" where
  "outcome_safe f0 d i unknown bytes f \<longleftrightarrow>
     (keeps_intent f0 d i f \<or> has_outcome d i bytes f) \<and> (unknown \<longrightarrow> keeps_intent f0 d i f)"

lemma remove_pending_triple:
  assumes d: "real_dir f0 d" and i: "validate_id i = Inr ()"
  shows "hoare (on_disk w0 (\<lambda>f. unchanged f0 (below d N) f \<and> has_outcome d i bytes f))
    (remove_file (pending_path (render d) i))
    (\<lambda>_. on_disk w0 (has_outcome d i bytes)) (\<lambda>_. on_disk w0 (has_outcome d i bytes))"
  unfolding remove_file_def on_entry_def
proof (rule hoare_syscall, goal_cases)
  case (1 f x f')
  have "fs_remove_file (d @ [i @ ''.pending'']) f = (Inr x, f')"
    using 1(2) resolve_entry_real [OF unchanged_real_dir_of [OF d, of N f] valid_id_plain(1) [OF i]] 1(1)
    by (simp add: pending_path_def)
  then have f': "f' = del_node (d @ [i @ ''.pending'']) f"
    by (auto simp: fs_remove_file_def split: option.splits node.splits)
  have "lookup f' (d @ [i @ ''.json'']) = lookup f (d @ [i @ ''.json''])"
    by (simp add: f' lookup_del_node)
  moreover have "inodes f' = inodes f" by (simp add: f' del_node_def)
  ultimately show ?case using 1(1) by (simp add: has_outcome_def fs_read_def cong: option.case_cong node.case_cong)
next
  case (2 f k f')
  have "fs_remove_file (d @ [i @ ''.pending'']) f = (Inl k, f')"
    using 2(2) resolve_entry_real [OF unchanged_real_dir_of [OF d, of N f] valid_id_plain(1) [OF i]] 2(1)
    by (simp add: pending_path_def)
  then have "f' = f" by (auto simp: fs_remove_file_def split: option.splits node.splits)
  then show ?case using 2(1) by simp
qed simp

lemma outcome_triple:
  assumes d: "real_dir f0 d" and i: "validate_id i = Inr ()"
  shows "hoare (on_disk w0 (\<lambda>f. f = f0))
    (io_bind (write_new_private_file (join (render d) (''.'' @ i @ ''.tmp'')) bytes) (\<lambda>_.
     io_bind (jsys (rename (join (render d) (''.'' @ i @ ''.tmp'')) (final_path (render d) i))) (\<lambda>_.
     io_bind (sync_directory (render d)) (\<lambda>_.
     io_bind (if \<not> unknown then jsys (remove_file (pending_path (render d) i)) else io_ret ()) (\<lambda>_.
     io_bind (sync_directory (render d)) (\<lambda>_. io_ret record))))))
    (\<lambda>_. on_disk w0 (outcome_safe f0 d i unknown bytes)) (\<lambda>_. on_disk w0 (outcome_safe f0 d i unknown bytes))"
    (is "hoare _ _ (\<lambda>_. on_disk w0 ?S) _")
proof -
  let ?t = "''.'' @ i @ ''.tmp''" and ?p = "i @ ''.pending''" and ?j = "i @ ''.json''"
  let ?A = "unchanged f0 (below d (\<lambda>m. m = ?t))"
  let ?B = "\<lambda>f. unchanged f0 (below d (\<lambda>m. m = ?t \<or> m = ?j)) f \<and> has_outcome d i bytes f"
  note names = valid_id_plain [OF i] and apart = dots_distinct [OF valid_id_plain(5,4) [OF i]]
  have A: "?A f \<Longrightarrow> ?S f" for f
    using apart(1) by (simp add: outcome_safe_def keeps_intent_def unchanged_lookup)
  have B: "?S f" if "?B f" for f
  proof -
    have "lookup f (d @ [i @ ''.pending'']) = lookup f0 (d @ [i @ ''.pending''])"
      using that apart by (intro unchanged_lookup [OF conjunct1 [OF that]]) simp
    then show ?thesis by (simp add: outcome_safe_def keeps_intent_def)
  qed
  have wr: "hoare (on_disk w0 (\<lambda>f. f = f0)) (write_new_private_file (join (render d) ?t) bytes)
      (\<lambda>_. on_disk w0 (\<lambda>f. ?A f \<and> (\<exists>h. fresh_file f0 (d @ [?t]) h bytes f))) (\<lambda>_. on_disk w0 ?S)"
    by (rule hoare_conseq [OF private_file_triple [where H = "\<lambda>m. m = ?t", OF d names(3) refl]])
       (auto simp: on_disk_def A)
  have move: "hoare (on_disk w0 (\<lambda>f. ?A f \<and> (\<exists>h. fresh_file f0 (d @ [?t]) h bytes f)))
      (jsys (rename (join (render d) ?t) (final_path (render d) i))) (\<lambda>_. on_disk w0 ?B) (\<lambda>_. on_disk w0 ?S)"
  proof (rule hoare_jsys, rule hoareI)
    fix w x w'
    assume w: "on_disk w0 (\<lambda>f. ?A f \<and> (\<exists>h. fresh_file f0 (d @ [?t]) h bytes f)) w"
      "rename (join (render d) ?t) (final_path (render d) i) w = (Inr x, w')"
    then obtain h where "on_disk w0 (\<lambda>f. ?A f \<and> fresh_file f0 (d @ [?t]) h bytes f) w" by (auto simp: on_disk_def)
    from hoare_okD [OF rename_triple [where H = "\<lambda>m. m = ?t", OF d names(2,3) refl] this w(2) [unfolded final_path_def]]
    show "on_disk w0 ?B w'" by (simp add: has_outcome_def)
  next
    fix w e w'
    assume w: "on_disk w0 (\<lambda>f. ?A f \<and> (\<exists>h. fresh_file f0 (d @ [?t]) h bytes f)) w"
      "rename (join (render d) ?t) (final_path (render d) i) w = (Inl e, w')"
    then obtain h where "on_disk w0 (\<lambda>f. ?A f \<and> fresh_file f0 (d @ [?t]) h bytes f) w" by (auto simp: on_disk_def)
    from hoare_errD [OF rename_triple [where H = "\<lambda>m. m = ?t", OF d names(2,3) refl] this w(2) [unfolded final_path_def]]
    show "on_disk w0 ?S w'" using A by (auto simp: on_disk_def)
  qed
  have remove: "hoare (on_disk w0 ?B) (if \<not> unknown then jsys (remove_file (pending_path (render d) i)) else io_ret ())
      (\<lambda>_. on_disk w0 ?S) (\<lambda>_. on_disk w0 ?S)"
  proof (cases unknown)
    case True
    then show ?thesis using B by (auto simp: hoare_def on_disk_def io_ret_def)
  next
    case False
    then show ?thesis
      by (simp, intro hoare_jsys hoare_conseq [OF remove_pending_triple [OF d i]])
         (auto simp: on_disk_def outcome_safe_def)
  qed
  have sync: "hoare (on_disk w0 Q) (sync_directory (render d)) (\<lambda>_. on_disk w0 Q) (\<lambda>_. on_disk w0 ?S)"
    if "\<And>f. Q f \<Longrightarrow> ?S f" for Q
    by (rule readonly_triple) (auto intro: that)
  show ?thesis
    by (rule hoare_bind [OF wr], rule hoare_bind [OF move], rule hoare_bind [OF sync [OF B]], assumption,
        rule hoare_bind [OF remove], rule hoare_bind [OF sync [of ?S]], assumption, rule hoare_ret)
qed

text \<open>C9. Recording an outcome never loses an operation. Whatever call fails, and however a write
  is torn, afterwards the intent is still pending or the complete outcome is there under its final
  name; and when the outcome is not known the intent is still pending in any case, so that it will
  be reconciled.\<close>

theorem outcome_never_loses_intent:
  assumes "record_outcome E ser (render d) intent outcome w = (r, w')" "real_dir (disk w) d"
  shows "(keeps_intent (disk w) d (ji_operation_id intent) (disk w') \<or>
      (\<exists>now. has_outcome d (ji_operation_id intent)
         (json_pretty E (ser_journal_outcome (outcome_record ser intent outcome now))) (disk w'))) \<and>
    (or_state outcome = OutcomeUnknown \<longrightarrow> keeps_intent (disk w) d (ji_operation_id intent) (disk w'))"
proof (cases "validate_id (ji_operation_id intent) = Inr () \<and> ji_operation_id intent = or_operation_id outcome")
  case False
  then have "w' = w"
    using assms(1) validate_id_cases [of "ji_operation_id intent"]
    by (auto simp: record_outcome_def io_bind_def io_err_def io_ret_def split: if_splits)
  then show ?thesis by (simp add: keeps_intent_def)
next
  case True
  let ?i = "ji_operation_id intent"
  have i: "validate_id ?i = Inr ()" using True by (rule conjunct1)
  have eq: "or_operation_id outcome = ?i" using True by simp
  obtain now w1 where now: "(now_nanos :: nat journal) w = (Inr now, w1)" and w1: "on_disk w (\<lambda>f. f = disk w) w1"
    by (auto simp: now_nanos_def on_disk_def env_def)
  let ?new = "outcome_record ser intent outcome (rfc3339 E now)"
  let ?S = "outcome_safe (disk w) d ?i (or_state outcome = OutcomeUnknown) (json_pretty E (ser_journal_outcome ?new))"
  note t = outcome_triple [OF assms(2) i, of w "json_pretty E (ser_journal_outcome ?new)"
      "or_state outcome = OutcomeUnknown" ?new]
  from assms(1) have body: "io_bind (write_new_private_file (join (render d) (''.'' @ ?i @ ''.tmp''))
       (json_pretty E (ser_journal_outcome ?new))) (\<lambda>_.
     io_bind (jsys (rename (join (render d) (''.'' @ ?i @ ''.tmp'')) (final_path (render d) ?i))) (\<lambda>_.
     io_bind (sync_directory (render d)) (\<lambda>_.
     io_bind (if or_state outcome \<noteq> OutcomeUnknown then jsys (remove_file (pending_path (render d) ?i)) else io_ret ()) (\<lambda>_.
     io_bind (sync_directory (render d)) (\<lambda>_. io_ret ?new))))) w1 = (r, w')"
    by (simp add: record_outcome_def i eq io_bind_def [of now_nanos] now Let_def outcome_record_def)
  have "?S (disk w')"
  proof (cases r)
    case (Inl e)
    with hoare_errD [OF t w1] body show ?thesis by (simp add: on_disk_def)
  next
    case (Inr x)
    with hoare_okD [OF t w1] body show ?thesis by (simp add: on_disk_def)
  qed
  then show ?thesis by (auto simp: outcome_safe_def)
qed

definition journal_world :: world where
  "journal_world =
     demo_world\<lparr>disk :=
       \<lparr>nodes = [([''j''], Dir 1), ([''j'', ''op-1.pending''], File 2)],
        inodes = (\<lambda>i. \<lparr>contents = ''{}'', mode = 384, stamp = 0\<rparr>), next_ino = 3\<rparr>\<rparr>"

definition journal_demo :: journal_intent where
  "journal_demo =
     \<lparr>ji_operation_id = ''op-1'', ji_operation = ''stage'', ji_prepared_fingerprint = ''f'',
      ji_recorded_at = ''then'', ji_recovery = None\<rparr>"

definition unknown_outcome :: "unit operation_result" where
  "unknown_outcome =
     \<lparr>or_operation_id = ''op-1'', or_state = OutcomeUnknown, or_result = None, or_error_kind = Some ''io'',
      or_message = None\<rparr>"

lemma outcome_never_loses_intent_witness:
  "\<exists>r w'. record_outcome demo_ext (\<lambda>_. JNull) ''/j'' journal_demo unknown_outcome journal_world = (r, w') \<and>
     lookup (disk w') [''j'', ''op-1.pending''] = Some (File 2)"
proof -
  let ?run = "record_outcome demo_ext (\<lambda>_. JNull) (render [''j'']) journal_demo unknown_outcome journal_world"
  have "real_dir (disk journal_world) [''j'']" by code_simp
  from outcome_never_loses_intent [OF prod.collapse [symmetric, of ?run] this]
  have "lookup (disk (snd ?run)) [''j'', ''op-1.pending''] = lookup (disk journal_world) [''j'', ''op-1.pending'']"
    by (simp add: unknown_outcome_def keeps_intent_def journal_demo_def)
  also have "\<dots> = Some (File 2)" by code_simp
  finally show ?thesis
    by (intro exI [of _ "fst ?run"] exI [of _ "snd ?run"]) (simp add: render_def)
qed

section \<open>Intents\<close>

lemma resolve_real_dir: "real_dir f d \<Longrightarrow> resolve_path f c follow (render d) = Inr d"
  using walk_real [of f "[]" d max_links follow "[]"] split_render [of d]
  by (cases "d = []") (auto simp: resolve_path_def real_dir_def render_def)

lemma completed_paths_triple:
  assumes d: "real_dir f0 d" and names: "\<forall>n \<in> set (child_names f0 d). plain_name n"
  shows "hoare (on_disk w0 (\<lambda>f. f = f0)) (completed_paths (render d))
    (\<lambda>ps. on_disk w0 (\<lambda>f. f = f0 \<and> (\<forall>p \<in> set ps. \<exists>n. p = join (render d) n \<and> plain_name n \<and>
        snd (rsplit_dot n) = Some ''json'')))
    (\<lambda>_. on_disk w0 (\<lambda>f. f = f0))"
proof (rule hoareI)
  fix w ps w'
  assume w: "on_disk w0 (\<lambda>f. f = f0) w" and run: "completed_paths (render d) w = (Inr ps, w')"
  have ro: "readonly (completed_paths (render d))"
    unfolding completed_paths_def Let_def by (auto intro!: readonly_rules)
  from run obtain ns w1 pss where ns: "(jsys (read_dir (render d)) :: string list journal) w = (Inr ns, w1)"
    and tr: "io_traverse (\<lambda>name. let p = join (render d) name in
        if extension p = Some ''json'' then
          io_bind (path_exists (with_extension p ''pending'')) (\<lambda>exists. io_ret (if exists then [] else [p]))
        else (io_ret [] :: path list journal)) ns w1 = (Inr pss, w')"
    and ps: "ps = sort (concat pss)"
    unfolding completed_paths_def by (auto elim!: io_bindE)
  have "resolve_path f0 (cwd w0) True (render d) = Inr d"
    using d by (rule resolve_real_dir)
  then have children: "set ns \<subseteq> set (child_names f0 d)"
    using ns w by (auto simp: jsys_def read_dir_def query_def syscall_def Let_def on_disk_def env_def
        split: option.splits if_splits)
  have "\<forall>p \<in> set (concat pss). \<exists>n \<in> set ns. p = join (render d) n \<and> extension p = Some ''json''"
    using tr by (induction ns arbitrary: w1 pss) (fastforce elim!: io_bindE simp: Let_def split: if_splits)+
  then have "\<forall>p \<in> set ps. \<exists>n. p = join (render d) n \<and> plain_name n \<and> snd (rsplit_dot n) = Some ''json''"
    using children names unfolding ps by (fastforce simp: extension_def)
  then show "on_disk w0 (\<lambda>f. f = f0 \<and> (\<forall>p \<in> set ps. \<exists>n. p = join (render d) n \<and> plain_name n \<and>
        snd (rsplit_dot n) = Some ''json'')) w'"
    using readonlyD [OF ro run] w by (simp add: on_disk_def)
next
  fix w e w'
  assume w: "on_disk w0 (\<lambda>f. f = f0) w" and run: "completed_paths (render d) w = (Inl e, w')"
  have "readonly (completed_paths (render d))"
    unfolding completed_paths_def Let_def by (auto intro!: readonly_rules)
  from readonlyD [OF this run] w show "on_disk w0 (\<lambda>f. f = f0) w'" by (simp add: on_disk_def)
qed

lemma hoare_for:
  assumes "\<And>x. x \<in> set xs \<Longrightarrow> hoare P (f x) (\<lambda>_. P) (\<lambda>_. P)"
  shows "hoare P (io_for f xs) (\<lambda>_. P) (\<lambda>_. P)"
  using assms
proof (induction xs)
  case (Cons x xs)
  then show ?case by (simp, intro hoare_bind [where R = "\<lambda>_. P"]) auto
qed (auto intro!: hoare_ret)

definition prunable :: "string \<Rightarrow> bool" where
  "prunable n \<longleftrightarrow> snd (rsplit_dot n) = Some ''json''"

lemma prune_triple:
  assumes d: "real_dir f0 d" and names: "\<forall>n \<in> set (child_names f0 d). plain_name n"
  shows "hoare (on_disk w0 (\<lambda>f. f = f0)) (prune_completed (render d) keep)
    (\<lambda>_. on_disk w0 (unchanged f0 (below d prunable))) (\<lambda>_. on_disk w0 (unchanged f0 (below d prunable)))"
proof -
  have remove: "hoare (on_disk w0 (\<lambda>f. f = f0 \<and> (\<forall>p \<in> set ps. \<exists>n. p = join (render d) n \<and> plain_name n \<and>
        snd (rsplit_dot n) = Some ''json''))) (io_for (\<lambda>p. jsys (remove_file p)) (take k ps))
      (\<lambda>_. on_disk w0 (unchanged f0 (below d prunable))) (\<lambda>_. on_disk w0 (unchanged f0 (below d prunable)))" for ps k
  proof (cases "\<forall>p \<in> set ps. \<exists>n. p = join (render d) n \<and> plain_name n \<and> snd (rsplit_dot n) = Some ''json''")
    case True
    have "hoare (on_disk w0 (unchanged f0 (below d prunable))) (io_for (\<lambda>p. jsys (remove_file p)) (take k ps))
        (\<lambda>_. on_disk w0 (unchanged f0 (below d prunable))) (\<lambda>_. on_disk w0 (unchanged f0 (below d prunable)))"
    proof (rule hoare_for)
      fix p
      assume "p \<in> set (take k ps)"
      then obtain n where n: "p = join (render d) n" "plain_name n" "prunable n"
        using True by (auto simp: prunable_def dest!: in_set_takeD)
      show "hoare (on_disk w0 (unchanged f0 (below d prunable))) (jsys (remove_file p))
          (\<lambda>_. on_disk w0 (unchanged f0 (below d prunable))) (\<lambda>_. on_disk w0 (unchanged f0 (below d prunable)))"
        unfolding n(1) by (intro hoare_jsys) (rule remove_child_triple [where H = prunable, OF d n(2,3)])
    qed
    then show ?thesis by (rule hoare_conseq) (auto simp: on_disk_def)
  qed (auto simp: hoare_def on_disk_def)
  have start: "hoare (on_disk w0 (\<lambda>f. f = f0)) (completed_paths (render d))
      (\<lambda>ps. on_disk w0 (\<lambda>f. f = f0 \<and> (\<forall>p \<in> set ps. \<exists>n. p = join (render d) n \<and> plain_name n \<and>
        snd (rsplit_dot n) = Some ''json''))) (\<lambda>_. on_disk w0 (unchanged f0 (below d prunable)))"
    by (rule hoare_conseq [OF completed_paths_triple [OF d names]]) (auto simp: on_disk_def)
  show ?thesis
    unfolding prune_completed_def by (rule hoare_bind [OF start remove])
qed

lemma rsplit_dot_pending: "snd (rsplit_dot (i @ ''.pending'')) \<noteq> Some ''json''"
proof -
  have "split_once (CHR ''.'') (rev (i @ ''.pending'')) = Some (''gnidnep'', rev i)"
    by (simp add: split_once_eq_Some)
  then show ?thesis by (simp add: rsplit_dot_def)
qed

lemma intent_triple:
  assumes d: "real_dir f0 d" and names: "\<forall>n \<in> set (child_names f0 d). plain_name n"
    and i: "validate_id i = Inr ()"
  defines "T \<equiv> below d (\<lambda>n. prunable n \<or> n = i @ ''.pending'')"
  shows "hoare (on_disk w0 (\<lambda>f. f = f0)) (record_recoverable_intent E (render d) i operation fp recovery)
    (\<lambda>intent. on_disk w0 (\<lambda>f. unchanged f0 T f \<and>
        fs_read (d @ [i @ ''.pending'']) f = Inr (json_pretty E (ser_journal_intent intent)) \<and>
        ji_operation_id intent = i))
    (\<lambda>_. on_disk w0 (unchanged f0 T))"
proof -
  have pr: "hoare (on_disk w0 (\<lambda>f. f = f0)) (prune_completed (render d) 100)
      (\<lambda>_. on_disk w0 (unchanged f0 T)) (\<lambda>_. on_disk w0 (unchanged f0 T))"
    by (rule hoare_conseq [OF prune_triple [OF d names]])
       (auto simp: on_disk_def T_def intro: unchanged_mono below_mono)
  have now: "hoare (on_disk w0 (unchanged f0 T)) (now_nanos :: nat journal)
      (\<lambda>_. on_disk w0 (unchanged f0 T)) (\<lambda>_. on_disk w0 (unchanged f0 T))"
    by (rule hoare_now) simp
  have new_file: "hoare (on_disk w0 (unchanged f0 T)) (write_new_private_file (pending_path (render d) i) bytes)
      (\<lambda>_. on_disk w0 (\<lambda>f. unchanged f0 T f \<and> fs_read (d @ [i @ ''.pending'']) f = Inr bytes))
      (\<lambda>_. on_disk w0 (unchanged f0 T))" for bytes
    unfolding T_def pending_path_def
    by (rule hoare_conseq [OF private_file_triple
          [where H = "\<lambda>n. prunable n \<or> n = i @ ''.pending''", OF d valid_id_plain(1) [OF i]]])
       (auto simp: on_disk_def fresh_file_def fs_read_def)
  have sync: "hoare (on_disk w0 (\<lambda>f. unchanged f0 T f \<and> Q f)) (sync_directory (render d))
      (\<lambda>_. on_disk w0 (\<lambda>f. unchanged f0 T f \<and> Q f)) (\<lambda>_. on_disk w0 (unchanged f0 T))" for Q
    by (rule readonly_triple) auto
  show ?thesis
    unfolding record_recoverable_intent_def i io_lift_simps io_ret_bind Let_def
    by (rule hoare_bind [OF pr], rule hoare_bind [OF now], rule hoare_bind [OF new_file],
        rule hoare_bind [OF sync], rule hoare_ret) (simp add: on_disk_def)
qed



end
