(* ===== verification/Sql.thy ===== *)
theory Sql
  imports Rust_Text
begin

text \<open>
  The SQL the registry uses, over one \<open>rusqlite::Connection\<close>: tables with an \<open>AUTOINCREMENT\<close> key,
  statements that may fail at any time (\<open>sql_faults\<close>, a busy database, a full disk), and
  transactions. What the other connections see is the \<open>durable\<close> state.
\<close>

section \<open>Connections\<close>

datatype sql_error =
    Query_Returned_No_Rows
  | Unique_Violation string
  | Foreign_Key_Violation string
  | Rowids_Exhausted
  | Conversion_Failure nat string
  | Engine_Error string

record 'r sql_table =
  t_rows :: "'r list"
  t_seq :: int

definition empty_table :: "'r sql_table" where
  "empty_table = \<lparr>t_rows = [], t_seq = 0\<rparr>"

text \<open>\<open>parse_datetime\<close> is chrono's parser of a stored timestamp, with the \<open>Display\<close> of its value.\<close>

record 'd connection =
  tables :: 'd
  savepoint :: "'d option"
  last_rowid :: int
  statements :: nat
  sql_faults :: "nat \<Rightarrow> string option"
  sql_now :: "nat \<Rightarrow> string"
  parse_datetime :: "string \<Rightarrow> string option"

type_synonym ('d, 'a) stmt = "('d connection, sql_error, 'a) io"

definition durable :: "'d connection \<Rightarrow> 'd" where
  "durable c = (case savepoint c of Some d \<Rightarrow> d | None \<Rightarrow> tables c)"

section \<open>Statements\<close>

definition statement :: "('d connection \<Rightarrow> (sql_error + 'a) \<times> 'd connection) \<Rightarrow> ('d, 'a) stmt" where
  "statement op c =
     (case sql_faults c (statements c) of
        Some e \<Rightarrow> (Inl (Engine_Error e), c\<lparr>statements := Suc (statements c)\<rparr>)
      | None \<Rightarrow> op (c\<lparr>statements := Suc (statements c)\<rparr>))"

definition select :: "('d \<Rightarrow> 'r list) \<Rightarrow> ('d, 'r list) stmt" where
  "select q = statement (\<lambda>c. (Inr (q (tables c)), c))"

text \<open>\<open>query_row\<close> takes the first row; \<open>query_map(..).collect()\<close> converts all of them.\<close>

definition converted :: "('d connection \<Rightarrow> 'r \<Rightarrow> sql_error + 'a) \<Rightarrow> 'r \<Rightarrow> ('d, 'a) stmt" where
  "converted from_row r c = (from_row c r, c)"

definition query_row :: "('d connection \<Rightarrow> 'r \<Rightarrow> sql_error + 'a) \<Rightarrow> ('d \<Rightarrow> 'r list) \<Rightarrow> ('d, 'a) stmt" where
  "query_row from_row q =
     io_bind (select q) (\<lambda>rs.
     case rs of [] \<Rightarrow> io_err Query_Returned_No_Rows | r # _ \<Rightarrow> converted from_row r)"

definition query_map :: "('d connection \<Rightarrow> 'r \<Rightarrow> sql_error + 'a) \<Rightarrow> ('d \<Rightarrow> 'r list) \<Rightarrow> ('d, 'a list) stmt" where
  "query_map from_row q = io_bind (select q) (io_traverse (converted from_row))"

text \<open>
  \<open>INSERT\<close> into a table with an \<open>AUTOINCREMENT\<close> key: the key is one more than any key the table
  ever had, \<open>check\<close> are the constraints, and a statement that fails changes nothing.
\<close>

definition MAX_ROWID :: int where
  "MAX_ROWID = 2 ^ 63 - 1"

definition insert_row ::
  "('d \<Rightarrow> 'r sql_table) \<Rightarrow> ('r sql_table \<Rightarrow> 'd \<Rightarrow> 'd) \<Rightarrow> ('d \<Rightarrow> 'r \<Rightarrow> sql_error + unit) \<Rightarrow>
   (int \<Rightarrow> string \<Rightarrow> 'r) \<Rightarrow> ('d, unit) stmt" where
  "insert_row table put check mk =
     statement (\<lambda>c.
       let t = table (tables c); i = t_seq t + 1; r = mk i (sql_now c (statements c)) in
       if MAX_ROWID < i then (Inl Rowids_Exhausted, c)
       else
         case check (tables c) r of
           Inl e \<Rightarrow> (Inl e, c)
         | Inr _ \<Rightarrow>
             (Inr (), c\<lparr>tables := put (t\<lparr>t_rows := t_rows t @ [r], t_seq := i\<rparr>) (tables c),
                       last_rowid := i\<rparr>))"

definition last_insert_rowid :: "('d, int) stmt" where
  "last_insert_rowid c = (Inr (last_rowid c), c)"

section \<open>Transactions\<close>

definition begin_immediate :: "('d, unit) stmt" where
  "begin_immediate =
     statement (\<lambda>c. case savepoint c of
         Some _ \<Rightarrow> (Inl (Engine_Error ''cannot start a transaction within a transaction''), c)
       | None \<Rightarrow> (Inr (), c\<lparr>savepoint := Some (tables c)\<rparr>))"

definition commit_transaction :: "('d, unit) stmt" where
  "commit_transaction =
     statement (\<lambda>c. case savepoint c of
         None \<Rightarrow> (Inl (Engine_Error ''cannot commit - no transaction is active''), c)
       | Some _ \<Rightarrow> (Inr (), c\<lparr>savepoint := None\<rparr>))"

definition rollback_transaction :: "('d, unit) stmt" where
  "rollback_transaction =
     statement (\<lambda>c. case savepoint c of
         None \<Rightarrow> (Inl (Engine_Error ''cannot rollback - no transaction is active''), c)
       | Some d \<Rightarrow> (Inr (), c\<lparr>tables := d, savepoint := None\<rparr>))"

end
