(* ===== verification/Domain.thy ===== *)
theory Domain
  imports Sql Rust_Fs
begin

text \<open>
  \<open>domain.rs\<close>: the vocabulary of the registry, its errors and its validators. The macro
  \<open>domain_enum!\<close> makes \<open>as_str\<close> and \<open>from_str\<close> from one table of variants; so do
  \<open>variant_name\<close> and \<open>variant_from_str\<close> here.
\<close>

section \<open>Errors\<close>

record validation_error =
  ve_field :: string
  ve_message :: string

text \<open>The error of a file-system call is the kind of the \<open>std::io::Error\<close>.\<close>

datatype registry_error =
    Invalid validation_error
  | Not_Found string
  | Permission string
  | Source_Missing string
  | Destination_Exists string
  | Database sql_error
  | Filesystem io_kind
  | Serialization string

definition invalid :: "string \<Rightarrow> string \<Rightarrow> validation_error" where
  "invalid f m = \<lparr>ve_field = f, ve_message = m\<rparr>"

section \<open>Enumerations\<close>

definition normalize_token :: "string \<Rightarrow> string" where
  "normalize_token s = map (\<lambda>c. if c = CHR ''-'' then CHR ''_'' else c) (to_ascii_lowercase (trim s))"

definition variant_name :: "('a \<times> string) list \<Rightarrow> 'a \<Rightarrow> string" where
  "variant_name vs x = the (map_of vs x)"

definition variant_from_str :: "string \<Rightarrow> ('a \<times> string) list \<Rightarrow> string \<Rightarrow> validation_error + 'a" where
  "variant_from_str f vs s =
     (case find (\<lambda>v. snd v = normalize_token s) vs of
        Some v \<Rightarrow> Inr (fst v)
      | None \<Rightarrow> Inl (invalid f (''unsupported value '' @ [CHR 0x27] @ s @ [CHR 0x27])))"

datatype asset_type =
    Asset_File | Asset_Directory | Asset_Dataset | Asset_Table | Model_Artifact | Report_Artifact
  | Manifest_Collection

datatype data_quality = Production | Qualified | Unverified

datatype classification = Public | Internal | Restricted

definition asset_types :: "(asset_type \<times> string) list" where
  "asset_types =
     [(Asset_File, ''file''), (Asset_Directory, ''directory''), (Asset_Dataset, ''dataset''),
      (Asset_Table, ''table''), (Model_Artifact, ''model_artifact''),
      (Report_Artifact, ''report_artifact''), (Manifest_Collection, ''manifest_collection'')]"

definition data_qualities :: "(data_quality \<times> string) list" where
  "data_qualities = [(Production, ''production''), (Qualified, ''qualified''), (Unverified, ''unverified'')]"

definition classifications :: "(classification \<times> string) list" where
  "classifications = [(Public, ''public''), (Internal, ''internal''), (Restricted, ''restricted'')]"

definition asset_type_str :: "asset_type \<Rightarrow> string" where
  "asset_type_str = variant_name asset_types"

definition asset_type_from_str :: "string \<Rightarrow> validation_error + asset_type" where
  "asset_type_from_str = variant_from_str ''asset_type'' asset_types"

definition data_quality_str :: "data_quality \<Rightarrow> string" where
  "data_quality_str = variant_name data_qualities"

definition data_quality_from_str :: "string \<Rightarrow> validation_error + data_quality" where
  "data_quality_from_str = variant_from_str ''data_quality'' data_qualities"

definition classification_str :: "classification \<Rightarrow> string" where
  "classification_str = variant_name classifications"

definition classification_from_str :: "string \<Rightarrow> validation_error + classification" where
  "classification_from_str = variant_from_str ''classification'' classifications"

section \<open>Validators\<close>

type_synonym valid = "validation_error + unit"

definition non_blank_text :: "string \<Rightarrow> string \<Rightarrow> valid" where
  "non_blank_text f s = ensure (\<not> blank s) (invalid f ''must not be blank'')"

definition source_reference :: "string \<Rightarrow> validation_error + string" where
  "source_reference p =
     (if p = [] then Inl (invalid ''source_path'' ''must not be empty'') else Inr p)"

definition validate_positive_id :: "string \<Rightarrow> int \<Rightarrow> valid" where
  "validate_positive_id f i = ensure (0 < i) (invalid f ''must be a positive integer'')"

definition product_name_char :: "char \<Rightarrow> bool" where
  "product_name_char c \<longleftrightarrow> is_ascii_alphanumeric c \<or> c = CHR '' '' \<or> c = CHR ''_'' \<or> c = CHR ''-''"

definition validate_product_name :: "string \<Rightarrow> valid" where
  "validate_product_name s =
     and_then (non_blank_text ''name'' s) (\<lambda>_.
     ensure (list_all product_name_char s)
       (invalid ''name'' ''may contain only ASCII letters, numbers, spaces, underscores, and hyphens''))"

definition version_label_char :: "char \<Rightarrow> bool" where
  "version_label_char c \<longleftrightarrow> is_ascii_alphanumeric c \<or> c = CHR ''.'' \<or> c = CHR ''_'' \<or> c = CHR ''-''"

definition validate_version_label :: "string \<Rightarrow> valid" where
  "validate_version_label s =
     and_then (non_blank_text ''version'' s) (\<lambda>_.
     ensure (list_all version_label_char s)
       (invalid ''version'' ''may contain only ASCII letters, numbers, dots, underscores, and hyphens''))"

definition validate_optional_text :: "string \<Rightarrow> string option \<Rightarrow> valid" where
  "validate_optional_text f x = (case x of None \<Rightarrow> Inr () | Some s \<Rightarrow> non_blank_text f s)"

section \<open>Round trips\<close>

lemma normal_asset_type: "normalize_token (asset_type_str a) = asset_type_str a"
  by (induction a) code_simp+

lemma normal_data_quality: "normalize_token (data_quality_str q) = data_quality_str q"
  by (induction q) code_simp+

lemma normal_classification: "normalize_token (classification_str c) = classification_str c"
  by (induction c) code_simp+

lemmas normal_names = normal_asset_type normal_data_quality normal_classification

text \<open>Over a table without repetitions, reading a name finds the variant that has it.\<close>

lemma find_name:
  "distinct (map snd vs) \<Longrightarrow> find (\<lambda>v. snd v = n) vs = Some (x, m) \<longleftrightarrow> (x, m) \<in> set vs \<and> m = n"
proof (induction vs)
  case (Cons v vs)
  have "m = n \<Longrightarrow> snd v = n \<Longrightarrow> (x, m) \<notin> set vs"
    using Cons.prems image_eqI [of m snd "(x, m)" "set vs"] by auto
  with Cons show ?case by (cases v) auto
qed simp

lemma variant_from_str_iff:
  assumes "distinct (map fst vs)" "distinct (map snd vs)" "x \<in> fst ` set vs"
  shows "variant_from_str f vs s = Inr x \<longleftrightarrow> normalize_token s = variant_name vs x"
proof -
  from assms(1,3) obtain n where n: "(x, n) \<in> set vs" "map_of vs x = Some n" by (auto simp: map_of_eq_Some_iff)
  have "variant_from_str f vs s = Inr x \<longleftrightarrow> (\<exists>m. find (\<lambda>v. snd v = normalize_token s) vs = Some (x, m))"
    by (auto simp: variant_from_str_def split: option.splits)
  also have "\<dots> \<longleftrightarrow> n = normalize_token s"
    using n eq_key_imp_eq_value [OF assms(1) n(1), of "normalize_token s"]
    by (auto simp: find_name [OF assms(2)])
  finally show ?thesis using n(2) by (auto simp: variant_name_def)
qed

lemma from_str_iff:
  "asset_type_from_str s = Inr a \<longleftrightarrow> normalize_token s = asset_type_str a"
  "data_quality_from_str s = Inr q \<longleftrightarrow> normalize_token s = data_quality_str q"
  "classification_from_str s = Inr c \<longleftrightarrow> normalize_token s = classification_str c"
proof -
  show "asset_type_from_str s = Inr a \<longleftrightarrow> normalize_token s = asset_type_str a"
    unfolding asset_type_from_str_def asset_type_str_def
    by (rule variant_from_str_iff; cases a) (simp_all add: asset_types_def)
  show "data_quality_from_str s = Inr q \<longleftrightarrow> normalize_token s = data_quality_str q"
    unfolding data_quality_from_str_def data_quality_str_def
    by (rule variant_from_str_iff; cases q) (simp_all add: data_qualities_def)
  show "classification_from_str s = Inr c \<longleftrightarrow> normalize_token s = classification_str c"
    unfolding classification_from_str_def classification_str_def
    by (rule variant_from_str_iff; cases c) (simp_all add: classifications_def)
qed

interpretation asset_type_text: codec "\<lambda>_. True" asset_type_str asset_type_from_str
  by unfold_locales (simp add: from_str_iff normal_names)

interpretation data_quality_text: codec "\<lambda>_. True" data_quality_str data_quality_from_str
  by unfold_locales (simp add: from_str_iff normal_names)

interpretation classification_text: codec "\<lambda>_. True" classification_str classification_from_str
  by unfold_locales (simp add: from_str_iff normal_names)

text \<open>The three vocabularies of the registry survive the database: the name a value is stored
  under is read back as that value, and the texts that are read as a value are exactly those that
  are its name up to surrounding blanks, the case of letters, and hyphens for underscores.\<close>

theorem vocabularies_round_trip:
  "asset_type_from_str (asset_type_str a) = Inr a \<and> (asset_type_from_str s = Inr a \<longleftrightarrow> normalize_token s = asset_type_str a) \<and>
   data_quality_from_str (data_quality_str q) = Inr q \<and> (data_quality_from_str s = Inr q \<longleftrightarrow> normalize_token s = data_quality_str q) \<and>
   classification_from_str (classification_str c) = Inr c \<and> (classification_from_str s = Inr c \<longleftrightarrow> normalize_token s = classification_str c)"
  by (simp add: from_str_iff asset_type_text.dec_enc data_quality_text.dec_enc classification_text.dec_enc)

end
