(* ===== verification/Repositories.thy ===== *)
theory Repositories
  imports Domain
begin

text \<open>
  \<open>db.rs\<close>, \<open>models/\<close> and \<open>repositories/\<close>: the five tables with their constraints, the rows as
  the code reads them, and one operation per query. \<open>ON DELETE CASCADE\<close> has no model: nothing in
  the program deletes a row.
\<close>

section \<open>Models\<close>

record team =
  team_id :: int
  team_name :: string
  team_created_at :: string

record data_product =
  dp_product_id :: int
  dp_name :: string
  dp_description :: "string option"
  dp_owner_team_id :: int
  dp_producer :: string
  dp_usage_policy :: string
  dp_intended_use :: "string option"
  dp_created_at :: string

record data_product_version =
  dv_version_id :: int
  dv_data_product_id :: int
  dv_version_label :: string
  dv_asset_type :: string
  dv_source_path :: string
  dv_data_quality :: string
  dv_classification :: string
  dv_created_at :: string

record metadata_entry =
  me_metadata_id :: int
  me_data_product_version_id :: int
  me_namespace :: "string option"
  me_key :: string
  me_value :: "string option"
  me_value_type :: "string option"
  me_created_at :: string

record lineage_dependency =
  ld_dependency_id :: int
  ld_downstream_version_id :: int
  ld_upstream_product_uri :: string
  ld_upstream_version :: "string option"

text \<open>What is inserted: a row without the fields the database fills in.\<close>

record new_team =
  nt_name :: string

record new_data_product =
  np_name :: string
  np_description :: "string option"
  np_owner_team_id :: int
  np_producer :: string
  np_usage_policy :: string
  np_intended_use :: "string option"

record new_data_product_version =
  nv_data_product_id :: int
  nv_version_label :: string
  nv_asset_type :: string
  nv_source_path :: string
  nv_data_quality :: string
  nv_classification :: string

record new_metadata =
  nm_data_product_version_id :: int
  nm_namespace :: "string option"
  nm_meta_key :: string
  nm_meta_value :: "string option"
  nm_value_type :: "string option"

record new_lineage_dependency =
  nl_downstream_version_id :: int
  nl_upstream_product_uri :: string
  nl_upstream_version :: "string option"

section \<open>Schema\<close>

record registry_db =
  db_teams :: "team sql_table"
  db_products :: "data_product sql_table"
  db_versions :: "data_product_version sql_table"
  db_metadata :: "metadata_entry sql_table"
  db_lineage :: "lineage_dependency sql_table"

definition init_schema :: registry_db where
  "init_schema =
     \<lparr>db_teams = empty_table, db_products = empty_table, db_versions = empty_table,
      db_metadata = empty_table, db_lineage = empty_table\<rparr>"

definition team_constraints :: "registry_db \<Rightarrow> team \<Rightarrow> sql_error + unit" where
  "team_constraints d r =
     ensure (team_name r \<notin> team_name ` set (t_rows (db_teams d))) (Unique_Violation ''teams.name'')"

definition product_constraints :: "registry_db \<Rightarrow> data_product \<Rightarrow> sql_error + unit" where
  "product_constraints d r =
     ensure (dp_owner_team_id r \<in> team_id ` set (t_rows (db_teams d)))
       (Foreign_Key_Violation ''data_products'')"

definition version_constraints :: "registry_db \<Rightarrow> data_product_version \<Rightarrow> sql_error + unit" where
  "version_constraints d r =
     (let vs = set (t_rows (db_versions d)) in
      and_then (ensure ((dv_data_product_id r, dv_version_label r) \<notin>
                 (\<lambda>v. (dv_data_product_id v, dv_version_label v)) ` vs)
                 (Unique_Violation ''ux_data_product_versions_product_label'')) (\<lambda>_.
      and_then (ensure (dv_source_path r \<notin> dv_source_path ` vs)
                 (Unique_Violation ''ux_data_product_versions_source_path'')) (\<lambda>_.
      ensure (dv_data_product_id r \<in> dp_product_id ` set (t_rows (db_products d)))
        (Foreign_Key_Violation ''data_product_versions''))))"

definition metadata_constraints :: "registry_db \<Rightarrow> metadata_entry \<Rightarrow> sql_error + unit" where
  "metadata_constraints d r =
     ensure (me_data_product_version_id r \<in> dv_version_id ` set (t_rows (db_versions d)))
       (Foreign_Key_Violation ''metadata'')"

definition lineage_constraints :: "registry_db \<Rightarrow> lineage_dependency \<Rightarrow> sql_error + unit" where
  "lineage_constraints d r =
     ensure (ld_downstream_version_id r \<in> dv_version_id ` set (t_rows (db_versions d)))
       (Foreign_Key_Violation ''lineage_dependencies'')"

type_synonym 'a repo = "(registry_db, 'a) stmt"
type_synonym db_connection = "registry_db connection"

text \<open>\<open>LOWER\<close> of SQLite folds the ASCII letters.\<close>

abbreviation lower :: "string \<Rightarrow> string" where
  "lower \<equiv> to_ascii_lowercase"

definition parse_naive_datetime :: "db_connection \<Rightarrow> nat \<Rightarrow> string \<Rightarrow> sql_error + string" where
  "parse_naive_datetime c column s = ok_or (Conversion_Failure column s) (parse_datetime c s)"

section \<open>Teams\<close>

definition team_from_row :: "db_connection \<Rightarrow> team \<Rightarrow> sql_error + team" where
  "team_from_row c r =
     map_ok (\<lambda>t. r\<lparr>team_created_at := t\<rparr>) (parse_naive_datetime c 2 (team_created_at r))"

definition team_get_by_id :: "int \<Rightarrow> team repo" where
  "team_get_by_id i = query_row team_from_row (\<lambda>d. filter (\<lambda>r. team_id r = i) (t_rows (db_teams d)))"

definition team_create :: "new_team \<Rightarrow> team repo" where
  "team_create input =
     io_bind (insert_row db_teams (\<lambda>t d. d\<lparr>db_teams := t\<rparr>) team_constraints
                (\<lambda>i now. \<lparr>team_id = i, team_name = nt_name input, team_created_at = now\<rparr>)) (\<lambda>_.
     io_bind last_insert_rowid team_get_by_id)"

definition team_get_by_name :: "string \<Rightarrow> team repo" where
  "team_get_by_name n =
     query_row team_from_row (\<lambda>d. filter (\<lambda>r. lower (team_name r) = lower n) (t_rows (db_teams d)))"

definition team_get_all :: "team list repo" where
  "team_get_all = query_map team_from_row (\<lambda>d. sort_key team_id (t_rows (db_teams d)))"

section \<open>Data products\<close>

definition product_from_row :: "db_connection \<Rightarrow> data_product \<Rightarrow> sql_error + data_product" where
  "product_from_row c r =
     map_ok (\<lambda>t. r\<lparr>dp_created_at := t\<rparr>) (parse_naive_datetime c 7 (dp_created_at r))"

definition product_get_by_id :: "int \<Rightarrow> data_product repo" where
  "product_get_by_id i =
     query_row product_from_row (\<lambda>d. filter (\<lambda>r. dp_product_id r = i) (t_rows (db_products d)))"

definition product_create :: "new_data_product \<Rightarrow> data_product repo" where
  "product_create input =
     io_bind (insert_row db_products (\<lambda>t d. d\<lparr>db_products := t\<rparr>) product_constraints
                (\<lambda>i now. \<lparr>dp_product_id = i, dp_name = np_name input, dp_description = np_description input,
                   dp_owner_team_id = np_owner_team_id input, dp_producer = np_producer input,
                   dp_usage_policy = np_usage_policy input, dp_intended_use = np_intended_use input,
                   dp_created_at = now\<rparr>)) (\<lambda>_.
     io_bind last_insert_rowid product_get_by_id)"

definition product_get_all :: "data_product list repo" where
  "product_get_all = query_map product_from_row (\<lambda>d. sort_key dp_product_id (t_rows (db_products d)))"

text \<open>The join with the versions, distinct, in the order of the products.\<close>

definition product_get_all_by_version_column ::
  "(data_product_version \<Rightarrow> string) \<Rightarrow> string \<Rightarrow> data_product list repo" where
  "product_get_all_by_version_column column x =
     query_map product_from_row (\<lambda>d.
       sort_key dp_product_id (remdups (concat (map (\<lambda>p.
         map (\<lambda>_. p) (filter (\<lambda>v. dv_data_product_id v = dp_product_id p \<and> lower (column v) = lower x)
                         (t_rows (db_versions d)))) (t_rows (db_products d))))))"

definition product_get_all_by_asset_type :: "string \<Rightarrow> data_product list repo" where
  "product_get_all_by_asset_type = product_get_all_by_version_column dv_asset_type"

definition product_get_all_by_data_quality :: "string \<Rightarrow> data_product list repo" where
  "product_get_all_by_data_quality = product_get_all_by_version_column dv_data_quality"

definition product_get_all_by_classification :: "string \<Rightarrow> data_product list repo" where
  "product_get_all_by_classification = product_get_all_by_version_column dv_classification"

section \<open>Versions\<close>

definition version_from_row :: "db_connection \<Rightarrow> data_product_version \<Rightarrow> sql_error + data_product_version" where
  "version_from_row c r =
     map_ok (\<lambda>t. r\<lparr>dv_created_at := t\<rparr>) (parse_naive_datetime c 7 (dv_created_at r))"

definition version_where :: "(data_product_version \<Rightarrow> bool) \<Rightarrow> data_product_version repo" where
  "version_where p = query_row version_from_row (\<lambda>d. filter p (t_rows (db_versions d)))"

definition version_get_by_id :: "int \<Rightarrow> data_product_version repo" where
  "version_get_by_id i = version_where (\<lambda>r. dv_version_id r = i)"

definition version_create :: "new_data_product_version \<Rightarrow> data_product_version repo" where
  "version_create input =
     io_bind (insert_row db_versions (\<lambda>t d. d\<lparr>db_versions := t\<rparr>) version_constraints
                (\<lambda>i now. \<lparr>dv_version_id = i, dv_data_product_id = nv_data_product_id input,
                   dv_version_label = nv_version_label input, dv_asset_type = nv_asset_type input,
                   dv_source_path = nv_source_path input, dv_data_quality = nv_data_quality input,
                   dv_classification = nv_classification input, dv_created_at = now\<rparr>)) (\<lambda>_.
     io_bind last_insert_rowid version_get_by_id)"

definition version_get_by_product_and_label :: "int \<Rightarrow> string \<Rightarrow> data_product_version repo" where
  "version_get_by_product_and_label i label =
     version_where (\<lambda>r. dv_data_product_id r = i \<and> dv_version_label r = label)"

definition version_get_latest_for_product :: "int \<Rightarrow> data_product_version repo" where
  "version_get_latest_for_product i =
     query_row version_from_row (\<lambda>d.
       take 1 (rev (sort_key dv_version_id (filter (\<lambda>r. dv_data_product_id r = i) (t_rows (db_versions d))))))"

definition version_get_by_source_path :: "string \<Rightarrow> data_product_version repo" where
  "version_get_by_source_path p = version_where (\<lambda>r. dv_source_path r = p)"

definition version_get_for_product :: "int \<Rightarrow> data_product_version list repo" where
  "version_get_for_product i =
     query_map version_from_row (\<lambda>d.
       sort_key dv_version_id (filter (\<lambda>r. dv_data_product_id r = i) (t_rows (db_versions d))))"

definition version_get_all :: "data_product_version list repo" where
  "version_get_all = query_map version_from_row (\<lambda>d. sort_key dv_version_id (t_rows (db_versions d)))"

definition version_get_all_by_column ::
  "(data_product_version \<Rightarrow> string) \<Rightarrow> string \<Rightarrow> data_product_version list repo" where
  "version_get_all_by_column column x =
     query_map version_from_row (\<lambda>d.
       sort_key dv_version_id (filter (\<lambda>v. lower (column v) = lower x) (t_rows (db_versions d))))"

definition version_get_all_by_asset_type :: "string \<Rightarrow> data_product_version list repo" where
  "version_get_all_by_asset_type = version_get_all_by_column dv_asset_type"

definition version_get_all_by_data_quality :: "string \<Rightarrow> data_product_version list repo" where
  "version_get_all_by_data_quality = version_get_all_by_column dv_data_quality"

definition version_get_all_by_classification :: "string \<Rightarrow> data_product_version list repo" where
  "version_get_all_by_classification = version_get_all_by_column dv_classification"

section \<open>Metadata\<close>

definition metadata_from_row :: "db_connection \<Rightarrow> metadata_entry \<Rightarrow> sql_error + metadata_entry" where
  "metadata_from_row c r =
     map_ok (\<lambda>t. r\<lparr>me_created_at := t\<rparr>) (parse_naive_datetime c 6 (me_created_at r))"

definition metadata_get_by_id :: "int \<Rightarrow> metadata_entry repo" where
  "metadata_get_by_id i =
     query_row metadata_from_row (\<lambda>d. filter (\<lambda>r. me_metadata_id r = i) (t_rows (db_metadata d)))"

definition metadata_create :: "new_metadata \<Rightarrow> metadata_entry repo" where
  "metadata_create input =
     io_bind (insert_row db_metadata (\<lambda>t d. d\<lparr>db_metadata := t\<rparr>) metadata_constraints
                (\<lambda>i now. \<lparr>me_metadata_id = i,
                   me_data_product_version_id = nm_data_product_version_id input,
                   me_namespace = nm_namespace input, me_key = nm_meta_key input,
                   me_value = nm_meta_value input, me_value_type = nm_value_type input,
                   me_created_at = now\<rparr>)) (\<lambda>_.
     io_bind last_insert_rowid metadata_get_by_id)"

definition metadata_get_all :: "metadata_entry list repo" where
  "metadata_get_all = query_map metadata_from_row (\<lambda>d. sort_key me_metadata_id (t_rows (db_metadata d)))"

section \<open>Lineage\<close>

definition lineage_from_row :: "db_connection \<Rightarrow> lineage_dependency \<Rightarrow> sql_error + lineage_dependency" where
  "lineage_from_row c r = Inr r"

definition lineage_get_by_id :: "int \<Rightarrow> lineage_dependency repo" where
  "lineage_get_by_id i =
     query_row lineage_from_row (\<lambda>d. filter (\<lambda>r. ld_dependency_id r = i) (t_rows (db_lineage d)))"

definition lineage_create :: "new_lineage_dependency \<Rightarrow> lineage_dependency repo" where
  "lineage_create input =
     io_bind (insert_row db_lineage (\<lambda>t d. d\<lparr>db_lineage := t\<rparr>) lineage_constraints
                (\<lambda>i _. \<lparr>ld_dependency_id = i, ld_downstream_version_id = nl_downstream_version_id input,
                   ld_upstream_product_uri = nl_upstream_product_uri input,
                   ld_upstream_version = nl_upstream_version input\<rparr>)) (\<lambda>_.
     io_bind last_insert_rowid lineage_get_by_id)"

definition lineage_get_all :: "lineage_dependency list repo" where
  "lineage_get_all = query_map lineage_from_row (\<lambda>d. sort_key ld_dependency_id (t_rows (db_lineage d)))"

definition lineage_get_by_downstream_version :: "int \<Rightarrow> lineage_dependency list repo" where
  "lineage_get_by_downstream_version i =
     query_map lineage_from_row (\<lambda>d.
       sort_key ld_dependency_id (filter (\<lambda>r. ld_downstream_version_id r = i) (t_rows (db_lineage d))))"

end
