(* ===== verification/Registry.thy ===== *)
theory Registry
  imports Repositories Ext
begin

text \<open>
  \<open>registry_service.rs\<close> and \<open>requests.rs\<close>: the local registry, over a \<open>session\<close> (the world of
  the file system and one database connection). \<open>serve\<close> registers a product, its version and its
  lineage in one transaction; \<open>consume\<close> copies a registered source.
\<close>

section \<open>Data\<close>

record session =
  s_world :: world
  s_conn :: db_connection

type_synonym 'a registry = "(session, registry_error, 'a) io"

record registry_lineage =
  rl_source :: string
  rl_version :: "string option"

record serve_request =
  sv_source_path :: path
  sv_name :: string
  sv_asset_type :: asset_type
  sv_version :: string
  sv_owner_team :: string
  sv_producer :: string
  sv_usage_policy :: string
  sv_data_quality :: data_quality
  sv_classification :: classification
  sv_description :: "string option"
  sv_intended_use :: "string option"
  sv_lineage :: "registry_lineage list"

record serve_response =
  sx_product_id :: int
  sx_version_id :: int
  sx_name :: string
  sx_version :: string
  sx_source_reference :: string
  sx_status :: string

record search_request =
  sq_query :: "string option"
  sq_asset_type :: "asset_type option"
  sq_data_quality :: "data_quality option"
  sq_classification :: "classification option"
  sq_owner_team :: "string option"

record product_summary =
  su_product_id :: int
  su_name :: string
  su_owner_team :: string
  su_producer :: string
  su_version :: "string option"
  su_asset_type :: "string option"
  su_data_quality :: "string option"
  su_classification :: "string option"
  su_source_reference :: "string option"
  su_created_at :: string

record version_detail =
  vd_version_id :: int
  vd_version :: string
  vd_asset_type :: string
  vd_source_reference :: string
  vd_data_quality :: string
  vd_classification :: string
  vd_created_at :: string

record lineage_dependency_detail =
  lx_upstream_source_reference :: string
  lx_upstream_version :: "string option"
  lx_upstream_product_id :: "int option"
  lx_upstream_name :: "string option"
  lx_upstream_producer :: "string option"
  lx_upstream_published_at :: "string option"

record lineage_response =
  lr_product_id :: int
  lr_version :: string
  lr_status :: string
  lr_dependencies :: "lineage_dependency_detail list"

record product_detail =
  pd_product_id :: int
  pd_name :: string
  pd_description :: "string option"
  pd_owner_team :: string
  pd_producer :: string
  pd_usage_policy :: string
  pd_intended_use :: "string option"
  pd_created_at :: string
  pd_selected_version :: version_detail
  pd_lineage :: lineage_response

record consume_request =
  cn_product_ref :: string
  cn_version :: string
  cn_out :: path
  cn_overwrite :: bool

record consume_receipt =
  cr_product_id :: int
  cr_version :: string
  cr_source_reference :: string
  cr_output_path :: string
  cr_retrieved_at :: string
  cr_checksum :: "string option"

record upstream_context =
  uc_product_id :: int
  uc_name :: string
  uc_producer :: string
  uc_published_at :: "string option"

record create_data_product_request =
  cd_name :: string
  cd_description :: "string option"
  cd_owner_team_id :: int
  cd_intended_use :: "string option"
  cd_producer :: string
  cd_usage_policy :: string

record create_data_product_version_request =
  cv_data_product_id :: int
  cv_version_label :: string
  cv_asset_type :: string
  cv_source_path :: string
  cv_data_quality :: string
  cv_classification :: string

record create_lineage_dependency_request =
  cl_downstream_version_id :: int
  cl_upstream_product_uri :: string
  cl_upstream_version :: "string option"

definition ser_consume_receipt :: "consume_receipt \<Rightarrow> json" where
  "ser_consume_receipt x =
     JObj [(''product_id'', JInt (cr_product_id x)), (''version'', JStr (cr_version x)),
           (''source_reference'', JStr (cr_source_reference x)),
           (''output_path'', JStr (cr_output_path x)), (''retrieved_at'', JStr (cr_retrieved_at x)),
           (''checksum'', ser_option JStr (cr_checksum x))]"

section \<open>Calls\<close>

definition in_db :: "'a repo \<Rightarrow> (session, sql_error, 'a) io" where
  "in_db m s = (case m (s_conn s) of (r, c) \<Rightarrow> (r, s\<lparr>s_conn := c\<rparr>))"

definition in_world :: "(world, 'e, 'a) io \<Rightarrow> (session, 'e, 'a) io" where
  "in_world m s = (case m (s_world s) of (r, w) \<Rightarrow> (r, s\<lparr>s_world := w\<rparr>))"

definition db :: "'a repo \<Rightarrow> 'a registry" where
  "db m = io_map_err Database (in_db m)"

definition db_or_not_found :: "string \<Rightarrow> 'a repo \<Rightarrow> 'a registry" where
  "db_or_not_found text m =
     io_map_err (\<lambda>e. if e = Query_Returned_No_Rows then Not_Found text else Database e) (in_db m)"

definition map_io_error :: "ext \<Rightarrow> io_kind \<Rightarrow> registry_error" where
  "map_io_error E k = (if k = KPermissionDenied then Permission (io_text E k) else Filesystem k)"

definition fsys :: "ext \<Rightarrow> 'a sys \<Rightarrow> 'a registry" where
  "fsys E m = io_map_err (map_io_error E) (in_world m)"

definition checked :: "validation_error + 'a \<Rightarrow> 'a registry" where
  "checked v = io_lift (map_err Invalid v)"

definition quoted :: "string \<Rightarrow> string \<Rightarrow> string" where
  "quoted what s = what @ '' '' @ [CHR 0x27] @ s @ [CHR 0x27]"

text \<open>\<open>str::parse::<i64>()\<close>.\<close>

definition parse_i64 :: "string \<Rightarrow> int option" where
  "parse_i64 s =
     (case strip_prefix ''-'' s of
        Some ds \<Rightarrow>
          if ds = [] then None
          else (case digits_value 0 ds of Some n \<Rightarrow> if n \<le> 2 ^ 63 then Some (- int n) else None | None \<Rightarrow> None)
      | None \<Rightarrow> map_option int (parse_unsigned (2 ^ 63) s))"

section \<open>Registration\<close>

definition register_team :: "string \<Rightarrow> team registry" where
  "register_team name =
     io_bind (checked (non_blank_text ''team'' name)) (\<lambda>_. db (team_create \<lparr>nt_name = name\<rparr>))"

definition list_teams :: "team list registry" where
  "list_teams = db team_get_all"

definition register_data_product :: "create_data_product_request \<Rightarrow> data_product registry" where
  "register_data_product input =
     io_bind (checked (validate_product_name (cd_name input))) (\<lambda>_.
     io_bind (checked (validate_positive_id ''owner_team_id'' (cd_owner_team_id input))) (\<lambda>_.
     io_bind (checked (validate_optional_text ''description'' (cd_description input))) (\<lambda>_.
     io_bind (checked (validate_optional_text ''intended_use'' (cd_intended_use input))) (\<lambda>_.
     io_bind (checked (non_blank_text ''producer'' (cd_producer input))) (\<lambda>_.
     io_bind (checked (non_blank_text ''usage_policy'' (cd_usage_policy input))) (\<lambda>_.
     io_bind (db_or_not_found (quoted ''owner team'' (show_int (cd_owner_team_id input)))
                (team_get_by_id (cd_owner_team_id input))) (\<lambda>_.
     db (product_create \<lparr>np_name = cd_name input, np_description = cd_description input,
           np_owner_team_id = cd_owner_team_id input, np_producer = cd_producer input,
           np_usage_policy = cd_usage_policy input, np_intended_use = cd_intended_use input\<rparr>))))))))"

definition register_data_product_version ::
  "create_data_product_version_request \<Rightarrow> data_product_version registry" where
  "register_data_product_version input =
     io_bind (checked (validate_positive_id ''data_product_id'' (cv_data_product_id input))) (\<lambda>_.
     io_bind (checked (validate_version_label (cv_version_label input))) (\<lambda>_.
     io_bind (checked (asset_type_from_str (cv_asset_type input))) (\<lambda>asset_type.
     io_bind (checked (source_reference (cv_source_path input))) (\<lambda>_.
     io_bind (checked (data_quality_from_str (cv_data_quality input))) (\<lambda>data_quality.
     io_bind (checked (classification_from_str (cv_classification input))) (\<lambda>classification.
     io_bind (db_or_not_found (quoted ''product'' (show_int (cv_data_product_id input)))
                (product_get_by_id (cv_data_product_id input))) (\<lambda>_.
     db (version_create \<lparr>nv_data_product_id = cv_data_product_id input,
           nv_version_label = cv_version_label input, nv_asset_type = asset_type_str asset_type,
           nv_source_path = cv_source_path input, nv_data_quality = data_quality_str data_quality,
           nv_classification = classification_str classification\<rparr>))))))))"

definition register_lineage_dependency ::
  "create_lineage_dependency_request \<Rightarrow> lineage_dependency registry" where
  "register_lineage_dependency input =
     io_bind (checked (validate_positive_id ''downstream_version_id'' (cl_downstream_version_id input))) (\<lambda>_.
     io_bind (checked (non_blank_text ''upstream_product_uri'' (cl_upstream_product_uri input))) (\<lambda>_.
     io_bind (checked (validate_optional_text ''upstream_version'' (cl_upstream_version input))) (\<lambda>_.
     io_bind (db_or_not_found (quoted ''downstream version'' (show_int (cl_downstream_version_id input)))
                (version_get_by_id (cl_downstream_version_id input))) (\<lambda>_.
     db (lineage_create \<lparr>nl_downstream_version_id = cl_downstream_version_id input,
           nl_upstream_product_uri = cl_upstream_product_uri input,
           nl_upstream_version = cl_upstream_version input\<rparr>)))))"

section \<open>Serving\<close>

definition validate_serve_request :: "serve_request \<Rightarrow> validation_error + unit" where
  "validate_serve_request r =
     and_then (source_reference (sv_source_path r)) (\<lambda>_.
     and_then (validate_product_name (sv_name r)) (\<lambda>_.
     and_then (validate_version_label (sv_version r)) (\<lambda>_.
     and_then (non_blank_text ''owner_team'' (sv_owner_team r)) (\<lambda>_.
     and_then (non_blank_text ''producer'' (sv_producer r)) (\<lambda>_.
     and_then (non_blank_text ''usage_policy'' (sv_usage_policy r)) (\<lambda>_.
     and_then (validate_optional_text ''description'' (sv_description r)) (\<lambda>_.
     and_then (validate_optional_text ''intended_use'' (sv_intended_use r)) (\<lambda>_.
     check_all (\<lambda>l.
       and_then (non_blank_text ''lineage'' (rl_source l)) (\<lambda>_.
       validate_optional_text ''lineage.version'' (rl_version l))) (sv_lineage r)))))))))"

definition anchor_legacy_source :: "ext \<Rightarrow> path \<Rightarrow> path registry" where
  "anchor_legacy_source E p =
     io_bind (if is_absolute p then io_ret p
              else io_bind (io_map_err Filesystem (in_world current_dir)) (\<lambda>d. io_ret (join d p))) (\<lambda>p.
     io_bind (io_try (in_world (canonicalize p))) (\<lambda>c.
     case c of
       Inr canonical \<Rightarrow> io_ret canonical
     | Inl k \<Rightarrow> if k = KNotFound then io_ret p else io_err (map_io_error E k)))"

definition get_or_create_team :: "string \<Rightarrow> team registry" where
  "get_or_create_team name =
     io_bind (io_try (in_db (team_get_by_name name))) (\<lambda>r.
     case r of
       Inr team \<Rightarrow> io_ret team
     | Inl e \<Rightarrow>
         if e = Query_Returned_No_Rows then db (team_create \<lparr>nt_name = name\<rparr>)
         else io_err (Database e))"

definition serve_rows :: "serve_request \<Rightarrow> string \<Rightarrow> serve_response registry" where
  "serve_rows r source =
     io_bind (get_or_create_team (sv_owner_team r)) (\<lambda>team.
     io_bind (db (product_create \<lparr>np_name = sv_name r, np_description = sv_description r,
                np_owner_team_id = team_id team, np_producer = sv_producer r,
                np_usage_policy = sv_usage_policy r, np_intended_use = sv_intended_use r\<rparr>)) (\<lambda>product.
     io_bind (db (version_create \<lparr>nv_data_product_id = dp_product_id product,
                nv_version_label = sv_version r, nv_asset_type = asset_type_str (sv_asset_type r),
                nv_source_path = source, nv_data_quality = data_quality_str (sv_data_quality r),
                nv_classification = classification_str (sv_classification r)\<rparr>)) (\<lambda>version.
     io_bind (io_for (\<lambda>l. io_bind (db (lineage_create
                \<lparr>nl_downstream_version_id = dv_version_id version, nl_upstream_product_uri = rl_source l,
                 nl_upstream_version = rl_version l\<rparr>)) (\<lambda>_. io_ret ())) (sv_lineage r)) (\<lambda>_.
     io_ret \<lparr>sx_product_id = dp_product_id product, sx_version_id = dv_version_id version,
             sx_name = dp_name product, sx_version = dv_version_label version,
             sx_source_reference = source, sx_status = ''published''\<rparr>))))"

text \<open>The transaction of \<open>serve\<close>: the result of \<open>ROLLBACK\<close> is ignored.\<close>

definition in_transaction :: "'a registry \<Rightarrow> 'a registry" where
  "in_transaction body =
     io_bind (db begin_immediate) (\<lambda>_.
     io_bind (io_try body) (\<lambda>result.
     case result of
       Inr response \<Rightarrow>
         io_bind (io_try (in_db commit_transaction)) (\<lambda>c.
         case c of
           Inr _ \<Rightarrow> io_ret response
         | Inl err \<Rightarrow>
             io_bind (io_try (in_db rollback_transaction)) (\<lambda>_. io_err (Database err)))
     | Inl err \<Rightarrow>
         io_bind (io_try (in_db rollback_transaction)) (\<lambda>_. io_err err)))"

definition serve :: "ext \<Rightarrow> serve_request \<Rightarrow> serve_response registry" where
  "serve E r =
     io_bind (checked (validate_serve_request r)) (\<lambda>_.
     io_bind (anchor_legacy_source E (sv_source_path r)) (\<lambda>anchored.
     io_bind (checked (source_reference anchored)) (\<lambda>source.
     in_transaction (serve_rows r source))))"

section \<open>Search\<close>

definition latest_version :: "registry_db \<Rightarrow> int \<Rightarrow> data_product_version option" where
  "latest_version d i =
     (case rev (sort_key dv_version_id (filter (\<lambda>v. dv_data_product_id v = i) (t_rows (db_versions d)))) of
        [] \<Rightarrow> None | v # _ \<Rightarrow> Some v)"

definition summary_row :: "data_product \<Rightarrow> team \<Rightarrow> data_product_version option \<Rightarrow> product_summary" where
  "summary_row p t v =
     \<lparr>su_product_id = dp_product_id p, su_name = dp_name p, su_owner_team = team_name t,
      su_producer = dp_producer p, su_version = map_option dv_version_label v,
      su_asset_type = map_option dv_asset_type v, su_data_quality = map_option dv_data_quality v,
      su_classification = map_option dv_classification v,
      su_source_reference = map_option dv_source_path v, su_created_at = dp_created_at p\<rparr>"

text \<open>The query: a join with the teams and a left join with the latest version.\<close>

definition summary_rows :: "registry_db \<Rightarrow> product_summary list" where
  "summary_rows d =
     sort_key su_product_id (concat (map (\<lambda>p.
       map (\<lambda>t. summary_row p t (latest_version d (dp_product_id p)))
         (filter (\<lambda>t. team_id t = dp_owner_team_id p) (t_rows (db_teams d)))) (t_rows (db_products d))))"

definition summary_matches :: "search_request \<Rightarrow> product_summary \<Rightarrow> bool" where
  "summary_matches q p \<longleftrightarrow>
     is_none_or (\<lambda>needle. contains_str needle (lower (su_name p)) \<or>
       is_some_and (\<lambda>s. contains_str needle (lower s)) (su_source_reference p)) (map_option lower (sq_query q)) \<and>
     is_none_or (\<lambda>owner. lower (su_owner_team p) = owner) (map_option lower (sq_owner_team q)) \<and>
     is_none_or (\<lambda>x. su_asset_type p = Some x) (map_option asset_type_str (sq_asset_type q)) \<and>
     is_none_or (\<lambda>x. su_data_quality p = Some x) (map_option data_quality_str (sq_data_quality q)) \<and>
     is_none_or (\<lambda>x. su_classification p = Some x) (map_option classification_str (sq_classification q))"

definition search_products :: "search_request \<Rightarrow> product_summary list registry" where
  "search_products q =
     io_bind (checked (validate_optional_text ''owner_team'' (sq_owner_team q))) (\<lambda>_.
     io_bind (db (query_map (\<lambda>_. Inr) summary_rows)) (\<lambda>rs.
     io_ret (filter (summary_matches q) rs)))"

definition list_products :: "product_summary list registry" where
  "list_products =
     search_products \<lparr>sq_query = None, sq_asset_type = None, sq_data_quality = None,
                      sq_classification = None, sq_owner_team = None\<rparr>"

section \<open>Details and lineage\<close>

definition parse_product_ref :: "string \<Rightarrow> int registry" where
  "parse_product_ref ref =
     (case parse_i64 ref of
        Some i \<Rightarrow> io_bind (checked (validate_positive_id ''product_id'' i)) (\<lambda>_. io_ret i)
      | None \<Rightarrow>
          io_bind (db_or_not_found (quoted ''product or source path'' ref) (version_get_by_source_path ref))
            (\<lambda>v. io_ret (dv_data_product_id v)))"

definition resolve_product_with_team :: "string \<Rightarrow> (data_product \<times> string) registry" where
  "resolve_product_with_team ref =
     io_bind (parse_product_ref ref) (\<lambda>i.
     io_bind (db_or_not_found (quoted ''product'' ref) (product_get_by_id i)) (\<lambda>product.
     io_bind (db (team_get_by_id (dp_owner_team_id product))) (\<lambda>team.
     io_ret (product, team_name team))))"

definition resolve_version :: "int \<Rightarrow> string option \<Rightarrow> data_product_version registry" where
  "resolve_version i label =
     (let text = quoted ''version for product'' (show_int i) in
      case label of
        Some l \<Rightarrow>
          io_bind (checked (validate_version_label l)) (\<lambda>_.
          db_or_not_found text (version_get_by_product_and_label i l))
      | None \<Rightarrow> db_or_not_found text (version_get_latest_for_product i))"

definition upstream_context_of :: "string \<Rightarrow> upstream_context option registry" where
  "upstream_context_of p =
     io_bind (io_try (in_db (version_get_by_source_path p))) (\<lambda>r.
     case r of
       Inl e \<Rightarrow> if e = Query_Returned_No_Rows then io_ret None else io_err (Database e)
     | Inr version \<Rightarrow>
         io_bind (db (product_get_by_id (dv_data_product_id version))) (\<lambda>product.
         io_ret (Some \<lparr>uc_product_id = dp_product_id product, uc_name = dp_name product,
                       uc_producer = dp_producer product,
                       uc_published_at = Some (dv_created_at version)\<rparr>)))"

definition dependency_detail :: "lineage_dependency \<Rightarrow> lineage_dependency_detail registry" where
  "dependency_detail dependency =
     io_bind (upstream_context_of (ld_upstream_product_uri dependency)) (\<lambda>upstream.
     io_ret \<lparr>lx_upstream_source_reference = ld_upstream_product_uri dependency,
             lx_upstream_version = ld_upstream_version dependency,
             lx_upstream_product_id = map_option uc_product_id upstream,
             lx_upstream_name = map_option uc_name upstream,
             lx_upstream_producer = map_option uc_producer upstream,
             lx_upstream_published_at = Option.bind upstream uc_published_at\<rparr>)"

definition lineage_for_version :: "int \<Rightarrow> string \<Rightarrow> lineage_response registry" where
  "lineage_for_version i label =
     io_bind (db (version_get_by_product_and_label i label)) (\<lambda>version.
     io_bind (db (lineage_get_by_downstream_version (dv_version_id version))) (\<lambda>dependencies.
     io_bind (io_traverse dependency_detail dependencies) (\<lambda>details.
     io_ret \<lparr>lr_product_id = i, lr_version = dv_version_label version,
             lr_status = (if details = [] then ''no_lineage'' else ''lineage_available''),
             lr_dependencies = details\<rparr>)))"

definition show_product :: "string \<Rightarrow> string option \<Rightarrow> product_detail registry" where
  "show_product ref label =
     io_bind (resolve_product_with_team ref) (\<lambda>(product, team).
     io_bind (resolve_version (dp_product_id product) label) (\<lambda>version.
     io_bind (lineage_for_version (dp_product_id product) (dv_version_label version)) (\<lambda>lineage.
     io_ret \<lparr>pd_product_id = dp_product_id product, pd_name = dp_name product,
             pd_description = dp_description product, pd_owner_team = team,
             pd_producer = dp_producer product, pd_usage_policy = dp_usage_policy product,
             pd_intended_use = dp_intended_use product, pd_created_at = dp_created_at product,
             pd_selected_version =
               \<lparr>vd_version_id = dv_version_id version, vd_version = dv_version_label version,
                vd_asset_type = dv_asset_type version, vd_source_reference = dv_source_path version,
                vd_data_quality = dv_data_quality version,
                vd_classification = dv_classification version, vd_created_at = dv_created_at version\<rparr>,
             pd_lineage = lineage\<rparr>)))"

definition lineage_of :: "string \<Rightarrow> string option \<Rightarrow> lineage_response registry" where
  "lineage_of ref label =
     io_bind (resolve_product_with_team ref) (\<lambda>(product, _).
     io_bind (resolve_version (dp_product_id product) label) (\<lambda>version.
     lineage_for_version (dp_product_id product) (dv_version_label version)))"

section \<open>Consuming\<close>

text \<open>\<open>fs::write\<close>: creates or truncates the file, then writes; a failure may leave a part.\<close>

definition fs_write :: "path \<Rightarrow> string \<Rightarrow> loc \<Rightarrow> fs \<Rightarrow> (io_kind + unit) \<times> fs" where
  "fs_write p bytes c f =
     (case copy_target f c p of
        Inl k \<Rightarrow> (Inl k, f)
      | Inr l \<Rightarrow>
          copy_bytes l bytes
            (case lookup f l of Some n \<Rightarrow> mode (inodes f (node_ino n)) | None \<Rightarrow> 420) f)"

definition sys_write :: "path \<Rightarrow> string \<Rightarrow> unit sys" where
  "sys_write p bytes w =
     (let w' = w\<lparr>tick := Suc (tick w)\<rparr> in
      case faults w (tick w) of
        Some k \<Rightarrow>
          (Inl k,
           if torn w (tick w) = 0 then w'
           else w'\<lparr>disk := snd (fs_write p (take (torn w (tick w) - 1) bytes) (cwd w) (disk w))\<rparr>)
      | None \<Rightarrow> (case fs_write p bytes (cwd w) (disk w) of (r, f) \<Rightarrow> (r, w'\<lparr>disk := f\<rparr>)))"

definition remove_existing :: "ext \<Rightarrow> path \<Rightarrow> unit registry" where
  "remove_existing E p =
     io_bind (fsys E (sys_metadata p)) (\<lambda>m.
     if node_is_dir (m_node m) then fsys E (remove_dir_all p) else fsys E (remove_file p))"

text \<open>
  Every level of the recursion makes both paths longer by two bytes or more, and Linux resolves no
  path of more than 4096 bytes: the first argument bounds the nesting by that.
\<close>

definition MAX_NESTING :: nat where
  "MAX_NESTING = 2048"

primrec copy_dir :: "nat \<Rightarrow> ext \<Rightarrow> path \<Rightarrow> path \<Rightarrow> unit registry" where
  "copy_dir 0 E source out = io_err (Filesystem KOther)"
| "copy_dir (Suc n) E source out =
     io_bind (fsys E (create_dir_all out)) (\<lambda>_.
     io_bind (fsys E (read_dir source)) (\<lambda>names.
     io_for (\<lambda>name.
       io_bind (fsys E (symlink_metadata (join source name))) (\<lambda>m.
       if node_is_dir (m_node m) then copy_dir n E (join source name) (join out name)
       else if node_is_file (m_node m) then
         fsys E (sys_copy (join source name) (join out name))
       else io_err (Filesystem KOther))) names))"

definition copy_dir_recursive :: "ext \<Rightarrow> path \<Rightarrow> path \<Rightarrow> unit registry" where
  "copy_dir_recursive = copy_dir MAX_NESTING"

definition make_room :: "ext \<Rightarrow> path \<Rightarrow> bool \<Rightarrow> unit registry" where
  "make_room E out overwrite =
     io_bind (if overwrite then in_world (path_exists out) else io_ret False) (\<lambda>b.
     if b then remove_existing E out else io_ret ())"

definition copy_source :: "ext \<Rightarrow> path \<Rightarrow> path \<Rightarrow> bool \<Rightarrow> unit registry" where
  "copy_source E source out overwrite =
     io_bind (fsys E (sys_metadata source)) (\<lambda>m.
     if node_is_file (m_node m) then
       io_bind (make_room E out overwrite) (\<lambda>_. fsys E (sys_copy source out))
     else if node_is_dir (m_node m) then
       io_bind (make_room E out overwrite) (\<lambda>_. copy_dir_recursive E source out)
     else io_err (Permission (quoted ''unsupported source type'' source)))"

definition registry_receipt_path :: "path \<Rightarrow> path" where
  "registry_receipt_path out =
     with_file_name out
       (case file_name out of Some n \<Rightarrow> n @ ''.feam-receipt.json'' | None \<Rightarrow> ''feam-receipt.json'')"

definition receipt_of :: "consume_request \<Rightarrow> product_detail \<Rightarrow> string \<Rightarrow> consume_receipt" where
  "receipt_of r detail now =
     \<lparr>cr_product_id = pd_product_id detail, cr_version = vd_version (pd_selected_version detail),
      cr_source_reference = vd_source_reference (pd_selected_version detail),
      cr_output_path = cn_out r, cr_retrieved_at = now, cr_checksum = None\<rparr>"

definition deliver :: "ext \<Rightarrow> consume_request \<Rightarrow> product_detail \<Rightarrow> consume_receipt registry" where
  "deliver E r detail =
     (let source = vd_source_reference (pd_selected_version detail) in
      io_bind (in_world (path_exists source)) (\<lambda>there.
      if \<not> there then io_err (Source_Missing source)
      else
      io_bind (in_world (path_exists (cn_out r))) (\<lambda>taken.
      if taken \<and> \<not> cn_overwrite r then io_err (Destination_Exists (cn_out r))
      else
      io_bind (copy_source E source (cn_out r) (cn_overwrite r)) (\<lambda>_.
      io_bind (in_world now_nanos) (\<lambda>now.
      let receipt = receipt_of r detail (rfc3339 E now) in
      io_bind (fsys E (sys_write (registry_receipt_path (cn_out r))
                 (json_pretty E (ser_consume_receipt receipt)))) (\<lambda>_.
      io_ret receipt))))))"

definition consume :: "ext \<Rightarrow> consume_request \<Rightarrow> consume_receipt registry" where
  "consume E r =
     io_bind (checked (validate_version_label (cn_version r))) (\<lambda>_.
     io_bind (show_product (cn_product_ref r) (Some (cn_version r))) (deliver E r))"

end
