(* ===== verification/Registry_Invariant.thy ===== *)
theory Registry_Invariant
  imports Registry
begin

text \<open>
  The invariant of the registry database: keys that grow, names and paths that are unique, and
  references that lead to rows. Every operation of the service keeps it, whatever fails.
\<close>

section \<open>Keys\<close>

definition keys_ok :: "('r \<Rightarrow> int) \<Rightarrow> 'r sql_table \<Rightarrow> bool" where
  "keys_ok key t \<longleftrightarrow>
     sorted_wrt (<) (map key (t_rows t)) \<and> (\<forall>r \<in> set (t_rows t). 1 \<le> key r \<and> key r \<le> t_seq t) \<and>
     0 \<le> t_seq t \<and> t_seq t \<le> MAX_ROWID"

lemma keys_ok_empty [simp]: "keys_ok key empty_table"
  by (simp add: keys_ok_def empty_table_def MAX_ROWID_def)

lemma keys_ok_snoc:
  assumes "keys_ok key t" "key r = t_seq t + 1" "t_seq t + 1 \<le> MAX_ROWID"
  shows "keys_ok key (t\<lparr>t_rows := t_rows t @ [r], t_seq := t_seq t + 1\<rparr>)"
  using assms by (auto simp: keys_ok_def sorted_wrt_append)

lemma keys_ok_distinct: "keys_ok key t \<Longrightarrow> distinct (map key (t_rows t))"
  by (simp add: keys_ok_def strict_sorted_iff)

lemma keys_ok_fresh: "keys_ok key t \<Longrightarrow> r \<in> set (t_rows t) \<Longrightarrow> key r \<noteq> t_seq t + 1"
  by (auto simp: keys_ok_def)

section \<open>The invariant\<close>

definition registry_ok :: "registry_db \<Rightarrow> bool" where
  "registry_ok d \<longleftrightarrow>
     keys_ok team_id (db_teams d) \<and> keys_ok dp_product_id (db_products d) \<and>
     keys_ok dv_version_id (db_versions d) \<and> keys_ok me_metadata_id (db_metadata d) \<and>
     keys_ok ld_dependency_id (db_lineage d) \<and>
     distinct (map team_name (t_rows (db_teams d))) \<and>
     distinct (map (\<lambda>v. (dv_data_product_id v, dv_version_label v)) (t_rows (db_versions d))) \<and>
     distinct (map dv_source_path (t_rows (db_versions d))) \<and>
     (\<forall>p \<in> set (t_rows (db_products d)). dp_owner_team_id p \<in> team_id ` set (t_rows (db_teams d))) \<and>
     (\<forall>v \<in> set (t_rows (db_versions d)). dv_data_product_id v \<in> dp_product_id ` set (t_rows (db_products d))) \<and>
     (\<forall>m \<in> set (t_rows (db_metadata d)).
        me_data_product_version_id m \<in> dv_version_id ` set (t_rows (db_versions d))) \<and>
     (\<forall>l \<in> set (t_rows (db_lineage d)).
        ld_downstream_version_id l \<in> dv_version_id ` set (t_rows (db_versions d)))"

definition consistent :: "db_connection \<Rightarrow> bool" where
  "consistent c \<longleftrightarrow> registry_ok (tables c) \<and> (case savepoint c of None \<Rightarrow> True | Some d \<Rightarrow> registry_ok d)"

lemma registry_ok_init: "registry_ok init_schema"
  by (simp add: registry_ok_def init_schema_def) (simp add: empty_table_def)

text \<open>An invariant that the counter of statements does not touch is kept by a statement that keeps it.\<close>

definition counts_only :: "('d connection \<Rightarrow> bool) \<Rightarrow> bool" where
  "counts_only I \<longleftrightarrow> (\<forall>c n. I c \<longrightarrow> I (c\<lparr>statements := n\<rparr>))"

lemma keeps_statement:
  assumes "counts_only I" "\<And>c. I c \<Longrightarrow> I (snd (op c))"
  shows "keeps I (statement op)"
  using assms by (auto simp: keeps_def statement_def counts_only_def split: option.splits)

lemma keeps_select: "counts_only I \<Longrightarrow> keeps I (select q)"
  unfolding select_def by (rule keeps_statement) auto

lemma keeps_converted: "keeps I (converted from_row r)"
  by (simp add: keeps_def converted_def)

lemma keeps_query_row: "counts_only I \<Longrightarrow> keeps I (query_row from_row q)"
  unfolding query_row_def
  by (intro keeps_bind keeps_select) (auto split: list.splits intro: keeps_rules keeps_converted)

lemma keeps_query_map: "counts_only I \<Longrightarrow> keeps I (query_map from_row q)"
  unfolding query_map_def by (intro keeps_bind keeps_select keeps_traverse keeps_converted)

lemma keeps_last_rowid: "keeps I last_insert_rowid"
  by (simp add: keeps_def last_insert_rowid_def)

lemma counts_only_consistent [simp]: "counts_only consistent"
  by (simp add: counts_only_def consistent_def)

section \<open>Repositories\<close>

text \<open>
  What a repository promises: inserting a row that passes its constraints keeps the database in
  order. The lemmas hold for every table; each repository is an instance.
\<close>

locale repository =
  fixes table :: "registry_db \<Rightarrow> 'r sql_table"
    and put :: "'r sql_table \<Rightarrow> registry_db \<Rightarrow> registry_db"
    and key :: "'r \<Rightarrow> int"
    and check :: "registry_db \<Rightarrow> 'r \<Rightarrow> sql_error + unit"
    and mk :: "'i \<Rightarrow> int \<Rightarrow> string \<Rightarrow> 'r"
    and from_row :: "db_connection \<Rightarrow> 'r \<Rightarrow> sql_error + 'a"
    and get_by_id :: "int \<Rightarrow> 'a repo"
    and create :: "'i \<Rightarrow> 'a repo"
  assumes key_mk: "key (mk x i now) = i"
    and table_put: "table (put t d) = t"
    and in_order: "registry_ok d \<Longrightarrow> keys_ok key (table d)"
    and stays_ok: "registry_ok d \<Longrightarrow> check d r = Inr () \<Longrightarrow> key r = t_seq (table d) + 1 \<Longrightarrow>
      t_seq (table d) + 1 \<le> MAX_ROWID \<Longrightarrow>
      registry_ok (put ((table d)\<lparr>t_rows := t_rows (table d) @ [r], t_seq := t_seq (table d) + 1\<rparr>) d)"
    and get_def: "get_by_id i = query_row from_row (\<lambda>d. filter (\<lambda>r. key r = i) (t_rows (table d)))"
    and create_def: "create x =
      io_bind (insert_row table put check (mk x)) (\<lambda>_. io_bind last_insert_rowid get_by_id)"
begin

lemma keeps_get: "keeps consistent (get_by_id i)"
  unfolding get_def by (simp add: keeps_query_row)

lemma keeps_create: "keeps consistent (create x)"
proof -
  have "keeps consistent (insert_row table put check (mk x))"
    unfolding insert_row_def Let_def
  proof (rule keeps_statement)
    fix c :: db_connection
    assume c: "consistent c"
    let ?t = "table (tables c)"
    let ?r = "mk x (t_seq ?t + 1) (sql_now c (statements c))"
    show "consistent (snd (if MAX_ROWID < t_seq ?t + 1 then (Inl Rowids_Exhausted, c)
        else case check (tables c) ?r of Inl e \<Rightarrow> (Inl e, c)
          | Inr _ \<Rightarrow> (Inr (), c\<lparr>tables := put (?t\<lparr>t_rows := t_rows ?t @ [?r], t_seq := t_seq ?t + 1\<rparr>) (tables c),
                               last_rowid := t_seq ?t + 1\<rparr>)))"
      using c stays_ok [of "tables c" ?r]
      by (cases "check (tables c) ?r") (auto simp: consistent_def key_mk)
  qed simp
  then show ?thesis
    unfolding create_def by (intro keeps_bind keeps_last_rowid keeps_get)
qed

text \<open>A row that was created is the last of its table, and it is what its key finds.\<close>

lemma create_ok:
  assumes "create x c = (Inr a, c')" "registry_ok (tables c)"
  shows "\<exists>now. let t = table (tables c); r = mk x (t_seq t + 1) now in
    check (tables c) r = Inr () \<and> from_row c' r = Inr a \<and> t_seq t + 1 \<le> MAX_ROWID \<and>
    tables c' = put (t\<lparr>t_rows := t_rows t @ [r], t_seq := t_seq t + 1\<rparr>) (tables c) \<and>
    savepoint c' = savepoint c \<and> parse_datetime c' = parse_datetime c"
proof -
  let ?t = "table (tables c)"
  let ?r = "\<lambda>now. mk x (t_seq ?t + 1) now"
  from assms(1) obtain c1 where ins: "insert_row table put check (mk x) c = (Inr (), c1)"
    and get: "get_by_id (last_rowid c1) c1 = (Inr a, c')"
    unfolding create_def by (auto simp: last_insert_rowid_def elim!: io_bindE)
  from ins have c1: "check (tables c) (?r (sql_now c (Suc (statements c)))) = Inr ()"
      "t_seq ?t + 1 \<le> MAX_ROWID"
      "c1 = c\<lparr>statements := Suc (statements c),
        tables := put (?t\<lparr>t_rows := t_rows ?t @ [?r (sql_now c (Suc (statements c)))], t_seq := t_seq ?t + 1\<rparr>) (tables c),
        last_rowid := t_seq ?t + 1\<rparr>"
    by (auto simp: insert_row_def statement_def Let_def split: option.splits if_splits sum.splits)
  have "filter (\<lambda>r. key r = t_seq ?t + 1) (t_rows ?t) = []"
    using keys_ok_fresh [OF in_order [OF assms(2)]] by (auto simp: filter_empty_conv)
  with get have "from_row c' (?r (sql_now c (Suc (statements c)))) = Inr a \<and> tables c' = tables c1 \<and>
      savepoint c' = savepoint c1 \<and> parse_datetime c' = parse_datetime c1"
    by (auto simp: get_def query_row_def select_def statement_def converted_def c1(3) table_put key_mk
        elim!: io_bindE split: option.splits)
  with c1 show ?thesis by (auto simp: Let_def)
qed

text \<open>A creation that fails leaves the tables as they were or has inserted its row.\<close>

lemma create_savepoint: "savepoint (snd (create x c)) = savepoint c"
proof -
  have "keeps (\<lambda>c'. savepoint c' = savepoint c) (create x)"
    unfolding create_def get_def
    by (intro keeps_bind keeps_last_rowid keeps_query_row)
      (auto simp: insert_row_def Let_def counts_only_def intro!: keeps_statement split: sum.splits)
  then show ?thesis by (simp add: keeps_def)
qed

end

interpretation teams: repository db_teams "\<lambda>t d. d\<lparr>db_teams := t\<rparr>" team_id team_constraints
    "\<lambda>input i now. \<lparr>team_id = i, team_name = nt_name input, team_created_at = now\<rparr>"
    team_from_row team_get_by_id team_create
  by unfold_locales
    (auto simp: registry_ok_def keys_ok_snoc team_constraints_def team_get_by_id_def team_create_def)

interpretation products: repository db_products "\<lambda>t d. d\<lparr>db_products := t\<rparr>" dp_product_id product_constraints
    "\<lambda>input i now. \<lparr>dp_product_id = i, dp_name = np_name input, dp_description = np_description input,
       dp_owner_team_id = np_owner_team_id input, dp_producer = np_producer input,
       dp_usage_policy = np_usage_policy input, dp_intended_use = np_intended_use input,
       dp_created_at = now\<rparr>"
    product_from_row product_get_by_id product_create
  by unfold_locales
    (auto simp: registry_ok_def keys_ok_snoc product_constraints_def product_get_by_id_def product_create_def)

interpretation versions: repository db_versions "\<lambda>t d. d\<lparr>db_versions := t\<rparr>" dv_version_id version_constraints
    "\<lambda>input i now. \<lparr>dv_version_id = i, dv_data_product_id = nv_data_product_id input,
       dv_version_label = nv_version_label input, dv_asset_type = nv_asset_type input,
       dv_source_path = nv_source_path input, dv_data_quality = nv_data_quality input,
       dv_classification = nv_classification input, dv_created_at = now\<rparr>"
    version_from_row version_get_by_id version_create
  by unfold_locales
    (auto simp: registry_ok_def keys_ok_snoc version_constraints_def Let_def version_get_by_id_def
      version_where_def version_create_def)

interpretation metadata_entries: repository db_metadata "\<lambda>t d. d\<lparr>db_metadata := t\<rparr>" me_metadata_id
    metadata_constraints
    "\<lambda>input i now. \<lparr>me_metadata_id = i,
       me_data_product_version_id = nm_data_product_version_id input,
       me_namespace = nm_namespace input, me_key = nm_meta_key input,
       me_value = nm_meta_value input, me_value_type = nm_value_type input, me_created_at = now\<rparr>"
    metadata_from_row metadata_get_by_id metadata_create
  by unfold_locales
    (auto simp: registry_ok_def keys_ok_snoc metadata_constraints_def metadata_get_by_id_def metadata_create_def)

interpretation dependencies: repository db_lineage "\<lambda>t d. d\<lparr>db_lineage := t\<rparr>" ld_dependency_id
    lineage_constraints
    "\<lambda>input i _. \<lparr>ld_dependency_id = i, ld_downstream_version_id = nl_downstream_version_id input,
       ld_upstream_product_uri = nl_upstream_product_uri input,
       ld_upstream_version = nl_upstream_version input\<rparr>"
    lineage_from_row lineage_get_by_id lineage_create
  by unfold_locales
    (auto simp: registry_ok_def keys_ok_snoc lineage_constraints_def lineage_get_by_id_def lineage_create_def)

end
