(* ===== verification/Registry_Proofs.thy ===== *)
theory Registry_Proofs
  imports Registry_Invariant Fs_Rules Example_World
begin

text \<open>
  The properties of the registry service: the invariant of its database, the atomicity of \<open>serve\<close>,
  the round trip from \<open>serve\<close> to \<open>show_product\<close>, and what \<open>consume\<close> does to its destination.
\<close>

section \<open>The invariant of the service\<close>

lemma keeps_in_db: "keeps I m \<Longrightarrow> keeps (\<lambda>s. I (s_conn s)) (in_db m)"
  by (auto simp: keeps_def in_db_def split: prod.splits)

lemma keeps_in_world: "keeps (\<lambda>s. I (s_conn s)) (in_world m)"
  by (auto simp: keeps_def in_world_def split: prod.splits)

lemma keeps_db: "keeps I m \<Longrightarrow> keeps (\<lambda>s. I (s_conn s)) (db m)"
  unfolding db_def by (intro keeps_map_err keeps_in_db)

lemma keeps_db_or_not_found: "keeps I m \<Longrightarrow> keeps (\<lambda>s. I (s_conn s)) (db_or_not_found t m)"
  unfolding db_or_not_found_def by (intro keeps_map_err keeps_in_db)

lemma keeps_fsys: "keeps (\<lambda>s. I (s_conn s)) (fsys E m)"
  unfolding fsys_def by (intro keeps_map_err keeps_in_world)

lemma keeps_checked: "keeps I (checked v)"
  unfolding checked_def by (rule keeps_lift)

lemma keeps_transactions:
  "keeps consistent begin_immediate" "keeps consistent commit_transaction"
  "keeps consistent rollback_transaction"
  unfolding begin_immediate_def commit_transaction_def rollback_transaction_def
  by (rule keeps_statement; auto simp: consistent_def split: option.splits)+

lemma keeps_queries:
  "counts_only I \<Longrightarrow> keeps I (team_get_by_id i)" "counts_only I \<Longrightarrow> keeps I (team_get_by_name n)"
  "counts_only I \<Longrightarrow> keeps I team_get_all"
  "counts_only I \<Longrightarrow> keeps I (product_get_by_id i)" "counts_only I \<Longrightarrow> keeps I (version_get_by_id i)"
  "counts_only I \<Longrightarrow> keeps I (version_get_by_product_and_label i l)"
  "counts_only I \<Longrightarrow> keeps I (version_get_latest_for_product i)"
  "counts_only I \<Longrightarrow> keeps I (version_get_by_source_path p)"
  "counts_only I \<Longrightarrow> keeps I (lineage_get_by_downstream_version i)"
  by (simp_all add: team_get_by_id_def team_get_by_name_def team_get_all_def product_get_by_id_def
      version_get_by_id_def version_get_by_product_and_label_def version_get_latest_for_product_def
      version_get_by_source_path_def version_where_def lineage_get_by_downstream_version_def
      keeps_query_row keeps_query_map)

lemmas keeps_registry =
  keeps_rules keeps_in_db keeps_in_world keeps_db keeps_db_or_not_found keeps_fsys keeps_checked
  keeps_transactions keeps_queries keeps_query_map
  teams.keeps_create products.keeps_create versions.keeps_create dependencies.keeps_create

lemma keeps_copy_dir: "keeps (\<lambda>s. I (s_conn s)) (copy_dir n E source out)"
  by (induction n arbitrary: source out) (auto intro!: keeps_registry)

lemma keeps_parse_product_ref: "counts_only I \<Longrightarrow> keeps (\<lambda>s. I (s_conn s)) (parse_product_ref ref)"
  unfolding parse_product_ref_def by (auto intro!: keeps_registry)

lemma keeps_resolve_product:
  "counts_only I \<Longrightarrow> keeps (\<lambda>s. I (s_conn s)) (resolve_product_with_team ref)"
  "counts_only I \<Longrightarrow> keeps (\<lambda>s. I (s_conn s)) (resolve_version i label)"
  unfolding resolve_product_with_team_def resolve_version_def Let_def
  by (auto intro!: keeps_registry keeps_parse_product_ref)

lemma keeps_lineage: "counts_only I \<Longrightarrow> keeps (\<lambda>s. I (s_conn s)) (lineage_for_version i label)"
  unfolding lineage_for_version_def dependency_detail_def upstream_context_of_def
  by (intro keeps_registry) simp_all

lemma keeps_show: "counts_only I \<Longrightarrow> keeps (\<lambda>s. I (s_conn s)) (show_product ref label)"
  "counts_only I \<Longrightarrow> keeps (\<lambda>s. I (s_conn s)) (lineage_of ref label)"
  unfolding show_product_def lineage_of_def
  by (auto intro!: keeps_registry keeps_resolve_product keeps_lineage)

lemma keeps_search: "counts_only I \<Longrightarrow> keeps (\<lambda>s. I (s_conn s)) (search_products q)"
  unfolding search_products_def by (auto intro!: keeps_registry)

lemma keeps_consume: "counts_only I \<Longrightarrow> keeps (\<lambda>s. I (s_conn s)) (consume E r)"
  unfolding consume_def deliver_def copy_source_def make_room_def remove_existing_def copy_dir_recursive_def Let_def
  by (intro keeps_registry keeps_show keeps_copy_dir)

lemma keeps_serve_rows: "keeps (\<lambda>s. consistent (s_conn s)) (serve_rows r source)"
  unfolding serve_rows_def get_or_create_team_def by (intro keeps_registry) simp_all

lemma keeps_serve: "keeps (\<lambda>s. consistent (s_conn s)) (serve E r)"
  unfolding serve_def in_transaction_def anchor_legacy_source_def
  by (intro keeps_registry keeps_serve_rows)

text \<open>C18. Every operation of the registry service keeps the database in order, whatever statement
  or file-system call fails: keys are unique and below their counters, team names, labels per
  product and source paths are unique, and every reference leads to a row. This holds of the state
  inside a transaction and of the one it would roll back to.\<close>

theorem registry_invariant:
  assumes "consistent (s_conn s)"
  shows "consistent (s_conn (snd (serve E r s))) \<and>
    consistent (s_conn (snd (register_team name s))) \<and>
    consistent (s_conn (snd (register_data_product dp s))) \<and>
    consistent (s_conn (snd (register_data_product_version dv s))) \<and>
    consistent (s_conn (snd (register_lineage_dependency ld s))) \<and>
    consistent (s_conn (snd (search_products q s))) \<and>
    consistent (s_conn (snd (show_product ref label s))) \<and>
    consistent (s_conn (snd (lineage_of ref label s))) \<and>
    consistent (s_conn (snd (consume E cr s)))"
proof -
  have kept: "consistent (s_conn (snd (m s)))" if "keeps (\<lambda>s. consistent (s_conn s)) m"
    for m :: "(session, 'e, 'a) io"
    using that assms by (simp add: keeps_def)
  show ?thesis
    by (intro conjI kept keeps_serve keeps_search keeps_show keeps_consume counts_only_consistent)
      (auto simp: register_team_def register_data_product_def register_data_product_version_def
        register_lineage_dependency_def intro!: keeps_registry)
qed

text \<open>A session on an empty database in the example world.\<close>

definition demo_conn :: db_connection where
  "demo_conn = \<lparr>tables = init_schema, savepoint = None, last_rowid = 0, statements = 0,
     sql_faults = (\<lambda>_. None), sql_now = (\<lambda>_. ''then''), parse_datetime = Some\<rparr>"

definition demo_session :: session where
  "demo_session = \<lparr>s_world = demo_world, s_conn = demo_conn\<rparr>"

lemma registry_invariant_witness:
  "\<exists>t s'. register_team ''t'' demo_session = (Inr t, s') \<and> consistent (s_conn s')"
proof -
  let ?run = "register_team ''t'' demo_session"
  have "is_ok (fst ?run)" by code_simp
  then obtain t s' where run: "?run = (Inr t, s')" by (cases ?run) (auto simp: is_ok_iff)
  have "consistent (s_conn demo_session)"
    by (simp add: demo_session_def demo_conn_def consistent_def registry_ok_init)
  from registry_invariant [OF this, where name = "''t''"] run show ?thesis by simp
qed

section \<open>The atomicity of serving\<close>

lemma keeps_savepoint:
  "keeps (\<lambda>c. savepoint c = x) (team_create a)" "keeps (\<lambda>c. savepoint c = x) (product_create b)"
  "keeps (\<lambda>c. savepoint c = x) (version_create i)" "keeps (\<lambda>c. savepoint c = x) (lineage_create l)"
  by (simp_all add: keeps_def teams.create_savepoint products.create_savepoint versions.create_savepoint
      dependencies.create_savepoint)

lemma counts_only_savepoint: "counts_only (\<lambda>c. savepoint c = x)"
  by (simp add: counts_only_def)

lemma keeps_world_db:
  "keeps (\<lambda>s. s_world s = w) (in_db m)" "keeps (\<lambda>s. s_world s = w) (db m)"
  "keeps (\<lambda>s. s_world s = w) (db_or_not_found t m)"
  by (auto simp: keeps_def in_db_def db_def db_or_not_found_def io_map_err_def split: prod.splits)

lemma serve_rows_scope:
  assumes "serve_rows r source s = (res, s')"
  shows "savepoint (s_conn s') = savepoint (s_conn s)" "s_world s' = s_world s"
proof -
  have "keeps (\<lambda>s'. savepoint (s_conn s') = savepoint (s_conn s)) (serve_rows r source)"
    unfolding serve_rows_def get_or_create_team_def
    by (intro keeps_rules keeps_in_db keeps_db keeps_savepoint keeps_queries counts_only_savepoint)
  from keepsD [OF this _ assms] show "savepoint (s_conn s') = savepoint (s_conn s)" by simp
  have "keeps (\<lambda>s'. s_world s' = s_world s) (serve_rows r source)"
    unfolding serve_rows_def get_or_create_team_def by (intro keeps_rules keeps_world_db)
  from keepsD [OF this _ assms] show "s_world s' = s_world s" by simp
qed

lemma serve_rows_scope':
  "serve_rows r source s = (res, s') \<Longrightarrow>
   savepoint (s_conn s') = savepoint (s_conn s) \<and> s_world s' = s_world s"
  using serve_rows_scope by blast

lemma begin_cases:
  assumes "db begin_immediate s = (res, s')"
  obtains (refused) e where "res = Inl e" "durable (s_conn s') = durable (s_conn s)" "s_world s' = s_world s"
  | (begun) "res = Inr ()" "savepoint (s_conn s) = None" "savepoint (s_conn s') = Some (tables (s_conn s))"
      "tables (s_conn s') = tables (s_conn s)" "s_world s' = s_world s"
      "parse_datetime (s_conn s') = parse_datetime (s_conn s)"
  using assms
  by (auto simp: db_def io_map_err_def in_db_def begin_immediate_def statement_def durable_def
      split: prod.splits option.splits)

text \<open>What other connections see changes only by a commit.\<close>

lemma transaction_cases:
  assumes "in_transaction body s = (res, s')"
    and scope: "\<And>s1 r s2. body s1 = (r, s2) \<Longrightarrow>
      savepoint (s_conn s2) = savepoint (s_conn s1) \<and> s_world s2 = s_world s1"
  obtains (failed) e where "res = Inl e" "durable (s_conn s') = durable (s_conn s)" "s_world s' = s_world s"
  | (committed) x s1 s2 where "res = Inr x" "tables (s_conn s1) = tables (s_conn s)"
      "savepoint (s_conn s) = None" "savepoint (s_conn s1) = Some (tables (s_conn s))" "parse_datetime (s_conn s1) = parse_datetime (s_conn s)"
      "body s1 = (Inr x, s2)" "tables (s_conn s') = tables (s_conn s2)" "savepoint (s_conn s') = None"
      "parse_datetime (s_conn s') = parse_datetime (s_conn s2)" "s_world s' = s_world s"
proof -
  obtain b s1 where b: "db begin_immediate s = (b, s1)" by (cases "db begin_immediate s")
  then show ?thesis
  proof (cases rule: begin_cases)
    case (refused e)
    then show ?thesis using assms(1) b by (intro failed) (auto simp: in_transaction_def io_bind_def)
  next
    case begun
    obtain x s2 where x: "body s1 = (x, s2)" by (cases "body s1")
    note sc = scope [OF x]
    have eq: "in_transaction body s = (case x of
        Inr response \<Rightarrow> io_bind (io_try (in_db commit_transaction)) (\<lambda>c. case c of
          Inr _ \<Rightarrow> io_ret response
        | Inl err \<Rightarrow> io_bind (io_try (in_db rollback_transaction)) (\<lambda>_. io_err (Database err)))
      | Inl err \<Rightarrow> io_bind (io_try (in_db rollback_transaction)) (\<lambda>_. io_err err)) s2"
      using b begun(1) x by (simp add: in_transaction_def io_bind_def io_try_def)
    show ?thesis
    proof (cases x)
      case (Inl e)
      with eq assms(1) sc begun show ?thesis
        by (intro failed)
          (auto simp: io_defs in_db_def rollback_transaction_def statement_def durable_def split: option.splits)
    next
      case (Inr y)
      show ?thesis
      proof (cases "sql_faults (s_conn s2) (statements (s_conn s2))")
        case None
        with eq Inr assms(1) sc begun x show ?thesis
          by (intro committed [of y s1 s2]) (auto simp: io_defs in_db_def commit_transaction_def statement_def)
      next
        case (Some e)
        with eq Inr assms(1) sc begun show ?thesis
          by (intro failed)
            (auto simp: io_defs in_db_def commit_transaction_def rollback_transaction_def statement_def
              durable_def split: option.splits)
      qed
    qed
  qed
qed

lemma serve_transaction:
  assumes "in_transaction (serve_rows r source) s = (res, s')"
  obtains (failed) e where "res = Inl e" "durable (s_conn s') = durable (s_conn s)" "s_world s' = s_world s"
  | (committed) x s1 s2 where "res = Inr x" "registry_ok (tables (s_conn s)) \<Longrightarrow> consistent (s_conn s1)"
      "serve_rows r source s1 = (Inr x, s2)" "tables (s_conn s') = tables (s_conn s2)"
      "savepoint (s_conn s') = None" "s_world s' = s_world s"
proof (rule transaction_cases [OF assms serve_rows_scope'], goal_cases)
  case (2 e)
  from 2(3-5) show ?thesis by (rule failed)
next
  case (3 x s1 s2)
  then show ?thesis by (intro 3(2) [of x s1 s2]) (auto simp: consistent_def)
qed

lemma readonly_world: "readonly m \<Longrightarrow> keeps (\<lambda>s. disk (s_world s) = f) (in_world m)"
  by (auto simp: keeps_def in_world_def split: prod.splits dest: readonlyD)

lemma anchor_scope:
  assumes "anchor_legacy_source E p s = (r, s')"
  shows "s_conn s' = s_conn s" "disk (s_world s') = disk (s_world s)"
proof -
  have "keeps (\<lambda>s'. s_conn s' = s_conn s) (anchor_legacy_source E p)"
    unfolding anchor_legacy_source_def by (intro keeps_rules keeps_in_world)
  from keepsD [OF this _ assms] show "s_conn s' = s_conn s" by simp
  have "keeps (\<lambda>s'. disk (s_world s') = disk (s_world s)) (anchor_legacy_source E p)"
    unfolding anchor_legacy_source_def by (intro keeps_rules readonly_world) (auto intro!: readonly_rules)
  from keepsD [OF this _ assms] show "disk (s_world s') = disk (s_world s)" by simp
qed

lemma serve_cases:
  assumes "serve E r s = (res, s')"
  obtains (early) e where "res = Inl e" "s_conn s' = s_conn s" "disk (s_world s') = disk (s_world s)"
  | (ran) source s1 where "anchor_legacy_source E (sv_source_path r) s = (Inr source, s1)" "source \<noteq> []"
      "validate_serve_request r = Inr ()"
      "in_transaction (serve_rows r source) s1 = (res, s')"
proof -
  obtain a s1 where a: "anchor_legacy_source E (sv_source_path r) s = (a, s1)"
    by (cases "anchor_legacy_source E (sv_source_path r) s")
  note sc = anchor_scope [OF a]
  show ?thesis
  proof (cases "validate_serve_request r")
    case (Inl e)
    then show ?thesis using assms by (intro early) (auto simp: serve_def checked_def)
  next
    case valid: (Inr u)
    show ?thesis
    proof (cases a)
      case (Inl e)
      then show ?thesis using assms valid a sc by (intro early) (auto simp: serve_def checked_def io_defs)
    next
      case (Inr p)
      note eq = assms [unfolded serve_def checked_def io_defs source_reference_def] valid a Inr
      show ?thesis
      proof (cases "p = []")
        case True
        with eq sc show ?thesis by (intro early) auto
      next
        case False
        with eq show ?thesis by (intro ran [of p s1]) auto
      qed
    qed
  qed
qed

lemma serve_failed:
  assumes "serve E r s = (Inl e, s')"
  shows "durable (s_conn s') = durable (s_conn s)" "disk (s_world s') = disk (s_world s)"
proof -
  have "durable (s_conn s') = durable (s_conn s) \<and> disk (s_world s') = disk (s_world s)"
    using assms
  proof (cases rule: serve_cases)
    case (ran source s1)
    note a = anchor_scope [OF ran(1)]
    from ran(4) show ?thesis
      by (cases rule: serve_transaction) (use a in \<open>auto simp: durable_def\<close>)
  qed simp
  then show "durable (s_conn s') = durable (s_conn s)" "disk (s_world s') = disk (s_world s)" by simp_all
qed

text \<open>C16. \<open>serve\<close> is all or nothing: when it reports an error, at whatever statement (the \<open>COMMIT\<close>
  and the \<open>ROLLBACK\<close> included), no other connection sees a team, a product, a version or a lineage
  row of it, and no file was written.\<close>

theorem serve_is_atomic:
  assumes "serve E r s = (Inl e, s')"
  shows "durable (s_conn s') = durable (s_conn s) \<and> disk (s_world s') = disk (s_world s)"
  using serve_failed [OF assms] by simp

definition demo_serve :: serve_request where
  "demo_serve = \<lparr>sv_source_path = ''a.csv'', sv_name = ''A'', sv_asset_type = Asset_File, sv_version = ''1'',
     sv_owner_team = ''Ops'', sv_producer = ''P'', sv_usage_policy = ''any'', sv_data_quality = Production,
     sv_classification = Internal, sv_description = None, sv_intended_use = None,
     sv_lineage = [\<lparr>rl_source = ''/up'', rl_version = None\<rparr>]\<rparr>"

text \<open>The same with a statement that fails: here the insertion of the version.\<close>

definition failing :: "nat \<Rightarrow> session \<Rightarrow> session" where
  "failing n s = s\<lparr>s_conn := (s_conn s)\<lparr>sql_faults := (\<lambda>i. if i = n then Some ''disk I/O error'' else None)\<rparr>\<rparr>"

lemma serve_is_atomic_witness:
  "\<exists>e s'. serve demo_ext demo_serve (failing 6 demo_session) = (Inl e, s') \<and>
     durable (s_conn s') = init_schema"
proof -
  let ?run = "serve demo_ext demo_serve (failing 6 demo_session)"
  have "\<not> is_ok (fst ?run)" by code_simp
  then obtain e s' where run: "?run = (Inl e, s')" by (cases ?run; cases "fst ?run") auto
  have "durable (s_conn (failing 6 demo_session)) = init_schema"
    by (simp add: failing_def demo_session_def demo_conn_def durable_def)
  with serve_is_atomic [OF run] run show ?thesis by auto
qed

end
