(* ===== verification/Registry_Roundtrip.thy ===== *)
theory Registry_Roundtrip
  imports Registry_Proofs
begin

text \<open>
  From \<open>serve\<close> to \<open>show_product\<close> and \<open>search_products\<close>: what was registered is what is shown.
\<close>

section \<open>What serving leaves in the tables\<close>

lemma db_ok: "db m s = (Inr a, s') \<longleftrightarrow> (\<exists>c. m (s_conn s) = (Inr a, c) \<and> s' = s\<lparr>s_conn := c\<rparr>)"
  by (auto simp: db_def in_db_def split: prod.splits)

lemma query_row_ok:
  assumes "query_row from_row q c = (Inr a, c')"
  shows "\<exists>r rs. q (tables c) = r # rs \<and> from_row c' r = Inr a \<and> tables c' = tables c"
  using assms
  by (auto simp: query_row_def select_def statement_def converted_def elim!: io_bindE
      split: option.splits list.splits)

lemma keeps_conn: "keeps (\<lambda>s. I (s_conn s)) m \<Longrightarrow> m s = (r, s') \<Longrightarrow> I (s_conn s) \<Longrightarrow> I (s_conn s')"
  by (rule keepsD)

lemma team_ok:
  assumes "get_or_create_team name s = (Inr t, s')" "consistent (s_conn s)"
  shows "\<exists>t0 \<in> set (t_rows (db_teams (tables (s_conn s')))). team_id t0 = team_id t \<and>
    lower (team_name t0) = lower name \<and> db_lineage (tables (s_conn s')) = db_lineage (tables (s_conn s)) \<and>
    db_versions (tables (s_conn s')) = db_versions (tables (s_conn s))"
proof -
  from assms(1) obtain g s1 where g: "in_db (team_get_by_name name) s = (g, s1)"
    and rest: "(case g of Inr team \<Rightarrow> io_ret team
      | Inl e \<Rightarrow> if e = Query_Returned_No_Rows then db (team_create \<lparr>nt_name = name\<rparr>) else io_err (Database e)) s1
      = (Inr t, s')"
    unfolding get_or_create_team_def by (auto simp: io_try_def elim!: io_bindE split: prod.splits)
  show ?thesis
  proof (cases g)
    case (Inr team)
    with rest have "team = t" "s' = s1" by auto
    with g Inr obtain c where q: "team_get_by_name name (s_conn s) = (Inr t, c)" "s' = s\<lparr>s_conn := c\<rparr>"
      by (auto simp: in_db_def split: prod.splits)
    from query_row_ok [OF q(1) [unfolded team_get_by_name_def]] obtain r rs where
      r: "filter (\<lambda>r. lower (team_name r) = lower name) (t_rows (db_teams (tables (s_conn s)))) = r # rs"
        "team_from_row c r = Inr t" "tables c = tables (s_conn s)"
      by auto
    have "r \<in> set (filter (\<lambda>r. lower (team_name r) = lower name) (t_rows (db_teams (tables (s_conn s)))))"
      unfolding r(1) by simp
    then have "r \<in> set (t_rows (db_teams (tables (s_conn s))))" "lower (team_name r) = lower name" by simp_all
    with r(2,3) q(2) show ?thesis by (intro bexI [of _ r]) (auto simp: team_from_row_def)
  next
    case (Inl e)
    with rest have c: "db (team_create \<lparr>nt_name = name\<rparr>) s1 = (Inr t, s')" by (auto split: if_splits)
    have same: "tables (s_conn s1) = tables (s_conn s)"
      using g by (auto simp: in_db_def team_get_by_name_def query_row_def select_def statement_def converted_def
          io_bind_def io_err_def split: prod.splits option.splits list.splits)
    have ok: "registry_ok (tables (s_conn s1))" using assms(2) same by (simp add: consistent_def)
    from c obtain c' where tc: "team_create \<lparr>nt_name = name\<rparr> (s_conn s1) = (Inr t, c')" and s': "s' = s1\<lparr>s_conn := c'\<rparr>"
      by (auto simp: db_ok)
    from teams.create_ok [OF tc ok] show ?thesis
      by (auto simp: s' same Let_def team_from_row_def)
  qed
qed

lemma product_ok:
  assumes "db (product_create input) s = (Inr p, s')" "consistent (s_conn s)"
  shows "\<exists>p0 \<in> set (t_rows (db_products (tables (s_conn s')))). dp_product_id p0 = dp_product_id p \<and>
    dp_name p = np_name input \<and>
    dp_name p0 = np_name input \<and> dp_description p0 = np_description input \<and>
    dp_owner_team_id p0 = np_owner_team_id input \<and> dp_producer p0 = np_producer input \<and>
    dp_usage_policy p0 = np_usage_policy input \<and> dp_intended_use p0 = np_intended_use input \<and>
    db_teams (tables (s_conn s')) = db_teams (tables (s_conn s)) \<and>
    db_versions (tables (s_conn s')) = db_versions (tables (s_conn s)) \<and>
    db_lineage (tables (s_conn s')) = db_lineage (tables (s_conn s))"
proof -
  from assms(1) obtain c where c: "product_create input (s_conn s) = (Inr p, c)" "s' = s\<lparr>s_conn := c\<rparr>"
    by (auto simp: db_ok)
  have "registry_ok (tables (s_conn s))" using assms(2) by (simp add: consistent_def)
  from products.create_ok [OF c(1) this] show ?thesis
    by (auto simp: c(2) Let_def product_from_row_def)
qed

lemma version_ok:
  assumes "db (version_create input) s = (Inr v, s')" "consistent (s_conn s)"
  shows "\<exists>v0 \<in> set (t_rows (db_versions (tables (s_conn s')))). dv_version_id v0 = dv_version_id v \<and>
    dv_version_label v = nv_version_label input \<and>
    dv_data_product_id v0 = nv_data_product_id input \<and> dv_version_label v0 = nv_version_label input \<and>
    dv_asset_type v0 = nv_asset_type input \<and> dv_source_path v0 = nv_source_path input \<and>
    dv_data_quality v0 = nv_data_quality input \<and> dv_classification v0 = nv_classification input \<and>
    dv_version_id v \<notin> dv_version_id ` set (t_rows (db_versions (tables (s_conn s)))) \<and>
    db_teams (tables (s_conn s')) = db_teams (tables (s_conn s)) \<and>
    db_products (tables (s_conn s')) = db_products (tables (s_conn s)) \<and>
    db_lineage (tables (s_conn s')) = db_lineage (tables (s_conn s))"
proof -
  from assms(1) obtain c where c: "version_create input (s_conn s) = (Inr v, c)" "s' = s\<lparr>s_conn := c\<rparr>"
    by (auto simp: db_ok)
  have ok: "registry_ok (tables (s_conn s))" using assms(2) by (simp add: consistent_def)
  have fresh: "t_seq (db_versions (tables (s_conn s))) + 1 \<notin> dv_version_id ` set (t_rows (db_versions (tables (s_conn s))))"
    using keys_ok_fresh [OF versions.in_order [OF ok]] by force
  from versions.create_ok [OF c(1) ok] fresh show ?thesis
    by (auto simp: c(2) Let_def version_from_row_def)
qed

text \<open>The lineage rows of one version, in the order they were given.\<close>

definition lineage_pairs :: "int \<Rightarrow> registry_db \<Rightarrow> (string \<times> string option) list" where
  "lineage_pairs i d =
     map (\<lambda>l. (ld_upstream_product_uri l, ld_upstream_version l))
       (filter (\<lambda>l. ld_downstream_version_id l = i) (t_rows (db_lineage d)))"

lemma lineage_ok:
  assumes "io_for (\<lambda>l. io_bind (db (lineage_create
      \<lparr>nl_downstream_version_id = i, nl_upstream_product_uri = rl_source l,
       nl_upstream_version = rl_version l\<rparr>)) (\<lambda>_. io_ret ())) ls s = (Inr u, s')"
    and "consistent (s_conn s)"
  shows "lineage_pairs i (tables (s_conn s')) =
      lineage_pairs i (tables (s_conn s)) @ map (\<lambda>l. (rl_source l, rl_version l)) ls \<and>
    db_teams (tables (s_conn s')) = db_teams (tables (s_conn s)) \<and>
    db_products (tables (s_conn s')) = db_products (tables (s_conn s)) \<and>
    db_versions (tables (s_conn s')) = db_versions (tables (s_conn s))"
  using assms
proof (induction ls arbitrary: s)
  case (Cons l ls)
  let ?new = "\<lparr>nl_downstream_version_id = i, nl_upstream_product_uri = rl_source l,
       nl_upstream_version = rl_version l\<rparr>"
  from Cons.prems(1) obtain a s1 where a: "db (lineage_create ?new) s = (Inr a, s1)"
    and rest: "io_for (\<lambda>l. io_bind (db (lineage_create
      \<lparr>nl_downstream_version_id = i, nl_upstream_product_uri = rl_source l,
       nl_upstream_version = rl_version l\<rparr>)) (\<lambda>_. io_ret ())) ls s1 = (Inr u, s')"
    by (auto elim!: io_bindE)
  have c1: "consistent (s_conn s1)"
    by (rule keepsD [OF keeps_db [OF dependencies.keeps_create] _ a]) (rule Cons.prems(2))
  from a obtain c where c: "lineage_create ?new (s_conn s) = (Inr a, c)" "s1 = s\<lparr>s_conn := c\<rparr>"
    by (auto simp: db_ok)
  have "registry_ok (tables (s_conn s))" using Cons.prems(2) by (simp add: consistent_def)
  from dependencies.create_ok [OF c(1) this] Cons.IH [OF rest c1] show ?case
    by (auto simp: c(2) Let_def lineage_pairs_def)
qed simp

text \<open>The rows a request turns into.\<close>

definition rows_of_request ::
  "serve_request \<Rightarrow> serve_response \<Rightarrow> registry_db \<Rightarrow> team \<Rightarrow> data_product \<Rightarrow> data_product_version \<Rightarrow> bool" where
  "rows_of_request r resp d t p v \<longleftrightarrow>
     t \<in> set (t_rows (db_teams d)) \<and> lower (team_name t) = lower (sv_owner_team r) \<and>
     p \<in> set (t_rows (db_products d)) \<and> dp_product_id p = sx_product_id resp \<and> dp_name p = sv_name r \<and>
     dp_description p = sv_description r \<and> dp_owner_team_id p = team_id t \<and>
     dp_producer p = sv_producer r \<and> dp_usage_policy p = sv_usage_policy r \<and>
     dp_intended_use p = sv_intended_use r \<and>
     v \<in> set (t_rows (db_versions d)) \<and> dv_version_id v = sx_version_id resp \<and>
     dv_data_product_id v = sx_product_id resp \<and> dv_version_label v = sv_version r \<and>
     dv_asset_type v = asset_type_str (sv_asset_type r) \<and> dv_source_path v = sx_source_reference resp \<and>
     dv_data_quality v = data_quality_str (sv_data_quality r) \<and>
     dv_classification v = classification_str (sv_classification r) \<and>
     lineage_pairs (sx_version_id resp) d = map (\<lambda>l. (rl_source l, rl_version l)) (sv_lineage r)"

lemma serve_rows_ok:
  assumes run: "serve_rows r source s = (Inr resp, s')" and start: "consistent (s_conn s)"
  shows "\<exists>t p v. rows_of_request r resp (tables (s_conn s')) t p v \<and>
    sx_source_reference resp = source \<and> consistent (s_conn s')"
proof -
  from run obtain t s1 p s2 v s3 u s4 where
    t: "get_or_create_team (sv_owner_team r) s = (Inr t, s1)" and
    p: "db (product_create \<lparr>np_name = sv_name r, np_description = sv_description r,
          np_owner_team_id = team_id t, np_producer = sv_producer r,
          np_usage_policy = sv_usage_policy r, np_intended_use = sv_intended_use r\<rparr>) s1 = (Inr p, s2)" and
    v: "db (version_create \<lparr>nv_data_product_id = dp_product_id p,
          nv_version_label = sv_version r, nv_asset_type = asset_type_str (sv_asset_type r),
          nv_source_path = source, nv_data_quality = data_quality_str (sv_data_quality r),
          nv_classification = classification_str (sv_classification r)\<rparr>) s2 = (Inr v, s3)" and
    l: "io_for (\<lambda>l. io_bind (db (lineage_create
          \<lparr>nl_downstream_version_id = dv_version_id v, nl_upstream_product_uri = rl_source l,
           nl_upstream_version = rl_version l\<rparr>)) (\<lambda>_. io_ret ())) (sv_lineage r) s3 = (Inr u, s')" and
    resp: "resp = \<lparr>sx_product_id = dp_product_id p, sx_version_id = dv_version_id v,
             sx_name = dp_name p, sx_version = dv_version_label v,
             sx_source_reference = source, sx_status = ''published''\<rparr>"
    unfolding serve_rows_def by (auto elim!: io_bindE)
  have "keeps (\<lambda>s. consistent (s_conn s)) (get_or_create_team (sv_owner_team r))"
    unfolding get_or_create_team_def by (intro keeps_registry) simp
  from keepsD [OF this _ t] start have c1: "consistent (s_conn s1)" by simp
  from keepsD [OF keeps_db [OF products.keeps_create] _ p] c1 have c2: "consistent (s_conn s2)" by simp
  from keepsD [OF keeps_db [OF versions.keeps_create] _ v] c2 have c3: "consistent (s_conn s3)" by simp
  from keepsD [OF keeps_serve_rows _ run] start have c4: "consistent (s_conn s')" by simp
  from team_ok [OF t start] obtain t0 where t0: "t0 \<in> set (t_rows (db_teams (tables (s_conn s1))))"
    "team_id t0 = team_id t" "lower (team_name t0) = lower (sv_owner_team r)" by blast
  from product_ok [OF p c1] obtain p0 where p0: "p0 \<in> set (t_rows (db_products (tables (s_conn s2))))"
    "dp_product_id p0 = dp_product_id p" "dp_name p = sv_name r" "dp_name p0 = sv_name r"
    "dp_description p0 = sv_description r" "dp_owner_team_id p0 = team_id t" "dp_producer p0 = sv_producer r"
    "dp_usage_policy p0 = sv_usage_policy r" "dp_intended_use p0 = sv_intended_use r"
    "db_teams (tables (s_conn s2)) = db_teams (tables (s_conn s1))" by auto
  from version_ok [OF v c2] obtain v0 where v0: "v0 \<in> set (t_rows (db_versions (tables (s_conn s3))))"
    "dv_version_id v0 = dv_version_id v" "dv_version_label v = sv_version r"
    "dv_data_product_id v0 = dp_product_id p" "dv_version_label v0 = sv_version r"
    "dv_asset_type v0 = asset_type_str (sv_asset_type r)" "dv_source_path v0 = source"
    "dv_data_quality v0 = data_quality_str (sv_data_quality r)"
    "dv_classification v0 = classification_str (sv_classification r)"
    "dv_version_id v \<notin> dv_version_id ` set (t_rows (db_versions (tables (s_conn s2))))"
    "db_teams (tables (s_conn s3)) = db_teams (tables (s_conn s2))"
    "db_products (tables (s_conn s3)) = db_products (tables (s_conn s2))"
    "db_lineage (tables (s_conn s3)) = db_lineage (tables (s_conn s2))" by auto
  have "\<forall>l \<in> set (t_rows (db_lineage (tables (s_conn s2)))).
      ld_downstream_version_id l \<in> dv_version_id ` set (t_rows (db_versions (tables (s_conn s2))))"
    using c2 unfolding consistent_def registry_ok_def by blast
  with v0(10) have "lineage_pairs (dv_version_id v) (tables (s_conn s3)) = []"
    unfolding lineage_pairs_def v0(13) map_is_Nil_conv filter_empty_conv by (metis image_eqI)
  with lineage_ok [OF l c3] t0 p0 v0 resp c4 show ?thesis
    by (intro exI [of _ t0] exI [of _ p0] exI [of _ v0]) (simp add: rows_of_request_def)
qed

section \<open>Reading a quiet database\<close>

text \<open>
  \<open>gives d P m x\<close>: over a database that holds \<open>d\<close>, reads timestamps with \<open>P\<close> and does not fail,
  \<open>m\<close> returns \<open>x\<close> and leaves it so.
\<close>

definition calm :: "registry_db \<Rightarrow> (string \<Rightarrow> string option) \<Rightarrow> session \<Rightarrow> bool" where
  "calm d P u \<longleftrightarrow>
     tables (s_conn u) = d \<and> sql_faults (s_conn u) = (\<lambda>_. None) \<and> parse_datetime (s_conn u) = P"

definition gives :: "registry_db \<Rightarrow> (string \<Rightarrow> string option) \<Rightarrow> 'a registry \<Rightarrow> 'a \<Rightarrow> bool" where
  "gives d P m x \<longleftrightarrow> (\<forall>u. calm d P u \<longrightarrow> (\<exists>u'. m u = (Inr x, u') \<and> calm d P u'))"

named_theorems gives_rules \<open>reading a quiet database\<close>

lemma gives_bind [gives_rules]: "gives d P m x \<Longrightarrow> gives d P (f x) y \<Longrightarrow> gives d P (io_bind m f) y"
  by (fastforce simp: gives_def io_bind_def)

lemma gives_ret [gives_rules]: "gives d P (io_ret x) x"
  by (simp add: gives_def io_ret_def)

lemma gives_checked [gives_rules]: "v = Inr x \<Longrightarrow> gives d P (checked v) x"
  by (simp add: gives_def checked_def io_ret_def)

lemma calm_row:
  assumes "calm d P u" "q d = r # rs" "\<And>c. parse_datetime c = P \<Longrightarrow> from_row c r = Inr a"
  shows "\<exists>u'. in_db (query_row from_row q) u = (Inr a, u') \<and> calm d P u'"
  using assms by (auto simp: calm_def in_db_def query_row_def select_def statement_def converted_def io_bind_def)

lemma calm_no_row:
  assumes "calm d P u" "q d = []"
  shows "\<exists>u'. in_db (query_row from_row q) u = (Inl Query_Returned_No_Rows, u') \<and> calm d P u'"
  using assms by (auto simp: calm_def in_db_def query_row_def select_def statement_def io_bind_def io_err_def)

lemma gives_row:
  assumes "q d = r # rs" "\<And>c. parse_datetime c = P \<Longrightarrow> from_row c r = Inr a"
  shows "gives d P (db (query_row from_row q)) a"
    "gives d P (db_or_not_found t (query_row from_row q)) a"
  using calm_row [of d P _ q r rs from_row a, OF _ assms]
  by (force simp: gives_def db_def db_or_not_found_def io_map_err_def)+

lemma gives_map:
  assumes "\<And>c r. from_row c r = Inr r"
  shows "gives d P (db (query_map from_row q)) (q d)"
proof -
  have conv: "converted from_row r = io_ret r" for r
    using assms by (simp add: converted_def io_ret_def fun_eq_iff)
  have t: "io_traverse (converted from_row) xs = io_ret xs" for xs
    by (induction xs) (simp_all add: conv)
  show ?thesis
    by (auto simp: gives_def db_def in_db_def query_map_def t [abs_def] select_def statement_def calm_def io_bind_def io_ret_def
        io_map_err_def)
qed

definition timestamps_ok :: "registry_db \<Rightarrow> (string \<Rightarrow> string option) \<Rightarrow> bool" where
  "timestamps_ok d P \<longleftrightarrow>
     (\<forall>t \<in> set (t_rows (db_teams d)). P (team_created_at t) \<noteq> None) \<and>
     (\<forall>p \<in> set (t_rows (db_products d)). P (dp_created_at p) \<noteq> None) \<and>
     (\<forall>v \<in> set (t_rows (db_versions d)). P (dv_created_at v) \<noteq> None)"

lemma filter_key: "distinct (map f xs) \<Longrightarrow> x \<in> set xs \<Longrightarrow> filter (\<lambda>r. f r = f x) xs = [x]"
proof (induction xs)
  case (Cons y xs)
  then show ?case
    by (auto simp: filter_empty_conv) (metis image_eqI)+
qed simp

lemma row_by_key:
  assumes "keys_ok key t" "r \<in> set (t_rows t)"
  shows "filter (\<lambda>x. key x = key r) (t_rows t) = [r]"
  using keys_ok_distinct [OF assms(1)] assms(2) by (rule filter_key)

lemma rows_sorted: "keys_ok key t \<Longrightarrow> sort_key key (filter p (t_rows t)) = filter p (t_rows t)"
  by (intro sort_key_id_if_sorted sorted_filter) (simp add: keys_ok_def strict_sorted_iff)

lemma gives_team:
  assumes "registry_ok d" "timestamps_ok d P" "t \<in> set (t_rows (db_teams d))"
  shows "\<exists>t'. team_name t' = team_name t \<and> gives d P (db (team_get_by_id (team_id t))) t'"
proof -
  obtain x where "P (team_created_at t) = Some x" using assms(2,3) by (auto simp: timestamps_ok_def)
  then have "gives d P (db (team_get_by_id (team_id t))) (t\<lparr>team_created_at := x\<rparr>)"
    unfolding team_get_by_id_def
    using row_by_key [OF teams.in_order [OF assms(1)] assms(3)]
    by (intro gives_row(1)) (auto simp: team_from_row_def parse_naive_datetime_def)
  then show ?thesis by (intro exI [of _ "t\<lparr>team_created_at := x\<rparr>"]) simp
qed

lemma gives_product:
  assumes "registry_ok d" "timestamps_ok d P" "p \<in> set (t_rows (db_products d))"
  shows "\<exists>x. gives d P (db (product_get_by_id (dp_product_id p))) (p\<lparr>dp_created_at := x\<rparr>) \<and>
    gives d P (db_or_not_found text (product_get_by_id (dp_product_id p))) (p\<lparr>dp_created_at := x\<rparr>)"
proof -
  obtain x where x: "P (dp_created_at p) = Some x" using assms(2,3) by (auto simp: timestamps_ok_def)
  note row = row_by_key [OF products.in_order [OF assms(1)] assms(3)]
  have "product_from_row c p = Inr (p\<lparr>dp_created_at := x\<rparr>)" if "parse_datetime c = P" for c
    using x that by (simp add: product_from_row_def parse_naive_datetime_def)
  with row show ?thesis
    unfolding product_get_by_id_def by (intro exI [of _ x] conjI gives_row)
qed

text \<open>Any selection of versions that is exactly one row.\<close>

lemma gives_version:
  assumes "timestamps_ok d P" "filter q (t_rows (db_versions d)) = [v]"
  shows "\<exists>x. gives d P (db (version_where q)) (v\<lparr>dv_created_at := x\<rparr>) \<and>
    (\<forall>text. gives d P (db_or_not_found text (version_where q)) (v\<lparr>dv_created_at := x\<rparr>)) \<and>
    (\<forall>u. calm d P u \<longrightarrow> (\<exists>u'. in_db (version_where q) u = (Inr (v\<lparr>dv_created_at := x\<rparr>), u') \<and> calm d P u'))"
proof -
  have "v \<in> set (filter q (t_rows (db_versions d)))" unfolding assms(2) by simp
  then obtain x where x: "P (dv_created_at v) = Some x" using assms(1) by (auto simp: timestamps_ok_def)
  have conv: "version_from_row c v = Inr (v\<lparr>dv_created_at := x\<rparr>)" if "parse_datetime c = P" for c
    using x that by (simp add: version_from_row_def parse_naive_datetime_def)
  show ?thesis
    unfolding version_where_def
    by (intro exI [of _ x] conjI allI impI gives_row [where r = v and rs = "[]"]
        calm_row [where r = v and rs = "[]"] conv) (simp_all add: assms(2))
qed

section \<open>Showing\<close>

text \<open>A row as it is read differs from the row in the table in its timestamp only.\<close>

lemma stamped:
  "dv_version_id (v\<lparr>dv_created_at := x\<rparr>) = dv_version_id v"
  "dv_data_product_id (v\<lparr>dv_created_at := x\<rparr>) = dv_data_product_id v"
  "dv_version_label (v\<lparr>dv_created_at := x\<rparr>) = dv_version_label v"
  "dv_asset_type (v\<lparr>dv_created_at := x\<rparr>) = dv_asset_type v"
  "dv_source_path (v\<lparr>dv_created_at := x\<rparr>) = dv_source_path v"
  "dv_data_quality (v\<lparr>dv_created_at := x\<rparr>) = dv_data_quality v"
  "dv_classification (v\<lparr>dv_created_at := x\<rparr>) = dv_classification v"
  "dv_created_at (v\<lparr>dv_created_at := x\<rparr>) = x"
  "dp_product_id (p\<lparr>dp_created_at := x\<rparr>) = dp_product_id p" "dp_name (p\<lparr>dp_created_at := x\<rparr>) = dp_name p"
  "dp_description (p\<lparr>dp_created_at := x\<rparr>) = dp_description p"
  "dp_owner_team_id (p\<lparr>dp_created_at := x\<rparr>) = dp_owner_team_id p"
  "dp_producer (p\<lparr>dp_created_at := x\<rparr>) = dp_producer p"
  "dp_usage_policy (p\<lparr>dp_created_at := x\<rparr>) = dp_usage_policy p"
  "dp_intended_use (p\<lparr>dp_created_at := x\<rparr>) = dp_intended_use p" "dp_created_at (p\<lparr>dp_created_at := x\<rparr>) = x"
  by simp_all

lemma gives_try:
  assumes "\<And>u. calm d P u \<Longrightarrow> \<exists>u'. m u = (r, u') \<and> calm d P u'"
  shows "gives d P (io_try m) r"
  using assms by (fastforce simp: gives_def io_try_def)

lemma gives_traverse:
  assumes "\<And>x. x \<in> set xs \<Longrightarrow> \<exists>y. gives d P (f x) y \<and> g y = h x"
  shows "\<exists>ys. gives d P (io_traverse f xs) ys \<and> map g ys = map h xs"
  using assms
proof (induction xs)
  case Nil
  then show ?case by (intro exI [of _ "[]"]) (simp add: gives_ret)
next
  case (Cons x xs)
  from Cons.prems [of x] obtain y where y: "gives d P (f x) y" "g y = h x" by auto
  from Cons.IH Cons.prems obtain ys where ys: "gives d P (io_traverse f xs) ys" "map g ys = map h xs" by auto
  have "gives d P (io_traverse f (x # xs)) (y # ys)"
    unfolding io_traverse.simps by (rule gives_bind [OF y(1)]) (rule gives_bind [OF ys(1)], rule gives_ret)
  with y ys show ?case by (intro exI [of _ "y # ys"]) simp
qed

lemma gives_upstream:
  assumes "registry_ok d" "timestamps_ok d P"
  shows "\<exists>x. gives d P (upstream_context_of p) x"
proof (cases "filter (\<lambda>r. dv_source_path r = p) (t_rows (db_versions d))")
  case Nil
  have "gives d P (io_try (in_db (version_get_by_source_path p))) (Inl Query_Returned_No_Rows)"
    unfolding version_get_by_source_path_def version_where_def
    by (rule gives_try) (rule calm_no_row, assumption, rule Nil)
  then have "gives d P (upstream_context_of p) None"
    unfolding upstream_context_of_def by (rule gives_bind) (simp add: gives_ret)
  then show ?thesis by blast
next
  case (Cons v vs)
  then have "v \<in> set (filter (\<lambda>r. dv_source_path r = p) (t_rows (db_versions d)))" by simp
  then have v: "v \<in> set (t_rows (db_versions d))" "dv_source_path v = p" by auto
  have "filter (\<lambda>r. dv_source_path r = dv_source_path v) (t_rows (db_versions d)) = [v]"
    using assms(1) v(1) by (intro filter_key) (auto simp: registry_ok_def)
  from gives_version [OF assms(2) this] v(2) obtain x where
    x: "\<And>u. calm d P u \<Longrightarrow> \<exists>u'. in_db (version_where (\<lambda>r. dv_source_path r = p)) u =
      (Inr (v\<lparr>dv_created_at := x\<rparr>), u') \<and> calm d P u'" by auto
  from assms(1) v(1) obtain q where q: "q \<in> set (t_rows (db_products d))" "dv_data_product_id v = dp_product_id q"
    unfolding registry_ok_def by blast
  from gives_product [OF assms q(1)] obtain y where "gives d P (db (product_get_by_id (dp_product_id q))) (q\<lparr>dp_created_at := y\<rparr>)"
    by blast
  then have "gives d P (io_bind (db (product_get_by_id (dv_data_product_id (v\<lparr>dv_created_at := x\<rparr>)))) (\<lambda>product.
       io_ret (Some \<lparr>uc_product_id = dp_product_id product, uc_name = dp_name product,
         uc_producer = dp_producer product, uc_published_at = Some (dv_created_at (v\<lparr>dv_created_at := x\<rparr>))\<rparr>)))
       (Some \<lparr>uc_product_id = dp_product_id q, uc_name = dp_name q,
         uc_producer = dp_producer q, uc_published_at = Some x\<rparr>)"
    unfolding stamped q(2) by (rule gives_bind) (unfold stamped, rule gives_ret)
  moreover have "gives d P (io_try (in_db (version_get_by_source_path p))) (Inr (v\<lparr>dv_created_at := x\<rparr>))"
    unfolding version_get_by_source_path_def by (rule gives_try) (rule x)
  ultimately show ?thesis
    unfolding upstream_context_of_def by (intro exI) (rule gives_bind, assumption, simp only: sum.case)
qed

lemma gives_dependency:
  assumes "registry_ok d" "timestamps_ok d P"
  shows "\<exists>x. gives d P (dependency_detail l) x \<and>
    (lx_upstream_source_reference x, lx_upstream_version x) = (ld_upstream_product_uri l, ld_upstream_version l)"
proof -
  from gives_upstream [OF assms] obtain c where "gives d P (upstream_context_of (ld_upstream_product_uri l)) c" by blast
  from gives_bind [OF this gives_ret] show ?thesis
    unfolding dependency_detail_def by (intro exI conjI, assumption) simp
qed

lemma by_product_and_label:
  assumes "registry_ok d" "v \<in> set (t_rows (db_versions d))"
  shows "filter (\<lambda>r. dv_data_product_id r = dv_data_product_id v \<and> dv_version_label r = dv_version_label v)
    (t_rows (db_versions d)) = [v]"
proof -
  have "distinct (map (\<lambda>v. (dv_data_product_id v, dv_version_label v)) (t_rows (db_versions d)))"
    using assms(1) by (simp add: registry_ok_def)
  from filter_key [OF this assms(2)] show ?thesis by simp
qed

lemma gives_lineage:
  assumes "registry_ok d" "timestamps_ok d P" "v \<in> set (t_rows (db_versions d))"
  shows "\<exists>x. gives d P (lineage_for_version (dv_data_product_id v) (dv_version_label v)) x \<and>
    map (\<lambda>l. (lx_upstream_source_reference l, lx_upstream_version l)) (lr_dependencies x) =
      lineage_pairs (dv_version_id v) d"
proof -
  let ?ls = "filter (\<lambda>l. ld_downstream_version_id l = dv_version_id v) (t_rows (db_lineage d))"
  from gives_version [OF assms(2) by_product_and_label [OF assms(1,3)]] obtain x where
    x: "gives d P (db (version_get_by_product_and_label (dv_data_product_id v) (dv_version_label v))) (v\<lparr>dv_created_at := x\<rparr>)"
    unfolding version_get_by_product_and_label_def by blast
  have deps: "gives d P (db (lineage_get_by_downstream_version (dv_version_id v))) ?ls"
    unfolding lineage_get_by_downstream_version_def
    using gives_map [of lineage_from_row d P "\<lambda>d. sort_key ld_dependency_id
      (filter (\<lambda>r. ld_downstream_version_id r = dv_version_id v) (t_rows (db_lineage d)))"]
    by (simp add: lineage_from_row_def rows_sorted [OF dependencies.in_order [OF assms(1)]])
  obtain xs where xs: "gives d P (io_traverse dependency_detail ?ls) xs"
    and pairs: "map (\<lambda>l. (lx_upstream_source_reference l, lx_upstream_version l)) xs =
      map (\<lambda>l. (ld_upstream_product_uri l, ld_upstream_version l)) ?ls"
    using gives_traverse [of ?ls d P dependency_detail
        "\<lambda>l. (lx_upstream_source_reference l, lx_upstream_version l)"
        "\<lambda>l. (ld_upstream_product_uri l, ld_upstream_version l)"] gives_dependency [OF assms(1,2)] by blast
  have "gives d P (lineage_for_version (dv_data_product_id v) (dv_version_label v))
      \<lparr>lr_product_id = dv_data_product_id v, lr_version = dv_version_label v,
       lr_status = (if xs = [] then ''no_lineage'' else ''lineage_available''), lr_dependencies = xs\<rparr>"
    unfolding lineage_for_version_def
    by (rule gives_bind [OF x], unfold stamped, rule gives_bind [OF deps], rule gives_bind [OF xs], rule gives_ret)
  then show ?thesis by (intro exI conjI, assumption) (simp add: pairs lineage_pairs_def)
qed

text \<open>A product is found by the source path of any of its versions.\<close>

lemma gives_show:
  assumes d: "registry_ok d" "timestamps_ok d P"
    and t: "t \<in> set (t_rows (db_teams d))" and p: "p \<in> set (t_rows (db_products d))"
    and v: "v \<in> set (t_rows (db_versions d))"
    and refs: "dp_owner_team_id p = team_id t" "dv_data_product_id v = dp_product_id p"
    and ref: "parse_i64 (dv_source_path v) = None" "validate_version_label (dv_version_label v) = Inr ()"
  shows "\<exists>x. gives d P (show_product (dv_source_path v) (Some (dv_version_label v))) x \<and>
    pd_product_id x = dp_product_id p \<and> pd_name x = dp_name p \<and> pd_description x = dp_description p \<and>
    pd_owner_team x = team_name t \<and> pd_producer x = dp_producer p \<and> pd_usage_policy x = dp_usage_policy p \<and>
    pd_intended_use x = dp_intended_use p \<and> vd_version_id (pd_selected_version x) = dv_version_id v \<and>
    vd_version (pd_selected_version x) = dv_version_label v \<and>
    vd_asset_type (pd_selected_version x) = dv_asset_type v \<and>
    vd_source_reference (pd_selected_version x) = dv_source_path v \<and>
    vd_data_quality (pd_selected_version x) = dv_data_quality v \<and>
    vd_classification (pd_selected_version x) = dv_classification v \<and>
    map (\<lambda>l. (lx_upstream_source_reference l, lx_upstream_version l)) (lr_dependencies (pd_lineage x)) =
      lineage_pairs (dv_version_id v) d"
proof -
  have "filter (\<lambda>r. dv_source_path r = dv_source_path v) (t_rows (db_versions d)) = [v]"
    using d(1) v by (intro filter_key) (auto simp: registry_ok_def)
  from gives_version [OF d(2) this] obtain y where
    y: "gives d P (db_or_not_found (quoted ''product or source path'' (dv_source_path v))
      (version_get_by_source_path (dv_source_path v))) (v\<lparr>dv_created_at := y\<rparr>)"
    unfolding version_get_by_source_path_def by blast
  from gives_version [OF d(2) by_product_and_label [OF d(1) v]] obtain z where
    z: "gives d P (db_or_not_found (quoted ''version for product'' (show_int (dp_product_id p)))
      (version_get_by_product_and_label (dp_product_id p) (dv_version_label v))) (v\<lparr>dv_created_at := z\<rparr>)"
    unfolding version_get_by_product_and_label_def refs(2) by blast
  from gives_product [OF d p] obtain a where
    a: "gives d P (db_or_not_found (quoted ''product'' (dv_source_path v)) (product_get_by_id (dp_product_id p))) (p\<lparr>dp_created_at := a\<rparr>)"
    by blast
  from gives_team [OF d t] obtain t' where t': "team_name t' = team_name t" "gives d P (db (team_get_by_id (team_id t))) t'"
    by blast
  from gives_lineage [OF d v] obtain l where
    l: "gives d P (lineage_for_version (dp_product_id p) (dv_version_label v)) l"
    and pairs: "map (\<lambda>l. (lx_upstream_source_reference l, lx_upstream_version l)) (lr_dependencies l) =
      lineage_pairs (dv_version_id v) d"
    unfolding refs(2) by blast
  have "gives d P (parse_product_ref (dv_source_path v)) (dv_data_product_id (v\<lparr>dv_created_at := y\<rparr>))"
    unfolding parse_product_ref_def ref(1) option.case by (rule gives_bind [OF y gives_ret])
  then have number: "gives d P (parse_product_ref (dv_source_path v)) (dp_product_id p)"
    by (simp only: stamped refs)
  have team: "gives d P (io_bind (db (team_get_by_id (team_id t))) (\<lambda>team. io_ret (q, team_name team))) (q, team_name t)"
    for q :: data_product
    unfolding t'(1) [symmetric] by (rule gives_bind [OF t'(2) gives_ret])
  have product: "gives d P (resolve_product_with_team (dv_source_path v)) (p\<lparr>dp_created_at := a\<rparr>, team_name t)"
    unfolding resolve_product_with_team_def
    by (rule gives_bind [OF number], rule gives_bind [OF a]) (simp only: stamped refs team)
  have version: "gives d P (resolve_version (dp_product_id p) (Some (dv_version_label v))) (v\<lparr>dv_created_at := z\<rparr>)"
    unfolding resolve_version_def Let_def option.case by (rule gives_bind [OF gives_checked [OF ref(2)]]) (rule z)
  have "gives d P (show_product (dv_source_path v) (Some (dv_version_label v)))
     \<lparr>pd_product_id = dp_product_id p, pd_name = dp_name p, pd_description = dp_description p,
      pd_owner_team = team_name t, pd_producer = dp_producer p, pd_usage_policy = dp_usage_policy p,
      pd_intended_use = dp_intended_use p, pd_created_at = a,
      pd_selected_version =
        \<lparr>vd_version_id = dv_version_id v, vd_version = dv_version_label v,
         vd_asset_type = dv_asset_type v, vd_source_reference = dv_source_path v,
         vd_data_quality = dv_data_quality v, vd_classification = dv_classification v, vd_created_at = z\<rparr>,
      pd_lineage = l\<rparr>"
    unfolding show_product_def
    by (rule gives_bind [OF product], unfold prod.case stamped, rule gives_bind [OF version], unfold stamped,
        rule gives_bind [OF l], rule gives_ret)
  then show ?thesis by (intro exI conjI, assumption) (simp_all add: pairs)
qed

section \<open>What was served is what is shown\<close>

lemma anchored_absolute:
  assumes "anchor_legacy_source E p s = (Inr source, s')"
  shows "is_absolute source"
proof -
  from assms obtain q s1 c s2 where q: "(if is_absolute p then io_ret p
      else io_bind (io_map_err Filesystem (in_world current_dir)) (\<lambda>d. io_ret (join d p))) s = (Inr q, s1)"
    and c: "in_world (canonicalize q) s1 = (c, s2)"
    and rest: "(case c of Inr canonical \<Rightarrow> io_ret canonical
      | Inl k \<Rightarrow> if k = KNotFound then io_ret q else io_err (map_io_error E k)) s2 = (Inr source, s')"
    unfolding anchor_legacy_source_def by (auto simp: io_try_def elim!: io_bindE split: prod.splits)
  have "is_absolute q"
    using q by (auto simp: in_world_def current_dir_def query_def syscall_def Let_def is_absolute_join_render
        elim!: io_bindE split: if_splits option.splits prod.splits)
  then show ?thesis
    using c rest by (auto simp: in_world_def canonicalize_def query_def syscall_def Let_def render_def
        split: sum.splits option.splits prod.splits if_splits)
qed

lemma absolute_no_number: "is_absolute p \<Longrightarrow> parse_i64 p = None"
  by (cases p) (auto simp: parse_i64_def parse_unsigned_def digit_value_def is_ascii_digit_def)

lemma served_rows:
  assumes "serve E r s = (Inr resp, s')" "consistent (s_conn s)"
  shows "\<exists>t p v. rows_of_request r resp (tables (s_conn s')) t p v \<and> registry_ok (tables (s_conn s')) \<and>
    durable (s_conn s') = tables (s_conn s') \<and> is_absolute (sx_source_reference resp) \<and>
    validate_version_label (sv_version r) = Inr ()"
  using assms(1)
proof (cases rule: serve_cases)
  case (ran source s1)
  have start: "consistent (s_conn s1)" using anchor_scope(1) [OF ran(1)] assms(2) by simp
  have label: "validate_version_label (sv_version r) = Inr ()"
    using ran(3) by (auto simp: validate_serve_request_def)
  from ran(4) show ?thesis
  proof (cases rule: serve_transaction)
    case (committed x s2 s3)
    have "consistent (s_conn s2)" using start committed(2) by (simp add: consistent_def)
    from serve_rows_ok [OF committed(3) this] show ?thesis
      using committed(1,4,5) label anchored_absolute [OF ran(1)] by (auto simp: durable_def consistent_def)
  qed simp
qed simp

text \<open>C17. What was served is what is shown. After a successful \<open>serve\<close>, any connection that sees the
  committed database finds the product by the path the response names and shows the request: name,
  texts, policy, version, types, source, lineage in order, and the owner team up to the case of its
  letters (an existing team keeps its spelling).\<close>

theorem served_product_is_shown:
  assumes "serve E r s = (Inr resp, s')" "consistent (s_conn s)"
    and "calm (durable (s_conn s')) P u" "timestamps_ok (durable (s_conn s')) P"
  shows "\<exists>x u'. show_product (sx_source_reference resp) (Some (sv_version r)) u = (Inr x, u') \<and>
    pd_product_id x = sx_product_id resp \<and> pd_name x = sv_name r \<and> pd_description x = sv_description r \<and>
    lower (pd_owner_team x) = lower (sv_owner_team r) \<and> pd_producer x = sv_producer r \<and>
    pd_usage_policy x = sv_usage_policy r \<and> pd_intended_use x = sv_intended_use r \<and>
    vd_version_id (pd_selected_version x) = sx_version_id resp \<and>
    vd_version (pd_selected_version x) = sv_version r \<and>
    vd_asset_type (pd_selected_version x) = asset_type_str (sv_asset_type r) \<and>
    vd_source_reference (pd_selected_version x) = sx_source_reference resp \<and>
    vd_data_quality (pd_selected_version x) = data_quality_str (sv_data_quality r) \<and>
    vd_classification (pd_selected_version x) = classification_str (sv_classification r) \<and>
    map (\<lambda>l. (lx_upstream_source_reference l, lx_upstream_version l)) (lr_dependencies (pd_lineage x)) =
      map (\<lambda>l. (rl_source l, rl_version l)) (sv_lineage r)"
proof -
  let ?d = "tables (s_conn s')"
  from served_rows [OF assms(1,2)] obtain t p v where rows: "rows_of_request r resp ?d t p v"
    and d: "registry_ok ?d" "durable (s_conn s') = ?d"
    and ref: "is_absolute (sx_source_reference resp)" "validate_version_label (sv_version r) = Inr ()"
    by blast
  note f = rows [unfolded rows_of_request_def]
  have "parse_i64 (dv_source_path v) = None" using absolute_no_number [OF ref(1)] f by simp
  with gives_show [of ?d P t p v] d(1) assms(4) [unfolded d(2)] ref(2) f obtain x where
    x: "gives ?d P (show_product (dv_source_path v) (Some (dv_version_label v))) x" and detail:
      "pd_product_id x = dp_product_id p" "pd_name x = dp_name p" "pd_description x = dp_description p"
      "pd_owner_team x = team_name t" "pd_producer x = dp_producer p" "pd_usage_policy x = dp_usage_policy p"
      "pd_intended_use x = dp_intended_use p" "vd_version_id (pd_selected_version x) = dv_version_id v"
      "vd_version (pd_selected_version x) = dv_version_label v"
      "vd_asset_type (pd_selected_version x) = dv_asset_type v"
      "vd_source_reference (pd_selected_version x) = dv_source_path v"
      "vd_data_quality (pd_selected_version x) = dv_data_quality v"
      "vd_classification (pd_selected_version x) = dv_classification v"
      "map (\<lambda>l. (lx_upstream_source_reference l, lx_upstream_version l)) (lr_dependencies (pd_lineage x)) =
        lineage_pairs (dv_version_id v) ?d"
    by auto
  from x assms(3) d(2) obtain u' where
    "show_product (dv_source_path v) (Some (dv_version_label v)) u = (Inr x, u')"
    unfolding gives_def by auto
  with f show ?thesis by (intro exI [of _ x] exI [of _ u']) (simp add: detail)
qed

lemma served_product_is_shown_witness:
  "\<exists>resp s' x u'. serve demo_ext demo_serve demo_session = (Inr resp, s') \<and>
     show_product (sx_source_reference resp) (Some ''1'')
       (demo_session\<lparr>s_conn := demo_conn\<lparr>tables := durable (s_conn s')\<rparr>\<rparr>) = (Inr x, u') \<and>
     pd_name x = ''A'' \<and> map lx_upstream_source_reference (lr_dependencies (pd_lineage x)) = [''/up'']"
proof -
  let ?run = "serve demo_ext demo_serve demo_session"
  have "is_ok (fst ?run)" by code_simp
  then obtain resp s' where run: "?run = (Inr resp, s')" by (cases ?run) (auto simp: is_ok_iff)
  let ?d = "durable (s_conn s')"
  have start: "consistent (s_conn demo_session)"
    by (simp add: demo_session_def demo_conn_def consistent_def registry_ok_init)
  have "calm ?d Some (demo_session\<lparr>s_conn := demo_conn\<lparr>tables := ?d\<rparr>\<rparr>)" "timestamps_ok ?d Some"
    by (simp_all add: calm_def demo_conn_def timestamps_ok_def)
  from served_product_is_shown [OF run start this] obtain x u' where
    shown: "show_product (sx_source_reference resp) (Some (sv_version demo_serve))
      (demo_session\<lparr>s_conn := demo_conn\<lparr>tables := ?d\<rparr>\<rparr>) = (Inr x, u')"
    and x: "pd_name x = sv_name demo_serve"
    and deps: "map (\<lambda>l. (lx_upstream_source_reference l, lx_upstream_version l)) (lr_dependencies (pd_lineage x)) =
      map (\<lambda>l. (rl_source l, rl_version l)) (sv_lineage demo_serve)"
    by blast
  have "map lx_upstream_source_reference (lr_dependencies (pd_lineage x)) = map rl_source (sv_lineage demo_serve)"
    using arg_cong [OF deps, of "map fst"] by (simp add: comp_def)
  with run shown x show ?thesis by (simp add: demo_serve_def)
qed

end
