(* ===== verification/Registry_Consume.thy ===== *)
theory Registry_Consume
  imports Registry_Roundtrip Publish_Facts
begin

text \<open>
  What \<open>consume\<close> does to its destination: with \<open>overwrite\<close> it removes what is there before it
  copies, and it does not ask whether that is the source.
\<close>

definition at_fs :: "fs \<Rightarrow> session \<Rightarrow> bool" where
  "at_fs f u \<longleftrightarrow> disk (s_world u) = f \<and> no_faults (s_world u)"

text \<open>\<open>turns f m r g\<close>: without faults \<open>m\<close> answers \<open>r\<close> and takes the disk from \<open>f\<close> to \<open>g\<close>.\<close>

definition turns :: "fs \<Rightarrow> (session, 'e, 'a) io \<Rightarrow> 'e + 'a \<Rightarrow> fs \<Rightarrow> bool" where
  "turns f m r g \<longleftrightarrow> (\<forall>u. at_fs f u \<longrightarrow> (\<exists>u'. m u = (r, u') \<and> at_fs g u'))"

lemma turns_bind: "turns f m (Inr x) g \<Longrightarrow> turns g (k x) r h \<Longrightarrow> turns f (io_bind m k) r h"
  by (fastforce simp: turns_def io_bind_def)

lemma turns_bind_err: "turns f m (Inl e) g \<Longrightarrow> turns f (io_bind m k) (Inl e) g"
  by (fastforce simp: turns_def io_bind_def)

lemma turns_query:
  assumes "\<And>c. q c f = Inr x"
  shows "turns f (fsys E (query q)) (Inr x) f"
  using assms by (simp add: turns_def at_fs_def fsys_def io_map_err_def in_world_def query_def syscall_def
      no_faults_def Let_def)

lemma turns_test:
  assumes "\<And>c. and_then (resolve_path f c True p) (metadata_at f) = Inr m"
  shows "turns f (in_world (path_test t p)) (Inr (t (m_node m))) f"
  using assms by (simp add: turns_def at_fs_def in_world_def path_test_def sys_metadata_def query_def syscall_def
      io_bind_def io_try_def io_ret_def no_faults_def Let_def del: and_then_eq_Inr)

lemma turns_entry:
  assumes "\<And>c. resolve_entry f c p = Inr l" "op l f = (r, g)"
  shows "turns f (fsys E (on_entry p op)) (map_err (map_io_error E) r) g"
  using assms by (simp add: turns_def at_fs_def fsys_def io_map_err_def in_world_def on_entry_def syscall_def
      no_faults_def Let_def)

lemma turns_copy_missing:
  assumes "\<And>c. resolve_path f c True src = Inl k"
  shows "turns f (fsys E (sys_copy src dst)) (Inl (map_io_error E k)) f"
  using assms by (simp add: turns_def at_fs_def fsys_def io_map_err_def in_world_def sys_copy_def fs_copy_def
      no_faults_def Let_def)

lemma show_world:
  assumes "show_product ref label s = (r, s')"
  shows "s_world s' = s_world s"
proof -
  have "keeps (\<lambda>s'. s_world s' = s_world s) (show_product ref label)"
    unfolding show_product_def resolve_product_with_team_def parse_product_ref_def resolve_version_def Let_def
      lineage_for_version_def dependency_detail_def upstream_context_of_def
    by (intro keeps_rules keeps_world_db keeps_checked)
  from keepsD [OF this _ assms] show ?thesis by simp
qed

lemma copy_onto_itself:
  assumes "real_dir f d" "plain_name n" "lookup f (d @ [n]) = Some (File i)"
  shows "turns f (copy_source E (join (render d) n) (join (render d) n) True) (Inl (Filesystem KNotFound))
    (del_node (d @ [n]) f)"
proof -
  let ?p = "join (render d) n" and ?l = "d @ [n]"
  let ?g = "del_node ?l f"
  note found = resolve_file_real(1) [OF assms(1,2,3)]
  obtain m where m: "metadata_at f ?l = Inr m" "m_node m = File i"
    by (simp add: metadata_at_def assms(3) Let_def)
  have meta: "turns f (fsys E (sys_metadata ?p)) (Inr m) f"
    unfolding sys_metadata_def by (rule turns_query) (simp add: found m)
  have there: "turns f (in_world (path_exists ?p) :: bool registry) (Inr True) f"
    unfolding path_exists_def using turns_test [of f ?p m "\<lambda>_. True"] by (simp add: found m)
  have rm: "turns f (fsys E (remove_file ?p)) (Inr ()) ?g"
    using turns_entry [of f ?p ?l fs_remove_file "Inr ()" ?g E] resolve_entry_real [OF assms(1,2)]
    by (simp add: remove_file_def fs_remove_file_def assms(3))
  have dir: "real_dir ?g d"
    by (rule unchanged_real_dir [where N = "\<lambda>m. m = n", OF _ assms(1)])
      (auto simp: unchanged_def lookup_del_node, simp_all add: del_node_def)
  have gone: "turns ?g (fsys E (sys_copy ?p ?p)) (Inl (map_io_error E KNotFound)) ?g"
    by (rule turns_copy_missing) (simp add: resolve_file_real(2) [OF dir assms(2)] lookup_del_node)
  have room: "turns f (make_room E ?p True) (Inr ()) ?g"
    unfolding make_room_def remove_existing_def
    by (simp, rule turns_bind [OF there], simp, rule turns_bind [OF meta])
      (simp add: m(2) node_is_dir_def rm)
  show ?thesis
    unfolding copy_source_def
    by (rule turns_bind [OF meta])
      (use turns_bind [OF room gone] in \<open>simp add: m(2) node_is_file_def map_io_error_def\<close>)
qed

lemma deliver_onto_itself:
  assumes "real_dir f d" "plain_name n" "lookup f (d @ [n]) = Some (File i)"
    and "vd_source_reference (pd_selected_version detail) = join (render d) n"
    and "cn_out r = join (render d) n" "cn_overwrite r"
  shows "turns f (deliver E r detail) (Inl (Filesystem KNotFound)) (del_node (d @ [n]) f)"
proof -
  let ?p = "join (render d) n"
  obtain m where m: "metadata_at f (d @ [n]) = Inr m"
    by (simp add: metadata_at_def assms(3) Let_def)
  have there: "turns f (in_world (path_exists ?p) :: bool registry) (Inr True) f"
    unfolding path_exists_def using turns_test [of f ?p m "\<lambda>_. True"]
    by (simp add: resolve_file_real(1) [OF assms(1-3)] m)
  note copy = turns_bind_err [OF copy_onto_itself [OF assms(1-3), of E]]
  show ?thesis
    unfolding deliver_def Let_def assms(4,5)
    by (rule turns_bind [OF there], simp, rule turns_bind [OF there]) (simp add: copy assms(6))
qed

text \<open>Consuming a registered file onto itself destroys it. When the destination of a \<open>consume\<close>
  with \<open>overwrite\<close> is the registered source, the source is removed as an existing destination, the
  copy then finds nothing to copy, and the answer is a filesystem error: the only copy is gone.\<close>

theorem consume_onto_source_destroys_it:
  assumes "show_product ref (Some v) s = (Inr detail, s1)"
    and "vd_source_reference (pd_selected_version detail) = join (render d) n"
    and "real_dir (disk (s_world s)) d" "plain_name n" "lookup (disk (s_world s)) (d @ [n]) = Some (File i)"
    and "validate_version_label v = Inr ()" "no_faults (s_world s)"
  shows "\<exists>s'. consume E \<lparr>cn_product_ref = ref, cn_version = v, cn_out = join (render d) n, cn_overwrite = True\<rparr> s =
      (Inl (Filesystem KNotFound), s') \<and>
    lookup (disk (s_world s')) (d @ [n]) = None"
proof -
  let ?f = "disk (s_world s)"
  let ?r = "\<lparr>cn_product_ref = ref, cn_version = v, cn_out = join (render d) n, cn_overwrite = True\<rparr>"
  have "at_fs ?f s1" using show_world [OF assms(1)] assms(7) by (simp add: at_fs_def)
  moreover have "turns ?f (deliver E ?r detail) (Inl (Filesystem KNotFound)) (del_node (d @ [n]) ?f)"
    using assms(2-5) by (intro deliver_onto_itself) simp_all
  ultimately obtain s' where "deliver E ?r detail s1 = (Inl (Filesystem KNotFound), s')"
    "at_fs (del_node (d @ [n]) ?f) s'"
    unfolding turns_def by blast
  then show ?thesis
    using assms(1,6) by (auto simp: consume_def checked_def io_bind_def io_ret_def at_fs_def lookup_del_node)
qed

lemma keeps_quiet:
  "keeps (\<lambda>s. no_faults (s_world s)) (in_db m)" "keeps (\<lambda>s. no_faults (s_world s)) (db m)"
  "keeps (\<lambda>s. no_faults (s_world s)) (in_world (canonicalize p))"
  "keeps (\<lambda>s. no_faults (s_world s)) (in_world current_dir)"
  by (auto simp: keeps_def in_db_def db_def io_map_err_def in_world_def canonicalize_def current_dir_def
      query_def syscall_def no_faults_def Let_def split: prod.splits option.splits)

text \<open>Here the demonstration asset is registered, and then consumed onto itself.\<close>

lemma consume_onto_source_destroys_it_witness:
  "\<exists>s s'. consume demo_ext \<lparr>cn_product_ref = ''1'', cn_version = ''1'', cn_out = ''/p/s/a'', cn_overwrite = True\<rparr> s =
      (Inl (Filesystem KNotFound), s') \<and> lookup (disk (s_world s)) [''p'', ''s'', ''a''] \<noteq> None \<and>
    lookup (disk (s_world s')) [''p'', ''s'', ''a''] = None"
proof -
  let ?s = "snd (serve demo_ext (demo_serve\<lparr>sv_source_path := ''p/s/a''\<rparr>) demo_session)"
  let ?show = "show_product ''1'' (Some ''1'')"
  have "(case fst (?show ?s) of Inl _ \<Rightarrow> False
      | Inr detail \<Rightarrow> vd_source_reference (pd_selected_version detail) = join (render [''p'', ''s'']) ''a'')" by code_simp
  then obtain detail s1 where shown: "?show ?s = (Inr detail, s1)"
    and source: "vd_source_reference (pd_selected_version detail) = join (render [''p'', ''s'']) ''a''"
    by (cases "?show ?s") (auto split: sum.splits)
  have there: "real_dir (disk (s_world ?s)) [''p'', ''s'']" by code_simp
  have node: "lookup (disk (s_world ?s)) ([''p'', ''s''] @ [''a'']) = Some (File 3)" by code_simp
  have "keeps (\<lambda>s. no_faults (s_world s)) (serve demo_ext r)" for r
    unfolding serve_def in_transaction_def anchor_legacy_source_def serve_rows_def get_or_create_team_def
    by (intro keeps_rules keeps_checked keeps_quiet)
  then have quiet: "no_faults (s_world ?s)"
    by (simp add: keeps_def no_faults_def demo_session_def demo_world_def)
  have "plain_name ''a''" "validate_version_label ''1'' = Inr ()" by code_simp+
  from consume_onto_source_destroys_it [OF shown source there this(1) node this(2) quiet, of demo_ext]
  obtain s' where "consume demo_ext \<lparr>cn_product_ref = ''1'', cn_version = ''1'',
      cn_out = join (render [''p'', ''s'']) ''a'', cn_overwrite = True\<rparr> ?s = (Inl (Filesystem KNotFound), s')"
    "lookup (disk (s_world s')) ([''p'', ''s''] @ [''a'']) = None" by blast
  moreover have "join (render [''p'', ''s'']) ''a'' = ''/p/s/a''" by code_simp
  ultimately show ?thesis using node by (intro exI [of _ ?s] exI [of _ s']) simp
qed

end
