(* ===== verification/Agent_Text.thy ===== *)
theory Agent_Text
  imports Rust_Text
begin

text \<open>
  The functions of \<open>str\<close> that only the assistant uses: the characters of a string (its UTF-8
  sequences), searching for a substring, \<open>replace\<close> and \<open>split_inclusive\<close>, and what the filter of
  outgoing text needs of them.
\<close>

section \<open>Characters\<close>

definition char_width :: "char \<Rightarrow> nat" where
  "char_width c =
     (let n = of_char c :: nat in if n < 0xC0 then 1 else if n < 0xE0 then 2 else if n < 0xF0 then 3 else 4)"

function chars :: "string \<Rightarrow> string list" where
  "chars [] = []"
| "chars (c # cs) = (c # take (char_width c - 1) cs) # chars (drop (char_width c - 1) cs)"
  by pat_completeness auto
termination by (relation "measure length") auto

definition char_is_whitespace :: "string \<Rightarrow> bool" where
  "char_is_whitespace c =
     (case c of [a] \<Rightarrow> ws_ascii a | [a, b] \<Rightarrow> ws2 a b | [a, b, d] \<Rightarrow> ws3 a b d | _ \<Rightarrow> False)"

text \<open>\<open>char::is_control\<close>: the general category \<open>Cc\<close>.\<close>

definition char_is_control :: "string \<Rightarrow> bool" where
  "char_is_control c =
     (case c of
        [a] \<Rightarrow> (let n = of_char a :: nat in n < 32 \<or> n = 127)
      | [a, b] \<Rightarrow> a = CHR 0xC2 \<and> (let n = of_char b :: nat in 0x80 \<le> n \<and> n < 0xA0)
      | _ \<Rightarrow> False)"

lemma concat_chars [simp]: "concat (chars s) = s"
  by (induction s rule: chars.induct) auto

lemma chars_nonempty: "c \<in> set (chars s) \<Longrightarrow> c \<noteq> []"
  by (induction s rule: chars.induct) auto

lemma length_chars: "length (chars s) \<le> length s"
proof (induction s rule: chars.induct)
  case (2 c cs)
  then show ?case by (simp add: le_diff_conv)
qed simp

section \<open>Substrings\<close>

fun split_once_str :: "string \<Rightarrow> string \<Rightarrow> (string \<times> string) option" where
  "split_once_str p [] = (if p = [] then Some ([], []) else None)"
| "split_once_str p (c # cs) =
     (case strip_prefix p (c # cs) of
        Some t \<Rightarrow> Some ([], t)
      | None \<Rightarrow> map_option (\<lambda>(a, b). (c # a, b)) (split_once_str p cs))"

text \<open>\<open>str::replace\<close> for a pattern that is not empty; the program has no other call.\<close>

function replace_str :: "string \<Rightarrow> string \<Rightarrow> string \<Rightarrow> string" where
  "replace_str p r [] = []"
| "replace_str p r (c # cs) =
     (if p \<noteq> [] \<and> starts_with p (c # cs)
      then r @ replace_str p r (drop (length p) (c # cs))
      else c # replace_str p r cs)"
  by pat_completeness auto
termination
  by (relation "measure (\<lambda>(p, r, s). length s)") auto

text \<open>\<open>split_inclusive\<close> on the characters of a string: every part but the last ends in a delimiter.\<close>

fun split_inclusive :: "('c \<Rightarrow> bool) \<Rightarrow> 'c list \<Rightarrow> 'c list list" where
  "split_inclusive P [] = []"
| "split_inclusive P (c # cs) =
     (if P c then [c] # split_inclusive P cs
      else case split_inclusive P cs of [] \<Rightarrow> [[c]] | p # ps \<Rightarrow> (c # p) # ps)"

lemma split_once_str_eq_Some: "split_once_str p s = Some (a, b) \<Longrightarrow> s = a @ p @ b"
proof (induction s arbitrary: a)
  case (Cons c s)
  then show ?case
    by (auto split: option.splits simp: strip_prefix_eq_Some)
qed (auto split: if_splits)

lemma concat_split_inclusive [simp]: "concat (split_inclusive P cs) = cs"
  by (induction cs) (auto split: list.splits)

lemma split_inclusive_nonempty: "part \<in> set (split_inclusive P cs) \<Longrightarrow> part \<noteq> []"
  by (induction cs arbitrary: part) (auto split: list.splits if_splits)

lemma split_inclusive_chars: "part \<in> set (split_inclusive P cs) \<Longrightarrow> set part \<subseteq> set cs"
  by (metis concat_split_inclusive UN_upper set_concat)

section \<open>What occurs in a string\<close>

lemma contains_str_iff: "contains_str p s \<longleftrightarrow> (\<exists>a b. s = a @ p @ b)"
proof (induction s)
  case Nil
  then show ?case by auto
next
  case (Cons c s)
  have "(\<exists>a b. c # s = a @ p @ b) \<longleftrightarrow> (\<exists>b. c # s = p @ b) \<or> (\<exists>a b. s = a @ p @ b)"
  proof
    assume "\<exists>a b. c # s = a @ p @ b"
    then obtain a b where "c # s = a @ p @ b" by blast
    then show "(\<exists>b. c # s = p @ b) \<or> (\<exists>a b. s = a @ p @ b)" by (cases a) auto
  next
    assume "(\<exists>b. c # s = p @ b) \<or> (\<exists>a b. s = a @ p @ b)"
    then show "\<exists>a b. c # s = a @ p @ b" by (metis append_Cons append_Nil)
  qed
  with Cons show ?case by (simp add: starts_with_iff)
qed

lemma contains_strI [intro]: "contains_str p (a @ p @ b)"
  by (auto simp: contains_str_iff)

lemma contains_mono: "contains_str p s \<Longrightarrow> contains_str p (a @ s @ b)"
  by (metis append.assoc contains_str_iff)

text \<open>A pattern without the character \<open>d\<close> does not reach across it.\<close>

lemma contains_str_across:
  assumes "d \<notin> set p"
  shows "contains_str p (a @ d # b) \<longleftrightarrow> contains_str p a \<or> contains_str p b"
proof
  assume "contains_str p (a @ d # b)"
  then obtain x y where xy: "a @ d # b = x @ p @ y" by (auto simp: contains_str_iff)
  from xy consider u where "a = x @ u" "u @ d # b = p @ y" | u where "a @ u = x" "d # b = u @ p @ y"
    by (auto simp: append_eq_append_conv2)
  then show "contains_str p a \<or> contains_str p b"
  proof cases
    case 1
    from 1(2) consider v where "u = p @ v" | v where "u @ v = p" "d # b = v @ y"
      by (auto simp: append_eq_append_conv2)
    then show ?thesis
    proof cases
      case 1
      then show ?thesis using \<open>a = x @ u\<close> by auto
    next
      case 2
      then have "v = []" using assms by (cases v) auto
      then show ?thesis using 2 \<open>a = x @ u\<close> by (metis append_Nil2 contains_str_iff)
    qed
  next
    case 2
    then show ?thesis
    proof (cases u)
      case Nil
      then show ?thesis using 2 assms by (cases p) (auto simp: contains_str_iff)
    next
      case (Cons e u')
      then have "b = u' @ p @ y" using 2 by simp
      then show ?thesis by auto
    qed
  qed
next
  assume "contains_str p a \<or> contains_str p b"
  then show "contains_str p (a @ d # b)"
    using contains_mono [of p a "[]" "d # b"] contains_mono [of p b "a @ [d]" "[]"] by auto
qed

text \<open>
  After \<open>replace\<close> nothing of the pattern is left, when the replacement is set off by a character
  on either side that the pattern does not have.
\<close>

lemma contains_Cons_iff: "contains_str p (c # s) \<longleftrightarrow> starts_with p (c # s) \<or> contains_str p s"
  by simp

lemma replace_str_head:
  assumes "p \<noteq> []" "l \<notin> set p" "p = x @ q" "starts_with q (replace_str p (l # r) s)"
  shows "starts_with q s"
  using assms(3,4)
proof (induction s arbitrary: x q rule: length_induct)
  case (1 s)
  show ?case
  proof (cases q)
    case Nil
    then show ?thesis by (simp add: starts_with_def)
  next
    case q: (Cons d q')
    show ?thesis
    proof (cases s)
      case Nil
      then show ?thesis using 1(3) q by simp
    next
      case s: (Cons c cs)
      show ?thesis
      proof (cases "starts_with p (c # cs)")
        case True
        then have "d = l" using 1(3) s q assms(1) by (auto simp: starts_with_iff)
        then show ?thesis using 1(2) q assms(2) by simp
      next
        case False
        then have "d = c" "starts_with q' (replace_str p (l # r) cs)"
          using 1(3) s q by (auto simp: starts_with_iff)
        then have "starts_with q' cs"
          using 1(1) s [THEN arg_cong, of length] 1(2) q by (metis append.assoc append_Cons append_Nil length_Cons lessI)
        then show ?thesis using s q \<open>d = c\<close> by (auto simp: starts_with_iff)
      qed
    qed
  qed
qed

lemma replace_str_removes:
  assumes "p \<noteq> []" "l \<notin> set p" "h \<notin> set p" "\<not> contains_str p m"
  shows "\<not> contains_str p (replace_str p (l # m @ [h]) s)"
proof (induction s rule: length_induct)
  case (1 s)
  show ?case
  proof (cases s)
    case Nil
    then show ?thesis using assms(1) by simp
  next
    case s: (Cons c cs)
    show ?thesis
    proof (cases "starts_with p (c # cs)")
      case True
      let ?rest = "replace_str p (l # m @ [h]) (drop (length p) s)"
      have "\<not> contains_str p ?rest"
        using 1 assms(1) s by (metis diff_less length_drop length_greater_0_conv list.distinct(1))
      then have "\<not> contains_str p (l # m @ h # ?rest)"
        using assms contains_str_across [of l p "[]" "m @ h # ?rest"] contains_str_across [of h p m ?rest]
        by auto
      then show ?thesis using True s assms(1) by simp
    next
      case False
      then have "\<not> starts_with p (c # replace_str p (l # m @ [h]) cs)"
        using replace_str_head [OF assms(1,2), of "[]" p "m @ [h]" s] s by auto
      then show ?thesis using False s 1 by (simp add: contains_Cons_iff del: contains_str.simps)
    qed
  qed
qed

end
