(* ===== verification/Agent_Config.thy ===== *)
theory Agent_Config
  imports Peer_Files Agent_Text
begin

text \<open>
  \<open>mesh_agent/src/config.rs\<close>: the profile an assistant session runs under, its validation, and the
  configuration file that holds profiles. A validated profile is what bounds the session, so the
  lemmas at the end state what validation establishes.
\<close>

definition AGENT_CONFIG_SCHEMA_VERSION :: "32 word" where
  "AGENT_CONFIG_SCHEMA_VERSION = 1"

datatype profile_error =
    Profile_Io io_kind | Profile_Toml string | Profile_Invalid string string | Profile_Missing string

record agent_profile =
  ap_backend :: string
  ap_base_url :: string
  ap_loopback_ca_file :: "path option"
  ap_model :: string
  ap_api_key_env :: string
  ap_context_policy :: string
  ap_max_tool_calls :: "8 word"
  ap_max_request_seconds :: "64 word"
  ap_max_context_chars :: "64 word"
  ap_max_response_chars :: "64 word"
  ap_max_cost_usd :: "f64 option"
  ap_allowed_providers :: "string list"
  ap_allow_provider_fallbacks :: bool
  ap_allow_user_text :: bool
  ap_max_request_bytes :: "64 word"
  ap_max_response_bytes :: "64 word"
  ap_max_output_tokens :: "32 word"
  ap_allowed_metadata_fields :: "string list"
  ap_max_input_price :: "f64 option"
  ap_max_output_price :: "f64 option"
  ap_reasoning_enabled :: bool

record agent_config =
  ac_schema_version :: "32 word"
  ac_default_profile :: "string option"
  ac_profiles :: "(string, agent_profile) btree"

definition default_request_bytes :: "64 word" where "default_request_bytes = 128 * 1024"
definition default_output_tokens :: "32 word" where "default_output_tokens = 1024"
definition default_max_tool_calls :: "8 word" where "default_max_tool_calls = 8"
definition default_request_seconds :: "64 word" where "default_request_seconds = 120"
definition default_context_chars :: "64 word" where "default_context_chars = 8000"
definition default_response_chars :: "64 word" where "default_response_chars = 8000"

section \<open>Reading and writing profiles\<close>

text \<open>
  A number of a configuration file is finite here, as \<open>json\<close> has it; TOML also knows \<open>inf\<close> and
  \<open>nan\<close>, which a field of the record can hold and \<open>validate\<close> refuses.
\<close>

definition ser_agent_profile :: "agent_profile \<Rightarrow> json" where
  "ser_agent_profile x =
     JObj ([(''backend'', JStr (ap_backend x)),
            (''base_url'', JStr (ap_base_url x)),
            (''loopback_ca_file'', ser_option JStr (ap_loopback_ca_file x)),
            (''model'', JStr (ap_model x)),
            (''api_key_env'', JStr (ap_api_key_env x)),
            (''context_policy'', JStr (ap_context_policy x)),
            (''max_tool_calls'', ser_word (ap_max_tool_calls x)),
            (''max_request_seconds'', ser_word (ap_max_request_seconds x)),
            (''max_context_chars'', ser_word (ap_max_context_chars x)),
            (''max_response_chars'', ser_word (ap_max_response_chars x)),
            (''max_cost_usd'', ser_option ser_f64 (ap_max_cost_usd x)),
            (''allowed_providers'', (ser_list JStr) (ap_allowed_providers x)),
            (''allow_provider_fallbacks'', JBool (ap_allow_provider_fallbacks x)),
            (''allow_user_text'', JBool (ap_allow_user_text x)),
            (''max_request_bytes'', ser_word (ap_max_request_bytes x)),
            (''max_response_bytes'', ser_word (ap_max_response_bytes x)),
            (''max_output_tokens'', ser_word (ap_max_output_tokens x)),
            (''allowed_metadata_fields'', (ser_list JStr) (ap_allowed_metadata_fields x)),
            (''max_input_price'', ser_option ser_f64 (ap_max_input_price x)),
            (''max_output_price'', ser_option ser_f64 (ap_max_output_price x)),
            (''reasoning_enabled'', JBool (ap_reasoning_enabled x))])"

definition de_agent_profile :: "json \<Rightarrow> agent_profile de" where
  "de_agent_profile j =
     and_then (object_fields True
       [''backend'', ''base_url'', ''loopback_ca_file'', ''model'', ''api_key_env'',
        ''context_policy'', ''max_tool_calls'', ''max_request_seconds'',
        ''max_context_chars'', ''max_response_chars'', ''max_cost_usd'',
        ''allowed_providers'', ''allow_provider_fallbacks'', ''allow_user_text'',
        ''max_request_bytes'', ''max_response_bytes'', ''max_output_tokens'',
        ''allowed_metadata_fields'', ''max_input_price'', ''max_output_price'',
        ''reasoning_enabled''] j) (\<lambda>kvs.
     and_then (field ''backend'' de_string kvs) (\<lambda>x0.
     and_then (field ''base_url'' de_string kvs) (\<lambda>x1.
     and_then (field_option ''loopback_ca_file'' de_string kvs) (\<lambda>x2.
     and_then (field ''model'' de_string kvs) (\<lambda>x3.
     and_then (field ''api_key_env'' de_string kvs) (\<lambda>x4.
     and_then (field ''context_policy'' de_string kvs) (\<lambda>x5.
     and_then (field_default ''max_tool_calls'' default_max_tool_calls de_word kvs) (\<lambda>x6.
     and_then (field_default ''max_request_seconds'' default_request_seconds de_word kvs) (\<lambda>x7.
     and_then (field_default ''max_context_chars'' default_context_chars de_word kvs) (\<lambda>x8.
     and_then (field_default ''max_response_chars'' default_response_chars de_word kvs) (\<lambda>x9.
     and_then (field_option ''max_cost_usd'' de_f64 kvs) (\<lambda>x10.
     and_then (field_default ''allowed_providers'' [] (de_list de_string) kvs) (\<lambda>x11.
     and_then (field_default ''allow_provider_fallbacks'' False de_bool kvs) (\<lambda>x12.
     and_then (field_default ''allow_user_text'' False de_bool kvs) (\<lambda>x13.
     and_then (field_default ''max_request_bytes'' default_request_bytes de_word kvs) (\<lambda>x14.
     and_then (field_default ''max_response_bytes'' default_request_bytes de_word kvs) (\<lambda>x15.
     and_then (field_default ''max_output_tokens'' default_output_tokens de_word kvs) (\<lambda>x16.
     and_then (field_default ''allowed_metadata_fields'' [] (de_list de_string) kvs) (\<lambda>x17.
     and_then (field_option ''max_input_price'' de_f64 kvs) (\<lambda>x18.
     and_then (field_option ''max_output_price'' de_f64 kvs) (\<lambda>x19.
     and_then (field_default ''reasoning_enabled'' False de_bool kvs) (\<lambda>x20.
     Inr \<lparr>ap_backend = x0, ap_base_url = x1, ap_loopback_ca_file = x2, ap_model = x3,
          ap_api_key_env = x4, ap_context_policy = x5, ap_max_tool_calls = x6,
          ap_max_request_seconds = x7, ap_max_context_chars = x8, ap_max_response_chars
          = x9, ap_max_cost_usd = x10, ap_allowed_providers = x11,
          ap_allow_provider_fallbacks = x12, ap_allow_user_text = x13,
          ap_max_request_bytes = x14, ap_max_response_bytes = x15, ap_max_output_tokens
          = x16, ap_allowed_metadata_fields = x17, ap_max_input_price = x18,
          ap_max_output_price = x19, ap_reasoning_enabled = x20\<rparr>))))))))))))))))))))))"

definition wf_agent_profile :: "agent_profile \<Rightarrow> bool" where
  "wf_agent_profile x \<longleftrightarrow> is_none_or finite_f64 (ap_max_cost_usd x) \<and>
     is_none_or finite_f64 (ap_max_input_price x) \<and>
     is_none_or finite_f64 (ap_max_output_price x)"

definition de_agent_config :: "json \<Rightarrow> agent_config de" where
  "de_agent_config j =
     and_then (object_fields True [''schema_version'', ''default_profile'', ''profiles''] j) (\<lambda>kvs.
     and_then (field ''schema_version'' de_word kvs) (\<lambda>v.
     and_then (field_option ''default_profile'' de_string kvs) (\<lambda>d.
     and_then (field ''profiles'' (de_btree de_agent_profile) kvs) (\<lambda>ps.
     Inr \<lparr>ac_schema_version = v, ac_default_profile = d, ac_profiles = ps\<rparr>))))"

section \<open>Validation\<close>

definition invalid :: "string \<Rightarrow> string \<Rightarrow> profile_error" where
  "invalid profile m = Profile_Invalid profile m"

definition authority_of :: "string \<Rightarrow> string" where
  "authority_of rest = (case split_once slash rest of Some (a, _) \<Rightarrow> a | None \<Rightarrow> rest)"

definition validate_endpoint :: "string \<Rightarrow> string + unit" where
  "validate_endpoint value =
     (let secure = starts_with ''https://'' value;
          loopback = list_ex (\<lambda>prefix. case strip_prefix prefix value of
                        None \<Rightarrow> False
                      | Some rest \<Rightarrow> rest = [] \<or> starts_with '':'' rest \<or> starts_with ''/'' rest)
                     [''http://127.0.0.1'', ''http://localhost''] in
      if \<not> secure \<and> \<not> loopback
      then Inl ''base_url must use HTTPS (except loopback development endpoints)''
      else
        let authority = (case split_once_str ''://'' value of
                           Some (_, rest) \<Rightarrow> authority_of rest | None \<Rightarrow> []) in
        if CHR ''?'' \<in> set value \<or> CHR ''#'' \<in> set value \<or> authority = [] \<or>
           CHR ''@'' \<in> set authority \<or> CHR ''#'' \<in> set authority \<or> CHR ''?'' \<in> set authority
        then Inl ''base_url must have a host and no credentials, fragment, or query''
        else Inr ())"

definition DISCLOSABLE_FIELDS :: "string list" where
  "DISCLOSABLE_FIELDS =
     [''name'', ''description'', ''limitations'', ''intended_use'', ''usage_policy'', ''lineage'', ''owner_team'']"

definition exact_loopback :: "string \<Rightarrow> bool" where
  "exact_loopback url =
     (case strip_prefix ''https://'' url of
        None \<Rightarrow> False
      | Some rest \<Rightarrow>
          let authority = authority_of rest in
          authority = ''127.0.0.1'' \<or>
          (case strip_prefix ''127.0.0.1:'' authority of
             None \<Rightarrow> False
           | Some port \<Rightarrow> is_some_and (\<lambda>n. 0 < n) (parse_unsigned 65536 port)))"

definition validate_profile_bounds :: "agent_profile \<Rightarrow> bool" where
  "validate_profile_bounds p \<longleftrightarrow>
     (1024 \<le> ap_max_request_bytes p \<and> ap_max_request_bytes p \<le> 1024 * 1024) \<and>
     (1024 \<le> ap_max_response_bytes p \<and> ap_max_response_bytes p \<le> 1024 * 1024) \<and>
     (1 \<le> ap_max_output_tokens p \<and> ap_max_output_tokens p \<le> 4096) \<and>
     ap_max_context_chars p \<le> 256 * 1024 \<and> ap_max_response_chars p \<le> 256 * 1024"

text \<open>The checks of \<open>AgentProfile::validate\<close>, in their order; the first that fails is the error.\<close>

definition agent_profile_validate :: "agent_profile \<Rightarrow> string \<Rightarrow> profile_error + unit" where
  "agent_profile_validate p profile =
     and_then (ensure (ap_backend p = ''router'')
                 (invalid profile ''backend must be 'router' in stage 1'')) (\<lambda>_.
     and_then (ensure (\<not> blank (ap_model p) \<and> \<not> blank (ap_api_key_env p))
                 (invalid profile ''model and api_key_env must not be blank'')) (\<lambda>_.
     and_then (ensure (1 \<le> ap_max_tool_calls p \<and> ap_max_tool_calls p \<le> 8)
                 (invalid profile ''max_tool_calls must be between 1 and 8'')) (\<lambda>_.
     and_then (ensure (\<not> (ap_max_request_seconds p = 0 \<or> 120 < ap_max_request_seconds p))
                 (invalid profile ''max_request_seconds must be between 1 and 120'')) (\<lambda>_.
     and_then (ensure (\<not> (ap_max_context_chars p = 0 \<or> ap_max_response_chars p = 0))
                 (invalid profile ''context and response limits must be positive'')) (\<lambda>_.
     and_then (ensure (\<not> is_some_and (\<lambda>v. \<not> finite_f64 v \<or> f64_leq v (Finite 0)) (ap_max_cost_usd p))
                 (invalid profile ''max_cost_usd must be a positive finite value'')) (\<lambda>_.
     and_then (ensure (ap_context_policy p \<in> {''synthetic-demo'', ''metadata-only''})
                 (invalid profile ''context_policy must be synthetic-demo or metadata-only'')) (\<lambda>_.
     and_then (ensure (validate_profile_bounds p)
                 (invalid profile ''request/response/context/output bounds exceed supported limits'')) (\<lambda>_.
     and_then (check_all (\<lambda>f. ensure (f \<in> set DISCLOSABLE_FIELDS)
                 (invalid profile ''metadata field is not in the disclosure allowlist''))
                 (ap_allowed_metadata_fields p)) (\<lambda>_.
     and_then (check_all (\<lambda>price. ensure (\<not> (\<not> finite_f64 price \<or> f64_less price (Finite 0)))
                 (invalid profile ''price caps must be finite and nonnegative''))
                 (case_option [] (\<lambda>x. [x]) (ap_max_input_price p) @
                  case_option [] (\<lambda>x. [x]) (ap_max_output_price p))) (\<lambda>_.
     and_then (map_err (invalid profile) (validate_endpoint (ap_base_url p))) (\<lambda>_.
     (case ap_loopback_ca_file p of
        None \<Rightarrow> Inr ()
      | Some file \<Rightarrow>
          ensure (is_absolute file \<and> exact_loopback (ap_base_url p))
            (invalid profile (''loopback_ca_file requires an absolute certificate path and '' @
                              ''HTTPS 127.0.0.1 endpoint''))))))))))))))"

section \<open>The configuration file\<close>

definition config_from_toml :: "ext \<Rightarrow> string \<Rightarrow> profile_error + agent_config" where
  "config_from_toml E text =
     and_then (map_err Profile_Toml (toml_parse E text)) (\<lambda>j.
     map_err (\<lambda>e. Profile_Toml (de_error_text E e)) (de_agent_config j))"

text \<open>\<open>fs::read_to_string\<close> refuses a file that is not UTF-8 with the kind \<open>InvalidData\<close>.\<close>

definition agent_config_load :: "ext \<Rightarrow> path \<Rightarrow> (world, profile_error, agent_config) io" where
  "agent_config_load E file =
     io_bind (io_map_err Profile_Io (sys_read file)) (\<lambda>bytes.
     io_bind (io_lift (ensure (utf8_valid E bytes) (Profile_Io KInvalidData))) (\<lambda>_.
     io_bind (io_lift (config_from_toml E bytes)) (\<lambda>config.
     if ac_schema_version config \<noteq> AGENT_CONFIG_SCHEMA_VERSION
     then io_err (Profile_Invalid ''<config>'' ''schema_version must be 1'')
     else
       io_bind (io_lift (check_all (\<lambda>(name, profile). agent_profile_validate profile name)
                           (ac_profiles config))) (\<lambda>_.
       io_ret config))))"

definition agent_config_selected :: "agent_config \<Rightarrow> string option \<Rightarrow> profile_error + (string \<times> agent_profile)" where
  "agent_config_selected c requested =
     and_then (ok_or (Profile_Missing ''no default_profile configured'')
                (case requested of Some r \<Rightarrow> Some r | None \<Rightarrow> ac_default_profile c)) (\<lambda>name.
     ok_or (Profile_Missing name) (map_option (\<lambda>p. (name, p)) (bt_get (ac_profiles c) name)))"

text \<open>The two variables of the environment are arguments.\<close>

definition agent_default_path :: "path option \<Rightarrow> path option \<Rightarrow> path option" where
  "agent_default_path xdg_config_home home =
     map_option (\<lambda>base. join base ''feam/agent.toml'')
       (case xdg_config_home of Some d \<Rightarrow> Some d | None \<Rightarrow> map_option (\<lambda>h. join h ''.config'') home)"

end
