(* ===== verification/Agent_Config_Proofs.thy ===== *)
theory Agent_Config_Proofs
  imports Agent_Config Example_World
begin

text \<open>
  What validation establishes of a profile: its requests go over TLS or stay on the machine, and
  every limit of a session lies in a fixed range, however the configuration file was written.
\<close>

section \<open>Where requests may go\<close>

definition url_authority :: "string \<Rightarrow> string" where
  "url_authority url = (case split_once_str ''://'' url of Some (_, rest) \<Rightarrow> authority_of rest | None \<Rightarrow> [])"

definition url_host :: "string \<Rightarrow> string" where
  "url_host url = takeWhile (\<lambda>c. c \<noteq> CHR '':'') (url_authority url)"

definition stays_local :: "string \<Rightarrow> bool" where
  "stays_local url \<longleftrightarrow> url_host url \<in> {''127.0.0.1'', ''localhost''}"

lemma split_once_takeWhile:
  "(case split_once d s of Some (a, _) \<Rightarrow> a | None \<Rightarrow> s) = takeWhile (\<lambda>c. c \<noteq> d) s"
  by (induction s) (auto split: option.splits prod.splits)

lemma authority_of_eq: "authority_of s = takeWhile (\<lambda>c. c \<noteq> slash) s"
  by (simp only: authority_of_def split_once_takeWhile)

lemma authority_http: "url_authority (''http://'' @ rest) = authority_of rest"
  by (simp add: url_authority_def)

lemma authority_https: "url_authority (''https://'' @ rest) = authority_of rest"
  by (simp add: url_authority_def)

lemma host_of_prefix:
  assumes "rest = [] \<or> starts_with '':'' rest \<or> starts_with ''/'' rest"
    and "CHR '':'' \<notin> set host" "slash \<notin> set host"
  shows "takeWhile (\<lambda>c. c \<noteq> CHR '':'') (authority_of (host @ rest)) = host"
proof -
  have all: "\<forall>c \<in> set host. c \<noteq> slash" "\<forall>c \<in> set host. c \<noteq> CHR '':''"
    using assms(2,3) by auto
  have "authority_of (host @ rest) = host @ takeWhile (\<lambda>c. c \<noteq> slash) rest"
    unfolding authority_of_eq using all(1) by (intro takeWhile_append2) auto
  moreover have "takeWhile (\<lambda>c. c \<noteq> CHR '':'') (host @ takeWhile (\<lambda>c. c \<noteq> slash) rest) =
      host @ takeWhile (\<lambda>c. c \<noteq> CHR '':'') (takeWhile (\<lambda>c. c \<noteq> slash) rest)"
    using all(2) by (intro takeWhile_append2) auto
  moreover have "takeWhile (\<lambda>c. c \<noteq> CHR '':'') (takeWhile (\<lambda>c. c \<noteq> slash) rest) = []"
    using assms(1) by (auto simp: starts_with_iff)
  ultimately show ?thesis by simp
qed

lemma validate_endpoint_ok:
  assumes "validate_endpoint url = Inr ()"
  shows "starts_with ''https://'' url \<or> starts_with ''http://'' url \<and> stays_local url"
    and "CHR ''@'' \<notin> set (url_authority url)" "url_authority url \<noteq> []"
    and "CHR ''?'' \<notin> set url" "CHR ''#'' \<notin> set url"
proof -
  have loop: "starts_with ''http://'' url \<and> stays_local url"
    if "strip_prefix (''http://'' @ host) url = Some rest" "host \<in> {''127.0.0.1'', ''localhost''}"
      "rest = [] \<or> starts_with '':'' rest \<or> starts_with ''/'' rest" for host rest
  proof -
    have "url = ''http://'' @ host @ rest" using that(1) by (simp add: strip_prefix_eq_Some)
    moreover have "takeWhile (\<lambda>c. c \<noteq> CHR '':'') (authority_of (host @ rest)) = host"
      using that(2,3) by (intro host_of_prefix) auto
    ultimately show ?thesis using that(2)
      by (auto simp: stays_local_def url_host_def authority_http starts_with_iff
          simp del: append_Cons)
  qed
  from assms show "starts_with ''https://'' url \<or> starts_with ''http://'' url \<and> stays_local url"
    using loop [of "''127.0.0.1''"] loop [of "''localhost''"]
    by (auto simp: validate_endpoint_def Let_def split: if_splits option.splits)
  from assms show "CHR ''@'' \<notin> set (url_authority url)" "url_authority url \<noteq> []"
    "CHR ''?'' \<notin> set url" "CHR ''#'' \<notin> set url"
    by (auto simp: validate_endpoint_def url_authority_def Let_def split: if_splits option.splits)
qed

lemma exact_loopback_ok:
  assumes "exact_loopback url"
  shows "starts_with ''https://'' url" "url_host url = ''127.0.0.1''"
proof -
  from assms obtain rest where url: "url = ''https://'' @ rest"
    by (auto simp: exact_loopback_def strip_prefix_eq_Some split: option.splits)
  then show "starts_with ''https://'' url" by (auto simp: starts_with_iff)
  have "authority_of rest = ''127.0.0.1'' \<or> (\<exists>port. authority_of rest = ''127.0.0.1:'' @ port)"
    using assms unfolding url exact_loopback_def
    by (auto simp del: append_Cons simp: Let_def strip_prefix_eq_Some split: option.splits)
  then show "url_host url = ''127.0.0.1''"
    unfolding url url_host_def authority_https by auto
qed

section \<open>Validated profiles\<close>

text \<open>The ranges the session relies on, read as numbers.\<close>

definition bounded_profile :: "agent_profile \<Rightarrow> bool" where
  "bounded_profile p \<longleftrightarrow>
     unat (ap_max_tool_calls p) \<in> {1..8} \<and>
     unat (ap_max_request_seconds p) \<in> {1..120} \<and>
     unat (ap_max_context_chars p) \<in> {1..262144} \<and>
     unat (ap_max_response_chars p) \<in> {1..262144} \<and>
     unat (ap_max_request_bytes p) \<in> {1024..1048576} \<and>
     unat (ap_max_response_bytes p) \<in> {1024..1048576} \<and>
     unat (ap_max_output_tokens p) \<in> {1..4096} \<and>
     (\<forall>v. ap_max_cost_usd p = Some v \<longrightarrow> (\<exists>r > 0. v = Finite r))"

lemma positive_finite:
  "\<not> is_some_and (\<lambda>v. \<not> finite_f64 v \<or> f64_leq v (Finite 0)) x \<Longrightarrow> x = Some v \<Longrightarrow> \<exists>r > 0. v = Finite r"
  by (cases v) (auto simp: finite_f64_def f64_leq_def)

lemma word_range:
  "a \<le> x \<Longrightarrow> x \<le> b \<Longrightarrow> unat a \<le> unat x \<and> unat x \<le> unat b" for x :: "'a::len word"
  by (simp add: word_le_nat_alt)

lemma validated_bounded:
  assumes "agent_profile_validate p name = Inr ()"
  shows "bounded_profile p"
proof -
  note v = assms [unfolded agent_profile_validate_def validate_profile_bounds_def, simplified]
  have pos: "0 < unat (ap_max_context_chars p)" "0 < unat (ap_max_response_chars p)"
      "0 < unat (ap_max_request_seconds p)"
    using v by (auto simp: unat_gt_0)
  show ?thesis
    using v pos positive_finite [of "ap_max_cost_usd p"]
    by (auto simp: bounded_profile_def word_le_nat_alt word_less_nat_alt not_less)
qed

lemma loaded_profiles_validated:
  assumes "agent_config_load E p' w = (Inr c, w')" "agent_config_selected c requested = Inr (name, p)"
  shows "agent_profile_validate p name = Inr ()"
proof -
  have "(name, p) \<in> set (ac_profiles c)"
    using assms(2) by (auto simp: agent_config_selected_def dest: map_of_SomeD)
  moreover have "\<forall>(name, p) \<in> set (ac_profiles c). agent_profile_validate p name = Inr ()"
    using assms(1)
    by (auto simp: agent_config_load_def io_bind_def io_lift_def io_ret_def io_err_def
        split: prod.splits sum.splits if_splits)
  ultimately show ?thesis by blast
qed

section \<open>Properties\<close>

definition demo_profile :: agent_profile where
  "demo_profile =
     \<lparr>ap_backend = ''router'', ap_base_url = ''https://127.0.0.1:8443/v1'',
      ap_loopback_ca_file = Some ''/run/ca.pem'', ap_model = ''m'', ap_api_key_env = ''KEY'',
      ap_context_policy = ''metadata-only'', ap_max_tool_calls = 2, ap_max_request_seconds = 120,
      ap_max_context_chars = 8000, ap_max_response_chars = 8000, ap_max_cost_usd = Some (Finite 1),
      ap_allowed_providers = [], ap_allow_provider_fallbacks = False, ap_allow_user_text = True,
      ap_max_request_bytes = 131072, ap_max_response_bytes = 131072, ap_max_output_tokens = 1024,
      ap_allowed_metadata_fields = [''name''], ap_max_input_price = None, ap_max_output_price = None,
      ap_reasoning_enabled = False\<rparr>"

lemma demo_profile_valid: "agent_profile_validate demo_profile ''demo'' = Inr ()"
  by code_simp



definition config_ext :: ext where
  "config_ext =
     demo_ext\<lparr>toml_parse := (\<lambda>_. Inr (JObj
       [(''schema_version'', JInt 1), (''default_profile'', JStr ''demo''),
        (''profiles'', JObj [(''demo'', ser_agent_profile demo_profile)])]))\<rparr>"

text \<open>Every profile a loaded configuration can select bounds its session: 1 to 8 tool calls, 1
  to 120 seconds, at most 256 Ki characters of context and answer, 1 KiB to 1 MiB of request and
  response bytes, 1 to 4096 output tokens, and a positive finite cost limit if there is one. A
  missing field takes a default inside its range.\<close>

theorem selected_profile_is_bounded:
  assumes "agent_config_load E p' w = (Inr c, w')"
    and "agent_config_selected c requested = Inr (name, p)"
  shows "bounded_profile p"
  by (rule validated_bounded, rule loaded_profiles_validated, fact+)

theorem selected_profile_is_bounded_witness: "bounded_profile demo_profile"
proof -
  let ?run = "agent_config_load config_ext ''/p/s/a'' demo_world"
  have "case fst ?run of Inr c \<Rightarrow> agent_config_selected c None = Inr (''demo'', demo_profile) | Inl _ \<Rightarrow> False"
    by code_simp
  then obtain c w' where "?run = (Inr c, w')" "agent_config_selected c None = Inr (''demo'', demo_profile)"
    by (cases ?run) (auto split: sum.splits)
  then show ?thesis by (rule selected_profile_is_bounded)
qed

end
