(* ===== verification/Float64.thy ===== *)
theory Float64
  imports Prelude "HOL-Library.Log_Nat" "HOL-Library.Code_Target_Nat" "HOL-Library.Code_Target_Int"
begin

text \<open>
  The arithmetic of \<open>f64\<close> that the cost ledger of a session uses: conversion from integers, sums,
  products and quotients, rounded to nearest with ties to even, with the overflow to infinity and
  the invalid operations of IEEE 754.
\<close>

definition pow2 :: "int \<Rightarrow> rat" where
  "pow2 e = (if 0 \<le> e then 2 ^ nat e else 1 / 2 ^ nat (- e))"

definition round_half_even :: "rat \<Rightarrow> int" where
  "round_half_even x =
     (let f = \<lfloor>x\<rfloor>; d = x - of_int f in
      if d < 1 / 2 then f else if 1 / 2 < d then f + 1 else if even f then f else f + 1)"

text \<open>The exponent \<open>e\<close> with \<open>2 ^ e \<le> r < 2 ^ (e + 1)\<close>, for a positive \<open>r\<close>.\<close>

definition exponent_of :: "rat \<Rightarrow> int" where
  "exponent_of r =
     (case quotient_of r of (n, d) \<Rightarrow>
        let e = int (floorlog 2 (nat n)) - int (floorlog 2 (nat d)) in
        if r < pow2 e then e - 1 else e)"

definition round_f64 :: "rat \<Rightarrow> f64" where
  "round_f64 r =
     (if r = 0 then Finite 0
      else
        let q = max (exponent_of \<bar>r\<bar>) (- 1022) - 52;
            m = of_int (round_half_even (\<bar>r\<bar> / pow2 q)) * pow2 q in
        if m \<noteq> 0 \<and> 1024 \<le> exponent_of m then (if 0 < r then PosInf else NegInf)
        else Finite (if 0 < r then m else - m))"

definition f64_of_nat :: "nat \<Rightarrow> f64" where
  "f64_of_nat n = round_f64 (of_nat n)"

fun f64_neg :: "f64 \<Rightarrow> f64" where
  "f64_neg (Finite r) = Finite (- r)"
| "f64_neg PosInf = NegInf"
| "f64_neg NegInf = PosInf"
| "f64_neg NaN = NaN"

fun f64_add :: "f64 \<Rightarrow> f64 \<Rightarrow> f64" where
  "f64_add (Finite a) (Finite b) = round_f64 (a + b)"
| "f64_add NaN _ = NaN"
| "f64_add _ NaN = NaN"
| "f64_add PosInf NegInf = NaN"
| "f64_add NegInf PosInf = NaN"
| "f64_add PosInf _ = PosInf"
| "f64_add NegInf _ = NegInf"
| "f64_add (Finite _) PosInf = PosInf"
| "f64_add (Finite _) NegInf = NegInf"

definition f64_negative :: "f64 \<Rightarrow> bool" where
  "f64_negative x = f64_less x (Finite 0)"

definition f64_mul :: "f64 \<Rightarrow> f64 \<Rightarrow> f64" where
  "f64_mul a b =
     (case (a, b) of
        (NaN, _) \<Rightarrow> NaN
      | (_, NaN) \<Rightarrow> NaN
      | (Finite x, Finite y) \<Rightarrow> round_f64 (x * y)
      | _ \<Rightarrow>
          if a = Finite 0 \<or> b = Finite 0 then NaN
          else if f64_negative a = f64_negative b then PosInf else NegInf)"

text \<open>Quotients by a positive finite constant; the program has no others.\<close>

definition f64_div_pos :: "f64 \<Rightarrow> rat \<Rightarrow> f64" where
  "f64_div_pos a d = (case a of Finite x \<Rightarrow> round_f64 (x / d) | _ \<Rightarrow> a)"

text \<open>Ties go to the even neighbour, and small dyadic numbers are exact.\<close>

lemma rounding_examples:
  "round_half_even (7 / 2) = 4" "round_half_even (5 / 2) = 2" "exponent_of (1 / 10) = - 4"
  "f64_add (Finite (1 / 2)) (Finite 1) = Finite (3 / 2)" "f64_of_nat 3 = Finite 3"
  by code_simp+

lemma f64_zero [simp]: "round_f64 0 = Finite 0"
  by (simp add: round_f64_def)

end
