(* ===== verification/Json_Value.thy ===== *)
theory Json_Value
  imports Json Float64
begin

text \<open>The methods of \<open>serde_json::Value\<close> that the program calls, and the objects of \<open>json!\<close>.\<close>

text \<open>An object of \<open>serde_json::Value\<close> is a \<open>BTreeMap\<close>: its keys are in order.\<close>

definition json_object :: "(string \<times> json) list \<Rightarrow> json" where
  "json_object kvs = JObj (fold (\<lambda>(k, v). bt_insert k v) kvs [])"

fun to_value :: "json \<Rightarrow> json" where
  "to_value (JObj kvs) = json_object (map (\<lambda>(k, v). (k, to_value v)) kvs)"
| "to_value (JArr js) = JArr (map to_value js)"
| "to_value (JStr s) = JStr s"
| "to_value JNull = JNull"
| "to_value (JBool b) = JBool b"
| "to_value (JInt i) = JInt i"
| "to_value (JFloat r) = JFloat r"

definition json_get :: "string \<Rightarrow> json \<Rightarrow> json option" where
  "json_get k j = (case j of JObj kvs \<Rightarrow> map_of kvs k | _ \<Rightarrow> None)"

definition json_str :: "json \<Rightarrow> string option" where
  "json_str j = (case j of JStr s \<Rightarrow> Some s | _ \<Rightarrow> None)"

definition json_items :: "json \<Rightarrow> json list option" where
  "json_items j = (case j of JArr js \<Rightarrow> Some js | _ \<Rightarrow> None)"

text \<open>\<open>pointer\<close> through object keys and array indices.\<close>

datatype step = Key string | Index nat

fun json_pointer :: "step list \<Rightarrow> json \<Rightarrow> json option" where
  "json_pointer [] j = Some j"
| "json_pointer (Key k # ps) j = Option.bind (json_get k j) (json_pointer ps)"
| "json_pointer (Index i # ps) j =
     Option.bind
       (case j of
          JArr js \<Rightarrow> if i < length js then Some (js ! i) else None
        | JObj kvs \<Rightarrow> map_of kvs (show_nat i)
        | _ \<Rightarrow> None) (json_pointer ps)"

definition set_key :: "string \<Rightarrow> json \<Rightarrow> (string \<times> json) list \<Rightarrow> (string \<times> json) list" where
  "set_key k v kvs =
     (if k \<in> fst ` set kvs then map (\<lambda>(k', v'). (k', if k' = k then v else v')) kvs
      else bt_insert k v kvs)"

text \<open>\<open>value[k] = v\<close>: a null becomes an object; any other value that is no object panics (\<open>None\<close>).\<close>

definition json_set :: "string \<Rightarrow> json \<Rightarrow> json \<Rightarrow> json option" where
  "json_set k v j =
     (case j of JObj kvs \<Rightarrow> Some (JObj (set_key k v kvs)) | JNull \<Rightarrow> Some (JObj [(k, v)]) | _ \<Rightarrow> None)"

definition json_u64 :: "json \<Rightarrow> nat option" where
  "json_u64 j = (case j of JInt i \<Rightarrow> if 0 \<le> i \<and> i < 2 ^ 64 then Some (nat i) else None | _ \<Rightarrow> None)"

definition json_f64 :: "json \<Rightarrow> f64 option" where
  "json_f64 j =
     (case j of
        JFloat r \<Rightarrow> Some (Finite r)
      | JInt i \<Rightarrow> Some (if i < 0 then f64_neg (f64_of_nat (nat (- i))) else f64_of_nat (nat i))
      | _ \<Rightarrow> None)"

end
