(* ===== verification/Provider.thy ===== *)
theory Provider
  imports Agent_Config Json_Value
begin

text \<open>
  The provider-neutral part of \<open>mesh_agent/src/provider.rs\<close>: messages, requests and events, the
  errors of a provider, the trait \<open>ModelProvider\<close> as a record of its methods, and the two providers
  that need no network: scripts (\<open>FakeProvider\<close>) and recorded turns (\<open>ReplayProvider\<close>).
\<close>

section \<open>Data\<close>

record provider_tool_call =
  ca_id :: string
  ca_name :: string
  ca_arguments :: json

record model_message =
  mm_role :: string
  mm_content :: json
  mm_tool_call_id :: "string option"
  mm_tool_calls :: "provider_tool_call list option"

record tool_schema =
  ts_name :: string
  ts_description :: string
  ts_parameters :: json

record model_request =
  rq_messages :: "model_message list"
  rq_tools :: "tool_schema list"
  rq_max_response_chars :: "64 word"

record provider_usage =
  us_model :: "string option"
  us_provider :: "string option"
  us_generation_id :: "string option"
  us_input_tokens :: "64 word option"
  us_output_tokens :: "64 word option"
  us_cost_usd :: "f64 option"

datatype provider_event =
    TextDelta string | ToolCall provider_tool_call | Usage provider_usage | Finished

datatype provider_error =
    Configuration string | Authentication | RateLimited | Transport string | TooLarge
  | Malformed string | Cancelled | Protocol string

fun provider_error_kind :: "provider_error \<Rightarrow> string" where
  "provider_error_kind (Configuration _) = ''provider_configuration''"
| "provider_error_kind Authentication = ''provider_authentication''"
| "provider_error_kind RateLimited = ''provider_rate_limited''"
| "provider_error_kind (Transport _) = ''provider_transport''"
| "provider_error_kind TooLarge = ''provider_output_too_large''"
| "provider_error_kind (Malformed _) = ''provider_malformed_response''"
| "provider_error_kind Cancelled = ''provider_cancelled''"
| "provider_error_kind (Protocol _) = ''provider_protocol''"

fun provider_error_text :: "provider_error \<Rightarrow> string" where
  "provider_error_text (Configuration s) = ''provider configuration error: '' @ s"
| "provider_error_text Authentication = ''provider authentication failed''"
| "provider_error_text RateLimited = ''provider rate limit exceeded''"
| "provider_error_text (Transport s) = ''provider transport error: '' @ s"
| "provider_error_text TooLarge = ''provider response exceeded configured limit''"
| "provider_error_text (Malformed s) = ''provider response was malformed: '' @ s"
| "provider_error_text Cancelled = ''provider stream was cancelled''"
| "provider_error_text (Protocol s) = ''provider protocol error: '' @ s"

section \<open>JSON\<close>

definition ser_provider_tool_call :: "provider_tool_call \<Rightarrow> json" where
  "ser_provider_tool_call x =
     JObj ([(''id'', JStr (ca_id x)),
            (''name'', JStr (ca_name x)),
            (''arguments'', (\<lambda>j. j) (ca_arguments x))])"

definition de_provider_tool_call :: "json \<Rightarrow> provider_tool_call de" where
  "de_provider_tool_call j =
     and_then (object_fields False
       [''id'', ''name'', ''arguments''] j) (\<lambda>kvs.
     and_then (field ''id'' de_string kvs) (\<lambda>x0.
     and_then (field ''name'' de_string kvs) (\<lambda>x1.
     and_then (field ''arguments'' Inr kvs) (\<lambda>x2.
     Inr \<lparr>ca_id = x0, ca_name = x1, ca_arguments = x2\<rparr>))))"

definition ser_provider_usage :: "provider_usage \<Rightarrow> json" where
  "ser_provider_usage x =
     JObj ([(''model'', ser_option JStr (us_model x)),
            (''provider'', ser_option JStr (us_provider x)),
            (''generation_id'', ser_option JStr (us_generation_id x)),
            (''input_tokens'', ser_option ser_word (us_input_tokens x)),
            (''output_tokens'', ser_option ser_word (us_output_tokens x)),
            (''cost_usd'', ser_option ser_f64 (us_cost_usd x))])"

definition de_provider_usage :: "json \<Rightarrow> provider_usage de" where
  "de_provider_usage j =
     and_then (object_fields False
       [''model'', ''provider'', ''generation_id'', ''input_tokens'', ''output_tokens'',
        ''cost_usd''] j) (\<lambda>kvs.
     and_then (field_option ''model'' de_string kvs) (\<lambda>x0.
     and_then (field_option ''provider'' de_string kvs) (\<lambda>x1.
     and_then (field_option ''generation_id'' de_string kvs) (\<lambda>x2.
     and_then (field_option ''input_tokens'' de_word kvs) (\<lambda>x3.
     and_then (field_option ''output_tokens'' de_word kvs) (\<lambda>x4.
     and_then (field_option ''cost_usd'' de_f64 kvs) (\<lambda>x5.
     Inr \<lparr>us_model = x0, us_provider = x1, us_generation_id = x2, us_input_tokens = x3,
          us_output_tokens = x4, us_cost_usd = x5\<rparr>)))))))"

definition ser_model_message :: "model_message \<Rightarrow> json" where
  "ser_model_message x =
     JObj ([(''role'', JStr (mm_role x)),
            (''content'', (\<lambda>j. j) (mm_content x))] @
           skip_none ''tool_call_id'' JStr (mm_tool_call_id x) @
           skip_none ''tool_calls'' (ser_list ser_provider_tool_call) (mm_tool_calls x))"

definition ser_tool_schema :: "tool_schema \<Rightarrow> json" where
  "ser_tool_schema x =
     JObj ([(''name'', JStr (ts_name x)),
            (''description'', JStr (ts_description x)),
            (''parameters'', (\<lambda>j. j) (ts_parameters x))])"

definition ser_model_request :: "model_request \<Rightarrow> json" where
  "ser_model_request x =
     JObj ([(''messages'', (ser_list ser_model_message) (rq_messages x)),
            (''tools'', (ser_list ser_tool_schema) (rq_tools x)),
            (''max_response_chars'', ser_word (rq_max_response_chars x))])"

text \<open>An enum with no tag of its own: the variant is the only key, or the whole string.\<close>

fun de_provider_event :: "json \<Rightarrow> provider_event de" where
  "de_provider_event (JStr s) =
     (if s = ''Finished'' then Inr Finished else Inl (InvalidValue ''variant''))"
| "de_provider_event (JObj [(k, v)]) =
     (if k = ''TextDelta'' then map_ok TextDelta (de_string v)
      else if k = ''ToolCall'' then map_ok ToolCall (de_provider_tool_call v)
      else if k = ''Usage'' then map_ok Usage (de_provider_usage v)
      else if k = ''Finished'' \<and> v = JNull then Inr Finished
      else Inl (InvalidValue ''variant''))"
| "de_provider_event _ = Inl (InvalidType ''enum'')"

section \<open>The trait\<close>

text \<open>
  A token is shared with the user interface, which may set it at any time: \<open>k\<close> is the number of
  looks a call has taken at it. A stream hands its events to the caller one by one; the caller of
  this program only collects them, so the events are part of the outcome, with the result and the
  number of looks at the token.
\<close>

type_synonym cancel_token = "nat \<Rightarrow> bool"

record stream_outcome =
  so_events :: "provider_event list"
  so_result :: "provider_error + unit"
  so_polls :: nat

record 'p model_provider =
  op_set_request_timeout :: "nat \<Rightarrow> 'p \<Rightarrow> 'p"
  op_set_request_id :: "string option \<Rightarrow> 'p \<Rightarrow> 'p"
  op_stream :: "model_request \<Rightarrow> cancel_token \<Rightarrow> 'p \<Rightarrow> stream_outcome \<times> 'p"

text \<open>The loop of both providers here: the token is read before each event.\<close>

fun emit_events :: "cancel_token \<Rightarrow> nat \<Rightarrow> provider_event list \<Rightarrow> stream_outcome" where
  "emit_events stopped k [] = \<lparr>so_events = [], so_result = Inr (), so_polls = k\<rparr>"
| "emit_events stopped k (e # es) =
     (if stopped k then \<lparr>so_events = [], so_result = Inl Cancelled, so_polls = Suc k\<rparr>
      else let r = emit_events stopped (Suc k) es in r\<lparr>so_events := e # so_events r\<rparr>)"

definition refuse :: "nat \<Rightarrow> provider_error \<Rightarrow> stream_outcome" where
  "refuse k e = \<lparr>so_events = [], so_result = Inl e, so_polls = k\<rparr>"

section \<open>Scripted turns\<close>

type_synonym fake_script = "provider_error + provider_event list"

record fake_provider =
  fk_scripts :: "fake_script list"

definition fake_stream :: "model_request \<Rightarrow> cancel_token \<Rightarrow> fake_provider \<Rightarrow> stream_outcome \<times> fake_provider" where
  "fake_stream request stopped p =
     (if stopped 0 then (refuse 1 Cancelled, p)
      else
        case fk_scripts p of
          [] \<Rightarrow> (refuse 1 (Protocol ''fake provider script exhausted''), p)
        | script # rest \<Rightarrow>
            (case script of Inl e \<Rightarrow> refuse 1 e | Inr events \<Rightarrow> emit_events stopped 1 events,
             p\<lparr>fk_scripts := rest\<rparr>))"

definition fake_model_provider :: "fake_provider model_provider" where
  "fake_model_provider =
     \<lparr>op_set_request_timeout = (\<lambda>_ p. p), op_set_request_id = (\<lambda>_ p. p), op_stream = fake_stream\<rparr>"

section \<open>Recorded turns\<close>

record replay_provider =
  rp_turns :: "provider_event list list"

definition MAX_REPLAY_BYTES :: nat where
  "MAX_REPLAY_BYTES = 1024 * 1024"

definition replay_load :: "ext \<Rightarrow> path \<Rightarrow> (world, provider_error, replay_provider) io" where
  "replay_load E source =
     io_bind (io_map_err (\<lambda>_. Configuration ''replay file unavailable'') (open_existing source)) (\<lambda>_.
     io_bind (io_map_err (\<lambda>_. Configuration ''replay file unreadable'') (sys_read source)) (\<lambda>all.
     let bytes = take (MAX_REPLAY_BYTES + 1) all in
     if MAX_REPLAY_BYTES < length bytes then io_err TooLarge
     else
       io_bind (io_lift (map_err (\<lambda>_. Configuration ''invalid replay event file'')
                  (and_then (json_parse E bytes) (de_list (de_list de_provider_event))))) (\<lambda>turns.
       io_ret \<lparr>rp_turns = turns\<rparr>)))"

definition HANDLES_PREFIX :: string where
  "HANDLES_PREFIX = ''Locally selected handles for this session: ''"

definition replay_handles :: "ext \<Rightarrow> model_message list \<Rightarrow> json option" where
  "replay_handles E messages =
     (let found = List.map_filter (\<lambda>m.
        Option.bind (json_str (mm_content m)) (\<lambda>s.
        Option.bind (split_once_str HANDLES_PREFIX s) (\<lambda>(_, handles).
        case json_parse E handles of Inl _ \<Rightarrow> None | Inr j \<Rightarrow> Some j))) (rev messages) in
      case found of [] \<Rightarrow> None | h # _ \<Rightarrow> Some h)"

text \<open>The recorded handle \<open>$selected\<close> stands for the first operation of the session.\<close>

definition expand_selected :: "json option \<Rightarrow> provider_event \<Rightarrow> provider_error + provider_event" where
  "expand_selected handles e =
     (case e of
        ToolCall call \<Rightarrow>
          if json_get ''handle'' (ca_arguments call) = Some (JStr ''$selected'')
          then
            (case Option.bind handles (json_pointer [Key ''operations'', Index 0, Key ''handle'']) of
               None \<Rightarrow> Inl (Protocol ''replay needs a locally selected handle'')
             | Some h \<Rightarrow>
                 (case json_set ''handle'' h (ca_arguments call) of
                    Some args \<Rightarrow> Inr (ToolCall (call\<lparr>ca_arguments := args\<rparr>))
                  | None \<Rightarrow> Inr e))
          else Inr e
      | _ \<Rightarrow> Inr e)"

definition replay_usage :: provider_usage where
  "replay_usage =
     \<lparr>us_model = None, us_provider = None, us_generation_id = None, us_input_tokens = Some 0,
      us_output_tokens = Some 0, us_cost_usd = Some (Finite 0)\<rparr>"

definition replay_stream ::
  "ext \<Rightarrow> model_request \<Rightarrow> cancel_token \<Rightarrow> replay_provider \<Rightarrow> stream_outcome \<times> replay_provider" where
  "replay_stream E request stopped p =
     (if stopped 0 then (refuse 1 Cancelled, p)
      else
        case rp_turns p of
          [] \<Rightarrow> (refuse 1 (Protocol ''replay exhausted''), p)
        | events # rest \<Rightarrow>
            (case traverse (expand_selected (replay_handles E (rq_messages request))) events of
               Inl e \<Rightarrow> refuse 1 e
             | Inr expanded \<Rightarrow>
                 let r = emit_events stopped 1 expanded in
                 (case so_result r of
                    Inl _ \<Rightarrow> r
                  | Inr _ \<Rightarrow> r\<lparr>so_events := so_events r @ [Usage replay_usage]\<rparr>),
             p\<lparr>rp_turns := rest\<rparr>))"

definition replay_model_provider :: "ext \<Rightarrow> replay_provider model_provider" where
  "replay_model_provider E =
     \<lparr>op_set_request_timeout = (\<lambda>_ p. p), op_set_request_id = (\<lambda>_ p. p),
      op_stream = replay_stream E\<rparr>"

end
