(* ===== verification/Disclosure.thy ===== *)
theory Disclosure
  imports Provider
begin

text \<open>
  \<open>mesh_agent/src/disclosure.rs\<close>: the one boundary every request crosses before it leaves the
  process. Prose is redacted token by token, tool results keep only allowed keys, and a request
  over the profile's limits is refused.
\<close>

section \<open>Redaction\<close>

definition opening_marks :: "char set" where
  "opening_marks = {CHR 0x22, CHR 0x27, CHR ''('', CHR ''['', CHR ''{''}"

text \<open>Tokens that look like a local path or a credential.\<close>

definition flagged :: "string \<Rightarrow> bool" where
  "flagged part =
     (let stripped = dropWhile (\<lambda>c. c \<in> opening_marks) (trim part) in
      (slash \<in> set stripped \<and> \<not> starts_with ''product://'' stripped \<and> \<not> starts_with ''feam.'' stripped) \<or>
      starts_with ''~'' stripped \<or>
      contains_str [CHR '':'', CHR 0x5C] stripped \<or>
      starts_with ''sk-'' stripped \<or>
      starts_with ''Bearer'' stripped \<or>
      contains_str ''API_KEY='' stripped)"

definition redact_part :: "string list \<Rightarrow> string" where
  "redact_part cs =
     (let part = concat cs; suffix = drop (length (trim_end part)) part in
      if flagged part then ''[redacted]'' @ suffix
      else concat (filter (\<lambda>c. \<not> char_is_control c \<or> char_is_whitespace c) cs))"

definition hide_secret :: "string option \<Rightarrow> string \<Rightarrow> string" where
  "hide_secret secret text =
     (case secret of
        None \<Rightarrow> text
      | Some s \<Rightarrow> if s = [] then text else replace_str s ''[credential]'' text)"

definition redact :: "string \<Rightarrow> string option \<Rightarrow> string" where
  "redact text secret =
     concat (map redact_part (split_inclusive char_is_whitespace (chars (hide_secret secret text))))"

section \<open>Tool results\<close>

definition STRUCTURAL :: "string list" where
  "STRUCTURAL =
     [''operations'', ''drafts'', ''summary'', ''overwrite'', ''question'', ''choices'', ''protocol'',
      ''tool'', ''status'', ''result'', ''error'', ''kind'', ''operation_id'', ''handle'',
      ''reference'', ''version'', ''manifest_revision'', ''expected_manifest_revision'',
      ''data_kind'', ''data_format'', ''quality'', ''classification'', ''entries'',
      ''coverage'', ''namespace'', ''available'', ''revision'', ''observed_at'', ''freshness'',
      ''integrity_verified'', ''asset_count'', ''estimated_asset_bytes'', ''assets'', ''id'',
      ''role'', ''media_type'', ''size'', ''next_cursor'', ''snapshot_fingerprint'',
      ''result_limit'', ''truncated'', ''topic'', ''excerpt'', ''state'', ''completed_at'',
      ''input_tokens'', ''output_tokens'', ''cost_usd'', ''missing_fields'']"

definition disclosed_key :: "agent_profile \<Rightarrow> string \<Rightarrow> bool" where
  "disclosed_key p k \<longleftrightarrow> k \<in> set STRUCTURAL \<or> k \<in> set (ap_allowed_metadata_fields p)"

fun tool_summary :: "agent_profile \<Rightarrow> json \<Rightarrow> json" where
  "tool_summary p (JObj kvs) =
     JObj (filter (\<lambda>(k, _). disclosed_key p k) (map (\<lambda>(k, v). (k, tool_summary p v)) kvs))"
| "tool_summary p (JArr js) = JArr (take 100 (map (tool_summary p) js))"
| "tool_summary p (JStr s) = JStr (redact (concat (take 1024 (chars s))) None)"
| "tool_summary p JNull = JNull"
| "tool_summary p (JBool b) = JBool b"
| "tool_summary p (JInt i) = JInt i"
| "tool_summary p (JFloat r) = JFloat r"

fun scrub_value :: "string option \<Rightarrow> json \<Rightarrow> json" where
  "scrub_value secret (JStr s) = JStr (redact s secret)"
| "scrub_value secret (JArr js) = JArr (map (scrub_value secret) js)"
| "scrub_value secret (JObj kvs) = JObj (map (\<lambda>(k, v). (k, scrub_value secret v)) kvs)"
| "scrub_value secret JNull = JNull"
| "scrub_value secret (JBool b) = JBool b"
| "scrub_value secret (JInt i) = JInt i"
| "scrub_value secret (JFloat r) = JFloat r"

section \<open>Outgoing requests\<close>

definition tool_value :: "ext \<Rightarrow> json \<Rightarrow> json" where
  "tool_value E content =
     (case json_str content of
        None \<Rightarrow> content
      | Some s \<Rightarrow> (case json_parse E s of Inl _ \<Rightarrow> content | Inr v \<Rightarrow> v))"

definition outbound_content :: "ext \<Rightarrow> agent_profile \<Rightarrow> string option \<Rightarrow> model_message \<Rightarrow> json" where
  "outbound_content E p secret m =
     (if mm_role m = ''tool''
      then JStr (json_print E (scrub_value secret (tool_summary p (tool_value E (mm_content m)))))
      else
        case json_str (mm_content m) of
          None \<Rightarrow> mm_content m
        | Some text \<Rightarrow>
            if mm_role m = ''system'' then JStr (hide_secret secret text) else JStr (redact text secret))"

definition outbound_call :: "string option \<Rightarrow> provider_tool_call \<Rightarrow> provider_tool_call" where
  "outbound_call secret c = c\<lparr>ca_arguments := scrub_value secret (ca_arguments c)\<rparr>"

definition outbound_message ::
  "ext \<Rightarrow> agent_profile \<Rightarrow> string option \<Rightarrow> model_message \<Rightarrow> provider_error + model_message" where
  "outbound_message E p secret m =
     (if mm_role m = ''user'' \<and> \<not> ap_allow_user_text p
      then Inl (Configuration ''user text disclosure is disabled'')
      else Inr (m\<lparr>mm_content := outbound_content E p secret m,
                   mm_tool_calls := map_option (map (outbound_call secret)) (mm_tool_calls m)\<rparr>))"

definition request_bytes_of :: "ext \<Rightarrow> model_request \<Rightarrow> string" where
  "request_bytes_of E r = json_print E (ser_model_request r)"

definition outbound ::
  "ext \<Rightarrow> agent_profile \<Rightarrow> string option \<Rightarrow> model_request \<Rightarrow> provider_error + model_request" where
  "outbound E p secret request =
     and_then (traverse (outbound_message E p secret) (rq_messages request)) (\<lambda>messages.
     let r = request\<lparr>rq_messages := messages\<rparr>; bytes = request_bytes_of E r in
     if unat (ap_max_request_bytes p) < length bytes \<or>
        unat (ap_max_context_chars p) < length (chars bytes)
     then Inl TooLarge
     else Inr r)"

end
