(* ===== verification/Tools.thy ===== *)
theory Tools
  imports Disclosure Operations Catalog
begin

text \<open>
  \<open>mesh_agent/src/tools.rs\<close>: the tools a model may call. The executor keeps what the user selected
  locally (prepared operations, drafts, consents) and the ids of the calls it has handled; a call can
  read through the selected project or open a local review, and never writes on its own.
\<close>

section \<open>Catalog entries as JSON\<close>

definition ser_catalog_entry :: "catalog_entry \<Rightarrow> json" where
  "ser_catalog_entry x =
     JObj [(''reference'', JStr (ce_reference x)), (''version'', JStr (ce_version x)),
           (''name'', JStr (ce_name x)), (''manifest_revision'', ser_word (ce_manifest_revision x)),
           (''data_kind'', ser_data_kind (ce_data_kind x)),
           (''data_format'', ser_data_format (ce_data_format x)),
           (''description'', JStr (ce_description x)), (''limitations'', JStr (ce_limitations x)),
           (''owner_team'', JStr (ce_owner_team x)), (''quality'', JStr (ce_quality x))]"

definition ser_peer_coverage :: "peer_coverage \<Rightarrow> json" where
  "ser_peer_coverage x =
     JObj ([(''namespace'', JStr (cov_namespace x)), (''revision'', ser_option ser_word (cov_revision x)),
            (''observed_at'', JStr (cov_observed_at x)), (''available'', JBool (cov_available x))] @
           skip_none ''error'' JStr (cov_error x))"

definition ser_catalog_page :: "catalog_page \<Rightarrow> json" where
  "ser_catalog_page x =
     JObj ([(''protocol'', JStr (cp_protocol x)), (''entries'', ser_list ser_catalog_entry (cp_entries x)),
            (''coverage'', ser_list ser_peer_coverage (cp_coverage x)),
            (''snapshot_fingerprint'', JStr (cp_snapshot_fingerprint x))] @
           skip_none ''next_cursor'' JStr (cp_next_cursor x) @
           [(''result_limit'', JInt (int (cp_result_limit x))), (''truncated'', JBool (cp_truncated x))])"

section \<open>Results of a tool\<close>

definition AGENT_TOOLS_PROTOCOL_VERSION :: string where
  "AGENT_TOOLS_PROTOCOL_VERSION = ''feam.agent.tools.v1''"

datatype tool_execution =
    Tool_Clarification string "string list"
  | Tool_Read string json
  | Tool_AwaitingReview string string json
  | Tool_DraftPatch string json
  | Tool_Rejected string string

fun model_summary :: "tool_execution \<Rightarrow> json" where
  "model_summary (Tool_Clarification question choices) =
     json_object [(''status'', JStr ''clarification_required''), (''question'', JStr question),
                  (''choices'', ser_list JStr choices)]"
| "model_summary (Tool_Read tool result) =
     json_object [(''protocol'', JStr AGENT_TOOLS_PROTOCOL_VERSION), (''tool'', JStr tool),
                  (''status'', JStr ''ok''), (''result'', result)]"
| "model_summary (Tool_AwaitingReview tool operation_id _) =
     json_object [(''protocol'', JStr AGENT_TOOLS_PROTOCOL_VERSION), (''tool'', JStr tool),
                  (''status'', JStr ''awaiting_user_review''), (''operation_id'', JStr operation_id)]"
| "model_summary (Tool_DraftPatch handle _) =
     json_object [(''status'', JStr ''draft_patch_requires_local_validation''), (''handle'', JStr handle)]"
| "model_summary (Tool_Rejected kind _) =
     json_object [(''protocol'', JStr AGENT_TOOLS_PROTOCOL_VERSION), (''status'', JStr ''rejected''),
                  (''error'', json_object [(''kind'', JStr kind)])]"

definition bad_arguments :: "ext \<Rightarrow> de_error \<Rightarrow> tool_execution" where
  "bad_arguments E e = Tool_Rejected ''bad_arguments'' (de_error_text E e)"

definition tool_peer_error :: "ext \<Rightarrow> peer_error \<Rightarrow> tool_execution" where
  "tool_peer_error E e = Tool_Rejected (error_kind e) (error_text E e)"

section \<open>The executor\<close>

datatype confirmable_operation =
    Op_Publication prepared_publication
  | Op_Stage prepared_stage
  | Op_Withdrawal prepared_withdrawal

record tool_executor =
  ex_project_root :: path
  ex_prepared :: "(string, confirmable_operation) btree"
  ex_call_ids :: "string list"
  ex_drafts :: "(string, json) btree"
  ex_integrity_consent :: "(string \<times> string) list"

definition executor_new :: "path \<Rightarrow> tool_executor" where
  "executor_new project_root =
     \<lparr>ex_project_root = project_root, ex_prepared = [], ex_call_ids = [], ex_drafts = [],
      ex_integrity_consent = []\<rparr>"

definition reset_project :: "path \<Rightarrow> tool_executor \<Rightarrow> tool_executor" where
  "reset_project project_root x =
     x\<lparr>ex_project_root := project_root, ex_prepared := [], ex_call_ids := [], ex_drafts := [],
       ex_integrity_consent := []\<rparr>"

definition invalidate_handles :: "tool_executor \<Rightarrow> tool_executor" where
  "invalidate_handles x = x\<lparr>ex_prepared := [], ex_drafts := [], ex_integrity_consent := []\<rparr>"

fun operation_id_of :: "confirmable_operation \<Rightarrow> string" where
  "operation_id_of (Op_Publication p) = pp_operation_id p"
| "operation_id_of (Op_Stage p) = ps_operation_id p"
| "operation_id_of (Op_Withdrawal p) = pw_operation_id p"

definition register_operation :: "confirmable_operation \<Rightarrow> tool_executor \<Rightarrow> string \<times> tool_executor" where
  "register_operation operation x =
     (let id = operation_id_of operation;
          prepared = (if 16 \<le> length (ex_prepared x) then [] else ex_prepared x) in
      (id, x\<lparr>ex_prepared := bt_insert id operation prepared\<rparr>))"

definition register_draft :: "string \<Rightarrow> json \<Rightarrow> tool_executor \<Rightarrow> tool_executor" where
  "register_draft handle draft x =
     x\<lparr>ex_drafts := bt_insert handle draft (if 16 \<le> length (ex_drafts x) then [] else ex_drafts x)\<rparr>"

definition grant_integrity_consent :: "string \<Rightarrow> string \<Rightarrow> tool_executor \<Rightarrow> tool_executor" where
  "grant_integrity_consent ref version x =
     x\<lparr>ex_integrity_consent := List.insert (ref, version) (ex_integrity_consent x)\<rparr>"

definition take_prepared_operation :: "string \<Rightarrow> tool_executor \<Rightarrow> confirmable_operation option \<times> tool_executor" where
  "take_prepared_operation handle x =
     (bt_get (ex_prepared x) handle, x\<lparr>ex_prepared := bt_remove handle (ex_prepared x)\<rparr>)"

definition prepare_stage_for_review ::
  "ext \<Rightarrow> string \<Rightarrow> string \<Rightarrow> path \<Rightarrow> bool \<Rightarrow> tool_executor \<Rightarrow> world \<Rightarrow> ((string + string) \<times> tool_executor) \<times> world" where
  "prepare_stage_for_review E ref version destination overwrite x w =
     (case prepare_stage E (ex_project_root x) ref version destination overwrite w of
        (Inl e, w') \<Rightarrow> ((Inl (error_text E e), x), w')
      | (Inr p, w') \<Rightarrow>
          ((Inr (ps_operation_id p),
            x\<lparr>ex_prepared := bt_insert (ps_operation_id p) (Op_Stage p) (ex_prepared x)\<rparr>), w'))"

definition prepare_withdrawal_for_review ::
  "ext \<Rightarrow> string \<Rightarrow> string \<Rightarrow> string \<Rightarrow> tool_executor \<Rightarrow> world \<Rightarrow> ((string + string) \<times> tool_executor) \<times> world" where
  "prepare_withdrawal_for_review E ref version reason x w =
     (case prepare_withdrawal E (ex_project_root x) ref version reason w of
        (Inl e, w') \<Rightarrow> ((Inl (error_text E e), x), w')
      | (Inr p, w') \<Rightarrow>
          ((Inr (pw_operation_id p),
            x\<lparr>ex_prepared := bt_insert (pw_operation_id p) (Op_Withdrawal p) (ex_prepared x)\<rparr>), w'))"

section \<open>Reviews\<close>

definition product_reference :: "string \<Rightarrow> string \<Rightarrow> string" where
  "product_reference ns product_id = ''product://'' @ ns @ ''/'' @ product_id"

fun review_summary :: "confirmable_operation \<Rightarrow> json" where
  "review_summary (Op_Publication p) =
     json_object
       [(''tool'', JStr ''publication.publish''), (''status'', JStr ''locally_validated_awaiting_review''),
        (''operation_id'', JStr (pp_operation_id p)),
        (''reference'', JStr (product_reference (pr_namespace (pp_request p)) (pr_product_id (pp_request p)))),
        (''version'', JStr (pr_version (pp_request p))),
        (''estimated_asset_bytes'', ser_word (pp_estimated_asset_bytes p)),
        (''expected_manifest_revision'', ser_word (pp_expected_manifest_revision p))]"
| "review_summary (Op_Stage p) =
     json_object
       [(''tool'', JStr ''product.stage''), (''status'', JStr ''locally_prepared_awaiting_review''),
        (''operation_id'', JStr (ps_operation_id p)), (''reference'', JStr (ps_reference p)),
        (''version'', JStr (ps_version p)),
        (''estimated_asset_bytes'', ser_word (ps_estimated_asset_bytes p)),
        (''destination'', JStr ''selected locally; inspect in the review screen''),
        (''overwrite'', JBool (ps_overwrite p))]"
| "review_summary (Op_Withdrawal p) =
     json_object
       [(''tool'', JStr ''product.withdraw''), (''status'', JStr ''locally_prepared_awaiting_review''),
        (''operation_id'', JStr (pw_operation_id p)), (''reference'', JStr (pw_reference p)),
        (''version'', JStr (pw_version p)), (''reason'', JStr (pw_reason p))]"

definition local_handles :: "tool_executor \<Rightarrow> json" where
  "local_handles x =
     json_object
       [(''operations'', JArr (map (\<lambda>(id, op).
           json_object [(''handle'', JStr id), (''summary'', review_summary op)]) (ex_prepared x))),
        (''drafts'', JArr (map (\<lambda>(k, _). JStr k) (ex_drafts x)))]"

definition de_handle_args :: "json \<Rightarrow> string de" where
  "de_handle_args j = and_then (object_fields True [''handle''] j) (field ''handle'' de_string)"

fun matches_tool :: "string \<Rightarrow> confirmable_operation \<Rightarrow> bool" where
  "matches_tool tool (Op_Publication _) = (tool = ''publication.publish'')"
| "matches_tool tool (Op_Stage _) = (tool = ''product.stage'')"
| "matches_tool tool (Op_Withdrawal _) = (tool = ''product.withdraw'')"

definition review_existing :: "ext \<Rightarrow> string \<Rightarrow> json \<Rightarrow> tool_executor \<Rightarrow> tool_execution" where
  "review_existing E tool arguments x =
     (case de_handle_args arguments of
        Inl e \<Rightarrow> bad_arguments E e
      | Inr handle \<Rightarrow>
          (case bt_get (ex_prepared x) handle of
             None \<Rightarrow> Tool_Rejected ''unknown_handle''
                      (''review handles are local to the selected session and expire on '' @
                       ''project change'')
           | Some operation \<Rightarrow>
               if \<not> matches_tool tool operation
               then Tool_Rejected ''handle_kind_mismatch'' ''review handle does not match this mutation tool''
               else Tool_AwaitingReview tool handle (review_summary operation)))"

section \<open>Drafts\<close>

definition EDITABLE_FIELDS :: "string list" where
  "EDITABLE_FIELDS =
     [''name'', ''version'', ''description'', ''intended_use'', ''limitations'', ''owner_team'',
      ''producer'', ''contact'', ''usage_policy'', ''classification'', ''quality'', ''lineage'',
      ''table'', ''raster'']"

definition de_map :: "json \<Rightarrow> (string, json) btree de" where
  "de_map j = de_btree Inr j"

definition de_patch_args :: "json \<Rightarrow> (string \<times> (string, json) btree) de" where
  "de_patch_args j =
     and_then (object_fields True [''handle'', ''patch''] j) (\<lambda>kvs.
     and_then (field ''handle'' de_string kvs) (\<lambda>handle.
     and_then (field ''patch'' de_map kvs) (\<lambda>patch.
     Inr (handle, patch))))"

text \<open>The loop over the patch: \<open>None\<close> is the panic of \<open>draft[key] = value\<close> on a draft that is no object.\<close>

fun apply_patch :: "(string \<times> json) list \<Rightarrow> json \<Rightarrow> (tool_execution + json) option" where
  "apply_patch [] draft = Some (Inr draft)"
| "apply_patch ((k, v) # kvs) draft =
     (if k \<notin> set EDITABLE_FIELDS
      then Some (Inl (Tool_Rejected ''bad_arguments''
             (''patch may only edit scientific/policy metadata; assets and namespace are '' @
              ''selected locally'')))
      else case json_set k v draft of None \<Rightarrow> None | Some draft' \<Rightarrow> apply_patch kvs draft')"

definition publication_validate :: "ext \<Rightarrow> json \<Rightarrow> tool_executor \<Rightarrow> tool_execution option" where
  "publication_validate E arguments x =
     (case de_patch_args arguments of
        Inl e \<Rightarrow> Some (bad_arguments E e)
      | Inr (handle, patch) \<Rightarrow>
          (case bt_get (ex_drafts x) handle of
             None \<Rightarrow> Some (Tool_Rejected ''unknown_handle'' ''select a local draft first'')
           | Some draft \<Rightarrow>
               map_option (\<lambda>r. case r of Inl e \<Rightarrow> e | Inr draft' \<Rightarrow> Tool_DraftPatch handle draft')
                 (apply_patch patch draft)))"

section \<open>Reading tools\<close>

definition run_tool :: "ext \<Rightarrow> 'a peer \<Rightarrow> ('a \<Rightarrow> tool_execution) \<Rightarrow> world \<Rightarrow> tool_execution \<times> world" where
  "run_tool E m f w =
     (case m w of (Inl e, w') \<Rightarrow> (tool_peer_error E e, w') | (Inr x, w') \<Rightarrow> (f x, w'))"

definition catalog_search :: "ext \<Rightarrow> json \<Rightarrow> tool_executor \<Rightarrow> world \<Rightarrow> tool_execution \<times> world" where
  "catalog_search E arguments x w =
     (case de_catalog_query arguments of
        Inl e \<Rightarrow> (bad_arguments E e, w)
      | Inr q \<Rightarrow>
          run_tool E (io_bind (open_project E (ex_project_root x)) (\<lambda>p. query_catalog E p q))
            (\<lambda>page. Tool_Read ''catalog.search'' (to_value (ser_catalog_page page))) w)"

definition permitted_product_summary :: "resolved_product \<Rightarrow> json" where
  "permitted_product_summary p =
     json_object
       [(''reference'', JStr (product_reference (rs_namespace p) (rs_product_id p))),
        (''version'', JStr (rs_version p)), (''manifest_revision'', ser_word (rs_manifest_revision p)),
        (''data_kind'', ser_data_kind (rs_data_kind p)), (''data_format'', ser_data_format (rs_data_format p)),
        (''description'', JStr (rs_description p)), (''limitations'', JStr (rs_limitations p)),
        (''usage_policy'', JStr (rs_usage_policy p)), (''classification'', JStr (rs_classification p)),
        (''quality'', JStr (rs_quality p)),
        (''lineage'', to_value (ser_list ser_lineage_reference (rs_lineage p))),
        (''assets'', JArr (map (\<lambda>a. json_object
           [(''id'', JStr (ra_id a)), (''role'', JStr (ra_role a)),
            (''media_type'', JStr (ra_media_type a)), (''size'', ser_word (ra_size a))]) (rs_assets p))),
        (''freshness'', JStr (rs_freshness p)), (''integrity_verified'', JBool (rs_integrity_verified p))]"

definition de_product_args :: "json \<Rightarrow> (string \<times> string \<times> bool) de" where
  "de_product_args j =
     and_then (object_fields True [''reference'', ''version'', ''verify_integrity''] j) (\<lambda>kvs.
     and_then (field ''reference'' de_string kvs) (\<lambda>r.
     and_then (field ''version'' de_string kvs) (\<lambda>v.
     and_then (field_default ''verify_integrity'' False de_bool kvs) (\<lambda>b.
     Inr (r, v, b)))))"

text \<open>A consent is spent by the call that needs it, whatever becomes of the call.\<close>

definition product_inspect ::
  "ext \<Rightarrow> json \<Rightarrow> bool \<Rightarrow> tool_executor \<Rightarrow> world \<Rightarrow> (tool_execution \<times> tool_executor) \<times> world" where
  "product_inspect E arguments resolving x w =
     (case de_product_args arguments of
        Inl e \<Rightarrow> ((bad_arguments E e, x), w)
      | Inr (ref, version, verify) \<Rightarrow>
          if verify \<and> (ref, version) \<notin> set (ex_integrity_consent x)
          then ((Tool_Rejected ''integrity_consent_required''
                   (''full integrity verification can read every asset; require explicit '' @
                    ''local consent''), x), w)
          else
            let x' = (if verify then x\<lparr>ex_integrity_consent := removeAll (ref, version) (ex_integrity_consent x)\<rparr> else x) in
            (case run_tool E
                    (io_bind (open_project E (ex_project_root x)) (\<lambda>p.
                     resolve E p ref version None (resolving \<and> verify)))
                    (\<lambda>product. Tool_Read (if resolving then ''product.resolve'' else ''product.inspect'')
                       (permitted_product_summary product)) w of
               (r, w') \<Rightarrow> ((r, x'), w')))"

definition no_arguments :: "json \<Rightarrow> bool" where
  "no_arguments arguments \<longleftrightarrow> arguments = JNull \<or> arguments = JObj []"

definition status_query :: catalog_query where
  "status_query =
     \<lparr>cq_text = None, cq_namespace = None, cq_data_kind = None, cq_data_format = None, cq_quality = None,
      cq_owner_team = None, cq_classification = None, cq_limit = 1, cq_cursor = None\<rparr>"

definition peers_status :: "ext \<Rightarrow> json \<Rightarrow> tool_executor \<Rightarrow> world \<Rightarrow> tool_execution \<times> world" where
  "peers_status E arguments x w =
     (if \<not> no_arguments arguments
      then (Tool_Rejected ''bad_arguments'' ''peers.status accepts no arguments'', w)
      else
        run_tool E (io_bind (open_project E (ex_project_root x)) (\<lambda>p. query_catalog E p status_query))
          (\<lambda>page. Tool_Read ''peers.status''
             (json_object [(''coverage'', to_value (ser_list ser_peer_coverage (cp_coverage page)))])) w)"

definition catalog_refresh :: "ext \<Rightarrow> json \<Rightarrow> tool_executor \<Rightarrow> world \<Rightarrow> tool_execution \<times> world" where
  "catalog_refresh E arguments x w =
     (if \<not> no_arguments arguments
      then (Tool_Rejected ''bad_arguments'' ''catalog.refresh accepts no arguments'', w)
      else
        run_tool E (io_bind (open_project E (ex_project_root x)) (refresh E))
          (\<lambda>snapshot. Tool_Read ''catalog.refresh'' (to_value (ser_cache_snapshot snapshot))) w)"

definition de_help_args :: "json \<Rightarrow> string de" where
  "de_help_args j = and_then (object_fields True [''topic''] j) (field ''topic'' de_string)"

definition help_excerpt :: "string \<Rightarrow> string option" where
  "help_excerpt topic =
     map_of
       [(''resolve'', ''Resolve requires an explicit product version and performs no copy. Use the SDK or CLI example from the local UI for direct reads.''),
        (''stage'', ''Staging copies only the pinned registered inventory after a local review. It cannot be confirmed by a model tool argument.''),
        (''publish'', ''Publication validates producer-supplied scientific, policy, lineage, contact, and inventory metadata before a manifest commit.''),
        (''withdraw'', ''Only the selected project's local namespace can withdraw an active version; provider bytes remain intact.'')]
       topic"

definition help_lookup :: "ext \<Rightarrow> json \<Rightarrow> tool_execution" where
  "help_lookup E arguments =
     (case de_help_args arguments of
        Inl e \<Rightarrow> bad_arguments E e
      | Inr topic \<Rightarrow>
          (case help_excerpt topic of
             None \<Rightarrow> Tool_Rejected ''unknown_help_topic'' ''supported topics: resolve, stage, publish, withdraw''
           | Some excerpt \<Rightarrow>
               Tool_Read ''help.lookup''
                 (json_object [(''topic'', JStr topic), (''excerpt'', JStr excerpt)])))"

definition de_clarify_args :: "json \<Rightarrow> (string \<times> string list) de" where
  "de_clarify_args j =
     and_then (object_fields True [''question'', ''choices''] j) (\<lambda>kvs.
     and_then (field ''question'' de_string kvs) (\<lambda>q.
     and_then (field_default ''choices'' [] (de_list de_string) kvs) (\<lambda>cs.
     Inr (q, cs))))"

definition user_clarify :: "ext \<Rightarrow> json \<Rightarrow> tool_execution" where
  "user_clarify E arguments =
     (case de_clarify_args arguments of
        Inl e \<Rightarrow> bad_arguments E e
      | Inr (question, choices) \<Rightarrow>
          if \<not> blank question \<and> length question \<le> 1024 \<and> length choices \<le> 10 \<and>
             list_all (\<lambda>c. length c \<le> 256) choices
          then Tool_Clarification question choices
          else Tool_Rejected ''bad_arguments'' ''clarification exceeds bounds'')"

section \<open>Executing a call\<close>

definition dispatch ::
  "ext \<Rightarrow> provider_tool_call \<Rightarrow> tool_executor \<Rightarrow> world \<Rightarrow> (tool_execution option \<times> tool_executor) \<times> world" where
  "dispatch E call x w =
     (let name = ca_name call; arguments = ca_arguments call;
          here = (\<lambda>r. ((Some r, x), w));
          reading = (\<lambda>(r, w'). ((Some r, x), w'));
          inspecting = (\<lambda>((r, x'), w'). ((Some r, x'), w')) in
      if name = ''user.clarify'' then here (user_clarify E arguments)
      else if name = ''catalog.search'' then reading (catalog_search E arguments x w)
      else if name = ''product.inspect'' then inspecting (product_inspect E arguments False x w)
      else if name = ''product.resolve'' then inspecting (product_inspect E arguments True x w)
      else if name = ''peers.status'' then reading (peers_status E arguments x w)
      else if name = ''catalog.refresh'' then reading (catalog_refresh E arguments x w)
      else if name = ''help.lookup'' then here (help_lookup E arguments)
      else if name = ''publication.validate'' then ((publication_validate E arguments x, x), w)
      else if name \<in> {''publication.publish'', ''product.stage'', ''product.withdraw''}
      then here (review_existing E name arguments x)
      else here (Tool_Rejected ''unknown_tool'' ''tool is not part of feam.agent.tools.v1''))"

text \<open>\<open>None\<close> stands for a panic, which \<open>publication.validate\<close> alone can raise.\<close>

definition execute ::
  "ext \<Rightarrow> provider_tool_call \<Rightarrow> tool_executor \<Rightarrow> world \<Rightarrow> (tool_execution option \<times> tool_executor) \<times> world" where
  "execute E call x w =
     (if 256 \<le> length (ex_call_ids x)
      then ((Some (Tool_Rejected ''session_limit'' ''start a new session after 256 calls''), x), w)
      else if 256 < length (ca_id call) \<or> 65536 < length (json_print E (ca_arguments call))
      then ((Some (Tool_Rejected ''bad_arguments'' ''oversized call''), x), w)
      else if ca_id call \<in> set (ex_call_ids x)
      then ((Some (Tool_Rejected ''duplicate_provider_call'' ''the provider call ID was already handled''), x), w)
      else dispatch E call (x\<lparr>ex_call_ids := ca_id call # ex_call_ids x\<rparr>) w)"

end
