(* ===== verification/Tool_Schemas.thy ===== *)
theory Tool_Schemas
  imports Tools
begin

text \<open>
  The closed set of tools of \<open>feam.agent.tools.v1\<close> as it is advertised to a model
  (\<open>tool_schemas\<close> of \<open>mesh_agent/src/tools.rs\<close>), one definition per tool.
\<close>

definition schema_object :: "json \<Rightarrow> string list \<Rightarrow> json" where
  "schema_object properties required =
     json_object [(''type'', JStr ''object''), (''properties'', properties),
                  (''required'', JArr (map JStr required)), (''additionalProperties'', JBool False)]"

definition string_map_schema :: json where
  "string_map_schema = json_object [
      (''type'', JStr ''object''),
      (''additionalProperties'', json_object [
        (''type'', JStr ''string'')])]"

definition publication_patch_schema :: json where
  "publication_patch_schema =
     (let texts = map (\<lambda>field. (field, json_object [(''type'', JStr ''string''), (''maxLength'', JInt 2048)]))
            [''name'', ''version'', ''description'', ''intended_use'', ''limitations'', ''owner_team'', ''producer'', ''contact'', ''usage_policy'', ''classification'', ''quality''] in
      json_object [(''type'', JStr ''object''), (''properties'', json_object (texts @ [
        (''table'', json_object [
          (''type'', JStr ''object''),
          (''additionalProperties'', JBool False),
          (''properties'', json_object [
            (''column_meanings'', string_map_schema),
            (''column_units'', string_map_schema),
            (''partition_columns'', json_object [
              (''type'', JStr ''array''),
              (''items'', json_object [
                (''type'', JStr ''string'')])])]),
          (''required'', JArr [JStr ''column_meanings'', JStr ''column_units''])]),
        (''raster'', json_object [
          (''type'', JStr ''object''),
          (''additionalProperties'', JBool False),
          (''properties'', json_object [
            (''datetime'', json_object [
              (''type'', JArr [JStr ''string'', JStr ''null''])]),
            (''start_datetime'', json_object [
              (''type'', JStr ''string'')]),
            (''end_datetime'', json_object [
              (''type'', JStr ''string'')]),
            (''bbox'', json_object [
              (''type'', JStr ''array''),
              (''minItems'', JInt 4),
              (''maxItems'', JInt 4),
              (''items'', json_object [
                (''type'', JStr ''number'')])]),
            (''semantics'', string_map_schema)]),
          (''required'', JArr [JStr ''datetime'', JStr ''bbox'', JStr ''semantics'']),
          (''oneOf'', JArr [json_object [
              (''properties'', json_object [
                (''datetime'', json_object [
                  (''type'', JStr ''string'')])]),
              (''not'', json_object [
                (''anyOf'', JArr [json_object [
                    (''required'', JArr [JStr ''start_datetime''])], json_object [
                    (''required'', JArr [JStr ''end_datetime''])]])])], json_object [
              (''properties'', json_object [
                (''datetime'', json_object [
                  (''type'', JStr ''null'')])]),
              (''required'', JArr [JStr ''start_datetime'', JStr ''end_datetime''])]])]),
        (''lineage'', json_object [
          (''type'', JStr ''array''),
          (''items'', json_object [
            (''type'', JStr ''object''),
            (''properties'', json_object [
              (''product'', json_object [
                (''type'', JStr ''string'')]),
              (''version'', json_object [
                (''type'', JStr ''string'')])]),
            (''required'', JArr [JStr ''product'']),
            (''additionalProperties'', JBool False)])])])), (''additionalProperties'', JBool False)])"

definition schema_user_clarify :: tool_schema where
  "schema_user_clarify =
     \<lparr>ts_name = ''user.clarify'',
      ts_description = ''Ask the local user to choose a missing product, exact version, destination, draft or scientific fact. Use this for ambiguous requests instead of guessing. Ends the turn awaiting a user response.'',
      ts_parameters = schema_object (json_object [
          (''question'', json_object [
            (''type'', JStr ''string''),
            (''maxLength'', JInt 1024)]),
          (''choices'', json_object [
            (''type'', JStr ''array''),
            (''maxItems'', JInt 10),
            (''items'', json_object [
              (''type'', JStr ''string''),
              (''maxLength'', JInt 256)])])])
        [''question'']\<rparr>"

definition schema_catalog_search :: tool_schema where
  "schema_catalog_search =
     \<lparr>ts_name = ''catalog.search'',
      ts_description = ''Search bounded registered catalog records.'',
      ts_parameters = schema_object (json_object [
          (''text'', json_object [
            (''type'', JStr ''string'')]),
          (''namespace'', json_object [
            (''type'', JStr ''string'')]),
          (''limit'', json_object [
            (''type'', JStr ''integer''),
            (''minimum'', JInt 1),
            (''maximum'', JInt 100)]),
          (''cursor'', json_object [
            (''type'', JStr ''string'')]),
          (''data_kind'', json_object [
            (''type'', JStr ''string''),
            (''enum'', JArr [JStr ''table'', JStr ''raster''])]),
          (''data_format'', json_object [
            (''type'', JStr ''string''),
            (''enum'', JArr [JStr ''parquet'', JStr ''geotiff''])]),
          (''quality'', json_object [
            (''type'', JStr ''string''),
            (''description'', JStr ''Scientific maturity/quality, such as production, qualified or unverified.'')]),
          (''classification'', json_object [
            (''type'', JStr ''string''),
            (''description'', JStr ''Data visibility/sensitivity, such as public, internal or restricted; not scientific quality.'')]),
          (''owner_team'', json_object [
            (''type'', JStr ''string'')])])
        []\<rparr>"

definition schema_product_inspect :: tool_schema where
  "schema_product_inspect =
     \<lparr>ts_name = ''product.inspect'',
      ts_description = ''Inspect one explicit registered product version.'',
      ts_parameters = schema_object (json_object [
          (''reference'', json_object [
            (''type'', JStr ''string'')]),
          (''version'', json_object [
            (''type'', JStr ''string'')]),
          (''verify_integrity'', json_object [
            (''type'', JStr ''boolean''),
            (''description'', JStr ''Defaults to false for metadata-only inspection. True reads/hashes all registered bytes and requires prior local integrity consent.'')])])
        [''reference'', ''version'']\<rparr>"

definition schema_product_resolve :: tool_schema where
  "schema_product_resolve =
     \<lparr>ts_name = ''product.resolve'',
      ts_description = ''Resolve one explicit registered version without copying it.'',
      ts_parameters = schema_object (json_object [
          (''reference'', json_object [
            (''type'', JStr ''string'')]),
          (''version'', json_object [
            (''type'', JStr ''string'')]),
          (''verify_integrity'', json_object [
            (''type'', JStr ''boolean''),
            (''description'', JStr ''Defaults to false for metadata-only inspection. True reads/hashes all registered bytes and requires prior local integrity consent.'')])])
        [''reference'', ''version'']\<rparr>"

definition schema_peers_status :: tool_schema where
  "schema_peers_status =
     \<lparr>ts_name = ''peers.status'',
      ts_description = ''Show configured peer coverage and errors.'',
      ts_parameters = schema_object (json_object [])
        []\<rparr>"

definition schema_catalog_refresh :: tool_schema where
  "schema_catalog_refresh =
     \<lparr>ts_name = ''catalog.refresh'',
      ts_description = ''Refresh local peer observation status.'',
      ts_parameters = schema_object (json_object [])
        []\<rparr>"

definition schema_help_lookup :: tool_schema where
  "schema_help_lookup =
     \<lparr>ts_name = ''help.lookup'',
      ts_description = ''Read a bounded local help excerpt.'',
      ts_parameters = schema_object (json_object [
          (''topic'', json_object [
            (''type'', JStr ''string''),
            (''enum'', JArr [JStr ''resolve'', JStr ''stage'', JStr ''publish'', JStr ''withdraw''])])])
        [''topic'']\<rparr>"

definition schema_publication_validate :: tool_schema where
  "schema_publication_validate =
     \<lparr>ts_name = ''publication.validate'',
      ts_description = ''Propose bounded scientific/policy edits to a locally selected draft. Returns the patch for local inspection/validation consent; does not publish or select assets. Use only user-supplied scientific facts.'',
      ts_parameters = schema_object (json_object [
          (''handle'', json_object [
            (''type'', JStr ''string'')]),
          (''patch'', publication_patch_schema)])
        [''handle'', ''patch'']\<rparr>"

definition schema_publication_publish :: tool_schema where
  "schema_publication_publish =
     \<lparr>ts_name = ''publication.publish'',
      ts_description = ''Open a local review using an operations handle whose tool is publication.publish. Its metadata and inventory have ALREADY passed local validation. Private fields are intentionally omitted; do not request or invent them or revalidate this operation handle as a draft. This only opens review; it cannot publish directly.'',
      ts_parameters = schema_object (json_object [
          (''handle'', json_object [
            (''type'', JStr ''string'')])])
        [''handle'']\<rparr>"

definition schema_product_stage :: tool_schema where
  "schema_product_stage =
     \<lparr>ts_name = ''product.stage'',
      ts_description = ''Open a local review using an operations handle whose tool is product.stage. Exact version, destination and overwrite choice are ALREADY selected locally; the private path is intentionally omitted. Use the existing handle without requesting the path again. This only opens review; it cannot copy directly.'',
      ts_parameters = schema_object (json_object [
          (''handle'', json_object [
            (''type'', JStr ''string'')])])
        [''handle'']\<rparr>"

definition schema_product_withdraw :: tool_schema where
  "schema_product_withdraw =
     \<lparr>ts_name = ''product.withdraw'',
      ts_description = ''Open a local review using an operations handle whose tool is product.withdraw. Exact version and reason are ALREADY selected locally; the private reason is intentionally omitted. No extra reason text is needed from the model. This only opens review; it cannot withdraw directly.'',
      ts_parameters = schema_object (json_object [
          (''handle'', json_object [
            (''type'', JStr ''string'')])])
        [''handle'']\<rparr>"

definition tool_schemas :: "tool_schema list" where
  "tool_schemas =
     [schema_user_clarify, schema_catalog_search,
      schema_product_inspect, schema_product_resolve, schema_peers_status, schema_catalog_refresh,
      schema_help_lookup, schema_publication_validate, schema_publication_publish,
      schema_product_stage, schema_product_withdraw]"

lemma tool_schema_names:
  "map ts_name tool_schemas =
     [''user.clarify'', ''catalog.search'', ''product.inspect'', ''product.resolve'', ''peers.status'',
      ''catalog.refresh'', ''help.lookup'', ''publication.validate'', ''publication.publish'',
      ''product.stage'', ''product.withdraw'']"
  by (simp add: tool_schemas_def schema_user_clarify_def schema_catalog_search_def schema_product_inspect_def schema_product_resolve_def
      schema_peers_status_def schema_catalog_refresh_def schema_help_lookup_def schema_publication_validate_def
      schema_publication_publish_def schema_product_stage_def schema_product_withdraw_def)

end
