(* ===== verification/Harness_Rules.thy ===== *)
theory Harness_Rules
  imports Harness
begin

text \<open>
  The rule by which a property of a whole turn is proved: a locale whose assumptions are the single
  steps of the loop, and whose conclusion holds of the session that \<open>turn_loop\<close> returns. \<open>I\<close> holds
  while the turn goes on, \<open>R\<close> when it has returned.
\<close>

definition stage_ok :: "('s \<Rightarrow> bool) \<Rightarrow> ('s \<Rightarrow> bool) \<Rightarrow> 's progress \<Rightarrow> bool" where
  "stage_ok P R m \<longleftrightarrow> (case m of Go s \<Rightarrow> P s | Return s \<Rightarrow> R s | Stuck \<Rightarrow> True)"

lemma stage_ok_simps [simp]:
  "stage_ok P R (Go s) = P s" "stage_ok P R (Return s) = R s" "stage_ok P R Stuck"
  by (simp_all add: stage_ok_def)

lemma stage_ok_proceed:
  "stage_ok P R m \<Longrightarrow> (\<And>s. P s \<Longrightarrow> stage_ok P' R (f s)) \<Longrightarrow> stage_ok P' R (proceed m f)"
  by (cases m) auto

lemma stage_ok_fail: "R (h, set_state (Run_Failed kind) t, w) \<Longrightarrow> stage_ok P R (fail_run kind (h, t, w))"
  by (simp add: fail_run_def)

abbreviation calls_left :: "'p session \<Rightarrow> nat \<Rightarrow> bool" where
  "calls_left s n \<equiv> (case s of (h, t, w) \<Rightarrow> tn_calls t + n \<le> unat (ap_max_tool_calls (h_profile h)))"

locale turn_rule =
  fixes S :: "'p surroundings"
    and guided :: bool
    and I :: "'p session \<Rightarrow> bool"
    and R :: "'p session \<Rightarrow> bool"
  assumes look: "I (h, t, w) \<Longrightarrow> I (h\<lparr>h_polls := Suc (h_polls h)\<rparr>, t, w)"
    and stopped: "I (h, t, w) \<Longrightarrow> b \<or> \<not> tn_awaiting t \<Longrightarrow> check_stop S b (h, t, w) = Return s' \<Longrightarrow> R s'"
    and fails: "I (h, t, w) \<Longrightarrow> \<not> tn_awaiting t \<Longrightarrow> R (h, set_state (Run_Failed kind) t, w)"
    and trim: "I (h, t, w) \<Longrightarrow> bounded_messages E p tools (h_messages h) = Some (r, ms) \<Longrightarrow>
      I (h\<lparr>h_messages := ms\<rparr>, t, w)"
    and counts: "I (h, t, w) \<Longrightarrow> I (count_request S request h, t, w)"
    and asks: "I (h, t, w) \<Longrightarrow> \<not> tn_awaiting t \<Longrightarrow> ask_provider S request (h, t, w) = (y, s') \<Longrightarrow> I s'"
    and broken: "I (h, t, w) \<Longrightarrow> \<not> tn_awaiting t \<Longrightarrow>
      R (expire_interrupted_state h, set_state Run_Stopped t, w)"
    and excuse: "I (h, t, w) \<Longrightarrow> \<not> tn_awaiting t \<Longrightarrow>
      R (h, set_state (Run_Failed (provider_error_kind e))
              (t\<lparr>tn_run := (tn_run t)\<lparr>run_text := run_text (tn_run t) @ provider_error_text e\<rparr>\<rparr>), w)"
    and answers: "I (h, t, w) \<Longrightarrow> \<not> tn_awaiting t \<Longrightarrow> t' \<in> {t, set_state Run_AwaitingClarification t} \<Longrightarrow>
      R (h\<lparr>h_messages := h_messages h @ [plain_message ''assistant'' text]\<rparr>, t', w)"
    and proposes: "I (h, t, w) \<Longrightarrow> \<not> tn_awaiting t \<Longrightarrow> \<not> guided \<Longrightarrow>
      I (h\<lparr>h_messages := h_messages h @ [assistant_calls cs]\<rparr>,
         t\<lparr>tn_repeated := seen, tn_awaiting := False\<rparr>, w)"
    and calls: "I (h, t, w) \<Longrightarrow> \<not> guided \<Longrightarrow> calls_left (h, t, w) 1 \<Longrightarrow>
      run_proposal S c (h, t, w) = Go s' \<Longrightarrow> I s'"
    and waits: "I (h, t, w) \<Longrightarrow> tn_awaiting t \<Longrightarrow> R (h, t, w)"
    and repairs: "I (h, t, w) \<Longrightarrow> \<not> tn_awaiting t \<Longrightarrow> R (h, set_state Run_AwaitingClarification t, w)"
begin

abbreviation quiet :: "'p session \<Rightarrow> bool" where
  "quiet s \<equiv> I s \<and> \<not> tn_awaiting (fst (snd s))"

lemma check_stop_stage:
  "I s \<Longrightarrow> b \<or> \<not> tn_awaiting (fst (snd s)) \<Longrightarrow>
   stage_ok (\<lambda>s'. I s' \<and> fst (snd s') = fst (snd s) \<and> h_profile (fst s') = h_profile (fst s)) R (check_stop S b s)"
proof (cases s; cases "check_stop S b s")
  fix h t w s' assume s: "s = (h, t, w)" and I: "I s" and "check_stop S b s = Go s'"
  then have "s' = (h\<lparr>h_polls := Suc (h_polls h)\<rparr>, t, w)" by (auto dest: check_stop_Go)
  then show ?thesis using look I s \<open>check_stop S b s = Go s'\<close> by auto
qed (use stopped in auto)

lemma fail_stage: "I (h, t, w) \<Longrightarrow> \<not> tn_awaiting t \<Longrightarrow> stage_ok P R (fail_run kind (h, t, w))"
  by (intro stage_ok_fail fails)

lemma opening_stage: "quiet s \<Longrightarrow> stage_ok quiet R (opening_checks S s)"
  unfolding opening_checks_def
  by (rule stage_ok_proceed [OF check_stop_stage]) (auto intro!: fail_stage split: prod.splits)

lemma proposal_stage:
  assumes "I (h, t, w)" "\<not> guided" "calls_left (h, t, w) 1"
  shows "stage_ok (\<lambda>(h', t', w'). I (h', t', w') \<and> h_profile h' = h_profile h \<and> tn_calls t' = tn_calls t + 1)
           R (run_proposal S c (h, t, w))"
proof (cases "run_proposal S c (h, t, w)")
  case (Go s')
  then show ?thesis
    using calls [OF assms Go] run_proposal_Go by (cases s') fastforce
next
  case (Return s')
  then have "check_stop S True (h, t, w) = Return s'"
    by (auto simp: run_proposal_def proceed_def Let_def split: progress.splits if_splits prod.splits option.splits)
  then show ?thesis using stopped [OF assms(1), of True] Return by auto
qed simp

lemma proposals_stage:
  "I (h, t, w) \<Longrightarrow> \<not> guided \<Longrightarrow> calls_left (h, t, w) (length cs) \<Longrightarrow> stage_ok I R (run_proposals S cs (h, t, w))"
proof (induction cs arbitrary: h t w)
  case (Cons c cs)
  then have "calls_left (h, t, w) 1" by simp
  note proposal_stage [OF Cons.prems(1,2) this, of c]
  then show ?case
    unfolding run_proposals.simps
  proof (rule stage_ok_proceed)
    fix s assume "case s of (h', t', w') \<Rightarrow> I (h', t', w') \<and> h_profile h' = h_profile h \<and> tn_calls t' = tn_calls t + 1"
    then show "stage_ok I R (run_proposals S cs s)"
      using Cons.IH Cons.prems by (cases s) auto
  qed
qed simp

lemma closing_stage: "I s \<Longrightarrow> stage_ok quiet R (closing_checks S s)"
  unfolding closing_checks_def
  by (rule stage_ok_proceed [OF check_stop_stage]) (auto intro: waits repairs split: prod.splits)

lemma batch_stage:
  assumes "quiet (h, t, w)" "\<not> guided"
  shows "stage_ok quiet R (run_batch S cs (h, t, w))"
proof (cases "unat (ap_max_tool_calls (h_profile h)) < tn_calls t + length cs")
  case True
  then show ?thesis using assms by (auto simp: run_batch_def intro!: fail_stage)
next
  case False
  show ?thesis
  proof (cases "note_calls (su_ext S) cs (tn_repeated t)")
    case None
    then show ?thesis using assms False by (auto simp: run_batch_def intro!: fail_stage)
  next
    case (Some seen)
    let ?s = "(h\<lparr>h_messages := h_messages h @ [assistant_calls cs]\<rparr>, t\<lparr>tn_repeated := seen, tn_awaiting := False\<rparr>, w)"
    have "I ?s" using assms proposes by auto
    then have "stage_ok I R (run_proposals S cs ?s)" using assms(2) False by (intro proposals_stage) auto
    then show ?thesis
      using False Some by (auto simp: run_batch_def intro!: stage_ok_proceed closing_stage)
  qed
qed

lemma conclude_stage: "quiet s \<Longrightarrow> stage_ok quiet R (conclude S guided x result s)"
proof (cases s)
  case (fields h t w)
  assume q: "quiet s"
  show ?thesis
  proof (cases result)
    case (Inl e)
    then show ?thesis using q fields broken excuse [of h t w e]
      by (auto simp: conclude_def intro: stage_ok_fail)
  next
    case (Inr u)
    have stop: "stage_ok quiet R (check_stop S False (h, t, w))"
      using check_stop_stage [of "(h, t, w)" False] q fields
      by (cases "check_stop S False (h, t, w)") auto
    show ?thesis unfolding conclude_def fields
      using Inr by (auto intro!: stage_ok_proceed [OF stop] fail_stage answers batch_stage)
  qed
qed

lemma request_stage_stage: "quiet (h, t, w) \<Longrightarrow> stage_ok quiet R (request_stage S guided (h, t, w))"
proof (cases rule: request_stage_cases [where S = S and guided = guided and h = h and t = t and w = w])
  case (failed kind h')
  assume q: "quiet (h, t, w)"
  from failed(2) have "I (h', t, w)" using q trim counts by fastforce
  then show ?thesis using failed(1) q by (auto intro: fail_stage)
next
  case (asked request ms x result h1 t1 w1)
  assume q: "quiet (h, t, w)"
  have "I (count_request S request (h\<lparr>h_messages := ms\<rparr>), t, w)"
    using q trim [OF _ asked(1)] counts by auto
  then have "I (h1, t1, w1)" using q asks asked(3) by auto
  moreover have "\<not> tn_awaiting t1" using q ask_provider_frame [OF asked(3)] by simp
  ultimately show ?thesis using asked(4) conclude_stage by auto
qed simp

lemma iteration_stage: "quiet s \<Longrightarrow> stage_ok quiet R (iteration S guided s)"
  unfolding iteration_def
  by (rule stage_ok_proceed [OF opening_stage]) (auto intro: request_stage_stage split: prod.splits)

lemma turn_loop_rule:
  assumes "quiet s" "turn_loop S guided s = Some s'"
  shows "R s'"
proof -
  have "S' = S \<Longrightarrow> g = guided \<Longrightarrow> quiet s \<Longrightarrow> turn_loop S' g s = Some s' \<Longrightarrow> R s'" for S' g
  proof (induction S' g s rule: turn_loop.induct)
    case (1 S' g s)
    have ok: "stage_ok quiet R (iteration S guided s)" by (rule iteration_stage [OF 1(4)])
    show ?case
    proof (cases "iteration S guided s")
      case (Return s1)
      then show ?thesis using ok 1(2,3,5) by (simp add: turn_loop.simps [of S guided s])
    next
      case (Go s1)
      then show ?thesis using ok 1(1) [of s1] 1(2,3,5) by (simp add: turn_loop.simps [of S guided s])
    next
      case Stuck
      then show ?thesis using 1(2,3,5) by (simp add: turn_loop.simps [of S guided s])
    qed
  qed
  from this [OF refl refl assms] show ?thesis .
qed

end

text \<open>A turn returns when no step gets stuck: the number of iterations is bounded by the loop itself.\<close>

locale returning_turn = turn_rule +
  assumes fits: "I (h, t, w) \<Longrightarrow> bounded_messages E p tools (h_messages h) \<noteq> None"
    and runs: "I (h, t, w) \<Longrightarrow> run_proposal S c (h, t, w) \<noteq> Stuck"
begin

lemma proposals_return:
  "I (h, t, w) \<Longrightarrow> \<not> guided \<Longrightarrow> calls_left (h, t, w) (length cs) \<Longrightarrow> run_proposals S cs (h, t, w) \<noteq> Stuck"
proof (induction cs arbitrary: h t w)
  case (Cons c cs)
  then have "calls_left (h, t, w) 1" by simp
  note st = proposal_stage [OF Cons.prems(1,2) this, of c]
  show ?case
  proof (cases "run_proposal S c (h, t, w)")
    case (Go s)
    then show ?thesis using st Cons.IH Cons.prems(2,3) by (cases s) auto
  qed (use runs [OF Cons.prems(1)] in auto)
qed simp

lemma closing_returns: "closing_checks S s \<noteq> Stuck"
  by (cases s) (auto simp: closing_checks_def check_stop_def Let_def)

lemma batch_returns:
  assumes "quiet (h, t, w)" "\<not> guided"
  shows "run_batch S cs (h, t, w) \<noteq> Stuck"
proof (cases "note_calls (su_ext S) cs (tn_repeated t)")
  case None
  then show ?thesis by (simp add: run_batch_def fail_run_def)
next
  case (Some seen)
  let ?s = "(h\<lparr>h_messages := h_messages h @ [assistant_calls cs]\<rparr>, t\<lparr>tn_repeated := seen, tn_awaiting := False\<rparr>, w)"
  have "I ?s" using assms proposes by auto
  then have "calls_left (h, t, w) (length cs) \<Longrightarrow> run_proposals S cs ?s \<noteq> Stuck"
    using assms(2) by (intro proposals_return) auto
  then show ?thesis
    using Some closing_returns by (auto simp: run_batch_def fail_run_def proceed_def not_less [symmetric]
        split: progress.splits)
qed

lemma conclude_returns: "quiet (h, t, w) \<Longrightarrow> conclude S guided x result (h, t, w) \<noteq> Stuck"
  using batch_returns [of "h\<lparr>h_polls := Suc (h_polls h)\<rparr>" t w "he_proposals x"] look [of h t w]
  by (auto simp: conclude_def check_stop_def fail_run_def Let_def split: sum.splits)

lemma iteration_returns:
  assumes "quiet (h, t, w)"
  shows "iteration S guided (h, t, w) \<noteq> Stuck"
proof (cases "opening_checks S (h, t, w)")
  case (Go s)
  then have s: "s = (h\<lparr>h_polls := Suc (h_polls h)\<rparr>, t, w)" by (rule opening_Go)
  let ?h = "h\<lparr>h_polls := Suc (h_polls h)\<rparr>"
  have q: "quiet (?h, t, w)" using assms look by auto
  have "request_stage S guided (?h, t, w) \<noteq> Stuck"
  proof (cases rule: request_stage_cases [where S = S and guided = guided and h = ?h and t = t and w = w])
    case stuck
    then show ?thesis using fits q by blast
  next
    case (failed kind h')
    then show ?thesis by (simp add: fail_run_def)
  next
    case (asked request ms x result h1 t1 w1)
    have "I (count_request S request (?h\<lparr>h_messages := ms\<rparr>), t, w)"
      using q trim [OF _ asked(1)] counts by auto
    then have "I (h1, t1, w1)" using q asks asked(3) by auto
    moreover have "\<not> tn_awaiting t1" using q ask_provider_frame [OF asked(3)] by simp
    ultimately show ?thesis using asked(4) conclude_returns by simp
  qed
  then show ?thesis by (simp add: iteration_def Go s)
qed (auto simp: iteration_def opening_checks_def proceed_def check_stop_def fail_run_def Let_def
      split: prod.splits if_splits)

lemma turn_loop_returns:
  assumes "quiet s"
  shows "turn_loop S guided s \<noteq> None"
proof -
  have "S' = S \<Longrightarrow> g = guided \<Longrightarrow> quiet s \<Longrightarrow> turn_loop S' g s \<noteq> None" for S' g
  proof (induction S' g s rule: turn_loop.induct)
    case (1 S' g s)
    have ok: "stage_ok quiet R (iteration S guided s)" by (rule iteration_stage [OF 1(4)])
    show ?case
    proof (cases "iteration S guided s")
      case (Go s1)
      then show ?thesis using ok 1(1) [of s1] 1(2,3) by (simp add: turn_loop.simps [of S guided s])
    next
      case Stuck
      then show ?thesis using iteration_returns 1(4) by (cases s) auto
    qed (simp add: turn_loop.simps [of S guided s] 1(2,3))
  qed
  from this [OF refl refl assms] show ?thesis .
qed

end

end
