(* ===== verification/Disclosure_Proofs.thy ===== *)
theory Disclosure_Proofs
  imports Disclosure Agent_Config_Proofs
begin

text \<open>
  What leaves the process: only disclosed keys of a tool result, no credential in a text, and never
  more than the profile allows.
\<close>

section \<open>Only disclosed keys\<close>

fun admitted :: "agent_profile \<Rightarrow> json \<Rightarrow> bool" where
  "admitted p (JObj kvs) \<longleftrightarrow> (\<forall>kv \<in> set kvs. disclosed_key p (fst kv) \<and> admitted p (snd kv))"
| "admitted p (JArr js) \<longleftrightarrow> length js \<le> 100 \<and> (\<forall>j \<in> set js. admitted p j)"
| "admitted p (JStr s) \<longleftrightarrow> (\<exists>t. length (chars t) \<le> 1024 \<and> s = redact t None)"
| "admitted p JNull \<longleftrightarrow> True"
| "admitted p (JBool b) \<longleftrightarrow> True"
| "admitted p (JInt i) \<longleftrightarrow> True"
| "admitted p (JFloat r) \<longleftrightarrow> True"

lemma chars_concat_take: "chars (concat (take n (chars s))) = take n (chars s)"
proof (induction n arbitrary: s)
  case (Suc n)
  show ?case
  proof (cases s)
    case (Cons c cs)
    let ?w = "char_width c - 1"
    have "chars (concat (take n (chars (drop ?w cs)))) = take n (chars (drop ?w cs))"
      by (rule Suc.IH)
    moreover have "take ?w (take ?w cs @ concat (take n (chars (drop ?w cs)))) = take ?w cs \<and>
        drop ?w (take ?w cs @ concat (take n (chars (drop ?w cs)))) = concat (take n (chars (drop ?w cs)))"
      by (cases "length cs \<le> ?w") (auto simp: min_def)
    ultimately show ?thesis using Cons by simp
  qed simp
qed simp

lemma tool_summary_admitted: "admitted p (tool_summary p v)"
proof (induction p v rule: tool_summary.induct)
  case (2 p js)
  then show ?case by (auto dest!: in_set_takeD)
next
  case (3 p s)
  show ?case
    using chars_concat_take [of 1024 s]
    by (auto intro!: exI [of _ "concat (take 1024 (chars s))"])
qed auto

section \<open>The credential\<close>

text \<open>A credential that no replacement text contains; one never has brackets.\<close>

definition plain_secret :: "string \<Rightarrow> bool" where
  "plain_secret k \<longleftrightarrow>
     k \<noteq> [] \<and> CHR ''['' \<notin> set k \<and> CHR '']'' \<notin> set k \<and>
     \<not> contains_str k ''credential'' \<and> \<not> contains_str k ''redacted''"

definition printable :: "string \<Rightarrow> bool" where
  "printable s \<longleftrightarrow> (\<forall>c \<in> set (chars s). \<not> char_is_control c \<or> char_is_whitespace c)"

definition printable_part :: "string list \<Rightarrow> bool" where
  "printable_part cs \<longleftrightarrow> (\<forall>c \<in> set cs. \<not> char_is_control c \<or> char_is_whitespace c)"

lemma hide_secret_removes: "plain_secret k \<Longrightarrow> \<not> contains_str k (hide_secret (Some k) s)"
  using replace_str_removes [of k "CHR ''[''" "CHR '']''" "''credential''" s]
  by (auto simp: plain_secret_def hide_secret_def)

lemma redact_part_cases:
  assumes "printable_part cs"
  obtains "redact_part cs = concat cs"
  | suffix rest where "redact_part cs = ''[redacted]'' @ suffix" "concat cs = rest @ suffix"
proof (cases "flagged (concat cs)")
  case True
  then show ?thesis
    using that(2) [of "drop (length (trim_end (concat cs))) (concat cs)" "take (length (trim_end (concat cs))) (concat cs)"]
    by (simp add: redact_part_def Let_def)
next
  case False
  have "filter (\<lambda>c. \<not> char_is_control c \<or> char_is_whitespace c) cs = cs"
    using assms by (simp add: printable_part_def)
  then show ?thesis using that(1) False by (simp add: redact_part_def Let_def)
qed

lemma contains_bracketed:
  assumes "CHR ''['' \<notin> set k" "CHR '']'' \<notin> set k" "\<not> contains_str k ''redacted''"
  shows "contains_str k (u @ ''[redacted]'' @ s) \<longleftrightarrow> contains_str k u \<or> contains_str k s"
  using contains_str_across [OF assms(1), of u "''redacted'' @ CHR '']'' # s"]
    contains_str_across [OF assms(2), of "''redacted''" s] assms(3)
  by simp

lemma redact_parts_hide:
  assumes "plain_secret k" "list_all printable_part parts"
    and "\<not> contains_str k (u @ concat (map concat parts))"
  shows "\<not> contains_str k (u @ concat (map redact_part parts))"
  using assms(2,3)
proof (induction parts arbitrary: u)
  case (Cons cs parts)
  have ok: "printable_part cs" "list_all printable_part parts" using Cons.prems(1) by auto
  from ok(1) show ?case
  proof (cases rule: redact_part_cases)
    case 1
    then show ?thesis using Cons.IH [OF ok(2), of "u @ concat cs"] Cons.prems(2) by simp
  next
    case (2 suffix rest)
    have "\<not> contains_str k (suffix @ concat (map concat parts))"
      using Cons.prems(2) contains_mono [of k "suffix @ concat (map concat parts)" "u @ rest" "[]"]
      by (auto simp: 2(2))
    then have "\<not> contains_str k (suffix @ concat (map redact_part parts))"
      by (rule Cons.IH [OF ok(2)])
    moreover have "\<not> contains_str k u"
      using Cons.prems(2) contains_mono [of k u "[]"] by auto
    ultimately show ?thesis
      using assms(1) contains_bracketed [of k u "suffix @ concat (map redact_part parts)"]
      by (simp add: 2(1) plain_secret_def)
  qed
qed simp

lemma concat_map_concat: "concat (map concat xss) = concat (concat xss)"
  by (induction xss) auto

lemma redact_hides_printable:
  assumes "plain_secret k" "printable (hide_secret (Some k) s)"
  shows "\<not> contains_str k (redact s (Some k))"
proof -
  let ?t = "hide_secret (Some k) s" and ?parts = "split_inclusive char_is_whitespace (chars (hide_secret (Some k) s))"
  have "list_all printable_part ?parts"
    using assms(2) split_inclusive_chars [of _ char_is_whitespace "chars ?t"]
    by (fastforce simp: list_all_iff printable_def printable_part_def)
  moreover have "concat (map concat ?parts) = ?t"
    by (simp add: concat_map_concat)
  ultimately show ?thesis
    using redact_parts_hide [OF assms(1), of ?parts "[]"] hide_secret_removes [OF assms(1)]
    by (simp add: redact_def)
qed

text \<open>
  A text without control characters. Those that are white space (\<open>\\t\<close> to \<open>\\r\<close> and U+0085) do not
  count: they end a token, and are kept.
\<close>

definition CONTROLS :: "string list" where
  "CONTROLS =
     map (\<lambda>n. [char_of n]) ([0..<9] @ [14..<32] @ [127]) @
     map (\<lambda>n. [CHR 0xC2, char_of n]) ([0x80..<0x85] @ [0x86..<0xA0])"

definition control_free :: "string \<Rightarrow> bool" where
  "control_free s \<longleftrightarrow> list_all (\<lambda>q. \<not> contains_str q s) CONTROLS"

lemma in_CONTROLS:
  assumes "char_is_control c" "\<not> char_is_whitespace c"
  shows "c \<in> set CONTROLS"
proof -
  consider a where "c = [a]" "of_char a < (32::nat) \<or> of_char a = (127::nat)" "\<not> ws_ascii a"
    | b where "c = [CHR 0xC2, b]" "(0x80::nat) \<le> of_char b" "of_char b < (0xA0::nat)" "b \<noteq> CHR 0x85"
    using assms
    by (auto simp: char_is_control_def char_is_whitespace_def ws2_def Let_def split: list.splits)
  then show ?thesis
  proof cases
    case 1
    then have "of_char a \<in> set ([0..<9] @ [14..<32] @ [127::nat])"
      unfolding set_append set_upt by (simp add: ws_ascii_def Let_def) linarith
    then have "(\<lambda>n. [char_of n]) (of_char a :: nat) \<in> (\<lambda>n. [char_of n]) ` set ([0..<9] @ [14..<32] @ [127::nat])"
      by (rule imageI)
    then show ?thesis
      unfolding CONTROLS_def 1(1) char_of_char set_append set_map by (rule UnI1)
  next
    case 2
    have "char_of (0x85::nat) = CHR 0x85" by code_simp
    then have "of_char b \<noteq> (0x85::nat)"
      using 2(4) by (metis char_of_char)
    then have "of_char b \<in> set ([0x80..<0x85] @ [0x86..<0xA0::nat])"
      unfolding set_append set_upt using 2 by simp linarith
    then have "(\<lambda>n. [CHR 0xC2, char_of n]) (of_char b :: nat) \<in>
        (\<lambda>n. [CHR 0xC2, char_of n]) ` set ([0x80..<0x85] @ [0x86..<0xA0::nat])"
      by (rule imageI)
    then show ?thesis
      unfolding CONTROLS_def 2(1) char_of_char set_append set_map by (rule UnI2)
  qed
qed

lemma chars_contained: "c \<in> set (chars s) \<Longrightarrow> contains_str c s"
  by (metis concat.simps(2) concat_append concat_chars contains_strI split_list)

lemma control_free_printable: "control_free s \<Longrightarrow> printable s"
  unfolding control_free_def printable_def list_all_iff
  using in_CONTROLS chars_contained by blast

lemma replace_str_brings_nothing:
  assumes "l \<notin> set q" "h \<notin> set q" "\<not> contains_str q m" "\<not> contains_str q (u @ s)"
  shows "\<not> contains_str q (u @ replace_str p (l # m @ [h]) s)"
  using assms(4)
proof (induction p "l # m @ [h]" s arbitrary: u rule: replace_str.induct)
  case (2 p c cs)
  show ?case
  proof (cases "p \<noteq> [] \<and> starts_with p (c # cs)")
    case True
    let ?rest = "drop (length p) (c # cs)"
    have "c # cs = p @ ?rest" using True by (auto simp: starts_with_iff)
    then have "u @ c # cs = (u @ p) @ ?rest @ []" "u @ c # cs = [] @ u @ p @ ?rest" by simp_all
    then have "\<not> contains_str q ?rest" "\<not> contains_str q u"
      using "2.prems" contains_mono by metis+
    then have "\<not> contains_str q ([] @ replace_str p (l # m @ [h]) ?rest)"
      using "2.hyps"(1) [OF True, of "[]"] by simp
    then show ?thesis
      using True \<open>\<not> contains_str q u\<close> assms(1-3)
      by (simp add: contains_str_across [OF assms(1)] contains_str_across [OF assms(2)])
  next
    case False
    then have "\<not> contains_str q ((u @ [c]) @ replace_str p (l # m @ [h]) cs)"
      using "2.hyps"(2) [of "u @ [c]"] "2.prems" by simp
    then show ?thesis using False by auto
  qed
qed simp

lemma CONTROLS_apart:
  "list_all (\<lambda>q. CHR ''['' \<notin> set q \<and> CHR '']'' \<notin> set q \<and> \<not> contains_str q ''credential'') CONTROLS"
  by code_simp

lemma control_free_hide_secret:
  assumes "control_free s"
  shows "control_free (hide_secret k s)"
proof -
  have "\<not> contains_str q (replace_str x ''[credential]'' s)" if q: "q \<in> set CONTROLS" for q x
  proof -
    have "CHR ''['' \<notin> set q" "CHR '']'' \<notin> set q" "\<not> contains_str q ''credential''" "\<not> contains_str q s"
      using assms q CONTROLS_apart unfolding control_free_def list_all_iff by blast+
    then show ?thesis
      using replace_str_brings_nothing [of "CHR ''[''" q "CHR '']''" "''credential''" "[]" s x] by simp
  qed
  then show ?thesis using assms
    by (auto simp: hide_secret_def control_free_def list_all_iff split: option.splits)
qed

lemma redact_hides: "plain_secret k \<Longrightarrow> control_free s \<Longrightarrow> \<not> contains_str k (redact s (Some k))"
  by (rule redact_hides_printable, assumption, rule control_free_printable, erule control_free_hide_secret)

section \<open>Requests\<close>

fun value_strings :: "json \<Rightarrow> string list" where
  "value_strings (JStr s) = [s]"
| "value_strings (JArr js) = concat (map value_strings js)"
| "value_strings (JObj kvs) = concat (map (\<lambda>(k, v). value_strings v) kvs)"
| "value_strings _ = []"

text \<open>Every text and every argument string of a message.\<close>

definition message_strings :: "model_message \<Rightarrow> string list" where
  "message_strings m =
     (case json_str (mm_content m) of None \<Rightarrow> [] | Some s \<Rightarrow> [s]) @
     (case mm_tool_calls m of None \<Rightarrow> [] | Some cs \<Rightarrow> concat (map (value_strings \<circ> ca_arguments) cs))"

lemma value_strings_scrub: "value_strings (scrub_value secret j) = map (\<lambda>s. redact s secret) (value_strings j)"
  by (induction secret j rule: scrub_value.induct) (auto simp: map_concat intro!: arg_cong [of _ _ concat])

lemma outboundD:
  assumes "outbound E p secret r = Inr r'"
  shows "list_all2 (\<lambda>m m'. outbound_message E p secret m = Inr m') (rq_messages r) (rq_messages r')"
    and "rq_tools r' = rq_tools r"
    and "length (request_bytes_of E r') \<le> unat (ap_max_request_bytes p)"
    and "length (chars (request_bytes_of E r')) \<le> unat (ap_max_context_chars p)"
  using assms by (auto simp: outbound_def Let_def traverse_eq_Inr split: if_splits)

lemma list_all2_right: "list_all2 P xs ys \<Longrightarrow> y \<in> set ys \<Longrightarrow> \<exists>x \<in> set xs. P x y"
  by (induction rule: list_all2_induct) auto

lemma outbound_message_strings:
  assumes "outbound_message E p (Some k) m = Inr m'" "plain_secret k" "mm_role m \<noteq> ''tool''"
    and "list_all control_free (message_strings m)" "s \<in> set (message_strings m')"
  shows "\<not> contains_str k s"
proof -
  have free: "\<And>t. t \<in> set (message_strings m) \<Longrightarrow> control_free t"
    using assms(4) by (simp add: list_all_iff)
  have m': "m' = m\<lparr>mm_content := outbound_content E p (Some k) m,
                   mm_tool_calls := map_option (map (outbound_call (Some k))) (mm_tool_calls m)\<rparr>"
    using assms(1) by (auto simp: outbound_message_def split: if_splits)
  consider (body) t where "json_str (mm_content m) = Some t" "s = hide_secret (Some k) t \<or> s = redact t (Some k)"
    | (call) t where "t \<in> set (message_strings m)" "s = redact t (Some k)"
    using assms(3,5) unfolding m'
    by (auto simp: message_strings_def outbound_content_def outbound_call_def json_str_def
        value_strings_scrub split: option.splits json.splits if_splits)
  then show ?thesis
  proof cases
    case body
    then have "control_free t" by (intro free) (simp add: message_strings_def)
    with body show ?thesis using hide_secret_removes [OF assms(2)] redact_hides [OF assms(2)] by auto
  next
    case call
    then show ?thesis using redact_hides [OF assms(2)] free by auto
  qed
qed

section \<open>Properties\<close>

text \<open>A session's request: instructions, a question with a path and the credential in it, and a tool
  result with a private field.\<close>

definition demo_model_request :: model_request where
  "demo_model_request =
     \<lparr>rq_messages =
        [\<lparr>mm_role = ''system'', mm_content = JStr ''be brief'', mm_tool_call_id = None, mm_tool_calls = None\<rparr>,
         \<lparr>mm_role = ''user'', mm_content = JStr ''see /x key=k9z'', mm_tool_call_id = None, mm_tool_calls = None\<rparr>,
         \<lparr>mm_role = ''tool'', mm_content = JObj [(''contact'', JStr ''me''), (''status'', JStr ''ok'')],
          mm_tool_call_id = Some ''c'', mm_tool_calls = None\<rparr>],
      rq_tools = [], rq_max_response_chars = 9\<rparr>"

definition demo_sent_request :: model_request where
  "demo_sent_request =
     demo_model_request\<lparr>rq_messages :=
        [\<lparr>mm_role = ''system'', mm_content = JStr ''be brief'', mm_tool_call_id = None, mm_tool_calls = None\<rparr>,
         \<lparr>mm_role = ''user'', mm_content = JStr ''see [redacted] key=[credential]'', mm_tool_call_id = None, mm_tool_calls = None\<rparr>,
         \<lparr>mm_role = ''tool'', mm_content = JStr (enc_json (JObj [(''status'', JStr ''ok'')])),
          mm_tool_call_id = Some ''c'', mm_tool_calls = None\<rparr>]\<rparr>"

lemma demo_outbound: "outbound demo_ext demo_profile (Some ''k9z'') demo_model_request = Inr demo_sent_request"
  by code_simp

text \<open>C32. A tool result that goes to the model keeps only keys that are structural or that the
  profile allows, at every depth, at most 100 elements of an array, and of a string only the
  redaction of its first 1024 characters.\<close>

theorem summary_admits_only_disclosed: "admitted p (tool_summary p v)"
  by (rule tool_summary_admitted)

text \<open>C31. A request that passes the boundary is within the byte and character limits of the profile
  as it is serialized, keeps every message's role and call id and the tool schemas, has no user
  text if the profile does not allow any, and every tool message in it is the printed form of an
  admitted value.\<close>

theorem outbound_stays_in_bounds:
  assumes "outbound E p secret r = Inr r'"
  shows "length (request_bytes_of E r') \<le> unat (ap_max_request_bytes p) \<and>
         length (chars (request_bytes_of E r')) \<le> unat (ap_max_context_chars p) \<and>
         rq_tools r' = rq_tools r \<and>
         map (\<lambda>m. (mm_role m, mm_tool_call_id m)) (rq_messages r') =
           map (\<lambda>m. (mm_role m, mm_tool_call_id m)) (rq_messages r) \<and>
         (ap_allow_user_text p \<or> ''user'' \<notin> mm_role ` set (rq_messages r)) \<and>
         (\<forall>m' \<in> set (rq_messages r'). mm_role m' = ''tool'' \<longrightarrow>
            (\<exists>v. admitted p v \<and> mm_content m' = JStr (json_print E (scrub_value secret v))))"
proof -
  note pairs = outboundD(1) [OF assms]
  have "map (\<lambda>m. (mm_role m, mm_tool_call_id m)) (rq_messages r') =
        map (\<lambda>m. (mm_role m, mm_tool_call_id m)) (rq_messages r)"
    using pairs by (induction rule: list_all2_induct) (auto simp: outbound_message_def split: if_splits)
  moreover have "ap_allow_user_text p \<or> ''user'' \<notin> mm_role ` set (rq_messages r)"
    using pairs by (induction rule: list_all2_induct) (auto simp: outbound_message_def split: if_splits)
  moreover have "\<forall>m' \<in> set (rq_messages r'). mm_role m' = ''tool'' \<longrightarrow>
      (\<exists>v. admitted p v \<and> mm_content m' = JStr (json_print E (scrub_value secret v)))"
    using list_all2_right [OF pairs]
    by (fastforce simp: outbound_message_def outbound_content_def
        intro: tool_summary_admitted split: if_splits)
  ultimately show ?thesis using outboundD(2-4) [OF assms] by simp
qed

theorem outbound_stays_in_bounds_witness:
  "length (request_bytes_of demo_ext demo_sent_request) \<le> 131072"
  using outbound_stays_in_bounds [OF demo_outbound] by (simp add: demo_profile_def)



text \<open>
  The hypothesis on control characters is needed: they are dropped after the credential has been
  replaced, so a credential interrupted by one is put together again.
\<close>

lemma redact_rebuilds_credential: "redact [CHR ''k'', CHR 0x01, CHR ''9'', CHR ''z''] (Some ''k9z'') = ''k9z''"
  by code_simp

end
