(* ===== verification/Tools_Proofs.thy ===== *)
theory Tools_Proofs
  imports Tools Operations_Proofs Disclosure_Proofs
begin

text \<open>
  What the executor guarantees whatever a model asks of it: its tables stay well formed, an id is
  handled once, no tool but the refresh of the local cache writes a file, and the only way to a
  mutation is the review of an operation that was prepared locally.
\<close>

section \<open>Steps of a session\<close>

text \<open>The methods of the executor, as the user interface and the model's calls use them.\<close>

inductive executor_step :: "ext \<Rightarrow> tool_executor \<times> world \<Rightarrow> tool_executor \<times> world \<Rightarrow> bool" for E where
  Call: "execute E call x w = ((r, x'), w') \<Longrightarrow> executor_step E (x, w) (x', w')"
| PrepareStage: "prepare_stage_for_review E ref v dst ov x w = ((r, x'), w') \<Longrightarrow>
    executor_step E (x, w) (x', w')"
| PrepareWithdrawal: "prepare_withdrawal_for_review E ref v reason x w = ((r, x'), w') \<Longrightarrow>
    executor_step E (x, w) (x', w')"
| RegisterOperation: "register_operation op x = (handle, x') \<Longrightarrow> executor_step E (x, w) (x', w)"
| RegisterDraft: "executor_step E (x, w) (register_draft handle draft x, w)"
| Consent: "executor_step E (x, w) (grant_integrity_consent ref v x, w)"
| Take: "take_prepared_operation handle x = (taken, x') \<Longrightarrow> executor_step E (x, w) (x', w)"
| Invalidate: "executor_step E (x, w) (invalidate_handles x, w)"
| Reset: "executor_step E (x, w) (reset_project rt x, w)"
| Elsewhere: "executor_step E (x, w) (x, w')"

inductive_cases executor_stepE: "executor_step E s s'"

definition executor_ok :: "tool_executor \<Rightarrow> bool" where
  "executor_ok x \<longleftrightarrow>
     distinct (ex_call_ids x) \<and> length (ex_call_ids x) \<le> 256 \<and>
     bt_wf (ex_prepared x) \<and> bt_wf (ex_drafts x) \<and> distinct (ex_integrity_consent x) \<and>
     (\<forall>(handle, op) \<in> set (ex_prepared x). operation_id_of op = handle)"

lemma executor_ok_new: "executor_ok (executor_new rt)"
  by (simp add: executor_ok_def executor_new_def bt_wf_def)

text \<open>A call changes the ids and the consents only, and consents are only spent.\<close>

definition spends :: "tool_executor \<Rightarrow> tool_executor \<Rightarrow> bool" where
  "spends x x' \<longleftrightarrow>
     x' = x\<lparr>ex_integrity_consent := ex_integrity_consent x'\<rparr> \<and>
     set (ex_integrity_consent x') \<subseteq> set (ex_integrity_consent x) \<and>
     (distinct (ex_integrity_consent x) \<longrightarrow> distinct (ex_integrity_consent x'))"

lemma spends_refl [simp]: "spends x x"
  by (simp add: spends_def)

lemma spends_remove: "spends x (x\<lparr>ex_integrity_consent := removeAll c (ex_integrity_consent x)\<rparr>)"
  by (auto simp: spends_def distinct_removeAll)

lemma product_inspect_frame: "product_inspect E args resolving x w = ((r, x'), w') \<Longrightarrow> spends x x'"
  using spends_remove [of x]
  by (auto simp: product_inspect_def Let_def split: sum.splits prod.splits if_splits)

lemma dispatch_cases:
  assumes "dispatch E call x w = ((r, x'), w')"
  obtains (plain) "x' = x"
  | (inspected) resolving r' where "r = Some r'"
      "product_inspect E (ca_arguments call) resolving x w = ((r', x'), w')"
  using assms unfolding dispatch_def Let_def
  by (auto split: prod.splits if_splits)

lemma dispatch_frame: "dispatch E call x w = ((r, x'), w') \<Longrightarrow> spends x x'"
  by (erule dispatch_cases) (auto dest: product_inspect_frame)

lemma call_cases:
  assumes "execute E call x w = ((r, x'), w')"
  obtains (refused) kind m where "x' = x" "w' = w" "r = Some (Tool_Rejected kind m)"
  | (handled) "ca_id call \<notin> set (ex_call_ids x)" "length (ex_call_ids x) < 256"
      "dispatch E call (x\<lparr>ex_call_ids := ca_id call # ex_call_ids x\<rparr>) w = ((r, x'), w')"
      "spends (x\<lparr>ex_call_ids := ca_id call # ex_call_ids x\<rparr>) x'"
proof (cases "256 \<le> length (ex_call_ids x) \<or> 256 < length (ca_id call) \<or>
    65536 < length (json_print E (ca_arguments call)) \<or> ca_id call \<in> set (ex_call_ids x)")
  case True
  then show ?thesis using assms that(1) by (auto simp: execute_def split: if_splits)
next
  case False
  then have d: "dispatch E call (x\<lparr>ex_call_ids := ca_id call # ex_call_ids x\<rparr>) w = ((r, x'), w')"
    using assms by (auto simp: execute_def)
  with False dispatch_frame [OF d] that(2) show ?thesis by auto
qed

lemma executor_ok_spends: "executor_ok x \<Longrightarrow> spends x x' \<Longrightarrow> executor_ok x'"
  unfolding executor_ok_def spends_def by (cases x, cases x') auto

lemma executor_ok_call: "execute E call x w = ((r, x'), w') \<Longrightarrow> executor_ok x \<Longrightarrow> executor_ok x'"
  by (erule call_cases) (auto simp: executor_ok_def elim!: executor_ok_spends [rotated, unfolded executor_ok_def])

lemma set_bt_insert: "set (bt_insert k v m) \<subseteq> insert (k, v) (set m)"
  by (induction k v m rule: bt_insert.induct) auto

lemma executor_ok_prepared:
  assumes "executor_ok x" "operation_id_of op = k"
  shows "executor_ok (x\<lparr>ex_prepared := bt_insert k op (ex_prepared x)\<rparr>)"
  using assms set_bt_insert [of k op "ex_prepared x"] by (auto simp: executor_ok_def)

lemma executor_ok_step:
  assumes "executor_step E (x, w) (x', w')" "executor_ok x"
  shows "executor_ok x'"
  using assms(1)
proof (cases rule: executor_step.cases)
  case (Call call r)
  then show ?thesis using executor_ok_call assms(2) by blast
next
  case (RegisterOperation op handle)
  have "executor_ok (x\<lparr>ex_prepared := []\<rparr>)" using assms(2) by (simp add: executor_ok_def)
  from executor_ok_prepared [OF this refl, of op] executor_ok_prepared [OF assms(2) refl, of op] RegisterOperation
  show ?thesis by (auto simp: register_operation_def Let_def split: if_splits)
next
  case (PrepareStage ref v dst ov r)
  then show ?thesis using assms(2)
    by (auto simp: prepare_stage_for_review_def intro!: executor_ok_prepared split: sum.splits prod.splits)
next
  case (PrepareWithdrawal ref v reason r)
  then show ?thesis using assms(2)
    by (auto simp: prepare_withdrawal_for_review_def intro!: executor_ok_prepared split: sum.splits prod.splits)
next
  case (Take handle taken)
  then show ?thesis using assms(2)
    by (auto simp: take_prepared_operation_def executor_ok_def bt_remove_def)
       (metis bt_remove_def bt_wf_remove)
qed (use assms(2) in \<open>auto simp: executor_ok_def register_draft_def grant_integrity_consent_def
      invalidate_handles_def reset_project_def\<close>)

lemma executor_ok_reachable:
  assumes "(executor_step E)\<^sup>*\<^sup>* (x0, w0) (x, w)" "executor_ok x0"
  shows "executor_ok x"
  using assms
proof (induction rule: rtranclp_induct2)
  case (step x w x' w')
  then show ?case using executor_ok_step by blast
qed simp

section \<open>Files\<close>

lemma readonly_query_catalog [readonly_rules, intro!, simp]: "readonly (query_catalog E p q)"
  unfolding query_catalog_def by (auto intro!: readonly_rules)

lemma readonly_run_tool: "readonly m \<Longrightarrow> run_tool E m f w = (r, w') \<Longrightarrow> disk w' = disk w"
  by (auto simp: run_tool_def split: prod.splits sum.splits dest!: readonlyD [of m])

lemma product_inspect_reads:
  assumes "product_inspect E args resolving x w = ((r, x'), w')"
  shows "disk w' = disk w"
proof -
  have ro: "readonly (io_bind (open_project E rt) (\<lambda>p. resolve E p ref v None b))" for rt ref v b
    by (auto intro!: readonly_rules)
  show ?thesis using assms
    by (auto simp: product_inspect_def Let_def dest!: readonly_run_tool [OF ro]
        split: sum.splits prod.splits if_splits)
qed

lemma dispatch_reads:
  assumes "dispatch E call x w = ((r, x'), w')" "ca_name call \<noteq> ''catalog.refresh''"
  shows "disk w' = disk w"
proof -
  have ro: "readonly (io_bind (open_project E rt) (\<lambda>p. query_catalog E p q))" for rt q
    by (auto intro!: readonly_rules)
  consider "w' = w" | u where "catalog_search E (ca_arguments call) x w = (u, w')"
    | u where "peers_status E (ca_arguments call) x w = (u, w')"
    | u q where "product_inspect E (ca_arguments call) q x w = ((u, x'), w')"
    using assms unfolding dispatch_def Let_def by (auto split: prod.splits if_splits)
  then show ?thesis
  proof cases
    case 2
    then show ?thesis
      by (auto simp: catalog_search_def dest: readonly_run_tool [OF ro] split: sum.splits)
  next
    case 3
    then show ?thesis
      by (auto simp: peers_status_def dest: readonly_run_tool [OF ro] split: if_splits)
  next
    case 4
    then show ?thesis by (rule product_inspect_reads)
  qed simp
qed

lemma execute_reads:
  "execute E call x w = ((r, x'), w') \<Longrightarrow> ca_name call \<noteq> ''catalog.refresh'' \<Longrightarrow> disk w' = disk w"
  by (erule call_cases) (auto dest: dispatch_reads)

section \<open>Reviews\<close>

lemma reading_result:
  "run_tool E m f w = (Tool_AwaitingReview t h r, w') \<Longrightarrow> (\<And>y. \<not> (\<exists>t h r. f y = Tool_AwaitingReview t h r)) \<Longrightarrow> False"
  by (auto simp: run_tool_def tool_peer_error_def split: prod.splits sum.splits)

lemma dispatch_review:
  assumes "dispatch E call x w = ((Some (Tool_AwaitingReview t h rv), x'), w')"
  shows "x' = x \<and> w' = w \<and> (\<exists>op. bt_get (ex_prepared x) h = Some op \<and> matches_tool t op \<and>
           t = ca_name call \<and> rv = review_summary op)"
proof -
  have no: "\<not> catalog_search E a y u = (Tool_AwaitingReview t h rv, u')"
    "\<not> peers_status E a y u = (Tool_AwaitingReview t h rv, u')"
    "\<not> catalog_refresh E a y u = (Tool_AwaitingReview t h rv, u')"
    "\<not> product_inspect E a q y u = ((Tool_AwaitingReview t h rv, y'), u')" for a y u u' y' q
    by (auto simp: catalog_search_def peers_status_def catalog_refresh_def product_inspect_def Let_def
        bad_arguments_def dest!: reading_result split: sum.splits if_splits prod.splits)
  have none: "publication_validate E a y \<noteq> Some (Tool_AwaitingReview t h rv)"
    "user_clarify E a \<noteq> Tool_AwaitingReview t h rv" "help_lookup E a \<noteq> Tool_AwaitingReview t h rv" for a y
  proof -
    have "apply_patch p d \<noteq> Some (Inl (Tool_AwaitingReview t h rv))" for p d
      by (induction p d rule: apply_patch.induct) (auto split: option.splits)
    then show "publication_validate E a y \<noteq> Some (Tool_AwaitingReview t h rv)"
      by (auto simp: publication_validate_def bad_arguments_def split: sum.splits option.splits)
  qed (auto simp: user_clarify_def help_lookup_def bad_arguments_def split: sum.splits option.splits)
  have "review_existing E (ca_name call) (ca_arguments call) x = Tool_AwaitingReview t h rv \<and> x' = x \<and> w' = w"
    using assms no none unfolding dispatch_def Let_def by (auto split: prod.splits if_splits)
  then show ?thesis
    by (auto simp: review_existing_def bad_arguments_def split: sum.splits option.splits if_splits)
qed

lemma execute_review:
  assumes "execute E call x w = ((Some (Tool_AwaitingReview t h rv), x'), w')" "executor_ok x"
  shows "w' = w \<and> (\<exists>op. bt_get (ex_prepared x) h = Some op \<and> operation_id_of op = h \<and>
           matches_tool (ca_name call) op \<and> rv = review_summary op \<and>
           fst (take_prepared_operation h x') = Some op)"
  using assms(1)
proof (cases rule: call_cases)
  case handled
  from dispatch_review [OF handled(3)] obtain op where
    "w' = w" "x' = x\<lparr>ex_call_ids := ca_id call # ex_call_ids x\<rparr>" "bt_get (ex_prepared x) h = Some op"
    "matches_tool (ca_name call) op" "rv = review_summary op" by auto
  moreover have "operation_id_of op = h"
    using assms(2) map_of_SomeD [OF \<open>bt_get (ex_prepared x) h = Some op\<close>] by (auto simp: executor_ok_def)
  ultimately show ?thesis by (auto simp: take_prepared_operation_def)
qed simp

section \<open>Panics\<close>

definition object_drafts :: "tool_executor \<Rightarrow> bool" where
  "object_drafts x \<longleftrightarrow> list_all (\<lambda>(_, d). case d of JObj _ \<Rightarrow> True | _ \<Rightarrow> False) (ex_drafts x)"

lemma json_set_object: "json_set k v (JObj kvs) = Some (JObj (set_key k v kvs))"
  by (simp add: json_set_def)

lemma apply_patch_object: "apply_patch p (JObj kvs) \<noteq> None"
  by (induction p arbitrary: kvs) (auto simp: json_set_object)

lemma publication_validate_returns: "object_drafts x \<Longrightarrow> publication_validate E args x \<noteq> None"
  using apply_patch_object
  by (auto simp: publication_validate_def object_drafts_def list_all_iff
      dest!: map_of_SomeD split: sum.splits option.splits json.splits prod.splits)
     (metis (no_types, lifting) json.exhaust case_prodD)

lemma execute_returns: "execute E call x w = ((r, x'), w') \<Longrightarrow> object_drafts x \<Longrightarrow> r \<noteq> None"
proof (erule call_cases)
  assume d: "dispatch E call (x\<lparr>ex_call_ids := ca_id call # ex_call_ids x\<rparr>) w = ((r, x'), w')"
    and x: "object_drafts x"
  from x have "publication_validate E args (x\<lparr>ex_call_ids := ids\<rparr>) \<noteq> None" for args ids
    by (intro publication_validate_returns) (simp add: object_drafts_def)
  with d show "r \<noteq> None"
    unfolding dispatch_def Let_def by (auto split: prod.splits if_splits)
qed simp

section \<open>Properties\<close>

definition demo_withdrawal :: prepared_withdrawal where
  "demo_withdrawal =
     \<lparr>pw_operation_id = ''op-1'', pw_project_root = ''/p'', pw_configuration_fingerprint = ''f'',
      pw_reference = ''product://n/d'', pw_version = ''1'', pw_reason = ''old'',
      pw_expected_manifest_revision = 3\<rparr>"

definition demo_executor :: tool_executor where
  "demo_executor = snd (register_operation (Op_Withdrawal demo_withdrawal) (executor_new ''/p''))"

definition demo_call :: provider_tool_call where
  "demo_call = \<lparr>ca_id = ''c1'', ca_name = ''product.withdraw'', ca_arguments = JObj [(''handle'', JStr ''op-1'')]\<rparr>"

lemma demo_reachable: "(executor_step E)\<^sup>*\<^sup>* (executor_new ''/p'', w) (demo_executor, w)"
  by (rule r_into_rtranclp, rule executor_step.RegisterOperation
        [where op = "Op_Withdrawal demo_withdrawal" and handle = "fst (register_operation (Op_Withdrawal demo_withdrawal) (executor_new ''/p''))"])
     (simp add: demo_executor_def)





end
