(* ===== verification/Harness_Proofs.thy ===== *)
theory Harness_Proofs
  imports Harness_Rules Tools_Proofs
begin

text \<open>
  The properties of a turn, each by an interpretation of \<open>turn_rule\<close>: its bounds, the files it may
  touch, what a guided turn cannot do, which operation it hands over for review, and that it returns.
\<close>

lemma check_stop_Return:
  "check_stop S b (h, t, w) = Return s' \<Longrightarrow>
   s' = (expire_interrupted_state (h\<lparr>h_polls := Suc (h_polls h)\<rparr>),
         t\<lparr>tn_run := (tn_run t)\<lparr>run_state := Run_Stopped,
             run_pending := (if b then None else run_pending (tn_run t))\<rparr>\<rparr>, w)"
  by (cases t, cases "tn_run t") (auto simp: check_stop_def Let_def set_state_def split: if_splits)

lemma expire_simps [simp]:
  "h_profile (expire_interrupted_state h) = h_profile h"
  "h_messages (expire_interrupted_state h) = h_messages h"
  "h_pending_review (expire_interrupted_state h) = None"
  "h_executor (expire_interrupted_state h) = invalidate_handles (h_executor h)"
  "h_requests (expire_interrupted_state h) = h_requests h"
  "h_provider (expire_interrupted_state h) = h_provider h"
  by (simp_all add: expire_interrupted_state_def)

lemma count_request_simps [simp]:
  "h_executor (count_request S r h) = h_executor h" "h_messages (count_request S r h) = h_messages h"
  "h_pending_review (count_request S r h) = h_pending_review h"
  by (simp_all add: count_request_def)

text \<open>What a request and its answer leave alone.\<close>

lemma charge_more:
  "charge u (h, t) = (h', t') \<Longrightarrow>
   h_executor h' = h_executor h \<and> h_messages h' = h_messages h \<and> h_pending_review h' = h_pending_review h \<and>
   run_tools (tn_run t') = run_tools (tn_run t) \<and> run_text (tn_run t') = run_text (tn_run t) \<and>
   run_pending (tn_run t') = run_pending (tn_run t) \<and> run_state (tn_run t') = run_state (tn_run t) \<and>
   (\<exists>es. tn_events t' = tn_events t @ es \<and> (\<forall>n. Ev_ToolStarted n \<notin> set es))"
  by (auto simp: charge_def Let_def add_cost_def split: option.splits)

lemma hear_text:
  "length (he_run_text x) \<le> unat (ap_max_response_chars p) \<Longrightarrow>
   length (he_run_text (hear p e x)) \<le> unat (ap_max_response_chars p)"
  by (auto simp: hear_def split: provider_event.splits)

lemma hear_events:
  "\<forall>n. Ev_ToolStarted n \<notin> set (he_events x) \<Longrightarrow> \<forall>n. Ev_ToolStarted n \<notin> set (he_events (hear p e x))"
  by (auto simp: hear_def split: provider_event.splits)

lemma listen_text:
  "length text \<le> unat (ap_max_response_chars p) \<Longrightarrow>
   length (he_run_text (listen p text es)) \<le> unat (ap_max_response_chars p)"
proof -
  have "length (he_run_text x) \<le> unat (ap_max_response_chars p) \<Longrightarrow>
      length (he_run_text (fold (hear p) es x)) \<le> unat (ap_max_response_chars p)" for x
    by (induction es arbitrary: x) (auto simp: hear_text)
  then show "length text \<le> unat (ap_max_response_chars p) \<Longrightarrow> ?thesis" by (simp add: listen_def)
qed

lemma listen_events: "Ev_ToolStarted n \<notin> set (he_events (listen p text es))"
proof -
  have "\<forall>n. Ev_ToolStarted n \<notin> set (he_events x) \<Longrightarrow> \<forall>n. Ev_ToolStarted n \<notin> set (he_events (fold (hear p) es x))" for x
    by (induction es arbitrary: x) (auto dest: hear_events)
  then show ?thesis by (simp add: listen_def)
qed

lemma ask_provider_more:
  assumes "ask_provider S q (h, t, w) = (y, (h', t', w'))"
  shows "h_executor h' = h_executor h" "h_messages h' = h_messages h"
    "h_pending_review h' = h_pending_review h" "w' = w" "h_profile h' = h_profile h"
    "run_tools (tn_run t') = run_tools (tn_run t)" "run_pending (tn_run t') = run_pending (tn_run t)"
    "run_state (tn_run t') = run_state (tn_run t)" "tn_calls t' = tn_calls t" "tn_awaiting t' = tn_awaiting t"
    "\<exists>es. run_text (tn_run t') = he_run_text (listen (h_profile h) (run_text (tn_run t)) es)"
    "\<exists>es. tn_events t' = tn_events t @ es \<and> (\<forall>n. Ev_ToolStarted n \<notin> set es)"
  using assms ask_provider_frame [OF assms]
  by (auto simp: ask_provider_def Let_def listen_events dest!: charge_more split: prod.splits option.splits)

text \<open>The result of one proposal.\<close>

lemma run_proposal_cases:
  assumes "run_proposal S c (h, t, w) = Go s'"
  obtains (refused) "tn_awaiting t"
      "s' = settle S c local_review_pending
              (h\<lparr>h_polls := Suc (h_polls h)\<rparr>, emit (Ev_ToolStarted (ca_name c)) (t\<lparr>tn_calls := tn_calls t + 1\<rparr>), w)"
  | (executed) e x w' where "\<not> tn_awaiting t" "execute (su_ext S) c (h_executor h) w = ((Some e, x), w')"
      "s' = settle S c e
              (h\<lparr>h_polls := Suc (h_polls h), h_executor := x\<rparr>,
               emit (Ev_ToolStarted (ca_name c)) (t\<lparr>tn_calls := tn_calls t + 1\<rparr>), w')"
proof -
  let ?h = "h\<lparr>h_polls := Suc (h_polls h)\<rparr>"
  have c: "check_stop S True (h, t, w) = Go (?h, t, w)"
    using assms check_stop_Go [of S True "(h, t, w)" _ h t w]
    by (auto simp: run_proposal_def proceed_eq_Go)
  show ?thesis
  proof (cases "tn_awaiting t")
    case True
    then show ?thesis using assms that(1) by (simp add: run_proposal_def c Let_def)
  next
    case False
    then show ?thesis using assms that(2)
      by (auto simp: run_proposal_def c Let_def split: prod.splits option.splits)
  qed
qed

lemma settle_all:
  assumes "settle S c e (h, t, w) = (h', t', w')"
  shows "run_tools (tn_run t') = run_tools (tn_run t) @ [e] \<and> run_text (tn_run t') = run_text (tn_run t) \<and>
    tn_events t' = tn_events t @ [Ev_ToolResult e] \<and> tn_calls t' = tn_calls t \<and> w' = w \<and>
    h_profile h' = h_profile h \<and>
    h_executor h' =
       (case review_id e of
          None \<Rightarrow> h_executor h
        | Some i \<Rightarrow> (h_executor h)\<lparr>ex_prepared := bt_remove i (ex_prepared (h_executor h))\<rparr>)"
  using assms
  by (cases "review_id e"; cases "needs_user e")
     (auto simp: settle_def take_prepared_operation_def Let_def)

section \<open>Bounds of a turn\<close>

definition in_bounds :: "agent_profile \<Rightarrow> 'p session \<Rightarrow> bool" where
  "in_bounds p s = (case s of (h, t, w) \<Rightarrow>
     h_profile h = p \<and> length (run_tools (tn_run t)) = tn_calls t \<and>
     tn_calls t \<le> unat (ap_max_tool_calls p) \<and>
     length (run_text (tn_run t)) \<le> unat (ap_max_response_chars p))"

definition ended_in_bounds :: "agent_profile \<Rightarrow> 'p session \<Rightarrow> bool" where
  "ended_in_bounds p s = (case s of (h, t, w) \<Rightarrow>
     length (run_tools (tn_run t)) \<le> unat (ap_max_tool_calls p) \<and>
     (length (run_text (tn_run t)) \<le> unat (ap_max_response_chars p) \<or>
      (\<exists>e. run_state (tn_run t) = Run_Failed (provider_error_kind e))))"

interpretation bounds: turn_rule S guided "in_bounds p" "ended_in_bounds p" for S :: "'p surroundings" and guided p
proof unfold_locales
  fix h :: "'p harness" and t w y q s'
  assume I: "in_bounds p (h, t, w)" and a: "ask_provider S q (h, t, w) = (y, s')"
  obtain h' t' w' where s': "s' = (h', t', w')" by (cases s')
  note m = ask_provider_more [OF a [unfolded s']]
  obtain es where "run_text (tn_run t') = he_run_text (listen (h_profile h) (run_text (tn_run t)) es)"
    using m(11) by blast
  then show "in_bounds p s'" using I m(5,6,9) listen_text by (simp add: in_bounds_def s')
next
  fix h :: "'p harness" and t w c s'
  assume I: "in_bounds p (h, t, w)" and left: "calls_left (h, t, w) 1" and r: "run_proposal S c (h, t, w) = Go s'"
  obtain h' t' w' where s': "s' = (h', t', w')" by (cases s')
  from r [unfolded s'] show "in_bounds p s'"
    by (cases rule: run_proposal_cases)
       (use I left in \<open>auto simp: in_bounds_def s' dest!: sym [of "(h', t', w')"] settle_all\<close>)
qed (auto simp: in_bounds_def ended_in_bounds_def dest!: check_stop_Return)

section \<open>Files\<close>

text \<open>As long as no refresh was started, the disk is as it was.\<close>

definition disk_kept :: "fs \<Rightarrow> 'p session \<Rightarrow> bool" where
  "disk_kept D s = (case s of (h, t, w) \<Rightarrow>
     Ev_ToolStarted ''catalog.refresh'' \<in> set (tn_events t) \<or> disk w = D)"

interpretation files: turn_rule S guided "disk_kept D" "disk_kept D"
  for S :: "'p surroundings" and guided D
proof unfold_locales
  fix h :: "'p harness" and t w y q s'
  assume I: "disk_kept D (h, t, w)" and a: "ask_provider S q (h, t, w) = (y, s')"
  obtain h' t' w' where s': "s' = (h', t', w')" by (cases s')
  from ask_provider_more(4,12) [OF a [unfolded s']] show "disk_kept D s'"
    using I by (auto simp: disk_kept_def s')
next
  fix h :: "'p harness" and t w c s'
  assume I: "disk_kept D (h, t, w)" and r: "run_proposal S c (h, t, w) = Go s'"
  obtain h' t' w' where s': "s' = (h', t', w')" by (cases s')
  from r [unfolded s'] show "disk_kept D s'"
    by (cases rule: run_proposal_cases)
       (use I in \<open>auto simp: disk_kept_def s' dest!: sym [of "(h', t', w')"] settle_all dest: execute_reads\<close>)
qed (auto simp: disk_kept_def dest!: check_stop_Return)

section \<open>Guided turns\<close>

definition untouched :: "tool_executor \<Rightarrow> world \<Rightarrow> 'p session \<Rightarrow> bool" where
  "untouched x w0 s = (case s of (h, t, w) \<Rightarrow>
     w = w0 \<and> run_tools (tn_run t) = [] \<and> run_pending (tn_run t) = None \<and>
     (\<forall>n. Ev_ToolStarted n \<notin> set (tn_events t)) \<and>
     (h_executor h = x \<or> h_executor h = invalidate_handles x))"

lemma invalidate_twice [simp]: "invalidate_handles (invalidate_handles x) = invalidate_handles x"
  by (simp add: invalidate_handles_def)

interpretation teaching: turn_rule S True "untouched x w0" "untouched x w0"
  for S :: "'p surroundings" and x w0
proof unfold_locales
  fix h :: "'p harness" and t w y q s'
  assume I: "untouched x w0 (h, t, w)" and a: "ask_provider S q (h, t, w) = (y, s')"
  obtain h' t' w' where s': "s' = (h', t', w')" by (cases s')
  from ask_provider_more(1,4,6,7,12) [OF a [unfolded s']] show "untouched x w0 s'"
    using I by (auto simp: untouched_def s')
qed (auto simp: untouched_def dest!: check_stop_Return)

section \<open>What is handed over for review\<close>

definition reviewed :: "tool_executor \<Rightarrow> 'p harness \<Rightarrow> turn \<Rightarrow> bool" where
  "reviewed x h t \<longleftrightarrow>
     (\<forall>op. run_pending (tn_run t) = Some op \<longrightarrow>
        run_state (tn_run t) = Run_AwaitingReview (operation_id_of op) \<and>
        bt_get (ex_prepared x) (operation_id_of op) = Some op \<and>
        (\<exists>call. h_pending_review h = Some (operation_id_of op, call)))"

definition holds_prepared :: "tool_executor \<Rightarrow> 'p session \<Rightarrow> bool" where
  "holds_prepared x s = (case s of (h, t, w) \<Rightarrow>
     executor_ok (h_executor h) \<and> bt_get (ex_prepared (h_executor h)) \<subseteq>\<^sub>m bt_get (ex_prepared x) \<and>
     (\<not> tn_awaiting t \<longrightarrow> run_pending (tn_run t) = None) \<and> reviewed x h t)"

definition hands_over :: "tool_executor \<Rightarrow> 'p session \<Rightarrow> bool" where
  "hands_over x s = (case s of (h, t, w) \<Rightarrow> executor_ok (h_executor h) \<and> reviewed x h t)"

lemma executor_ok_invalidate: "executor_ok x \<Longrightarrow> executor_ok (invalidate_handles x)"
  by (simp add: executor_ok_def invalidate_handles_def)

lemma executor_ok_take: "executor_ok x \<Longrightarrow> executor_ok (x\<lparr>ex_prepared := bt_remove i (ex_prepared x)\<rparr>)"
  using bt_wf_remove [of "ex_prepared x" i] by (auto simp: executor_ok_def bt_remove_def)

lemma settle_other:
  "review_id e = None \<Longrightarrow> settle S c e (h, t, w) = (h', t', w') \<Longrightarrow>
   h_executor h' = h_executor h \<and> h_pending_review h' = h_pending_review h \<and>
   run_pending (tn_run t') = run_pending (tn_run t) \<and>
   (run_state (tn_run t') = run_state (tn_run t) \<and> tn_awaiting t' = tn_awaiting t \<or>
    needs_user e \<and> tn_awaiting t')"
  by (cases "needs_user e") (auto simp: settle_def Let_def)

lemma settle_review:
  "review_id e = Some i \<Longrightarrow> settle S c e (h, t, w) = (h', t', w') \<Longrightarrow>
   h_executor h' = (h_executor h)\<lparr>ex_prepared := bt_remove i (ex_prepared (h_executor h))\<rparr> \<and>
   h_pending_review h' = Some (i, ca_id c) \<and>
   run_pending (tn_run t') = bt_get (ex_prepared (h_executor h)) i \<and>
   run_state (tn_run t') = Run_AwaitingReview i \<and> tn_awaiting t'"
  by (auto simp: settle_def take_prepared_operation_def Let_def)

lemma review_idD: "review_id e = Some i \<Longrightarrow> \<exists>tool r. e = Tool_AwaitingReview tool i r"
  by (cases e) (auto simp: review_id_def)

lemma prepared_call: "execute E c x w = ((r, x'), w') \<Longrightarrow> ex_prepared x' = ex_prepared x"
  by (erule call_cases) (auto simp: spends_def dest: arg_cong [of _ _ ex_prepared])

lemma holds_prepared_proposal:
  assumes "holds_prepared x (h, t, w)" "run_proposal S c (h, t, w) = Go s'"
  shows "holds_prepared x s'"
proof -
  obtain h' t' w' where s': "s' = (h', t', w')" by (cases s')
  from assms(2) [unfolded s'] show ?thesis
  proof (cases rule: run_proposal_cases)
    case refused
    have "review_id local_review_pending = None" "\<not> needs_user local_review_pending"
      by (simp_all add: review_id_def needs_user_def local_review_pending_def)
    with settle_other [OF this(1) refused(2) [symmetric]] assms(1) refused(1) show ?thesis
      by (auto simp: holds_prepared_def reviewed_def s')
  next
    case (executed e y w1)
    have ok: "executor_ok y" using executor_ok_call [OF executed(2)] assms(1) by (simp add: holds_prepared_def)
    have sub: "bt_get (ex_prepared y) \<subseteq>\<^sub>m bt_get (ex_prepared x)"
      using prepared_call [OF executed(2)] assms(1) by (simp add: holds_prepared_def)
    have none: "run_pending (tn_run t) = None" using assms(1) executed(1) by (simp add: holds_prepared_def)
    show ?thesis
    proof (cases "review_id e")
      case None
      from settle_other [OF None executed(3) [symmetric]] ok sub none show ?thesis
        by (auto simp: holds_prepared_def reviewed_def s')
    next
      case (Some i)
      then obtain tool r where e: "e = Tool_AwaitingReview tool i r" by (auto dest: review_idD)
      have "executor_ok (h_executor h)" using assms(1) by (simp add: holds_prepared_def)
      from execute_review [OF executed(2) [unfolded e] this] obtain op where
        op: "bt_get (ex_prepared y) i = Some op" "operation_id_of op = i"
        using prepared_call [OF executed(2)] by auto
      then have "bt_get (ex_prepared x) i = Some op" using sub by (metis domI map_le_def)
      moreover have "(bt_get (ex_prepared y))(i := None) \<subseteq>\<^sub>m bt_get (ex_prepared x)"
        using sub by (auto simp: map_le_def)
      ultimately show ?thesis
        using settle_review [OF Some executed(3) [symmetric]] executor_ok_take [OF ok, of i] op
        by (simp add: holds_prepared_def reviewed_def s')
    qed
  qed
qed

interpretation review: turn_rule S guided "holds_prepared x" "hands_over x"
  for S :: "'p surroundings" and guided x
proof unfold_locales
  fix h :: "'p harness" and t w y q s'
  assume I: "holds_prepared x (h, t, w)" and a: "ask_provider S q (h, t, w) = (y, s')"
  obtain h' t' w' where s': "s' = (h', t', w')" by (cases s')
  from ask_provider_more(1,3,7,8,10) [OF a [unfolded s']] show "holds_prepared x s'"
    using I by (auto simp: holds_prepared_def reviewed_def s')
next
  fix h :: "'p harness" and t w c s'
  assume "holds_prepared x (h, t, w)" "run_proposal S c (h, t, w) = Go s'"
  then show "holds_prepared x s'" by (rule holds_prepared_proposal)
qed (auto simp: holds_prepared_def hands_over_def reviewed_def executor_ok_invalidate dest!: check_stop_Return split: if_splits)

end
