(* ===== verification/Harness_Session.thy ===== *)
theory Harness_Session
  imports Harness_Proofs
begin

text \<open>
  A session as a whole: the steps the application takes with a harness, the invariant of its
  conversation, and the properties of turns.
\<close>

section \<open>The conversation\<close>

text \<open>Once opened, the conversation starts with the instructions, with or without handles.\<close>

definition opened :: "model_message list \<Rightarrow> bool" where
  "opened ms \<longleftrightarrow>
     (case ms of
        [] \<Rightarrow> False
      | m # _ \<Rightarrow> mm_role m = ''system'' \<and>
          (mm_content m = JStr SESSION_INSTRUCTIONS \<or>
           (\<exists>x. mm_content m = JStr (SESSION_INSTRUCTIONS @ HANDLES_SEPARATOR @ x))))"

lemma opened_Cons: "opened (m # ms) \<longleftrightarrow> opened [m]"
  by (simp add: opened_def)

lemma opened_append: "opened ms \<Longrightarrow> opened (ms @ ns)"
  by (cases ms) (auto simp: opened_def)

lemma user_turns_Cons: "user_turns (m # ms) = (if mm_role m = ''user'' then [0] else []) @ map Suc (user_turns ms)"
proof -
  have "enumerate 0 (m # ms) = (0, m) # map (\<lambda>(i, m). (Suc i, m)) (enumerate 0 ms)"
    by (auto simp: enumerate_Suc_eq)
  then show ?thesis
    by (simp add: user_turns_def filter_map comp_def case_prod_unfold)
qed

lemma user_turns_sorted: "sorted_wrt (<) (user_turns ms)"
proof (induction ms)
  case Nil
  show ?case by (simp add: user_turns_def)
qed (auto simp: user_turns_Cons sorted_wrt_map sorted_wrt_append)

lemma strictly_sorted_ge: "sorted_wrt (<) xs \<Longrightarrow> i < length xs \<Longrightarrow> i \<le> xs ! i" for xs :: "nat list"
proof (induction i)
  case (Suc i)
  then have "i \<le> xs ! i" "xs ! i < xs ! Suc i" by (auto simp: sorted_wrt_iff_nth_less)
  then show ?case by simp
qed simp

lemma second_turn:
  assumes "mm_role m \<noteq> ''user''" "2 < length (user_turns (m # ms))"
  shows "1 < user_turns (m # ms) ! 1"
proof -
  have "1 < length (user_turns ms)" using assms by (simp add: user_turns_Cons)
  with strictly_sorted_ge [OF user_turns_sorted this] assms(1) show ?thesis by (simp add: user_turns_Cons)
qed

lemma bounded_opened:
  assumes "opened ms"
  shows "\<exists>r ms'. bounded_messages E p tools ms = Some (r, ms') \<and> opened ms'"
  using assms
proof (induction E p tools ms rule: bounded_messages.induct)
  case (1 E p tools ms)
  obtain m rest where ms: "ms = m # rest" using 1(2) by (cases ms) (auto simp: opened_def)
  have role: "mm_role m \<noteq> ''user''" using 1(2) by (auto simp: opened_def ms)
  let ?out = "outbound E p None \<lparr>rq_messages = ms, rq_tools = tools, rq_max_response_chars = ap_max_response_chars p\<rparr>"
  show ?case
  proof (cases ?out)
    case (Inr r)
    then show ?thesis using 1(2) by (simp add: bounded_messages.simps [of E p tools ms])
  next
    case (Inl e)
    show ?thesis
    proof (cases "length (user_turns ms) \<le> 2")
      case True
      then show ?thesis using Inl 1(2) by (simp add: bounded_messages.simps [of E p tools ms])
    next
      case False
      have second: "\<not> user_turns ms ! 1 \<le> 1" using second_turn [OF role, of rest] False ms by simp
      have "opened (take 1 ms @ drop (user_turns ms ! 1) ms)" using 1(2) by (simp add: opened_def ms)
      note IH = 1(1) [OF Inl refl False second this]
      have "bounded_messages E p tools ms = bounded_messages E p tools (take 1 ms @ drop (user_turns ms ! 1) ms)"
        by (subst bounded_messages.simps) (use False second in \<open>simp add: Inl Let_def\<close>)
      then show ?thesis using IH by (simp only:)
    qed
  qed
qed

text \<open>Opening a turn keeps the first message.\<close>

lemma split_once_str_first:
  "d \<notin> set a \<Longrightarrow> split_once_str (d # p) (a @ d # p @ b) = Some (a, b)"
  by (induction a) auto

lemma split_once_str_absent: "d \<notin> set a \<Longrightarrow> split_once_str (d # p) a = None"
  by (induction a) auto

lemma instructions_line: "CHR 0x0A \<notin> set SESSION_INSTRUCTIONS"
  by (simp add: SESSION_INSTRUCTIONS_def)

lemma instructions_start: "\<not> starts_with HANDLES_PREFIX (SESSION_INSTRUCTIONS @ x)"
proof -
  have "hd SESSION_INSTRUCTIONS \<noteq> hd HANDLES_PREFIX \<and> SESSION_INSTRUCTIONS \<noteq> [] \<and> HANDLES_PREFIX \<noteq> []"
    by code_simp
  moreover have "a \<noteq> [] \<Longrightarrow> b \<noteq> [] \<Longrightarrow> hd b \<noteq> hd a \<Longrightarrow> \<not> starts_with a (b @ x)" for a b :: string
    by (cases a; cases b) (auto simp: starts_with_def)
  ultimately show ?thesis by blast
qed

lemma without_handles_instructions:
  "without_handles SESSION_INSTRUCTIONS = SESSION_INSTRUCTIONS"
  "without_handles (SESSION_INSTRUCTIONS @ HANDLES_SEPARATOR @ x) = SESSION_INSTRUCTIONS"
  using split_once_str_absent [OF instructions_line, of "CHR 0x0A # HANDLES_PREFIX"]
    split_once_str_first [OF instructions_line, of "CHR 0x0A # HANDLES_PREFIX" x]
  by (simp_all add: without_handles_def HANDLES_SEPARATOR_def)

lemma opened_with_handles: "opened [m] \<Longrightarrow> opened [with_handles E j m]"
  by (auto simp: opened_def with_handles_def json_str_def without_handles_instructions)

lemma opened_not_stale: "opened [m] \<Longrightarrow> \<not> stale_handles m"
  using instructions_start [of "[]"] instructions_start
  by (auto simp: opened_def stale_handles_def json_str_def)

definition session_ok :: "'p harness \<Rightarrow> bool" where
  "session_ok h \<longleftrightarrow>
     (opened (h_messages h) \<or> h_messages h = [] \<and> h_pending_review h = None) \<and>
     object_drafts (h_executor h)"

lemma open_turn_opened:
  assumes "session_ok h"
  shows "opened (h_messages (open_turn E text h))" "h_executor (open_turn E text h) = h_executor h"
proof -
  let ?ms = "if h_messages h = [] then [plain_message ''system'' SESSION_INSTRUCTIONS] else h_messages h"
  have "opened ?ms" using assms by (auto simp: session_ok_def opened_def plain_message_def)
  then obtain m rest where ms: "?ms = m # rest" "opened [m]" by (cases ?ms) (auto simp: opened_def)
  have keep: "filter (\<lambda>m. \<not> stale_handles m) (m # xs) = m # filter (\<lambda>m. \<not> stale_handles m) xs" for xs
    using opened_not_stale [OF ms(2)] by simp
  show "opened (h_messages (open_turn E text h))"
    using opened_with_handles [OF ms(2)]
    unfolding open_turn_def Let_def ms(1) by (auto simp: keep opened_def simp del: filter.simps)
  show "h_executor (open_turn E text h) = h_executor h" by (simp add: open_turn_def Let_def)
qed

section \<open>Every turn returns\<close>

definition conversing :: "'p session \<Rightarrow> bool" where
  "conversing s = (case s of (h, t, w) \<Rightarrow> opened (h_messages h) \<and> object_drafts (h_executor h))"

lemma object_drafts_invalidate [simp]: "object_drafts (invalidate_handles x)"
  by (simp add: object_drafts_def invalidate_handles_def)

lemma object_drafts_call:
  "execute E c x w = ((r, x'), w') \<Longrightarrow> object_drafts x' \<longleftrightarrow> object_drafts x"
  by (erule call_cases) (auto simp: spends_def object_drafts_def dest: arg_cong [of _ _ ex_drafts])

lemma settle_messages:
  "settle S c e (h, t, w) = (h', t', w') \<Longrightarrow> \<exists>ns. h_messages h' = h_messages h @ ns"
  by (cases "review_id e"; cases "needs_user e") (auto simp: settle_def take_prepared_operation_def Let_def)

lemma settle_drafts:
  "settle S c e (h, t, w) = (h', t', w') \<Longrightarrow> object_drafts (h_executor h') \<longleftrightarrow> object_drafts (h_executor h)"
  using settle_all [of S c e h t w h' t' w'] by (auto simp: object_drafts_def split: option.splits)

interpretation returns: returning_turn S guided conversing "\<lambda>(h, t, w). opened (h_messages h) \<and> object_drafts (h_executor h)"
  for S :: "'p surroundings" and guided
proof unfold_locales
  fix h :: "'p harness" and t w y q s'
  assume I: "conversing (h, t, w)" and a: "ask_provider S q (h, t, w) = (y, s')"
  obtain h' t' w' where s': "s' = (h', t', w')" by (cases s')
  from ask_provider_more(1,2) [OF a [unfolded s']] show "conversing s'"
    using I by (auto simp: conversing_def s')
next
  fix h :: "'p harness" and t w c s'
  assume I: "conversing (h, t, w)" and r: "run_proposal S c (h, t, w) = Go s'"
  obtain h' t' w' where s': "s' = (h', t', w')" by (cases s')
  from r [unfolded s'] show "conversing s'"
    by (cases rule: run_proposal_cases)
       (use I in \<open>auto simp: conversing_def s' opened_append object_drafts_call settle_drafts
          dest!: sym [of "(h', t', w')"] dest: settle_messages\<close>)
next
  fix h :: "'p harness" and t :: turn and w :: world and E p tools r ms
  assume "conversing (h, t, w)" "bounded_messages E p tools (h_messages h) = Some (r, ms)"
  then show "conversing (h\<lparr>h_messages := ms\<rparr>, t, w)"
    using bounded_opened [of "h_messages h" E p tools] by (auto simp: conversing_def)
next
  fix h :: "'p harness" and t :: turn and w :: world and E p tools
  assume "conversing (h, t, w)"
  then show "bounded_messages E p tools (h_messages h) \<noteq> None"
    using bounded_opened [of "h_messages h" E p tools] by (auto simp: conversing_def)
next
  fix h :: "'p harness" and t w c
  assume "conversing (h, t, w)"
  then have no: "execute E c (h_executor h) w \<noteq> ((None, x), w')" for E x w'
    by (auto simp: conversing_def dest: execute_returns)
  show "run_proposal S c (h, t, w) \<noteq> Stuck"
    by (auto simp: run_proposal_def check_stop_def Let_def no split: prod.splits option.splits)
qed (auto simp: conversing_def opened_append dest!: check_stop_Return)

section \<open>Steps of a session\<close>

text \<open>
  What the application does with a harness. Drafts come from a publication request, so they are JSON
  objects: that is the only thing assumed of the user interface.
\<close>

inductive session_step :: "'p surroundings \<Rightarrow> 'p harness \<times> world \<Rightarrow> 'p harness \<times> world \<Rightarrow> bool" for S where
  Turn: "run_mode S text guided h w = Some (outcome, h', w') \<Longrightarrow> session_step S (h, w) (h', w')"
| Reviewed: "record_review_outcome (su_ext S) operation_id outcome h = (r, h') \<Longrightarrow> session_step S (h, w) (h', w)"
| Cancel: "session_step S (h, w) (stop h, w)"
| Token: "session_step S (h, w) (set_cancellation c h, w)"
| Capture: "set_capture_run_id run_id h = (r, h') \<Longrightarrow> session_step S (h, w) (h', w)"
| Switch: "session_step S (h, w) (switch_project S rt h, w)"
| Drop: "session_step S (h, w) (invalidate_session h, w)"
| Interrupt: "session_step S (h, w) (expire_interrupted_state h, w)"
| Select: "executor_step (su_ext S) (h_executor h, w) (x, w') \<Longrightarrow> object_drafts x \<Longrightarrow>
    session_step S (h, w) (h\<lparr>h_executor := x\<rparr>, w')"

lemma run_mode_cases:
  assumes "run_mode S text guided h w = Some ((r, es), h', w')"
  obtains (refused) "turn_refused text h = Some r" "es = []" "h' = h" "w' = w"
  | (ran) t' where "turn_refused text h = None"
      "turn_loop S guided (open_turn (su_ext S) text h, new_turn, w) = Some (h', t', w')"
      "r = tn_run t'" "es = tn_events t'"
  using assms by (auto simp: run_mode_def split: option.splits)

lemma new_turn_simps [simp]:
  "tn_calls new_turn = 0" "tn_awaiting new_turn = False" "tn_events new_turn = []" "tn_time new_turn = 0"
  "run_tools (tn_run new_turn) = []" "run_text (tn_run new_turn) = []" "run_pending (tn_run new_turn) = None"
  by (simp_all add: new_turn_def)

lemma open_turn_simps [simp]:
  "h_profile (open_turn E text h) = h_profile h" "h_executor (open_turn E text h) = h_executor h"
  "h_pending_review (open_turn E text h) = h_pending_review h" "h_spent (open_turn E text h) = h_spent h"
  "h_unknown_cost (open_turn E text h) = h_unknown_cost h" "h_requests (open_turn E text h) = h_requests h"
  "h_provider (open_turn E text h) = h_provider h"
  by (simp_all add: open_turn_def Let_def)

lemma turn_refused_tools: "turn_refused text h = Some r \<Longrightarrow> run_tools r = [] \<and> run_pending r = None \<and> (\<exists>k. run_state r = Run_Failed k)"
  by (auto simp: turn_refused_def failed_run_def split: if_splits)

lemma turn_allowed:
  assumes "turn_refused text h = None"
  shows "h_pending_review h = None" "agent_profile_validate (h_profile h) ''active'' = Inr ()"
  using assms by (cases "h_pending_review h"; auto simp: turn_refused_def is_ok_iff split: if_splits)+

lemma conversing_open: "session_ok h \<Longrightarrow> conversing (open_turn E text h, new_turn, w)"
  using open_turn_opened(1) [of h E "text"] by (simp add: conversing_def session_ok_def)

lemma session_ok_turn:
  assumes "run_mode S text guided h w = Some (outcome, h', w')" "session_ok h"
  shows "session_ok h'"
proof -
  obtain r es where o: "outcome = (r, es)" by (cases outcome)
  from assms(1) [unfolded o] show ?thesis
  proof (cases rule: run_mode_cases)
    case (ran t')
    then show ?thesis
      using returns.turn_loop_rule [OF _ ran(2)] conversing_open [OF assms(2)] by (auto simp: session_ok_def)
  qed (use assms(2) in simp)
qed

lemma session_ok_step:
  assumes "session_step S (h, w) (h', w')" "session_ok h"
  shows "session_ok h'"
  using assms(1)
proof (cases rule: session_step.cases)
  case Turn
  then show ?thesis using assms(2) by (blast intro: session_ok_turn)
next
  case Reviewed
  then show ?thesis using assms(2)
    by (auto simp: session_ok_def record_review_outcome_def opened_append split: option.splits if_splits)
qed (use assms(2) in \<open>auto simp: session_ok_def stop_def set_cancellation_def set_capture_run_id_def
      switch_project_def invalidate_session_def reset_project_def object_drafts_def
      expire_interrupted_state_def invalidate_handles_def split: if_splits\<close>)

lemma session_ok_new: "session_ok (harness_new p prov rt)"
  by (simp add: session_ok_def harness_new_def executor_new_def object_drafts_def)

lemma session_ok_reachable:
  assumes "(session_step S)\<^sup>*\<^sup>* (harness_new p prov rt, w0) (h, w)"
  shows "session_ok h"
  using assms
proof (induction rule: rtranclp_induct2)
  case refl
  show ?case by (rule session_ok_new)
next
  case (step h w h' w')
  then show ?case using session_ok_step by blast
qed

lemma run_mode_returns:
  assumes "session_ok h"
  shows "\<exists>r es h' w'. run_mode S text guided h w = Some ((r, es), h', w')"
proof (cases "turn_refused text h")
  case None
  have "turn_loop S guided (open_turn (su_ext S) text h, new_turn, w) \<noteq> None"
    by (rule returns.turn_loop_returns) (use conversing_open assms in auto)
  then show ?thesis using None by (auto simp: run_mode_def)
qed (auto simp: run_mode_def)

lemma opening_exhausted:
  assumes "ap_max_cost_usd (h_profile h) = Some limit" "h_unknown_cost h \<or> f64_leq limit (h_spent h)"
  shows "\<exists>s. opening_checks S (h, t, w) = Return s \<and> h_provider (fst s) = h_provider h \<and>
           h_requests (fst s) = h_requests h \<and> run_tools (tn_run (fst (snd s))) = run_tools (tn_run t) \<and>
           snd (snd s) = w"
proof (cases "is_cancelled S h")
  case True
  then show ?thesis by (simp add: opening_checks_def check_stop_def Let_def)
next
  case False
  have "time_limit (h\<lparr>h_polls := Suc (h_polls h)\<rparr>) = time_limit h" by (simp add: time_limit_def)
  then show ?thesis using assms False
    by (cases "time_limit h \<le> tn_time t")
       (auto simp: opening_checks_def check_stop_def fail_run_def Let_def)
qed

section \<open>Properties\<close>

definition quiet_ext :: ext where
  "quiet_ext = demo_ext\<lparr>json_print := (\<lambda>_. ''{}''), json_parse := (\<lambda>_. Inl (Syntax ''none''))\<rparr>"

definition demo_surroundings :: "fake_provider surroundings" where
  "demo_surroundings =
     \<lparr>su_ext = quiet_ext, su_provider = fake_model_provider, su_stop = (\<lambda>_. False), su_elapsed = (\<lambda>_. 0)\<rparr>"

definition demo_harness :: "provider_event list list \<Rightarrow> fake_provider harness" where
  "demo_harness turns =
     (harness_new (demo_profile\<lparr>ap_max_cost_usd := None\<rparr>) \<lparr>fk_scripts = map Inr turns\<rparr> ''/p'')
       \<lparr>h_executor := demo_executor\<rparr>"

lemma demo_open:
  "open_turn quiet_ext (c # s) (demo_harness turns) = (demo_harness turns)\<lparr>h_messages :=
     [plain_message ''system'' (SESSION_INSTRUCTIONS @ HANDLES_SEPARATOR @ ''{}''), plain_message ''user'' (c # s)]\<rparr>"
proof -
  have "nonempty_items ''operations''
      (tool_summary (h_profile (demo_harness turns)) (local_handles (h_executor (demo_harness turns))))"
    by code_simp
  moreover have "\<not> stale_handles (plain_message ''user'' x)"
    "\<not> stale_handles (plain_message ''system'' SESSION_INSTRUCTIONS)" for x
    using instructions_start [of "[]"] by (simp_all add: stale_handles_def plain_message_def json_str_def)
  ultimately show ?thesis
    by (simp add: open_turn_def with_handles_def json_str_def plain_message_def without_handles_instructions)
       (simp add: demo_harness_def harness_new_def quiet_ext_def)
qed

lemma demo_run:
  assumes "turn_refused (c # s) (demo_harness turns) = None"
    and "\<And>m. case turn_loop demo_surroundings guided
           ((demo_harness turns)\<lparr>h_messages := [plain_message ''system'' m, plain_message ''user'' (c # s)]\<rparr>,
            new_turn, demo_world) of Some (h', t', w') \<Rightarrow> Q (tn_run t') (tn_events t') | None \<Rightarrow> False"
  obtains r es h' w' where
    "run_mode demo_surroundings (c # s) guided (demo_harness turns) demo_world = Some ((r, es), h', w')" "Q r es"
proof -
  have "su_ext demo_surroundings = quiet_ext" by (simp add: demo_surroundings_def)
  then show thesis using that assms(2) [of "SESSION_INSTRUCTIONS @ HANDLES_SEPARATOR @ ''{}''"]
    by (auto simp: run_mode_def assms(1) demo_open split: option.splits)
qed

lemma demo_guided_loop:
  "case turn_loop demo_surroundings True ((demo_harness [[TextDelta ''ok'']])
       \<lparr>h_messages := [plain_message ''system'' m, plain_message ''user'' ''hi'']\<rparr>, new_turn, demo_world) of
     Some (h', t', w') \<Rightarrow>
       run_state (tn_run t') = Run_Complete \<and> run_text (tn_run t') = ''ok'' \<and> tn_events t' = [Ev_Text ''ok'']
   | None \<Rightarrow> False"
  by code_simp

lemma demo_guided:
  obtains r es h' w' where
    "run_mode demo_surroundings ''hi'' True (demo_harness [[TextDelta ''ok'']]) demo_world = Some ((r, es), h', w')"
    "run_state r = Run_Complete \<and> run_text r = ''ok'' \<and> es = [Ev_Text ''ok'']"
proof -
  have "turn_refused ''hi'' (demo_harness [[TextDelta ''ok'']]) = None" by code_simp
  from demo_run [OF this, where Q = "\<lambda>r es. run_state r = Run_Complete \<and> run_text r = ''ok'' \<and> es = [Ev_Text ''ok'']",
      OF demo_guided_loop] show thesis using that by blast
qed

lemma demo_reviewed_loop:
  "case turn_loop demo_surroundings False ((demo_harness [[ToolCall demo_call]])
       \<lparr>h_messages := [plain_message ''system'' m, plain_message ''user'' ''withdraw'']\<rparr>, new_turn, demo_world) of
     Some (h', t', w') \<Rightarrow> run_pending (tn_run t') = Some (Op_Withdrawal demo_withdrawal)
   | None \<Rightarrow> False"
  by code_simp

lemma demo_reviewed:
  obtains r es h' w' where
    "run_mode demo_surroundings ''withdraw'' False (demo_harness [[ToolCall demo_call]]) demo_world = Some ((r, es), h', w')"
    "run_pending r = Some (Op_Withdrawal demo_withdrawal)"
proof -
  have "turn_refused ''withdraw'' (demo_harness [[ToolCall demo_call]]) = None" by code_simp
  from demo_run [OF this, where Q = "\<lambda>r es. run_pending r = Some (Op_Withdrawal demo_withdrawal)", OF demo_reviewed_loop]
  show thesis using that by blast
qed

text \<open>C19. Every turn of a session returns: from a new harness, whatever the application and the
  provider have done so far and whatever the provider answers now, a turn ends with a result; it
  neither panics nor trims the conversation for ever.\<close>

theorem every_turn_returns:
  assumes "(session_step S)\<^sup>*\<^sup>* (harness_new p prov rt, w0) (h, w)"
  shows "\<exists>r es h' w'. run_mode S text guided h w = Some ((r, es), h', w')"
  using run_mode_returns [OF session_ok_reachable [OF assms]] by fast

theorem every_turn_returns_witness:
  "\<exists>r es h' w'. run_mode demo_surroundings ''again'' False
     (stop (harness_new demo_profile \<lparr>fk_scripts = []\<rparr> ''/p'')) demo_world = Some ((r, es), h', w')"
  by (rule every_turn_returns, rule r_into_rtranclp, rule session_step.Cancel)

text \<open>C22. A turn executes at most as many tool calls as the profile allows, never more than eight,
  and answers with no more text than the profile allows unless it failed.\<close>

theorem turn_stays_in_bounds:
  assumes "run_mode S text guided h w = Some ((r, es), h', w')"
  shows "length (run_tools r) \<le> unat (ap_max_tool_calls (h_profile h)) \<and> length (run_tools r) \<le> 8 \<and>
         (length (run_text r) \<le> unat (ap_max_response_chars (h_profile h)) \<or> (\<exists>k. run_state r = Run_Failed k))"
  using assms
proof (cases rule: run_mode_cases)
  case refused
  then show ?thesis using turn_refused_tools [of "text" h r] by auto
next
  case (ran t')
  have "ended_in_bounds (h_profile h) (h', t', w')"
    by (rule bounds.turn_loop_rule [OF _ ran(2)]) (simp add: in_bounds_def)
  moreover have "unat (ap_max_tool_calls (h_profile h)) \<le> 8"
    using validated_bounded [OF turn_allowed(2) [OF ran(1)]] by (simp add: bounded_profile_def)
  ultimately show ?thesis using ran(3) by (auto simp: ended_in_bounds_def)
qed

theorem turn_stays_in_bounds_witness:
  "\<exists>r es h' w'. run_mode demo_surroundings ''hi'' True (demo_harness [[TextDelta ''ok'']]) demo_world =
     Some ((r, es), h', w') \<and> run_text r = ''ok'' \<and> length (run_text r) \<le> 8000 \<and> length (run_tools r) \<le> 4"
proof -
  obtain r es h' w' where run:
    "run_mode demo_surroundings ''hi'' True (demo_harness [[TextDelta ''ok'']]) demo_world = Some ((r, es), h', w')"
    "run_state r = Run_Complete \<and> run_text r = ''ok'' \<and> es = [Ev_Text ''ok'']"
    by (rule demo_guided)
  with turn_stays_in_bounds [OF run(1)] show ?thesis
    by (simp add: demo_harness_def harness_new_def demo_profile_def)
qed



text \<open>C23. A turn in which no refresh was started writes no file: the disk afterwards is the disk
  before, whatever was read, proposed, rejected or cancelled.\<close>

theorem turn_writes_nothing:
  assumes "run_mode S text guided h w = Some ((r, es), h', w')"
    and "Ev_ToolStarted ''catalog.refresh'' \<notin> set es"
  shows "disk w' = disk w"
  using assms(1)
proof (cases rule: run_mode_cases)
  case (ran t')
  have "disk_kept (disk w) (h', t', w')"
    by (rule files.turn_loop_rule [OF _ ran(2)]) (simp add: disk_kept_def)
  then show ?thesis using ran(4) assms(2) by (simp add: disk_kept_def)
qed simp

text \<open>C20. The operation a turn hands over for confirmation was prepared locally before the turn,
  under its own id; the run says that it awaits the review of that id, and the session will accept
  the outcome of no other.\<close>

theorem review_is_of_a_local_operation:
  assumes "run_mode S text guided h w = Some ((r, es), h', w')" "executor_ok (h_executor h)"
    and "run_pending r = Some op"
  shows "bt_get (ex_prepared (h_executor h)) (operation_id_of op) = Some op \<and>
         run_state r = Run_AwaitingReview (operation_id_of op) \<and>
         (\<forall>other outcome. other \<noteq> operation_id_of op \<longrightarrow>
            record_review_outcome E other outcome h' = (Inl ''Review operation ID mismatch'', h'))"
  using assms(1)
proof (cases rule: run_mode_cases)
  case refused
  then show ?thesis using turn_refused_tools [of "text" h r] assms(3) by auto
next
  case (ran t')
  have "hands_over (h_executor h) (h', t', w')"
    by (rule review.turn_loop_rule [OF _ ran(2)])
       (use assms(2) in \<open>simp add: holds_prepared_def reviewed_def\<close>)
  then show ?thesis using ran(3) assms(3)
    by (auto simp: hands_over_def reviewed_def record_review_outcome_def)
qed

text \<open>C24. Once the budget of a session is used up, or its cost is no longer known, a turn under a
  cost limit sends nothing: the provider is as it was, no request is counted, no tool runs.\<close>

theorem exhausted_budget_sends_nothing:
  assumes "ap_max_cost_usd (h_profile h) = Some limit"
    and "h_unknown_cost h \<or> f64_leq limit (h_spent h)"
    and "run_mode S text guided h w = Some ((r, es), h', w')"
  shows "h_provider h' = h_provider h \<and> h_requests h' = h_requests h \<and> run_tools r = [] \<and> w' = w"
  using assms(3)
proof (cases rule: run_mode_cases)
  case refused
  then show ?thesis using turn_refused_tools [of "text" h r] by auto
next
  case (ran t')
  let ?s = "(open_turn (su_ext S) text h, new_turn, w)"
  obtain s1 where s1: "opening_checks S ?s = Return s1"
    and same: "h_provider (fst s1) = h_provider h \<and> h_requests (fst s1) = h_requests h \<and>
      run_tools (tn_run (fst (snd s1))) = [] \<and> snd (snd s1) = w"
    using opening_exhausted [of "open_turn (su_ext S) text h" limit S new_turn w] assms(1,2) by auto
  then have "iteration S guided ?s = Return s1" by (simp add: iteration_def)
  then have "turn_loop S guided ?s = Some s1" by (simp add: turn_loop.simps [of S guided ?s])
  then show ?thesis using ran same by auto
qed

theorem exhausted_budget_sends_nothing_witness:
  "\<exists>r es h' w'. run_mode demo_surroundings ''hi'' False
     ((harness_new demo_profile \<lparr>fk_scripts = []\<rparr> ''/p'')\<lparr>h_unknown_cost := True\<rparr>) demo_world = Some ((r, es), h', w') \<and>
     h_requests h' = 0"
proof -
  let ?h = "(harness_new demo_profile \<lparr>fk_scripts = [] :: fake_script list\<rparr> ''/p'')\<lparr>h_unknown_cost := True\<rparr>"
  let ?run = "run_mode demo_surroundings ''hi'' False ?h demo_world"
  have "session_ok ?h"
    using session_ok_new [of demo_profile "\<lparr>fk_scripts = []\<rparr> :: fake_provider" "''/p''"] by (simp add: session_ok_def)
  then obtain r es h' w' where run: "?run = Some ((r, es), h', w')" using run_mode_returns by blast
  moreover have "h_requests h' = h_requests ?h"
    using exhausted_budget_sends_nothing [OF _ _ run, of "Finite 1"] by (simp add: harness_new_def demo_profile_def)
  ultimately show ?thesis by (auto simp: harness_new_def)
qed

theorem review_is_of_a_local_operation_witness:
  "bt_get (ex_prepared demo_executor) ''op-1'' = Some (Op_Withdrawal demo_withdrawal)"
proof -
  obtain r es h' w' where run:
    "run_mode demo_surroundings ''withdraw'' False (demo_harness [[ToolCall demo_call]]) demo_world = Some ((r, es), h', w')"
    "run_pending r = Some (Op_Withdrawal demo_withdrawal)"
    by (rule demo_reviewed)
  have "executor_ok demo_executor" by (rule executor_ok_reachable [OF demo_reachable executor_ok_new])
  then have "executor_ok (h_executor (demo_harness [[ToolCall demo_call]]))" by (simp add: demo_harness_def)
  from review_is_of_a_local_operation [OF run(1) this run(2)] show ?thesis
    by (simp add: demo_harness_def demo_withdrawal_def)
qed

theorem turn_writes_nothing_witness:
  "\<exists>r es h' w'. run_mode demo_surroundings ''hi'' True (demo_harness [[TextDelta ''ok'']]) demo_world = Some ((r, es), h', w') \<and>
     disk w' = disk demo_world"
proof -
  obtain r es h' w' where run:
    "run_mode demo_surroundings ''hi'' True (demo_harness [[TextDelta ''ok'']]) demo_world = Some ((r, es), h', w')"
    and "run_state r = Run_Complete \<and> run_text r = ''ok'' \<and> es = [Ev_Text ''ok'']" by (rule demo_guided)
  then have "Ev_ToolStarted ''catalog.refresh'' \<notin> set es" by simp
  from turn_writes_nothing [OF run this] run show ?thesis by auto
qed

end
