(* ===== verification/Sse.thy ===== *)
theory Sse
  imports Provider
begin

text \<open>
  \<open>SseParser\<close> of \<open>mesh_agent/src/provider.rs\<close>: the event stream of the hosted router, which arrives
  in chunks that respect neither characters nor lines. The reference is a machine that reads one
  byte after the other; on streams without carriage returns the parser is that machine, however the
  stream is cut, and with a CRLF cut in two it is not.
\<close>

section \<open>UTF-8\<close>

text \<open>
  \<open>str::from_utf8\<close>: the ranges of the bytes that may follow a leading byte, and the scan up to the
  first sequence that is incomplete (the input may go on) or broken (with \<open>error_len\<close>).
\<close>

definition utf8_lead :: "char \<Rightarrow> (nat \<times> nat) list option" where
  "utf8_lead c =
     (let b = of_char c :: nat; more = (0x80, 0xBF) in
      if b < 0x80 then Some []
      else if b < 0xC2 then None
      else if b < 0xE0 then Some [more]
      else if b = 0xE0 then Some [(0xA0, 0xBF), more]
      else if b = 0xED then Some [(0x80, 0x9F), more]
      else if b < 0xF0 then Some [more, more]
      else if b = 0xF0 then Some [(0x90, 0xBF), more, more]
      else if b < 0xF4 then Some [more, more, more]
      else if b = 0xF4 then Some [(0x80, 0x8F), more, more]
      else None)"

datatype utf8_tail = Taken string | Cut_Short | Wrong nat

fun utf8_rest :: "nat \<Rightarrow> (nat \<times> nat) list \<Rightarrow> string \<Rightarrow> utf8_tail" where
  "utf8_rest k [] cs = Taken cs"
| "utf8_rest k (r # rs) [] = Cut_Short"
| "utf8_rest k (r # rs) (c # cs) =
     (if fst r \<le> (of_char c :: nat) \<and> (of_char c :: nat) \<le> snd r then utf8_rest (Suc k) rs cs else Wrong k)"

datatype utf8_end = Utf8_Ok | Utf8_Incomplete | Utf8_Invalid nat

lemma utf8_rest_Taken: "utf8_rest k rs cs = Taken t \<Longrightarrow> t = drop (length rs) cs \<and> length rs \<le> length cs"
  by (induction k rs cs rule: utf8_rest.induct) (auto split: if_splits)

function utf8_scan :: "string \<Rightarrow> nat \<times> utf8_end" where
  "utf8_scan [] = (0, Utf8_Ok)"
| "utf8_scan (c # cs) =
     (case utf8_lead c of
        None \<Rightarrow> (0, Utf8_Invalid 1)
      | Some rs \<Rightarrow>
          (case utf8_rest 1 rs cs of
             Wrong k \<Rightarrow> (0, Utf8_Invalid k)
           | Cut_Short \<Rightarrow> (0, Utf8_Incomplete)
           | Taken rest \<Rightarrow> (case utf8_scan rest of (n, e) \<Rightarrow> (Suc (length rs) + n, e))))"
  by pat_completeness auto
termination by (relation "measure length") (auto dest: utf8_rest_Taken)

section \<open>The parser\<close>

record sse_parser =
  sp_undecoded :: string
  sp_line :: string
  sp_data :: "string list"

definition sse_default :: sse_parser where
  "sse_default = \<lparr>sp_undecoded = [], sp_line = [], sp_data = []\<rparr>"

text \<open>\<open>process_line\<close> and \<open>push_text\<close> return \<open>Ok\<close> on every path; they are total here.\<close>

definition process_line :: "string \<Rightarrow> sse_parser \<Rightarrow> string list \<times> sse_parser" where
  "process_line line p =
     (if line = [] then
        (if sp_data p = [] then ([], p) else ([join_with [CHR 0x0A] (sp_data p)], p\<lparr>sp_data := []\<rparr>))
      else if starts_with '':'' line then ([], p)
      else
        case strip_prefix ''data:'' line of
          Some d \<Rightarrow>
            ([], p\<lparr>sp_data := sp_data p @ [case strip_prefix '' '' d of Some d' \<Rightarrow> d' | None \<Rightarrow> d]\<rparr>)
        | None \<Rightarrow> ([], p))"

fun push_parts :: "string list \<Rightarrow> sse_parser \<Rightarrow> string list \<times> sse_parser" where
  "push_parts [] p = ([], p)"
| "push_parts (part # parts) p =
     (case strip_suffix [CHR 0x0A] part of
        Some line \<Rightarrow>
          (let whole = sp_line p @ (case strip_suffix [CHR 0x0D] line of Some l \<Rightarrow> l | None \<Rightarrow> line) in
           case process_line whole (p\<lparr>sp_line := []\<rparr>) of
             (events, p') \<Rightarrow> (case push_parts parts p' of (later, q) \<Rightarrow> (events @ later, q)))
      | None \<Rightarrow> push_parts parts (p\<lparr>sp_line := sp_line p @ part\<rparr>))"

definition push_text :: "string \<Rightarrow> sse_parser \<Rightarrow> string list \<times> sse_parser" where
  "push_text text p = push_parts (split_inclusive (\<lambda>c. c = CHR 0x0A) text) p"

definition sse_push :: "string \<Rightarrow> sse_parser \<Rightarrow> provider_error + (string list \<times> sse_parser)" where
  "sse_push bytes p =
     (let undecoded = sp_undecoded p @ bytes in
      case utf8_scan undecoded of
        (valid, Utf8_Invalid k) \<Rightarrow>
          Inl (Malformed (''invalid utf-8 sequence of '' @ show_nat k @ '' bytes from index '' @ show_nat valid))
      | (valid, _) \<Rightarrow> Inr (push_text (take valid undecoded) (p\<lparr>sp_undecoded := drop valid undecoded\<rparr>)))"

definition sse_finish :: "sse_parser \<Rightarrow> provider_error + (string list \<times> sse_parser)" where
  "sse_finish p =
     (if sp_undecoded p \<noteq> [] then Inl (Malformed ''truncated UTF-8 in SSE stream'')
      else if sp_line p \<noteq> [] then Inr (process_line (sp_line p) (p\<lparr>sp_line := []\<rparr>))
      else Inr ([], p))"

text \<open>The chunks of a stream one after the other, as the client's loop pushes them.\<close>

fun sse_feed :: "string list \<Rightarrow> sse_parser \<Rightarrow> provider_error + (string list \<times> sse_parser)" where
  "sse_feed [] p = Inr ([], p)"
| "sse_feed (chunk # chunks) p =
     and_then (sse_push chunk p) (\<lambda>(events, p').
     and_then (sse_feed chunks p') (\<lambda>(later, q). Inr (events @ later, q)))"

section \<open>Chunks do not matter\<close>

lemma utf8_rest_append:
  "utf8_rest k rs a = Taken t \<Longrightarrow> utf8_rest k rs (a @ b) = Taken (t @ b)"
  "utf8_rest k rs a = Wrong n \<Longrightarrow> utf8_rest k rs (a @ b) = Wrong n"
  by (induction k rs a rule: utf8_rest.induct) (auto split: if_splits)

lemma utf8_scan_append:
  "utf8_scan (a @ b) =
     (case utf8_scan a of
        (n, Utf8_Invalid k) \<Rightarrow> (n, Utf8_Invalid k)
      | (n, _) \<Rightarrow> (case utf8_scan (drop n a @ b) of (m, e) \<Rightarrow> (n + m, e)))"
proof (induction a rule: utf8_scan.induct)
  case (2 c cs)
  show ?case
  proof (cases "utf8_lead c")
    case (Some rs)
    show ?thesis
    proof (cases "utf8_rest 1 rs cs")
      case (Taken t)
      then have "utf8_rest 1 rs (cs @ b) = Taken (t @ b)" by (simp add: utf8_rest_append)
      moreover note utf8_rest_Taken [OF Taken] "2.IH" [OF Some Taken]
      ultimately show ?thesis using Some Taken
        by (auto simp: add.commute split: prod.splits utf8_end.splits)
    next
      case (Wrong k)
      then have "utf8_rest 1 rs (cs @ b) = Wrong k" by (simp add: utf8_rest_append)
      then show ?thesis using Some Wrong by simp
    qed (use Some in \<open>simp split: prod.splits\<close>)
  qed simp
qed (simp split: prod.splits)

lemma utf8_scan_le: "utf8_scan a = (n, e) \<Longrightarrow> n \<le> length a"
proof (induction a arbitrary: n e rule: utf8_scan.induct)
  case (2 c cs)
  then show ?case
    by (fastforce split: option.splits utf8_tail.splits prod.splits dest: utf8_rest_Taken)
qed simp

lemma utf8_scan_valid: "utf8_scan a = (n, e) \<Longrightarrow> utf8_scan (take n a) = (n, Utf8_Ok)"
proof (induction a arbitrary: n e rule: utf8_scan.induct)
  case (2 c cs)
  show ?case
  proof (cases "utf8_lead c")
    case (Some rs)
    show ?thesis
    proof (cases "utf8_rest 1 rs cs")
      case (Taken t)
      obtain m e' where m: "utf8_scan t = (m, e')" by fastforce
      from Taken have t: "t = drop (length rs) cs" "length rs \<le> length cs" using utf8_rest_Taken by auto
      have "utf8_rest k ss xs = Taken ys \<Longrightarrow> utf8_rest k ss (take (length ss + j) xs) = Taken (take j ys)" for k ss xs ys j
        by (induction k ss xs rule: utf8_rest.induct) (auto split: if_splits)
      from this [OF Taken, of m] "2.IH" [OF Some Taken m] "2.prems" Some Taken m show ?thesis by auto
    qed (use Some "2.prems" in auto)
  qed (use "2.prems" in auto)
qed simp

text \<open>The reference: one byte at a time.\<close>

fun sse_byte :: "char \<Rightarrow> sse_parser \<Rightarrow> string list \<times> sse_parser" where
  "sse_byte c p =
     (if c = CHR 0x0A then process_line (sp_line p) (p\<lparr>sp_line := []\<rparr>)
      else ([], p\<lparr>sp_line := sp_line p @ [c]\<rparr>))"

fun sse_bytes :: "string \<Rightarrow> sse_parser \<Rightarrow> string list \<times> sse_parser" where
  "sse_bytes [] p = ([], p)"
| "sse_bytes (c # cs) p =
     (case sse_byte c p of (events, p') \<Rightarrow>
        (case sse_bytes cs p' of (later, q) \<Rightarrow> (events @ later, q)))"

lemma sse_bytes_append:
  "sse_bytes (a @ b) p =
     (case sse_bytes a p of (events, p') \<Rightarrow>
        (case sse_bytes b p' of (later, q) \<Rightarrow> (events @ later, q)))"
  by (induction a arbitrary: p) (auto split: prod.splits)

lemma sse_bytes_line:
  "CHR 0x0A \<notin> set a \<Longrightarrow> sse_bytes a p = ([], p\<lparr>sp_line := sp_line p @ a\<rparr>)"
  by (induction a arbitrary: p) auto

lemma strip_suffix_singleton:
  "strip_suffix [d] s = (if s \<noteq> [] \<and> last s = d then Some (butlast s) else None)"
  by (cases s rule: rev_cases) (auto simp: strip_suffix_def)

lemma split_inclusive_part:
  "part \<in> set (split_inclusive P cs) \<Longrightarrow> part \<noteq> [] \<and> (\<forall>c \<in> set (butlast part). \<not> P c)"
proof (induction cs arbitrary: part)
  case (Cons c cs)
  show ?case
  proof (cases "P c")
    case True
    with Cons show ?thesis by auto
  next
    case False
    show ?thesis
    proof (cases "split_inclusive P cs")
      case split: (Cons q qs)
      from split have q: "q \<noteq> []" "\<forall>d \<in> set (butlast q). \<not> P d" using Cons.IH [of q] by simp_all
      from split False Cons.prems consider "part = c # q" | "part \<in> set qs" by auto
      then show ?thesis
      proof cases
        case 1
        then show ?thesis using q False by simp
      next
        case 2
        then show ?thesis using Cons.IH [of part] split by simp
      qed
    qed (use False Cons.prems in auto)
  qed
qed simp

lemma push_parts_bytes:
  assumes "\<forall>part \<in> set parts. part \<noteq> [] \<and> CHR 0x0A \<notin> set (butlast part) \<and> CHR 0x0D \<notin> set part"
  shows "push_parts parts p = sse_bytes (concat parts) p"
  using assms
proof (induction parts arbitrary: p)
  case (Cons part parts)
  then obtain line c where part: "part = line @ [c]" by (cases part rule: rev_cases) auto
  have line: "CHR 0x0A \<notin> set line" "CHR 0x0D \<notin> set line" using Cons.prems part by auto
  then have bare: "strip_suffix [CHR 0x0D] line = None"
    by (simp add: strip_suffix_singleton) (metis last_in_set)
  have tail: "push_parts parts q = sse_bytes (concat parts) q" for q using Cons by simp
  show ?case
  proof (cases "c = CHR 0x0A")
    case True
    then have "strip_suffix [CHR 0x0A] part = Some line" by (simp add: part strip_suffix_singleton)
    then show ?thesis using True line bare tail
      by (simp add: part sse_bytes_append sse_bytes_line split: prod.splits)
  next
    case False
    then have "strip_suffix [CHR 0x0A] part = None" by (simp add: part strip_suffix_singleton)
    then show ?thesis using False line tail
      by (simp add: part sse_bytes_append sse_bytes_line split: prod.splits)
  qed
qed simp

lemma push_text_bytes: "CHR 0x0D \<notin> set s \<Longrightarrow> push_text s p = sse_bytes s p"
proof -
  assume cr: "CHR 0x0D \<notin> set s"
  have "push_parts (split_inclusive (\<lambda>c. c = CHR 0x0A) s) p =
      sse_bytes (concat (split_inclusive (\<lambda>c. c = CHR 0x0A) s)) p"
    by (rule push_parts_bytes)
       (use cr in \<open>fastforce dest: split_inclusive_part split_inclusive_chars\<close>)
  then show ?thesis by (simp add: push_text_def)
qed

text \<open>After any chunk, the parser has read every complete character with the reference.\<close>

lemma sse_bytes_undecoded:
  "sse_bytes cs p = (es, q) \<Longrightarrow> sse_bytes cs (p\<lparr>sp_undecoded := u\<rparr>) = (es, q\<lparr>sp_undecoded := u\<rparr>)"
proof (induction cs arbitrary: p es)
  case (Cons c cs)
  obtain es1 p1 where step: "sse_byte c p = (es1, p1)" by fastforce
  then have "sse_byte c (p\<lparr>sp_undecoded := u\<rparr>) = (es1, p1\<lparr>sp_undecoded := u\<rparr>)"
    by (auto simp: process_line_def split: if_splits option.splits)
  with Cons step show ?case by (auto simp del: sse_byte.simps split: prod.splits)
qed simp

lemma sse_push_ok:
  assumes "CHR 0x0D \<notin> set (sp_undecoded p @ chunk)" "utf8_scan (sp_undecoded p @ chunk) = (n, e)"
    and "\<nexists>k. e = Utf8_Invalid k" "sse_bytes (take n (sp_undecoded p @ chunk)) p = (es, q)"
  shows "sse_push chunk p = Inr (es, q\<lparr>sp_undecoded := drop n (sp_undecoded p @ chunk)\<rparr>)"
proof -
  have "CHR 0x0D \<notin> set (take n (sp_undecoded p @ chunk))"
    using assms(1) by (meson in_set_takeD)
  from push_text_bytes [OF this] sse_bytes_undecoded [OF assms(4)] show ?thesis
    using assms(2,3) by (cases e) (simp_all add: sse_push_def Let_def del: take_append drop_append)
qed

lemma sse_push_bad:
  "utf8_scan (sp_undecoded p @ chunk) = (n, Utf8_Invalid k) \<Longrightarrow> \<exists>e. sse_push chunk p = Inl e"
  by (simp add: sse_push_def)

text \<open>Two chunks are one: the same events and parser, or both are refused.\<close>

lemma sse_push_push:
  assumes "CHR 0x0D \<notin> set (sp_undecoded p @ a @ b)"
  shows "sse_push (a @ b) p = Inr r \<longleftrightarrow>
    and_then (sse_push a p) (\<lambda>(es, p').
    and_then (sse_push b p') (\<lambda>(es', q). Inr (es @ es', q))) = Inr r"
proof -
  define s where "s = sp_undecoded p @ a"
  obtain n e where n: "utf8_scan s = (n, e)" by fastforce
  show ?thesis
  proof (cases "\<exists>k. e = Utf8_Invalid k")
    case True
    then obtain k where "utf8_scan s = (n, Utf8_Invalid k)" "utf8_scan (s @ b) = (n, Utf8_Invalid k)"
      using n utf8_scan_append [of s b] by auto
    then obtain d d' where "sse_push a p = Inl d" "sse_push (a @ b) p = Inl d'"
      using sse_push_bad [of p a] sse_push_bad [of p "a @ b"] by (fastforce simp: s_def)
    then show ?thesis by simp
  next
    case False
    define u where "u = drop n s"
    obtain es p1 where p1: "sse_bytes (take n s) p = (es, p1)" by fastforce
    have first: "sse_push a p = Inr (es, p1\<lparr>sp_undecoded := u\<rparr>)"
      unfolding u_def s_def by (rule sse_push_ok) (use assms n False p1 s_def in auto)
    obtain m e' where m: "utf8_scan (u @ b) = (m, e')" by fastforce
    then have whole: "utf8_scan (s @ b) = (n + m, e')"
      using utf8_scan_append [of s b] n False by (auto simp: u_def split: utf8_end.splits)
    have cut: "take (n + m) (s @ b) = take n s @ take m (u @ b)" "drop (n + m) (s @ b) = drop m (u @ b)"
      using utf8_scan_le [OF n] by (simp_all add: u_def take_add add.commute [of m n])
    obtain es' q where q: "sse_bytes (take m (u @ b)) p1 = (es', q)" by fastforce
    show ?thesis
    proof (cases "\<exists>k. e' = Utf8_Invalid k")
      case True
      then obtain d d' where "sse_push (a @ b) p = Inl d" "sse_push b (p1\<lparr>sp_undecoded := u\<rparr>) = Inl d'"
        using whole m sse_push_bad [of p "a @ b"] sse_push_bad [of "p1\<lparr>sp_undecoded := u\<rparr>" b]
        by (fastforce simp: s_def)
      then show ?thesis by (simp add: first)
    next
      case valid: False
      have "sse_push (a @ b) p = Inr (es @ es', q\<lparr>sp_undecoded := drop (n + m) (sp_undecoded p @ a @ b)\<rparr>)"
      proof (rule sse_push_ok [OF assms _ valid])
        show "utf8_scan (sp_undecoded p @ a @ b) = (n + m, e')" using whole by (simp add: s_def)
        have "take (n + m) (sp_undecoded p @ a @ b) = take n s @ take m (u @ b)"
          using cut(1) by (simp only: s_def append_assoc)
        then show "sse_bytes (take (n + m) (sp_undecoded p @ a @ b)) p = (es @ es', q)"
          using p1 q by (simp only: sse_bytes_append prod.case)
      qed
      moreover have "CHR 0x0D \<notin> set (u @ b)"
        using assms in_set_dropD [of _ n s] by (auto simp: u_def s_def)
      then have "sse_push b (p1\<lparr>sp_undecoded := u\<rparr>) =
          Inr (es', q\<lparr>sp_undecoded := u\<rparr>\<lparr>sp_undecoded := drop m (u @ b)\<rparr>)"
        using sse_push_ok [of "p1\<lparr>sp_undecoded := u\<rparr>" b m e'] m valid sse_bytes_undecoded [OF q] by simp
      moreover have "drop (n + m) (sp_undecoded p @ a @ b) = drop m (u @ b)"
        using cut(2) by (simp only: s_def append_assoc)
      ultimately show ?thesis by (simp add: first)
    qed
  qed
qed

section \<open>Properties\<close>

lemma sse_feed_snoc:
  "sse_feed (chunks @ [c]) p =
     and_then (sse_feed chunks p) (\<lambda>(es, p').
     and_then (sse_push c p') (\<lambda>(es', q). Inr (es @ es', q)))"
proof (induction chunks arbitrary: p)
  case Nil
  show ?case by (cases "sse_push c p") auto
next
  case (Cons a chunks)
  show ?case
  proof (cases "sse_push a p")
    case (Inr r)
    then show ?thesis using Cons
      by (cases r; cases "sse_feed chunks (snd r)"; cases "sse_push c (snd (projr (sse_feed chunks (snd r))))") auto
  qed simp
qed

text \<open>C36. However a stream without carriage returns is cut into chunks, inside a character, a line or
  an event, the client sees the events it would see in one piece, and is left with the same parser;
  or both are refused.\<close>

theorem sse_chunks_do_not_matter:
  assumes "CHR 0x0D \<notin> set (concat chunks)"
  shows "sse_feed chunks sse_default = Inr r \<longleftrightarrow> sse_push (concat chunks) sse_default = Inr r"
  using assms
proof (induction chunks arbitrary: r rule: rev_induct)
  case Nil
  show ?case by (auto simp: sse_push_def push_text_def sse_default_def)
next
  case (snoc c chunks)
  let ?p = sse_default
  have same: "sse_feed chunks ?p = Inr x \<longleftrightarrow> sse_push (concat chunks) ?p = Inr x" for x using snoc by simp
  have "CHR 0x0D \<notin> set (sp_undecoded ?p @ concat chunks @ c)" using snoc.prems by (simp add: sse_default_def)
  note whole = sse_push_push [OF this, of r]
  show ?case
  proof (cases "sse_feed chunks ?p")
    case (Inl d)
    then obtain d' where "sse_push (concat chunks) ?p = Inl d'"
      using same by (cases "sse_push (concat chunks) ?p") auto
    with whole Inl show ?thesis by (simp add: sse_feed_snoc)
  next
    case (Inr x)
    then have "sse_push (concat chunks) ?p = Inr x" using same by blast
    with whole Inr show ?thesis by (simp add: sse_feed_snoc)
  qed
qed

theorem sse_chunks_do_not_matter_witness:
  "sse_feed [''da'', ''ta: a'' @ [CHR 0xC3], [CHR 0xA9, CHR 0x0A], [CHR 0x0A]] sse_default =
     Inr ([''a'' @ [CHR 0xC3, CHR 0xA9]], sse_default)"
proof -
  let ?chunks = "[''da'', ''ta: a'' @ [CHR 0xC3], [CHR 0xA9, CHR 0x0A], [CHR 0x0A]]"
  have "sse_push (concat ?chunks) sse_default = Inr ([''a'' @ [CHR 0xC3, CHR 0xA9]], sse_default)"
    by code_simp
  then show ?thesis by (subst sse_chunks_do_not_matter) simp_all
qed

text \<open>
  With carriage returns it is not so: \<open>push_text\<close> looks for the \<open>\r\<close> of a line only in the chunk
  that holds its \<open>\n\<close>. Cut between the two, the line keeps its \<open>\r\<close>: the end marker is not
  recognised, or the blank line that ends an event is not, and the event is lost.
\<close>

theorem split_crlf_changes_events:
  "sse_feed [''data: [DONE]'' @ [CHR 0x0D, CHR 0x0A, CHR 0x0D, CHR 0x0A]] sse_default =
     Inr ([''[DONE]''], sse_default)"
  "sse_feed [''data: [DONE]'' @ [CHR 0x0D], [CHR 0x0A, CHR 0x0D, CHR 0x0A]] sse_default =
     Inr ([''[DONE]'' @ [CHR 0x0D]], sse_default)"
  "sse_feed [''data: x'' @ [CHR 0x0D, CHR 0x0A, CHR 0x0D], [CHR 0x0A]] sse_default =
     Inr ([], sse_default\<lparr>sp_data := [''x'']\<rparr>)"
  by code_simp+

end
