(* ===== verification/Router.thy ===== *)
theory Router
  imports Sse Disclosure Tool_Schemas
begin

text \<open>
  The hosted router of \<open>mesh_agent/src/provider.rs\<close>: the client built from a profile, the names of
  the tools on the wire, the body of a request, and the stream of the answer up to the tool calls
  that are handed on. The HTTP library, the URL parser and the environment are parameters; what
  arrives while the client waits is a list of arrivals, among them the two ways in which the loop of
  \<open>stream\<close> gives up on the future it polls.
\<close>

section \<open>What the client relies on\<close>

record http_post =
  po_url :: string
  po_bearer :: string
  po_body :: string
  po_request_id :: "string option"

datatype arrival = Bytes string | Connection_Lost | Caller_Cancelled | Deadline_Passed

datatype http_reply =
    Send_Failed string | Send_Cancelled | Send_Deadline | Replied nat "arrival list"

record hosted =
  ho_var :: "string \<Rightarrow> string option"
  ho_certificate :: "string \<Rightarrow> bool"
  ho_client :: "string option \<Rightarrow> string + unit"
  ho_url :: "string \<Rightarrow> string + (string \<times> string option)"
  ho_runtime :: "string option"
  ho_send :: "http_post \<Rightarrow> http_reply"

section \<open>The client\<close>

record router_provider =
  ro_profile :: agent_profile
  ro_api_key :: string
  ro_request_id :: "string option"

definition MAX_CA_BYTES :: nat where
  "MAX_CA_BYTES = 65536"

definition loopback_certificate ::
  "hosted \<Rightarrow> path \<Rightarrow> (world, provider_error, string) io" where
  "loopback_certificate H p =
     io_bind (io_map_err (\<lambda>_. Configuration ''loopback CA certificate is unavailable'') (open_existing p)) (\<lambda>_.
     io_bind (io_map_err (\<lambda>_. Configuration ''loopback CA certificate could not be read'') (sys_read p)) (\<lambda>all.
     let pem = take (MAX_CA_BYTES + 1) all in
     if MAX_CA_BYTES < length pem then io_err (Configuration ''loopback CA certificate is too large'')
     else if \<not> ho_certificate H pem then io_err (Configuration ''loopback CA certificate is invalid'')
     else io_ret pem))"

definition router_from_profile ::
  "hosted \<Rightarrow> (profile_error \<Rightarrow> string) \<Rightarrow> agent_profile \<Rightarrow> (world, provider_error, router_provider) io" where
  "router_from_profile H profile_text p =
     io_bind (io_lift (map_err (\<lambda>e. Configuration (profile_text e)) (agent_profile_validate p ''selected''))) (\<lambda>_.
     io_bind (io_lift (ok_or (Configuration (''set the '' @ ap_api_key_env p @
        '' environment variable to enable the assistant'')) (ho_var H (ap_api_key_env p)))) (\<lambda>api_key.
     io_bind (io_lift (ensure (trim api_key \<noteq> []) (Configuration (ap_api_key_env p @ '' is empty'')))) (\<lambda>_.
     io_bind (case ap_loopback_ca_file p of
                None \<Rightarrow> io_ret None
              | Some source \<Rightarrow> io_bind (loopback_certificate H source) (\<lambda>pem. io_ret (Some pem))) (\<lambda>certificate.
     io_bind (io_lift (map_err Configuration (ho_client H certificate))) (\<lambda>_.
     io_ret \<lparr>ro_profile = p, ro_api_key = api_key, ro_request_id = None\<rparr>)))))"

definition drop_last_slashes :: "string \<Rightarrow> string" where
  "drop_last_slashes s = rev (dropWhile (\<lambda>c. c = CHR ''/'') (rev s))"

definition endpoint :: "hosted \<Rightarrow> router_provider \<Rightarrow> provider_error + string" where
  "endpoint H r =
     (let url = drop_last_slashes (ap_base_url (ro_profile r)) @ ''/chat/completions'' in
      case ho_url H url of
        Inl e \<Rightarrow> Inl (Configuration e)
      | Inr (scheme, host) \<Rightarrow>
          if scheme \<noteq> ''https'' \<and> host \<noteq> Some ''127.0.0.1'' \<and> host \<noteq> Some ''localhost''
          then Inl (Configuration ''hosted router endpoint must use HTTPS'')
          else Inr url)"

section \<open>Names on the wire\<close>

record router_tool_names =
  tn_to_wire :: "(string, string) btree"
  tn_to_local :: "(string, string) btree"

definition wire_byte :: "char \<Rightarrow> bool" where
  "wire_byte c = (is_ascii_alphanumeric c \<or> c = CHR ''_'' \<or> c = CHR ''-'')"

definition NAMES_ERROR :: string where
  "NAMES_ERROR = ''tool names must map to distinct router function names of 1'' @ [CHR 0xE2, CHR 0x80, CHR 0x93] @
     ''64 ASCII letters, digits, underscores, or dashes''"

fun tool_names_from :: "router_tool_names \<Rightarrow> tool_schema list \<Rightarrow> provider_error + router_tool_names" where
  "tool_names_from names [] = Inr names"
| "tool_names_from names (tool # tools) =
     (let wire = replace_str ''.'' ''__'' (ts_name tool) in
      if wire = [] \<or> 64 < length wire \<or> \<not> list_all wire_byte wire \<or> bt_get (tn_to_local names) wire \<noteq> None
      then Inl (Configuration NAMES_ERROR)
      else
        tool_names_from
          \<lparr>tn_to_wire = bt_insert (ts_name tool) wire (tn_to_wire names),
           tn_to_local = bt_insert wire (ts_name tool) (tn_to_local names)\<rparr> tools)"

definition router_tool_names_new :: "tool_schema list \<Rightarrow> provider_error + router_tool_names" where
  "router_tool_names_new tools = tool_names_from \<lparr>tn_to_wire = [], tn_to_local = []\<rparr> tools"

definition wire_name :: "router_tool_names \<Rightarrow> string \<Rightarrow> provider_error + string" where
  "wire_name names local =
     ok_or (Protocol ''tool history contains a tool outside the request schema'') (bt_get (tn_to_wire names) local)"

definition local_name :: "router_tool_names \<Rightarrow> string \<Rightarrow> provider_error + string" where
  "local_name names wire =
     ok_or (Protocol ''provider returned a tool outside the request schema'') (bt_get (tn_to_local names) wire)"

definition wire_schema :: "router_tool_names \<Rightarrow> tool_schema \<Rightarrow> provider_error + json" where
  "wire_schema names tool =
     and_then (wire_name names (ts_name tool)) (\<lambda>name.
     Inr (json_object
       [(''type'', JStr ''function''),
        (''function'', json_object
          [(''name'', JStr name), (''description'', JStr (ts_description tool)),
           (''parameters'', ts_parameters tool)])]))"

definition wire_schemas :: "router_tool_names \<Rightarrow> tool_schema list \<Rightarrow> provider_error + json list" where
  "wire_schemas names tools = traverse (wire_schema names) tools"

text \<open>The arguments of a call are a JSON string on the wire.\<close>

definition wire_call :: "ext \<Rightarrow> router_tool_names \<Rightarrow> provider_tool_call \<Rightarrow> provider_error + json" where
  "wire_call E names call =
     and_then (wire_name names (ca_name call)) (\<lambda>name.
     Inr (json_object
       [(''id'', JStr (ca_id call)), (''type'', JStr ''function''),
        (''function'', json_object
          [(''name'', JStr name), (''arguments'', JStr (json_print E (ca_arguments call)))])]))"

definition wire_message :: "ext \<Rightarrow> router_tool_names \<Rightarrow> model_message \<Rightarrow> provider_error + json" where
  "wire_message E names m =
     (let base = [(''role'', JStr (mm_role m)), (''content'', mm_content m)];
          with_id = base @ (case mm_tool_call_id m of None \<Rightarrow> [] | Some i \<Rightarrow> [(''tool_call_id'', JStr i)]) in
      case mm_tool_calls m of
        None \<Rightarrow> Inr (json_object with_id)
      | Some calls \<Rightarrow>
          and_then (traverse (wire_call E names) calls) (\<lambda>js.
          Inr (json_object (with_id @ [(''tool_calls'', JArr js)]))))"

definition wire_messages ::
  "ext \<Rightarrow> router_tool_names \<Rightarrow> model_message list \<Rightarrow> provider_error + json list" where
  "wire_messages E names ms = traverse (wire_message E names) ms"

section \<open>The request\<close>

definition provider_routing :: "agent_profile \<Rightarrow> json" where
  "provider_routing p =
     json_object
       ((if ap_allowed_providers p = [] then []
         else [(''only'', JArr (map JStr (ap_allowed_providers p)))]) @
        [(''allow_fallbacks'', JBool (ap_allow_provider_fallbacks p)), (''require_parameters'', JBool True)] @
        (if ap_max_input_price p = None \<and> ap_max_output_price p = None then []
         else [(''max_price'', json_object
                 [(''prompt'', ser_option ser_f64 (ap_max_input_price p)),
                  (''completion'', ser_option ser_f64 (ap_max_output_price p))])]))"

definition router_body :: "agent_profile \<Rightarrow> json list \<Rightarrow> json list \<Rightarrow> json" where
  "router_body p messages tools =
     json_object
       [(''model'', JStr (ap_model p)),
        (''max_tokens'', ser_word (ap_max_output_tokens p)),
        (''temperature'', JInt 0),
        (''reasoning'', json_object [(''enabled'', JBool (ap_reasoning_enabled p))]),
        (''messages'', JArr messages),
        (''tools'', JArr tools),
        (''tool_choice'', JStr (if tools = [] then ''none'' else ''auto'')),
        (''stream'', JBool True),
        (''stream_options'', json_object [(''include_usage'', JBool True)]),
        (''provider'', provider_routing p)]"

text \<open>What goes out for a request, and the names its answer may use.\<close>

definition router_post ::
  "ext \<Rightarrow> hosted \<Rightarrow> router_provider \<Rightarrow> model_request \<Rightarrow> provider_error + (http_post \<times> router_tool_names)" where
  "router_post E H r request =
     and_then (outbound E (ro_profile r) (Some (ro_api_key r)) request) (\<lambda>request.
     and_then (router_tool_names_new (rq_tools request)) (\<lambda>tool_names.
     and_then (wire_schemas tool_names (rq_tools request)) (\<lambda>tools.
     and_then (router_tool_names_new (if rq_tools request = [] then tool_schemas else rq_tools request)) (\<lambda>history_names.
     and_then (wire_messages E history_names (rq_messages request)) (\<lambda>messages.
     let encoded = json_print E (router_body (ro_profile r) messages tools) in
     if unat (ap_max_request_bytes (ro_profile r)) < length encoded then Inl TooLarge
     else
       and_then (endpoint H r) (\<lambda>url.
       Inr (\<lparr>po_url = url, po_bearer = ro_api_key r, po_body = encoded,
             po_request_id = (if ap_loopback_ca_file (ro_profile r) \<noteq> None then ro_request_id r else None)\<rparr>,
            tool_names)))))))"

section \<open>The answer\<close>

record partial_call =
  pc_id :: "string option"
  pc_name :: "string option"
  pc_arguments :: string

record router_state =
  rs_sent :: "http_post option"
  rs_parser :: sse_parser
  rs_calls :: "(nat, partial_call) btree"
  rs_emitted :: nat
  rs_done :: bool
  rs_finish :: "string option"
  rs_events :: "provider_event list"
  rs_polls :: nat

type_synonym 'a router = "(router_state, provider_error, 'a) io"

definition emit_event :: "provider_event \<Rightarrow> unit router" where
  "emit_event e s = (Inr (), s\<lparr>rs_events := rs_events s @ [e]\<rparr>)"

definition usage_of :: "json \<Rightarrow> json \<Rightarrow> provider_usage" where
  "usage_of frame usage =
     \<lparr>us_model = Option.bind (json_get ''model'' frame) json_str,
      us_provider = Option.bind (json_get ''provider'' frame) json_str,
      us_generation_id = Option.bind (json_get ''id'' frame) json_str,
      us_input_tokens = map_option of_nat (Option.bind (json_get ''prompt_tokens'' usage) json_u64),
      us_output_tokens = map_option of_nat (Option.bind (json_get ''completion_tokens'' usage) json_u64),
      us_cost_usd = Option.bind (json_get ''cost'' usage) json_f64\<rparr>"

definition empty_call :: partial_call where
  "empty_call = \<lparr>pc_id = None, pc_name = None, pc_arguments = []\<rparr>"

definition merge_fragment :: "json \<Rightarrow> partial_call \<Rightarrow> provider_error + partial_call" where
  "merge_fragment call c =
     and_then
       (case Option.bind (json_get ''id'' call) json_str of
          None \<Rightarrow> Inr c
        | Some i \<Rightarrow>
            if is_some_and (\<lambda>old. old \<noteq> i) (pc_id c) then Inl (Malformed ''tool call ID changed'')
            else Inr (c\<lparr>pc_id := Some i\<rparr>)) (\<lambda>c.
     and_then
       (case Option.bind (json_pointer [Key ''function'', Key ''name''] call) json_str of
          None \<Rightarrow> Inr c
        | Some n \<Rightarrow>
            if is_some_and (\<lambda>old. old \<noteq> n) (pc_name c) then Inl (Malformed ''tool name changed'')
            else Inr (c\<lparr>pc_name := Some n\<rparr>)) (\<lambda>c.
     Inr (case Option.bind (json_pointer [Key ''function'', Key ''arguments''] call) json_str of
            None \<Rightarrow> c
          | Some more_text \<Rightarrow> c\<lparr>pc_arguments := pc_arguments c @ more_text\<rparr>)))"

definition MAX_CALLS :: nat where
  "MAX_CALLS = 8"

definition add_fragment :: "json \<Rightarrow> unit router" where
  "add_fragment call s =
     (let index = (case Option.bind (json_get ''index'' call) json_u64 of Some i \<Rightarrow> i | None \<Rightarrow> 0) in
      if MAX_CALLS \<le> index then (Inl (Protocol ''too many tool calls''), s)
      else
        let c = (case bt_get (rs_calls s) index of Some c \<Rightarrow> c | None \<Rightarrow> empty_call) in
        case merge_fragment call c of
          Inl e \<Rightarrow> (Inl e, s)
        | Inr c \<Rightarrow> (Inr (), s\<lparr>rs_calls := bt_insert index c (rs_calls s)\<rparr>))"

definition process_choice :: "json \<Rightarrow> unit router" where
  "process_choice choice =
     (let delta = (case json_get ''delta'' choice of Some d \<Rightarrow> d | None \<Rightarrow> JNull) in
      io_bind (case Option.bind (json_get ''content'' delta) json_str of
                 None \<Rightarrow> io_ret () | Some content \<Rightarrow> emit_event (TextDelta content)) (\<lambda>_.
      case Option.bind (json_get ''tool_calls'' delta) json_items of
        None \<Rightarrow> io_ret () | Some calls \<Rightarrow> io_for add_fragment calls))"

definition process_router_event :: "ext \<Rightarrow> string \<Rightarrow> unit router" where
  "process_router_event E raw =
     io_bind (io_lift (map_err (\<lambda>e. Malformed (de_error_text E e)) (json_parse E raw))) (\<lambda>value.
     if json_get ''error'' value \<noteq> None then io_err (Transport ''provider reported an in-stream error'')
     else
       io_bind (case json_get ''usage'' value of
                  None \<Rightarrow> io_ret () | Some usage \<Rightarrow> emit_event (Usage (usage_of value usage))) (\<lambda>_.
       case Option.bind (json_get ''choices'' value) json_items of
         Some (choice # _) \<Rightarrow> process_choice choice
       | _ \<Rightarrow> io_ret ()))"

definition router_frame :: "ext \<Rightarrow> string \<Rightarrow> unit router" where
  "router_frame E event =
     (if event = ''[DONE]'' then (\<lambda>s. (Inr (), s\<lparr>rs_done := True\<rparr>))
      else
        io_bind (io_lift (map_err (\<lambda>_. Malformed ''invalid SSE JSON'') (json_parse E event))) (\<lambda>frame.
        io_bind (case Option.bind (json_pointer [Key ''choices'', Index 0, Key ''finish_reason''] frame) json_str of
                   None \<Rightarrow> io_ret ()
                 | Some reason \<Rightarrow> (\<lambda>s. (Inr (), s\<lparr>rs_finish := Some reason\<rparr>))) (\<lambda>_.
        process_router_event E event)))"

definition router_chunk :: "ext \<Rightarrow> agent_profile \<Rightarrow> string \<Rightarrow> unit router" where
  "router_chunk E p chunk =
     io_bind (\<lambda>s. (Inr (), s\<lparr>rs_emitted := min (2 ^ 64 - 1) (rs_emitted s + length chunk)\<rparr>)) (\<lambda>_ s.
     if unat (ap_max_response_bytes p) < rs_emitted s then (Inl TooLarge, s)
     else
       case sse_push chunk (rs_parser s) of
         Inl e \<Rightarrow> (Inl e, s)
       | Inr (events, parser) \<Rightarrow> io_for (router_frame E) events (s\<lparr>rs_parser := parser\<rparr>))"

text \<open>The loop over the body: the token is read before each chunk.\<close>

definition router_arrival :: "ext \<Rightarrow> agent_profile \<Rightarrow> cancel_token \<Rightarrow> arrival \<Rightarrow> unit router" where
  "router_arrival E p stopped a s =
     (case a of
        Caller_Cancelled \<Rightarrow> (Inl Cancelled, s)
      | Deadline_Passed \<Rightarrow> (Inl (Transport ''overall request deadline exceeded''), s)
      | _ \<Rightarrow>
          let s' = s\<lparr>rs_polls := Suc (rs_polls s)\<rparr> in
          if stopped (rs_polls s) then (Inl Cancelled, s')
          else
            case a of
              Bytes chunk \<Rightarrow> router_chunk E p chunk s'
            | _ \<Rightarrow> (Inl (Transport ''HTTP transport failure''), s'))"

definition router_finish :: "ext \<Rightarrow> unit router" where
  "router_finish E s =
     (case sse_finish (rs_parser s) of
        Inl e \<Rightarrow> (Inl e, s)
      | Inr (events, parser) \<Rightarrow>
          io_for (\<lambda>event. if event \<noteq> ''[DONE]'' then process_router_event E event else io_ret ()) events
            (s\<lparr>rs_parser := parser\<rparr>))"

fun complete_calls ::
  "ext \<Rightarrow> router_tool_names \<Rightarrow> string set \<Rightarrow> (nat \<times> partial_call) list \<Rightarrow>
   provider_error + provider_tool_call list" where
  "complete_calls E names ids [] = Inr []"
| "complete_calls E names ids ((_, call) # calls) =
     and_then (ok_or (Malformed ''tool call has no id'') (pc_id call)) (\<lambda>i.
     if i \<in> ids then Inl (Malformed ''duplicate tool call ID'')
     else
       and_then (ok_or (Malformed ''tool call has no name'') (pc_name call)) (\<lambda>wire.
       and_then (local_name names wire) (\<lambda>name.
       and_then (map_err (\<lambda>_. Malformed ''tool arguments are not complete JSON'')
         (json_parse E (pc_arguments call))) (\<lambda>arguments.
       and_then (complete_calls E names (insert i ids) calls) (\<lambda>rest.
       Inr (\<lparr>ca_id = i, ca_name = name, ca_arguments = arguments\<rparr> # rest))))))"

text \<open>Tool calls are handed on only when the whole answer is complete and valid.\<close>

definition hand_on_calls :: "ext \<Rightarrow> router_tool_names \<Rightarrow> unit router" where
  "hand_on_calls E names s =
     (if \<not> rs_done s \<or> rs_finish s \<notin> {Some ''stop'', Some ''tool_calls''}
      then (Inl (Protocol ''incomplete or truncated completion; no tool executed''), s)
      else
        io_bind (io_lift (complete_calls E names {} (rs_calls s))) (\<lambda>calls.
        io_bind (io_for (\<lambda>call. emit_event (ToolCall call)) calls) (\<lambda>_.
        emit_event Finished)) s)"

fun error_bytes :: "string \<Rightarrow> arrival list \<Rightarrow> provider_error + string" where
  "error_bytes got [] = Inr got"
| "error_bytes got (Bytes chunk # rest) =
     (if 4096 < length got + length chunk then Inr got else error_bytes (got @ chunk) rest)"
| "error_bytes got (Connection_Lost # rest) = Inr got"
| "error_bytes got (Caller_Cancelled # rest) = Inl Cancelled"
| "error_bytes got (Deadline_Passed # rest) = Inl (Transport ''overall request deadline exceeded'')"

definition status_error :: "ext \<Rightarrow> string \<Rightarrow> nat \<Rightarrow> string \<Rightarrow> provider_error" where
  "status_error E api_key status bytes =
     (let message =
        (case json_parse E bytes of
           Inl _ \<Rightarrow> []
         | Inr v \<Rightarrow>
             (case Option.bind (json_pointer [Key ''error'', Key ''message''] v) json_str of
                None \<Rightarrow> [] | Some s \<Rightarrow> redact s (Some api_key))) in
      if status = 401 \<or> status = 403 then Authentication
      else if status = 429 then RateLimited
      else Transport (''HTTP '' @ show_nat status @ '': '' @ message))"

definition router_answer ::
  "ext \<Rightarrow> router_provider \<Rightarrow> cancel_token \<Rightarrow> router_tool_names \<Rightarrow> http_reply \<Rightarrow> unit router" where
  "router_answer E r stopped names reply =
     (case reply of
        Send_Failed e \<Rightarrow> io_err (Transport (''HTTP request failed: '' @ e))
      | Send_Cancelled \<Rightarrow> io_err Cancelled
      | Send_Deadline \<Rightarrow> io_err (Transport ''overall request deadline exceeded'')
      | Replied status arrivals \<Rightarrow>
          if status < 200 \<or> 300 \<le> status then
            io_bind (io_lift (error_bytes [] arrivals)) (\<lambda>bytes.
            io_err (status_error E (ro_api_key r) status bytes))
          else
            io_bind (io_for (router_arrival E (ro_profile r) stopped) arrivals) (\<lambda>_.
            io_bind (router_finish E) (\<lambda>_.
            hand_on_calls E names)))"

definition stream_async ::
  "ext \<Rightarrow> hosted \<Rightarrow> router_provider \<Rightarrow> model_request \<Rightarrow> cancel_token \<Rightarrow> unit router" where
  "stream_async E H r request stopped =
     io_bind (io_lift (router_post E H r request)) (\<lambda>(post, names).
     io_bind (\<lambda>s. (Inr (), s\<lparr>rs_sent := Some post\<rparr>)) (\<lambda>_.
     router_answer E r stopped names (ho_send H post)))"

definition router_start :: router_state where
  "router_start =
     \<lparr>rs_sent = None, rs_parser = sse_default, rs_calls = [], rs_emitted = 0, rs_done = False,
      rs_finish = None, rs_events = [], rs_polls = 1\<rparr>"

definition router_stream ::
  "ext \<Rightarrow> hosted \<Rightarrow> model_request \<Rightarrow> cancel_token \<Rightarrow> router_provider \<Rightarrow> stream_outcome \<times> router_provider" where
  "router_stream E H request stopped r =
     (case ho_runtime H of
        Some e \<Rightarrow> (refuse 0 (Transport e), r)
      | None \<Rightarrow>
          if stopped 0 then (refuse 1 Cancelled, r)
          else
            case stream_async E H r request stopped router_start of
              (result, s) \<Rightarrow> (\<lparr>so_events = rs_events s, so_result = result, so_polls = rs_polls s\<rparr>, r))"

definition router_model_provider :: "ext \<Rightarrow> hosted \<Rightarrow> router_provider model_provider" where
  "router_model_provider E H =
     \<lparr>op_set_request_timeout =
        (\<lambda>nanos r. r\<lparr>ro_profile := (ro_profile r)\<lparr>ap_max_request_seconds := of_nat (max 1 (nanos div 1000000000))\<rparr>\<rparr>),
      op_set_request_id = (\<lambda>i r. r\<lparr>ro_request_id := i\<rparr>),
      op_stream = router_stream E H\<rparr>"

section \<open>The provider of a session\<close>

datatype session_provider = Session_Router router_provider | Session_Replay replay_provider

definition session_stream ::
  "ext \<Rightarrow> hosted \<Rightarrow> model_request \<Rightarrow> cancel_token \<Rightarrow> session_provider \<Rightarrow> stream_outcome \<times> session_provider" where
  "session_stream E H request stopped p =
     (case p of
        Session_Router r \<Rightarrow> map_prod id Session_Router (router_stream E H request stopped r)
      | Session_Replay q \<Rightarrow> map_prod id Session_Replay (replay_stream E request stopped q))"

definition session_model_provider :: "ext \<Rightarrow> hosted \<Rightarrow> session_provider model_provider" where
  "session_model_provider E H =
     \<lparr>op_set_request_timeout = (\<lambda>nanos p.
        case p of
          Session_Router r \<Rightarrow> Session_Router (op_set_request_timeout (router_model_provider E H) nanos r)
        | Session_Replay q \<Rightarrow> p),
      op_set_request_id = (\<lambda>i p.
        case p of
          Session_Router r \<Rightarrow> Session_Router (op_set_request_id (router_model_provider E H) i r)
        | Session_Replay q \<Rightarrow> p),
      op_stream = session_stream E H\<rparr>"

end
