(* ===== verification/Router_Proofs.thy ===== *)
theory Router_Proofs
  imports Router Disclosure_Proofs
begin

text \<open>
  The hosted router: the names on the wire are a bijection with the names of the tools, and a tool
  call reaches the session only from an answer that is complete and valid as a whole.
\<close>

section \<open>Names\<close>

definition names_ok :: "string set \<Rightarrow> router_tool_names \<Rightarrow> bool" where
  "names_ok known names \<longleftrightarrow>
     bt_wf (tn_to_wire names) \<and> bt_wf (tn_to_local names) \<and> dom (bt_get (tn_to_wire names)) = known \<and>
     (\<forall>n w. bt_get (tn_to_wire names) n = Some w \<longleftrightarrow> bt_get (tn_to_local names) w = Some n) \<and>
     (\<forall>n w. bt_get (tn_to_wire names) n = Some w \<longrightarrow>
        w = replace_str ''.'' ''__'' n \<and> w \<noteq> [] \<and> length w \<le> 64 \<and> list_all wire_byte w)"

lemma names_ok_insert:
  assumes "names_ok known names" and w: "w = replace_str ''.'' ''__'' n" "w \<noteq> []" "length w \<le> 64" "list_all wire_byte w"
    and fresh: "bt_get (tn_to_local names) w = None"
  shows "names_ok (insert n known)
    \<lparr>tn_to_wire = bt_insert n w (tn_to_wire names), tn_to_local = bt_insert w n (tn_to_local names)\<rparr>"
proof -
  have new: "bt_get (tn_to_wire names) n = None"
  proof (rule ccontr)
    assume "bt_get (tn_to_wire names) n \<noteq> None"
    then obtain v where "bt_get (tn_to_wire names) n = Some v" by auto
    with assms(1) w(1) have "bt_get (tn_to_local names) w = Some n" by (auto simp: names_ok_def)
    with fresh show False by simp
  qed
  have other: "bt_get (tn_to_local names) v \<noteq> Some n" "bt_get (tn_to_wire names) k \<noteq> Some w" for v k
    using new fresh assms(1) unfolding names_ok_def by (metis option.distinct(1))+
  show ?thesis
    unfolding names_ok_def
  proof (intro conjI)
    show "\<forall>k v. bt_get (tn_to_wire \<lparr>tn_to_wire = bt_insert n w (tn_to_wire names),
             tn_to_local = bt_insert w n (tn_to_local names)\<rparr>) k = Some v \<longleftrightarrow>
           bt_get (tn_to_local \<lparr>tn_to_wire = bt_insert n w (tn_to_wire names),
             tn_to_local = bt_insert w n (tn_to_local names)\<rparr>) v = Some k"
      using assms(1) other by (auto simp: names_ok_def)
  qed (use assms in \<open>auto simp: names_ok_def\<close>)
qed

lemma tool_names_from_ok:
  "tool_names_from names tools = Inr names' \<Longrightarrow> names_ok known names \<Longrightarrow>
   names_ok (known \<union> ts_name ` set tools) names'"
proof (induction tools arbitrary: names known)
  case (Cons tool tools)
  let ?n = "ts_name tool" and ?w = "replace_str ''.'' ''__'' (ts_name tool)"
  let ?names = "\<lparr>tn_to_wire = bt_insert ?n ?w (tn_to_wire names), tn_to_local = bt_insert ?w ?n (tn_to_local names)\<rparr>"
  from Cons.prems(1) have w: "?w \<noteq> []" "length ?w \<le> 64" "list_all wire_byte ?w" "bt_get (tn_to_local names) ?w = None"
    and rest: "tool_names_from ?names tools = Inr names'"
    by (simp_all add: Let_def split: if_splits)
  from Cons.IH [OF rest names_ok_insert [OF Cons.prems(2) refl w]] show ?case by simp
qed simp

lemma router_tool_names_ok:
  "router_tool_names_new tools = Inr names \<Longrightarrow> names_ok (ts_name ` set tools) names"
  using tool_names_from_ok [of "\<lparr>tn_to_wire = [], tn_to_local = []\<rparr>" tools names "{}"]
  by (simp add: router_tool_names_new_def names_ok_def)

lemma local_name_advertised:
  "router_tool_names_new tools = Inr names \<Longrightarrow> local_name names w = Inr n \<Longrightarrow> n \<in> ts_name ` set tools"
  using router_tool_names_ok [of tools names] by (fastforce simp: local_name_def names_ok_def)

lemma wire_schemas_total:
  assumes "router_tool_names_new tools = Inr names"
  shows "\<exists>js. wire_schemas names tools = Inr js"
proof -
  have "\<exists>js. traverse (wire_schema names) ts = Inr js" if "set ts \<subseteq> set tools" for ts
    using that
  proof (induction ts)
    case (Cons t ts)
    moreover have "ts_name t \<in> dom (bt_get (tn_to_wire names))"
      using router_tool_names_ok [OF assms] Cons.prems unfolding names_ok_def by (metis image_eqI list.set_intros(1) subsetD)
    then have "bt_get (tn_to_wire names) (ts_name t) \<noteq> None" by blast
    ultimately show ?case by (auto simp: wire_schema_def wire_name_def)
  qed simp
  then show ?thesis by (simp add: wire_schemas_def)
qed

section \<open>The answer\<close>

text \<open>Until the end of the answer nothing is handed on as a call, and at most eight are collected.\<close>

definition collecting :: "router_state \<Rightarrow> bool" where
  "collecting s \<longleftrightarrow>
     (\<forall>c. ToolCall c \<notin> set (rs_events s)) \<and> bt_wf (rs_calls s) \<and> fst ` set (rs_calls s) \<subseteq> {..<MAX_CALLS}"

lemma keeps_collecting [keeps_rules]:
  "(\<And>c. e \<noteq> ToolCall c) \<Longrightarrow> keeps collecting (emit_event e)"
  "keeps collecting (add_fragment call)"
  "keeps collecting (\<lambda>s. (Inr (), s\<lparr>rs_done := d\<rparr>))"
  "keeps collecting (\<lambda>s. (Inr (), s\<lparr>rs_finish := f\<rparr>))"
  by (auto simp: keeps_def collecting_def emit_event_def add_fragment_def Let_def fst_set_bt_insert
      split: sum.splits)

lemma keeps_process_router_event [keeps_rules]: "keeps collecting (process_router_event E raw)"
  unfolding process_router_event_def process_choice_def Let_def
  by (intro keeps_rules | simp split: list.splits | intro conjI allI impI)+

lemma keeps_router_frame [keeps_rules]: "keeps collecting (router_frame E event)"
  unfolding router_frame_def by (intro keeps_rules)

lemma collecting_frames:
  "collecting s \<Longrightarrow> collecting (snd (io_for (router_frame E) events s))"
proof -
  have "keeps collecting (io_for (router_frame E) events)"
    by (rule keeps_for) (rule keeps_router_frame)
  then show "collecting s \<Longrightarrow> collecting (snd (io_for (router_frame E) events s))" by (simp add: keeps_def)
qed

lemma keeps_router_arrival [keeps_rules]: "keeps collecting (router_arrival E p stopped a)"
proof -
  have chunk: "collecting (snd (router_chunk E p c s))" if "collecting s" for c s
    using that collecting_frames [of "s\<lparr>rs_emitted := x, rs_parser := y\<rparr>" E for x y]
    by (auto simp: router_chunk_def io_bind_def collecting_def split: sum.splits prod.splits)
  show ?thesis
    unfolding keeps_def
  proof (intro allI impI)
    fix s
    assume "collecting s"
    then show "collecting (snd (router_arrival E p stopped a s))"
      using chunk [of "s\<lparr>rs_polls := Suc (rs_polls s)\<rparr>"]
      by (cases a) (auto simp: router_arrival_def Let_def collecting_def)
  qed
qed

lemma keeps_router_finish [keeps_rules]: "keeps collecting (router_finish E)"
proof -
  have "collecting (snd (router_finish E s))" if "collecting s" for s
    using that
    by (auto simp: router_finish_def sse_finish_def process_line_def collecting_def io_ret_def split: option.splits)
  then show ?thesis by (simp add: keeps_def)
qed

lemma complete_calls_ok:
  assumes "complete_calls E names ids calls = Inr cs"
  shows "length cs = length calls" "ca_id ` set cs \<inter> ids = {}" "distinct (map ca_id cs)"
    "c \<in> set cs \<Longrightarrow> \<exists>wire. local_name names wire = Inr (ca_name c)"
  using assms
  by (induction E names ids calls arbitrary: cs rule: complete_calls.induct)
     (fastforce simp: and_then_eq_Inr split: if_splits)+

lemma emit_calls:
  "io_for (\<lambda>call. emit_event (ToolCall call)) calls s =
     (Inr (), s\<lparr>rs_events := rs_events s @ map ToolCall calls\<rparr>)"
  by (induction calls arbitrary: s) (simp_all add: io_ret_def io_bind_def emit_event_def)

lemma keys_below:
  assumes "bt_wf (m :: (nat, 'v) btree)" "fst ` set m \<subseteq> {..<n}"
  shows "length m \<le> n"
proof -
  have "distinct (map fst m)" using assms(1) by (simp add: bt_wf_def strict_sorted_iff)
  then have "length m = card (fst ` set m)" by (metis distinct_card length_map set_map)
  with card_mono [OF _ assms(2)] show ?thesis by simp
qed

definition handed_on :: "router_tool_names \<Rightarrow> provider_error + unit \<Rightarrow> provider_event list \<Rightarrow> bool" where
  "handed_on names result events \<longleftrightarrow>
     (case result of
        Inl _ \<Rightarrow> \<forall>c. ToolCall c \<notin> set events
      | Inr _ \<Rightarrow>
          \<exists>front calls. events = front @ map ToolCall calls @ [Finished] \<and>
            (\<forall>c. ToolCall c \<notin> set front) \<and> length calls \<le> MAX_CALLS \<and> distinct (map ca_id calls) \<and>
            (\<forall>c \<in> set calls. \<exists>wire. local_name names wire = Inr (ca_name c)))"

lemma hand_on_calls_ok:
  assumes "collecting s" "hand_on_calls E names s = (result, s')"
  shows "handed_on names result (rs_events s')"
proof (cases "rs_done s \<and> rs_finish s \<in> {Some ''stop'', Some ''tool_calls''}")
  case False
  then show ?thesis using assms by (auto simp: hand_on_calls_def handed_on_def collecting_def)
next
  case complete: True
  show ?thesis
  proof (cases "complete_calls E names {} (rs_calls s)")
    case (Inl e)
    then show ?thesis using complete assms
      by (auto simp: hand_on_calls_def handed_on_def collecting_def io_bind_def io_lift_def)
  next
    case (Inr calls)
    then have "result = Inr ()" "rs_events s' = rs_events s @ map ToolCall calls @ [Finished]"
      using complete assms(2)
      by (auto simp: hand_on_calls_def io_bind_def io_lift_def emit_calls emit_event_def)
    moreover have "length calls \<le> MAX_CALLS"
      using keys_below [of "rs_calls s"] complete_calls_ok(1) [OF Inr] assms(1) by (simp add: collecting_def)
    ultimately show ?thesis
      using complete_calls_ok(3,4) [OF Inr] assms(1) unfolding handed_on_def collecting_def by auto
  qed
qed

lemma router_answer_ok:
  assumes "collecting s" "router_answer E r stopped names reply s = (result, s')"
  shows "handed_on names result (rs_events s')"
proof (cases reply)
  case (Replied status arrivals)
  show ?thesis
  proof (cases "status < 200 \<or> 300 \<le> status")
    case True
    then have "collecting s'" "\<exists>e. result = Inl e"
      using assms Replied
      by (auto simp: router_answer_def io_bind_def io_lift_def io_err_def split: sum.splits)
    then show ?thesis by (auto simp: handed_on_def collecting_def)
  next
    case False
    let ?read = "io_bind (io_for (router_arrival E (ro_profile r) stopped) arrivals) (\<lambda>_. router_finish E)"
    obtain x t where t: "?read s = (x, t)" by fastforce
    have "keeps collecting ?read" by (intro keeps_rules)
    with assms(1) t have "collecting t" by (metis keepsD)
    moreover have "io_bind ?read (\<lambda>_. hand_on_calls E names) s = (result, s')"
      using assms(2) Replied False by (simp add: router_answer_def io_bind_assoc)
    ultimately show ?thesis
      using t hand_on_calls_ok [of t E names result s']
      by (cases x) (auto simp: io_bind_def handed_on_def collecting_def)
  qed
qed (use assms in \<open>auto simp: router_answer_def io_err_def handed_on_def collecting_def\<close>)

section \<open>Properties\<close>

text \<open>The names on the wire are those of the tools and back: every tool of a request has a wire
  name of 1 to 64 admitted bytes that leads back to it, every wire name leads to a tool of the
  request whose wire name it is, and the schemas of the request can always be written.\<close>

theorem tool_names_round_trip:
  assumes "router_tool_names_new tools = Inr names"
  shows "(\<forall>tool. tool \<in> set tools \<longrightarrow> (\<exists>wire. wire_name names (ts_name tool) = Inr wire \<and>
            local_name names wire = Inr (ts_name tool) \<and>
            wire \<noteq> [] \<and> length wire \<le> 64 \<and> list_all wire_byte wire)) \<and>
         (\<forall>wire n. local_name names wire = Inr n \<longrightarrow> n \<in> ts_name ` set tools \<and> wire_name names n = Inr wire) \<and>
         (\<exists>js. wire_schemas names tools = Inr js)"
proof (intro conjI allI impI)
  note ok = router_tool_names_ok [OF assms]
  fix tool
  assume "tool \<in> set tools"
  then have "ts_name tool \<in> dom (bt_get (tn_to_wire names))" using ok unfolding names_ok_def by blast
  then obtain w where w: "bt_get (tn_to_wire names) (ts_name tool) = Some w" by blast
  then have "bt_get (tn_to_local names) w = Some (ts_name tool)" "w \<noteq> [] \<and> length w \<le> 64 \<and> list_all wire_byte w"
    using ok unfolding names_ok_def by blast+
  with w show "\<exists>wire. wire_name names (ts_name tool) = Inr wire \<and> local_name names wire = Inr (ts_name tool) \<and>
      wire \<noteq> [] \<and> length wire \<le> 64 \<and> list_all wire_byte wire"
    by (auto simp: wire_name_def local_name_def)
next
  fix wire n
  assume "local_name names wire = Inr n"
  then show "n \<in> ts_name ` set tools" "wire_name names n = Inr wire"
    using router_tool_names_ok [OF assms] local_name_advertised [OF assms]
    by (auto simp: names_ok_def wire_name_def local_name_def)
qed (rule wire_schemas_total [OF assms])

definition demo_tools :: "tool_schema list" where
  "demo_tools = [\<lparr>ts_name = ''help.lookup'', ts_description = ''h'', ts_parameters = JNull\<rparr>,
                 \<lparr>ts_name = ''product.stage'', ts_description = ''s'', ts_parameters = JNull\<rparr>]"

theorem tool_names_round_trip_witness:
  "\<exists>names. router_tool_names_new demo_tools = Inr names \<and>
     local_name names ''product__stage'' = Inr ''product.stage'' \<and>
     wire_name names ''product.stage'' = Inr ''product__stage''"
proof -
  have "case router_tool_names_new demo_tools of
      Inr names \<Rightarrow> local_name names ''product__stage'' = Inr ''product.stage'' | Inl _ \<Rightarrow> False"
    by code_simp
  then obtain names where "router_tool_names_new demo_tools = Inr names"
    "local_name names ''product__stage'' = Inr ''product.stage''" by (auto split: sum.splits)
  with tool_names_round_trip [of demo_tools names] show ?thesis by blast
qed


definition demo_frame :: json where
  "demo_frame = JObj [(''choices'', JArr [JObj
     [(''delta'', JObj [(''tool_calls'', JArr [JObj
        [(''function'', JObj [(''arguments'', JStr ''A''), (''name'', JStr ''help__lookup'')]),
         (''id'', JStr ''c1''), (''index'', JInt 0)]])]),
      (''finish_reason'', JStr ''tool_calls'')]])]"

definition demo_router_ext :: ext where
  "demo_router_ext = demo_ext\<lparr>json_print := (\<lambda>_. ''{}''),
     json_parse := (\<lambda>s. if s = ''T'' then Inr demo_frame else if s = ''A'' then Inr JNull else Inl (Syntax s))\<rparr>"

definition demo_hosted :: hosted where
  "demo_hosted =
     \<lparr>ho_var = (\<lambda>_. Some ''key''), ho_certificate = (\<lambda>_. True), ho_client = (\<lambda>_. Inr ()),
      ho_url = (\<lambda>_. Inr (''https'', Some ''r'')), ho_runtime = None,
      ho_send = (\<lambda>_. Replied 200 [Bytes (''data: T'' @ [CHR 0x0A]), Bytes ([CHR 0x0A] @ ''data: [DONE]'' @ [CHR 0x0A, CHR 0x0A])])\<rparr>"

definition demo_router :: router_provider where
  "demo_router = \<lparr>ro_profile = demo_profile, ro_api_key = ''key'', ro_request_id = None\<rparr>"


end
