(* ===== verification/Stac.thy ===== *)
theory Stac
  imports Catalog Json_Value
begin

text \<open>
  \<open>mesh_core/src/stac.rs\<close>: the STAC view of registered raster versions. Items are built from what
  \<open>resolve\<close> returns now, collections from the items, and a search filters the items. An \<open>expect\<close> or
  an index that may fail is a branch of its own, \<open>Panicked\<close>.
\<close>

definition STAC_VERSION :: string where
  "STAC_VERSION = ''1.1.0''"

definition CONFORMANCE_CLASSES :: "string list" where
  "CONFORMANCE_CLASSES =
     [''https://api.stacspec.org/v1.0.0/core'',
      ''https://api.stacspec.org/v1.0.0/collections'',
      ''https://api.stacspec.org/v1.0.0/ogcapi-features'',
      ''https://api.stacspec.org/v1.0.0/item-search'',
      ''http://www.opengis.net/spec/ogcapi-features-1/1.0/conf/core'',
      ''http://www.opengis.net/spec/ogcapi-features-1/1.0/conf/geojson'']"

type_synonym box = "f64 \<times> f64 \<times> f64 \<times> f64"

record stac_item =
  si_id :: string
  si_collection_id :: string
  si_namespace :: string
  si_product_id :: string
  si_version :: string
  si_manifest_revision :: "64 word"
  si_bbox :: box
  si_start :: int
  si_end :: int
  si_value :: json

definition collection_id :: "string \<Rightarrow> string \<Rightarrow> string" where
  "collection_id ns product_id = ns @ ''--'' @ product_id"

definition item_id :: "string \<Rightarrow> string \<Rightarrow> string \<Rightarrow> string" where
  "item_id ns product_id version = ns @ ''--'' @ product_id @ ''--'' @ version"

section \<open>File URIs\<close>

definition uri_byte :: "char \<Rightarrow> bool" where
  "uri_byte c = (is_ascii_alphanumeric c \<or> c \<in> {CHR ''-'', CHR ''.'', CHR ''_'', CHR ''~'', CHR ''/''})"

definition upper_digit :: "nat \<Rightarrow> char" where
  "upper_digit d = (if d < 10 then char_of (48 + d) else char_of (55 + d))"

definition encode_byte :: "char \<Rightarrow> string" where
  "encode_byte c =
     (if uri_byte c then [c] else [CHR ''%'', upper_digit (of_char c div 16), upper_digit (of_char c mod 16)])"

definition file_uri :: "path \<Rightarrow> string" where
  "file_uri p = ''file://'' @ concat (map encode_byte p)"

definition invalid_field :: "string \<Rightarrow> string \<Rightarrow> peer_error" where
  "invalid_field f message = Validation f message"

fun uri_bytes :: "string \<Rightarrow> string peer_result" where
  "uri_bytes [] = Inr []"
| "uri_bytes (c # s) =
     (if c = CHR ''%'' then
        (case s of
           a # b # t \<Rightarrow>
             and_then (ok_or (invalid_field ''asset.href'' ''contains an invalid percent escape'') (hex_digit_value a)) (\<lambda>high.
             and_then (ok_or (invalid_field ''asset.href'' ''contains an invalid percent escape'') (hex_digit_value b)) (\<lambda>low.
             map_ok ((#) (char_of (high * 16 + low))) (uri_bytes t)))
         | _ \<Rightarrow> Inl (invalid_field ''asset.href'' ''contains an incomplete percent escape''))
      else map_ok ((#) c) (uri_bytes s))"

definition path_from_file_uri :: "ext \<Rightarrow> string \<Rightarrow> path peer_result" where
  "path_from_file_uri E uri =
     and_then (ok_or (invalid_field ''asset.href'' ''must be a file URI'') (strip_prefix ''file://'' uri)) (\<lambda>encoded.
     and_then (uri_bytes encoded) (\<lambda>bytes.
     and_then (ensure (utf8_valid E bytes) (invalid_field ''asset.href'' ''is not UTF-8'')) (\<lambda>_.
     if is_absolute bytes then Inr bytes
     else Inl (invalid_field ''asset.href'' ''must contain an absolute local path''))))"

section \<open>Validation of an item\<close>

definition required_string :: "json \<Rightarrow> string \<Rightarrow> unit peer_result" where
  "required_string item k =
     ensure (is_some_and (\<lambda>s. s \<noteq> []) (Option.bind (json_get k item) json_str)) (invalid_field k ''is required'')"

definition time_field_ok :: "json \<Rightarrow> string \<Rightarrow> unit peer_result" where
  "time_field_ok properties k =
     ensure (is_none_or (\<lambda>v. v = JNull \<or> json_str v \<noteq> None) (json_get k properties))
       (invalid_field k ''must be an RFC 3339 string'')"

definition is_object :: "json \<Rightarrow> bool" where
  "is_object j = (case j of JObj _ \<Rightarrow> True | _ \<Rightarrow> False)"

definition validate_item :: "ext \<Rightarrow> json \<Rightarrow> unit peer_result" where
  "validate_item E item =
     and_then (ensure (is_object item) (invalid_field ''item'' ''must be an object'')) (\<lambda>_.
     and_then (required_string item ''stac_version'') (\<lambda>_.
     and_then (ensure (Option.bind (json_get ''stac_version'' item) json_str = Some STAC_VERSION)
                 (invalid_field ''stac_version'' ''must be 1.1.0'')) (\<lambda>_.
     and_then (ensure (Option.bind (json_get ''type'' item) json_str = Some ''Feature'')
                 (invalid_field ''type'' ''must be Feature'')) (\<lambda>_.
     and_then (required_string item ''id'') (\<lambda>_.
     and_then (required_string item ''collection'') (\<lambda>_.
     and_then (ensure (is_some_and (\<lambda>js. length js = 4) (Option.bind (json_get ''bbox'' item) json_items))
                 (invalid_field ''bbox'' ''must contain four coordinates'')) (\<lambda>_.
     and_then (case json_get ''properties'' item of
                 Some (JObj kvs) \<Rightarrow> Inr (JObj kvs)
               | _ \<Rightarrow> Inl (invalid_field ''properties'' ''must be an object'')) (\<lambda>properties.
     and_then (ensure (json_get ''datetime'' properties \<noteq> None)
                 (invalid_field ''datetime'' ''is required, including null for intervals'')) (\<lambda>_.
     and_then (check_all (time_field_ok properties) [''datetime'', ''start_datetime'', ''end_datetime'']) (\<lambda>_.
     and_then (raster_time_bounds E
                 (Option.bind (json_get ''datetime'' properties) json_str)
                 (Option.bind (json_get ''start_datetime'' properties) json_str)
                 (Option.bind (json_get ''end_datetime'' properties) json_str)) (\<lambda>_.
     and_then (ensure (Option.bind (json_pointer [Key ''geometry'', Key ''type''] item) json_str = Some ''Polygon'')
                 (invalid_field ''geometry'' ''must be a polygon'')) (\<lambda>_.
     case json_get ''assets'' item of
       Some (JObj (_ # _)) \<Rightarrow> Inr ()
     | _ \<Rightarrow> Inl (invalid_field ''assets'' ''must contain a registered asset'')))))))))))))"

section \<open>Items\<close>

definition asset_value :: "resolved_product \<Rightarrow> resolved_asset \<Rightarrow> json" where
  "asset_value r a =
     json_object
       [(''href'', JStr (file_uri (ra_project_access_path a))),
        (''type'', JStr (ra_media_type a)),
        (''roles'', JArr [JStr (ra_role a)]),
        (''title'', JStr (ra_id a)),
        (''feam:asset_id'', JStr (ra_id a)),
        (''feam:product'', JStr (reference (rs_namespace r) (rs_product_id r))),
        (''feam:version'', JStr (rs_version r))]"

definition epsg_code :: "string option \<Rightarrow> nat option" where
  "epsg_code crs =
     Option.bind (Option.bind crs (strip_prefix ''EPSG:'')) (parse_unsigned (2 ^ 16))"

definition polygon :: "box \<Rightarrow> json" where
  "polygon b =
     (case b of (w, s, e, n) \<Rightarrow>
        let corner = (\<lambda>x y. JArr [ser_f64 x, ser_f64 y]) in
        json_object
          [(''type'', JStr ''Polygon''),
           (''coordinates'', JArr [JArr [corner w s, corner e s, corner e n, corner w n, corner w s]])])"

definition item_properties :: "resolved_product \<Rightarrow> raster_descriptor \<Rightarrow> 64 word \<Rightarrow> json" where
  "item_properties r d revision =
     json_object
       ([(''datetime'', ser_option JStr (rd_datetime d)),
         (''proj:shape'', JArr [ser_word (rd_height d), ser_word (rd_width d)]),
         (''proj:epsg'', ser_option (\<lambda>n. JInt (int n)) (epsg_code (rd_crs d))),
         (''feam:native_crs'', ser_option JStr (rd_crs d)),
         (''raster:bands'', JArr [json_object
            [(''data_type'', JStr (rd_color_type d)), (''nodata'', ser_option JStr (rd_nodata d))]]),
         (''feam:namespace'', JStr (rs_namespace r)),
         (''feam:product_id'', JStr (rs_product_id r)),
         (''feam:version'', JStr (rs_version r)),
         (''feam:manifest_revision'', ser_word revision),
         (''feam:owner_team'', JStr (rs_owner_team r)),
         (''feam:producer'', JStr (rs_producer r)),
         (''feam:usage_policy'', JStr (rs_usage_policy r)),
         (''feam:lineage'', to_value (ser_list ser_lineage_reference (rs_lineage r)))] @
        (if rd_datetime d = None
         then [(''start_datetime'', ser_option JStr (rd_start_datetime d)),
               (''end_datetime'', ser_option JStr (rd_end_datetime d))]
         else []))"

definition item_value :: "resolved_product \<Rightarrow> raster_descriptor \<Rightarrow> 64 word \<Rightarrow> json" where
  "item_value r d revision =
     json_object
       [(''stac_version'', JStr STAC_VERSION),
        (''type'', JStr ''Feature''),
        (''id'', JStr (item_id (rs_namespace r) (rs_product_id r) (rs_version r))),
        (''collection'', JStr (collection_id (rs_namespace r) (rs_product_id r))),
        (''bbox'', ser_f64_4 (rd_bbox d)),
        (''geometry'', polygon (rd_bbox d)),
        (''properties'', item_properties r d revision),
        (''assets'', json_object (map (\<lambda>a. (ra_id a, asset_value r a)) (rs_assets r))),
        (''links'', JArr [])]"

definition item_from_resolved :: "ext \<Rightarrow> resolved_product \<Rightarrow> 64 word \<Rightarrow> stac_item peer_result" where
  "item_from_resolved E r revision =
     and_then (ok_or (Validation ''data_kind'' ''STAC projection requires a raster descriptor'') (rs_raster r)) (\<lambda>d.
     and_then (raster_time_bounds E (rd_datetime d) (rd_start_datetime d) (rd_end_datetime d)) (\<lambda>(start, finish).
     let item = item_value r d revision in
     and_then (validate_item E item) (\<lambda>_.
     Inr \<lparr>si_id = item_id (rs_namespace r) (rs_product_id r) (rs_version r),
          si_collection_id = collection_id (rs_namespace r) (rs_product_id r),
          si_namespace = rs_namespace r, si_product_id = rs_product_id r, si_version = rs_version r,
          si_manifest_revision = revision, si_bbox = rd_bbox d, si_start = start, si_end = finish,
          si_value = item\<rparr>)))"

definition version_items ::
  "ext \<Rightarrow> project \<Rightarrow> string \<Rightarrow> manifest_product \<Rightarrow> 64 word \<Rightarrow> published_version \<Rightarrow> stac_item list peer" where
  "version_items E p ns product revision v =
     (if pv_lifecycle v \<noteq> Active \<or> pv_data_kind v \<noteq> Raster then io_ret []
      else
        io_bind (io_try (resolve E p (reference ns (mp_id product)) (pv_version v) None False)) (\<lambda>resolved.
        case resolved of
          Inr r \<Rightarrow> io_bind (io_lift (item_from_resolved E r revision)) (\<lambda>item. io_ret [item])
        | Inl (PeerUnavailable _) \<Rightarrow> io_ret []
        | Inl (WithdrawnVersion _) \<Rightarrow> io_ret []
        | Inl e \<Rightarrow> io_err e))"

definition product_items :: "ext \<Rightarrow> project \<Rightarrow> string \<times> manifest_product \<times> 64 word \<Rightarrow> stac_item list peer" where
  "product_items E p entry =
     (case entry of (ns, product, revision) \<Rightarrow>
        io_bind (io_traverse (version_items E p ns product revision) (mp_versions product)) (\<lambda>xs.
        io_ret (concat xs)))"

definition stac_items :: "ext \<Rightarrow> project \<Rightarrow> stac_item list peer" where
  "stac_items E p =
     io_bind (list_registered E p) (\<lambda>entries.
     io_bind (io_traverse (product_items E p) entries) (\<lambda>xs.
     io_ret (sort_key si_id (concat xs))))"

section \<open>Collections\<close>

datatype stac_failure = Failed peer_error | Panicked

fun json_update :: "step list \<Rightarrow> (json \<Rightarrow> json option) \<Rightarrow> json \<Rightarrow> json option" where
  "json_update [] f j = f j"
| "json_update (Key k # ps) f j =
     (case j of
        JObj kvs \<Rightarrow>
          (case map_of kvs k of
             Some v \<Rightarrow> map_option (\<lambda>v'. JObj (set_key k v' kvs)) (json_update ps f v)
           | None \<Rightarrow> None)
      | _ \<Rightarrow> None)"
| "json_update (Index i # ps) f j =
     (case j of
        JArr js \<Rightarrow> if i < length js then map_option (\<lambda>v'. JArr (js[i := v'])) (json_update ps f (js ! i)) else None
      | _ \<Rightarrow> None)"

definition interval_at :: "nat \<Rightarrow> step list" where
  "interval_at i = [Key ''extent'', Key ''temporal'', Key ''interval'', Index 0, Index i]"

definition coordinate_at :: "nat \<Rightarrow> step list" where
  "coordinate_at i = [Key ''extent'', Key ''spatial'', Key ''bbox'', Index 0, Index i]"

definition interval_bound :: "ext \<Rightarrow> nat \<Rightarrow> json \<Rightarrow> int option" where
  "interval_bound E i j = Option.bind (Option.bind (json_pointer (interval_at i) j) json_str) (parse_rfc3339 E)"

definition merge_coordinate :: "nat \<Rightarrow> f64 \<Rightarrow> json \<Rightarrow> json option" where
  "merge_coordinate i c =
     json_update (coordinate_at i)
       (\<lambda>old. map_option (\<lambda>previous. ser_f64 (if i < 2 then f64_min previous c else f64_max previous c)) (json_f64 old))"

definition merge_extent :: "ext \<Rightarrow> stac_item \<Rightarrow> json \<Rightarrow> json option" where
  "merge_extent E item existing =
     Option.bind (interval_bound E 0 existing) (\<lambda>previous_start.
     Option.bind (interval_bound E 1 existing) (\<lambda>previous_end.
     Option.bind
       (if si_start item < previous_start
        then json_update (interval_at 0) (\<lambda>_. Some (JStr (rfc3339_auto E (si_start item)))) existing
        else Some existing) (\<lambda>j.
     Option.bind
       (if previous_end < si_end item
        then json_update (interval_at 1) (\<lambda>_. Some (JStr (rfc3339_auto E (si_end item)))) j
        else Some j) (\<lambda>j.
     case si_bbox item of (w, s, e, n) \<Rightarrow>
       Option.bind (merge_coordinate 0 w j) (\<lambda>j.
       Option.bind (merge_coordinate 1 s j) (\<lambda>j.
       Option.bind (merge_coordinate 2 e j) (merge_coordinate 3 n)))))))"

definition new_collection :: "ext \<Rightarrow> stac_item \<Rightarrow> json" where
  "new_collection E item =
     json_object
       [(''stac_version'', JStr STAC_VERSION),
        (''type'', JStr ''Collection''),
        (''id'', JStr (si_collection_id item)),
        (''title'', JStr (si_product_id item @ '' raster product'')),
        (''description'', JStr (''Registered raster product product://'' @ si_namespace item @ ''/'' @ si_product_id item)),
        (''license'', JStr ''proprietary''),
        (''extent'', json_object
           [(''spatial'', json_object [(''bbox'', JArr [ser_f64_4 (si_bbox item)])]),
            (''temporal'', json_object [(''interval'', JArr [JArr
               [JStr (rfc3339_auto E (si_start item)), JStr (rfc3339_auto E (si_end item))]])])]),
        (''links'', JArr []),
        (''summaries'', json_object
           [(''feam:namespace'', JArr [JStr (si_namespace item)]),
            (''feam:product_id'', JArr [JStr (si_product_id item)])])]"

fun collect :: "ext \<Rightarrow> stac_item list \<Rightarrow> (string, json) btree \<Rightarrow> stac_failure + (string, json) btree" where
  "collect E [] m = Inr m"
| "collect E (item # rest) m =
     (case bt_get m (si_collection_id item) of
        None \<Rightarrow> collect E rest (bt_insert (si_collection_id item) (new_collection E item) m)
      | Some existing \<Rightarrow>
          (case merge_extent E item existing of
             None \<Rightarrow> Inl Panicked
           | Some j \<Rightarrow> collect E rest (bt_insert (si_collection_id item) j m)))"

definition collections :: "ext \<Rightarrow> project \<Rightarrow> (world, stac_failure, json list) io" where
  "collections E p =
     io_bind (io_map_err Failed (stac_items E p)) (\<lambda>items.
     io_bind (io_lift (collect E items [])) (\<lambda>m. io_ret (map snd m)))"

section \<open>Search\<close>

definition intersects :: "box \<Rightarrow> box \<Rightarrow> bool" where
  "intersects b q =
     (case (b, q) of ((w, s, e, n), (qw, qs, qe, qn)) \<Rightarrow>
        f64_leq w qe \<and> f64_leq qw e \<and> f64_leq s qn \<and> f64_leq qs n)"

definition matches_datetime :: "ext \<Rightarrow> int \<Rightarrow> int \<Rightarrow> string \<Rightarrow> bool" where
  "matches_datetime E start finish q =
     (case split_once (CHR ''/'') q of
        Some (query_start, query_end) \<Rightarrow>
          (let lower = (if query_start = ''..'' then None else parse_rfc3339 E query_start);
               upper = (if query_end = ''..'' then None else parse_rfc3339 E query_end) in
           if query_start \<noteq> ''..'' \<and> lower = None \<or> query_end \<noteq> ''..'' \<and> upper = None \<or>
              (case (lower, upper) of (Some l, Some u) \<Rightarrow> u < l | _ \<Rightarrow> False)
           then False
           else is_none_or (\<lambda>l. l \<le> finish) lower \<and> is_none_or (\<lambda>u. start \<le> u) upper)
      | None \<Rightarrow> is_some_and (\<lambda>instant. start \<le> instant \<and> instant \<le> finish) (parse_rfc3339 E q))"

definition stac_search ::
  "ext \<Rightarrow> stac_item list \<Rightarrow> string option \<Rightarrow> box option \<Rightarrow> string option \<Rightarrow> stac_item list" where
  "stac_search E items collection bbox datetime =
     filter (\<lambda>item.
       is_none_or (\<lambda>c. si_collection_id item = c) collection \<and>
       is_none_or (intersects (si_bbox item)) bbox \<and>
       is_none_or (matches_datetime E (si_start item) (si_end item)) datetime) items"

end
