(* ===== verification/Stac_Http.thy ===== *)
theory Stac_Http
  imports Stac Agent_Text
begin

text \<open>
  \<open>mesh_core/src/stac_http.rs\<close>: the loopback HTTP server of the STAC view. A request is what the
  socket's \<open>read\<close> returns, one chunk after the other; an answer is a status and a JSON value. Slicing
  a string inside a character panics; as nothing catches that, \<open>Crashed\<close> ends the server.
\<close>

section \<open>Failures\<close>

datatype http_failure = Http_Error nat string | Crashed

type_synonym 'a http = "http_failure + 'a"

definition bad_request :: "string \<Rightarrow> http_failure" where
  "bad_request message = Http_Error 400 message"

fun internal_error :: "(peer_error \<Rightarrow> string) \<Rightarrow> stac_failure \<Rightarrow> http_failure" where
  "internal_error show_error (Failed e) = Http_Error 500 (show_error e)"
| "internal_error show_error Panicked = Crashed"

definition status_name :: "nat \<Rightarrow> string" where
  "status_name status =
     (if status = 200 then ''OK'' else if status = 400 then ''BadRequest'' else if status = 404 then ''NotFound''
      else if status = 409 then ''Conflict'' else ''InternalServerError'')"

section \<open>Requests\<close>

record http_request =
  hr_method :: string
  hr_target :: string
  hr_headers :: "(string, string) btree"
  hr_body :: string

definition CRLF :: string where
  "CRLF = [CHR 0x0D, CHR 0x0A]"

definition MAX_HEAD_BYTES :: nat where
  "MAX_HEAD_BYTES = 128 * 1024"

definition MAX_BODY_BYTES :: nat where
  "MAX_BODY_BYTES = 64 * 1024"

fun read_head :: "string \<Rightarrow> (io_kind + string) list \<Rightarrow> (string \<times> nat \<times> (io_kind + string) list) peer_result" where
  "read_head got [] = Inl (Policy ''empty HTTP request'')"
| "read_head got (Inl k # input) = Inl (Io k)"
| "read_head got (Inr chunk # input) =
     (if chunk = [] then Inl (Policy ''empty HTTP request'')
      else
        let bytes = got @ chunk in
        if MAX_HEAD_BYTES < length bytes then Inl (Policy ''HTTP request is too large'')
        else
          case split_once_str (CRLF @ CRLF) bytes of
            Some (head, _) \<Rightarrow> Inr (bytes, length head + 4, input)
          | None \<Rightarrow> read_head bytes input)"

fun read_body :: "nat \<Rightarrow> string \<Rightarrow> (io_kind + string) list \<Rightarrow> string peer_result" where
  "read_body wanted bytes input =
     (if wanted \<le> length bytes then Inr bytes
      else
        case input of
          [] \<Rightarrow> Inl (Policy ''incomplete HTTP request body'')
        | Inl k # _ \<Rightarrow> Inl (Io k)
        | Inr chunk # rest \<Rightarrow>
            if chunk = [] then Inl (Policy ''incomplete HTTP request body'')
            else read_body wanted (bytes @ chunk) rest)"

declare read_body.simps [simp del]

text \<open>\<open>split("\\r\\n")\<close> and \<open>split_whitespace\<close>.\<close>

function split_str :: "string \<Rightarrow> string \<Rightarrow> string list" where
  "split_str d s =
     (if d = [] then [s]
      else case split_once_str d s of None \<Rightarrow> [s] | Some (a, b) \<Rightarrow> a # split_str d b)"
  by pat_completeness auto
termination
  by (relation "measure (\<lambda>(d, s). length s)") (auto dest!: split_once_str_eq_Some)

declare split_str.simps [simp del]

fun words_of :: "string list \<Rightarrow> string list" where
  "words_of [] = [[]]"
| "words_of (c # cs) =
     (if char_is_whitespace c then [] # words_of cs
      else case words_of cs of [] \<Rightarrow> [c] | w # ws \<Rightarrow> (c @ w) # ws)"

definition split_whitespace :: "string \<Rightarrow> string list" where
  "split_whitespace s = filter (\<lambda>w. w \<noteq> []) (words_of (chars s))"

fun parse_headers :: "string list \<Rightarrow> (string, string) btree \<Rightarrow> (string, string) btree peer_result" where
  "parse_headers [] headers = Inr headers"
| "parse_headers (line # lines) headers =
     (if line = [] then parse_headers lines headers
      else
        case split_once (CHR '':'') line of
          None \<Rightarrow> Inl (Policy ''malformed HTTP header'')
        | Some (k, v) \<Rightarrow> parse_headers lines (bt_insert (to_ascii_lowercase (trim k)) (trim v) headers))"

definition start_line :: "string \<Rightarrow> (string \<times> string) peer_result" where
  "start_line line =
     (case split_whitespace line of
        [] \<Rightarrow> Inl (Policy ''HTTP method is missing'')
      | [_] \<Rightarrow> Inl (Policy ''HTTP target is missing'')
      | [_, _] \<Rightarrow> Inl (Policy ''HTTP version is missing'')
      | method # target # _ \<Rightarrow> Inr (method, target))"

definition read_request :: "ext \<Rightarrow> (io_kind + string) list \<Rightarrow> http_request peer_result" where
  "read_request E input =
     and_then (read_head [] input) (\<lambda>(bytes, header_end, rest).
     and_then (ensure (utf8_valid E (take header_end bytes)) (Policy ''HTTP request headers are not UTF-8'')) (\<lambda>_.
     let lines = split_str CRLF (take header_end bytes) in
     and_then (start_line (hd lines)) (\<lambda>(method, target).
     and_then (parse_headers (tl lines) []) (\<lambda>headers.
     and_then (case bt_get headers ''content-length'' of
                 None \<Rightarrow> Inr 0
               | Some v \<Rightarrow> ok_or (Policy ''invalid Content-Length'') (parse_unsigned (2 ^ 64) v)) (\<lambda>len.
     and_then (ensure (len \<le> MAX_BODY_BYTES) (Policy ''HTTP body is too large'')) (\<lambda>_.
     and_then (read_body (header_end + len) bytes rest) (\<lambda>bytes.
     Inr \<lparr>hr_method = method, hr_target = target, hr_headers = headers,
          hr_body = take len (drop header_end bytes)\<rparr>)))))))"

section \<open>Parameters\<close>

text \<open>Where a string may be cut: before a byte that does not continue a character, or at its end.\<close>

definition boundary :: "string \<Rightarrow> bool" where
  "boundary rest = (case rest of [] \<Rightarrow> True | c # _ \<Rightarrow> \<not> (0x80 \<le> (of_char c :: nat) \<and> (of_char c :: nat) < 0xC0))"

fun percent_bytes :: "string \<Rightarrow> string http" where
  "percent_bytes [] = Inr []"
| "percent_bytes (c # s) =
     (if c = CHR ''%'' then
        (case s of
           a # b # t \<Rightarrow>
             if \<not> boundary s \<or> \<not> boundary t then Inl Crashed
             else
               and_then (ok_or (bad_request ''invalid percent escape'') (hex_pair a b)) (\<lambda>d.
               map_ok ((#) d) (percent_bytes t))
         | _ \<Rightarrow> Inl (bad_request ''incomplete percent escape''))
      else map_ok ((#) (if c = CHR ''+'' then CHR '' '' else c)) (percent_bytes s))"

definition percent_decode :: "ext \<Rightarrow> string \<Rightarrow> string http" where
  "percent_decode E value =
     and_then (percent_bytes value) (\<lambda>bytes.
     if utf8_valid E bytes then Inr bytes else Inl (bad_request ''query is not UTF-8''))"

fun query_pieces :: "ext \<Rightarrow> string list \<Rightarrow> (string, string) btree \<Rightarrow> (string, string) btree http" where
  "query_pieces E [] m = Inr m"
| "query_pieces E (piece # pieces) m =
     (case split_once (CHR ''='') piece of
        None \<Rightarrow> Inl (bad_request (''query parameter is missing '' @ quote ''=''))
      | Some (k, v) \<Rightarrow>
          and_then (percent_decode E k) (\<lambda>k.
          and_then (percent_decode E v) (\<lambda>v.
          query_pieces E pieces (bt_insert k v m))))"

definition query_parameters :: "ext \<Rightarrow> string \<Rightarrow> (string, string) btree http" where
  "query_parameters E q = (if q = [] then Inr [] else query_pieces E (split_on (CHR ''&'') q) [])"

definition text_of :: "ext \<Rightarrow> json \<Rightarrow> string" where
  "text_of E j = (case json_str j of Some s \<Rightarrow> s | None \<Rightarrow> json_print E j)"

definition text_parameters :: "ext \<Rightarrow> json \<Rightarrow> (string, string) btree" where
  "text_parameters E object =
     fold (\<lambda>k m. case json_get k object of None \<Rightarrow> m | Some v \<Rightarrow> bt_insert k (text_of E v) m)
       [''datetime'', ''limit'', ''cursor''] []"

definition one_collection :: "json \<Rightarrow> string http" where
  "one_collection j =
     (let wrong = bad_request ''collections must be a string or one-element array'' in
      case j of
        JStr s \<Rightarrow> Inr s
      | JArr [v] \<Rightarrow> ok_or wrong (json_str v)
      | JArr _ \<Rightarrow> Inl (bad_request ''only one collection is supported by this query'')
      | _ \<Rightarrow> Inl wrong)"

definition json_parameters :: "ext \<Rightarrow> string \<Rightarrow> (string, string) btree http" where
  "json_parameters E body =
     and_then (map_err (\<lambda>_. bad_request ''search JSON body is malformed'') (json_parse E body)) (\<lambda>value.
     and_then (ensure (is_object value) (bad_request ''search JSON body must be an object'')) (\<lambda>_.
     let m = text_parameters E value in
     and_then (case json_get ''collections'' value of
                 None \<Rightarrow> Inr m
               | Some cs \<Rightarrow> map_ok (\<lambda>c. bt_insert ''collections'' c m) (one_collection cs)) (\<lambda>m.
     Inr (case Option.bind (json_get ''bbox'' value) json_items of
            None \<Rightarrow> m
          | Some numbers \<Rightarrow> bt_insert ''bbox'' (join_with '','' (map (json_print E) numbers)) m))))"

definition parse_bbox :: "ext \<Rightarrow> string \<Rightarrow> box http" where
  "parse_bbox E value =
     and_then (traverse (\<lambda>part. ok_or (bad_request ''bbox must contain four numbers'') (parse_f64 E part))
       (split_on (CHR '','') value)) (\<lambda>values.
     case values of
       [w, s, e, n] \<Rightarrow>
         if f64_less e w \<or> f64_less n s then Inl (bad_request ''bbox must be west,south,east,north'')
         else Inr (w, s, e, n)
     | _ \<Rightarrow> Inl (bad_request ''bbox must be west,south,east,north''))"

section \<open>Cursors\<close>

record stac_cursor =
  sc_snapshot :: string
  sc_offset :: "64 word"
  sc_collection :: "string option"
  sc_bbox :: "string option"
  sc_datetime :: "string option"

definition ser_stac_cursor :: "stac_cursor \<Rightarrow> json" where
  "ser_stac_cursor x =
     JObj [(''snapshot'', JStr (sc_snapshot x)), (''offset'', ser_word (sc_offset x)),
           (''collection'', ser_option JStr (sc_collection x)), (''bbox'', ser_option JStr (sc_bbox x)),
           (''datetime'', ser_option JStr (sc_datetime x))]"

definition de_stac_cursor :: "json \<Rightarrow> stac_cursor de" where
  "de_stac_cursor j =
     and_then (object_fields False [''snapshot'', ''offset'', ''collection'', ''bbox'', ''datetime''] j) (\<lambda>kvs.
     and_then (field ''snapshot'' de_string kvs) (\<lambda>a.
     and_then (field ''offset'' de_word kvs) (\<lambda>b.
     and_then (field_option ''collection'' de_string kvs) (\<lambda>c.
     and_then (field_option ''bbox'' de_string kvs) (\<lambda>d.
     and_then (field_option ''datetime'' de_string kvs) (\<lambda>e.
     Inr \<lparr>sc_snapshot = a, sc_offset = b, sc_collection = c, sc_bbox = d, sc_datetime = e\<rparr>))))))"

lemma reads_stac_cursor [reads_rules, simp]: "reads de_stac_cursor ser_stac_cursor x"
  by (cases x) (simp add: reads_def [of de_stac_cursor] de_stac_cursor_def ser_stac_cursor_def
      object_fields_def field_hit field_miss field_option_def ser_option_def split: option.splits)

definition hex_encode :: "string \<Rightarrow> string" where
  "hex_encode bytes = concat (map hex_byte bytes)"

fun hex_cut :: "string \<Rightarrow> string http" where
  "hex_cut (a # b # s) =
     (if \<not> boundary s then Inl Crashed
      else and_then (ok_or (bad_request ''cursor is malformed'') (hex_pair a b)) (\<lambda>d. map_ok ((#) d) (hex_cut s)))"
| "hex_cut _ = Inr []"

definition hex_decode :: "string \<Rightarrow> string http" where
  "hex_decode value =
     (if length value mod 2 \<noteq> 0 then Inl (bad_request ''cursor is malformed'') else hex_cut value)"

definition encode_stac_cursor :: "ext \<Rightarrow> stac_cursor \<Rightarrow> string" where
  "encode_stac_cursor E c = hex_encode (json_print E (ser_stac_cursor c))"

definition decode_stac_cursor :: "ext \<Rightarrow> string \<Rightarrow> stac_cursor http" where
  "decode_stac_cursor E value =
     and_then (hex_decode value) (\<lambda>bytes.
     map_err (\<lambda>_. bad_request ''cursor is malformed'') (and_then (json_parse E bytes) de_stac_cursor))"

definition snapshot_of :: "stac_item list \<Rightarrow> string" where
  "snapshot_of items =
     hex_encode (concat (map (\<lambda>i. si_id i @ '':'' @ show_nat (unat (si_manifest_revision i)) @ '';'') items))"

section \<open>Search\<close>

definition page_limit :: "(string, string) btree \<Rightarrow> nat http" where
  "page_limit parameters =
     and_then (case bt_get parameters ''limit'' of
                 None \<Rightarrow> Inr 10
               | Some v \<Rightarrow> ok_or (bad_request ''limit must be a positive integer'') (parse_unsigned (2 ^ 64) v)) (\<lambda>limit.
     if limit = 0 \<or> 1000 < limit then Inl (bad_request ''limit must be between 1 and 1000'') else Inr limit)"

definition page_offset ::
  "ext \<Rightarrow> string \<Rightarrow> (string, string) btree \<Rightarrow> nat http" where
  "page_offset E snapshot parameters =
     (case bt_get parameters ''cursor'' of
        None \<Rightarrow> Inr 0
      | Some text \<Rightarrow>
          and_then (decode_stac_cursor E text) (\<lambda>cursor.
          if sc_snapshot cursor \<noteq> snapshot \<or> sc_collection cursor \<noteq> bt_get parameters ''collections'' \<or>
             sc_bbox cursor \<noteq> bt_get parameters ''bbox'' \<or> sc_datetime cursor \<noteq> bt_get parameters ''datetime''
          then Inl (Http_Error 409 ''cursor catalog snapshot or query changed; restart search'')
          else Inr (unat (sc_offset cursor))))"

definition next_query :: "ext \<Rightarrow> string \<Rightarrow> (string, string) btree \<Rightarrow> nat \<Rightarrow> nat \<Rightarrow> string" where
  "next_query E snapshot parameters limit offset =
     (let cursor = \<lparr>sc_snapshot = snapshot, sc_offset = of_nat offset,
                    sc_collection = bt_get parameters ''collections'', sc_bbox = bt_get parameters ''bbox'',
                    sc_datetime = bt_get parameters ''datetime''\<rparr>;
          part = (\<lambda>k. case bt_get parameters k of None \<Rightarrow> [] | Some v \<Rightarrow> [k @ ''='' @ v]) in
      join_with ''&''
        ([''cursor='' @ encode_stac_cursor E cursor, ''limit='' @ show_nat limit] @
         part ''collections'' @ part ''bbox'' @ part ''datetime''))"

record search_page =
  sp_features :: "json list"
  sp_next :: "string option"
  sp_matched :: nat

definition search_page_of :: "ext \<Rightarrow> stac_item list \<Rightarrow> (string, string) btree \<Rightarrow> search_page http" where
  "search_page_of E items parameters =
     and_then (case bt_get parameters ''bbox'' of
                 None \<Rightarrow> Inr None | Some v \<Rightarrow> map_ok Some (parse_bbox E v)) (\<lambda>bbox.
     and_then (page_limit parameters) (\<lambda>limit.
     let filtered = stac_search E items (bt_get parameters ''collections'') bbox (bt_get parameters ''datetime'');
         snapshot = snapshot_of items in
     and_then (page_offset E snapshot parameters) (\<lambda>offset.
     if length filtered < offset then Inl (bad_request ''cursor offset is invalid'')
     else
       let page = map si_value (take limit (drop offset filtered)) in
       Inr \<lparr>sp_features = page,
            sp_next = (if offset + length page < length filtered
                       then Some (next_query E snapshot parameters limit (offset + length page)) else None),
            sp_matched = length filtered\<rparr>)))"

definition link :: "string \<Rightarrow> string \<Rightarrow> string \<Rightarrow> json" where
  "link rel href media = json_object [(''rel'', JStr rel), (''href'', JStr href), (''type'', JStr media)]"

definition GEO_JSON :: string where "GEO_JSON = ''application/geo+json''"

definition page_value :: "string \<Rightarrow> search_page \<Rightarrow> json" where
  "page_value base p =
     json_object
       [(''type'', JStr ''FeatureCollection''),
        (''features'', JArr (sp_features p)),
        (''links'', JArr (link ''self'' (base @ ''/search'') GEO_JSON #
           (case sp_next p of None \<Rightarrow> [] | Some q \<Rightarrow> [link ''next'' (base @ ''/search?'' @ q) GEO_JSON]))),
        (''numberMatched'', JInt (int (sp_matched p))),
        (''numberReturned'', JInt (int (length (sp_features p))))]"

section \<open>Routing\<close>

type_synonym 'a served = "(world, http_failure, 'a) io"

definition items_now :: "ext \<Rightarrow> project \<Rightarrow> stac_item list served" where
  "items_now E p = io_map_err (\<lambda>e. internal_error (error_text E) (Failed e)) (stac_items E p)"

definition collections_now :: "ext \<Rightarrow> project \<Rightarrow> json list served" where
  "collections_now E p = io_map_err (internal_error (error_text E)) (collections E p)"

definition search_response ::
  "ext \<Rightarrow> project \<Rightarrow> (string, string) btree \<Rightarrow> string \<Rightarrow> json served" where
  "search_response E p parameters base =
     io_bind (items_now E p) (\<lambda>items.
     io_bind (io_lift (search_page_of E items parameters)) (\<lambda>page.
     io_ret (page_value base page)))"

definition landing :: "string \<Rightarrow> json" where
  "landing base =
     json_object
       [(''stac_version'', JStr STAC_VERSION), (''type'', JStr ''Catalog''), (''id'', JStr ''feam''),
        (''title'', JStr ''Feather Mesh STAC API''),
        (''description'', JStr ''Read-only project-scoped registered raster metadata''),
        (''conformsTo'', JArr (map JStr CONFORMANCE_CLASSES)),
        (''links'', JArr
          [link ''self'' (base @ ''/'') ''application/json'',
           link ''conformance'' (base @ ''/conformance'') ''application/json'',
           link ''data'' (base @ ''/collections'') ''application/json'',
           link ''search'' (base @ ''/search'') GEO_JSON])]"

text \<open>\<open>trim_start_matches\<close> removes the prefix as often as it is there.\<close>

function trim_start_matches :: "string \<Rightarrow> string \<Rightarrow> string" where
  "trim_start_matches d s =
     (if d = [] then s else case strip_prefix d s of None \<Rightarrow> s | Some t \<Rightarrow> trim_start_matches d t)"
  by pat_completeness auto
termination
  by (relation "measure (\<lambda>(d, s). length s)") (auto simp: strip_prefix_eq_Some)

declare trim_start_matches.simps [simp del]

definition collection_route ::
  "ext \<Rightarrow> project \<Rightarrow> string \<Rightarrow> (string, string) btree \<Rightarrow> string \<Rightarrow> (nat \<times> json) served" where
  "collection_route E p path params base =
     (let suffix = trim_start_matches ''/collections/'' path in
      case split_once_str ''/items'' suffix of
        None \<Rightarrow>
          io_bind (collections_now E p) (\<lambda>values.
          case find (\<lambda>v. Option.bind (json_get ''id'' v) json_str = Some suffix) values of
            None \<Rightarrow> io_err (Http_Error 404 ''collection not found'')
          | Some v \<Rightarrow> io_ret (200, v))
      | Some (collection, item_suffix) \<Rightarrow>
          io_bind (items_now E p) (\<lambda>items.
          if item_suffix = [] then
            io_bind (search_response E p (bt_insert ''collections'' collection params) base) (\<lambda>v. io_ret (200, v))
          else
            case strip_prefix ''/'' item_suffix of
              None \<Rightarrow> io_err (Http_Error 404 ''item endpoint not found'')
            | Some i \<Rightarrow>
                (case find (\<lambda>item. si_id item = i) (stac_search E items (Some collection) None None) of
                   None \<Rightarrow> io_err (Http_Error 404 ''item not found'')
                 | Some item \<Rightarrow> io_ret (200, si_value item))))"

definition route_request :: "ext \<Rightarrow> project \<Rightarrow> http_request \<Rightarrow> (nat \<times> json) served" where
  "route_request E p r =
     (let (path, raw_query) = (case split_once (CHR ''?'') (hr_target r) of
                                 Some parts \<Rightarrow> parts | None \<Rightarrow> (hr_target r, [])) in
      io_bind (io_lift (query_parameters E raw_query)) (\<lambda>params.
      let base = ''http://'' @ (case bt_get (hr_headers r) ''host'' of Some h \<Rightarrow> h | None \<Rightarrow> ''127.0.0.1'');
          get = (hr_method r = ''GET'') in
      if get \<and> path = ''/'' then io_ret (200, landing base)
      else if get \<and> path = ''/conformance'' then
        io_ret (200, json_object [(''conformsTo'', JArr (map JStr CONFORMANCE_CLASSES))])
      else if get \<and> path = ''/collections'' then
        io_bind (collections_now E p) (\<lambda>values.
        io_ret (200, json_object [(''collections'', JArr values), (''links'', JArr [])]))
      else if (get \<or> hr_method r = ''POST'') \<and> path = ''/search'' then
        io_bind (io_lift (if hr_method r = ''POST'' then json_parameters E (hr_body r) else Inr params)) (\<lambda>parameters.
        io_bind (search_response E p parameters base) (\<lambda>v. io_ret (200, v)))
      else if get \<and> starts_with ''/collections/'' path then collection_route E p path params base
      else io_err (Http_Error 404 ''STAC endpoint not found'')))"

section \<open>Answers\<close>

definition response_bytes :: "ext \<Rightarrow> nat \<Rightarrow> json \<Rightarrow> string" where
  "response_bytes E status value =
     (let body = json_print E value in
      ''HTTP/1.1 '' @ show_nat status @ '' '' @ status_name status @ CRLF @
      ''Content-Type: application/json'' @ CRLF @
      ''Content-Length: '' @ show_nat (length body) @ CRLF @
      ''Connection: close'' @ CRLF @ CRLF @ body)"

datatype connection_end = Answered string | Dropped peer_error | Server_Crashed

definition respond :: "ext \<Rightarrow> project \<Rightarrow> (io_kind + string) list \<Rightarrow> world \<Rightarrow> connection_end \<times> world" where
  "respond E p input w =
     (case read_request E input of
        Inl e \<Rightarrow> (Dropped e, w)
      | Inr r \<Rightarrow>
          (case route_request E p r w of
             (Inr (status, value), w') \<Rightarrow> (Answered (response_bytes E status value), w')
           | (Inl (Http_Error status message), w') \<Rightarrow>
               (Answered (response_bytes E status
                  (json_object [(''code'', JStr (status_name status)), (''description'', JStr message)])), w')
           | (Inl Crashed, w') \<Rightarrow> (Server_Crashed, w')))"

datatype ip_addr = V4 nat nat nat nat | V6 string

definition validate_bind_address :: "string \<Rightarrow> ip_addr \<Rightarrow> unit peer_result" where
  "validate_bind_address shown ip =
     (if ip \<noteq> V4 127 0 0 1 then Inl (Policy (''STAC must bind to 127.0.0.1; rejected '' @ quote shown)) else Inr ())"

text \<open>
  The loop over the accepted connections: what each of them read, or the error of \<open>accept\<close>. The
  result of \<open>respond\<close> is ignored; a panic ends the process (\<open>None\<close>).
\<close>

fun serve_connections ::
  "ext \<Rightarrow> project \<Rightarrow> (io_kind + (io_kind + string) list) list \<Rightarrow> world \<Rightarrow> (peer_error + unit) option \<times> world" where
  "serve_connections E p [] w = (Some (Inr ()), w)"
| "serve_connections E p (Inl k # connections) w = (Some (Inl (Io k)), w)"
| "serve_connections E p (Inr input # connections) w =
     (case respond E p input w of
        (Server_Crashed, w') \<Rightarrow> (None, w')
      | (_, w') \<Rightarrow> serve_connections E p connections w')"

definition serve_stac ::
  "ext \<Rightarrow> project \<Rightarrow> string \<Rightarrow> ip_addr \<Rightarrow> io_kind option \<Rightarrow> (io_kind + (io_kind + string) list) list \<Rightarrow> world \<Rightarrow>
   (peer_error + unit) option \<times> world" where
  "serve_stac E p shown ip bind_result connections w =
     (case validate_bind_address shown ip of
        Inl e \<Rightarrow> (Some (Inl e), w)
      | Inr _ \<Rightarrow>
          (case bind_result of
             Some k \<Rightarrow> (Some (Inl (Io k)), w)
           | None \<Rightarrow> serve_connections E p connections w))"

end
