(* ===== verification/Stac_Proofs.thy ===== *)
theory Stac_Proofs
  imports Stac Operations_Proofs Example_World
begin

text \<open>
  The STAC view: file URIs are read back as the paths they were made of, every item is well typed
  and says what its record says, and building the view writes nothing.
\<close>

section \<open>File URIs\<close>

lemma upper_digit_value: "d < 16 \<Longrightarrow> hex_digit_value (upper_digit d) = Some d"
  by (simp add: hex_digit_value_def upper_digit_def Let_def)

lemma uri_byte_plain: "uri_byte c \<Longrightarrow> c \<noteq> CHR ''%''"
  by (auto simp: uri_byte_def is_ascii_alphanumeric_def is_ascii_digit_def is_ascii_lowercase_def is_ascii_uppercase_def)

lemma char_of_halves: "char_of (of_char c div 16 * 16 + of_char c mod 16 :: nat) = c"
  by (metis div_mult_mod_eq char_of_char)

lemma uri_bytes_encode: "uri_bytes (encode_byte c @ s) = map_ok ((#) c) (uri_bytes s)"
proof (cases "uri_byte c")
  case True
  then show ?thesis using uri_byte_plain by (simp add: encode_byte_def)
next
  case False
  have "hex_digit_value (upper_digit (of_char c div 16)) = Some (of_char c div 16)"
    "hex_digit_value (upper_digit (of_char c mod 16)) = Some (of_char c mod 16)"
    using of_char_lt [of c] by (auto intro!: upper_digit_value simp del: of_char_lt)
  with False show ?thesis by (simp add: encode_byte_def char_of_halves)
qed

lemma uri_bytes_encoded: "uri_bytes (concat (map encode_byte p)) = Inr p"
  by (induction p) (simp_all add: uri_bytes_encode)

lemma upper_digit_ascii: "d < 16 \<Longrightarrow> is_ascii_alphanumeric (upper_digit d)"
  by (auto simp: upper_digit_def is_ascii_alphanumeric_def is_ascii_digit_def is_ascii_uppercase_def)

lemma encode_byte_safe: "x \<in> set (encode_byte c) \<Longrightarrow> uri_byte x \<or> x = CHR ''%''"
proof (cases "uri_byte c")
  case False
  assume "x \<in> set (encode_byte c)"
  moreover have "uri_byte (upper_digit (of_char c div 16))" "uri_byte (upper_digit (of_char c mod 16))"
    using of_char_lt [of c] by (auto intro!: upper_digit_ascii simp: uri_byte_def simp del: of_char_lt)
  ultimately show ?thesis using False by (auto simp: encode_byte_def)
qed (simp add: encode_byte_def)

section \<open>Nothing is written\<close>

lemma readonly_stac_items [readonly_rules, intro!, simp]: "readonly (stac_items E p)"
  unfolding stac_items_def product_items_def version_items_def list_registered_def
  by (intro readonly_rules readonly_traverse | simp split: sum.splits peer_error.splits prod.splits
      | intro conjI allI impI)+

lemma readonly_collections [readonly_rules, intro!, simp]: "readonly (collections E p)"
  unfolding collections_def by (intro readonly_rules readonly_stac_items)

section \<open>Well typed items\<close>

definition string_at :: "step list \<Rightarrow> json \<Rightarrow> string \<Rightarrow> bool" where
  "string_at path j s \<longleftrightarrow> json_pointer path j = Some (JStr s)"

definition well_typed_asset :: "ext \<Rightarrow> resolved_asset \<Rightarrow> json \<Rightarrow> bool" where
  "well_typed_asset E a j \<longleftrightarrow>
     string_at [Key ''type''] j (ra_media_type a) \<and> string_at [Key ''roles'', Index 0] j (ra_role a) \<and>
     string_at [Key ''title''] j (ra_id a) \<and>
     (is_absolute (ra_project_access_path a) \<and> utf8_valid E (ra_project_access_path a) \<longrightarrow>
        (\<exists>uri. string_at [Key ''href''] j uri \<and> path_from_file_uri E uri = Inr (ra_project_access_path a)))"

definition well_typed_item :: "ext \<Rightarrow> stac_item \<Rightarrow> bool" where
  "well_typed_item E i \<longleftrightarrow>
     validate_item E (si_value i) = Inr () \<and>
     string_at [Key ''stac_version''] (si_value i) ''1.1.0'' \<and> string_at [Key ''type''] (si_value i) ''Feature'' \<and>
     string_at [Key ''id''] (si_value i) (si_id i) \<and>
     string_at [Key ''collection''] (si_value i) (si_collection_id i) \<and>
     string_at [Key ''properties'', Key ''feam:namespace''] (si_value i) (si_namespace i) \<and>
     string_at [Key ''properties'', Key ''feam:product_id''] (si_value i) (si_product_id i) \<and>
     string_at [Key ''properties'', Key ''feam:version''] (si_value i) (si_version i) \<and>
     json_pointer [Key ''bbox''] (si_value i) = Some (ser_f64_4 (si_bbox i)) \<and>
     json_pointer [Key ''geometry'', Key ''coordinates'', Index 0, Index 0] (si_value i) =
       json_pointer [Key ''geometry'', Key ''coordinates'', Index 0, Index 4] (si_value i) \<and>
     (\<forall>k j. json_pointer [Key ''assets'', Key k] (si_value i) = Some j \<longrightarrow>
        (\<exists>a. ra_id a = k \<and> well_typed_asset E a j)) \<and>
     si_id i = si_collection_id i @ ''--'' @ si_version i \<and> si_start i \<le> si_end i"

lemma bt_fold_insert:
  "bt_wf m \<Longrightarrow> bt_wf (fold (\<lambda>(k, v). bt_insert k v) kvs m) \<and>
   bt_get (fold (\<lambda>(k, v). bt_insert k v) kvs m) = bt_get m ++ map_of (rev kvs)"
proof (induction kvs arbitrary: m)
  case (Cons kv kvs)
  obtain k v where kv: "kv = (k, v)" by fastforce
  with Cons.IH [of "bt_insert k v m"] Cons.prems show ?case
    by (auto simp: map_add_def fun_eq_iff split: option.splits)
qed simp

lemma json_get_object: "json_get k (json_object kvs) = map_of (rev kvs) k"
  using bt_fold_insert [of "[]" kvs] by (simp add: json_object_def json_get_def)

lemma bind_pointer_Nil [simp]: "Option.bind x (json_pointer []) = x"
  by (cases x) auto

lemma item_from_resolvedD:
  assumes "item_from_resolved E r revision = Inr i"
  obtains d where "rs_raster r = Some d" "si_value i = item_value r d revision"
    "raster_time_bounds E (rd_datetime d) (rd_start_datetime d) (rd_end_datetime d) = Inr (si_start i, si_end i)"
    "validate_item E (si_value i) = Inr ()" "si_bbox i = rd_bbox d" "si_manifest_revision i = revision"
    "si_id i = item_id (rs_namespace r) (rs_product_id r) (rs_version r)"
    "si_collection_id i = collection_id (rs_namespace r) (rs_product_id r)"
    "si_namespace i = rs_namespace r" "si_product_id i = rs_product_id r" "si_version i = rs_version r"
  using assms by (auto simp: item_from_resolved_def and_then_eq_Inr Let_def)

lemma time_bounds_ordered: "raster_time_bounds E a b c = Inr (s, e) \<Longrightarrow> s \<le> e"
  by (auto simp: raster_time_bounds_def and_then_eq_Inr split: option.splits if_splits)

lemma asset_well_typed: "well_typed_asset E a (asset_value r a)"
  by (auto simp: well_typed_asset_def string_at_def asset_value_def json_get_object path_from_file_uri_def
      file_uri_def uri_bytes_encoded)

lemma assets_typed:
  "json_get k (json_object (map (\<lambda>a. (ra_id a, asset_value r a)) assets)) = Some j \<Longrightarrow>
   \<exists>a. ra_id a = k \<and> well_typed_asset E a j"
  by (auto simp: json_get_object dest!: map_of_SomeD) (use asset_well_typed in blast)

lemma item_well_typed:
  assumes "item_from_resolved E r revision = Inr i"
  shows "well_typed_item E i"
  using assms
proof (rule item_from_resolvedD)
  fix d
  assume *: "si_value i = item_value r d revision"
    "raster_time_bounds E (rd_datetime d) (rd_start_datetime d) (rd_end_datetime d) = Inr (si_start i, si_end i)"
    "validate_item E (si_value i) = Inr ()" "si_bbox i = rd_bbox d"
    "si_id i = item_id (rs_namespace r) (rs_product_id r) (rs_version r)"
    "si_collection_id i = collection_id (rs_namespace r) (rs_product_id r)"
    "si_namespace i = rs_namespace r" "si_product_id i = rs_product_id r" "si_version i = rs_version r"
  show ?thesis
    using time_bounds_ordered [OF *(2)] assets_typed [of _ r "rs_assets r" _ E]
    by (simp only: well_typed_item_def *(3) simp_thms) (simp add: string_at_def *(1,4-9) item_value_def item_properties_def polygon_def
        json_get_object json_items_def STAC_VERSION_def item_id_def collection_id_def Let_def
        split: prod.splits)
qed

text \<open>Every item of the view was resolved just now, from an active raster record of the listing.\<close>

lemma io_bind_tried: "m w = (x, w1) \<Longrightarrow> io_bind (io_try m) f w = f x w1"
  by (simp add: io_bind_def io_try_def)

lemma version_items_ok:
  assumes "version_items E p ns product revision v w = (Inr items, w')" "i \<in> set items"
  shows "pv_lifecycle v = Active \<and> pv_data_kind v = Raster \<and>
    (\<exists>w1 w2 r. resolve E p (reference ns (mp_id product)) (pv_version v) None False w1 = (Inr r, w2) \<and>
       item_from_resolved E r revision = Inr i)"
proof (cases "pv_lifecycle v \<noteq> Active \<or> pv_data_kind v \<noteq> Raster")
  case False
  obtain x w1 where x: "resolve E p (reference ns (mp_id product)) (pv_version v) None False w = (x, w1)" by fastforce
  have step: "(case x of
      Inr r \<Rightarrow> io_bind (io_lift (item_from_resolved E r revision)) (\<lambda>item. io_ret [item])
    | Inl (PeerUnavailable _) \<Rightarrow> io_ret [] | Inl (WithdrawnVersion _) \<Rightarrow> io_ret [] | Inl e \<Rightarrow> io_err e) w1 = (Inr items, w')"
    using assms(1) False by (simp add: version_items_def io_bind_tried [where m = "resolve E p _ _ _ _", OF x])
  show ?thesis
  proof (cases x)
    case (Inl e)
    then show ?thesis using step assms(2) by (cases e) (auto simp: io_ret_def io_err_def)
  next
    case (Inr r)
    then have "item_from_resolved E r revision = Inr i"
      using step assms(2) by (auto simp: io_bind_eq_Inr)
    then show ?thesis using False x Inr by blast
  qed
qed (use assms in \<open>auto simp: version_items_def\<close>)

lemma traverse_elem:
  assumes "io_traverse f xs w = (Inr ys, w')" "y \<in> set ys"
  shows "\<exists>x \<in> set xs. \<exists>w1 w2. f x w1 = (Inr y, w2)"
  using assms
  by (induction xs arbitrary: w ys) (fastforce simp: io_bind_eq_Inr)+

lemma stac_items_ok:
  assumes "stac_items E p w = (Inr items, w')" "i \<in> set items"
  obtains ns and product :: manifest_product and revision v w1 w2 r where
    "v \<in> set (mp_versions product)" "pv_lifecycle v = Active" "pv_data_kind v = Raster"
    "resolve E p (reference ns (mp_id product)) (pv_version v) None False w1 = (Inr r, w2)"
    "item_from_resolved E r revision = Inr i"
proof -
  obtain entries xss w0 w3 where xss: "io_traverse (product_items E p) entries w0 = (Inr xss, w3)"
    "items = sort_key si_id (concat xss)"
    using assms(1) by (auto simp: stac_items_def io_bind_eq_Inr)
  then obtain xs where xs: "xs \<in> set xss" "i \<in> set xs" using assms(2) by auto
  obtain entry w4 w5 where "product_items E p entry w4 = (Inr xs, w5)"
    using traverse_elem [OF xss(1) xs(1)] by blast
  then obtain ns product revision yss w6 where
    "io_traverse (version_items E p ns product revision) (mp_versions product) w4 = (Inr yss, w6)" "xs = concat yss"
    by (auto simp: product_items_def io_bind_eq_Inr split: prod.splits)
  note yss = this
  then obtain ys where "ys \<in> set yss" "i \<in> set ys" using xs(2) by auto
  from traverse_elem [OF yss(1) this(1)] obtain v w7 w8 where "v \<in> set (mp_versions product)"
    "version_items E p ns product revision v w7 = (Inr ys, w8)" by blast
  moreover from version_items_ok [OF this(2) \<open>i \<in> set ys\<close>] obtain w1 w2 r where
    "pv_lifecycle v = Active" "pv_data_kind v = Raster"
    "resolve E p (reference ns (mp_id product)) (pv_version v) None False w1 = (Inr r, w2)"
    "item_from_resolved E r revision = Inr i" by blast
  ultimately show thesis using that by blast
qed

lemma stac_items_sorted: "stac_items E p w = (Inr items, w') \<Longrightarrow> sorted (map si_id items)"
  by (auto simp: stac_items_def io_bind_eq_Inr)

section \<open>Ids that are not unique\<close>

text \<open>
  A namespace and a product id may contain two hyphens, so two products of different namespaces can
  have one collection and their versions one item id; an item endpoint then answers with the first.
\<close>

lemma item_ids_collide:
  "validate_namespace ''a--b'' = Inr ()" "validate_product_id ''b--c'' = Inr ()"
  "collection_id ''a--b'' ''c'' = collection_id ''a'' ''b--c''"
  "item_id ''a--b'' ''c'' ''1'' = item_id ''a'' ''b--c'' ''1''"
  by code_simp+

section \<open>Properties\<close>

definition raster_version :: published_version where
  "raster_version = demo_version\<lparr>pv_data_kind := Raster, pv_data_format := Geotiff, pv_table := None,
     pv_raster := Some \<lparr>rd_width = 2, rd_height = 3, rd_color_type = ''g'', rd_geo_key_directory = [],
       rd_crs = Some ''EPSG:4326'', rd_nodata = None, rd_datetime = Some ''t'', rd_start_datetime = None,
       rd_end_datetime = None, rd_bbox = (Finite 0, Finite 1, Finite 2, Finite 3), rd_semantics = []\<rparr>\<rparr>"

definition raster_ext :: ext where
  "raster_ext = stored_ext\<lparr>json_parse := (\<lambda>s. if s = ''M'' then Inr (ser_serving_manifest
     (demo_manifest\<lparr>sm_products := [\<lparr>mp_id = ''d'', mp_name = ''x'', mp_versions = [raster_version]\<rparr>]\<rparr>))
     else Inl (Syntax ''none''))\<rparr>"

lemma raster_run:
  obtains items w' where "stac_items raster_ext demo_project stored_world = (Inr items, w')"
    "map si_id items = [''n--d--1'']"
proof -
  let ?run = "stac_items raster_ext demo_project stored_world"
  have "case fst ?run of Inr items \<Rightarrow> map si_id items = [''n--d--1''] | Inl _ \<Rightarrow> False" by code_simp
  then show thesis using that by (cases ?run) (auto split: sum.splits)
qed

text \<open>C39. A local path that is absolute UTF-8, whatever bytes it has, is read back from its file URI,
  and the URI consists of unreserved characters, slashes and percent escapes.\<close>

theorem file_uri_round_trip:
  assumes "is_absolute p" "utf8_valid E p"
  shows "path_from_file_uri E (file_uri p) = Inr p \<and>
         (\<exists>encoded. file_uri p = ''file://'' @ encoded \<and> (\<forall>c. c \<in> set encoded \<longrightarrow> uri_byte c \<or> c = CHR ''%''))"
  using assms
  by (auto simp: path_from_file_uri_def file_uri_def uri_bytes_encoded dest: encode_byte_safe)

theorem file_uri_round_trip_witness:
  "path_from_file_uri demo_ext ''file:///a%20b%23'' = Inr ''/a b#''"
proof -
  have "file_uri ''/a b#'' = ''file:///a%20b%23''" by code_simp
  moreover have "is_absolute ''/a b#''" "utf8_valid demo_ext ''/a b#''" by code_simp+
  ultimately show ?thesis using file_uri_round_trip [of "''/a b#''" demo_ext] by metis
qed



end
