(* ===== verification/Stac_Http_Proofs.thy ===== *)
theory Stac_Http_Proofs
  imports Stac_Http Stac_Proofs Catalog_Proofs
begin

text \<open>
  The STAC server: it writes nothing, its pages make up the whole answer when a client follows the
  links it is given, and two requests that go wrong: a link that is not escaped, and a request that
  ends the server.
\<close>

section \<open>Nothing is written\<close>

lemma readonly_search_response [readonly_rules, intro!, simp]: "readonly (search_response E p m base)"
  unfolding search_response_def items_now_def by (intro readonly_rules readonly_stac_items)

lemma readonly_collection_route [readonly_rules, intro!, simp]: "readonly (collection_route E p path m base)"
  unfolding collection_route_def items_now_def collections_now_def Let_def
  by (intro readonly_rules readonly_stac_items readonly_collections readonly_search_response)

lemma readonly_route: "readonly (route_request E p r)"
  unfolding route_request_def collections_now_def Let_def
  by (intro readonly_rules readonly_collections readonly_search_response readonly_collection_route)

lemma respond_disk: "respond E p input w = (x, w') \<Longrightarrow> disk w' = disk w"
  using readonlyD [OF readonly_route]
  by (fastforce simp: respond_def split: sum.splits prod.splits http_failure.splits)

lemma serve_connections_disk: "disk (snd (serve_connections E p connections w)) = disk w"
proof (induction E p connections w rule: serve_connections.induct)
  case (3 E p input connections w)
  obtain x w' where x: "respond E p input w = (x, w')" by fastforce
  with 3 respond_disk [OF x] show ?case by (cases x) auto
qed simp_all

section \<open>Texts that need no escape\<close>

definition link_byte :: "char \<Rightarrow> bool" where
  "link_byte c \<longleftrightarrow> c \<noteq> CHR ''%'' \<and> c \<noteq> CHR ''+'' \<and> c \<noteq> CHR ''&''"

definition link_text :: "ext \<Rightarrow> string \<Rightarrow> bool" where
  "link_text E s \<longleftrightarrow> utf8_valid E s \<and> list_all link_byte s"

lemma percent_decode_plain: "link_text E s \<Longrightarrow> percent_decode E s = Inr s"
proof -
  have "list_all link_byte s \<Longrightarrow> percent_bytes s = Inr s"
    by (induction s) (auto simp: link_byte_def)
  then show "link_text E s \<Longrightarrow> ?thesis" by (simp add: percent_decode_def link_text_def)
qed

lemma query_pieces_plain:
  assumes "\<forall>(k, v) \<in> set kvs. link_text E k \<and> CHR ''='' \<notin> set k \<and> link_text E v"
  shows "query_pieces E (map (\<lambda>(k, v). k @ ''='' @ v) kvs) m = Inr (fold (\<lambda>(k, v). bt_insert k v) kvs m)"
  using assms
proof (induction kvs arbitrary: m)
  case (Cons kv kvs)
  then show ?case by (cases kv) (simp add: percent_decode_plain)
qed simp

lemma query_parameters_plain:
  assumes "kvs \<noteq> []" "\<forall>(k, v) \<in> set kvs. link_text E k \<and> CHR ''='' \<notin> set k \<and> link_text E v"
  shows "query_parameters E (join_with ''&'' (map (\<lambda>(k, v). k @ ''='' @ v) kvs)) =
    Inr (fold (\<lambda>(k, v). bt_insert k v) kvs [])"
proof -
  have plain: "CHR ''&'' \<notin> set k" if "link_text E k" for k
    using that by (auto simp: link_text_def link_byte_def list_all_iff)
  have "CHR ''&'' \<notin> set s" if s: "s \<in> set (map (\<lambda>(k, v). k @ ''='' @ v) kvs)" for s
  proof -
    obtain kv where kv: "s = (\<lambda>(k, v). k @ ''='' @ v) kv" "kv \<in> set kvs"
      using s unfolding set_map by (rule imageE)
    then have "link_text E (fst kv)" "link_text E (snd kv)" using assms(2) by (auto split: prod.splits)
    then show ?thesis using kv(1) plain by (simp split: prod.splits)
  qed
  then have "split_on (CHR ''&'') (join_with ''&'' (map (\<lambda>(k, v). k @ ''='' @ v) kvs)) = map (\<lambda>(k, v). k @ ''='' @ v) kvs"
    using assms(1) by (intro split_on_join) simp_all
  moreover have "join_with ''&'' (map (\<lambda>(k, v). k @ ''='' @ v) kvs) \<noteq> []"
  proof -
    have "join_with ''&'' (s # ss) \<noteq> []" if "s \<noteq> []" for s ss
      using that by (cases ss) simp_all
    then show ?thesis using assms(1) by (cases kvs) (simp_all split: prod.splits)
  qed
  ultimately show ?thesis using query_pieces_plain [OF assms(2)] by (simp add: query_parameters_def)
qed

lemma hex_digits_link:
  "c \<in> set (hex_encode bs) \<Longrightarrow> link_byte c \<and> (of_char c :: nat) < 128"
proof -
  have "link_byte (digit_char d) \<and> (of_char (digit_char d) :: nat) < 128" if "d < 16" for d
    using that by (auto simp: digit_char_def link_byte_def dest!: arg_cong [of _ _ "of_char :: char \<Rightarrow> nat"] split: if_splits)
  moreover have "(of_char c :: nat) div 16 < 16" for c
    using of_char_lt [of c] by (auto simp: less_mult_imp_div_less)
  ultimately show "c \<in> set (hex_encode bs) \<Longrightarrow> ?thesis" by (auto simp: hex_encode_def hex_byte_def)
qed

lemma digit_is_plain: "is_ascii_digit c \<Longrightarrow> link_byte c \<and> (of_char c :: nat) < 128"
  by (auto simp: is_ascii_digit_def link_byte_def Let_def)

lemma hex_cut_encode: "hex_cut (hex_encode bs) = Inr bs"
proof (induction bs)
  case (Cons b bs)
  have "boundary (hex_encode bs)"
    using hex_digits_link [of "hd (hex_encode bs)" bs] by (cases "hex_encode bs") (auto simp: boundary_def)
  with Cons show ?case by (simp add: hex_encode_def hex_byte_def hex_pair_byte)
qed (simp add: hex_encode_def)

definition cursors_read_back :: "ext \<Rightarrow> bool" where
  "cursors_read_back E \<longleftrightarrow> (\<forall>c. json_reads_back E (ser_stac_cursor c))"

lemma decode_encode_stac_cursor:
  assumes "cursors_read_back E"
  shows "decode_stac_cursor E (encode_stac_cursor E c) = Inr c"
proof -
  have "length (hex_encode bs) mod 2 = 0" for bs using hex_byte_even [of bs] by (simp add: hex_encode_def)
  moreover have "de_stac_cursor (ser_stac_cursor c) = Inr c" using reads_stac_cursor [of c] by (simp add: reads_def)
  ultimately show ?thesis using assms
    by (simp add: decode_stac_cursor_def encode_stac_cursor_def hex_decode_def hex_cut_encode cursors_read_back_def
        json_reads_back_def)
qed

interpretation stac_cursor_text: codec "\<lambda>_. cursors_read_back E" "encode_stac_cursor E" "decode_stac_cursor E" for E
  by unfold_locales (rule decode_encode_stac_cursor)

section \<open>Following the links\<close>

fun follow_links :: "nat \<Rightarrow> ext \<Rightarrow> stac_item list \<Rightarrow> (string, string) btree \<Rightarrow> json list http" where
  "follow_links 0 E items m = Inr []"
| "follow_links (Suc n) E items m =
     and_then (search_page_of E items m) (\<lambda>p.
     case sp_next p of
       None \<Rightarrow> Inr (sp_features p)
     | Some q \<Rightarrow>
         and_then (query_parameters E q) (\<lambda>m'.
         and_then (follow_links n E items m') (\<lambda>rest. Inr (sp_features p @ rest))))"

definition ascii_is_utf8 :: "ext \<Rightarrow> bool" where
  "ascii_is_utf8 E \<longleftrightarrow> (\<forall>s. is_ascii s \<longrightarrow> utf8_valid E s)"

definition filters :: "string list" where
  "filters = [''collections'', ''bbox'', ''datetime'']"

definition linkable :: "ext \<Rightarrow> (string, string) btree \<Rightarrow> bool" where
  "linkable E m \<longleftrightarrow> (\<forall>k v. k \<in> set filters \<longrightarrow> bt_get m k = Some v \<longrightarrow> link_text E v)"

lemma next_query_read:
  assumes "ascii_is_utf8 E" "linkable E m"
  shows "\<exists>m'. query_parameters E (next_query E snapshot m limit offset) = Inr m' \<and>
    (\<forall>k. k \<in> set filters \<longrightarrow> bt_get m' k = bt_get m k) \<and> bt_get m' ''limit'' = Some (show_nat limit) \<and>
    bt_get m' ''cursor'' = Some (encode_stac_cursor E
      \<lparr>sc_snapshot = snapshot, sc_offset = of_nat offset, sc_collection = bt_get m ''collections'',
       sc_bbox = bt_get m ''bbox'', sc_datetime = bt_get m ''datetime''\<rparr>)"
proof -
  define cursor where "cursor = encode_stac_cursor E
      \<lparr>sc_snapshot = snapshot, sc_offset = of_nat offset, sc_collection = bt_get m ''collections'',
       sc_bbox = bt_get m ''bbox'', sc_datetime = bt_get m ''datetime''\<rparr>"
  define part where "part k = (case bt_get m k of None \<Rightarrow> [] | Some v \<Rightarrow> [(k, v)])" for k
  define kvs where "kvs = [(''cursor'', cursor), (''limit'', show_nat limit)] @
    part ''collections'' @ part ''bbox'' @ part ''datetime''"
  have "next_query E snapshot m limit offset = join_with ''&'' (map (\<lambda>(k, v). k @ ''='' @ v) kvs)"
    by (simp add: next_query_def kvs_def part_def cursor_def Let_def split: option.splits)
  moreover have "query_parameters E (join_with ''&'' (map (\<lambda>(k, v). k @ ''='' @ v) kvs)) =
      Inr (fold (\<lambda>(k, v). bt_insert k v) kvs [])"
  proof (rule query_parameters_plain)
    have plain: "link_text E s" if "\<And>c. c \<in> set s \<Longrightarrow> link_byte c \<and> (of_char c :: nat) < 128" for s
      using that assms(1) by (simp add: link_text_def ascii_is_utf8_def is_ascii_def list_all_iff)
    have "link_text E cursor" "link_text E (show_nat limit)"
      using hex_digits_link digit_is_plain [OF show_nat_digits]
      by (simp_all add: plain cursor_def encode_stac_cursor_def)
    moreover have key: "link_text E k" if "k \<in> {''cursor'', ''limit'', ''collections'', ''bbox'', ''datetime''}" for k
      using that by (intro plain) (auto simp: link_byte_def)
    moreover have parts: "\<forall>(k', v) \<in> set (part k). link_text E k' \<and> CHR ''='' \<notin> set k' \<and> link_text E v"
      if "k \<in> set filters" for k
    proof -
      have "link_text E k \<and> CHR ''='' \<notin> set k" using that key [of k] by (auto simp: filters_def)
      then show ?thesis using that assms(2) by (simp add: part_def linkable_def split: option.splits)
    qed
    ultimately show "\<forall>(k, v) \<in> set kvs. link_text E k \<and> CHR ''='' \<notin> set k \<and> link_text E v"
      using parts [of "''collections''"] parts [of "''bbox''"] parts [of "''datetime''"]
      unfolding kvs_def set_append ball_Un by (simp add: filters_def)
  qed (simp add: kvs_def)
  moreover have "bt_get (fold (\<lambda>(k, v). bt_insert k v) kvs []) = map_of (rev kvs)"
    using bt_fold_insert [of "[]" kvs] by simp
  ultimately show ?thesis unfolding cursor_def [symmetric]
    by (auto simp: kvs_def part_def filters_def split: option.splits)
qed

definition found :: "ext \<Rightarrow> stac_item list \<Rightarrow> (string, string) btree \<Rightarrow> stac_item list \<Rightarrow> bool" where
  "found E items m F \<longleftrightarrow>
     (\<exists>bbox. (case bt_get m ''bbox'' of None \<Rightarrow> Inr None | Some v \<Rightarrow> map_ok Some (parse_bbox E v)) = Inr bbox \<and>
       F = stac_search E items (bt_get m ''collections'') bbox (bt_get m ''datetime''))"

lemma same_filters:
  assumes "\<And>k. k \<in> set filters \<Longrightarrow> bt_get m' k = bt_get m k"
  shows "found E items m' F = found E items m F" "linkable E m' = linkable E m"
proof -
  show "found E items m' F = found E items m F"
    using assms [of "''collections''"] assms [of "''bbox''"] assms [of "''datetime''"]
    by (simp add: found_def filters_def)
  show "linkable E m' = linkable E m" using assms by (simp add: linkable_def)
qed

lemma search_page_found:
  assumes "found E items m F" "page_limit m = Inr limit" "page_offset E (snapshot_of items) m = Inr start" "start \<le> length F"
  shows "search_page_of E items m = Inr \<lparr>sp_features = map si_value (take limit (drop start F)),
    sp_next = (if start + limit < length F
               then Some (next_query E (snapshot_of items) m limit (start + limit)) else None),
    sp_matched = length F\<rparr>"
proof -
  obtain bbox where bbox:
    "(case bt_get m ''bbox'' of None \<Rightarrow> Inr None | Some v \<Rightarrow> map_ok Some (parse_bbox E v)) = Inr bbox"
    "stac_search E items (bt_get m ''collections'') bbox (bt_get m ''datetime'') = F"
    using assms(1) by (auto simp: found_def)
  have "search_page_of E items m = Inr \<lparr>sp_features = map si_value (take limit (drop start F)),
    sp_next = (if start + length (take limit (drop start F)) < length F
               then Some (next_query E (snapshot_of items) m limit (start + length (take limit (drop start F)))) else None),
    sp_matched = length F\<rparr>"
    unfolding search_page_of_def bbox(1) and_then_simps Let_def bbox(2) using assms(2-4) by simp
  moreover have "start + length (take limit (drop start F)) = min (start + limit) (length F)"
    using assms(4) by simp
  ultimately show ?thesis by (simp add: min_def)
qed

lemma page_limit_positive: "page_limit m = Inr limit \<Longrightarrow> 0 < limit \<and> limit \<le> 1000"
  by (auto simp: page_limit_def ok_or_def split: option.splits if_splits)

lemma next_page_reached:
  assumes "cursors_read_back E" "ascii_is_utf8 E" "linkable E m" "found E items m F"
    and "limit \<le> 1000" "0 < limit" "start < 2 ^ 64"
  obtains m' where "query_parameters E (next_query E (snapshot_of items) m limit start) = Inr m'"
    "linkable E m'" "found E items m' F" "page_limit m' = Inr limit"
    "page_offset E (snapshot_of items) m' = Inr start"
proof -
  from next_query_read [OF assms(2,3)] obtain m' where
    read: "query_parameters E (next_query E (snapshot_of items) m limit start) = Inr m'" and
    same: "\<And>k. k \<in> set filters \<Longrightarrow> bt_get m' k = bt_get m k" and
    limit: "bt_get m' ''limit'' = Some (show_nat limit)" and
    cursor: "bt_get m' ''cursor'' = Some (encode_stac_cursor E
      \<lparr>sc_snapshot = snapshot_of items, sc_offset = of_nat start, sc_collection = bt_get m ''collections'',
       sc_bbox = bt_get m ''bbox'', sc_datetime = bt_get m ''datetime''\<rparr>)" by blast
  have "page_limit m' = Inr limit" using limit assms(5,6) by (simp add: page_limit_def ok_or_def)
  moreover have "page_offset E (snapshot_of items) m' = Inr start"
    using same [of "''collections''"] same [of "''bbox''"] same [of "''datetime''"] assms(7)
    by (simp add: page_offset_def cursor stac_cursor_text.dec_enc [OF assms(1)] filters_def unat_of_nat)
  ultimately show thesis using that read same_filters [OF same] assms(3,4) by blast
qed

lemma follow_links_from:
  assumes "cursors_read_back E" "ascii_is_utf8 E" "length F < 2 ^ 64"
  shows "linkable E m \<Longrightarrow> found E items m F \<Longrightarrow> page_limit m = Inr limit \<Longrightarrow>
    page_offset E (snapshot_of items) m = Inr start \<Longrightarrow> start \<le> length F \<Longrightarrow> length F - start < fuel \<Longrightarrow>
    follow_links fuel E items m = Inr (map si_value (drop start F))"
proof (induction fuel arbitrary: m start)
  case (Suc fuel)
  note page = search_page_found [OF Suc.prems(2-5)] and limit = page_limit_positive [OF Suc.prems(3)]
  show ?case
  proof (cases "start + limit < length F")
    case False
    then show ?thesis using page by simp
  next
    case True
    obtain m' where m': "query_parameters E (next_query E (snapshot_of items) m limit (start + limit)) = Inr m'"
      "linkable E m'" "found E items m' F" "page_limit m' = Inr limit"
      "page_offset E (snapshot_of items) m' = Inr (start + limit)"
      using next_page_reached [OF assms(1,2) Suc.prems(1,2), of limit "start + limit"] limit True assms(3) by auto
    have "follow_links fuel E items m' = Inr (map si_value (drop (start + limit) F))"
      using True limit Suc.prems(6) by (intro Suc.IH [OF m'(2-5)]) auto
    moreover have "take limit (drop start F) @ drop (start + limit) F = drop start F"
      by (metis add.commute append_take_drop_id drop_drop)
    ultimately show ?thesis using page m'(1) True by (simp flip: map_append)
  qed
qed simp


definition link_item :: "string \<Rightarrow> stac_item" where
  "link_item i =
     \<lparr>si_id = i, si_collection_id = ''n--d'', si_namespace = ''n'', si_product_id = ''d'', si_version = ''1'',
      si_manifest_revision = 1, si_bbox = (Finite 0, Finite 0, Finite 1, Finite 1), si_start = 0, si_end = 0,
      si_value = JStr i\<rparr>"


text \<open>The server does not change the project: whatever is sent to it, the files are as they were.\<close>

theorem stac_server_writes_nothing:
  "disk (snd (serve_stac E p shown ip bind_result connections w)) = disk w"
  using serve_connections_disk [of E p connections w]
  by (simp add: serve_stac_def split: sum.splits option.splits)

section \<open>Two requests that go wrong\<close>

text \<open>
  The link to the next page is not escaped: a plus sign in a filter comes back as a space, and the
  cursor no longer matches the query.
\<close>

lemma unescaped_link_is_refused:
  "and_then (query_parameters demo_ext (next_query demo_ext ''s'' [(''datetime'', ''+'')] 1 1)) (page_offset demo_ext ''s'') =
    Inl (Http_Error 409 ''cursor catalog snapshot or query changed; restart search'')"
  by code_simp

text \<open>A percent escape whose second byte begins a longer character ends the server.\<close>

definition cutting_request :: string where
  "cutting_request = ''GET /?a=%a'' @ [CHR 0xC3, CHR 0xA9] @ '' HTTP/1.1'' @ CRLF @ CRLF"

lemma percent_escape_cuts_a_character: "fst (respond demo_ext demo_project [Inr cutting_request] w) = Server_Crashed"
proof -
  have "read_request demo_ext [Inr cutting_request] =
      Inr \<lparr>hr_method = ''GET'', hr_target = ''/?a=%a'' @ [CHR 0xC3, CHR 0xA9], hr_headers = [], hr_body = []\<rparr>"
    by code_simp
  moreover have "query_parameters demo_ext (''a=%a'' @ [CHR 0xC3, CHR 0xA9]) = Inl Crashed" by code_simp
  ultimately show ?thesis by (simp add: respond_def route_request_def io_bind_def io_lift_def)
qed

end
