(* ===== verification/Guide.thy ===== *)
theory Guide
  imports Agent_Text
begin

text \<open>
  \<open>mesh_tui/src/guide.rs\<close>: the guided tutorial of the terminal interface. The curriculum is fixed;
  what the user does is observed and moves the guide on when it is what the current step expects.
  The prompts that go to the assistant are built here. An \<open>expect\<close> or \<open>unwrap\<close> that fails is \<open>None\<close>.
\<close>

section \<open>What is observed\<close>

datatype guide_command =
  G_Init | G_Project | G_Resolve | G_Filter | G_Draft_New_Table | G_Draft_New_Raster |
  G_Draft_Load | G_Draft_Set | G_Draft_Set_Assets | G_Draft_Validate | G_Draft_Save | G_Export |
  G_Publish | G_Stage | G_Withdraw | G_Recover | G_Agent_Profile | G_Agent_Draft |
  G_Integrity_Consent | G_Usage | G_Help | G_Unknown

fun from_words :: "string list \<Rightarrow> guide_command" where
  "from_words ws =
     (case ws of
        [] \<Rightarrow> G_Unknown
      | w # rest \<Rightarrow>
          if w = ''init'' then G_Init
          else if w = ''project'' then G_Project
          else if w = ''resolve'' then G_Resolve
          else if w = ''filter'' then G_Filter
          else if ws = [''draft'', ''new'', ''table''] then G_Draft_New_Table
          else if ws = [''draft'', ''new'', ''raster''] then G_Draft_New_Raster
          else if take 2 ws = [''draft'', ''load''] then G_Draft_Load
          else if take 3 ws = [''draft'', ''set'', ''/assets''] then G_Draft_Set_Assets
          else if take 2 ws = [''draft'', ''set''] then G_Draft_Set
          else if ws = [''draft'', ''validate''] then G_Draft_Validate
          else if take 2 ws = [''draft'', ''save''] then G_Draft_Save
          else if w = ''export'' then G_Export
          else if w = ''publish'' then G_Publish
          else if w = ''stage'' then G_Stage
          else if w = ''withdraw'' then G_Withdraw
          else if ws = [''recover''] then G_Recover
          else if w = ''agent-profile'' then G_Agent_Profile
          else if ws = [''agent-draft''] then G_Agent_Draft
          else if w = ''integrity-consent'' then G_Integrity_Consent
          else if ws = [''usage''] then G_Usage
          else if ws = [''help''] then G_Help
          else G_Unknown)"

fun command_label :: "guide_command \<Rightarrow> string" where
  "command_label G_Init = ''project initialization''"
| "command_label G_Project = ''project switch''"
| "command_label G_Resolve = ''pinned resolve''"
| "command_label G_Filter = ''catalog filter''"
| "command_label G_Draft_New_Table = ''new table draft''"
| "command_label G_Draft_New_Raster = ''new raster draft''"
| "command_label G_Draft_Load = ''draft load''"
| "command_label G_Draft_Set = ''draft field edit''"
| "command_label G_Draft_Set_Assets = ''explicit draft assets''"
| "command_label G_Draft_Validate = ''draft validation''"
| "command_label G_Draft_Save = ''reviewed draft save''"
| "command_label G_Export = ''reviewed export''"
| "command_label G_Publish = ''publication preparation''"
| "command_label G_Stage = ''staging preparation''"
| "command_label G_Withdraw = ''withdrawal preparation''"
| "command_label G_Recover = ''recovery reconciliation''"
| "command_label G_Agent_Profile = ''assistant profile selection''"
| "command_label G_Agent_Draft = ''draft handle exposure''"
| "command_label G_Integrity_Consent = ''one-use integrity consent''"
| "command_label G_Usage = ''assistant usage view''"
| "command_label G_Help = ''help command''"
| "command_label G_Unknown = ''unknown command''"

datatype page_direction = Next_Page | Previous_Page

datatype review_kind = R_Inspection | R_Publication | R_Staging | R_Withdrawal | R_Export

fun review_label :: "review_kind \<Rightarrow> string" where
  "review_label R_Inspection = ''inspection''"
| "review_label R_Publication = ''publication''"
| "review_label R_Staging = ''staging''"
| "review_label R_Withdrawal = ''withdrawal''"
| "review_label R_Export = ''local save/export''"

datatype guide_action =
  Help_Opened | Section_Changed string | Selection_Moved | Scrolled | Search_Opened | Search_Completed |
  Page_Attempt page_direction | Refresh_Completed | Product_Opened | Examples_Generated | Table_Previewed |
  Response_Stop_Requested | Command guide_command | Review_Opened review_kind | Review_Denied review_kind |
  Review_Confirmed review_kind | Operation_Committed review_kind | Recovery_Completed

fun action_label :: "guide_action \<Rightarrow> string" where
  "action_label Help_Opened = ''help opened''"
| "action_label (Section_Changed name) = ''selected '' @ name @ '' view''"
| "action_label Selection_Moved = ''selection moved''"
| "action_label Scrolled = ''view scrolled''"
| "action_label Search_Opened = ''search opened''"
| "action_label Search_Completed = ''search completed''"
| "action_label (Page_Attempt Next_Page) = ''next-page attempt''"
| "action_label (Page_Attempt Previous_Page) = ''previous-page attempt''"
| "action_label Refresh_Completed = ''peer refresh completed''"
| "action_label Product_Opened = ''pinned product opened''"
| "action_label Examples_Generated = ''examples generated''"
| "action_label Table_Previewed = ''table metadata previewed''"
| "action_label Response_Stop_Requested = ''assistant stop requested''"
| "action_label (Command c) = command_label c"
| "action_label (Review_Opened k) = review_label k @ '' review opened''"
| "action_label (Review_Denied k) = review_label k @ '' review denied''"
| "action_label (Review_Confirmed k) = review_label k @ '' review confirmed''"
| "action_label (Operation_Committed k) = review_label k @ '' committed''"
| "action_label Recovery_Completed = ''recovery completed''"

datatype observation_result = Success string | Failure string

record guide_observation =
  go_action :: guide_action
  go_result :: observation_result

definition SUMMARY_LIMIT :: nat where
  "SUMMARY_LIMIT = 512"

definition bound_text :: "string \<Rightarrow> string" where
  "bound_text s =
     concat (take SUMMARY_LIMIT (filter (\<lambda>c. \<not> char_is_control c \<or> char_is_whitespace c) (chars s)))"

definition sanitize_error :: "string \<Rightarrow> string" where
  "sanitize_error value =
     (let lower = to_ascii_lowercase value in
      bound_text
       (if contains_str ''validation'' lower \<or> contains_str ''invalid'' lower then ''validation failed''
        else if contains_str ''denied'' lower \<or> contains_str ''cancel'' lower
        then ''action was denied before commit''
        else if contains_str ''not found'' lower \<or> contains_str ''unavailable'' lower
        then ''required local item was unavailable''
        else if contains_str ''exists'' lower \<or> contains_str ''changed'' lower
        then ''reviewed state changed or already exists''
        else ''local action failed; inspect the status area for private details''))"

definition observed_success :: "guide_action \<Rightarrow> string \<Rightarrow> guide_observation" where
  "observed_success action summary = \<lparr>go_action = action, go_result = Success (bound_text summary)\<rparr>"

definition observed_failure :: "guide_action \<Rightarrow> string \<Rightarrow> guide_observation" where
  "observed_failure action error = \<lparr>go_action = action, go_result = Failure (sanitize_error error)\<rparr>"

definition observed_command :: "string list \<Rightarrow> bool \<Rightarrow> string \<Rightarrow> guide_observation" where
  "observed_command ws succeeded summary =
     (let action = Command (from_words ws) in
      if succeeded then observed_success action summary else observed_failure action summary)"

definition observation_summary :: "guide_observation \<Rightarrow> string" where
  "observation_summary x =
     (case go_result x of
        Success summary \<Rightarrow> ''Observed '' @ action_label (go_action x) @ '': '' @ summary
      | Failure error \<Rightarrow> ''Observed '' @ action_label (go_action x) @ '' failure: '' @ error)"

section \<open>The curriculum\<close>

datatype applicability = Always | Catalog_Data | Table_Selection | Disposable_Demo_Only

fun applicability_name :: "applicability \<Rightarrow> string" where
  "applicability_name Always = ''Always''"
| "applicability_name Catalog_Data = ''CatalogData''"
| "applicability_name Table_Selection = ''TableSelection''"
| "applicability_name Disposable_Demo_Only = ''DisposableDemoOnly''"

datatype expected_event =
  Help_Event | Any_Section | Selection | Scroll | Search_Open | Search_Result | Page page_direction |
  Refresh_Event | Product_Open | Examples | Preview | Command_Event guide_command | Opened_Event review_kind |
  Denied_Event review_kind | Committed_Event review_kind | Recovery_Event

fun event_matches :: "expected_event \<Rightarrow> guide_action \<Rightarrow> bool" where
  "event_matches e a =
     (case a of
        Help_Opened \<Rightarrow> e = Help_Event
      | Section_Changed _ \<Rightarrow> e = Any_Section
      | Selection_Moved \<Rightarrow> e = Selection
      | Scrolled \<Rightarrow> e = Scroll
      | Search_Opened \<Rightarrow> e = Search_Open
      | Search_Completed \<Rightarrow> e = Search_Result
      | Refresh_Completed \<Rightarrow> e = Refresh_Event
      | Product_Opened \<Rightarrow> e = Product_Open
      | Examples_Generated \<Rightarrow> e = Examples
      | Recovery_Completed \<Rightarrow> e = Recovery_Event
      | Table_Previewed \<Rightarrow> e = Preview
      | Page_Attempt d \<Rightarrow> e = Page d
      | Command c \<Rightarrow> e = Command_Event c
      | Review_Opened k \<Rightarrow> e = Opened_Event k
      | Review_Denied k \<Rightarrow> e = Denied_Event k
      | Operation_Committed k \<Rightarrow> e = Committed_Event k
      | Response_Stop_Requested \<Rightarrow> False
      | Review_Confirmed _ \<Rightarrow> False)"

record curriculum_step =
  cu_lesson :: nat
  cu_lesson_title :: string
  cu_id :: string
  cu_title :: string
  cu_instruction :: string
  cu_expected :: expected_event
  cu_success :: string
  cu_failure :: string
  cu_applicability :: applicability

text \<open>The macro \<open>step!\<close>.\<close>

definition guide_step ::
  "nat \<Rightarrow> string \<Rightarrow> string \<Rightarrow> string \<Rightarrow> string \<Rightarrow> expected_event \<Rightarrow> string \<Rightarrow> applicability \<Rightarrow> curriculum_step" where
  "guide_step lesson lesson_title i title instruction expected success app =
     \<lparr>cu_lesson = lesson, cu_lesson_title = lesson_title, cu_id = i, cu_title = title,
      cu_instruction = instruction, cu_expected = expected, cu_success = success,
      cu_failure = ''Check the status message, fix the problem, and try again. A failed action does not finish the lesson.'',
      cu_applicability = app\<rparr>"

definition lesson_1 :: "curriculum_step list" where
  "lesson_1 = [
   guide_step 1 ''Screen and navigation'' ''orientation.help'' ''Open Help''
     ''Press ?. Help lists every key and command. Press x whenever you want to skip one action.''
     Help_Event ''Help opened'' Always,
   guide_step 1 ''Screen and navigation'' ''orientation.tabs'' ''Change views''
     ''Press Tab once. Tab moves through Catalog, Peers, Operations, Help, Teams, Cache, Lineage, and Assistant.''
     Any_Section ''another view opened'' Always,
   guide_step 1 ''Screen and navigation'' ''orientation.scroll'' ''Scroll a view''
     ''Press PgDn or Fn+Down once. PgUp or Fn+Up scrolls back. If your terminal does not send that key, press x.''
     Scroll ''the current view received a scroll action'' Always]"

definition lesson_2 :: "curriculum_step list" where
  "lesson_2 = [
   guide_step 2 ''Search'' ''catalog.search-open'' ''Open search''
     ''Press / to open the search box.''
     Search_Open ''catalog search opened'' Always,
   guide_step 2 ''Search'' ''catalog.search'' ''Search the catalog''
     ''Type observations, then press Enter. Wait for the results.''
     Search_Result ''the local catalog returned the observations search result'' Catalog_Data,
   guide_step 2 ''Search'' ''catalog.select'' ''Move the selection''
     ''Press j or Down once. Use k or Up to move back.''
     Selection ''the selected version changed'' Catalog_Data,
   guide_step 2 ''Search'' ''catalog.page'' ''Try the next page''
     ''Press ]. Feather Mesh will say whether another page exists. [ goes back.''
     (Page Next_Page) ''the page attempt reported whether a next page exists'' Catalog_Data,
   guide_step 2 ''Search'' ''catalog.refresh'' ''Refresh peers''
     ''Press r and wait. This refreshes the peer catalog and Cache view.''
     Refresh_Event ''peer refresh completed'' Always]"

definition lesson_3 :: "curriculum_step list" where
  "lesson_3 = [
   guide_step 3 ''Open and use a product'' ''catalog.open'' ''Open a product''
     ''Press Enter. This opens the selected exact version.''
     Product_Open ''the selected pinned version resolved locally'' Catalog_Data,
   guide_step 3 ''Open and use a product'' ''product.resolve'' ''Resolve a version''
     ''Run :resolve product://climate/observations v1. This finds the exact version. It does not copy data.''
     (Command_Event G_Resolve) ''the exact reference and version resolved locally'' Catalog_Data,
   guide_step 3 ''Open and use a product'' ''product.examples'' ''Show examples''
     ''Press e. Feather Mesh shows CLI and Python examples for the selected product.''
     Examples ''CLI and Python examples were shown'' Table_Selection,
   guide_step 3 ''Open and use a product'' ''product.preview'' ''Preview the table''
     ''Press p. You will see the table size and columns.''
     Preview ''the resolver returned bounded table metadata'' Table_Selection]"

definition lesson_4 :: "curriculum_step list" where
  "lesson_4 = [
   guide_step 4 ''Filters and views'' ''views.filter'' ''Apply a filter''
     ''Run :filter '{\"text\":\"observations\",\"owner_team\":\"Climate\",\"limit\":25}'.''
     (Command_Event G_Filter) ''the supported filter parsed and the bounded catalog reloaded'' Catalog_Data,
   guide_step 4 ''Filters and views'' ''views.filter-clear'' ''Clear the filter''
     ''Run :filter '{\"limit\":25}'. This removes the text and team filters.''
     (Command_Event G_Filter) ''the filter was cleared'' Catalog_Data,
   guide_step 4 ''Filters and views'' ''views.visit'' ''Visit another view''
     ''Press Tab once. Keep using Tab later to see Peers, Operations, Teams, Cache, Lineage, Help, and Assistant.''
     Any_Section ''another view opened'' Always]"

definition lesson_5 :: "curriculum_step list" where
  "lesson_5 = [
   guide_step 5 ''Reviewed exports'' ''export.review'' ''Review an export''
     ''Run :export guide-view.txt. Feather Mesh opens a local save review. Nothing is saved yet.''
     (Opened_Event R_Export) ''the export review opened without saving'' Always,
   guide_step 5 ''Reviewed exports'' ''export.deny'' ''Cancel the export''
     ''Press n. The file is not saved. Run the command again with --overwrite only when replacing a file on purpose.''
     (Denied_Event R_Export) ''the export was denied before saving'' Always]"

definition lesson_6 :: "curriculum_step list" where
  "lesson_6 = [
   guide_step 6 ''Draft templates'' ''draft.new-table'' ''Create a table draft''
     ''Run :draft new table. This creates an empty table template.''
     (Command_Event G_Draft_New_Table) ''a table draft template was created'' Disposable_Demo_Only,
   guide_step 6 ''Draft templates'' ''draft.new-raster'' ''Create a raster draft''
     ''Run :draft new raster. This shows the raster template.''
     (Command_Event G_Draft_New_Raster) ''a raster draft template was created'' Disposable_Demo_Only,
   guide_step 6 ''Draft templates'' ''draft.load'' ''Load the demo draft''
     ''Run :draft load \"guided-product.json\". This ready draft uses real test metadata and one Parquet file.''
     (Command_Event G_Draft_Load) ''the ready demo product draft loaded'' Disposable_Demo_Only]"

definition lesson_7 :: "curriculum_step list" where
  "lesson_7 = [
   guide_step 7 ''Edit a draft'' ''draft.edit'' ''Edit one field''
     ''Run :draft set /description '\"Guided tutorial table\"'. JSON Pointer selects the field; the last argument is JSON.''
     (Command_Event G_Draft_Set) ''the description was changed'' Disposable_Demo_Only,
   guide_step 7 ''Edit a draft'' ''draft.assets'' ''Set the asset list''
     ''Run :draft set /assets '[{\"id\":\"data\",\"path\":\"datasets/guided-observations/v1/data.parquet\",\"role\":\"data\",\"media_type\":\"application/vnd.apache.parquet\"}]'. Assets must be real files under the serving directory.''
     (Command_Event G_Draft_Set_Assets) ''the explicit asset list was set'' Disposable_Demo_Only,
   guide_step 7 ''Edit a draft'' ''draft.handle'' ''Share a draft handle''
     ''Run :agent-draft. This gives the normal assistant a bounded handle to the selected draft. Guided mode still has no tools.''
     (Command_Event G_Agent_Draft) ''a bounded draft handle was registered'' Disposable_Demo_Only]"

definition lesson_8 :: "curriculum_step list" where
  "lesson_8 = [
   guide_step 8 ''Validate and save a draft'' ''draft.validation-review'' ''Open validation review''
     ''Run :draft validate. A review opens before Feather Mesh reads or hashes the file. Nothing is published yet.''
     (Opened_Event R_Inspection) ''the validation consent review opened with no publication or mutation'' Disposable_Demo_Only,
   guide_step 8 ''Validate and save a draft'' ''draft.validation-confirm'' ''Validate the product''
     ''Press y and wait. Feather Mesh checks the metadata and Parquet file. A publication review opens only if validation succeeds.''
     (Opened_Event R_Publication) ''validation succeeded and publication review opened without committing'' Disposable_Demo_Only,
   guide_step 8 ''Validate and save a draft'' ''publication.deny'' ''Close the publication review''
     ''Press n. Validation succeeded, but the product is not published.''
     (Denied_Event R_Publication) ''publication was denied and the product was not added'' Disposable_Demo_Only,
   guide_step 8 ''Validate and save a draft'' ''draft.save'' ''Review a draft save''
     ''Run :draft save guided-copy.json. This saves a working copy under .feam/drafts after review.''
     (Opened_Event R_Export) ''the draft save review opened'' Disposable_Demo_Only,
   guide_step 8 ''Validate and save a draft'' ''draft.save-deny'' ''Cancel the draft save''
     ''Press n. The working copy is not saved.''
     (Denied_Event R_Export) ''the draft save was denied'' Disposable_Demo_Only]"

definition lesson_9 :: "curriculum_step list" where
  "lesson_9 = [
   guide_step 9 ''Publish a product'' ''publication.retry'' ''Start publication''
     ''Run :publish \"guided-product.json\". A file-check review opens first.''
     (Opened_Event R_Inspection) ''a fresh inspection review opened without retained approval'' Disposable_Demo_Only,
   guide_step 9 ''Publish a product'' ''publication.revalidate'' ''Check the files''
     ''Press y and wait. Feather Mesh checks the metadata and Parquet file, then opens the publication review.''
     (Opened_Event R_Publication) ''the fresh validation succeeded and opened a new publication review'' Disposable_Demo_Only,
   guide_step 9 ''Publish a product'' ''publication.confirm'' ''Publish the product''
     ''Press y and wait. The lesson finishes only after Feather Mesh reports a committed publication with an operation ID.''
     (Committed_Event R_Publication) ''the authoritative manifest reports committed publication'' Disposable_Demo_Only]"

definition lesson_10 :: "curriculum_step list" where
  "lesson_10 = [
   guide_step 10 ''Verify the publication'' ''publication.verify'' ''Find the new product''
     ''Run :resolve product://climate/guided-observations v1. This proves the new product is registered in the manifest.''
     (Command_Event G_Resolve) ''the newly published product resolved from the authoritative manifest'' Disposable_Demo_Only]"

definition lesson_11 :: "curriculum_step list" where
  "lesson_11 = [
   guide_step 11 ''Stage a reviewed copy'' ''stage.review'' ''Open a staging review''
     ''Run :stage product://climate/guided-observations v1 \"DESTINATION\". Replace DESTINATION with a new test folder. Nothing is copied yet.''
     (Opened_Event R_Staging) ''the staging review opened without copying'' Disposable_Demo_Only,
   guide_step 11 ''Stage a reviewed copy'' ''stage.deny'' ''Deny staging once''
     ''Press n. No files are copied and the approval is discarded.''
     (Denied_Event R_Staging) ''staging was denied before commit'' Disposable_Demo_Only,
   guide_step 11 ''Stage a reviewed copy'' ''stage.review-again'' ''Open a fresh staging review''
     ''Run the same :stage command again with the same empty test folder.''
     (Opened_Event R_Staging) ''a fresh staging review opened'' Disposable_Demo_Only,
   guide_step 11 ''Stage a reviewed copy'' ''stage.confirm'' ''Confirm staging''
     ''Press y and wait. Success requires a committed result and operation ID.''
     (Committed_Event R_Staging) ''the staged copy committed'' Disposable_Demo_Only]"

definition lesson_12 :: "curriculum_step list" where
  "lesson_12 = [
   guide_step 12 ''Withdraw a product'' ''withdraw.review'' ''Open a withdrawal review''
     ''Run :withdraw product://climate/guided-observations v1 tutorial-complete. The reason stays private. Nothing changes yet.''
     (Opened_Event R_Withdrawal) ''the withdrawal review opened without changing lifecycle'' Disposable_Demo_Only,
   guide_step 12 ''Withdraw a product'' ''withdraw.deny'' ''Deny withdrawal once''
     ''Press n. The product stays active and the approval is discarded.''
     (Denied_Event R_Withdrawal) ''withdrawal was denied before commit'' Disposable_Demo_Only,
   guide_step 12 ''Withdraw a product'' ''withdraw.review-again'' ''Open a fresh withdrawal review''
     ''Run :withdraw product://climate/guided-observations v1 tutorial-complete again.''
     (Opened_Event R_Withdrawal) ''a fresh withdrawal review opened'' Disposable_Demo_Only,
   guide_step 12 ''Withdraw a product'' ''withdraw.confirm'' ''Confirm withdrawal''
     ''Press y and wait. Success requires a committed result and operation ID.''
     (Committed_Event R_Withdrawal) ''the product withdrawal committed'' Disposable_Demo_Only]"

definition lesson_13 :: "curriculum_step list" where
  "lesson_13 = [
   guide_step 13 ''Recovery and integrity'' ''controls.recover'' ''Check recovery''
     ''Run :recover. It checks unfinished journal records. It never replays a write.''
     Recovery_Event ''recovery completed without replay'' Always,
   guide_step 13 ''Recovery and integrity'' ''controls.integrity'' ''Allow one integrity check''
     ''Run :integrity-consent product://climate/observations v1. This allows one full read for this exact version.''
     (Command_Event G_Integrity_Consent) ''one exact-version integrity check was allowed'' Catalog_Data]"

definition lesson_14 :: "curriculum_step list" where
  "lesson_14 = [
   guide_step 14 ''Assistant controls'' ''controls.usage'' ''Show usage''
     ''Run :usage. Guided and normal assistant turns share this usage and cost list.''
     (Command_Event G_Usage) ''the shared usage list opened'' Always,
   guide_step 14 ''Assistant controls'' ''controls.help'' ''Review assistant controls''
     ''Run :help. Use a to ask, s to stop a response, and :guide start or :guide stop to show or hide Guide. :guide skip skips one action. :tutorial start, stop, and skip are compatibility names.''
     (Command_Event G_Help) ''assistant and guide controls were reviewed'' Always]"

definition lesson_15 :: "curriculum_step list" where
  "lesson_15 = [
   guide_step 15 ''Project and profile controls'' ''controls.context'' ''Review reset commands''
     ''Run :help once more. After the guide, :init NAMESPACE [SERVING_DIR] creates a project, :project \"ROOT\" switches projects, and :agent-profile NAME|off changes the assistant. These reset the chat and Guide, so try them afterward. :guide restart restarts lessons; reset the disposable demo before repeating writes. q exits cleanly.''
     (Command_Event G_Help) ''project, profile, restart, and exit controls were reviewed'' Always]"

definition CURRICULUM :: "curriculum_step list" where
  "CURRICULUM = concat [lesson_1, lesson_2, lesson_3, lesson_4, lesson_5, lesson_6, lesson_7, lesson_8, lesson_9, lesson_10, lesson_11, lesson_12, lesson_13, lesson_14, lesson_15]"

definition CURRICULUM_ID :: string where
  "CURRICULUM_ID = ''feam.guided-tutorial.v4''"

definition LESSON_COUNT :: nat where
  "LESSON_COUNT = 15"

definition OBSERVATION_LIMIT :: nat where
  "OBSERVATION_LIMIT = 64"

section \<open>The state of the guide\<close>

datatype guide_run_state = Explaining | Waiting | Result | Complete

datatype disposition = Advanced | Retry | Unrelated | Completed

record guide_state =
  gu_active :: bool
  gu_index :: nat
  gu_state :: guide_run_state
  gu_last_result :: "string option"
  gu_pending :: "guide_observation list"
  gu_dropped :: nat
  gu_skipped :: nat
  gu_transition :: bool

definition guide_default :: guide_state where
  "guide_default =
     \<lparr>gu_active = False, gu_index = 0, gu_state = Waiting, gu_last_result = None, gu_pending = [],
      gu_dropped = 0, gu_skipped = 0, gu_transition = False\<rparr>"

definition guide_start :: "guide_state \<Rightarrow> guide_state" where
  "guide_start g = g\<lparr>gu_active := True, gu_state := Explaining, gu_transition := False\<rparr>"

definition guide_stop :: "guide_state \<Rightarrow> guide_state" where
  "guide_stop g = g\<lparr>gu_transition := gu_active g \<or> gu_transition g, gu_active := False\<rparr>"

definition guide_restart :: "guide_state \<Rightarrow> guide_state" where
  "guide_restart g = guide_default\<lparr>gu_active := True, gu_state := Explaining\<rparr>"

definition guide_reset :: "guide_state \<Rightarrow> guide_state" where
  "guide_reset g = guide_default"

definition guide_current :: "guide_state \<Rightarrow> curriculum_step option" where
  "guide_current g = (if gu_index g < length CURRICULUM then Some (CURRICULUM ! gu_index g) else None)"

definition guide_position :: "guide_state \<Rightarrow> nat \<times> nat" where
  "guide_position g =
     (case guide_current g of None \<Rightarrow> LESSON_COUNT | Some c \<Rightarrow> cu_lesson c, LESSON_COUNT)"

definition guide_action_position :: "guide_state \<Rightarrow> nat \<times> nat" where
  "guide_action_position g =
     (case guide_current g of
        None \<Rightarrow> (0, 0)
      | Some c \<Rightarrow>
          (length (filter (\<lambda>x. cu_lesson x = cu_lesson c) (take (Suc (gu_index g)) CURRICULUM)),
           length (filter (\<lambda>x. cu_lesson x = cu_lesson c) CURRICULUM)))"

definition guide_finish_response :: "guide_state \<Rightarrow> bool \<times> guide_state" where
  "guide_finish_response g =
     (if length CURRICULUM \<le> gu_index g
      then (True, g\<lparr>gu_state := Complete, gu_active := False, gu_transition := True\<rparr>)
      else (False, g\<lparr>gu_state := Waiting\<rparr>))"

definition guide_take_transition :: "guide_state \<Rightarrow> bool \<times> guide_state" where
  "guide_take_transition g = (gu_transition g, g\<lparr>gu_transition := False\<rparr>)"

definition guide_enqueue :: "guide_observation \<Rightarrow> guide_state \<Rightarrow> guide_state" where
  "guide_enqueue x g =
     (let g = (if length (gu_pending g) = OBSERVATION_LIMIT
               then g\<lparr>gu_pending := tl (gu_pending g), gu_dropped := gu_dropped g + 1\<rparr> else g) in
      g\<lparr>gu_pending := gu_pending g @ [x]\<rparr>)"

definition guide_pop :: "guide_state \<Rightarrow> guide_observation option \<times> guide_state" where
  "guide_pop g =
     (case gu_pending g of [] \<Rightarrow> (None, g) | x # xs \<Rightarrow> (Some x, g\<lparr>gu_pending := xs\<rparr>))"

definition guide_skip :: "guide_state \<Rightarrow> curriculum_step option \<times> guide_state" where
  "guide_skip g =
     (case guide_current g of
        None \<Rightarrow> (None, g)
      | Some c \<Rightarrow>
          (Some c, g\<lparr>gu_pending := [], gu_last_result := Some (''Skipped lesson: '' @ cu_title c),
             gu_skipped := gu_skipped g + 1, gu_index := gu_index g + 1,
             gu_state := (if length CURRICULUM \<le> gu_index g + 1 then Complete else Explaining)\<rparr>))"

definition guide_apply :: "guide_observation \<Rightarrow> guide_state \<Rightarrow> disposition \<times> guide_state" where
  "guide_apply x g =
     (case guide_current g of
        None \<Rightarrow> (Completed, g\<lparr>gu_state := Complete\<rparr>)
      | Some c \<Rightarrow>
          let g = g\<lparr>gu_last_result := Some (observation_summary x), gu_state := Result\<rparr> in
          case go_result x of
            Failure _ \<Rightarrow> (Retry, g)
          | Success _ \<Rightarrow>
              if \<not> event_matches (cu_expected c) (go_action x) then (Unrelated, g)
              else
                let g = g\<lparr>gu_index := gu_index g + 1\<rparr> in
                if length CURRICULUM \<le> gu_index g then (Completed, g\<lparr>gu_state := Complete\<rparr>)
                else (Advanced, g))"

section \<open>Prompts\<close>

definition curriculum_intro :: string where
  "curriculum_intro = ''Guided curriculum '' @ CURRICULUM_ID"

definition lesson_line :: "guide_state \<Rightarrow> curriculum_step \<Rightarrow> string" where
  "lesson_line g c =
     (let (action, actions) = guide_action_position g in
      ''Lesson '' @ show_nat (cu_lesson c) @ '' of '' @ show_nat LESSON_COUNT @ '': '' @ cu_lesson_title c @
      ''. Action '' @ show_nat action @ '' of '' @ show_nat actions @ '' ['' @ cu_id c @ ''] '' @ cu_title c @
      ''. Instruction: '' @ cu_instruction c @ '' Success criterion: '' @ cu_success c)"

definition initial_prompt :: "guide_state \<Rightarrow> string option" where
  "initial_prompt g =
     (case guide_current g of
        None \<Rightarrow> None
      | Some c \<Rightarrow> Some
          (curriculum_intro @ ''. Explain only this action, then wait. Use short sentences and simple words. '' @
           ''Stay under 80 words. Do not add commands, paths, flags, results, or actions. '' @ lesson_line g c @
           '' Applicability: '' @ applicability_name (cu_applicability c) @ ''.''))"

definition skip_prompt :: "guide_state \<Rightarrow> curriculum_step \<Rightarrow> string" where
  "skip_prompt g skipped =
     (case guide_current g of
        Some c \<Rightarrow>
          curriculum_intro @ ''. The user skipped ['' @ cu_id skipped @ ''] '' @ cu_title skipped @
          ''. Do not call it completed and do not congratulate. Explain only the next action using short '' @
          ''sentences and simple words, then wait. Stay under 80 words. '' @ lesson_line g c @ ''.''
      | None \<Rightarrow>
          curriculum_intro @ ''. The user skipped the final action ['' @ cu_id skipped @ ''] '' @ cu_title skipped @
          ''. Do not call it completed. Briefly say the guide ended with '' @ show_nat (gu_skipped g) @
          '' skipped action(s). Mention that Help and the Assistant transcript are still available.'')"

definition observation_prompt :: "guide_state \<Rightarrow> guide_observation \<Rightarrow> disposition \<Rightarrow> string option" where
  "observation_prompt g x d =
     (let observed = observation_summary x in
      case d of
        Advanced \<Rightarrow>
          map_option (\<lambda>c.
            curriculum_intro @ ''. The application verified success: '' @ observed @
            ''. Briefly congratulate only for that verified result. Then explain only the next action using '' @
            ''short sentences and simple words, and wait. Stay under 80 words. Do not add commands, paths, '' @
            ''flags, results, or actions. '' @ lesson_line g c @ ''.'') (guide_current g)
      | Retry \<Rightarrow>
          map_option (\<lambda>c.
            curriculum_intro @ ''. The application observed failure: '' @ observed @
            ''. Do not congratulate or advance. Use short sentences and simple words. Explain the retry '' @
            ''without inventing details: '' @ cu_failure c @ '' Current instruction: '' @ cu_instruction c)
            (guide_current g)
      | Unrelated \<Rightarrow>
          map_option (\<lambda>c.
            curriculum_intro @ ''. The application observed an unrelated action: '' @ observed @
            ''. Use simple words. Acknowledge it briefly, do not treat it as success, then repeat only the '' @
            ''current instruction: '' @ cu_instruction c) (guide_current g)
      | Completed \<Rightarrow> Some
          (curriculum_intro @ ''. The application verified the final action: '' @ observed @
           ''. In simple words, summarize the completed command tour. Mention that ? keeps the full command '' @
           ''list and that the same Assistant is now available for normal questions with its bounded tools. '' @
           ''Stay under 100 words. Do not claim any unobserved operation.''))"

end
