(* ===== verification/Controls.thy ===== *)
theory Controls
  imports Catalog Operations Json_Value Agent_Text
begin

text \<open>
  \<open>mesh_tui/src/controls.rs\<close>: the words of a command line, quoting, generated examples, draft
  templates and patches, and the reviewed save of a draft or an export.
\<close>

definition NL :: string where "NL = [CHR 10]"

definition HELP :: string where
  "HELP = join_with NL [
     ''Keyboard: Tab menus; / search; PgUp/PgDn scroll; g start/stop guide; x skip guide lesson; q exit. Catalog: Up/Down or j/k select; Enter details; e examples; p bounded table metadata preview; [ ] pages. Lineage: Up/Down or j/k selects the version shown in its version lineage. Hosted Assistant: a compose; Up/Down or j/k scroll; PgUp/PgDn page; s stop; output remains available in the Assistant menu. Guided mode uses the same assistant conversation and usage ledger, advertises no tools, and shows a read-only Guide projection on every tab. Product views need 120 columns for the guided three-pane layout.'',
     ''Commands (quote paths with spaces):'',
     '':init NAMESPACE [SERVING_DIR]'',
     '':project \"ROOT\"'',
     '':resolve REF VERSION'',
     '':filter '{\"owner_team\":\"Climate\",\"limit\":25}'' @ [CHR 0x27],
     '':publish \"DRAFT.json\" (I/O consent then full review)'',
     '':draft new table|raster'',
     '':draft load \"DRAFT.json\"'',
     '':draft set /description '\"Known scientific facts\"'' @ [CHR 0x27],
     '':draft set /assets '[{\"id\":\"data\",\"path\":\"relative/file.parquet\",\"role\":\"data\",\"media_type\":\"application/vnd.apache.parquet\"}]'' @ [CHR 0x27],
     '':draft validate'',
     '':draft save NAME.json [--overwrite]'',
     '':export NAME.txt [--overwrite]'',
     '':stage REF VERSION \"DESTINATION\" [--overwrite]'',
     '':withdraw REF VERSION REASON'',
     '':recover'',
     '':guide start|stop|restart|skip'',
     '':tutorial start|stop|skip (compatibility aliases)'',
     '':agent-profile NAME|off'',
     '':agent-draft'',
     '':integrity-consent REF VERSION'',
     '':usage'',
     [],
     ''Drafts/exports stay in .feam/drafts or .feam/exports. Metadata editing never invents missing scientific/policy facts. Source assets are explicitly selected under the serving root. Full hashing needs local consent. Copies finish before normal shutdown. Forced loss requires reconciliation. Project/profile changes clear the shared transcript, guide state, handles, reviews, and confirmations.'',
     ''Hosted: a compose; s stop; local profile context policy controls disclosure. No shell/Python execution tools.'']"

section \<open>Words\<close>

text \<open>The state of the loop: the words so far, the word, the open quote, the escape and whether a word has begun.\<close>

record lexer =
  lx_words :: "string list"
  lx_word :: string
  lx_quote :: "string option"
  lx_escape :: bool
  lx_started :: bool

definition APOSTROPHE :: string where "APOSTROPHE = [CHR 0x27]"
definition QUOTATION :: string where "QUOTATION = [CHR 0x22]"
definition BACKSLASH :: string where "BACKSLASH = [CHR 0x5C]"

definition lex_char :: "string \<Rightarrow> lexer \<Rightarrow> lexer" where
  "lex_char c l =
     (if lx_escape l then l\<lparr>lx_word := lx_word l @ c, lx_escape := False, lx_started := True\<rparr>
      else if c = BACKSLASH \<and> lx_quote l \<noteq> Some APOSTROPHE then l\<lparr>lx_escape := True, lx_started := True\<rparr>
      else
        case lx_quote l of
          Some q \<Rightarrow>
            (if c = q then l\<lparr>lx_quote := None\<rparr> else l\<lparr>lx_word := lx_word l @ c\<rparr>)\<lparr>lx_started := True\<rparr>
        | None \<Rightarrow>
            if c = APOSTROPHE \<or> c = QUOTATION then l\<lparr>lx_quote := Some c, lx_started := True\<rparr>
            else if char_is_whitespace c then
              (if lx_started l then l\<lparr>lx_words := lx_words l @ [lx_word l], lx_word := [], lx_started := False\<rparr>
               else l)
            else l\<lparr>lx_word := lx_word l @ c, lx_started := True\<rparr>)"

definition lexer_start :: lexer where
  "lexer_start = \<lparr>lx_words = [], lx_word = [], lx_quote = None, lx_escape = False, lx_started = False\<rparr>"

definition lexer_end :: "lexer \<Rightarrow> string + string list" where
  "lexer_end l =
     (if lx_quote l \<noteq> None \<or> lx_escape l then Inl ''Unterminated quote or escape''
      else Inr (lx_words l @ (if lx_started l then [lx_word l] else [])))"

definition split_command :: "string \<Rightarrow> string + string list" where
  "split_command input = lexer_end (fold lex_char (chars input) lexer_start)"

definition shell_quote :: "string \<Rightarrow> string" where
  "shell_quote value = quote (replace_str APOSTROPHE (APOSTROPHE @ BACKSLASH @ APOSTROPHE @ APOSTROPHE) value)"

definition python_quote :: "ext \<Rightarrow> string \<Rightarrow> string" where
  "python_quote E value = json_print E (JStr value)"

section \<open>Examples and drafts\<close>

text \<open>Paths are taken as text; \<open>to_string_lossy\<close> leaves valid UTF-8 as it is.\<close>

definition example :: "ext \<Rightarrow> path \<Rightarrow> catalog_entry \<Rightarrow> string" where
  "example E directory entry =
     (let reference = python_quote E (ce_reference entry); version = python_quote E (ce_version entry) in
      join_with NL
       [''CLI (direct access):'',
        ''feam --project '' @ shell_quote directory @ '' --format json resolve '' @ shell_quote (ce_reference entry) @
          '' --version '' @ shell_quote (ce_version entry),
        [],
        ''Python SDK:'',
        ''from feam import Project'',
        ''project = Project.open('' @ python_quote E directory @ '')'',
        []] @
      join_with NL
       (case ce_data_kind entry of
          Table \<Rightarrow>
           [''query = project.scan_table('' @ reference @ '', version='' @ version @ '')'',
            ''# Native polars.LazyFrame over only registered shards'',
            ''print(query.collect())'',
            []]
        | Raster \<Rightarrow>
           [''import rasterio'',
            ''from rasterio.windows import Window'',
            ''product = project.resolve('' @ reference @ '', version='' @ version @ '')'',
            ''with rasterio.open(product.assets[0].path) as raster:'',
            ''    print(raster.read(1, window=Window(0, 0, 2, 2)))'',
            [],
            ''# STAC uses the same registered identity/inventory.'',
            ''# Start separately: feam --project ROOT stac serve --addr 127.0.0.1:8080'',
            ''# Connect with pystac_client.Client.open('' @ quote ''http://127.0.0.1:8080'' @ '').'',
            ''# The server accepts no non-loopback bind address.'',
            []]))"

definition draft_template :: "string \<Rightarrow> json" where
  "draft_template kind =
     (let texts = map (\<lambda>k. (k, JStr []))
            [''namespace'', ''product_id'', ''name'', ''version'', ''description'', ''intended_use'', ''limitations'',
             ''owner_team'', ''producer'', ''contact'', ''usage_policy'', ''classification'', ''quality''];
          table = (kind = ''table'') in
      json_object
       (texts @
        [(''schema_version'', JInt 1), (''data_kind'', JStr kind),
         (''data_format'', JStr (if table then ''parquet'' else ''geotiff'')),
         (''assets'', JArr []), (''lineage'', JArr []),
         (if table then
            (''table'', json_object [(''column_meanings'', JObj []), (''column_units'', JObj []), (''partition_columns'', JArr [])])
          else
            (''raster'', json_object [(''datetime'', JStr []), (''bbox'', JArr []), (''semantics'', JObj [])]))]))"

text \<open>
  \<open>Value::pointer_mut\<close>: the tokens of a JSON pointer, unescaped, lead through keys and indices. An
  index has neither a sign nor a leading zero.
\<close>

definition pointer_tokens :: "string \<Rightarrow> string list option" where
  "pointer_tokens pointer =
     (if pointer = [] then Some []
      else
        case split_on slash pointer of
          [] # tokens \<Rightarrow> Some (map (\<lambda>t. replace_str ''~0'' ''~'' (replace_str ''~1'' ''/'' t)) tokens)
        | _ \<Rightarrow> None)"

definition parse_index :: "string \<Rightarrow> nat option" where
  "parse_index s =
     (if starts_with ''+'' s \<or> (starts_with ''0'' s \<and> length s \<noteq> 1) then None else parse_unsigned (2 ^ 64) s)"

fun pointer_set :: "string list \<Rightarrow> json \<Rightarrow> json \<Rightarrow> json option" where
  "pointer_set [] v j = Some v"
| "pointer_set (t # ts) v j =
     (case j of
        JObj kvs \<Rightarrow>
          (case map_of kvs t of
             None \<Rightarrow> None
           | Some x \<Rightarrow>
               map_option (\<lambda>y. JObj (map (\<lambda>(k', v'). (k', if k' = t then y else v')) kvs)) (pointer_set ts v x))
      | JArr js \<Rightarrow>
          (case parse_index t of
             None \<Rightarrow> None
           | Some i \<Rightarrow>
               if i < length js then map_option (\<lambda>y. JArr (js[i := y])) (pointer_set ts v (js ! i)) else None)
      | _ \<Rightarrow> None)"

definition patch_draft :: "ext \<Rightarrow> json \<Rightarrow> string \<Rightarrow> json \<Rightarrow> string + json" where
  "patch_draft E draft pointer value =
     and_then (ensure (length (json_print E value) \<le> 64 * 1024) ''Draft patch exceeds 64 KiB'') (\<lambda>_.
     ok_or ''Use an existing JSON pointer; replace a complete object/asset array to add fields''
       (Option.bind (pointer_tokens pointer) (\<lambda>ts. pointer_set ts value draft)))"

section \<open>The reviewed save\<close>

type_synonym 'a local_io = "(world, string, 'a) io"

definition told :: "ext \<Rightarrow> 'a sys \<Rightarrow> 'a local_io" where
  "told E m = io_map_err (io_text E) m"

definition is_symlink :: "path \<Rightarrow> bool local_io" where
  "is_symlink p =
     io_bind (io_try (symlink_metadata p)) (\<lambda>r.
     io_ret (case r of Inl _ \<Rightarrow> False | Inr m \<Rightarrow> node_is_link (m_node m)))"

definition is_irregular :: "path \<Rightarrow> bool local_io" where
  "is_irregular p =
     io_bind (io_try (symlink_metadata p)) (\<lambda>r.
     io_ret (case r of Inl _ \<Rightarrow> False | Inr m \<Rightarrow> \<not> node_is_file (m_node m)))"

definition write_new :: "ext \<Rightarrow> path \<Rightarrow> string \<Rightarrow> unit local_io" where
  "write_new E p text =
     io_bind (told E (open_new 420 p)) (\<lambda>h.
     told E (io_bind (write_all h text) (\<lambda>_. sync_all)))"

definition export_temporary :: "path \<Rightarrow> nat \<Rightarrow> path" where
  "export_temporary dir pid = join dir (''.feam-export-'' @ show_nat pid)"

definition replace_file :: "ext \<Rightarrow> path \<Rightarrow> path \<Rightarrow> string \<Rightarrow> unit local_io" where
  "replace_file E dir p text =
     io_bind (\<lambda>w. (Inr (export_temporary dir (process_id w)), w)) (\<lambda>temporary.
     io_bind (told E (open_new 420 temporary)) (\<lambda>h.
     io_bind (io_try (io_bind (write_all h text) (\<lambda>_. io_bind sync_all (\<lambda>_. rename temporary p)))) (\<lambda>result.
     case result of
       Inr _ \<Rightarrow> io_ret ()
     | Inl k \<Rightarrow> io_bind (io_try (remove_file temporary)) (\<lambda>_. io_err (io_text E k)))))"

definition save_checks :: "ext \<Rightarrow> path \<Rightarrow> path \<Rightarrow> path \<Rightarrow> string \<Rightarrow> unit local_io" where
  "save_checks E directory dir p state =
     (let feam = join directory ''.feam'' in
      if \<not> (path_eq (join feam ''drafts'') dir \<or> path_eq (join feam ''exports'') dir)
      then io_err ''Save is outside local draft/export scope''
      else
        io_bind (io_for (\<lambda>d. io_bind (is_symlink d) (\<lambda>b.
          if b then io_err ''Draft/export directories cannot be symlinks'' else io_ret ())) [feam, dir]) (\<lambda>_.
        io_bind (io_map_err (error_text E) (path_state E p)) (\<lambda>now.
        if now \<noteq> state then io_err ''Save destination changed; review again''
        else
          io_bind (is_irregular p) (\<lambda>b.
          if b then io_err ''Save destination must be a regular file'' else io_ret ()))))"

definition save_local_text :: "ext \<Rightarrow> path \<Rightarrow> path \<Rightarrow> string \<Rightarrow> string \<Rightarrow> bool \<Rightarrow> unit local_io" where
  "save_local_text E directory p text state overwrite =
     io_bind (io_lift (ok_or ''Missing save parent'' (parent p))) (\<lambda>dir.
     io_bind (save_checks E directory dir p state) (\<lambda>_.
     io_bind (told E (create_dir_all dir)) (\<lambda>_.
     if \<not> overwrite then write_new E p text else replace_file E dir p text)))"

end
