(* ===== verification/Terminal_Jobs.thy ===== *)
theory Terminal_Jobs
  imports Guide Controls Journal Tools
begin

text \<open>
  The work the terminal interface hands to its worker thread (\<open>mesh_tui/src/lib.rs\<close>): each closure is
  a \<open>job\<close> here, \<open>run_job\<close> is what the closure does, and a \<open>core_update\<close> is what it sends back. With them
  the reviews, which are what the user confirms.
\<close>

section \<open>Menus and reviews\<close>

datatype menu =
  Catalog_Menu | Peers_Menu | Operations_Menu | Help_Menu | Teams_Menu | Cache_Menu | Lineage_Menu | Assistant_Menu

definition ALL_MENUS :: "menu list" where
  "ALL_MENUS =
     [Catalog_Menu, Peers_Menu, Operations_Menu, Help_Menu, Teams_Menu, Cache_Menu, Lineage_Menu, Assistant_Menu]"

fun position_in :: "'a \<Rightarrow> 'a list \<Rightarrow> nat" where
  "position_in x [] = 0"
| "position_in x (y # ys) = (if x = y then 0 else Suc (position_in x ys))"

definition menu_index :: "menu \<Rightarrow> nat" where
  "menu_index m = position_in m ALL_MENUS"

definition next_menu :: "menu \<Rightarrow> menu" where
  "next_menu m = ALL_MENUS ! ((menu_index m + 1) mod length ALL_MENUS)"

fun menu_title :: "menu \<Rightarrow> string" where
  "menu_title Catalog_Menu = ''Catalog''"
| "menu_title Peers_Menu = ''Peers''"
| "menu_title Operations_Menu = ''Operations''"
| "menu_title Help_Menu = ''Help''"
| "menu_title Teams_Menu = ''Teams''"
| "menu_title Cache_Menu = ''Cache''"
| "menu_title Lineage_Menu = ''Lineage''"
| "menu_title Assistant_Menu = ''Assistant''"

datatype review =
  Review_Publication prepared_publication | Review_Stage prepared_stage | Review_Withdrawal prepared_withdrawal |
  Review_Inspect json | Review_Save path string string bool

fun review_guide_kind :: "review \<Rightarrow> review_kind" where
  "review_guide_kind (Review_Publication _) = R_Publication"
| "review_guide_kind (Review_Stage _) = R_Staging"
| "review_guide_kind (Review_Withdrawal _) = R_Withdrawal"
| "review_guide_kind (Review_Inspect _) = R_Inspection"
| "review_guide_kind (Review_Save _ _ _ _) = R_Export"

fun review_operation_id :: "review \<Rightarrow> string" where
  "review_operation_id (Review_Publication p) = pp_operation_id p"
| "review_operation_id (Review_Stage p) = ps_operation_id p"
| "review_operation_id (Review_Withdrawal p) = pw_operation_id p"
| "review_operation_id (Review_Inspect _) = ''local-inspection''"
| "review_operation_id (Review_Save _ _ _ _) = ''local-export''"

fun review_name :: "review \<Rightarrow> string" where
  "review_name (Review_Publication _) = ''publication''"
| "review_name (Review_Stage _) = ''staging''"
| "review_name (Review_Withdrawal _) = ''withdrawal''"
| "review_name (Review_Inspect _) = ''inspection''"
| "review_name (Review_Save _ _ _ _) = ''export''"

fun review_fingerprint :: "review \<Rightarrow> string" where
  "review_fingerprint (Review_Publication p) = pp_draft_fingerprint p"
| "review_fingerprint (Review_Stage p) = ps_inventory_fingerprint p"
| "review_fingerprint (Review_Withdrawal p) = pw_configuration_fingerprint p"
| "review_fingerprint _ = ''local''"

fun review_recovery :: "review \<Rightarrow> recovery_identity option" where
  "review_recovery (Review_Publication p) = Some (recover_publication p)"
| "review_recovery (Review_Stage p) = Some (recover_stage p)"
| "review_recovery (Review_Withdrawal p) = Some (recover_withdrawal p)"
| "review_recovery _ = None"

fun review_of :: "confirmable_operation \<Rightarrow> review" where
  "review_of (Op_Publication p) = Review_Publication p"
| "review_of (Op_Stage p) = Review_Stage p"
| "review_of (Op_Withdrawal p) = Review_Withdrawal p"

fun confirmable_of :: "review \<Rightarrow> confirmable_operation option" where
  "confirmable_of (Review_Publication p) = Some (Op_Publication p)"
| "confirmable_of (Review_Stage p) = Some (Op_Stage p)"
| "confirmable_of (Review_Withdrawal p) = Some (Op_Withdrawal p)"
| "confirmable_of _ = None"

text \<open>What the user is shown before confirming.\<close>

definition ser_prepared_publication :: "prepared_publication \<Rightarrow> json" where
  "ser_prepared_publication p =
     JObj [(''operation_id'', JStr (pp_operation_id p)), (''project_root'', JStr (pp_project_root p)),
           (''configuration_fingerprint'', JStr (pp_configuration_fingerprint p)),
           (''expected_manifest_revision'', ser_word (pp_expected_manifest_revision p)),
           (''draft_fingerprint'', JStr (pp_draft_fingerprint p)),
           (''request'', ser_publication_request (pp_request p)),
           (''estimated_asset_bytes'', ser_word (pp_estimated_asset_bytes p)),
           (''validated'', ser_published_version (pp_validated p)),
           (''inventory_fingerprint'', JStr (pp_inventory_fingerprint p)),
           (''source_state'', JStr (pp_source_state p))]"

definition bool_text :: "bool \<Rightarrow> string" where
  "bool_text b = (if b then ''true'' else ''false'')"

fun review_summary :: "ext \<Rightarrow> review \<Rightarrow> string" where
  "review_summary E (Review_Publication p) =
     ''Publish '' @ show_nat (unat (pp_estimated_asset_bytes p)) @ '' bytes; exact validated metadata and inventory:'' @ NL @
     json_pretty E (ser_prepared_publication p)"
| "review_summary E (Review_Stage p) =
     join_with NL
       [''Copy '' @ show_nat (length (ps_assets p)) @ '' assets / '' @ show_nat (unat (ps_estimated_asset_bytes p)) @
          '' bytes; destination exists: '' @ bool_text (ps_destination_exists p) @ ''; overwrite: '' @ bool_text (ps_overwrite p),
        ''Destination: '' @ ps_destination p, ''Receipt: '' @ ps_receipt_path p,
        json_pretty E (ser_list ser_resolved_asset (ps_assets p))]"
| "review_summary E (Review_Withdrawal p) =
     ''Withdraw '' @ pw_reference p @ '' '' @ pw_version p @ '' at revision '' @
     show_nat (unat (pw_expected_manifest_revision p)) @ NL @ ''Reason: '' @ pw_reason p"
| "review_summary E (Review_Inspect draft) =
     ''Validate selected publication assets. This inspects formats and may hash every selected byte. No publication '' @
     ''occurs until the subsequent validated review.'' @ NL @ json_pretty E draft"
| "review_summary E (Review_Save p text state overwrite) =
     join_with NL [''Save local text to '' @ p, ''Overwrite: '' @ bool_text overwrite, text]"

section \<open>Jobs\<close>

datatype core_update =
  Up_Catalog catalog_page | Up_Refreshed catalog_page string | Up_View menu string |
  Up_Preview string int nat | Up_Review review | Up_Draft json | Up_Operation string | Up_Status string |
  Up_Recovered "string list"

text \<open>Every job begins with the project it was started for.\<close>

datatype job =
  Job_Init path string "path option" | Job_Reload path catalog_query | Job_Refresh path catalog_query |
  Job_Menu path menu | Job_Resolve path string string | Job_Preview path catalog_entry |
  Job_Load path bool | Job_Stage path string string path bool | Job_Withdraw path string string string |
  Job_Check_Save path string bool | Job_Recover | Job_Inspect path json |
  Job_Save path path string string bool | Job_Execute review

record job_env =
  je_ext :: ext
  je_journal :: path
  je_debug_str :: "string \<Rightarrow> string"

fun journal_error_text :: "ext \<Rightarrow> journal_error \<Rightarrow> string" where
  "journal_error_text E (Insecure p) = ''operation journal must be private: '' @ p"
| "journal_error_text E (Journal_Io k) = ''operation journal error: '' @ io_text E k"
| "journal_error_text E (Journal_Json e) = ''operation journal serialization error: '' @ de_error_text E e"

definition ser_resolved_product :: "resolved_product \<Rightarrow> json" where
  "ser_resolved_product x =
     JObj ([(''protocol'', JStr (rs_protocol x)), (''namespace'', JStr (rs_namespace x)),
            (''product_id'', JStr (rs_product_id x)), (''version'', JStr (rs_version x)),
            (''manifest_revision'', ser_word (rs_manifest_revision x)),
            (''data_kind'', ser_data_kind (rs_data_kind x)), (''data_format'', ser_data_format (rs_data_format x)),
            (''assets'', ser_list ser_resolved_asset (rs_assets x)), (''description'', JStr (rs_description x)),
            (''intended_use'', JStr (rs_intended_use x)), (''limitations'', JStr (rs_limitations x)),
            (''owner_team'', JStr (rs_owner_team x)), (''producer'', JStr (rs_producer x)),
            (''contact'', JStr (rs_contact x)), (''usage_policy'', JStr (rs_usage_policy x)),
            (''classification'', JStr (rs_classification x)), (''quality'', JStr (rs_quality x)),
            (''lineage'', ser_list ser_lineage_reference (rs_lineage x))] @
           skip_none ''table'' ser_table_descriptor (rs_table x) @
           skip_none ''raster'' ser_raster_descriptor (rs_raster x) @
           [(''cache_refreshed_at'', ser_option JStr (rs_cache_refreshed_at x)),
            (''freshness'', JStr (rs_freshness x)), (''integrity_verified'', JBool (rs_integrity_verified x))])"

definition ser_publication_response :: "publication_response \<Rightarrow> json" where
  "ser_publication_response x =
     JObj [(''protocol'', JStr (resp_protocol x)), (''reference'', JStr (resp_reference x)),
           (''version'', JStr (resp_version x)), (''manifest_revision'', ser_word (resp_manifest_revision x)),
           (''status'', JStr (resp_status x))]"

text \<open>A result whose value is JSON already, and its \<open>to_value\<close>.\<close>

definition with_json :: "('a \<Rightarrow> json) \<Rightarrow> 'a operation_result \<Rightarrow> json operation_result" where
  "with_json ser r =
     \<lparr>or_operation_id = or_operation_id r, or_state = or_state r,
      or_result = map_option (\<lambda>x. to_value (ser x)) (or_result r), or_error_kind = or_error_kind r,
      or_message = or_message r\<rparr>"

definition ser_operation_result :: "json operation_result \<Rightarrow> json" where
  "ser_operation_result r =
     json_object ([(''operation_id'', JStr (or_operation_id r)), (''state'', ser_operation_state (or_state r))] @
       skip_none ''result'' id (or_result r) @ skip_none ''error_kind'' JStr (or_error_kind r) @
       skip_none ''message'' JStr (or_message r))"

definition peer_io :: "ext \<Rightarrow> 'a peer \<Rightarrow> 'a local_io" where
  "peer_io E m = io_map_err (error_text E) m"

definition journal_io :: "ext \<Rightarrow> 'a journal \<Rightarrow> 'a local_io" where
  "journal_io E m = io_map_err (journal_error_text E) m"

fun execute_review :: "ext \<Rightarrow> review \<Rightarrow> json operation_result local_io" where
  "execute_review E (Review_Publication p) =
     io_bind (peer_io E (execute_publication E p)) (\<lambda>r. io_ret (with_json ser_publication_response r))"
| "execute_review E (Review_Stage p) =
     io_bind (peer_io E (execute_stage E p)) (\<lambda>r. io_ret (with_json ser_stage_receipt r))"
| "execute_review E (Review_Withdrawal p) =
     io_bind (peer_io E (execute_withdrawal E p)) (\<lambda>r. io_ret (with_json ser_publication_response r))"
| "execute_review E _ = io_err ''Worker panicked; any mutation outcome requires reconciliation.''"

text \<open>What is reported when the journal could not record the outcome.\<close>

definition followup_report :: "ext \<Rightarrow> journal_error \<Rightarrow> json operation_result \<Rightarrow> json" where
  "followup_report E e r =
     (let state = (if or_state r = Committed then JStr ''committed_with_followup_error''
                   else ser_operation_state (or_state r)) in
      case ser_operation_result r of
        JObj kvs \<Rightarrow>
          JObj (set_key ''journal_followup_error''
            (JStr (journal_error_text E e @ ''; reconcile before retry'')) (set_key ''state'' state kvs))
      | j \<Rightarrow> j)"

definition mutation_job :: "job_env \<Rightarrow> review \<Rightarrow> core_update local_io" where
  "mutation_job V r =
     (let E = je_ext V in
      io_bind (io_map_err (\<lambda>e. ''No mutation started: '' @ journal_error_text E e)
        (record_recoverable_intent E (je_journal V) (review_operation_id r) (review_name r)
          (review_fingerprint r) (review_recovery r))) (\<lambda>intent.
      io_bind (execute_review E r) (\<lambda>result.
      io_bind (io_try (record_outcome E id (je_journal V) intent result)) (\<lambda>recorded.
      io_ret (Up_Operation (json_print E
        (case recorded of Inr _ \<Rightarrow> ser_operation_result result | Inl e \<Rightarrow> followup_report E e result)))))))"

definition debug_outcome :: "job_env \<Rightarrow> string + operation_state option \<Rightarrow> string" where
  "debug_outcome V r =
     (case r of
        Inl e \<Rightarrow> ''Err('' @ je_debug_str V e @ '')''
      | Inr None \<Rightarrow> ''Ok(None)''
      | Inr (Some st) \<Rightarrow>
          ''Ok(Some('' @
          (case st of
             Committed \<Rightarrow> ''Committed'' | FailedBeforeCommit \<Rightarrow> ''FailedBeforeCommit''
           | CommittedWithFollowupError \<Rightarrow> ''CommittedWithFollowupError'' | OutcomeUnknown \<Rightarrow> ''OutcomeUnknown'') @
          ''))'')"

definition recover_job :: "job_env \<Rightarrow> core_update local_io" where
  "recover_job V =
     (let E = je_ext V in
      io_bind (journal_io E (pending E (je_journal V))) (\<lambda>intents.
      io_bind (io_traverse (\<lambda>intent.
        io_bind (io_try (case ji_recovery intent of
                           None \<Rightarrow> io_ret None
                         | Some i \<Rightarrow> io_bind (peer_io E (reconcile E i)) (\<lambda>st. io_ret (Some st)))) (\<lambda>outcome.
        io_ret (ji_operation_id intent @ '': '' @ debug_outcome V outcome @
          ''. Observed current state; no approval retained and no retry performed.''))) intents) (\<lambda>records.
      io_ret (Up_Recovered records))))"

definition DRAFT_LIMIT :: nat where "DRAFT_LIMIT = 1024 * 1024"

definition load_job :: "ext \<Rightarrow> path \<Rightarrow> bool \<Rightarrow> core_update local_io" where
  "load_job E p for_review =
     io_bind (told E (sys_read p)) (\<lambda>bytes.
     if DRAFT_LIMIT < length bytes then io_err ''Draft exceeds 1 MiB''
     else
       io_bind (io_lift (map_err (de_error_text E) (json_parse E bytes))) (\<lambda>value.
       io_ret (if for_review then Up_Review (Review_Inspect (to_value value)) else Up_Draft (to_value value))))"

definition preview_text :: "ext \<Rightarrow> catalog_entry \<Rightarrow> table_descriptor \<Rightarrow> string" where
  "preview_text E entry table =
     join_with NL
       [''Pinned table preview'', ''reference: '' @ ce_reference entry, ''version: '' @ ce_version entry,
        ''rows: '' @ show_int (sint (td_row_count table)), ''columns: '' @ show_nat (length (td_columns table)),
        ''schema:'', json_pretty E (ser_btree JStr (td_columns table))]"

fun run_job :: "job_env \<Rightarrow> job \<Rightarrow> core_update local_io" where
  "run_job V (Job_Init directory ns serving) =
     io_bind (peer_io (je_ext V) (init (je_ext V) directory ns serving)) (\<lambda>_.
     io_ret (Up_Status ''Project initialized; press r to load.''))"
| "run_job V (Job_Reload directory q) =
     io_bind (io_map_err (\<lambda>e. error_text (je_ext V) e @
         ''. To initialize deliberately use :init NAMESPACE [SERVING_DIR].'') (open_project (je_ext V) directory)) (\<lambda>p.
     io_bind (peer_io (je_ext V) (query_catalog (je_ext V) p q)) (\<lambda>page. io_ret (Up_Catalog page)))"
| "run_job V (Job_Refresh directory q) =
     io_bind (peer_io (je_ext V) (open_project (je_ext V) directory)) (\<lambda>p.
     io_bind (peer_io (je_ext V) (refresh (je_ext V) p)) (\<lambda>snapshot.
     io_bind (peer_io (je_ext V) (query_catalog (je_ext V) p q)) (\<lambda>page.
     io_ret (Up_Refreshed page (json_pretty (je_ext V) (ser_cache_snapshot snapshot))))))"
| "run_job V (Job_Menu directory m) =
     io_bind (peer_io (je_ext V) (open_project (je_ext V) directory)) (\<lambda>p.
     io_bind (if m = Teams_Menu
              then io_bind (peer_io (je_ext V) (catalog_teams (je_ext V) p)) (\<lambda>ts. io_ret (ser_list JStr ts))
              else io_bind (peer_io (je_ext V) (cache_status (je_ext V) p)) (\<lambda>c.
                io_ret (to_value (ser_option ser_cache_snapshot c)))) (\<lambda>value.
     io_ret (Up_View m (json_pretty (je_ext V) value))))"
| "run_job V (Job_Resolve directory ref version) =
     io_bind (peer_io (je_ext V) (open_project (je_ext V) directory)) (\<lambda>p.
     io_bind (peer_io (je_ext V) (resolve (je_ext V) p ref version None False)) (\<lambda>product.
     io_ret (Up_View Catalog_Menu (json_pretty (je_ext V) (ser_resolved_product product)))))"
| "run_job V (Job_Preview directory entry) =
     io_bind (peer_io (je_ext V) (open_project (je_ext V) directory)) (\<lambda>p.
     io_bind (peer_io (je_ext V) (resolve (je_ext V) p (ce_reference entry) (ce_version entry) None False)) (\<lambda>product.
     case rs_table product of
       None \<Rightarrow> io_err ''Selected registered version is not a table''
     | Some table \<Rightarrow>
         io_ret (Up_Preview (preview_text (je_ext V) entry table) (sint (td_row_count table)) (length (td_columns table)))))"
| "run_job V (Job_Load p for_review) = load_job (je_ext V) p for_review"
| "run_job V (Job_Stage directory ref version destination overwrite) =
     io_bind (peer_io (je_ext V) (prepare_stage (je_ext V) directory ref version destination overwrite)) (\<lambda>p.
     io_ret (Up_Review (Review_Stage p)))"
| "run_job V (Job_Withdraw directory ref version reason) =
     io_bind (peer_io (je_ext V) (prepare_withdrawal (je_ext V) directory ref version reason)) (\<lambda>p.
     io_ret (Up_Review (Review_Withdrawal p)))"
| "run_job V (Job_Check_Save p text overwrite) =
     io_bind (peer_io (je_ext V) (path_state (je_ext V) p)) (\<lambda>state.
     io_bind (path_exists p) (\<lambda>exists.
     if exists \<and> \<not> overwrite then io_err ''File exists; explicit --overwrite required.''
     else io_ret (Up_Review (Review_Save p text state overwrite))))"
| "run_job V Job_Recover = recover_job V"
| "run_job V (Job_Inspect directory value) =
     io_bind (io_lift (map_err (\<lambda>e. ''Incomplete/invalid draft: '' @ de_error_text (je_ext V) e)
       (de_publication_request value))) (\<lambda>request.
     io_bind (peer_io (je_ext V) (prepare_publication (je_ext V) directory request)) (\<lambda>p.
     io_ret (Up_Review (Review_Publication p))))"
| "run_job V (Job_Save directory p text state overwrite) =
     io_bind (save_local_text (je_ext V) directory p text state overwrite) (\<lambda>_.
     io_ret (Up_Status (''Saved '' @ p)))"
| "run_job V (Job_Execute r) = mutation_job V r"

end
