(* ===== verification/Transcript.thy ===== *)
theory Transcript
  imports Agent_Text
begin

text \<open>
  The Assistant menu of \<open>mesh_tui/src/lib.rs\<close>: what is shown of external text, and the transcript,
  which keeps the newest entries within a limit.
\<close>

definition REPLACEMENT :: string where "REPLACEMENT = [CHR 0xEF, CHR 0xBF, CHR 0xBD]"

definition sanitize_char :: "string \<Rightarrow> string" where
  "sanitize_char c = (if c = [CHR 10] \<or> c = [CHR 9] \<or> \<not> char_is_control c then c else REPLACEMENT)"

definition sanitize_terminal_text :: "string \<Rightarrow> string" where
  "sanitize_terminal_text s = concat (map sanitize_char (chars s))"

record transcript_entry =
  te_user :: "string option"
  te_response :: string
  te_complete :: bool

record assistant_view =
  av_entries :: "transcript_entry list"
  av_scroll_back :: "16 word"
  av_unread :: bool
  av_evicted :: bool
  av_export_text :: "string option"

definition view_default :: assistant_view where
  "view_default =
     \<lparr>av_entries = [], av_scroll_back = 0, av_unread = False, av_evicted = False, av_export_text = None\<rparr>"

definition ASSISTANT_TRANSCRIPT_LIMIT :: nat where
  "ASSISTANT_TRANSCRIPT_LIMIT = 1024 * 1024"

definition ASSISTANT_EVICTION_NOTICE :: string where
  "ASSISTANT_EVICTION_NOTICE = ''[Older assistant entries were removed to keep this view bounded.]''"

definition BLANK_LINE :: string where "BLANK_LINE = [CHR 10, CHR 10]"

definition entry_len :: "transcript_entry \<Rightarrow> nat" where
  "entry_len x = (case te_user x of None \<Rightarrow> 0 | Some u \<Rightarrow> length u + 7) + length (te_response x) + 2"

definition entries_len :: "bool \<Rightarrow> transcript_entry list \<Rightarrow> nat" where
  "entries_len evicted es =
     sum_list (map entry_len es) + (if evicted then length ASSISTANT_EVICTION_NOTICE + 2 else 0)"

definition rendered_len :: "assistant_view \<Rightarrow> nat" where
  "rendered_len v = entries_len (av_evicted v) (av_entries v)"

fun evict :: "bool \<Rightarrow> transcript_entry list \<Rightarrow> bool \<times> transcript_entry list" where
  "evict evicted (x # y # es) =
     (if ASSISTANT_TRANSCRIPT_LIMIT < entries_len evicted (x # y # es) \<and> te_complete x
      then evict True (y # es) else (evicted, x # y # es))"
| "evict evicted es = (evicted, es)"

definition enforce_limit :: "assistant_view \<Rightarrow> assistant_view" where
  "enforce_limit v =
     (let (evicted, es) = evict (av_evicted v) (av_entries v) in v\<lparr>av_evicted := evicted, av_entries := es\<rparr>)"

text \<open>The last entry, when it is still open.\<close>

definition open_entry :: "assistant_view \<Rightarrow> (transcript_entry list \<times> transcript_entry) option" where
  "open_entry v =
     (if av_entries v \<noteq> [] \<and> \<not> te_complete (last (av_entries v))
      then Some (butlast (av_entries v), last (av_entries v)) else None)"

definition view_begin :: "string \<Rightarrow> assistant_view \<Rightarrow> assistant_view" where
  "view_begin user v =
     enforce_limit (v\<lparr>av_entries := av_entries v @
         [\<lparr>te_user = Some (sanitize_terminal_text user),
           te_response = ''Assistant request in progress'' @ [CHR 0xE2, CHR 0x80, CHR 0xA6],
           te_complete = False\<rparr>],
       av_scroll_back := 0, av_unread := False, av_export_text := None\<rparr>)"

definition view_stream :: "string \<Rightarrow> assistant_view \<Rightarrow> assistant_view" where
  "view_stream text v =
     (case open_entry v of
        None \<Rightarrow> v
      | Some (es, x) \<Rightarrow>
          v\<lparr>av_entries := es @ [x\<lparr>te_response :=
              ''Assistant (streaming; text is unverified until tool evidence):'' @ [CHR 10] @
              sanitize_terminal_text text\<rparr>]\<rparr>)"

definition view_finish :: "string \<Rightarrow> bool \<Rightarrow> assistant_view \<Rightarrow> assistant_view" where
  "view_finish text visible v =
     (let es = (case open_entry v of
                  Some (es, x) \<Rightarrow> es @ [x\<lparr>te_response := sanitize_terminal_text text, te_complete := True\<rparr>]
                | None \<Rightarrow> av_entries v @
                    [\<lparr>te_user = None, te_response = sanitize_terminal_text text, te_complete = True\<rparr>]) in
      enforce_limit (v\<lparr>av_export_text := None, av_entries := es, av_unread := \<not> visible\<rparr>))"

definition view_cancel :: "bool \<Rightarrow> assistant_view \<Rightarrow> assistant_view" where
  "view_cancel visible v =
     (case open_entry v of
        None \<Rightarrow> v
      | Some (es, x) \<Rightarrow>
          v\<lparr>av_entries := es @ [x\<lparr>te_response := te_response x @ BLANK_LINE @ ''[Assistant request cancelled]'',
              te_complete := True\<rparr>],
            av_unread := \<not> visible\<rparr>)"

definition view_push_local :: "string \<Rightarrow> string \<Rightarrow> bool \<Rightarrow> assistant_view \<Rightarrow> assistant_view" where
  "view_push_local label text visible v =
     enforce_limit (v\<lparr>av_export_text := Some text,
       av_entries := av_entries v @
         [\<lparr>te_user = None, te_response = sanitize_terminal_text (label @ '':'' @ [CHR 10] @ text), te_complete = True\<rparr>],
       av_scroll_back := 0, av_unread := \<not> visible\<rparr>)"

definition rendered_entry :: "transcript_entry \<Rightarrow> string" where
  "rendered_entry x =
     (case te_user x of None \<Rightarrow> [] | Some u \<Rightarrow> ''You:'' @ [CHR 10] @ u @ BLANK_LINE) @ te_response x"

definition rendered :: "assistant_view \<Rightarrow> string" where
  "rendered v =
     (if av_evicted v then ASSISTANT_EVICTION_NOTICE @ BLANK_LINE else []) @
     join_with BLANK_LINE (map rendered_entry (av_entries v))"

end
