(* ===== verification/Capture.thy ===== *)
theory Capture
  imports Json_Value Ext Agent_Text
begin

text \<open>
  \<open>mesh_tui/src/capture.rs\<close>: the events a research session reports. The channel to the worker holds
  32 events; an event that does not fit is a gap, and a gap stops new operations for good. Random
  bytes and times are what the process draws: \<open>cap_random\<close> and \<open>cap_now\<close>, counted.
\<close>

section \<open>Configuration\<close>

record capture_config =
  cc_socket :: path
  cc_capability_file :: path
  cc_deployment_id :: string
  cc_workspace_id :: string
  cc_generation :: "64 word"
  cc_participant_id :: string
  cc_software_sha256 :: string
  cc_profile_sha256 :: string
  cc_dataset_sha256 :: string
  cc_synthetic :: bool

definition de_capture_config :: "json \<Rightarrow> capture_config de" where
  "de_capture_config j =
     and_then (object_fields True
       [''socket'', ''capability_file'', ''deployment_id'', ''workspace_id'', ''generation'', ''participant_id'',
        ''software_sha256'', ''profile_sha256'', ''dataset_sha256'', ''synthetic''] j) (\<lambda>kvs.
     and_then (field ''socket'' de_string kvs) (\<lambda>x0.
     and_then (field ''capability_file'' de_string kvs) (\<lambda>x1.
     and_then (field ''deployment_id'' de_string kvs) (\<lambda>x2.
     and_then (field ''workspace_id'' de_string kvs) (\<lambda>x3.
     and_then (field ''generation'' de_word kvs) (\<lambda>x4.
     and_then (field ''participant_id'' de_string kvs) (\<lambda>x5.
     and_then (field ''software_sha256'' de_string kvs) (\<lambda>x6.
     and_then (field ''profile_sha256'' de_string kvs) (\<lambda>x7.
     and_then (field ''dataset_sha256'' de_string kvs) (\<lambda>x8.
     and_then (field_default ''synthetic'' False de_bool kvs) (\<lambda>x9.
     Inr \<lparr>cc_socket = x0, cc_capability_file = x1, cc_deployment_id = x2, cc_workspace_id = x3,
          cc_generation = x4, cc_participant_id = x5, cc_software_sha256 = x6, cc_profile_sha256 = x7,
          cc_dataset_sha256 = x8, cc_synthetic = x9\<rparr>)))))))))))"

text \<open>A file nobody but its owner can write and nobody but owner and group can look at: \<open>0o027\<close> is 23.\<close>

definition private_bytes :: "path \<Rightarrow> (world, unit, string) io" where
  "private_bytes p =
     io_map_err (\<lambda>_. ()) (
     io_bind (symlink_metadata p) (\<lambda>m.
     if \<not> node_is_file (m_node m) \<or> 16 * 1024 < m_len m \<or> Bit_Operations.and (m_mode m) 23 \<noteq> 0
     then io_err KOther
     else sys_read p))"

definition lowercase_hex :: "char \<Rightarrow> bool" where
  "lowercase_hex c \<longleftrightarrow> is_ascii_digit c \<or> (97 \<le> (of_char c :: nat) \<and> (of_char c :: nat) \<le> 102)"

definition valid_id :: "string \<Rightarrow> bool" where
  "valid_id s \<longleftrightarrow>
     length s = 36 \<and>
     list_all (\<lambda>(i, c). if i \<in> {8, 13, 18, 23} then c = CHR ''-'' else lowercase_hex c) (zip [0..<length s] s)"

definition digest_id :: "ext \<Rightarrow> string \<Rightarrow> string" where
  "digest_id E s =
     (let h = hex_digest E s in
      take 8 h @ ''-'' @ take 4 (drop 8 h) @ ''-4'' @ take 3 (drop 13 h) @ ''-a'' @ take 3 (drop 17 h) @
      ''-'' @ take 12 (drop 20 h))"

section \<open>State\<close>

datatype capture_state = Capture_Off | Connecting | Capture_Ready | Capture_Failed

text \<open>
  \<open>cap_queue\<close> is the channel and \<open>cap_hand\<close> the event the worker is submitting; \<open>cap_pending\<close> is the
  counter that both sides keep.
\<close>

record capture =
  cap_config :: "capture_config option"
  cap_state :: capture_state
  cap_lost :: bool
  cap_pending :: nat
  cap_conversation :: string
  cap_stream :: string
  cap_request :: string
  cap_sequence :: nat
  cap_queue :: "json list"
  cap_hand :: "json option"
  cap_random :: "nat \<Rightarrow> string option"
  cap_drawn :: nat
  cap_now :: "nat \<Rightarrow> string"

definition capture_disabled :: "(nat \<Rightarrow> string option) \<Rightarrow> (nat \<Rightarrow> string) \<Rightarrow> capture" where
  "capture_disabled random now =
     \<lparr>cap_config = None, cap_state = Capture_Off, cap_lost = False, cap_pending = 0, cap_conversation = [],
      cap_stream = [], cap_request = [], cap_sequence = 0, cap_queue = [], cap_hand = None,
      cap_random = random, cap_drawn = 0, cap_now = now\<rparr>"

definition random_id :: "ext \<Rightarrow> capture \<Rightarrow> string option \<times> capture" where
  "random_id E c = (map_option (digest_id E) (cap_random c (cap_drawn c)), c\<lparr>cap_drawn := Suc (cap_drawn c)\<rparr>)"

definition capture_ready :: "capture \<Rightarrow> bool" where
  "capture_ready c \<longleftrightarrow> \<not> cap_lost c \<and> (cap_state c = Capture_Off \<or> cap_state c = Capture_Ready)"

definition capture_status :: "capture \<Rightarrow> string" where
  "capture_status c =
     (if cap_lost c then ''recording gap; new actions paused''
      else
        case cap_state c of
          Capture_Off \<Rightarrow> ''recording off''
        | Connecting \<Rightarrow> ''recording connecting; new actions paused''
        | Capture_Ready \<Rightarrow> ''recording structured events''
        | Capture_Failed \<Rightarrow> ''recording unavailable; new actions paused'')"

definition CHANNEL_CAPACITY :: nat where "CHANNEL_CAPACITY = 32"

definition tool_name_ok :: "string \<Rightarrow> bool" where
  "tool_name_ok tool \<longleftrightarrow>
     length tool \<le> 64 \<and> list_all (\<lambda>c. is_ascii_alphanumeric c \<or> c = CHR ''.'' \<or> c = CHR ''_'') tool"

definition event_payload :: "string \<Rightarrow> string \<Rightarrow> string option \<Rightarrow> json" where
  "event_payload tool decision outcome =
     json_object
       [(''tool'', JStr (if tool_name_ok tool then tool else ''unknown_tool'')), (''decision'', JStr decision),
        (''outcome'', JStr (case outcome of None \<Rightarrow> [] | Some s \<Rightarrow> s))]"

definition capture_event ::
  "ext \<Rightarrow> capture_config \<Rightarrow> capture \<Rightarrow> string \<Rightarrow> string \<Rightarrow> string \<Rightarrow> string option \<Rightarrow> string option \<Rightarrow> json" where
  "capture_event E cfg c kind tool decision operation outcome =
     (let payload = event_payload tool decision outcome in
      json_object
       [(''protocol'', JStr ''feam.web.event.v1''),
        (''event_id'', JStr (digest_id E (cap_stream c @ '':'' @ show_nat (cap_sequence c)))),
        (''stream_id'', JStr (cap_stream c)), (''sequence'', JInt (int (cap_sequence c))),
        (''deployment_id'', JStr (cc_deployment_id cfg)), (''workspace_id'', JStr (cc_workspace_id cfg)),
        (''generation'', JInt (uint (cc_generation cfg))), (''participant_id'', JStr (cc_participant_id cfg)),
        (''conversation_id'', JStr (cap_conversation c)), (''request_id'', JStr (cap_request c)),
        (''proposal_id'', ser_option JStr
          (map_option (\<lambda>i. digest_id E (cap_conversation c @ '':'' @ i)) operation)),
        (''occurred_at'', JStr (cap_now c (cap_sequence c))), (''kind'', JStr kind),
        (''trust'', JStr ''client_reported''), (''software_sha256'', JStr (cc_software_sha256 cfg)),
        (''profile_sha256'', JStr (cc_profile_sha256 cfg)), (''dataset_sha256'', JStr (cc_dataset_sha256 cfg)),
        (''payload_sha256'', JStr (hex_digest E (json_print E payload))), (''payload'', payload),
        (''synthetic'', JBool (cc_synthetic cfg))])"

text \<open>Without a configuration there is no channel, and nothing is emitted.\<close>

definition capture_emit ::
  "ext \<Rightarrow> string \<Rightarrow> string \<Rightarrow> string \<Rightarrow> string option \<Rightarrow> string option \<Rightarrow> capture \<Rightarrow> capture" where
  "capture_emit E kind tool decision operation outcome c =
     (case cap_config c of
        None \<Rightarrow> c
      | Some cfg \<Rightarrow>
          let c = c\<lparr>cap_sequence := Suc (cap_sequence c)\<rparr> in
          if length (cap_queue c) < CHANNEL_CAPACITY
          then c\<lparr>cap_pending := Suc (cap_pending c),
                 cap_queue := cap_queue c @ [capture_event E cfg c kind tool decision operation outcome]\<rparr>
          else c\<lparr>cap_lost := True\<rparr>)"

definition begin_request :: "ext \<Rightarrow> capture \<Rightarrow> string option \<times> capture" where
  "begin_request E c =
     (if \<not> capture_ready c \<or> cap_config c = None then (None, c)
      else
        case random_id E c of
          (Some i, c) \<Rightarrow> (Some i, c\<lparr>cap_request := i\<rparr>)
        | (None, c) \<Rightarrow> (None, c\<lparr>cap_lost := True\<rparr>))"

definition provider_request :: "ext \<Rightarrow> string \<Rightarrow> capture \<Rightarrow> capture" where
  "provider_request E i c =
     (if valid_id i then capture_emit E ''request'' ''model'' ''dispatched'' None None (c\<lparr>cap_request := i\<rparr>) else c)"

definition config_ok :: "capture_config \<Rightarrow> bool" where
  "config_ok cfg \<longleftrightarrow>
     is_absolute (cc_socket cfg) \<and> is_absolute (cc_capability_file cfg) \<and> cc_generation cfg \<noteq> 0 \<and>
     list_all valid_id [cc_deployment_id cfg, cc_workspace_id cfg, cc_participant_id cfg] \<and>
     list_all (\<lambda>v. length v = 64 \<and> list_all lowercase_hex v)
       [cc_software_sha256 cfg, cc_profile_sha256 cfg, cc_dataset_sha256 cfg]"

definition capture_start ::
  "ext \<Rightarrow> (nat \<Rightarrow> string option) \<Rightarrow> (nat \<Rightarrow> string) \<Rightarrow> capture_config \<Rightarrow> capture option" where
  "capture_start E random now cfg =
     (if \<not> config_ok cfg then None
      else
        case (map (\<lambda>i. map_option (digest_id E) (random i)) [0, 1, 2]) of
          [Some conversation, Some stream, Some request] \<Rightarrow>
            Some (capture_emit E ''request'' ''session'' ''started'' None None
              ((capture_disabled random now)\<lparr>cap_conversation := conversation, cap_stream := stream,
                 cap_request := request, cap_drawn := 3, cap_config := Some cfg, cap_state := Connecting\<rparr>))
        | _ \<Rightarrow> None)"

definition capture_from_environment ::
  "ext \<Rightarrow> path option \<Rightarrow> (nat \<Rightarrow> string option) \<Rightarrow> (nat \<Rightarrow> string) \<Rightarrow> world \<Rightarrow> capture \<times> world" where
  "capture_from_environment E var random now w =
     (case var of
        None \<Rightarrow> (capture_disabled random now, w)
      | Some p \<Rightarrow>
          let failed = (capture_disabled random now)\<lparr>cap_state := Capture_Failed\<rparr> in
          (case private_bytes p w of
             (Inl _, w') \<Rightarrow> (failed, w')
           | (Inr bytes, w') \<Rightarrow>
               (case and_then (json_parse E bytes) de_capture_config of
                  Inl _ \<Rightarrow> (failed, w')
                | Inr cfg \<Rightarrow> (case capture_start E random now cfg of None \<Rightarrow> failed | Some c \<Rightarrow> c, w'))))"

text \<open>What \<open>finish\<close> reports when it has waited: all is acknowledged and nothing was lost.\<close>

definition capture_complete :: "capture \<Rightarrow> bool" where
  "capture_complete c \<longleftrightarrow> cap_pending c = 0 \<and> \<not> cap_lost c"

section \<open>The worker\<close>

definition worker_takes :: "capture \<Rightarrow> capture" where
  "worker_takes c =
     (case (cap_hand c, cap_queue c) of
        (None, e # es) \<Rightarrow> c\<lparr>cap_hand := Some e, cap_queue := es\<rparr>
      | _ \<Rightarrow> c)"

definition worker_submitted :: "unit + bool \<Rightarrow> capture \<Rightarrow> capture" where
  "worker_submitted result c =
     (case cap_hand c of
        None \<Rightarrow> c
      | Some _ \<Rightarrow>
          (case result of
             Inl _ \<Rightarrow> c\<lparr>cap_state := Capture_Failed\<rparr>
           | Inr gap \<Rightarrow>
               c\<lparr>cap_lost := cap_lost c \<or> gap, cap_pending := cap_pending c - 1, cap_state := Capture_Ready,
                 cap_hand := None\<rparr>))"

section \<open>Submission\<close>

definition HEAD_END :: string where "HEAD_END = [CHR 0x0D, CHR 0x0A, CHR 0x0D, CHR 0x0A]"

text \<open>\<open>str::lines\<close>.\<close>

definition text_lines :: "string \<Rightarrow> string list" where
  "text_lines s =
     (let ls = split_on (CHR 10) s in
      map (\<lambda>l. if l \<noteq> [] \<and> last l = CHR 13 then butlast l else l) (if last ls = [] then butlast ls else ls))"

fun content_length :: "nat option \<Rightarrow> string list \<Rightarrow> nat option option" where
  "content_length known [] = Some known"
| "content_length known (line # lines) =
     (case split_once (CHR '':'') line of
        None \<Rightarrow> None
      | Some (name, value) \<Rightarrow>
          if to_ascii_lowercase name = ''transfer-encoding'' then None
          else if to_ascii_lowercase name = ''content-length'' then
            (if known \<noteq> None then None
             else
               case parse_unsigned (2 ^ 64) (trim value) of
                 None \<Rightarrow> None
               | Some n \<Rightarrow> content_length (Some n) lines)
          else content_length known lines)"

definition expected_reply_length :: "ext \<Rightarrow> string \<Rightarrow> nat option" where
  "expected_reply_length E head =
     (if \<not> utf8_valid E head then None
      else
        case content_length None (drop 1 (text_lines head)) of
          Some (Some n) \<Rightarrow>
            if 16384 < n \<or> 16384 < length head + 4 + n then None else Some (length head + 4 + n)
        | _ \<Rightarrow> None)"

text \<open>The reads of the socket until the deadline; an empty read is the end of the stream.\<close>

fun read_reply :: "ext \<Rightarrow> string \<Rightarrow> nat option \<Rightarrow> (unit + string) list \<Rightarrow> string option" where
  "read_reply E got expected [] = None"
| "read_reply E got expected (Inl _ # _) = None"
| "read_reply E got expected (Inr chunk # rest) =
     (if chunk = [] then (if expected = Some (length got) then Some got else None)
      else
        let got = got @ chunk in
        if 16384 < length got then None
        else
          case (if expected \<noteq> None then Some expected
                else case split_once_str HEAD_END got of
                       None \<Rightarrow> Some None
                     | Some (head, _) \<Rightarrow> map_option Some (expected_reply_length E head)) of
            None \<Rightarrow> None
          | Some None \<Rightarrow> read_reply E got None rest
          | Some (Some n) \<Rightarrow>
              if n \<le> length got then (if length got = n then Some got else None)
              else read_reply E got (Some n) rest)"

definition acknowledged :: "ext \<Rightarrow> json \<Rightarrow> string \<Rightarrow> unit + bool" where
  "acknowledged E event reply =
     (if \<not> utf8_valid E reply then Inl ()
      else
        case split_once_str HEAD_END reply of
          None \<Rightarrow> Inl ()
        | Some (head, body) \<Rightarrow>
            if \<not> starts_with ''HTTP/1.1 200 '' head \<and> \<not> starts_with ''HTTP/1.0 200 '' head then Inl ()
            else
              case json_parse E body of
                Inl _ \<Rightarrow> Inl ()
              | Inr ack \<Rightarrow>
                  let part = (\<lambda>k j. case json_get k j of None \<Rightarrow> JNull | Some v \<Rightarrow> v) in
                  if part ''event_id'' ack \<noteq> part ''event_id'' event \<or> part ''sequence'' ack \<noteq> part ''sequence'' event \<or>
                     part ''status'' ack \<notin> {JStr ''durable'', JStr ''duplicate''}
                  then Inl ()
                  else Inr (part ''gap'' ack = JBool True))"

text \<open>\<open>connection\<close> is what the socket returns, or \<open>None\<close> when it could not be opened or written.\<close>

definition submit ::
  "ext \<Rightarrow> capture_config \<Rightarrow> json \<Rightarrow> (unit + string) list option \<Rightarrow> (world, unit, bool) io" where
  "submit E cfg event connection =
     io_bind (private_bytes (cc_capability_file cfg)) (\<lambda>bytes.
     let token = trim bytes in
     if \<not> utf8_valid E bytes \<or> length token \<noteq> 43 \<or>
        \<not> list_all (\<lambda>c. is_ascii_alphanumeric c \<or> c = CHR ''_'' \<or> c = CHR ''-'') token \<or>
        64 * 1024 < length (json_print E event)
     then io_err ()
     else
       case connection of
         None \<Rightarrow> io_err ()
       | Some input \<Rightarrow>
           (case read_reply E [] None input of
              None \<Rightarrow> io_err ()
            | Some reply \<Rightarrow> io_lift (acknowledged E event reply)))"

definition submission_text :: "ext \<Rightarrow> string \<Rightarrow> json \<Rightarrow> string" where
  "submission_text E token event =
     (let body = json_print E event; line = (\<lambda>s. s @ [CHR 13, CHR 10]) in
      concat (map line
        [''POST /v1/events HTTP/1.1'', ''Host: collector'', ''Authorization: Bearer '' @ token,
         ''Content-Type: application/json'', ''Content-Length: '' @ show_nat (length body), ''Connection: close'', []]) @
      body)"

end
