(* ===== verification/Terminal.thy ===== *)
theory Terminal
  imports Terminal_Jobs Transcript Capture Harness
begin

text \<open>
  The application of the terminal interface (\<open>mesh_tui/src/lib.rs\<close>): its state, the one job and the one
  assistant request that may be running, what happens when either of them reports back, and the guide.
  What is drawn is not modelled. The two worker threads are data: \<open>pj_job\<close> is the job the core worker
  was started with, \<open>gp_work\<close> the turn the assistant worker was started with.
\<close>

section \<open>State\<close>

record text_view =
  tv_text :: "string option"
  tv_scroll :: "16 word"

definition text_view_default :: text_view where
  "text_view_default = \<lparr>tv_text = None, tv_scroll = 0\<rparr>"

datatype input_mode = No_Input | Search_Input string | Command_Input string | Agent_Input string

record core_pending =
  pj_job :: job
  pj_session :: nat
  pj_mutation :: bool
  pj_action :: "guide_action option"

datatype request_kind = Ordinary | Guided_Lesson | Guided_Observation | Guided_Question

datatype 'p agent_message = Msg_Event nat agent_event | Msg_Complete nat "'p harness" agent_run

record 'p agent_pending =
  gp_cancelled :: bool
  gp_run_id :: nat
  gp_kind :: request_kind
  gp_work :: "('p harness \<times> string \<times> bool) option"
  gp_inbox :: "'p agent_message list"
  gp_closed :: bool

record 'p agent_ready =
  gr_profile :: agent_profile
  gr_provider :: 'p
  gr_next_run_id :: nat
  gr_pending :: "'p agent_pending option"
  gr_harness :: "'p harness option"
  gr_streamed :: string
  gr_usage :: "json list"

datatype 'p hosted_agent = Agent_Off | Agent_Disabled string | Agent_Ready "'p agent_ready"

record 'p app =
  app_root :: path
  app_profile :: "string option"
  app_menu :: menu
  app_input :: input_mode
  app_page :: "catalog_page option"
  app_selected :: nat
  app_views :: "menu \<Rightarrow> text_view"
  app_status :: string
  app_review :: "review option"
  app_operations :: "string list"
  app_pending :: "core_pending option"
  app_session :: nat
  app_review_scroll :: "16 word"
  app_query :: catalog_query
  app_history :: "string option list"
  app_draft :: "json option"
  app_quit_when_idle :: bool
  app_capture :: capture
  app_guide :: guide_state
  app_agent :: "'p hosted_agent"
  app_assistant :: assistant_view

text \<open>
  What the interface takes from outside: the providers it can build, the path of the configuration
  file, and the texts of errors and of \<open>{:?}\<close>.
\<close>

record 'p terminal_env =
  te_jobs :: job_env
  te_replay :: "string + 'p"
  te_router :: "agent_profile \<Rightarrow> string + 'p"
  te_config_path :: "path option"
  te_profile_error :: "profile_error \<Rightarrow> string"
  te_debug_state :: "agent_run_state \<Rightarrow> string"

abbreviation te_ext :: "'p terminal_env \<Rightarrow> ext" where "te_ext T \<equiv> je_ext (te_jobs T)"

definition say :: "string \<Rightarrow> 'p app \<Rightarrow> 'p app" where
  "say text a = a\<lparr>app_status := text\<rparr>"

definition put_view :: "menu \<Rightarrow> text_view \<Rightarrow> 'p app \<Rightarrow> 'p app" where
  "put_view m v a = a\<lparr>app_views := (app_views a)(m := v)\<rparr>"

definition show_text :: "menu \<Rightarrow> string \<Rightarrow> 'p app \<Rightarrow> 'p app" where
  "show_text m text a = put_view m \<lparr>tv_text = Some text, tv_scroll = 0\<rparr> a"

definition app_emit ::
  "'p terminal_env \<Rightarrow> string \<Rightarrow> string \<Rightarrow> string \<Rightarrow> string option \<Rightarrow> string option \<Rightarrow> 'p app \<Rightarrow> 'p app" where
  "app_emit T kind tool decision operation outcome a =
     a\<lparr>app_capture := capture_emit (te_ext T) kind tool decision operation outcome (app_capture a)\<rparr>"

section \<open>The core worker\<close>

definition start_job :: "string \<Rightarrow> bool \<Rightarrow> job \<Rightarrow> 'p app \<Rightarrow> 'p app" where
  "start_job label mutation j a =
     (if mutation \<and> \<not> capture_ready (app_capture a)
      then say ''Recording unavailable; new operations are paused. Browsing and exit remain available.'' a
      else if app_pending a \<noteq> None
      then say ''A core operation is still running; navigation remains available.'' a
      else say label (a\<lparr>app_pending :=
        Some \<lparr>pj_job = j, pj_session = app_session a, pj_mutation = mutation, pj_action = None\<rparr>\<rparr>))"

definition tag_pending :: "guide_action \<Rightarrow> 'p app \<Rightarrow> 'p app" where
  "tag_pending action a = a\<lparr>app_pending := map_option (\<lambda>p. p\<lparr>pj_action := Some action\<rparr>) (app_pending a)\<rparr>"

definition ELLIPSIS :: string where "ELLIPSIS = [CHR 0xE2, CHR 0x80, CHR 0xA6]"

definition recover_records :: "'p app \<Rightarrow> 'p app" where
  "recover_records a = start_job (''Reading private recovery journal'' @ ELLIPSIS) False Job_Recover a"

definition reload :: "'p app \<Rightarrow> 'p app" where
  "reload a = start_job (''Reading bounded catalog'' @ ELLIPSIS) False (Job_Reload (app_root a) (app_query a)) a"

definition observe :: "guide_observation \<Rightarrow> 'p app \<Rightarrow> 'p app" where
  "observe x a = (if gu_active (app_guide a) then a\<lparr>app_guide := guide_enqueue x (app_guide a)\<rparr> else a)"

definition observe_tagged :: "guide_action option \<Rightarrow> string \<Rightarrow> 'p app \<Rightarrow> 'p app" where
  "observe_tagged tag text a =
     (case tag of None \<Rightarrow> a | Some action \<Rightarrow> observe (observed_success action text) a)"

section \<open>The assistant\<close>

definition agent_idle :: "'p hosted_agent \<Rightarrow> bool" where
  "agent_idle g = (case g of Agent_Ready r \<Rightarrow> gr_pending r = None | _ \<Rightarrow> False)"

definition agent_configured :: "'p hosted_agent \<Rightarrow> bool" where
  "agent_configured g = (case g of Agent_Ready _ \<Rightarrow> True | _ \<Rightarrow> False)"

definition agent_busy :: "'p hosted_agent \<Rightarrow> bool" where
  "agent_busy g = (case g of Agent_Ready r \<Rightarrow> gr_pending r \<noteq> None | _ \<Rightarrow> False)"

fun agent_status :: "'p hosted_agent \<Rightarrow> string" where
  "agent_status Agent_Off = ''assistant is off; launch with --agent hosted to request a configured profile''"
| "agent_status (Agent_Disabled message) = message"
| "agent_status (Agent_Ready r) =
     (if gr_pending r \<noteq> None then ''assistant request is running''
      else ''assistant ready: '' @ ap_model (gr_profile r) @ '' ('' @ ap_context_policy (gr_profile r) @ '')'')"

text \<open>\<open>harness_mut\<close>: the harness of an idle assistant, made when there is none yet.\<close>

fun agent_harness :: "path \<Rightarrow> 'p hosted_agent \<Rightarrow> string + ('p harness \<times> 'p agent_ready)" where
  "agent_harness directory (Agent_Ready r) =
     (if gr_pending r \<noteq> None then Inl ''Assistant is busy; stop or finish the active request first.''
      else Inr (case gr_harness r of Some h \<Rightarrow> h | None \<Rightarrow> harness_new (gr_profile r) (gr_provider r) directory, r))"
| "agent_harness directory g = Inl (agent_status g)"

definition with_harness :: "('p harness \<Rightarrow> 'p harness) \<Rightarrow> 'p app \<Rightarrow> 'p app option" where
  "with_harness f a =
     (case agent_harness (app_root a) (app_agent a) of
        Inl _ \<Rightarrow> None
      | Inr (h, r) \<Rightarrow> Some (a\<lparr>app_agent := Agent_Ready (r\<lparr>gr_harness := Some (f h)\<rparr>)\<rparr>))"

definition or_same :: "'p app option \<Rightarrow> 'p app \<Rightarrow> 'p app" where
  "or_same r a = (case r of None \<Rightarrow> a | Some a' \<Rightarrow> a')"

definition tell_outcome :: "'p terminal_env \<Rightarrow> string \<Rightarrow> json \<Rightarrow> 'p app \<Rightarrow> 'p app" where
  "tell_outcome T i outcome a = or_same (with_harness (\<lambda>h. snd (record_review_outcome (te_ext T) i outcome h)) a) a"

fun agent_stop :: "'p hosted_agent \<Rightarrow> 'p hosted_agent" where
  "agent_stop (Agent_Ready r) = Agent_Ready (r\<lparr>gr_pending := map_option (\<lambda>p. p\<lparr>gp_cancelled := True\<rparr>) (gr_pending r)\<rparr>)"
| "agent_stop g = g"

text \<open>
  A request takes the harness to its own thread. A capture id that is refused drops the harness, since
  it was taken before.
\<close>

definition agent_start ::
  "path \<Rightarrow> string \<Rightarrow> request_kind \<Rightarrow> string option \<Rightarrow> 'p hosted_agent \<Rightarrow> (string + unit) \<times> 'p hosted_agent" where
  "agent_start directory user_text kind capture_run_id g =
     (case agent_harness directory g of
        Inl e \<Rightarrow> (Inl e, g)
      | Inr (h, r) \<Rightarrow>
          (case (case capture_run_id of None \<Rightarrow> (Inr (), h) | Some i \<Rightarrow> set_capture_run_id i h) of
             (Inl e, _) \<Rightarrow> (Inl e, Agent_Ready (r\<lparr>gr_harness := None\<rparr>))
           | (Inr _, h) \<Rightarrow>
               (Inr (), Agent_Ready (r\<lparr>gr_harness := None, gr_next_run_id := gr_next_run_id r + 1, gr_streamed := [],
                  gr_pending := Some \<lparr>gp_cancelled = False, gp_run_id = gr_next_run_id r, gp_kind = kind,
                    gp_work = Some (set_cancellation False h, user_text, kind \<noteq> Ordinary),
                    gp_inbox = [], gp_closed = False\<rparr>\<rparr>))))"

fun record_tool_event :: "ext \<Rightarrow> tool_execution \<Rightarrow> capture \<Rightarrow> capture" where
  "record_tool_event E (Tool_Read tool _) c =
     capture_emit E ''outcome'' tool ''completed'' None (Some ''read_completed'') c"
| "record_tool_event E (Tool_AwaitingReview tool operation_id _) c =
     capture_emit E ''proposal'' tool ''prepared'' (Some operation_id) None c"
| "record_tool_event E (Tool_DraftPatch _ _) c = capture_emit E ''review'' ''publication'' ''edited'' None None c"
| "record_tool_event E (Tool_Rejected _ _) c = capture_emit E ''outcome'' ''tool'' ''denied'' None (Some ''denied'') c"
| "record_tool_event E (Tool_Clarification _ _) c = capture_emit E ''review'' ''model'' ''clarification'' None None c"

fun take_event :: "ext \<Rightarrow> agent_event \<Rightarrow> 'p agent_ready \<times> capture \<Rightarrow> 'p agent_ready \<times> capture" where
  "take_event E (Ev_RequestStarted i) (r, c) = (r, provider_request E i c)"
| "take_event E (Ev_Text text) (r, c) =
     (if length (gr_streamed r) + length text \<le> unat (ap_max_response_chars (gr_profile r))
      then r\<lparr>gr_streamed := gr_streamed r @ text\<rparr> else r, c)"
| "take_event E (Ev_ToolStarted name) (r, c) =
     (r\<lparr>gr_streamed := gr_streamed r @ NL @ ''[tool: '' @ name @ '']'' @ NL\<rparr>,
      capture_emit E ''proposal'' name ''requested'' None None c)"
| "take_event E (Ev_ToolResult tool) (r, c) = (r, record_tool_event E tool c)"
| "take_event E (Ev_Usage _) (r, c) = (r, c)"

definition usage_row :: "nat \<Rightarrow> bool \<Rightarrow> agent_run \<Rightarrow> json" where
  "usage_row i cancelled run =
     json_object [(''run_id'', JInt (int i)), (''cancelled'', JBool cancelled),
       (''usage'', to_value (ser_option ser_provider_usage (run_usage run))),
       (''cost_usd'', ser_option ser_f64 (run_cost run))]"

definition take_complete ::
  "'p agent_pending \<Rightarrow> nat \<Rightarrow> 'p harness \<Rightarrow> agent_run \<Rightarrow> 'p agent_ready \<Rightarrow> (agent_run \<times> request_kind) option \<times> 'p agent_ready" where
  "take_complete p i h run r =
     (let cancelled = (gp_cancelled p \<or> i \<noteq> gp_run_id p);
          usage = (if length (gr_usage r) = 100 then tl (gr_usage r) else gr_usage r) in
      (if cancelled then None else Some (run, gp_kind p),
       r\<lparr>gr_usage := usage @ [usage_row i cancelled run],
         gr_harness := Some (if cancelled then expire_interrupted_state h else h), gr_pending := None\<rparr>))"

text \<open>At most 32 messages are taken in one look at the channel.\<close>

fun take_messages ::
  "nat \<Rightarrow> ext \<Rightarrow> 'p agent_ready \<times> capture \<Rightarrow> (agent_run \<times> request_kind) option \<times> 'p agent_ready \<times> capture" where
  "take_messages 0 E s = (None, s)"
| "take_messages (Suc n) E (r, c) =
     (case gr_pending r of
        None \<Rightarrow> (None, r, c)
      | Some p \<Rightarrow>
          (case gp_inbox p of
             [] \<Rightarrow> (None, if gp_closed p then r\<lparr>gr_pending := None\<rparr> else r, c)
           | m # ms \<Rightarrow>
               let r = r\<lparr>gr_pending := Some (p\<lparr>gp_inbox := ms\<rparr>)\<rparr> in
               (case m of
                  Msg_Event i e \<Rightarrow>
                    take_messages n E (if i = gp_run_id p \<and> \<not> gp_cancelled p then take_event E e (r, c) else (r, c))
                | Msg_Complete i h run \<Rightarrow>
                    (case take_complete p i h run r of (done, r') \<Rightarrow> (done, r', c)))))"

definition take_completed :: "'p terminal_env \<Rightarrow> 'p app \<Rightarrow> (agent_run \<times> request_kind) option \<times> 'p app" where
  "take_completed T a =
     (case app_agent a of
        Agent_Ready r \<Rightarrow>
          (case take_messages 32 (te_ext T) (r, app_capture a) of
             (done, r', c) \<Rightarrow> (done, a\<lparr>app_agent := Agent_Ready r', app_capture := c\<rparr>))
      | _ \<Rightarrow> (None, a))"

text \<open>The profile of the replay, as the source spells it.\<close>

definition replay_profile :: "agent_profile de" where
  "replay_profile =
     de_agent_profile (json_object
       [(''backend'', JStr ''router''), (''base_url'', JStr ''https://unused.invalid''),
        (''model'', JStr ''DETERMINISTIC REPLAY (no inference)''), (''api_key_env'', JStr ''UNUSED''),
        (''context_policy'', JStr ''synthetic-demo''), (''allow_user_text'', JBool True),
        (''max_context_chars'', JInt 32000)])"

definition ready_with :: "agent_profile \<Rightarrow> 'p \<Rightarrow> 'p hosted_agent" where
  "ready_with profile provider =
     Agent_Ready \<lparr>gr_profile = profile, gr_provider = provider, gr_next_run_id = 1, gr_pending = None,
       gr_harness = None, gr_streamed = [], gr_usage = []\<rparr>"

definition disabled_by :: "string \<Rightarrow> 'p hosted_agent" where
  "disabled_by error = Agent_Disabled (''assistant disabled: '' @ error @ ''; manual mode remains available'')"

definition from_profile_request :: "'p terminal_env \<Rightarrow> string option \<Rightarrow> world \<Rightarrow> 'p hosted_agent \<times> world" where
  "from_profile_request T requested w =
     (case requested of
        None \<Rightarrow> (Agent_Off, w)
      | Some name \<Rightarrow>
          if name = ''__fake__'' then
            (case te_replay T of
               Inl e \<Rightarrow> (Agent_Disabled e, w)
             | Inr provider \<Rightarrow>
                 (case replay_profile of
                    Inr profile \<Rightarrow> (ready_with profile provider, w)
                  | Inl e \<Rightarrow> (Agent_Disabled [], w)))
          else
            case te_config_path T of
              None \<Rightarrow> (Agent_Disabled ''assistant disabled: no user configuration directory is available'', w)
            | Some p \<Rightarrow>
                (case agent_config_load (te_ext T) p w of
                   (Inl e, w') \<Rightarrow> (disabled_by (te_profile_error T e), w')
                 | (Inr cfg, w') \<Rightarrow>
                     (case agent_config_selected cfg (if name = [] then None else Some name) of
                        Inl e \<Rightarrow> (disabled_by (te_profile_error T e), w')
                      | Inr (_, profile) \<Rightarrow>
                          (case te_router T profile of
                             Inl e \<Rightarrow> (disabled_by e, w')
                           | Inr provider \<Rightarrow> (ready_with profile provider, w')))))"

end
