(* ===== verification/Terminal_Input.thy ===== *)
theory Terminal_Input
  imports Terminal
begin

text \<open>
  What drives the application of \<open>mesh_tui/src/lib.rs\<close>: results of the core worker and of the assistant,
  keys and commands, and the guide between them. Handlers are functions on the application; the few
  that look at the file system also return the world.
\<close>

section \<open>The guide\<close>

definition observe_ok :: "guide_action \<Rightarrow> string \<Rightarrow> 'p app \<Rightarrow> 'p app" where
  "observe_ok action text a = observe (observed_success action text) a"

text \<open>An error is shown in the status line and observed.\<close>

definition observe_error :: "guide_action \<Rightarrow> string \<Rightarrow> 'p app \<Rightarrow> 'p app" where
  "observe_error action text a = observe (observed_failure action text) (say text a)"

definition stop_guide :: "'p app \<Rightarrow> 'p app" where
  "stop_guide a =
     (if gu_active (app_guide a)
      then say ''Guidance stopped; the shared Assistant conversation and usage remain available. Press g or run :guide start to resume.''
        (a\<lparr>app_guide := guide_stop (app_guide a)\<rparr>)
      else say ''Guidance is already stopped; press g or run :guide start.'' a)"

definition start_guide_request :: "'p terminal_env \<Rightarrow> string \<Rightarrow> request_kind \<Rightarrow> 'p app \<Rightarrow> (string + unit) \<times> 'p app" where
  "start_guide_request T prompt kind a =
     (if \<not> capture_ready (app_capture a)
      then (Inl ''Recording unavailable; guided assistant requests are paused.'', a)
      else
        let (run_id, c) = begin_request (te_ext T) (app_capture a);
            a = app_emit T ''request'' ''model'' ''submitted'' None None (a\<lparr>app_capture := c\<rparr>) in
        case agent_start (app_root a) prompt kind run_id (app_agent a) of
          (Inl e, g) \<Rightarrow> (Inl e, a\<lparr>app_agent := g\<rparr>)
        | (Inr _, g) \<Rightarrow>
            let (lesson, total) = guide_position (app_guide a);
                place = show_nat lesson @ ''/'' @ show_nat total;
                label = (case kind of
                           Guided_Lesson \<Rightarrow> ''Guide lesson '' @ place @ '' ('' @ CURRICULUM_ID @ '')''
                         | Guided_Observation \<Rightarrow> ''Guide observation for lesson '' @ place
                         | Guided_Question \<Rightarrow> ''Guide follow-up question''
                         | Ordinary \<Rightarrow> ''Assistant request'') in
            (Inr (), say ''Guide explanation running; actions are queued and correlated after their real results.''
              (a\<lparr>app_agent := g, app_assistant := view_begin (label @ BLANK_LINE @ prompt) (app_assistant a)\<rparr>)))"

text \<open>\<open>None\<close> is the panic of a prompt for a step that does not exist.\<close>

definition start_guide :: "'p terminal_env \<Rightarrow> bool \<Rightarrow> 'p app \<Rightarrow> 'p app option" where
  "start_guide T restart a =
     (if \<not> agent_configured (app_agent a)
      then Some (say (''Guidance unavailable: '' @ agent_status (app_agent a) @
        ''. Launch with --agent hosted and a valid profile, or --agent fake with FEAM_TUI_REPLAY.'') a)
      else if agent_busy (app_agent a)
      then Some (say ''Assistant response is still running; finish or press s, then start guidance.'' a)
      else if \<not> restart \<and> guide_current (app_guide a) = None
      then Some (say ''Guided curriculum is complete. Run :guide restart to begin again, or press a to use the normal Assistant.'' a)
      else
        let a = a\<lparr>app_guide := (if restart then guide_restart (app_guide a) else guide_start (app_guide a))\<rparr> in
        map_option (\<lambda>prompt.
          case start_guide_request T prompt Guided_Lesson a of
            (Inr _, a) \<Rightarrow> a
          | (Inl e, a) \<Rightarrow> say e (a\<lparr>app_guide := guide_stop (app_guide a)\<rparr>)) (initial_prompt (app_guide a)))"

definition toggle_guide :: "'p terminal_env \<Rightarrow> 'p app \<Rightarrow> 'p app option" where
  "toggle_guide T a = (if gu_active (app_guide a) then Some (stop_guide a) else start_guide T False a)"

definition skip_guide :: "'p terminal_env \<Rightarrow> 'p app \<Rightarrow> 'p app" where
  "skip_guide T a =
     (if \<not> gu_active (app_guide a) then say ''Start guidance with g before skipping a lesson.'' a
      else if app_review a \<noteq> None
      then say ''A review is open. Press n to close it safely, then skip the lesson.'' a
      else if app_pending a \<noteq> None then say ''Wait for the local action to finish before skipping.'' a
      else if agent_busy (app_agent a)
      then say ''The assistant is still responding. Wait, or press s to stop it, then press x again.'' a
      else
        case guide_skip (app_guide a) of
          (None, _) \<Rightarrow> say ''The guide is already finished. Use :guide restart to begin again.'' a
        | (Some skipped, g) \<Rightarrow>
            (case start_guide_request T (skip_prompt g skipped) Guided_Observation (a\<lparr>app_guide := g\<rparr>) of
               (Inr _, a) \<Rightarrow> a
             | (Inl e, a) \<Rightarrow> say e a))"

text \<open>An observation whose request cannot be started is queued again, after it has been applied.\<close>

definition pump_guide :: "'p terminal_env \<Rightarrow> 'p app \<Rightarrow> 'p app option" where
  "pump_guide T a =
     (if \<not> gu_active (app_guide a) \<or> agent_busy (app_agent a) then Some a
      else
        case guide_pop (app_guide a) of
          (None, _) \<Rightarrow> Some a
        | (Some x, g) \<Rightarrow>
            (case guide_apply x g of
               (d, g) \<Rightarrow>
                 map_option (\<lambda>prompt.
                   case start_guide_request T prompt Guided_Observation (a\<lparr>app_guide := g\<rparr>) of
                     (Inr _, a) \<Rightarrow> a
                   | (Inl e, a) \<Rightarrow> say e (a\<lparr>app_guide := guide_enqueue x (app_guide a)\<rparr>)) (observation_prompt g x d)))"

section \<open>Results of the core worker\<close>

datatype core_arrival = Nothing_Yet | Arrived "string + core_update" | Disconnected

definition text_at :: "string \<Rightarrow> json \<Rightarrow> string option" where
  "text_at k j = Option.bind (json_get k j) json_str"

definition or_unknown :: "string option \<Rightarrow> string" where
  "or_unknown x = (case x of None \<Rightarrow> ''unknown'' | Some s \<Rightarrow> s)"

definition KNOWN_OUTCOMES :: "string list" where
  "KNOWN_OUTCOMES = [''committed'', ''committed_with_followup_error'', ''failed'', ''not_committed'', ''unknown'']"

definition captured_outcome :: "json \<Rightarrow> string" where
  "captured_outcome v =
     (let state = or_unknown (text_at ''state'' v) in if state \<in> set KNOWN_OUTCOMES then state else ''unknown'')"

definition show_page :: "catalog_page \<Rightarrow> 'p app \<Rightarrow> 'p app" where
  "show_page page a = a\<lparr>app_page := Some page, app_selected := 0\<rparr>"

definition page_counts :: "catalog_page \<Rightarrow> string \<times> string" where
  "page_counts page = (show_nat (length (cp_entries page)), show_nat (length (cp_coverage page)))"

definition open_review :: "review \<Rightarrow> 'p app \<Rightarrow> 'p app" where
  "open_review r a = a\<lparr>app_review := Some r, app_review_scroll := 0\<rparr>"

text \<open>What the guide observes of an operation: the kind is that of the tag, which \<open>confirm_review\<close> sets.\<close>

definition observe_operation :: "guide_action option \<Rightarrow> json \<Rightarrow> 'p app \<Rightarrow> 'p app" where
  "observe_operation tag v a =
     (let state = or_unknown (text_at ''state'' v);
          kind = (case tag of Some (Review_Confirmed k) \<Rightarrow> k | _ \<Rightarrow> R_Export) in
      if starts_with ''committed'' state
      then observe_ok (Operation_Committed kind)
        (''authoritative local result reported committed state for operation '' @ or_unknown (text_at ''operation_id'' v)) a
      else observe (observed_failure (Review_Confirmed kind) state) a)"

definition operation_arrived :: "'p terminal_env \<Rightarrow> guide_action option \<Rightarrow> string \<Rightarrow> 'p app \<Rightarrow> 'p app" where
  "operation_arrived T tag result a =
     (let kept = app_operations a @ [result];
          listed = (\<lambda>a. a\<lparr>app_operations := (if 100 < length kept then tl kept else kept), app_menu := Operations_Menu\<rparr>) in
      case json_parse (te_ext T) result of
        Inl _ \<Rightarrow> say result (listed a)
      | Inr j \<Rightarrow>
          let v = to_value j;
              a = app_emit T ''outcome'' ''operation'' ''completed'' (text_at ''operation_id'' v) (Some (captured_outcome v)) a;
              a = (case text_at ''operation_id'' v of None \<Rightarrow> a | Some i \<Rightarrow> tell_outcome T i v a) in
          observe_operation tag v
            (say (''Operation '' @ or_unknown (text_at ''state'' v) @ '': '' @ or_unknown (text_at ''operation_id'' v)) (listed a)))"

fun update_arrived :: "'p terminal_env \<Rightarrow> bool \<Rightarrow> guide_action option \<Rightarrow> core_update \<Rightarrow> 'p app \<Rightarrow> 'p app" where
  "update_arrived T mutation tag (Up_Catalog page) a =
     (let (versions, peers) = page_counts page in
      observe_tagged tag (''catalog returned '' @ versions @ '' versions across '' @ peers @ '' observed peers'')
        (say (versions @ '' versions; '' @ peers @ '' peers; next page: '' @ bool_text (cp_next_cursor page \<noteq> None))
          (show_page page (put_view Catalog_Menu text_view_default a))))"
| "update_arrived T mutation tag (Up_Refreshed page cache_text) a =
     (let (versions, peers) = page_counts page in
      observe_ok Refresh_Completed (''refresh returned '' @ versions @ '' versions and '' @ peers @ '' peer observations'')
        (say (''Refresh complete: '' @ versions @ '' versions; '' @ peers @ '' peers; Cache view updated.'')
          (show_page page (show_text Cache_Menu cache_text (put_view Catalog_Menu text_view_default a)))))"
| "update_arrived T mutation tag (Up_View m text) a =
     observe_tagged tag ''bounded local view is ready''
       (say ''Local view ready; PgUp/PgDn scroll, :export NAME saves text.'' (show_text m text a))"
| "update_arrived T mutation tag (Up_Preview text rows columns) a =
     observe_ok Table_Previewed
       (''registered descriptor reports '' @ show_int rows @ '' rows and '' @ show_nat columns @ '' columns'')
       (say ''Bounded registered table metadata preview ready.'' (show_text Catalog_Menu text a))"
| "update_arrived T mutation tag (Up_Review r) a =
     (let i = Some (review_operation_id r) in
      observe_ok (Review_Opened (review_guide_kind r)) ''review opened; no mutation or local save has committed''
        (say ''Review complete details; PgUp/PgDn scroll; y confirms, n denies.''
          (open_review r (app_emit T ''review'' (review_name r) ''presented'' i None
            (app_emit T ''proposal'' (review_name r) ''prepared'' i None a)))))"
| "update_arrived T mutation tag (Up_Draft draft) a =
     observe_ok (Command G_Draft_Load) ''bounded JSON draft loaded into local session state''
       (say ''Draft loaded; :draft set /field JSON, :draft validate, :draft save NAME''
         ((show_text Catalog_Menu (json_pretty (te_ext T) draft) a)\<lparr>app_draft := Some draft, app_menu := Catalog_Menu\<rparr>))"
| "update_arrived T mutation tag (Up_Operation result) a = operation_arrived T tag result a"
| "update_arrived T mutation tag (Up_Status text) a =
     observe_tagged tag ''authoritative local action completed''
       (say text (if mutation then app_emit T ''outcome'' ''operation'' ''completed'' None (Some ''committed'') a else a))"
| "update_arrived T mutation tag (Up_Recovered records) a =
     observe_ok Recovery_Completed (''reconciled '' @ show_nat (length records) @ '' journal records without replay'')
       (reload (a\<lparr>app_operations := records\<rparr>))"

definition job_failed :: "'p terminal_env \<Rightarrow> bool \<Rightarrow> guide_action option \<Rightarrow> string \<Rightarrow> 'p app \<Rightarrow> 'p app" where
  "job_failed T mutation tag error a =
     (let a = say error (app_emit T ''outcome'' ''operation'' ''failed'' None
                (Some (if mutation then ''unknown'' else ''failed'')) a) in
      case tag of None \<Rightarrow> a | Some action \<Rightarrow> observe (observed_failure action error) a)"

definition poll_core :: "'p terminal_env \<Rightarrow> core_arrival \<Rightarrow> 'p app \<Rightarrow> 'p app" where
  "poll_core T x a =
     (case app_pending a of
        None \<Rightarrow> a
      | Some p \<Rightarrow>
          (case (case x of
                   Nothing_Yet \<Rightarrow> None
                 | Arrived r \<Rightarrow> Some r
                 | Disconnected \<Rightarrow> Some (Inl ''Core worker disconnected; reconcile any operation.'')) of
             None \<Rightarrow> a
           | Some r \<Rightarrow>
               let a = a\<lparr>app_pending := None\<rparr> in
               if pj_session p \<noteq> app_session a then a
               else
                 case r of
                   Inr update \<Rightarrow> update_arrived T (pj_mutation p) (pj_action p) update a
                 | Inl e \<Rightarrow> job_failed T (pj_mutation p) (pj_action p) e a))"

section \<open>Results of the assistant\<close>

fun ser_tool_execution :: "tool_execution \<Rightarrow> json" where
  "ser_tool_execution (Tool_Clarification question choices) =
     JObj [(''status'', JStr ''clarification''), (''question'', JStr question), (''choices'', ser_list JStr choices)]"
| "ser_tool_execution (Tool_Read tool result) =
     JObj [(''status'', JStr ''read''), (''tool'', JStr tool), (''result'', result)]"
| "ser_tool_execution (Tool_AwaitingReview tool operation_id r) =
     JObj [(''status'', JStr ''awaiting_review''), (''tool'', JStr tool), (''operation_id'', JStr operation_id), (''review'', r)]"
| "ser_tool_execution (Tool_DraftPatch handle draft) =
     JObj [(''status'', JStr ''draft_patch''), (''handle'', JStr handle), (''draft'', draft)]"
| "ser_tool_execution (Tool_Rejected kind message) =
     JObj [(''status'', JStr ''rejected''), (''kind'', JStr kind), (''message'', JStr message)]"

definition take_draft_patch :: "'p terminal_env \<Rightarrow> tool_execution \<Rightarrow> 'p app \<Rightarrow> 'p app" where
  "take_draft_patch T tool a =
     (case tool of
        Tool_DraftPatch _ draft \<Rightarrow> (show_text Catalog_Menu (json_pretty (te_ext T) draft) a)\<lparr>app_draft := Some draft\<rparr>
      | _ \<Rightarrow> a)"

definition mutation_running :: "'p app \<Rightarrow> bool" where
  "mutation_running a = (case app_pending a of None \<Rightarrow> False | Some p \<Rightarrow> pj_mutation p)"

definition offer_review :: "agent_run \<Rightarrow> 'p app \<Rightarrow> 'p app" where
  "offer_review run a =
     (case run_pending run of
        None \<Rightarrow> a
      | Some operation \<Rightarrow>
          if app_review a = None \<and> \<not> mutation_running a then open_review (review_of operation) a else a)"

definition run_report :: "'p terminal_env \<Rightarrow> nat \<Rightarrow> agent_run \<Rightarrow> string" where
  "run_report T i run =
     ''Assistant result #'' @ show_nat i @ '' ('' @ te_debug_state T (run_state run) @ ''):'' @ NL @
     redact (run_text run) None @ BLANK_LINE @ ''Tool activity:'' @ NL @
     json_pretty (te_ext T) (ser_list ser_tool_execution (run_tools run))"

definition last_run_id :: "'p hosted_agent \<Rightarrow> nat" where
  "last_run_id g = (case g of Agent_Ready r \<Rightarrow> gr_next_run_id r - 1 | _ \<Rightarrow> 0)"

definition finished_status :: "request_kind \<Rightarrow> bool \<Rightarrow> bool \<Rightarrow> string" where
  "finished_status kind reviewing guide_finished =
     (if reviewing then ''Assistant proposal awaits local review; press y to confirm or n to cancel.''
      else if guide_finished
      then ''Guide complete. Normal Assistant tools are restored; press a to ask anything or run :guide restart to begin again.''
      else if kind = Guided_Question then ''Follow-up answered; the Guide remains on the same curriculum lesson.''
      else if kind \<noteq> Ordinary then ''Guide response received; perform only the displayed local action.''
      else ''Assistant response received. Any mutation proposal is never auto-executed.'')"

definition run_finished :: "'p terminal_env \<Rightarrow> agent_run \<Rightarrow> request_kind \<Rightarrow> 'p app \<Rightarrow> 'p app" where
  "run_finished T run kind a =
     (let a = offer_review run (fold (take_draft_patch T) (run_tools run) a);
          a = (case app_review a of
                 None \<Rightarrow> a
               | Some r \<Rightarrow> app_emit T ''review'' (review_name r) ''presented'' (Some (review_operation_id r)) None a);
          a = a\<lparr>app_assistant := view_finish (run_report T (last_run_id (app_agent a)) run)
                 (app_menu a = Assistant_Menu) (app_assistant a)\<rparr>;
          (finished, g) = (if kind \<noteq> Ordinary then guide_finish_response (app_guide a) else (False, app_guide a)) in
      say (finished_status kind (app_review a \<noteq> None) finished) (a\<lparr>app_guide := g\<rparr>))"

definition show_streamed :: "'p app \<Rightarrow> 'p app" where
  "show_streamed a =
     (case app_agent a of
        Agent_Ready r \<Rightarrow>
          if gr_pending r \<noteq> None \<and> gr_streamed r \<noteq> []
          then a\<lparr>app_assistant := view_stream (gr_streamed r) (app_assistant a)\<rparr> else a
      | _ \<Rightarrow> a)"

definition poll_agent :: "'p terminal_env \<Rightarrow> 'p app \<Rightarrow> 'p app" where
  "poll_agent T a =
     (case take_completed T (show_streamed a) of
        (Some (run, kind), a') \<Rightarrow> run_finished T run kind a'
      | (None, a') \<Rightarrow>
          if agent_busy (app_agent a) \<and> \<not> agent_busy (app_agent a')
          then a'\<lparr>app_assistant := view_cancel (app_menu a' = Assistant_Menu) (app_assistant a')\<rparr> else a')"

section \<open>A question to the assistant\<close>

definition ordinary_agent_request :: "string \<Rightarrow> 'p app \<Rightarrow> string \<times> 'p app" where
  "ordinary_agent_request user_text a =
     (let (ended, g) = guide_take_transition (app_guide a) in
      (if ended
       then ''Application mode notice: guided mode has ended. This is an ordinary Assistant turn. The normal bounded '' @
         ''tools are available again. Use the advertised tools when evidence is needed, and do not claim this turn '' @
         ''is guided.'' @ BLANK_LINE @ ''User question: '' @ user_text
       else user_text, a\<lparr>app_guide := g\<rparr>))"

definition guided_question :: "guide_state \<Rightarrow> string \<Rightarrow> string" where
  "guided_question g user_text =
     ''The user asks a follow-up question during guided mode. Answer the question text-only without tools. It does '' @
     ''not complete or reorder any lesson. Then briefly return to this application-owned instruction: '' @
     (case guide_current g of None \<Rightarrow> ''The curriculum is complete.'' | Some c \<Rightarrow> cu_instruction c) @
     BLANK_LINE @ ''Question: '' @ user_text"

definition start_agent :: "'p terminal_env \<Rightarrow> string \<Rightarrow> 'p app \<Rightarrow> 'p app" where
  "start_agent T user_text a =
     (if app_pending a \<noteq> None \<or> app_review a \<noteq> None then say ''Finish the active local operation first.'' a
      else if \<not> capture_ready (app_capture a)
      then say ''Recording unavailable; new assistant requests are paused.'' a
      else
        let (run_id, c) = begin_request (te_ext T) (app_capture a);
            a = app_emit T ''request'' ''model'' ''submitted'' None None (a\<lparr>app_capture := c\<rparr>);
            (request, kind, a) =
              (if gu_active (app_guide a) then (guided_question (app_guide a) user_text, Guided_Question, a)
               else let (text, a) = ordinary_agent_request user_text a in (text, Ordinary, a)) in
        case agent_start (app_root a) request kind run_id (app_agent a) of
          (Inl e, g) \<Rightarrow> say e (a\<lparr>app_agent := g\<rparr>)
        | (Inr _, g) \<Rightarrow>
            say ''Assistant request started; manual navigation remains available. Press s to stop generation.''
              (a\<lparr>app_agent := g, app_menu := Assistant_Menu, app_assistant := view_begin user_text (app_assistant a)\<rparr>))"

end
