(* ===== verification/Terminal_Keys.thy ===== *)
theory Terminal_Keys
  imports Terminal_Input
begin

text \<open>
  Keys and commands of the terminal interface (\<open>handle_key\<close> and \<open>command\<close> of \<open>mesh_tui/src/lib.rs\<close>), with
  the operations they start. \<open>None\<close> in place of an application is a panic.
\<close>

section \<open>Views\<close>

definition section_view :: "'p app \<Rightarrow> 'p app" where
  "section_view a =
     (if app_menu a \<in> {Teams_Menu, Cache_Menu}
      then start_job (''Reading local view'' @ ELLIPSIS) False (Job_Menu (app_root a) (app_menu a)) a else a)"

definition select_section :: "menu \<Rightarrow> 'p app \<Rightarrow> 'p app" where
  "select_section m a =
     section_view (let a = a\<lparr>app_menu := m\<rparr> in
       if m = Assistant_Menu then a\<lparr>app_assistant := (app_assistant a)\<lparr>av_unread := False\<rparr>\<rparr> else a)"

definition add_10 :: "16 word \<Rightarrow> 16 word" where
  "add_10 n = (if 65525 < unat n then 65535 else n + 10)"

definition sub_10 :: "16 word \<Rightarrow> 16 word" where
  "sub_10 n = (if unat n < 10 then 0 else n - 10)"

definition scroll_view :: "(16 word \<Rightarrow> 16 word) \<Rightarrow> 'p app \<Rightarrow> 'p app" where
  "scroll_view f a =
     (let v = app_views a (app_menu a) in
      observe_ok Scrolled ''active view scroll changed'' (put_view (app_menu a) (v\<lparr>tv_scroll := f (tv_scroll v)\<rparr>) a))"

definition scroll_assistant :: "(16 word \<Rightarrow> 16 word) \<Rightarrow> (16 word \<Rightarrow> string) \<Rightarrow> 'p app \<Rightarrow> 'p app" where
  "scroll_assistant f status a =
     (let n = f (av_scroll_back (app_assistant a)) in
      observe_ok Scrolled ''Assistant transcript scroll changed''
        (say (status n) (a\<lparr>app_assistant := (app_assistant a)\<lparr>av_scroll_back := n\<rparr>\<rparr>)))"

definition scroll_active_down :: "'p app \<Rightarrow> 'p app" where
  "scroll_active_down a =
     (if app_menu a = Assistant_Menu
      then scroll_assistant sub_10 (\<lambda>n.
        if n = 0 then ''Assistant transcript is at the newest message.''
        else ''Assistant transcript is '' @ show_nat (unat n) @ '' lines back; press Down or j for newer text.'') a
      else scroll_view add_10 a)"

definition scroll_active_up :: "'p app \<Rightarrow> 'p app" where
  "scroll_active_up a =
     (if app_menu a = Assistant_Menu
      then scroll_assistant add_10 (\<lambda>n.
        ''Assistant transcript is '' @ show_nat (unat n) @ '' lines back; press Up or k for older text.'') a
      else scroll_view sub_10 a)"

definition move_selection :: "int \<Rightarrow> 'p app \<Rightarrow> 'p app" where
  "move_selection delta a =
     (let len = (case app_page a of None \<Rightarrow> 0 | Some page \<Rightarrow> length (cp_entries page)) in
      if len = 0 then a
      else
        let selected = nat (min (max (int (app_selected a) + delta) 0) (int len - 1));
            a = a\<lparr>app_selected := selected\<rparr>;
            a = (if app_menu a = Lineage_Menu
                 then put_view Lineage_Menu ((app_views a Lineage_Menu)\<lparr>tv_scroll := 0\<rparr>) a else a) in
        observe_ok Selection_Moved
          (''selected row changed to '' @ show_nat (selected + 1) @ '' within a bounded page of '' @ show_nat len) a)"

definition selected_entry :: "'p app \<Rightarrow> catalog_entry option" where
  "selected_entry a =
     (case app_page a of
        None \<Rightarrow> None
      | Some page \<Rightarrow> if app_selected a < length (cp_entries page) then Some (cp_entries page ! app_selected a) else None)"

definition lineage_summary :: "'p app \<Rightarrow> string option" where
  "lineage_summary a =
     (case selected_entry a of
        None \<Rightarrow> None
      | Some e \<Rightarrow>
          let entries = (case app_page a of None \<Rightarrow> [] | Some page \<Rightarrow> cp_entries page);
              versions = remdups_adj (sort (map ce_version (filter (\<lambda>x. ce_reference x = ce_reference e) entries)));
              history = (if 1 < length versions then join_with '' -> '' versions
                         else ce_version e @ '' (no previous version in this catalog view)'') in
          Some (join_with NL
            [''Product: '' @ ce_reference e, ''Name: '' @ ce_name e, [], ''Version lineage'', history, [],
             ''Selected version: '' @ ce_version e]))"

section \<open>Operations on the catalog\<close>

definition no_cursor :: "'p app \<Rightarrow> 'p app" where
  "no_cursor a = a\<lparr>app_query := (app_query a)\<lparr>cq_cursor := None\<rparr>, app_history := []\<rparr>"

definition search_for :: "string \<Rightarrow> 'p app \<Rightarrow> 'p app" where
  "search_for text a =
     (let v = app_views a Catalog_Menu;
          a = put_view Catalog_Menu (v\<lparr>tv_scroll := 0\<rparr>) (a\<lparr>app_menu := Catalog_Menu\<rparr>) in
      tag_pending Search_Completed (reload (no_cursor
        (a\<lparr>app_query := (app_query a)\<lparr>cq_text := (if trim text = [] then None else Some text)\<rparr>\<rparr>))))"

definition page_next :: "'p app \<Rightarrow> 'p app" where
  "page_next a =
     (if app_pending a \<noteq> None then a
      else
        case Option.bind (app_page a) cp_next_cursor of
          Some cursor \<Rightarrow>
            tag_pending (Page_Attempt Next_Page) (reload
              (a\<lparr>app_history := app_history a @ [cq_cursor (app_query a)],
                 app_query := (app_query a)\<lparr>cq_cursor := Some cursor\<rparr>\<rparr>))
        | None \<Rightarrow> observe_ok (Page_Attempt Next_Page) ''no next-page cursor existed; the catalog did not change'' a)"

definition page_previous :: "'p app \<Rightarrow> 'p app" where
  "page_previous a =
     (if app_pending a \<noteq> None then a
      else if app_history a \<noteq> [] then
        tag_pending (Page_Attempt Previous_Page) (reload
          (a\<lparr>app_history := butlast (app_history a),
             app_query := (app_query a)\<lparr>cq_cursor := last (app_history a)\<rparr>\<rparr>))
      else observe_ok (Page_Attempt Previous_Page)
        ''no previous page existed in session history; the catalog did not change'' a)"

definition refresh_peers :: "'p app \<Rightarrow> 'p app" where
  "refresh_peers a =
     (let a = no_cursor a in
      tag_pending Refresh_Completed
        (start_job (''Refreshing peer observations'' @ ELLIPSIS) False (Job_Refresh (app_root a) (app_query a)) a))"

definition resolve_view :: "string \<Rightarrow> string \<Rightarrow> guide_action \<Rightarrow> 'p app \<Rightarrow> 'p app" where
  "resolve_view ref version action a =
     (let a = a\<lparr>app_menu := Catalog_Menu\<rparr> in
      tag_pending action (start_job (''Resolving pinned registered inventory'' @ ELLIPSIS) False
        (Job_Resolve (app_root a) ref version) a))"

definition open_selected :: "'p app \<Rightarrow> 'p app" where
  "open_selected a =
     (case selected_entry a of
        None \<Rightarrow> a | Some e \<Rightarrow> resolve_view (ce_reference e) (ce_version e) Product_Opened a)"

definition example_selected :: "'p terminal_env \<Rightarrow> 'p app \<Rightarrow> 'p app" where
  "example_selected T a =
     (case selected_entry a of
        None \<Rightarrow> a
      | Some e \<Rightarrow>
          observe_ok Examples_Generated ''locally generated direct CLI and supported Python SDK examples''
            (say ''Examples generated locally; :export NAME saves to .feam/exports/NAME.''
              (show_text Catalog_Menu (example (te_ext T) (app_root a) e) a)))"

definition preview_selected :: "'p app \<Rightarrow> 'p app" where
  "preview_selected a =
     (case selected_entry a of
        None \<Rightarrow> observe_error Table_Previewed ''Select a registered table version before previewing.'' a
      | Some e \<Rightarrow>
          tag_pending Table_Previewed (start_job (''Reading bounded registered table metadata'' @ ELLIPSIS) False
            (Job_Preview (app_root a) e) a))"

section \<open>Reviews\<close>

definition confirm_review :: "'p terminal_env \<Rightarrow> 'p app \<Rightarrow> 'p app" where
  "confirm_review T a =
     (if \<not> capture_ready (app_capture a)
      then say ''Recording unavailable; confirmation is paused and the review remains unapproved.'' a
      else
        case app_review a of
          None \<Rightarrow> a
        | Some r \<Rightarrow>
            let a = (app_emit T ''review'' (review_name r) ''approved'' (Some (review_operation_id r)) None a)\<lparr>app_review := None\<rparr>;
                start = (case r of
                  Review_Inspect value \<Rightarrow>
                    start_job (''Inspecting formats and hashing selected assets; this read may be expensive'' @ ELLIPSIS) False
                      (Job_Inspect (app_root a) value)
                | Review_Save p text state overwrite \<Rightarrow>
                    start_job (''Saving reviewed local text'' @ ELLIPSIS) True (Job_Save (app_root a) p text state overwrite)
                | _ \<Rightarrow>
                    start_job ''Mutation running; it will finish before normal exit. No automatic retry.'' True (Job_Execute r)) in
            tag_pending (Review_Confirmed (review_guide_kind r)) (start a))"

definition deny_review :: "'p terminal_env \<Rightarrow> bool \<Rightarrow> 'p app \<Rightarrow> 'p app" where
  "deny_review T denied a =
     (case app_review a of
        None \<Rightarrow> say ''Operation cancelled before commit.'' a
      | Some r \<Rightarrow>
          let i = review_operation_id r;
              a = app_emit T ''review'' (review_name r) (if denied then ''denied'' else ''cancelled'') (Some i) None a;
              a = tell_outcome T i (json_object [(''operation_id'', JStr i), (''status'', JStr ''denied'')])
                (say ''Operation cancelled before commit.'' a) in
          observe_ok (Review_Denied (review_guide_kind r)) ''review was denied before commit; no approval was retained''
            (a\<lparr>app_review := None\<rparr>))"

definition hand_to_assistant :: "'p app \<Rightarrow> 'p app" where
  "hand_to_assistant a =
     (case Option.bind (app_review a) confirmable_of of
        None \<Rightarrow> a
      | Some operation \<Rightarrow>
          (case with_harness (\<lambda>h. h\<lparr>h_executor := snd (register_operation operation (h_executor h))\<rparr>) a of
             None \<Rightarrow> a
           | Some a \<Rightarrow>
               say (''Selected handle '' @ operation_id_of operation @ ''; press a to ask the assistant. No approval given.'')
                 (a\<lparr>app_review := None\<rparr>)))"

definition draft_text :: "'p terminal_env \<Rightarrow> 'p app \<Rightarrow> 'p app" where
  "draft_text T a =
     say ''Edit with :draft set /field JSON; explicit assets via /assets; :draft validate checks required semantics.''
       (put_view Catalog_Menu \<lparr>tv_text = map_option (json_pretty (te_ext T)) (app_draft a), tv_scroll = 0\<rparr>
         (a\<lparr>app_menu := Catalog_Menu\<rparr>))"

definition simple_name :: "string \<Rightarrow> bool" where
  "simple_name s \<longleftrightarrow>
     s \<noteq> [] \<and> list_all (\<lambda>c. is_ascii_alphanumeric c \<or> c = CHR ''-'' \<or> c = CHR ''_'' \<or> c = CHR ''.'') s \<and>
     s \<noteq> ''.'' \<and> s \<noteq> ''..''"

definition prepare_save :: "string \<Rightarrow> string \<Rightarrow> string \<Rightarrow> bool \<Rightarrow> 'p app \<Rightarrow> 'p app" where
  "prepare_save folder name text overwrite a =
     (if \<not> simple_name name then say ''Use a simple local filename without paths.'' a
      else start_job (''Checking local save destination'' @ ELLIPSIS) False
        (Job_Check_Save (join (join (join (app_root a) ''.feam'') folder) name) text overwrite) a)"

definition active_export_text :: "'p terminal_env \<Rightarrow> 'p app \<Rightarrow> string option" where
  "active_export_text T a =
     (case app_menu a of
        Catalog_Menu \<Rightarrow> tv_text (app_views a Catalog_Menu)
      | Peers_Menu \<Rightarrow>
          map_option (\<lambda>page. json_pretty (te_ext T) (ser_list ser_peer_coverage (cp_coverage page))) (app_page a)
      | Operations_Menu \<Rightarrow>
          Some (''Journal: '' @ je_journal (te_jobs T) @ NL @ join_with BLANK_LINE (app_operations a))
      | Help_Menu \<Rightarrow> Some HELP
      | Teams_Menu \<Rightarrow> tv_text (app_views a Teams_Menu)
      | Cache_Menu \<Rightarrow> tv_text (app_views a Cache_Menu)
      | Lineage_Menu \<Rightarrow> lineage_summary a
      | Assistant_Menu \<Rightarrow>
          (case av_export_text (app_assistant a) of
             Some text \<Rightarrow> Some text
           | None \<Rightarrow> let text = rendered (app_assistant a) in if text = [] then None else Some text))"

end
