(* ===== verification/Terminal_Commands.thy ===== *)
theory Terminal_Commands
  imports Terminal_Keys
begin

text \<open>
  The command line and the keyboard of the terminal interface (\<open>command\<close>, \<open>handle_key\<close> and the input
  modes of \<open>mesh_tui/src/lib.rs\<close>). A handler returns the application, or \<open>None\<close> for a panic, and the world.
\<close>

type_synonym 'p handled = "'p app option \<times> world"

section \<open>Switching the project\<close>

text \<open>\<open>std::path::absolute\<close>: without links, and without the dots and slashes that mean nothing.\<close>

definition std_absolute :: "path \<Rightarrow> path sys" where
  "std_absolute p =
     (if p = [] then io_err KInvalidInput
      else
        let parts = filter (\<lambda>s. s \<noteq> [] \<and> s \<noteq> ''.'') (split_on slash p);
            tail = (if last p = slash \<and> parts \<noteq> [] then ''/'' else []) in
        if is_absolute p then
          io_ret ((if starts_with ''//'' p \<and> \<not> starts_with ''///'' p then ''//'' else ''/'') @ join_with ''/'' parts @ tail)
        else io_bind current_dir (\<lambda>d. io_ret (join_with ''/'' ((if d = ''/'' then [] else d) # parts) @ tail)))"

definition canonical_or :: "path \<Rightarrow> (world, 'e, path) io" where
  "canonical_or p =
     io_bind (io_try (canonicalize p)) (\<lambda>r. io_ret (case r of Inr c \<Rightarrow> c | Inl _ \<Rightarrow> p))"

definition switch_to :: "'p terminal_env \<Rightarrow> path \<Rightarrow> 'p app \<Rightarrow> world \<Rightarrow> 'p handled" where
  "switch_to T chosen a w =
     (case from_profile_request T (app_profile a) w of
        (g, w') \<Rightarrow>
          (Some (reload (a\<lparr>app_session := app_session a + 1, app_menu := Catalog_Menu, app_review := None,
             app_draft := None, app_page := None, app_views := (\<lambda>_. text_view_default), app_review_scroll := 0,
             app_root := chosen, app_query := (app_query a)\<lparr>cq_cursor := None\<rparr>, app_history := [],
             app_agent := g, app_assistant := view_default, app_guide := guide_reset (app_guide a)\<rparr>)), w'))"

definition switch_project_to :: "'p terminal_env \<Rightarrow> path \<Rightarrow> 'p app \<Rightarrow> world \<Rightarrow> 'p handled" where
  "switch_project_to T p a w =
     (case io_bind (io_map_err (io_text (te_ext T)) (std_absolute p)) (\<lambda>chosen.
           io_bind (canonical_or chosen) (\<lambda>chosen.
           io_bind (canonical_or (je_journal (te_jobs T))) (\<lambda>journal.
           if path_starts_with journal chosen then io_err ''Select a project outside the private operation journal.''
           else io_ret chosen))) w of
        (Inl e, w') \<Rightarrow> (Some (say e a), w')
      | (Inr chosen, w') \<Rightarrow> switch_to T chosen a w')"

definition choose_profile :: "'p terminal_env \<Rightarrow> string \<Rightarrow> 'p app \<Rightarrow> world \<Rightarrow> 'p handled" where
  "choose_profile T profile a w =
     (let requested = (if profile = ''off'' then None else Some profile) in
      case from_profile_request T requested w of
        (g, w') \<Rightarrow>
          (Some (say (agent_status g) (a\<lparr>app_review := None, app_session := app_session a + 1,
             app_profile := requested, app_agent := g, app_assistant := view_default,
             app_guide := guide_reset (app_guide a)\<rparr>)), w'))"

section \<open>Commands\<close>

definition draft_command :: "'p terminal_env \<Rightarrow> string list \<Rightarrow> 'p app \<Rightarrow> 'p app option" where
  "draft_command T ws a =
     (let tag = Command (from_words ws) in
      case ws of
        [_, verb] \<Rightarrow>
          if verb = ''validate'' then
            (case app_draft a of
               None \<Rightarrow> Some (observe_error tag ''Load or create a draft first'' a)
             | Some draft \<Rightarrow>
                 Some (observe_ok (Review_Opened R_Inspection) ''inspection consent review opened; publication has not started''
                   (open_review (Review_Inspect draft)
                     (app_emit T ''review'' ''inspection'' ''presented'' None None a))))
          else None
      | [_, verb, x] \<Rightarrow>
          if verb = ''load'' then
            Some (tag_pending tag (start_job (''Loading bounded publication draft'' @ ELLIPSIS) False
              (Job_Load (join (app_root a) x) False) a))
          else if verb = ''new'' \<and> x \<in> {''table'', ''raster''} then
            Some (observe (observed_command ws True ''local draft template created with blank user-supplied fields'')
              (draft_text T (a\<lparr>app_draft := Some (draft_template x)\<rparr>)))
          else if verb = ''save'' then
            Some (case app_draft a of
                    None \<Rightarrow> a
                  | Some draft \<Rightarrow> tag_pending tag (prepare_save ''drafts'' x (json_pretty (te_ext T) draft) False a))
          else None
      | [_, verb, x, y] \<Rightarrow>
          if verb = ''set'' then
            Some (case and_then (map_err (de_error_text (te_ext T)) (json_parse (te_ext T) y)) (\<lambda>value.
                       and_then (ok_or ''Load or create a draft first'' (app_draft a)) (\<lambda>draft.
                       patch_draft (te_ext T) draft x (to_value value))) of
                    Inl e \<Rightarrow> observe_error tag e a
                  | Inr draft \<Rightarrow>
                      observe_ok tag ''existing draft field replaced with locally supplied JSON''
                        (draft_text T ((app_emit T ''review'' ''publication'' ''edited'' None None a)
                          \<lparr>app_draft := Some draft, app_review := None\<rparr>)))
          else if verb = ''save'' \<and> y = ''--overwrite'' then
            Some (case app_draft a of
                    None \<Rightarrow> a
                  | Some draft \<Rightarrow> tag_pending tag (prepare_save ''drafts'' x (json_pretty (te_ext T) draft) True a))
          else None
      | _ \<Rightarrow> None)"

definition export_command :: "'p terminal_env \<Rightarrow> string \<Rightarrow> bool \<Rightarrow> guide_action \<Rightarrow> 'p app \<Rightarrow> 'p app" where
  "export_command T name overwrite tag a =
     (case active_export_text T a of
        None \<Rightarrow> observe_error tag ''The active menu has no content to export.'' a
      | Some text \<Rightarrow> tag_pending tag (prepare_save ''exports'' name text overwrite a))"

definition filter_command :: "'p terminal_env \<Rightarrow> string \<Rightarrow> guide_action \<Rightarrow> 'p app \<Rightarrow> 'p app" where
  "filter_command T text tag a =
     (case and_then (json_parse (te_ext T) text) de_catalog_query of
        Inl e \<Rightarrow> observe_error tag (de_error_text (te_ext T) e) a
      | Inr q \<Rightarrow> tag_pending tag (reload (a\<lparr>app_menu := Catalog_Menu, app_query := q, app_history := []\<rparr>)))"

definition share_draft :: "guide_action \<Rightarrow> 'p app \<Rightarrow> 'p app" where
  "share_draft tag a =
     (case app_draft a of
        None \<Rightarrow> a
      | Some draft \<Rightarrow>
          (case with_harness (\<lambda>h. h\<lparr>h_executor := register_draft ''selected-draft'' draft (h_executor h)\<rparr>) a of
             None \<Rightarrow> a
           | Some a \<Rightarrow>
               observe_ok tag ''bounded selected-draft handle registered locally''
                 (say ''Draft handle selected-draft exposed; ask for a metadata patch with a.'' a)))"

definition consent_command :: "string \<Rightarrow> string \<Rightarrow> guide_action \<Rightarrow> 'p app \<Rightarrow> 'p app" where
  "consent_command ref version tag a =
     (case with_harness (\<lambda>h. h\<lparr>h_executor := grant_integrity_consent ref version (h_executor h)\<rparr>) a of
        None \<Rightarrow> a
      | Some a \<Rightarrow>
          observe_ok tag ''one-use exact-version integrity consent registered locally''
            (say ''One full-asset integrity read authorized for the exact selected version.'' a))"

definition usage_command :: "'p terminal_env \<Rightarrow> guide_action \<Rightarrow> 'p app \<Rightarrow> 'p app" where
  "usage_command T tag a =
     (case app_agent a of
        Agent_Ready r \<Rightarrow>
          observe_ok tag ''shared assistant session usage displayed''
            (say ''Assistant session usage; export to retain it before switching profiles.''
              (a\<lparr>app_menu := Assistant_Menu,
                 app_assistant := view_push_local ''Assistant session usage''
                   (json_pretty (te_ext T) (JArr (gr_usage r))) True (app_assistant a)\<rparr>))
      | _ \<Rightarrow> a)"

definition guide_command_of :: "'p terminal_env \<Rightarrow> string list \<Rightarrow> 'p app \<Rightarrow> 'p app option option" where
  "guide_command_of T ws a =
     (if ws \<in> {[''guide'', ''start''], [''tutorial'', ''start'']} then Some (start_guide T False a)
      else if ws \<in> {[''guide'', ''stop''], [''tutorial'', ''stop'']} then Some (Some (stop_guide a))
      else if ws = [''guide'', ''restart''] then Some (start_guide T True a)
      else if ws \<in> {[''guide'', ''skip''], [''tutorial'', ''skip'']} then Some (Some (skip_guide T a))
      else None)"

text \<open>The commands that only change the application; \<open>None\<close> is a command that is not known.\<close>

definition plain_command :: "'p terminal_env \<Rightarrow> string list \<Rightarrow> 'p app \<Rightarrow> 'p app option" where
  "plain_command T ws a =
     (let tag = Command (from_words ws); name = (case ws of [] \<Rightarrow> [] | w # _ \<Rightarrow> w); given = drop 1 ws in
      if name = ''init'' \<and> length given \<in> {1, 2} then
        Some (tag_pending tag (start_job (''Initializing selected project'' @ ELLIPSIS) True
          (Job_Init (app_root a) (given ! 0) (if length given = 2 then Some (given ! 1) else None)) a))
      else if name = ''resolve'' \<and> length given = 2 then Some (resolve_view (given ! 0) (given ! 1) tag a)
      else if name = ''publish'' \<and> length given = 1 then
        Some (tag_pending tag (start_job (''Loading bounded publication draft'' @ ELLIPSIS) False
          (Job_Load (join (app_root a) (given ! 0)) True) a))
      else if name = ''draft'' then draft_command T ws a
      else if name = ''export'' \<and> (length given = 1 \<or> length given = 2 \<and> given ! 1 = ''--overwrite'') then
        Some (export_command T (given ! 0) (length given = 2) tag a)
      else if name = ''stage'' \<and> (length given = 3 \<or> length given = 4 \<and> given ! 3 = ''--overwrite'') then
        Some (tag_pending tag (start_job (''Checking staging inventory and destination'' @ ELLIPSIS) False
          (Job_Stage (app_root a) (given ! 0) (given ! 1) (given ! 2) (length given = 4)) a))
      else if name = ''withdraw'' \<and> 3 \<le> length given then
        Some (tag_pending tag (start_job (''Checking local withdrawal'' @ ELLIPSIS) False
          (Job_Withdraw (app_root a) (given ! 0) (given ! 1) (join_with '' '' (drop 2 given))) a))
      else if name = ''filter'' \<and> length given = 1 then Some (filter_command T (given ! 0) tag a)
      else if ws = [''agent-draft''] then Some (share_draft tag a)
      else if name = ''integrity-consent'' \<and> length given = 2 then Some (consent_command (given ! 0) (given ! 1) tag a)
      else if ws = [''recover''] then Some (tag_pending Recovery_Completed (recover_records a))
      else if ws = [''usage''] then Some (usage_command T tag a)
      else if ws = [''help''] then Some (observe_ok (Command G_Help) ''current help opened'' (select_section Help_Menu a))
      else None)"

definition run_command :: "'p terminal_env \<Rightarrow> string list \<Rightarrow> 'p app \<Rightarrow> world \<Rightarrow> 'p handled" where
  "run_command T ws a w =
     (case ws of
        [verb, x] \<Rightarrow>
          if verb = ''project'' then switch_project_to T x a w
          else if verb = ''agent-profile'' then choose_profile T x a w
          else
            (case guide_command_of T ws a of
               Some r \<Rightarrow> (r, w)
             | None \<Rightarrow>
                 (Some (case plain_command T ws a of Some a \<Rightarrow> a
                        | None \<Rightarrow> say ''Unknown command or arguments; ? shows command help. Quote paths containing spaces.'' a), w))
      | _ \<Rightarrow>
          (Some (case plain_command T ws a of Some a \<Rightarrow> a
                 | None \<Rightarrow> say ''Unknown command or arguments; ? shows command help. Quote paths containing spaces.'' a), w))"

definition BLOCKED_COMMANDS :: "string list" where
  "BLOCKED_COMMANDS =
     [''publish'', ''draft'', ''stage'', ''withdraw'', ''init'', ''export'', ''agent-draft'', ''integrity-consent'']"

definition CAPTURED_COMMANDS :: "string list" where
  "CAPTURED_COMMANDS = [''init'', ''resolve'', ''publish'', ''stage'', ''withdraw'', ''draft'', ''export'']"

definition capture_command :: "'p terminal_env \<Rightarrow> string list \<Rightarrow> 'p app \<Rightarrow> 'p app" where
  "capture_command T ws a =
     (case ws of
        [] \<Rightarrow> a
      | name # _ \<Rightarrow>
          if name \<in> set CAPTURED_COMMANDS then
            app_emit T ''request'' name ''submitted'' None None
              (if name \<noteq> ''draft'' then a\<lparr>app_capture := snd (begin_request (te_ext T) (app_capture a))\<rparr> else a)
          else a)"

definition submit_command :: "'p terminal_env \<Rightarrow> string \<Rightarrow> 'p app \<Rightarrow> world \<Rightarrow> 'p handled" where
  "submit_command T input a w =
     (case split_command input of
        Inl e \<Rightarrow> (Some (say e a), w)
      | Inr ws \<Rightarrow>
          if app_pending a \<noteq> None then (Some (say ''Wait for the current operation; navigation remains available.'' a), w)
          else if agent_busy (app_agent a) \<and> (case ws of [] \<Rightarrow> False | name # _ \<Rightarrow> name \<in> set BLOCKED_COMMANDS)
          then (Some (say ''Stop or finish the active assistant run before preparing a local mutation.'' a), w)
          else run_command T ws (capture_command T ws a) w)"

section \<open>Keys\<close>

datatype key =
  Key_Char string | Key_Enter | Key_Esc | Key_Tab | Key_Backspace | Key_PageUp | Key_PageDown | Key_Up | Key_Down |
  Key_Other

definition INPUT_LIMIT :: nat where "INPUT_LIMIT = 16384"

text \<open>\<open>pop\<close> takes the last character away, \<open>push\<close> is refused at the limit.\<close>

definition edit_text :: "key \<Rightarrow> string \<Rightarrow> string" where
  "edit_text k text =
     (case k of
        Key_Backspace \<Rightarrow> concat (butlast (chars text))
      | Key_Char c \<Rightarrow> if length text < INPUT_LIMIT then text @ c else text
      | _ \<Rightarrow> text)"

definition handle_search_input :: "key \<Rightarrow> string \<Rightarrow> 'p app \<Rightarrow> 'p app" where
  "handle_search_input k text a =
     (case k of
        Key_Esc \<Rightarrow> a\<lparr>app_input := No_Input\<rparr>
      | Key_Enter \<Rightarrow> search_for text (a\<lparr>app_input := No_Input\<rparr>)
      | _ \<Rightarrow> a\<lparr>app_input := Search_Input (edit_text k text)\<rparr>)"

definition handle_command_input :: "'p terminal_env \<Rightarrow> key \<Rightarrow> string \<Rightarrow> 'p app \<Rightarrow> world \<Rightarrow> 'p handled" where
  "handle_command_input T k text a w =
     (case k of
        Key_Esc \<Rightarrow> (Some (a\<lparr>app_input := No_Input\<rparr>), w)
      | Key_Enter \<Rightarrow> submit_command T text (a\<lparr>app_input := No_Input\<rparr>) w
      | _ \<Rightarrow> (Some (a\<lparr>app_input := Command_Input (edit_text k text)\<rparr>), w))"

definition handle_agent_input :: "'p terminal_env \<Rightarrow> key \<Rightarrow> string \<Rightarrow> 'p app \<Rightarrow> 'p app" where
  "handle_agent_input T k text a =
     (case k of
        Key_Esc \<Rightarrow> a\<lparr>app_input := No_Input\<rparr>
      | Key_Enter \<Rightarrow> start_agent T text (a\<lparr>app_input := No_Input\<rparr>)
      | _ \<Rightarrow> a\<lparr>app_input := Agent_Input (edit_text k text)\<rparr>)"

definition handle_review_key :: "'p terminal_env \<Rightarrow> key \<Rightarrow> 'p app \<Rightarrow> 'p app" where
  "handle_review_key T k a =
     (if k = Key_PageDown then a\<lparr>app_review_scroll := add_10 (app_review_scroll a)\<rparr>
      else if k = Key_PageUp then a\<lparr>app_review_scroll := sub_10 (app_review_scroll a)\<rparr>
      else if k \<in> {Key_Char ''n'', Key_Char ''s'', Key_Esc} then deny_review T (k = Key_Char ''n'') a
      else if k = Key_Char ''h'' then hand_to_assistant a
      else if k = Key_Char ''y'' then confirm_review T a
      else a)"

definition request_quit :: "'p terminal_env \<Rightarrow> 'p app \<Rightarrow> bool \<times> 'p app" where
  "request_quit T a =
     (let a = (if app_quit_when_idle a then a else app_emit T ''review'' ''session'' ''cancelled'' None None a);
          a = a\<lparr>app_agent := agent_stop (app_agent a)\<rparr> in
      if mutation_running a
      then (False, say (''Finishing started operation and journal before exit'' @ ELLIPSIS) (a\<lparr>app_quit_when_idle := True\<rparr>))
      else (True, a))"

definition stop_response :: "'p terminal_env \<Rightarrow> 'p app \<Rightarrow> 'p app" where
  "stop_response T a =
     observe_ok Response_Stop_Requested ''assistant cancellation was requested locally''
       (say ''Stopping assistant generation; any started data operation continues until its shared service finishes.''
         (app_emit T ''review'' ''model'' ''cancelled'' None None (a\<lparr>app_agent := agent_stop (app_agent a)\<rparr>)))"

definition next_section :: "'p app \<Rightarrow> 'p app" where
  "next_section a =
     (let a = select_section (next_menu (app_menu a)) a in
      observe_ok (Section_Changed (menu_title (app_menu a))) ''selected tab is active'' a)"

text \<open>A key outside of every input mode and review.\<close>

definition browse_key :: "'p terminal_env \<Rightarrow> key \<Rightarrow> 'p app \<Rightarrow> 'p app" where
  "browse_key T k a =
     (let catalog = (app_menu a = Catalog_Menu) in
      if k = Key_Char ''?''
      then observe_ok Help_Opened ''current keyboard and command help opened'' (select_section Help_Menu a)
      else if k = Key_Tab then next_section a
      else if k = Key_PageDown then scroll_active_down a
      else if k = Key_PageUp then scroll_active_up a
      else if k = Key_Char '']'' \<and> catalog then page_next a
      else if k = Key_Char ''['' \<and> catalog then page_previous a
      else if k = Key_Char ''/''
      then observe_ok Search_Opened ''catalog search input opened'' (a\<lparr>app_input := Search_Input []\<rparr>)
      else if k = Key_Char '':'' then a\<lparr>app_input := Command_Input []\<rparr>
      else if k = Key_Char ''r'' then refresh_peers a
      else if k \<in> {Key_Char ''j'', Key_Down} \<and> app_menu a = Assistant_Menu then scroll_active_down a
      else if k \<in> {Key_Char ''k'', Key_Up} \<and> app_menu a = Assistant_Menu then scroll_active_up a
      else if k \<in> {Key_Char ''j'', Key_Down} \<and> app_menu a \<in> {Catalog_Menu, Lineage_Menu} then move_selection 1 a
      else if k \<in> {Key_Char ''k'', Key_Up} \<and> app_menu a \<in> {Catalog_Menu, Lineage_Menu} then move_selection (- 1) a
      else if k = Key_Enter \<and> catalog then open_selected a
      else if k = Key_Char ''e'' \<and> catalog then example_selected T a
      else if k = Key_Char ''p'' \<and> catalog then preview_selected a
      else if k = Key_Char ''a''
      then (if agent_idle (app_agent a) then a\<lparr>app_input := Agent_Input []\<rparr> else say (agent_status (app_agent a)) a)
      else if k = Key_Char ''s'' then stop_response T a
      else a)"

definition handle_key :: "'p terminal_env \<Rightarrow> key \<Rightarrow> 'p app \<Rightarrow> world \<Rightarrow> bool \<times> 'p handled" where
  "handle_key T k a w =
     (let a = poll_agent T a in
      if k = Key_Char ''g'' \<and> app_input a = No_Input then (False, toggle_guide T a, w)
      else if k = Key_Char ''x'' \<and> app_input a = No_Input \<and> gu_active (app_guide a) then (False, Some (skip_guide T a), w)
      else if app_review a \<noteq> None then (False, Some (handle_review_key T k a), w)
      else
        case app_input a of
          Search_Input text \<Rightarrow> (False, Some (handle_search_input k text a), w)
        | Command_Input text \<Rightarrow> (False, handle_command_input T k text a w)
        | Agent_Input text \<Rightarrow> (False, Some (handle_agent_input T k text a), w)
        | No_Input \<Rightarrow>
            if k \<in> {Key_Char ''q'', Key_Esc} then (case request_quit T a of (quit, a) \<Rightarrow> (quit, Some a, w))
            else (False, Some (browse_key T k a), w))"

section \<open>The application as a whole\<close>

definition new_query :: catalog_query where
  "new_query = status_query\<lparr>cq_limit := 25\<rparr>"

definition app_new :: "'p terminal_env \<Rightarrow> path \<Rightarrow> string option \<Rightarrow> capture \<Rightarrow> world \<Rightarrow> 'p app \<times> world" where
  "app_new T directory profile c w =
     (case from_profile_request T profile w of
        (g, w') \<Rightarrow>
          (\<lparr>app_root = directory, app_profile = profile, app_menu = Catalog_Menu, app_input = No_Input, app_page = None,
            app_selected = 0, app_views = (\<lambda>_. text_view_default),
            app_status = ''Manual mode; agent: '' @
              (case profile of None \<Rightarrow> ''off'' | Some p \<Rightarrow> ''profile '' @ p @ '' (requires agent-hosted build)''),
            app_review = None, app_operations = [], app_pending = None, app_session = 1, app_review_scroll = 0,
            app_query = new_query, app_history = [], app_draft = None, app_quit_when_idle = False, app_capture = c,
            app_guide = guide_default, app_agent = g, app_assistant = view_default\<rparr>, w'))"

end
