(* ===== verification/Terminal_Proofs.thy ===== *)
theory Terminal_Proofs
  imports Terminal_Commands
begin

text \<open>
  What a key may start. The running job is followed through every handler: only \<open>start_job\<close> starts
  one, and only when nothing runs. So a job that writes is started by a confirmation or by \<open>:init\<close>.
\<close>

section \<open>The running job\<close>

definition running :: "'p app \<Rightarrow> (job \<times> bool) option" where
  "running a = map_option (\<lambda>p. (pj_job p, pj_mutation p)) (app_pending a)"

lemma running_None: "running a = None \<longleftrightarrow> app_pending a = None"
  by (simp add: running_def)

lemma running_fields [simp]:
  "running (a\<lparr>app_status := x1\<rparr>) = running a" "running (a\<lparr>app_views := x2\<rparr>) = running a"
  "running (a\<lparr>app_capture := x3\<rparr>) = running a" "running (a\<lparr>app_guide := x4\<rparr>) = running a"
  "running (a\<lparr>app_agent := x5\<rparr>) = running a" "running (a\<lparr>app_assistant := x6\<rparr>) = running a"
  "running (a\<lparr>app_menu := x7\<rparr>) = running a" "running (a\<lparr>app_input := x8\<rparr>) = running a"
  "running (a\<lparr>app_page := x9\<rparr>) = running a" "running (a\<lparr>app_selected := x10\<rparr>) = running a"
  "running (a\<lparr>app_review := x11\<rparr>) = running a" "running (a\<lparr>app_operations := x12\<rparr>) = running a"
  "running (a\<lparr>app_session := x13\<rparr>) = running a" "running (a\<lparr>app_review_scroll := x14\<rparr>) = running a"
  "running (a\<lparr>app_query := x15\<rparr>) = running a" "running (a\<lparr>app_history := x16\<rparr>) = running a"
  "running (a\<lparr>app_draft := x17\<rparr>) = running a" "running (a\<lparr>app_quit_when_idle := x18\<rparr>) = running a"
  "running (a\<lparr>app_root := x19\<rparr>) = running a" "running (a\<lparr>app_profile := x20\<rparr>) = running a"
  by (simp_all add: running_def)

lemma running_small [simp]:
  "running (say s a) = running a" "running (put_view m v a) = running a" "running (show_text m s a) = running a"
  "running (app_emit T k t d i x a) = running a" "running (observe y a) = running a"
  "running (observe_tagged tag s a) = running a" "running (observe_ok act s a) = running a"
  "running (observe_error act s a) = running a" "running (open_review r a) = running a"
  "running (no_cursor a) = running a" "running (draft_text T a) = running a" "running (show_page pg a) = running a"
  by (simp_all add: say_def put_view_def show_text_def app_emit_def observe_def observe_tagged_def observe_ok_def
      observe_error_def open_review_def no_cursor_def draft_text_def show_page_def split: option.splits)

lemma running_tag [simp]: "running (tag_pending act a) = running a"
  by (cases "app_pending a") (simp_all add: tag_pending_def running_def)

lemma running_with_harness: "with_harness f a = Some a' \<Longrightarrow> running a' = running a"
  by (auto simp: with_harness_def split: sum.splits prod.splits)

lemma running_tell [simp]: "running (tell_outcome T i v a) = running a"
  using running_with_harness [of _ a] by (auto simp: tell_outcome_def or_same_def split: option.splits)

definition starts :: "bool \<Rightarrow> job \<Rightarrow> 'p app \<Rightarrow> bool" where
  "starts mutation j a \<longleftrightarrow> running a = None \<and> (mutation \<longrightarrow> capture_ready (app_capture a))"

lemma running_start_job [simp]:
  "running (start_job label mutation j a) = (if starts mutation j a then Some (j, mutation) else running a)"
  by (auto simp: start_job_def starts_def running_def say_def)

text \<open>Jobs that change what others see; a refresh only fills the cache of the user.\<close>

fun writes :: "job \<Rightarrow> bool" where
  "writes (Job_Init _ _ _) = True"
| "writes (Job_Save _ _ _ _ _) = True"
| "writes (Job_Execute _) = True"
| "writes _ = False"

text \<open>What holds of a step that starts nothing that writes.\<close>

definition no_new_writer :: "'p app \<Rightarrow> 'p app \<Rightarrow> bool" where
  "no_new_writer a a' \<longleftrightarrow> (\<forall>j m. running a' = Some (j, m) \<longrightarrow> writes j \<longrightarrow> running a = Some (j, m))"

lemma no_new_writer_same: "running a' = running a \<Longrightarrow> no_new_writer a a'"
  by (simp add: no_new_writer_def)

lemma no_new_writer_reader [simp]:
  "running a = running b \<Longrightarrow> \<not> writes j \<Longrightarrow> no_new_writer a (start_job label m j b)"
  by (auto simp: no_new_writer_def)

lemma no_new_writer_tag [simp]: "no_new_writer a (tag_pending act b) = no_new_writer a b"
  by (simp add: no_new_writer_def)

lemma no_new_writer_after [simp]:
  "no_new_writer a (observe_ok act s b) = no_new_writer a b" "no_new_writer a (say s b) = no_new_writer a b"
  "no_new_writer a (observe y b) = no_new_writer a b"
  by (simp_all add: no_new_writer_def)

lemma no_new_writer_reload [simp]: "running a = running b \<Longrightarrow> no_new_writer a (reload b)"
  by (simp add: reload_def)

section \<open>The handlers\<close>

lemma running_take_draft_patch [simp]: "running (take_draft_patch T tool a) = running a"
  by (simp add: take_draft_patch_def split: tool_execution.splits)

lemma running_fold_patches [simp]: "running (fold (take_draft_patch T) tools a) = running a"
  by (induction tools arbitrary: a) simp_all

lemma running_offer [simp]: "running (offer_review run a) = running a"
  by (simp add: offer_review_def split: option.splits)

lemma running_run_finished [simp]: "running (run_finished T run kind a) = running a"
  by (simp add: run_finished_def Let_def split: option.splits prod.splits)

lemma running_take_completed: "take_completed T a = (done, a') \<Longrightarrow> running a' = running a"
  by (auto simp: take_completed_def split: hosted_agent.splits prod.splits)

lemma running_show_streamed [simp]: "running (show_streamed a) = running a"
  by (simp add: show_streamed_def split: hosted_agent.splits)

lemma running_poll_agent [simp]: "running (poll_agent T a) = running a"
  using running_take_completed [of T "show_streamed a"]
  by (auto simp: poll_agent_def split: prod.splits option.splits)

lemma running_start_guide_request: "start_guide_request T prompt kind a = (r, a') \<Longrightarrow> running a' = running a"
  by (auto simp: start_guide_request_def Let_def split: if_splits prod.splits sum.splits)

lemma running_case_request:
  assumes "\<And>b. running (f b) = running b" "\<And>e b. running (g e b) = running b"
  shows "running (case start_guide_request T prompt kind a of (Inl e, b) \<Rightarrow> g e b | (Inr x, b) \<Rightarrow> f b) = running a"
  using running_start_guide_request [of T prompt kind a] assms
  by (cases "start_guide_request T prompt kind a"; cases "fst (start_guide_request T prompt kind a)") simp_all

lemma running_stop_guide [simp]: "running (stop_guide a) = running a"
  by (simp add: stop_guide_def)

lemma running_start_guide:
  assumes "start_guide T restart a = Some a'"
  shows "running a' = running a"
  using assms by (auto simp: start_guide_def Let_def running_case_request split: if_splits)

lemma running_toggle_guide: "toggle_guide T a = Some a' \<Longrightarrow> running a' = running a"
  using running_start_guide [of T False a a'] by (auto simp: toggle_guide_def split: if_splits)

lemma running_skip_guide [simp]: "running (skip_guide T a) = running a"
  by (simp add: skip_guide_def running_case_request split: prod.split option.split)

lemma running_agent_input [simp]: "running (start_agent T s a) = running a"
  by (auto simp: start_agent_def ordinary_agent_request_def Let_def split: prod.splits sum.splits)

section \<open>Keys that only read\<close>

lemma reader_sections [simp]:
  "no_new_writer a (section_view a)" "no_new_writer a (select_section m a)"
  by (simp_all add: section_view_def select_section_def Let_def no_new_writer_same)

lemma no_new_writer_fields [simp]:
  "no_new_writer (a\<lparr>app_menu := m\<rparr>) b = no_new_writer a b"
  "no_new_writer (a\<lparr>app_assistant := v\<rparr>) b = no_new_writer a b"
  "no_new_writer (a\<lparr>app_input := i\<rparr>) b = no_new_writer a b"
  "no_new_writer (a\<lparr>app_capture := c\<rparr>) b = no_new_writer a b"
  "no_new_writer (app_emit T k t d x y a) b = no_new_writer a b"
  "no_new_writer (poll_agent T a) b = no_new_writer a b"
  by (simp_all add: no_new_writer_def)

lemma reader_catalog [simp]:
  "no_new_writer a (search_for s a)" "no_new_writer a (page_next a)" "no_new_writer a (page_previous a)"
  "no_new_writer a (refresh_peers a)" "no_new_writer a (resolve_view r v act a)" "no_new_writer a (open_selected a)"
  "no_new_writer a (example_selected T a)" "no_new_writer a (preview_selected a)"
  "no_new_writer a (recover_records a)" "no_new_writer a (prepare_save f n s o' a)"
  by (simp_all add: search_for_def page_next_def page_previous_def refresh_peers_def resolve_view_def open_selected_def
      example_selected_def preview_selected_def recover_records_def prepare_save_def Let_def no_new_writer_same
      split: option.split)

lemma running_scroll [simp]:
  "running (scroll_active_down a) = running a" "running (scroll_active_up a) = running a"
  "running (move_selection d a) = running a"
  by (simp_all add: scroll_active_down_def scroll_active_up_def scroll_assistant_def scroll_view_def
      move_selection_def Let_def)

lemma running_stop_response [simp]: "running (stop_response T a) = running a"
  by (simp add: stop_response_def)

lemma running_quit: "request_quit T a = (quit, a') \<Longrightarrow> running a' = running a"
  by (auto simp: request_quit_def Let_def split: if_splits)

lemma reader_browse [simp]: "no_new_writer a (browse_key T k a)"
  by (simp add: browse_key_def next_section_def Let_def no_new_writer_same)

lemma running_case_harness:
  assumes "\<And>b. running (f b) = running b"
  shows "running (case with_harness g a of None \<Rightarrow> a | Some b \<Rightarrow> f b) = running a"
  using assms running_with_harness [of g a] by (cases "with_harness g a") simp_all

lemma running_deny [simp]: "running (deny_review T denied a) = running a"
  by (simp add: deny_review_def Let_def split: option.split)

lemma running_hand [simp]: "running (hand_to_assistant a) = running a"
  by (cases "Option.bind (app_review a) confirmable_of") (simp_all add: hand_to_assistant_def running_case_harness)

lemma running_share [simp]: "running (share_draft tag a) = running a"
  by (cases "app_draft a") (simp_all add: share_draft_def running_case_harness)

lemma running_consent [simp]: "running (consent_command r v tag a) = running a"
  by (simp add: consent_command_def running_case_harness)

lemma running_usage [simp]: "running (usage_command T tag a) = running a"
  by (simp add: usage_command_def split: hosted_agent.split)

lemma reader_export [simp]: "no_new_writer a (export_command T name o' tag a)"
  by (simp add: export_command_def no_new_writer_same split: option.split)

lemma reader_filter [simp]: "no_new_writer a (filter_command T s tag a)"
  by (simp add: filter_command_def no_new_writer_same split: sum.split)

lemma reader_save_draft [simp]:
  "no_new_writer a (case app_draft a of None \<Rightarrow> a | Some draft \<Rightarrow> tag_pending tag (prepare_save f x (g draft) o' a))"
  by (simp add: no_new_writer_same split: option.split)

lemma reader_set_draft [simp]:
  "no_new_writer a (case r of Inl e \<Rightarrow> observe_error tag e a
     | Inr draft \<Rightarrow> observe_ok tag s (draft_text T ((app_emit T k t d x y a)\<lparr>app_draft := Some draft, app_review := None\<rparr>)))"
  by (simp add: no_new_writer_same split: sum.split)

text \<open>A command that may not be known: if it is, it starts nothing that writes.\<close>

definition reads_opt :: "'p app \<Rightarrow> 'p app option \<Rightarrow> bool" where
  "reads_opt a r \<longleftrightarrow> (\<forall>a'. r = Some a' \<longrightarrow> no_new_writer a a')"

lemma reads_opt_rules:
  "reads_opt a None" "no_new_writer a b \<Longrightarrow> reads_opt a (Some b)"
  "reads_opt a x \<Longrightarrow> reads_opt a y \<Longrightarrow> reads_opt a (if c then x else y)"
  "reads_opt a x \<Longrightarrow> (\<And>d. reads_opt a (f d)) \<Longrightarrow> reads_opt a (case r of None \<Rightarrow> x | Some d \<Rightarrow> f d)"
  "reads_opt a x \<Longrightarrow> (\<And>v vs. reads_opt a (g v vs)) \<Longrightarrow> reads_opt a (case ws of [] \<Rightarrow> x | v # vs \<Rightarrow> g v vs)"
  by (auto simp: reads_opt_def split: option.splits list.splits)

lemma reads_opt_skip: "\<not> c \<Longrightarrow> reads_opt a y \<Longrightarrow> reads_opt a (if c then x else y)"
  by simp

lemma reader_drafts: "reads_opt a (draft_command T ws a)"
  unfolding draft_command_def Let_def
  by (intro reads_opt_rules) (simp_all add: no_new_writer_same)

lemma reader_guide_commands: "guide_command_of T ws a = Some r \<Longrightarrow> reads_opt a r"
proof -
  assume "guide_command_of T ws a = Some r"
  then consider "r = start_guide T False a" | "r = Some (stop_guide a)" | "r = start_guide T True a" | "r = Some (skip_guide T a)"
    unfolding guide_command_of_def by (metis option.distinct(1) option.inject)
  then show ?thesis by cases (auto simp: reads_opt_def no_new_writer_same dest: running_start_guide)
qed

section \<open>What starts a job that writes\<close>

definition init_words :: "string list \<Rightarrow> bool" where
  "init_words ws \<longleftrightarrow> (case ws of [] \<Rightarrow> False | name # given \<Rightarrow> name = ''init'' \<and> length given \<in> {1, 2})"

definition init_job :: "path \<Rightarrow> string list \<Rightarrow> job" where
  "init_job directory ws = Job_Init directory (ws ! 1) (if length ws = 3 then Some (ws ! 2) else None)"

lemma reader_plain: "\<not> init_words ws \<Longrightarrow> reads_opt a (plain_command T ws a)"
proof -
  assume not: "\<not> init_words ws"
  then have skipped: "\<not> ((case ws of [] \<Rightarrow> [] | w # _ \<Rightarrow> w) = ''init'' \<and> length (drop 1 ws) \<in> {1, 2})"
    by (cases ws) (auto simp: init_words_def)
  show ?thesis unfolding plain_command_def Let_def
    by (rule reads_opt_skip [OF skipped]) (intro reads_opt_rules reader_drafts, simp_all add: no_new_writer_same)
qed

lemma plain_init:
  assumes "init_words ws"
  shows "\<exists>label tag. plain_command T ws a = Some (tag_pending tag (start_job label True (init_job (app_root a) ws) a))"
proof -
  obtain given where ws: "ws = ''init'' # given" "length given \<in> {1, 2}"
    using assms by (cases ws) (auto simp: init_words_def)
  then have cond: "(case ws of [] \<Rightarrow> [] | w # _ \<Rightarrow> w) = ''init'' \<and> length (drop 1 ws) \<in> {1, 2}" by simp
  have "plain_command T ws a = Some (tag_pending (Command (from_words ws))
      (start_job (''Initializing selected project'' @ ELLIPSIS) True
        (Job_Init (app_root a) (drop 1 ws ! 0) (if length (drop 1 ws) = 2 then Some (drop 1 ws ! 1) else None)) a))"
    unfolding plain_command_def Let_def by (rule if_P [OF cond])
  moreover have "Job_Init (app_root a) (drop 1 ws ! 0) (if length (drop 1 ws) = 2 then Some (drop 1 ws ! 1) else None) =
      init_job (app_root a) ws"
    by (simp add: init_job_def ws(1))
  ultimately show ?thesis by metis
qed

text \<open>A step that starts a job that writes, and why.\<close>

definition starts_writer :: "'p app \<Rightarrow> 'p app \<Rightarrow> job \<Rightarrow> bool" where
  "starts_writer a a' j \<longleftrightarrow> running a = None \<and> running a' = Some (j, True) \<and> capture_ready (app_capture a')"

lemma starts_writer_job:
  assumes "running (start_job label True j a) = Some (k, m)" "running a = None"
  shows "starts_writer a (tag_pending tag (start_job label True j a)) k \<and> k = j"
  using assms by (auto simp: starts_writer_def running_def start_job_def tag_pending_def say_def split: if_splits)

lemma run_command_writer:
  assumes "run_command T ws a w = (Some a', w')" "running a' = Some (j, m)" "writes j" "running a = None"
  shows "init_words ws \<and> j = init_job (app_root a) ws \<and> starts_writer a a' j"
proof -
  have plain: "init_words ws \<and> j = init_job (app_root a) ws \<and> starts_writer a b j"
    if b: "plain_command T ws a = Some b" "running b = Some (j, m)" for b
  proof (cases "init_words ws")
    case False
    then show ?thesis using reader_plain [of ws a T] b assms(3,4) by (auto simp: reads_opt_def no_new_writer_def)
  next
    case True
    from plain_init [OF this, of T a] obtain label tag where
      "b = tag_pending tag (start_job label True (init_job (app_root a) ws) a)" using b(1) by auto
    then show ?thesis using starts_writer_job [OF _ assms(4)] b(2) True by simp
  qed
  have switched: "running b \<noteq> Some (j, m)" if "switch_project_to T x a w = (Some b, v)" for x b v
    using that assms(3,4) by (auto simp: switch_project_to_def switch_to_def reload_def starts_def
        split: sum.splits prod.splits)
  have chosen: "running b \<noteq> Some (j, m)" if "choose_profile T x a w = (Some b, v)" for x b v
    using that assms(3,4) by (auto simp: choose_profile_def Let_def split: prod.splits)
  have guided: "running b \<noteq> Some (j, m)" if "guide_command_of T ws a = Some (Some b)" for b
    using reader_guide_commands [OF that] assms(3,4) by (auto simp: reads_opt_def no_new_writer_def)
  show ?thesis
    using assms plain switched chosen guided
    by (auto simp: run_command_def split: list.splits if_splits option.splits)
qed

lemma starts_writer_before [simp]:
  "starts_writer (a\<lparr>app_input := i\<rparr>) b j = starts_writer a b j"
  "starts_writer (poll_agent T a) b j = starts_writer a b j"
  "starts_writer (a\<lparr>app_capture := c\<rparr>) b j = starts_writer a b j"
  "starts_writer (app_emit T k t d x y a) b j = starts_writer a b j"
  by (simp_all add: starts_writer_def)

lemma capture_command_same [simp]:
  "running (capture_command T ws a) = running a" "app_root (capture_command T ws a) = app_root a"
  "starts_writer (capture_command T ws a) b j = starts_writer a b j"
  by (simp_all add: capture_command_def app_emit_def starts_writer_def split: list.split)

lemma submit_command_writer:
  assumes "submit_command T text a w = (Some a', w')" "running a' = Some (j, m)" "running a \<noteq> Some (j, m)" "writes j"
  shows "\<exists>ws. split_command text = Inr ws \<and> init_words ws \<and> j = init_job (app_root a) ws \<and> starts_writer a a' j"
proof -
  obtain ws where ws: "split_command text = Inr ws" "app_pending a = None"
    "run_command T ws (capture_command T ws a) w = (Some a', w')"
    using assms by (auto simp: submit_command_def split: sum.splits if_splits)
  have "running (capture_command T ws a) = None" using ws(2) by (simp add: running_None)
  from run_command_writer [OF ws(3) assms(2,4) this] ws(1) show ?thesis by auto
qed

fun confirmed_job :: "path \<Rightarrow> review \<Rightarrow> job" where
  "confirmed_job directory (Review_Inspect value) = Job_Inspect directory value"
| "confirmed_job directory (Review_Save p text state overwrite) = Job_Save directory p text state overwrite"
| "confirmed_job directory r = Job_Execute r"

lemma confirm_review_writer:
  assumes "running (confirm_review T a) = Some (j, m)" "running a \<noteq> Some (j, m)" "writes j"
  shows "\<exists>r. app_review a = Some r \<and> j = confirmed_job (app_root a) r \<and> starts_writer a (confirm_review T a) j"
proof -
  obtain r where r: "app_review a = Some r" "capture_ready (app_capture a)"
    using assms by (auto simp: confirm_review_def split: if_splits option.splits)
  show ?thesis using assms r
    by (cases r)
       (auto simp: confirm_review_def Let_def starts_writer_def starts_def start_job_def tag_pending_def say_def
         running_def app_emit_def split: if_splits)
qed

lemma handle_review_writer:
  assumes "running (handle_review_key T k a) = Some (j, m)" "running a \<noteq> Some (j, m)" "writes j"
  shows "k = Key_Char ''y'' \<and>
    (\<exists>r. app_review a = Some r \<and> j = confirmed_job (app_root a) r \<and> starts_writer a (handle_review_key T k a) j)"
  using assms confirm_review_writer [OF _ assms(2,3)]
  by (auto simp: handle_review_key_def split: if_splits)

lemma handle_key_writer:
  assumes "handle_key T k a w = (quit, Some a', w')" "running a' = Some (j, m)" "running a \<noteq> Some (j, m)" "writes j"
  shows "starts_writer a a' j \<and>
    (k = Key_Char ''y'' \<and> (\<exists>r. app_review (poll_agent T a) = Some r \<and> j = confirmed_job (app_root (poll_agent T a)) r) \<or>
     k = Key_Enter \<and> (\<exists>text ws. app_input (poll_agent T a) = Command_Input text \<and> split_command text = Inr ws \<and>
       init_words ws \<and> j = init_job (app_root (poll_agent T a)) ws))"
proof -
  define b where "b = poll_agent T a"
  have new: "running b \<noteq> Some (j, m)" and sw: "starts_writer b a' j = starts_writer a a' j"
    using assms(3) by (simp_all add: b_def)
  have old: "\<not> no_new_writer b a'" using assms(2,4) new by (auto simp: no_new_writer_def)
  have same: "running a' \<noteq> running b" using old no_new_writer_same by blast
  show ?thesis
  proof (cases "app_review b \<noteq> None \<and> a' = handle_review_key T k b")
    case True
    then show ?thesis using handle_review_writer [of T k b j m] assms(2,4) new sw by (auto simp: b_def)
  next
    case False
    have searched: "no_new_writer b (search_for x (b\<lparr>app_input := i\<rparr>))" for x i
      using reader_catalog(1) [of "b\<lparr>app_input := i\<rparr>" x] by (simp add: no_new_writer_def)
    obtain typed where t: "app_input b = Command_Input typed" "k = Key_Enter"
      "submit_command T typed (b\<lparr>app_input := No_Input\<rparr>) w = (Some a', w')"
      using assms(1) False old same searched
      by (auto simp: handle_key_def b_def [symmetric] Let_def handle_search_input_def handle_command_input_def
          handle_agent_input_def dest: running_toggle_guide running_quit
          split: if_splits input_mode.splits key.splits prod.splits)
    then show ?thesis using submit_command_writer [OF t(3) assms(2)] assms(4) new sw by (auto simp: b_def)
  qed
qed

end
