(* ===== verification/Terminal_Work.thy ===== *)
theory Terminal_Work
  imports Terminal_Proofs Operations_Proofs Tools_Proofs Journal_Proofs Resolve_Proofs Example_World
begin

text \<open>
  What the jobs of the terminal interface do to the disk: those that prepare, show and reconcile leave it
  alone, and a reviewed save writes only inside its scope and only what is still there to be replaced.
\<close>

section \<open>Jobs that read\<close>

lemma readonly_local [readonly_rules, intro!]:
  "readonly m \<Longrightarrow> readonly (peer_io E m)" "readonly n \<Longrightarrow> readonly (journal_io E n)" "readonly s \<Longrightarrow> readonly (told E s)"
  by (auto simp: peer_io_def journal_io_def told_def intro!: readonly_rules)

lemma readonly_pending_from [readonly_rules, intro!, simp]: "readonly (pending_from E dir intents names)"
  by (induction names arbitrary: intents)
     (auto simp: Let_def ensure_private_permissions_def intro!: readonly_rules)

lemma readonly_pending [readonly_rules, intro!, simp]: "readonly (pending E dir)"
  unfolding pending_def by (auto intro!: readonly_rules)

lemma readonly_prepares [readonly_rules, intro!, simp]:
  "readonly (prepare_publication E d r)" "readonly (prepare_stage E d ref v out ov)"
  "readonly (prepare_withdrawal E d ref v reason)" "readonly (reconcile E i)"
  by (auto simp: prepare_publication_def prepare_stage_def prepare_withdrawal_def Let_def case_prod_unfold
      intro!: readonly_rules) (cases i; simp)

lemma readonly_views [readonly_rules, intro!, simp]: "readonly (catalog_teams E p)" "readonly (cache_status E p)"
  unfolding catalog_teams_def cache_status_def by (auto intro!: readonly_rules)

lemma readonly_job:
  assumes "\<not> writes j" "\<And>d q. j \<noteq> Job_Refresh d q"
  shows "readonly (run_job V j)"
  using assms
  by (cases j) (auto simp: load_job_def recover_job_def Let_def intro!: readonly_rules)

text \<open>C13. Jobs that read. Whatever a job of the terminal interface does other than initialise, save, execute
  a confirmed review or refresh the cache of the user, it leaves every file as it is: reading and showing,
  preparing a publication, a staging or a withdrawal for review, checking the target of a save, and
  reconciling what the journal holds.
\<close>
theorem reading_jobs_write_nothing:
  assumes "\<not> writes j" "\<And>d q. j \<noteq> Job_Refresh d q"
  shows "disk (snd (run_job V j w)) = disk w"
  using readonlyD [OF readonly_job [OF assms], of V w] by (cases "run_job V j w") auto

definition demo_jobs :: job_env where
  "demo_jobs = \<lparr>je_ext = demo_ext, je_journal = ''/j'', je_debug_str = (\<lambda>s. s)\<rparr>"

lemma reading_jobs_write_nothing_witness:
  "disk (snd (run_job demo_jobs (Job_Check_Save ''/p/.feam/exports/x'' ''text'' False) demo_world)) = disk demo_world"
  by (rule reading_jobs_write_nothing) simp_all

section \<open>The reviewed save\<close>

lemma readonly_looks [readonly_rules, intro!, simp]: "readonly (is_symlink p)" "readonly (is_irregular p)"
  unfolding is_symlink_def is_irregular_def by (auto intro!: readonly_rules)

lemma readonly_save_checks [readonly_rules, intro!, simp]: "readonly (save_checks E directory dir p state)"
  unfolding save_checks_def by (auto simp: Let_def intro!: readonly_rules)

lemma save_checks_passed:
  assumes "save_checks E directory dir p state w = (Inr u, w')"
  shows "(path_eq (join (join directory ''.feam'') ''drafts'') dir \<or> path_eq (join (join directory ''.feam'') ''exports'') dir) \<and>
    (\<exists>w1 w2. path_state E p w1 = (Inr state, w2) \<and> disk w1 = disk w)"
proof -
  have scope: "path_eq (join (join directory ''.feam'') ''drafts'') dir \<or> path_eq (join (join directory ''.feam'') ''exports'') dir"
    using assms by (auto simp: save_checks_def Let_def split: if_splits)
  from assms obtain w0 w1 w2 where ran: "is_symlink (join directory ''.feam'') w = (Inr False, w0)"
      "is_symlink dir w0 = (Inr False, w1)" "path_state E p w1 = (Inr state, w2)"
    by (auto simp: save_checks_def Let_def elim!: io_bindE split: if_splits)
  have "disk w1 = disk w"
    using readonlyD [OF readonly_looks(1) ran(1)] readonlyD [OF readonly_looks(1) ran(2)] by simp
  then show ?thesis using scope ran(3) by blast
qed


definition demo_reviewed_state :: string where
  "demo_reviewed_state =
     (case fst (path_state demo_ext ''/p/.feam/exports/x'' demo_world) of Inr s \<Rightarrow> s | Inl _ \<Rightarrow> [])"


end
