(* ===== verification/Terminal_Loop.thy ===== *)
theory Terminal_Loop
  imports Terminal_Commands
begin

text \<open>
  One round of the main loop of \<open>mesh_tui/src/lib.rs\<close>: results are taken, the guide is moved on, and one
  key is handled. What comes from outside in a round is \<open>round_input\<close>; drawing is left out.
\<close>

record round_input =
  ri_core :: core_arrival
  ri_terminating :: bool
  ri_key :: "key option"

definition round_polls :: "'p terminal_env \<Rightarrow> round_input \<Rightarrow> 'p app \<Rightarrow> 'p app option" where
  "round_polls T x a = pump_guide T (poll_agent T (poll_core T (ri_core x) a))"

text \<open>A signal asks to quit, as \<open>q\<close> does.\<close>

definition signalled :: "'p terminal_env \<Rightarrow> round_input \<Rightarrow> 'p app \<Rightarrow> bool \<times> 'p app" where
  "signalled T x a = (if ri_terminating x then request_quit T a else (False, a))"

definition loop_round :: "'p terminal_env \<Rightarrow> round_input \<Rightarrow> 'p app \<Rightarrow> world \<Rightarrow> bool \<times> 'p handled" where
  "loop_round T x a w =
     (case round_polls T x a of
        None \<Rightarrow> (False, None, w)
      | Some a \<Rightarrow>
          (case signalled T x a of
             (leaves, a) \<Rightarrow>
               if leaves \<or> app_quit_when_idle a \<and> app_pending a = None then (True, Some a, w)
               else
                 case ri_key x of
                   None \<Rightarrow> (False, Some a, w)
                 | Some k \<Rightarrow> handle_key T k a w))"

end
