(* ===== verification/Terminal_Safety.thy ===== *)
theory Terminal_Safety
  imports Terminal_Work Terminal_Loop
begin

text \<open>
  What a session of the terminal interface never does: change anything that was not confirmed, panic on
  input, or leave a mutation behind.
\<close>

section \<open>What runs after the polls\<close>

lemma running_app_emit [simp]: "running (app_emit T k t d x y a) = running a"
  by (simp add: app_emit_def running_def)

lemma no_new_writer_observed [simp]:
  "no_new_writer a (observe_tagged tag s b) = no_new_writer a b"
  by (simp add: observe_tagged_def split: option.split)

lemma running_shows [simp]:
  "running (show_text m s a) = running a" "running (put_view m v a) = running a" "running (show_page page a) = running a"
  "running (open_review r a) = running a"
  by (simp_all add: show_text_def put_view_def show_page_def open_review_def running_def)

lemma running_operation_arrived [simp]: "running (operation_arrived T tag result a) = running a"
  by (auto simp: operation_arrived_def observe_operation_def Let_def observe_ok_def split: sum.split option.split)

lemma reader_update: "no_new_writer a (update_arrived T mutation tag u a)"
  by (cases u) (auto simp: no_new_writer_same Let_def split: prod.split)

lemma reader_job_failed: "no_new_writer a (job_failed T mutation tag e a)"
  by (simp add: job_failed_def Let_def no_new_writer_same split: option.split)

lemma reader_poll_core: "no_new_writer a (poll_core T x a)"
proof (cases "app_pending a")
  case (Some p)
  then have idle: "no_new_writer a b" if "no_new_writer (a\<lparr>app_pending := None\<rparr>) b" for b
    using that by (auto simp: no_new_writer_def running_def)
  show ?thesis unfolding poll_core_def Let_def
    by (auto simp: no_new_writer_same idle reader_update reader_job_failed split: option.split sum.split)
qed (simp add: poll_core_def no_new_writer_same)

lemma running_pump_guide:
  assumes "pump_guide T a = Some b"
  shows "running b = running a"
proof (cases "guide_pop (app_guide a)")
  case popped: (Pair x g)
  show ?thesis
  proof (cases x)
    case None
    then show ?thesis using assms popped by (simp add: pump_guide_def split: if_splits)
  next
    case (Some y)
    obtain d g' where applied: "guide_apply y g = (d, g')" by fastforce
    from assms popped Some applied show ?thesis
      by (auto simp: pump_guide_def running_case_request split: if_splits)
  qed
qed

lemma reader_polls:
  assumes "round_polls T x a = Some b"
  shows "no_new_writer a b"
  using reader_poll_core [of a T "ri_core x"] running_pump_guide [OF assms [unfolded round_polls_def]]
  by (simp add: no_new_writer_def)

lemma running_signalled [simp]: "running (snd (signalled T x a)) = running a"
  using running_quit [of T a "fst (request_quit T a)" "snd (request_quit T a)"] by (simp add: signalled_def)

section \<open>Nothing is changed that was not confirmed\<close>

text \<open>C7. Confirmation. When a round of the main loop ends with a job running that changes the project, and
  that job was not running before, then either the key was \<open>y\<close> and the job is the one of the review that
  was open, or the key was Enter and the command line held \<open>init\<close>; recording was ready, and nothing else
  was running. Nothing the assistant sends, no result of a job and no other key starts such a job.
\<close>
theorem mutation_needs_confirmation:
  assumes "loop_round T x a w = (leaves, Some a', w')"
    and "running a' = Some (j, m)" "running a \<noteq> Some (j, m)" "writes j"
  shows "\<exists>b k. round_polls T x a = Some b \<and> ri_key x = Some k \<and>
    (let c = poll_agent T (snd (signalled T x b)) in
     running c = None \<and> m \<and> capture_ready (app_capture a') \<and>
     (k = Key_Char ''y'' \<and> (\<exists>r. app_review c = Some r \<and> j = confirmed_job (app_root c) r) \<or>
      k = Key_Enter \<and> (\<exists>typed ws. app_input c = Command_Input typed \<and> split_command typed = Inr ws \<and>
        init_words ws \<and> j = init_job (app_root c) ws)))"
proof -
  obtain b where b: "round_polls T x a = Some b" using assms(1) by (auto simp: loop_round_def split: option.splits)
  define d where "d = snd (signalled T x b)"
  have new: "running d \<noteq> Some (j, m)"
    using reader_polls [OF b] assms(3,4) by (auto simp: no_new_writer_def d_def)
  obtain quits where decided: "signalled T x b = (quits, d)" by (metis d_def prod.collapse)
  have moved: "a' \<noteq> d" using new assms(2) by auto
  then obtain k where k: "ri_key x = Some k" "handle_key T k d w = (leaves, Some a', w')"
    using assms(1) by (auto simp: loop_round_def b decided split: if_splits option.splits)
  from handle_key_writer [OF k(2) assms(2) new assms(4)] show ?thesis
    using assms(2) b k(1) d_def by (auto simp: starts_writer_def Let_def)
qed

lemma take_messages_code [code]:
  "take_messages n E (r, c) =
    (if n = 0 then (None, r, c)
     else
       case gr_pending r of
         None \<Rightarrow> (None, r, c)
       | Some p \<Rightarrow>
           (case gp_inbox p of
              [] \<Rightarrow> (None, if gp_closed p then r\<lparr>gr_pending := None\<rparr> else r, c)
            | m # ms \<Rightarrow>
                let r = r\<lparr>gr_pending := Some (p\<lparr>gp_inbox := ms\<rparr>)\<rparr> in
                (case m of
                   Msg_Event i e \<Rightarrow>
                     take_messages (n - 1) E (if i = gp_run_id p \<and> \<not> gp_cancelled p then take_event E e (r, c) else (r, c))
                 | Msg_Complete i h run \<Rightarrow>
                     (case take_complete p i h run r of (done, r') \<Rightarrow> (done, r', c)))))"
  by (cases n) (simp_all add: Let_def split: option.split list.split agent_message.split)

text \<open>A session at its catalog with the save of an export under review, and the key that confirms it.\<close>

definition demo_terminal :: "unit terminal_env" where
  "demo_terminal =
     \<lparr>te_jobs = demo_jobs, te_replay = Inl ''none'', te_router = (\<lambda>_. Inl ''none''), te_config_path = None,
      te_profile_error = (\<lambda>_. ''profile''), te_debug_state = (\<lambda>_. ''state'')\<rparr>"

definition demo_app :: "unit app" where
  "demo_app = fst (app_new demo_terminal ''/p'' None (capture_disabled (\<lambda>_. None) (\<lambda>_. [])) demo_world)"

definition reviewing_app :: "unit app" where
  "reviewing_app = open_review (Review_Save ''/p/.feam/exports/x'' ''text'' ''missing'' False) demo_app"

definition confirming_input :: round_input where
  "confirming_input = \<lparr>ri_core = Nothing_Yet, ri_terminating = False, ri_key = Some (Key_Char ''y'')\<rparr>"

lemma mutation_needs_confirmation_witness:
  "\<exists>b k. round_polls demo_terminal confirming_input reviewing_app = Some b \<and> ri_key confirming_input = Some k \<and>
    (let c = poll_agent demo_terminal (snd (signalled demo_terminal confirming_input b)) in
     running c = None \<and> True \<and>
     capture_ready (app_capture (the (fst (snd (loop_round demo_terminal confirming_input reviewing_app demo_world))))) \<and>
     (k = Key_Char ''y'' \<and> (\<exists>r. app_review c = Some r \<and>
        Job_Save ''/p'' ''/p/.feam/exports/x'' ''text'' ''missing'' False = confirmed_job (app_root c) r) \<or>
      k = Key_Enter \<and> (\<exists>typed ws. app_input c = Command_Input typed \<and> split_command typed = Inr ws \<and>
        init_words ws \<and> Job_Save ''/p'' ''/p/.feam/exports/x'' ''text'' ''missing'' False = init_job (app_root c) ws)))"
proof -
  have "fst (snd (loop_round demo_terminal confirming_input reviewing_app demo_world)) \<noteq> None" by code_simp
  then have round: "loop_round demo_terminal confirming_input reviewing_app demo_world =
      (fst (loop_round demo_terminal confirming_input reviewing_app demo_world),
       Some (the (fst (snd (loop_round demo_terminal confirming_input reviewing_app demo_world)))),
       snd (snd (loop_round demo_terminal confirming_input reviewing_app demo_world)))"
    by (simp add: prod_eq_iff)
  show ?thesis by (rule mutation_needs_confirmation [OF round]; code_simp)
qed

section \<open>A confirmation that was not one\<close>

text \<open>
  \<open>handle_key\<close> looks for results of the assistant before it looks at the key, and at the review before
  the input mode: a proposal that arrives with the key is confirmed by a \<open>y\<close> that was typed into a
  command, and has never been on the screen.
\<close>

lemma capture_off_emits [simp]:
  "cap_config (app_capture a) = None \<Longrightarrow> app_emit T k t d x y a = a"
  by (simp add: app_emit_def capture_emit_def)

lemma unseen_review_is_confirmed:
  assumes "app_agent a = Agent_Ready r" "gr_pending r = Some p" "gp_inbox p = [Msg_Complete (gp_run_id p) h run]"
    and "\<not> gp_cancelled p" "run_tools run = []" "run_pending run = Some operation"
    and "app_review a = None" "app_input a = Command_Input typed" "app_pending a = None"
    and "cap_config (app_capture a) = None" "capture_ready (app_capture a)"
  shows "\<exists>a'. handle_key T (Key_Char ''y'') a w = (False, Some a', w) \<and>
    running a' = Some (Job_Execute (review_of operation), True)"
proof -
  define b where "b = poll_agent T a"
  have "take_messages 32 E (r, c) =
      (Some (run, gp_kind p), snd (take_complete p (gp_run_id p) h run (r\<lparr>gr_pending := Some (p\<lparr>gp_inbox := []\<rparr>)\<rparr>)), c)" for E c
    using assms(2-4) by (subst take_messages_code) (simp add: Let_def take_complete_def)
  then have b: "app_review b = Some (review_of operation)" "app_pending b = None" "app_capture b = app_capture a"
    "gu_active (app_guide b) \<or> True" "app_input b = Command_Input typed"
    using assms
    by (auto simp: b_def poll_agent_def show_streamed_def take_completed_def run_finished_def Let_def offer_review_def
        mutation_running_def open_review_def say_def split: prod.split)
  have "\<exists>j. j = Job_Execute (review_of operation) \<and> running (confirm_review T b) = Some (j, True)"
    using b assms(10,11)
    by (cases operation)
       (simp_all add: confirm_review_def Let_def start_job_def tag_pending_def say_def running_def)
  then show ?thesis using b by (simp add: handle_key_def b_def [symmetric] Let_def handle_review_key_def)
qed

text \<open>
  A review that is confirmed while a job that only reads is running is dropped, after it has been
  reported as approved: \<open>job\<close> refuses, and nothing else is started.
\<close>

lemma approved_review_is_dropped:
  assumes "app_review a = Some (Review_Stage p)" "app_pending a = Some q" "cap_config (app_capture a) = None"
    and "capture_ready (app_capture a)"
  shows "app_review (confirm_review T a) = None \<and> running (confirm_review T a) = running a"
  using assms by (simp add: confirm_review_def Let_def start_job_def tag_pending_def say_def running_def)

section \<open>No panic, and no mutation left behind\<close>

lemma curriculum_begins: "CURRICULUM \<noteq> []"
  by (simp add: CURRICULUM_def lesson_1_def)

lemma prompt_after_apply: "guide_apply x g = (d, g') \<Longrightarrow> observation_prompt g' x d \<noteq> None"
  by (auto simp: guide_apply_def observation_prompt_def guide_current_def Let_def
      split: if_splits observation_result.splits disposition.splits)

lemma pump_guide_returns: "pump_guide T a \<noteq> None"
  using prompt_after_apply by (auto simp: pump_guide_def split: prod.split option.split)

lemma start_guide_returns [simp]: "\<exists>b. start_guide T restart a = Some b"
  using curriculum_begins
  by (auto simp: start_guide_def Let_def initial_prompt_def guide_current_def guide_start_def guide_restart_def guide_default_def
      split: option.split)

lemma toggle_guide_returns [simp]: "\<exists>b. toggle_guide T a = Some b"
  by (simp add: toggle_guide_def)

lemma guide_command_returns:
  assumes "guide_command_of T ws a = Some r"
  shows "\<exists>b. r = Some b"
proof -
  have "\<exists>b. r = Some b"
    if "(if c1 then Some (start_guide T False a) else if c2 then Some (Some (stop_guide a))
         else if c3 then Some (start_guide T True a) else if c4 then Some (Some (skip_guide T a)) else None) = Some r"
    for c1 c2 c3 c4
    using that by (auto split: if_splits)
  from this [OF assms [unfolded guide_command_of_def]] show ?thesis .
qed

lemma run_command_returns [simp]: "\<exists>b. fst (run_command T ws a w) = Some b"
proof -
  have switched: "\<exists>b. fst (switch_project_to T x a w) = Some b" "\<exists>b. fst (choose_profile T x a w) = Some b" for x
    by (simp_all add: switch_project_to_def switch_to_def choose_profile_def Let_def split: prod.split sum.split)
  have guided: "\<exists>b. fst (case guide_command_of T ws a of Some r \<Rightarrow> (r, w) | None \<Rightarrow> (Some y, w)) = Some b" for y ws
    using guide_command_returns [of T ws a] by (simp split: option.split)
  show ?thesis unfolding run_command_def using switched guided by (simp split: list.split)
qed

lemma submit_command_returns [simp]: "\<exists>b. fst (submit_command T input a w) = Some b"
  by (simp add: submit_command_def split: sum.split)

lemma handle_command_returns [simp]: "\<exists>b. fst (handle_command_input T k input a w) = Some b"
  by (simp add: handle_command_input_def split: key.split)

lemma handle_key_returns [simp]: "\<exists>b. fst (snd (handle_key T k a w)) = Some b"
  by (simp add: handle_key_def Let_def split: input_mode.split prod.split)

text \<open>The profile of the replay is one that can be read: the \<open>unwrap\<close> of the source does not panic.\<close>

lemma replay_profile_reads: "is_ok replay_profile"
  by code_simp


lemma quits_idle: "request_quit T a = (True, a') \<Longrightarrow> \<not> mutation_running a'"
  by (auto simp: request_quit_def Let_def split: if_splits)

lemma idle_without_job: "app_pending a = None \<Longrightarrow> \<not> mutation_running a"
  by (simp add: mutation_running_def)


definition leaving_input :: round_input where
  "leaving_input = \<lparr>ri_core = Nothing_Yet, ri_terminating = False, ri_key = Some (Key_Char ''q'')\<rparr>"


section \<open>The guide\<close>

definition guide_place :: "'p app \<Rightarrow> nat \<times> nat \<times> guide_observation list" where
  "guide_place a = (gu_index (app_guide a), gu_skipped (app_guide a), gu_pending (app_guide a))"

lemma guide_place_fields [simp]:
  "guide_place (say s a) = guide_place a" "guide_place (a\<lparr>app_assistant := v\<rparr>) = guide_place a"
  "guide_place (a\<lparr>app_agent := g\<rparr>) = guide_place a" "guide_place (a\<lparr>app_capture := c\<rparr>) = guide_place a"
  "guide_place (a\<lparr>app_draft := d\<rparr>) = guide_place a" "guide_place (app_emit T k t y z u a) = guide_place a"
  "guide_place (show_text m s a) = guide_place a" "guide_place (open_review r a) = guide_place a"
  by (simp_all add: guide_place_def say_def app_emit_def show_text_def put_view_def open_review_def)

lemma guide_place_patches [simp]: "guide_place (fold (take_draft_patch T) tools a) = guide_place a"
  by (induction tools arbitrary: a) (simp_all add: take_draft_patch_def split: tool_execution.split)

lemma guide_place_offer [simp]: "guide_place (offer_review run a) = guide_place a"
  by (simp add: offer_review_def split: option.split)

lemma finish_response_place [simp]:
  "gu_index (snd (guide_finish_response g)) = gu_index g" "gu_skipped (snd (guide_finish_response g)) = gu_skipped g"
  "gu_pending (snd (guide_finish_response g)) = gu_pending g"
  by (simp_all add: guide_finish_response_def)

lemma guide_place_run_finished: "guide_place (run_finished T run kind a) = guide_place a"
proof -
  define b where "b = offer_review run (fold (take_draft_patch T) (run_tools run) a)"
  define c where "c = (case app_review b of None \<Rightarrow> b
    | Some r \<Rightarrow> app_emit T ''review'' (review_name r) ''presented'' (Some (review_operation_id r)) None b)"
  have c: "guide_place c = guide_place a" by (simp add: c_def b_def split: option.split)
  then show ?thesis
    by (auto simp: run_finished_def Let_def case_prod_unfold guide_place_def say_def simp flip: b_def c_def)
qed

lemma guide_place_poll: "guide_place (poll_agent T a) = guide_place a"
proof -
  have streamed: "guide_place (show_streamed a) = guide_place a"
    by (simp add: show_streamed_def split: hosted_agent.split)
  have taken: "guide_place (snd (take_completed T b)) = guide_place b" for b
    by (simp add: take_completed_def split: hosted_agent.split prod.split)
  show ?thesis
    using streamed taken [of "show_streamed a"]
    by (auto simp: poll_agent_def guide_place_run_finished split: prod.split option.split)
qed

lemma guide_after_request: "start_guide_request T prompt kind a = (r, b) \<Longrightarrow> app_guide b = app_guide a"
  by (auto simp: start_guide_request_def Let_def app_emit_def say_def split: if_splits prod.splits sum.splits)

text \<open>An observation moves the guide on only as the success of what the current step expects.\<close>

lemma guide_apply_moves:
  assumes "guide_apply x g = (d, g')"
  shows "gu_index g' = gu_index g \<or>
    (\<exists>c s. guide_current g = Some c \<and> go_result x = Success s \<and> event_matches (cu_expected c) (go_action x) \<and>
       gu_index g' = gu_index g + 1)"
  using assms by (auto simp: guide_apply_def Let_def split: option.splits observation_result.splits if_splits)

lemma index_enqueue [simp]: "gu_index (guide_enqueue x g) = gu_index g"
  by (simp add: guide_enqueue_def Let_def)

text \<open>C26. The guide. What the assistant sends moves the guide neither on nor back, and adds nothing to what it
  has observed: the model cannot satisfy, skip or reorder a step. When observations are taken, the guide
  stays where it is or moves on by one step, and then the oldest observation is the success of the action
  that the step asks for.
\<close>
theorem guide_moves_by_observation:
  "gu_index (app_guide (poll_agent T a)) = gu_index (app_guide a) \<and>
   gu_pending (app_guide (poll_agent T a)) = gu_pending (app_guide a) \<and>
   (gu_index (app_guide (the (pump_guide T a))) = gu_index (app_guide a) \<or>
    (\<exists>x xs c s. gu_pending (app_guide a) = x # xs \<and> guide_current (app_guide a) = Some c \<and>
      go_result x = Success s \<and> event_matches (cu_expected c) (go_action x) \<and>
      gu_index (app_guide (the (pump_guide T a))) = gu_index (app_guide a) + 1))"
proof -
  obtain b where b: "pump_guide T a = Some b" using pump_guide_returns [of T a] by auto
  have "gu_index (app_guide b) = gu_index (app_guide a) \<or>
    (\<exists>x xs c s. gu_pending (app_guide a) = x # xs \<and> guide_current (app_guide a) = Some c \<and>
      go_result x = Success s \<and> event_matches (cu_expected c) (go_action x) \<and>
      gu_index (app_guide b) = gu_index (app_guide a) + 1)"
  proof (cases "gu_pending (app_guide a)")
    case Nil
    then show ?thesis using b by (auto simp: pump_guide_def guide_pop_def split: if_splits)
  next
    case (Cons x xs)
    define g where "g = (app_guide a)\<lparr>gu_pending := xs\<rparr>"
    obtain d g' where applied: "guide_apply x g = (d, g')" by fastforce
    let ?after = "\<lambda>prompt. case start_guide_request T prompt Guided_Observation (a\<lparr>app_guide := g'\<rparr>) of
      (Inr _, a) \<Rightarrow> a | (Inl e, a) \<Rightarrow> say e (a\<lparr>app_guide := guide_enqueue x (app_guide a)\<rparr>)"
    have "b = a \<or> (\<exists>prompt. b = ?after prompt)"
      using b Cons applied by (auto simp: pump_guide_def guide_pop_def g_def split: if_splits)
    moreover have "gu_index (app_guide (?after prompt)) = gu_index g'" for prompt
      using guide_after_request [of T prompt Guided_Observation "a\<lparr>app_guide := g'\<rparr>"]
      by (simp add: say_def split: prod.split sum.split)
    ultimately have "gu_index (app_guide b) \<in> {gu_index (app_guide a), gu_index g'}" by auto
    then show ?thesis using guide_apply_moves [OF applied] Cons by (auto simp: g_def guide_current_def)
  qed
  then show ?thesis using guide_place_poll [of T a] b by (simp add: guide_place_def)
qed

text \<open>
  A request that cannot be started leaves its observation in the queue, although it has been applied: it
  counts again for the next step, so one \<open>:help\<close> can satisfy both of the last two.
\<close>

lemma applied_observation_stays:
  assumes "\<not> capture_ready (app_capture a)" "gu_active (app_guide a)" "\<not> agent_busy (app_agent a)"
    and "gu_pending (app_guide a) = [x]" "guide_current (app_guide a) = Some c"
    and "go_result x = Success s" "event_matches (cu_expected c) (go_action x)"
    and "gu_index (app_guide a) + 1 < length CURRICULUM"
  shows "\<exists>b. pump_guide T a = Some b \<and> gu_index (app_guide b) = gu_index (app_guide a) + 1 \<and>
    gu_pending (app_guide b) = [x]"
  using assms
  by (simp add: pump_guide_def guide_pop_def guide_apply_def guide_current_def Let_def observation_prompt_def
      start_guide_request_def say_def guide_enqueue_def OBSERVATION_LIMIT_def split: if_splits)

text \<open>
  A job that is refused because another one runs still sets the tag of that one: a refresh during a
  publication makes its result count as the refresh, and takes the kind of the operation away.
\<close>

lemma refused_job_takes_the_tag:
  "app_pending a = Some q \<Longrightarrow> app_pending (refresh_peers a) = Some (q\<lparr>pj_action := Some Refresh_Completed\<rparr>)"
  by (simp add: refresh_peers_def no_cursor_def Let_def start_job_def say_def tag_pending_def)

text \<open>A publication that failed before it committed is recorded as one whose outcome is not known.\<close>

lemma failed_operation_is_captured_unknown:
  "captured_outcome (ser_operation_result
     \<lparr>or_operation_id = i, or_state = FailedBeforeCommit, or_result = None, or_error_kind = None, or_message = None\<rparr>) = ''unknown''"
  by (simp add: captured_outcome_def Let_def or_unknown_def text_at_def ser_operation_result_def KNOWN_OUTCOMES_def
      json_object_def json_get_def json_str_def skip_none_def)

end
