(* ===== verification/Capture_Proofs.thy ===== *)
theory Capture_Proofs
  imports Capture Example_World
begin

text \<open>
  A recorded session as a whole: events are emitted on one side of the channel and submitted on the other,
  in any order. What has been acknowledged, is in the hand of the worker and is in the channel is every
  event so far, unless the recording says that something was lost.
\<close>

section \<open>Runs\<close>

text \<open>The last argument holds the events that were acknowledged.\<close>

inductive capture_run ::
  "ext \<Rightarrow> (nat \<Rightarrow> string option) \<Rightarrow> (nat \<Rightarrow> string) \<Rightarrow> capture_config \<Rightarrow> capture \<Rightarrow> json list \<Rightarrow> bool"
  for E random now cfg where
  started: "capture_start E random now cfg = Some c \<Longrightarrow> capture_run E random now cfg c []"
| emitted: "capture_run E random now cfg c done \<Longrightarrow>
    capture_run E random now cfg (capture_emit E kind tool decision operation outcome c) done"
| begun: "capture_run E random now cfg c done \<Longrightarrow> capture_run E random now cfg (snd (begin_request E c)) done"
| dispatched: "capture_run E random now cfg c done \<Longrightarrow> capture_run E random now cfg (provider_request E i c) done"
| taken: "capture_run E random now cfg c done \<Longrightarrow> capture_run E random now cfg (worker_takes c) done"
| refused: "capture_run E random now cfg c done \<Longrightarrow> capture_run E random now cfg (worker_submitted (Inl ()) c) done"
| acknowledged: "capture_run E random now cfg c done \<Longrightarrow> cap_hand c = Some e \<Longrightarrow>
    capture_run E random now cfg (worker_submitted (Inr gap) c) (done @ [e])"

definition in_hand :: "capture \<Rightarrow> json list" where
  "in_hand c = (case cap_hand c of None \<Rightarrow> [] | Some e \<Rightarrow> [e])"

definition numbered :: "json \<Rightarrow> nat option" where
  "numbered e = (case json_get ''sequence'' e of Some (JInt n) \<Rightarrow> Some (nat n) | _ \<Rightarrow> None)"

text \<open>Everything that was emitted is somewhere, once, and in order.\<close>

definition accounted :: "capture \<Rightarrow> json list \<Rightarrow> bool" where
  "accounted c acked \<longleftrightarrow>
     length (cap_queue c) \<le> CHANNEL_CAPACITY \<and>
     cap_pending c = length (in_hand c) + length (cap_queue c) \<and>
     (cap_lost c \<or> map numbered (acked @ in_hand c @ cap_queue c) = map Some [1..<Suc (cap_sequence c)])"

lemma numbered_event [simp]: "numbered (capture_event E cfg c kind tool decision operation outcome) = Some (cap_sequence c)"
  by (simp add: numbered_def capture_event_def Let_def json_object_def json_get_def)

lemma accounted_emit: "accounted c acked \<Longrightarrow> accounted (capture_emit E kind tool decision operation outcome c) acked"
  by (auto simp: accounted_def capture_emit_def in_hand_def Let_def split: option.split)

lemma accounted_request [simp]: "accounted (c\<lparr>cap_request := i\<rparr>) acked = accounted c acked"
  by (simp add: accounted_def in_hand_def)

lemma accounted_begin: "accounted c acked \<Longrightarrow> accounted (snd (begin_request E c)) acked"
  by (auto simp: accounted_def begin_request_def random_id_def in_hand_def split: option.splits prod.splits if_splits)

lemma accounted_dispatch: "accounted c acked \<Longrightarrow> accounted (provider_request E i c) acked"
  by (simp add: provider_request_def accounted_emit)

lemma accounted_take: "accounted c acked \<Longrightarrow> accounted (worker_takes c) acked"
  by (auto simp: accounted_def worker_takes_def in_hand_def split: option.split list.split)

lemma accounted_refusal: "accounted c acked \<Longrightarrow> accounted (worker_submitted (Inl ()) c) acked"
  by (auto simp: accounted_def worker_submitted_def in_hand_def split: option.split)

lemma accounted_ack:
  "accounted c acked \<Longrightarrow> cap_hand c = Some e \<Longrightarrow> accounted (worker_submitted (Inr gap) c) (acked @ [e])"
  by (auto simp: accounted_def worker_submitted_def in_hand_def)

lemma accounted_start: "capture_start E random now cfg = Some c \<Longrightarrow> accounted c []"
  by (auto simp: capture_start_def capture_disabled_def capture_emit_def accounted_def in_hand_def CHANNEL_CAPACITY_def Let_def
      split: if_splits option.splits)

lemma run_accounted: "capture_run E random now cfg c acked \<Longrightarrow> accounted c acked"
  by (induction rule: capture_run.induct)
     (simp_all add: accounted_start accounted_emit accounted_begin accounted_dispatch accounted_take accounted_refusal accounted_ack)

text \<open>C12. No silent gap. However emitting and submitting interleave, as long as the recording does not say that
  something was lost, the events that were acknowledged, the one being submitted and those in the channel are
  numbered one by one from the first to the last that was emitted; the channel holds at most 32, and when
  nothing is pending every event has been acknowledged, in order.
\<close>
theorem no_silent_gap:
  assumes "capture_run E random now cfg c acked" "\<not> cap_lost c"
  shows "map numbered (acked @ in_hand c @ cap_queue c) = map Some [1..<Suc (cap_sequence c)] \<and>
    length (cap_queue c) \<le> CHANNEL_CAPACITY \<and>
    (cap_pending c = 0) = (map numbered acked = map Some [1..<Suc (cap_sequence c)])"
proof -
  have all: "map numbered (acked @ in_hand c @ cap_queue c) = map Some [1..<Suc (cap_sequence c)]"
    and count: "cap_pending c = length (in_hand c) + length (cap_queue c)" "length (cap_queue c) \<le> CHANNEL_CAPACITY"
    using run_accounted [OF assms(1)] assms(2) by (simp_all add: accounted_def)
  have "length acked + (length (in_hand c) + length (cap_queue c)) = cap_sequence c"
    using arg_cong [OF all, of length] by simp
  then have "(cap_pending c = 0) = (map numbered acked = map Some [1..<Suc (cap_sequence c)])"
    using all count(1) by (auto dest: arg_cong [where f = length])
  then show ?thesis using all count(2) by blast
qed

text \<open>A session that starts, and whose first event is taken and acknowledged.\<close>

definition demo_capture_config :: capture_config where
  "demo_capture_config =
     (let i = replicate 8 CHR ''0'' @ ''-'' @ replicate 4 CHR ''0'' @ ''-'' @ replicate 4 CHR ''0'' @ ''-'' @
              replicate 4 CHR ''0'' @ ''-'' @ replicate 12 CHR ''0'';
          h = replicate 64 CHR ''a'' in
      \<lparr>cc_socket = ''/s'', cc_capability_file = ''/c'', cc_deployment_id = i, cc_workspace_id = i, cc_generation = 1,
       cc_participant_id = i, cc_software_sha256 = h, cc_profile_sha256 = h, cc_dataset_sha256 = h, cc_synthetic = True\<rparr>)"

definition demo_started :: "capture option" where
  "demo_started = capture_start demo_ext (\<lambda>_. Some ''random'') (\<lambda>_. ''now'') demo_capture_config"

definition demo_acked :: capture where
  "demo_acked = worker_submitted (Inr False) (worker_takes (the demo_started))"

lemma no_silent_gap_witness:
  "\<exists>acked. map numbered (acked @ in_hand demo_acked @ cap_queue demo_acked) = map Some [1..<Suc (cap_sequence demo_acked)] \<and>
    length (cap_queue demo_acked) \<le> CHANNEL_CAPACITY \<and>
    (cap_pending demo_acked = 0) = (map numbered acked = map Some [1..<Suc (cap_sequence demo_acked)])"
proof -
  have "demo_started \<noteq> None" by code_simp
  then obtain c where c: "demo_started = Some c" by blast
  have "cap_hand (worker_takes (the demo_started)) \<noteq> None" "\<not> cap_lost demo_acked" by code_simp+
  then obtain e where e: "cap_hand (worker_takes c) = Some e" "\<not> cap_lost demo_acked" by (auto simp: c)
  have "capture_run demo_ext (\<lambda>_. Some ''random'') (\<lambda>_. ''now'') demo_capture_config demo_acked ([] @ [e])"
    unfolding demo_acked_def c option.sel
    using capture_run.acknowledged [OF capture_run.taken [OF capture_run.started [OF c [unfolded demo_started_def]]] e(1)] .
  from no_silent_gap [OF this e(2)] show ?thesis by (rule exI)
qed

end
