(* ===== verification/Controls_Proofs.thy ===== *)
theory Controls_Proofs
  imports Controls
begin

text \<open>
  The words of a command: what is quoted for a shell is one word again, whatever it holds.
\<close>

section \<open>Whole characters\<close>

text \<open>A string of valid UTF-8 is cut into whole characters, and no longer one has an ASCII byte in it.\<close>

definition whole :: "string \<Rightarrow> bool" where
  "whole c \<longleftrightarrow> c \<noteq> [] \<and> length c = char_width (hd c) \<and> (c = APOSTROPHE \<or> CHR 0x27 \<notin> set c)"

definition well_cut :: "string \<Rightarrow> bool" where
  "well_cut s \<longleftrightarrow> list_all whole (chars s)"

lemma chars_whole:
  assumes "whole c"
  shows "chars (c @ s) = c # chars s"
proof -
  obtain a t where c: "c = a # t" using assms by (cases c) (auto simp: whole_def)
  then have "char_width a - 1 = length t" using assms by (auto simp: whole_def)
  then show ?thesis by (simp add: c)
qed

lemma chars_concat: "list_all whole cs \<Longrightarrow> chars (concat cs @ s) = cs @ chars s"
  by (induction cs) (simp_all add: chars_whole)

lemma whole_single [simp]: "whole APOSTROPHE" "whole BACKSLASH" "whole '' ''"
  by (simp_all add: whole_def APOSTROPHE_def BACKSLASH_def char_width_def)

lemma replace_free: "CHR 0x27 \<notin> set c \<Longrightarrow> replace_str APOSTROPHE r (c @ s) = c @ replace_str APOSTROPHE r s"
  by (induction c) (simp_all add: APOSTROPHE_def starts_with_def)

lemma replace_mark: "replace_str APOSTROPHE r (APOSTROPHE @ s) = r @ replace_str APOSTROPHE r s"
  by (simp add: APOSTROPHE_def starts_with_def)

lemma replace_whole:
  "list_all whole cs \<Longrightarrow>
   replace_str APOSTROPHE r (concat cs) = concat (map (\<lambda>c. if c = APOSTROPHE then r else c) cs)"
proof (induction cs)
  case (Cons c cs)
  then show ?case
    using replace_free [of c r "concat cs"]
    by (cases "c = APOSTROPHE") (simp_all add: whole_def replace_mark)
qed simp

definition escaped :: "string \<Rightarrow> string list" where
  "escaped c = (if c = APOSTROPHE then [APOSTROPHE, BACKSLASH, APOSTROPHE, APOSTROPHE] else [c])"

definition quoted_chars :: "string \<Rightarrow> string list" where
  "quoted_chars s = APOSTROPHE # concat (map escaped (chars s)) @ [APOSTROPHE]"

lemma quoted_concat: "well_cut s \<Longrightarrow> shell_quote s = concat (quoted_chars s)"
proof -
  assume "well_cut s"
  then have "replace_str APOSTROPHE (APOSTROPHE @ BACKSLASH @ APOSTROPHE @ APOSTROPHE) s =
      concat (map (\<lambda>c. if c = APOSTROPHE then APOSTROPHE @ BACKSLASH @ APOSTROPHE @ APOSTROPHE else c) (chars s))"
    using replace_whole [of "chars s"] by (simp add: well_cut_def)
  also have "\<dots> = concat (concat (map escaped cs))" if "cs = chars s" for cs
    unfolding that [symmetric] by (induction cs) (simp_all add: escaped_def)
  finally show ?thesis by (simp add: shell_quote_def quote_def quoted_chars_def APOSTROPHE_def)
qed

lemma quoted_whole: "well_cut s \<Longrightarrow> list_all whole (quoted_chars s)"
  by (auto simp: well_cut_def quoted_chars_def list_all_iff escaped_def)

section \<open>The lexer\<close>

lemma marks [simp]:
  "APOSTROPHE \<noteq> BACKSLASH" "BACKSLASH \<noteq> APOSTROPHE" "char_is_whitespace '' ''" "'' '' \<noteq> APOSTROPHE" "'' '' \<noteq> QUOTATION"
  "'' '' \<noteq> BACKSLASH"
  by (simp_all add: APOSTROPHE_def BACKSLASH_def QUOTATION_def char_is_whitespace_def ws_ascii_def)

lemma lex_open: "lx_quote l = None \<Longrightarrow> \<not> lx_escape l \<Longrightarrow>
    lex_char APOSTROPHE l = l\<lparr>lx_quote := Some APOSTROPHE, lx_started := True\<rparr>"
  by (simp add: lex_char_def)

lemma lex_close: "lx_quote l = Some APOSTROPHE \<Longrightarrow> \<not> lx_escape l \<Longrightarrow>
    lex_char APOSTROPHE l = l\<lparr>lx_quote := None, lx_started := True\<rparr>"
  by (simp add: lex_char_def)

lemma lex_plain: "lx_quote l = Some APOSTROPHE \<Longrightarrow> \<not> lx_escape l \<Longrightarrow> c \<noteq> APOSTROPHE \<Longrightarrow>
    lex_char c l = l\<lparr>lx_word := lx_word l @ c, lx_started := True\<rparr>"
  by (simp add: lex_char_def)

lemma lex_backslash: "lx_quote l = None \<Longrightarrow> \<not> lx_escape l \<Longrightarrow>
    lex_char BACKSLASH l = l\<lparr>lx_escape := True, lx_started := True\<rparr>"
  by (simp add: lex_char_def)

lemma lex_escaped: "lx_escape l \<Longrightarrow>
    lex_char c l = l\<lparr>lx_word := lx_word l @ c, lx_escape := False, lx_started := True\<rparr>"
  by (simp add: lex_char_def)

lemma lex_space: "lx_quote l = None \<Longrightarrow> \<not> lx_escape l \<Longrightarrow> lx_started l \<Longrightarrow>
    lex_char '' '' l = l\<lparr>lx_words := lx_words l @ [lx_word l], lx_word := [], lx_started := False\<rparr>"
  by (simp add: lex_char_def)

lemmas lex_steps = lex_open lex_close lex_plain lex_backslash lex_escaped lex_space

lemma lex_inside:
  "lx_quote l = Some APOSTROPHE \<Longrightarrow> \<not> lx_escape l \<Longrightarrow> lx_started l \<Longrightarrow>
   fold lex_char (concat (map escaped cs)) l = l\<lparr>lx_word := lx_word l @ concat cs\<rparr>"
proof (induction cs arbitrary: l)
  case (Cons c cs)
  have "fold lex_char (escaped c) l = l\<lparr>lx_word := lx_word l @ c\<rparr>"
    using Cons.prems by (cases l) (auto simp: escaped_def lex_steps)
  then show ?case using Cons.IH [of "l\<lparr>lx_word := lx_word l @ c\<rparr>"] Cons.prems by simp
qed simp

lemma lex_quoted:
  assumes "lx_quote l = None" "\<not> lx_escape l"
  shows "fold lex_char (quoted_chars s) l = l\<lparr>lx_word := lx_word l @ s, lx_started := True\<rparr>"
  using assms by (cases l) (simp add: quoted_chars_def lex_steps lex_inside)

lemma chars_joined:
  "\<forall>w \<in> set (v # ws). well_cut w \<Longrightarrow>
   chars (join_with '' '' (map shell_quote (v # ws))) = quoted_chars v @ concat (map (\<lambda>w. '' '' # quoted_chars w) ws)"
proof (induction ws arbitrary: v)
  case Nil
  then show ?case using chars_concat [of "quoted_chars v" "[]"] by (simp add: quoted_whole quoted_concat)
next
  case (Cons w ws)
  have "chars (join_with '' '' (map shell_quote (v # w # ws))) =
      chars (concat (quoted_chars v @ ['' '']) @ join_with '' '' (map shell_quote (w # ws)))"
    using Cons.prems by (simp add: quoted_concat)
  also have "\<dots> = quoted_chars v @ ['' ''] @ chars (join_with '' '' (map shell_quote (w # ws)))"
    using Cons.prems by (subst chars_concat) (simp_all add: quoted_whole)
  finally show ?case using Cons.IH [of w] Cons.prems by simp
qed

lemma lex_words:
  "lx_quote l = None \<Longrightarrow> \<not> lx_escape l \<Longrightarrow> lx_started l \<Longrightarrow>
   lexer_end (fold lex_char (concat (map (\<lambda>w. '' '' # quoted_chars w) ws)) l) = Inr (lx_words l @ lx_word l # ws)"
proof (induction ws arbitrary: l)
  case Nil
  then show ?case by (simp add: lexer_end_def)
next
  case (Cons w ws)
  then show ?case by (simp add: lex_space lex_quoted)
qed

text \<open>Quoting. Words quoted as the examples quote them, with a space between, are read back as exactly those
  words by the command line: blanks, quotes, backslashes and empty words included, for any words that are
  valid text.
\<close>
theorem quoted_words_split:
  assumes "\<forall>w \<in> set ws. well_cut w"
  shows "split_command (join_with '' '' (map shell_quote ws)) = Inr ws"
proof (cases ws)
  case Nil
  then show ?thesis by (simp add: split_command_def lexer_start_def lexer_end_def)
next
  case (Cons v vs)
  have "chars (join_with '' '' (map shell_quote ws)) = quoted_chars v @ concat (map (\<lambda>w. '' '' # quoted_chars w) vs)"
    using chars_joined [of v vs] assms Cons by blast
  then show ?thesis
    using Cons by (simp add: split_command_def lexer_start_def lex_quoted lex_words)
qed

lemma quoted_words_split_witness:
  "split_command (join_with '' '' (map shell_quote [''a b'', [], [CHR 0x27, CHR 0x5C, CHR 0x22], [CHR 0xC3, CHR 0xA9]])) =
   Inr [''a b'', [], [CHR 0x27, CHR 0x5C, CHR 0x22], [CHR 0xC3, CHR 0xA9]]"
  by (rule quoted_words_split) (simp add: well_cut_def whole_def char_width_def APOSTROPHE_def)

end
