(* ===== verification/Transcript_Proofs.thy ===== *)
theory Transcript_Proofs
  imports Transcript
begin

text \<open>
  The transcript of the assistant stays within its limit as long as only its last entry is open.
\<close>

section \<open>The limit\<close>

lemma rendered_entry_len: "length (rendered_entry x) + 2 = entry_len x"
  by (simp add: rendered_entry_def entry_len_def BLANK_LINE_def split: option.split)

lemma joined_len: "length (join_with BLANK_LINE (map rendered_entry es)) \<le> sum_list (map entry_len es)"
proof (induction es rule: induct_list012)
  case (3 x y es)
  then show ?case using rendered_entry_len [of x] by (simp add: BLANK_LINE_def)
qed (simp_all flip: rendered_entry_len)

lemma rendered_within: "length (rendered v) \<le> rendered_len v"
  using joined_len [of "av_entries v"] by (simp add: rendered_def rendered_len_def entries_len_def BLANK_LINE_def)

lemma evict_within:
  assumes "evict evicted es = (evicted', es')" "es \<noteq> []" "list_all te_complete (butlast es)"
  shows "es' \<noteq> [] \<and> list_all te_complete (butlast es') \<and> last es' = last es \<and>
    (entries_len evicted' es' \<le> ASSISTANT_TRANSCRIPT_LIMIT \<or> length es' = 1)"
  using assms by (induction evicted es rule: evict.induct) (auto split: if_splits)

lemma enforced_within:
  assumes "av_entries v \<noteq> []" "list_all te_complete (butlast (av_entries v))"
  shows "list_all te_complete (butlast (av_entries (enforce_limit v))) \<and>
    last (av_entries (enforce_limit v)) = last (av_entries v) \<and> av_entries (enforce_limit v) \<noteq> [] \<and>
    (length (rendered (enforce_limit v)) \<le> ASSISTANT_TRANSCRIPT_LIMIT \<or> length (av_entries (enforce_limit v)) = 1)"
proof (cases "evict (av_evicted v) (av_entries v)")
  case (Pair e es)
  with evict_within [OF Pair assms] show ?thesis
    using rendered_within [of "enforce_limit v"] by (auto simp: enforce_limit_def rendered_len_def)
qed

lemma all_complete: "es \<noteq> [] \<Longrightarrow> list_all te_complete (butlast es) \<Longrightarrow> te_complete (last es) \<Longrightarrow> list_all te_complete es"
  by (induction es) (auto split: if_splits)

lemma finish_within:
  assumes "list_all te_complete (butlast (av_entries v))"
  shows "list_all te_complete (av_entries (view_finish s visible v)) \<and>
    (length (rendered (view_finish s visible v)) \<le> ASSISTANT_TRANSCRIPT_LIMIT \<or>
     length (av_entries (view_finish s visible v)) = 1)"
proof -
  define es where "es = (case open_entry v of
      Some (es, x) \<Rightarrow> es @ [x\<lparr>te_response := sanitize_terminal_text s, te_complete := True\<rparr>]
    | None \<Rightarrow> av_entries v @ [\<lparr>te_user = None, te_response = sanitize_terminal_text s, te_complete = True\<rparr>])"
  have es: "es \<noteq> []" "list_all te_complete (butlast es)" "te_complete (last es)"
    using assms all_complete [of "av_entries v"]
    by (cases "av_entries v = []"; auto simp: es_def open_entry_def split: if_splits)+
  have finished: "view_finish s visible v =
      enforce_limit (v\<lparr>av_export_text := None, av_entries := es, av_unread := \<not> visible\<rparr>)"
    by (simp add: view_finish_def es_def)
  show ?thesis
    using enforced_within [of "v\<lparr>av_export_text := None, av_entries := es, av_unread := \<not> visible\<rparr>"] es
      all_complete [of "av_entries (view_finish s visible v)"] by (simp add: finished)
qed



section \<open>An entry that is never closed\<close>

text \<open>
  \<open>:usage\<close> is allowed while a request runs. It adds an entry after the open one, which is then never
  closed; and an open entry at the front stops every eviction.
\<close>

lemma open_front_stops_eviction:
  "av_entries v = x # es \<Longrightarrow> \<not> te_complete x \<Longrightarrow> enforce_limit v = v"
  by (cases es) (simp_all add: enforce_limit_def)

lemma local_entry_strands_request:
  assumes "open_entry v = Some (es, x)" "es = []"
  shows "av_entries (view_finish s visible (view_push_local label t visible' v)) =
    [x, \<lparr>te_user = None, te_response = sanitize_terminal_text (label @ '':'' @ [CHR 10] @ t), te_complete = True\<rparr>,
     \<lparr>te_user = None, te_response = sanitize_terminal_text s, te_complete = True\<rparr>]"
proof -
  have v: "av_entries v = [x]" "\<not> te_complete x"
    using assms by (auto simp: open_entry_def split: if_splits) (metis append_Nil append_butlast_last_id)
  then show ?thesis
    by (simp add: view_push_local_def view_finish_def open_entry_def open_front_stops_eviction [of _ x])
qed

end
