(* ===== verification/Spec2Isabelle.thy ===== *)
theory Spec2Isabelle
  imports
    Publish_Faults Withdraw_Proofs Resolve_Proofs Catalog_Proofs Operations_Proofs Journal_Proofs
    Registry_Consume Agent_Config_Proofs Harness_Session
    Router_Proofs Stac_Http_Proofs Terminal_Safety Capture_Proofs Controls_Proofs Transcript_Proofs
begin

text \<open>
  A model of Feather Mesh, the data mesh of \<open>src/feather-mesh\<close>, and the theorems that make it correct.

  \<^bold>\<open>The program.\<close> Projects share data products through plain files. A provider publishes and
  withdraws versions in a manifest beside its data; a consumer reads the manifests of its configured
  peers (refresh, listing, catalog), resolves a reference to files, and stages copies with a receipt.
  Interactive callers prepare an operation, review it, execute it, and record it in a private
  journal, so that an operation whose outcome is not known can be reconciled. An older local registry
  keeps products, versions and lineage in SQLite.

  \<^bold>\<open>Foundations.\<close>
  \<^item> \<open>Prelude\<close>: \<open>Result\<close> as a sum, effects as functions on a world with triples (\<open>hoare\<close>) and
    invariants (\<open>keeps\<close>), ordered maps, \<open>f64\<close>, and the locales \<open>codec\<close> and \<open>exact_codec\<close> of every
    encoder and decoder of the program; \<open>Float64\<close> has the arithmetic of \<open>f64\<close>.
  \<^item> \<open>Rust_Text\<close>, \<open>Rust_Path\<close>, \<open>Rust_Fs\<close>: the parts of the standard library the code uses, over a
    file system of named nodes and inodes. Every system call may fail, at any time and with any
    error; a write may fail half way. \<open>Fs_Facts\<close> and \<open>Fs_Rules\<close> hold the facts and triples of the
    calls, \<open>Json\<close> and \<open>Json_Codec\<close> serde's derive and a parser and printer for witnesses,
    \<open>Json_Value\<close> the methods of \<open>serde_json::Value\<close>, \<open>Agent_Text\<close> the characters of a string.
  \<^item> \<open>Sql\<close>: SQL statements over one connection, with faults, transactions and a durable state.
  \<^item> \<open>Ext\<close>: what the program calls and this repository does not hold (SHA-256, the JSON and TOML text
    formats, Parquet and TIFF readers, chrono, the parsers of URLs and numbers) as one record of parameters. A lemma that relies on
    one of them says so in a hypothesis. \<open>Example_World\<close> is a small concrete world for witnesses.

  \<^bold>\<open>Peer access\<close> (\<open>mesh_core/src/services/peer_access.rs\<close>).
  \<^item> \<open>Peer_Types\<close>, \<open>Peer_Json\<close>: the types of the protocol and their JSON; every \<open>ser_x\<close>/\<open>de_x\<close> pair
    is proved to read back what it writes.
  \<^item> \<open>Peer_Validate\<close>, \<open>Peer_Files\<close>: validators; bounded reads, atomic writes, the manifest lock,
    projects, routes and the confinement of asset paths.
  \<^item> \<open>Manifest\<close>, \<open>Publish\<close>: insertion and withdrawal in a manifest, refined to the partial function
    \<open>history_of\<close>, and the handlers \<open>publish_reviewed\<close> and \<open>withdraw_with_precondition\<close>.
    \<open>Lock_Scope\<close> states once, as the locale \<open>locked_operation\<close>, what an operation under the lock
    keeps; \<open>Publish_Facts\<close>, \<open>Publish_Proofs\<close> and \<open>Withdraw_Proofs\<close> hold the theorems, and
    \<open>Publish_Faults\<close> two runs in which one failing call does harm.
  \<^item> \<open>Resolve\<close>, \<open>Resolve_Proofs\<close>, \<open>Stage\<close>: refresh, listing, resolution and staging.

  \<^bold>\<open>Catalog\<close> (\<open>catalog_service.rs\<close>): \<open>Catalog\<close> has queries, pages and cursors; \<open>Catalog_Proofs\<close> that
  paging equals the whole listing.

  \<^bold>\<open>Operations and journal\<close> (\<open>interactive_operations.rs\<close>, \<open>operation_journal.rs\<close>): \<open>Operations\<close> and
  \<open>Journal\<close>, with what a reported state means and that no operation is lost in the \<open>_Proofs\<close>.

  \<^bold>\<open>Registry\<close> (\<open>domain.rs\<close>, \<open>db.rs\<close>, \<open>models\<close>, \<open>repositories\<close>, \<open>registry_service.rs\<close>): \<open>Domain\<close>,
  \<open>Repositories\<close>, \<open>Registry\<close>. The locale \<open>repository\<close> of \<open>Registry_Invariant\<close> is the contract of a
  table, interpreted for all five; \<open>Registry_Proofs\<close> has the invariant and the atomicity of \<open>serve\<close>,
  \<open>Registry_Roundtrip\<close> that what was served is what is shown, \<open>Registry_Consume\<close> what \<open>consume\<close> does
  to its destination.

  \<^bold>\<open>STAC view\<close> (\<open>stac.rs\<close>, \<open>stac_http.rs\<close>): \<open>Stac\<close> builds items and collections from what resolves
  now, \<open>Stac_Http\<close> is the loopback server over them, from the bytes a socket reads to the bytes it
  answers. \<open>Stac_Proofs\<close> has the type of the items and the round trip of file URIs,
  \<open>Stac_Http_Proofs\<close> that nothing is written and that following the links of a search is the search.

  \<^bold>\<open>Assistant\<close> (\<open>mesh_agent/src\<close>). A turn of \<open>Harness\<close> sends bounded requests through \<open>Disclosure\<close>,
  the one boundary where text is redacted, to a provider, and runs the calls it proposes in \<open>Tools\<close>.
  \<^item> \<open>Agent_Config\<close>: profiles and the configuration file; validation is what bounds a session.
  \<^item> \<open>Provider\<close>: messages, events, errors and the trait of a provider as a record of methods;
    \<open>Sse\<close> the parser of event streams, equal to a machine that reads single bytes; \<open>Router\<close> the hosted
    provider, from the body of a request to the calls that are handed on.
  \<^item> \<open>Tools\<close>, \<open>Tool_Schemas\<close>: the executor, whose mutations only open a review, and its invariant.
  \<^item> \<open>Harness\<close>: one turn with its limits, costs, reviews and cancellation. \<open>Harness_Rules\<close> has the
    locale \<open>turn_rule\<close>, which lifts single steps to a whole turn; every property of turns in
    \<open>Harness_Proofs\<close> and \<open>Harness_Session\<close> is an interpretation of it.

  \<^bold>\<open>Terminal interface\<close> (\<open>mesh_tui/src\<close>). An application with one core job and one assistant request at
  a time, driven by keys and by what the two report.
  \<^item> \<open>Guide\<close> (\<open>guide.rs\<close>): the curriculum and the state of a guided tour; \<open>Controls\<close> (\<open>controls.rs\<close>): the
    words of a command, drafts, examples and the reviewed save; \<open>Capture\<close> (\<open>capture.rs\<close>): the recording of
    a session, its channel and its worker; \<open>Transcript\<close>: what the Assistant menu keeps.
  \<^item> \<open>Terminal_Jobs\<close>: reviews, and each closure of \<open>lib.rs\<close> that runs on the worker thread as a \<open>job\<close> with
    what \<open>run_job\<close> does and sends back. \<open>Terminal\<close>, \<open>Terminal_Input\<close>, \<open>Terminal_Keys\<close>,
    \<open>Terminal_Commands\<close>: the state \<open>app\<close>, results of jobs and of the assistant, every key and command.
    \<open>Terminal_Loop\<close>: one round of the main loop. The threads are data: the job that was started, and
    the messages that arrived; \<open>None\<close> in place of an application is a panic.
  \<^item> \<open>Terminal_Proofs\<close> follows what may start a job that writes through every handler, \<open>Terminal_Safety\<close>
    concludes it for a round, with what ends the loop and what moves the guide, \<open>Terminal_Work\<close> shows
    what the jobs do to the disk; \<open>Capture_Proofs\<close>, \<open>Controls_Proofs\<close> and \<open>Transcript_Proofs\<close> that
    nothing is lost silently, that quoted words are read back, and that the transcript is bounded.

  \<^bold>\<open>Bounds and fuel.\<close> \<open>walk\<close> follows at most 40 links, as Linux does. \<open>visit\<close> (the path snapshot of a
  review) gets one level more than its row limit of 10000, which is shown to be
  never what ends it. \<open>copy_dir\<close> gets 2048 levels: each level makes a path two bytes longer and no
  path has more than 4096. The loop that waits for the manifest lock ends because time passes.

  \<^bold>\<open>Not modelled.\<close> Of the terminal interface: what is drawn, the terminal itself, signals, and the
  choice of the journal directory. The command line: argument parsing and printing over the modelled
  services. The evaluation example of the assistant. The migration of old registry databases. Everything that is
  not Rust: the Python package, infrastructure and the web demo. Libraries are parameters and never
  defined: hashes, text formats, readers of data files, URLs, TLS, HTTP and the runtime under the
  hosted router.
\<close>

end
